(* ===== verification/Dux_Prelude.thy ===== *)
theory Dux_Prelude
  imports Main "HOL-Library.Word"
begin

text \<open>
  What the component theories share: the outcome type of a C++ member function
  (a value and a state, a thrown exception, a loop that never ends, a null
  dereference), the combinators that sequence such functions, the iteration of a
  \<open>while\<close> loop that may not end, and the few \<open>std::string\<close> operations the front
  end uses. The frame calculus at the end of the first half is what every later
  proof about the checker rests on.
\<close>

named_theorems frame_intros \<open>frame rules of the sequencing combinators\<close>
named_theorems sound_intros \<open>total-correctness rules of the sequencing combinators\<close>

section \<open>Outcomes of stateful operations\<close>

text \<open>
  \<open>Thrown\<close> is the exception \<open>DiagnosticAbort\<close>, the only one the front end throws;
  the state in it is the state at the throw (no handler restores anything).
  \<open>Looping\<close> is a call that never returns, \<open>NullDeref\<close> a call that dereferences a
  null \<open>unique_ptr\<close>.
\<close>

datatype ('s, 'a) outcome =
    Returned 'a 's
  | Thrown 's
  | Looping
  | NullDeref

type_synonym ('s, 'a) prog = "'s \<Rightarrow> ('s, 'a) outcome"

definition ret :: "'a \<Rightarrow> ('s, 'a) prog" where
  "ret a = (\<lambda>s. Returned a s)"

definition bind_s :: "('s, 'a) prog \<Rightarrow> ('a \<Rightarrow> ('s, 'b) prog) \<Rightarrow> ('s, 'b) prog" where
  "bind_s m f = (\<lambda>s. case m s of
       Returned a s' \<Rightarrow> f a s'
     | Thrown s' \<Rightarrow> Thrown s'
     | Looping \<Rightarrow> Looping
     | NullDeref \<Rightarrow> NullDeref)"

definition then_s :: "('s, 'a) prog \<Rightarrow> ('s, 'b) prog \<Rightarrow> ('s, 'b) prog" where
  "then_s m k = bind_s m (\<lambda>_. k)"

definition gets :: "('s \<Rightarrow> 'a) \<Rightarrow> ('s, 'a) prog" where
  "gets f = (\<lambda>s. Returned (f s) s)"

definition modify :: "('s \<Rightarrow> 's) \<Rightarrow> ('s, unit) prog" where
  "modify f = (\<lambda>s. Returned () (f s))"

definition null_deref :: "('s, 'a) prog" where
  "null_deref = (\<lambda>s. NullDeref)"

text \<open>A loop that may not return: \<open>None\<close> is \<open>Looping\<close>.\<close>

definition run_loop :: "('s \<Rightarrow> 'a option) \<Rightarrow> ('s, 'a) prog" where
  "run_loop f = (\<lambda>s. case f s of None \<Rightarrow> Looping | Some a \<Rightarrow> Returned a s)"

text \<open>A range-\<open>for\<close> over a vector, and the C++ idiom of an optional side effect.\<close>

primrec for_each :: "('x \<Rightarrow> ('s, unit) prog) \<Rightarrow> 'x list \<Rightarrow> ('s, unit) prog" where
  "for_each f [] = ret ()"
| "for_each f (x # xs) = then_s (f x) (for_each f xs)"

primrec map_s :: "('x \<Rightarrow> ('s, 'y) prog) \<Rightarrow> 'x list \<Rightarrow> ('s, 'y list) prog" where
  "map_s f [] = ret []"
| "map_s f (x # xs) = bind_s (f x) (\<lambda>y. bind_s (map_s f xs) (\<lambda>ys. ret (y # ys)))"

definition guarded :: "bool \<Rightarrow> ('s, unit) prog \<Rightarrow> ('s, unit) prog" where
  "guarded b m = (if b then m else ret ())"

text \<open>
  The idiom \<open>saved = field; field = v; body; field = saved\<close>. A throw inside the body
  leaves the field set.
\<close>

definition with_field ::
  "('s \<Rightarrow> 'v) \<Rightarrow> ('v \<Rightarrow> 's \<Rightarrow> 's) \<Rightarrow> 'v \<Rightarrow> ('s, 'a) prog \<Rightarrow> ('s, 'a) prog" where
  "with_field get put v m =
     bind_s (gets get) (\<lambda>saved.
     then_s (modify (put v)) (
     bind_s m (\<lambda>r.
     then_s (modify (put saved)) (ret r))))"

text \<open>An operation of a component on the field that holds it.\<close>

definition on_field ::
  "('s \<Rightarrow> 't) \<Rightarrow> ('t \<Rightarrow> 's \<Rightarrow> 's) \<Rightarrow> ('t, 'a) prog \<Rightarrow> ('s, 'a) prog" where
  "on_field get put m = (\<lambda>s. case m (get s) of
       Returned a t \<Rightarrow> Returned a (put t s)
     | Thrown t \<Rightarrow> Thrown (put t s)
     | Looping \<Rightarrow> Looping
     | NullDeref \<Rightarrow> NullDeref)"

lemmas prog_defs = ret_def bind_s_def then_s_def gets_def modify_def null_deref_def
  run_loop_def guarded_def with_field_def on_field_def

lemma bind_ret [simp]: "bind_s (ret a) f = f a"
  by (simp add: ret_def bind_s_def)

lemma bind_gets [simp]: "bind_s (gets g) f s = f (g s) s"
  by (simp add: bind_s_def gets_def)

lemma bind_modify [simp]: "bind_s (modify g) f s = f () (g s)"
  by (simp add: bind_s_def modify_def)

lemma then_modify [simp]: "then_s (modify g) k s = k (g s)"
  by (simp add: then_s_def)

lemma then_ret [simp]: "then_s (ret a) k = k"
  by (simp add: then_s_def)

lemma ret_apply: "ret a s = Returned a s"
  by (simp add: ret_def)

lemma bind_null_deref [simp]: "bind_s null_deref f = null_deref"
  by (simp add: bind_s_def null_deref_def)

lemma bind_assoc: "bind_s (bind_s m f) g = bind_s m (\<lambda>a. bind_s (f a) g)"
  by (rule ext) (simp add: bind_s_def split: outcome.split)

lemma for_each_append: "for_each f (xs @ ys) = then_s (for_each f xs) (for_each f ys)"
  by (induction xs) (simp_all add: then_s_def bind_assoc)

text \<open>What a program does between an entry action and an exit action that sees the entry state.\<close>

definition bracket :: "('s \<Rightarrow> 's) \<Rightarrow> ('s \<Rightarrow> 's \<Rightarrow> 's) \<Rightarrow> ('s, 'a) prog \<Rightarrow> ('s, 'a) prog" where
  "bracket enter leave m = (\<lambda>s. case m (enter s) of
       Returned a t \<Rightarrow> Returned a (leave s t)
     | r \<Rightarrow> r)"

lemma with_field_eq:
  "with_field get put v m = bracket (put v) (\<lambda>s. put (get s)) m"
  by (rule ext) (simp add: with_field_def bracket_def then_s_def bind_s_def gets_def modify_def
      ret_def split: outcome.split)

section \<open>The frame calculus\<close>

text \<open>
  \<open>frame R E m\<close>: whenever \<open>m\<close> returns, its states are related by \<open>R\<close>, and whenever it
  throws, by \<open>E\<close>. Nothing is said about \<open>Looping\<close> and \<open>NullDeref\<close>. With \<open>R\<close> reflexive
  and transitive, and \<open>E\<close> closed under \<open>R\<close> on the left, frames compose.
\<close>

definition frame :: "('s \<Rightarrow> 's \<Rightarrow> bool) \<Rightarrow> ('s \<Rightarrow> 's \<Rightarrow> bool) \<Rightarrow> ('s, 'a) prog \<Rightarrow> bool" where
  "frame R E m \<longleftrightarrow> (\<forall>s. case m s of
       Returned a s' \<Rightarrow> R s s'
     | Thrown s' \<Rightarrow> E s s'
     | Looping \<Rightarrow> True
     | NullDeref \<Rightarrow> True)"

lemma frame_Returned: "frame R E m \<Longrightarrow> m s = Returned a s' \<Longrightarrow> R s s'"
  unfolding frame_def by (drule spec [of _ s]) simp

lemma frame_Thrown: "frame R E m \<Longrightarrow> m s = Thrown s' \<Longrightarrow> E s s'"
  unfolding frame_def by (drule spec [of _ s]) simp

lemma frameI:
  assumes "\<And>s a s'. m s = Returned a s' \<Longrightarrow> R s s'"
    and "\<And>s s'. m s = Thrown s' \<Longrightarrow> E s s'"
  shows "frame R E m"
  unfolding frame_def by (simp add: assms split: outcome.split)

text \<open>What the two relations of a frame must satisfy for the rules below.\<close>

locale frame_pair =
  fixes R :: "'s \<Rightarrow> 's \<Rightarrow> bool" and E :: "'s \<Rightarrow> 's \<Rightarrow> bool"
  assumes R_refl: "R s s"
    and R_trans: "R s t \<Longrightarrow> R t u \<Longrightarrow> R s u"
    and R_E: "R s t \<Longrightarrow> E t u \<Longrightarrow> E s u"
begin

lemma frame_ret [frame_intros]: "frame R E (ret a)"
  by (simp add: frame_def ret_def R_refl)

lemma frame_gets [frame_intros]: "frame R E (gets f)"
  by (simp add: frame_def gets_def R_refl)

lemma frame_null_deref [frame_intros]: "frame R E null_deref"
  by (simp add: frame_def null_deref_def)

lemma frame_run_loop [frame_intros]: "frame R E (run_loop f)"
  by (simp add: frame_def run_loop_def R_refl split: option.split)

lemma frame_bind [frame_intros]:
  assumes "frame R E m" and "\<And>a. frame R E (f a)"
  shows "frame R E (bind_s m f)"
proof (rule frameI)
  fix s b s'
  assume "bind_s m f s = Returned b s'"
  then obtain a t where "m s = Returned a t" and "f a t = Returned b s'"
    by (auto simp: bind_s_def split: outcome.splits)
  then show "R s s'" using assms frame_Returned R_trans by metis
next
  fix s s'
  assume "bind_s m f s = Thrown s'"
  then consider "m s = Thrown s'" | a t where "m s = Returned a t" and "f a t = Thrown s'"
    by (auto simp: bind_s_def split: outcome.splits)
  then show "E s s'"
  proof cases
    case 1
    then show ?thesis using assms(1) frame_Thrown by metis
  next
    case 2
    then show ?thesis using assms frame_Returned frame_Thrown R_E by metis
  qed
qed

lemma frame_then [frame_intros]:
  "frame R E m \<Longrightarrow> frame R E k \<Longrightarrow> frame R E (then_s m k)"
  by (simp add: then_s_def frame_bind)

lemma frame_guarded [frame_intros]: "frame R E m \<Longrightarrow> frame R E (guarded b m)"
  by (simp add: guarded_def frame_ret)

lemma frame_for_each [frame_intros]:
  "(\<And>x. x \<in> set xs \<Longrightarrow> frame R E (f x)) \<Longrightarrow> frame R E (for_each f xs)"
  by (induction xs) (auto intro: frame_ret frame_then)

lemma frame_map_s [frame_intros]:
  "(\<And>x. x \<in> set xs \<Longrightarrow> frame R E (f x)) \<Longrightarrow> frame R E (map_s f xs)"
  by (induction xs) (auto intro!: frame_ret frame_bind)

lemma frame_if [frame_intros]:
  "(b \<Longrightarrow> frame R E m) \<Longrightarrow> (\<not> b \<Longrightarrow> frame R E k) \<Longrightarrow> frame R E (if b then m else k)"
  by simp

lemma frame_case_prod [frame_intros]:
  "(\<And>a b. p = (a, b) \<Longrightarrow> frame R E (f a b)) \<Longrightarrow> frame R E (case p of (a, b) \<Rightarrow> f a b)"
  by (cases p) simp

lemma frame_case_option [frame_intros]:
  "(x = None \<Longrightarrow> frame R E m) \<Longrightarrow> (\<And>a. x = Some a \<Longrightarrow> frame R E (f a)) \<Longrightarrow>
   frame R E (case x of None \<Rightarrow> m | Some a \<Rightarrow> f a)"
  by (cases x) simp_all

lemma frame_case_list [frame_intros]:
  "frame R E m \<Longrightarrow> (\<And>y ys. frame R E (f y ys)) \<Longrightarrow>
   frame R E (case xs of [] \<Rightarrow> m | y # ys \<Rightarrow> f y ys)"
  by (cases xs) simp_all

lemma frame_bracket:
  assumes "\<And>s t. R (enter s) t \<Longrightarrow> R s (leave s t)" and "\<And>s t. E (enter s) t \<Longrightarrow> E s t"
    and "frame R E m"
  shows "frame R E (bracket enter leave m)"
proof (rule frameI)
  fix s a s'
  assume "bracket enter leave m s = Returned a s'"
  then obtain t where "m (enter s) = Returned a t" and "s' = leave s t"
    by (auto simp: bracket_def split: outcome.splits)
  then show "R s s'" using assms(1) frame_Returned [OF assms(3)] by blast
next
  fix s s'
  assume "bracket enter leave m s = Thrown s'"
  then have "m (enter s) = Thrown s'" by (auto simp: bracket_def split: outcome.splits)
  then show "E s s'" using assms(2) frame_Thrown [OF assms(3)] by blast
qed

lemma frame_modify: "(\<And>s. R s (f s)) \<Longrightarrow> frame R E (modify f)"
  by (simp add: frame_def modify_def)

end

end
