(* ===== verification/Ast.thy ===== *)
theory Ast
  imports Dux_Prelude
begin

text \<open>
  The abstract syntax of \<^verbatim>\<open>src/ast/ast.hpp\<close>. Expressions, statements, switch cases
  and match arms are one family of mutually recursive datatypes, declarations another.
  A \<open>unique_ptr\<close> that may be null is the constructor \<open>NoExpr\<close> or \<open>NoStmt\<close>; an
  \<open>std::optional\<close> is an option. The fields \<open>loc\<close> and \<open>type_id\<close> that every
  expression inherits are the first two arguments of its constructor; the pairs of a
  dictionary literal and of a variable declaration are \<open>DictEntry\<close> and \<open>VarInit\<close>. Floating literals
  are only copied by the front end, so they are kept as their 64 bits.
  The file ends with the classification of nodes used by the proofs: the
  shape of an expression without the annotations the checker writes, and
  the nodes a parser can produce (no null where the code dereferences).
\<close>

section \<open>Locations and type expressions\<close>

type_synonym type_id = int
type_synonym i64 = "64 word"
type_synonym f64_bits = "64 word"

datatype source_loc = SourceLoc (loc_file: string) (loc_line: int) (loc_col: int)

datatype type_expr = TypeExpr
  (te_name: string) (te_is_const: bool) (te_loc: source_loc)
  (te_fn_params: "type_expr list") (te_fn_ret: string) (te_type_args: "type_expr list")

record param =
  param_type :: type_expr
  param_name :: string

section \<open>Expressions and statements\<close>

datatype pattern_kind = Wildcard | EnumVariantPat | IntLitPat | BoolLitPat | StrLitPat

record match_pattern =
  pat_kind :: pattern_kind
  pat_enum_name :: string
  pat_variant_name :: string
  pat_bindings :: "string list"
  pat_int_value :: i64
  pat_bool_value :: bool
  pat_str_value :: string
  pat_loc :: source_loc

datatype (plugins del: quickcheck_random quickcheck_exhaustive
    quickcheck_full_exhaustive quickcheck_narrowing) expr =
    NoExpr
  | IntLitExpr source_loc type_id i64
  | LongLitExpr source_loc type_id i64
  | FloatLitExpr source_loc type_id f64_bits
  | RealLitExpr source_loc type_id f64_bits
  | StringLitExpr source_loc type_id string
  | BoolLitExpr source_loc type_id bool
  | NullLitExpr source_loc type_id
  | IdentExpr source_loc type_id string
  | ThisExpr source_loc type_id
  | SuperExpr source_loc type_id
  | BinaryExpr source_loc type_id string expr expr
  | UnaryExpr source_loc type_id string expr bool
  | AssignExpr source_loc type_id string expr expr
  | CallExpr source_loc type_id expr "expr list"
  | MemberExpr source_loc type_id expr string
  | IndexExpr source_loc type_id expr expr
  | NewExpr source_loc type_id type_expr "expr list"
  | ListExpr source_loc type_id "expr list"
  | DictExpr source_loc type_id "dict_entry list"
  | LambdaExpr source_loc type_id "param list" stmt "string list" "type_expr option" string
  | AwaitExpr source_loc type_id expr
and stmt =
    NoStmt
  | BlockStmt source_loc "stmt list"
  | ExprStmt source_loc expr
  | VarDeclStmt source_loc type_expr bool bool bool "var_init list"
  | IfStmt source_loc expr stmt stmt
  | WhileStmt source_loc "string option" expr stmt
  | DoWhileStmt source_loc stmt expr
  | ForInStmt source_loc type_expr string expr stmt
  | ForCStmt source_loc type_expr string expr expr expr stmt
  | SwitchStmt source_loc expr "switch_case list"
  | MatchStmt source_loc expr "match_arm list"
  | TryCatchStmt source_loc stmt bool "type_expr option" "string option" stmt
  | ReturnStmt source_loc "expr option"
  | BreakStmt source_loc "string option"
  | ContinueStmt source_loc "string option"
  | AssertStmt source_loc expr
  | DeleteStmt source_loc expr
  | LabeledStmt source_loc string stmt
  | DeferStmt source_loc "stmt list"
  | ThrowStmt source_loc expr
  | UnsafeStmt source_loc "stmt list"
and dict_entry = DictEntry expr expr
and var_init = VarInit string expr
and switch_case = SwitchCase "expr option" "stmt list"
and match_arm = MatchArm match_pattern "stmt list" source_loc

text \<open>\<open>node->loc\<close> and \<open>expr->type_id\<close>; a null pointer has neither (its value here is never read).\<close>

fun expr_loc :: "expr \<Rightarrow> source_loc" where
  "expr_loc NoExpr = SourceLoc [] 0 0"
| "expr_loc (IntLitExpr l t v) = l"
| "expr_loc (LongLitExpr l t v) = l"
| "expr_loc (FloatLitExpr l t v) = l"
| "expr_loc (RealLitExpr l t v) = l"
| "expr_loc (StringLitExpr l t v) = l"
| "expr_loc (BoolLitExpr l t v) = l"
| "expr_loc (NullLitExpr l t) = l"
| "expr_loc (IdentExpr l t x) = l"
| "expr_loc (ThisExpr l t) = l"
| "expr_loc (SuperExpr l t) = l"
| "expr_loc (BinaryExpr l t op a b) = l"
| "expr_loc (UnaryExpr l t op a p) = l"
| "expr_loc (AssignExpr l t op a b) = l"
| "expr_loc (CallExpr l t f as) = l"
| "expr_loc (MemberExpr l t a m) = l"
| "expr_loc (IndexExpr l t a b) = l"
| "expr_loc (NewExpr l t te as) = l"
| "expr_loc (ListExpr l t es) = l"
| "expr_loc (DictExpr l t ps) = l"
| "expr_loc (LambdaExpr l t ps b cs r i) = l"
| "expr_loc (AwaitExpr l t a) = l"

fun expr_type_id :: "expr \<Rightarrow> type_id" where
  "expr_type_id NoExpr = -1"
| "expr_type_id (IntLitExpr l t v) = t"
| "expr_type_id (LongLitExpr l t v) = t"
| "expr_type_id (FloatLitExpr l t v) = t"
| "expr_type_id (RealLitExpr l t v) = t"
| "expr_type_id (StringLitExpr l t v) = t"
| "expr_type_id (BoolLitExpr l t v) = t"
| "expr_type_id (NullLitExpr l t) = t"
| "expr_type_id (IdentExpr l t x) = t"
| "expr_type_id (ThisExpr l t) = t"
| "expr_type_id (SuperExpr l t) = t"
| "expr_type_id (BinaryExpr l t op a b) = t"
| "expr_type_id (UnaryExpr l t op a p) = t"
| "expr_type_id (AssignExpr l t op a b) = t"
| "expr_type_id (CallExpr l t f as) = t"
| "expr_type_id (MemberExpr l t a m) = t"
| "expr_type_id (IndexExpr l t a b) = t"
| "expr_type_id (NewExpr l t te as) = t"
| "expr_type_id (ListExpr l t es) = t"
| "expr_type_id (DictExpr l t ps) = t"
| "expr_type_id (LambdaExpr l t ps b cs r i) = t"
| "expr_type_id (AwaitExpr l t a) = t"

text \<open>\<open>e.type_id = t\<close>.\<close>

fun set_type_id :: "type_id \<Rightarrow> expr \<Rightarrow> expr" where
  "set_type_id t NoExpr = NoExpr"
| "set_type_id t (IntLitExpr l u v) = IntLitExpr l t v"
| "set_type_id t (LongLitExpr l u v) = LongLitExpr l t v"
| "set_type_id t (FloatLitExpr l u v) = FloatLitExpr l t v"
| "set_type_id t (RealLitExpr l u v) = RealLitExpr l t v"
| "set_type_id t (StringLitExpr l u v) = StringLitExpr l t v"
| "set_type_id t (BoolLitExpr l u v) = BoolLitExpr l t v"
| "set_type_id t (NullLitExpr l u) = NullLitExpr l t"
| "set_type_id t (IdentExpr l u x) = IdentExpr l t x"
| "set_type_id t (ThisExpr l u) = ThisExpr l t"
| "set_type_id t (SuperExpr l u) = SuperExpr l t"
| "set_type_id t (BinaryExpr l u op a b) = BinaryExpr l t op a b"
| "set_type_id t (UnaryExpr l u op a p) = UnaryExpr l t op a p"
| "set_type_id t (AssignExpr l u op a b) = AssignExpr l t op a b"
| "set_type_id t (CallExpr l u f as) = CallExpr l t f as"
| "set_type_id t (MemberExpr l u a m) = MemberExpr l t a m"
| "set_type_id t (IndexExpr l u a b) = IndexExpr l t a b"
| "set_type_id t (NewExpr l u te as) = NewExpr l t te as"
| "set_type_id t (ListExpr l u es) = ListExpr l t es"
| "set_type_id t (DictExpr l u ps) = DictExpr l t ps"
| "set_type_id t (LambdaExpr l u ps b cs r i) = LambdaExpr l t ps b cs r i"
| "set_type_id t (AwaitExpr l u a) = AwaitExpr l t a"

text \<open>The \<open>dynamic_cast\<close> tests the checker makes on a node it does not descend into.\<close>

definition ident_name :: "expr \<Rightarrow> string option" where
  "ident_name e = (case e of IdentExpr l t x \<Rightarrow> Some x | _ \<Rightarrow> None)"

definition is_this :: "expr \<Rightarrow> bool" where
  "is_this e = (case e of ThisExpr l t \<Rightarrow> True | _ \<Rightarrow> False)"

definition is_lambda :: "expr \<Rightarrow> bool" where
  "is_lambda e = (case e of LambdaExpr l t ps b cs r i \<Rightarrow> True | _ \<Rightarrow> False)"

definition is_literal :: "expr \<Rightarrow> bool" where
  "is_literal e = (case e of
       IntLitExpr l t v \<Rightarrow> True
     | LongLitExpr l t v \<Rightarrow> True
     | FloatLitExpr l t v \<Rightarrow> True
     | RealLitExpr l t v \<Rightarrow> True
     | StringLitExpr l t v \<Rightarrow> True
     | BoolLitExpr l t v \<Rightarrow> True
     | NullLitExpr l t \<Rightarrow> True
     | _ \<Rightarrow> False)"

section \<open>Declarations\<close>

datatype access_mod = AccessNone | AccessPublic | AccessPrivate | AccessProtected

record decorator =
  deco_name :: string
  deco_args :: "expr list"
  deco_loc :: source_loc

record init_entry =
  init_field :: string
  init_args :: "expr list"

record type_bound =
  bound_param :: string
  bound_interface :: string

record function_decl =
  f_loc :: source_loc
  f_return_type :: type_expr
  f_name :: string
  f_type_params :: "string list"
  f_type_bounds :: "type_bound list"
  f_params :: "param list"
  f_modifier :: "string option"
  f_body :: "(source_loc \<times> stmt list) option"
  f_is_ctor :: bool
  f_is_dtor :: bool
  f_is_static :: bool
  f_is_async :: bool
  f_init_list :: "init_entry list"

record field_decl =
  fd_loc :: source_loc
  fd_type :: type_expr
  fd_name :: string
  fd_init :: "expr option"
  fd_is_static :: bool

record base_class =
  base_access :: access_mod
  base_name :: string

record import_decl =
  im_loc :: source_loc
  im_path :: string
  im_symbols :: "string list"
  im_alias :: string
  im_global_scope :: bool

record extern_decl =
  ex_loc :: source_loc
  ex_abi :: string
  ex_ret :: type_expr
  ex_name :: string
  ex_params :: "param list"

record enum_variant =
  ev_name :: string
  ev_payload :: "type_expr list"
  ev_loc :: source_loc

record enum_decl =
  en_loc :: source_loc
  en_name :: string
  en_variants :: "enum_variant list"

datatype (plugins del: quickcheck_random quickcheck_exhaustive
    quickcheck_full_exhaustive quickcheck_narrowing) decl =
    FunctionDecl function_decl
  | FieldDecl field_decl
  | ClassDecl class_decl
  | InterfaceDecl interface_decl
  | ImportDecl import_decl
  | NamespaceDecl namespace_decl
  | ExternDecl extern_decl
  | EnumDecl enum_decl
and class_decl = MkClass
  (c_loc: source_loc) (c_decorators: "decorator list") (c_name: string)
  (c_type_params: "string list") (c_type_bounds: "type_bound list")
  (c_bases: "base_class list") (c_members: "class_member list")
and interface_decl = MkInterface
  (i_loc: source_loc) (i_name: string) (i_members: "class_member list")
and class_member = MkMember
  (cm_access: access_mod) (cm_decorators: "decorator list") (cm_decl: "decl option")
and namespace_decl = MkNamespace
  (ns_loc: source_loc) (ns_name: string) (ns_decls: "decl list") (ns_stmts: "stmt list")
  (ns_is_package_decl: bool)

record program =
  prog_decls :: "decl list"
  prog_stmts :: "stmt list"

section \<open>Shapes and well-formed nodes\<close>

lemma expr_type_id_set [simp]: "e \<noteq> NoExpr \<Longrightarrow> expr_type_id (set_type_id t e) = t"
  by (cases e) simp_all

lemma expr_loc_set [simp]: "expr_loc (set_type_id t e) = expr_loc e"
  by (cases e) simp_all

text \<open>
  \<open>erase\<close> forgets what the checker may write into a tree: the \<open>type_id\<close> of every
  expression and the \<open>inferred_ret\<close> of every lambda. Two trees with one shape are the
  same source text.
\<close>

fun erase :: "expr \<Rightarrow> expr"
  and erase_entry :: "dict_entry \<Rightarrow> dict_entry"
  and erase_init :: "var_init \<Rightarrow> var_init"
  and erase_stmt :: "stmt \<Rightarrow> stmt"
  and erase_case :: "switch_case \<Rightarrow> switch_case"
  and erase_arm :: "match_arm \<Rightarrow> match_arm" where
  "erase NoExpr = NoExpr"
| "erase (IntLitExpr l t v) = IntLitExpr l (-1) v"
| "erase (LongLitExpr l t v) = LongLitExpr l (-1) v"
| "erase (FloatLitExpr l t v) = FloatLitExpr l (-1) v"
| "erase (RealLitExpr l t v) = RealLitExpr l (-1) v"
| "erase (StringLitExpr l t v) = StringLitExpr l (-1) v"
| "erase (BoolLitExpr l t v) = BoolLitExpr l (-1) v"
| "erase (NullLitExpr l t) = NullLitExpr l (-1)"
| "erase (IdentExpr l t x) = IdentExpr l (-1) x"
| "erase (ThisExpr l t) = ThisExpr l (-1)"
| "erase (SuperExpr l t) = SuperExpr l (-1)"
| "erase (BinaryExpr l t op a b) = BinaryExpr l (-1) op (erase a) (erase b)"
| "erase (UnaryExpr l t op a p) = UnaryExpr l (-1) op (erase a) p"
| "erase (AssignExpr l t op a b) = AssignExpr l (-1) op (erase a) (erase b)"
| "erase (CallExpr l t f as) = CallExpr l (-1) (erase f) (map erase as)"
| "erase (MemberExpr l t a m) = MemberExpr l (-1) (erase a) m"
| "erase (IndexExpr l t a b) = IndexExpr l (-1) (erase a) (erase b)"
| "erase (NewExpr l t te as) = NewExpr l (-1) te (map erase as)"
| "erase (ListExpr l t es) = ListExpr l (-1) (map erase es)"
| "erase (DictExpr l t ps) = DictExpr l (-1) (map erase_entry ps)"
| "erase (LambdaExpr l t ps b cs r i) = LambdaExpr l (-1) ps (erase_stmt b) cs r []"
| "erase (AwaitExpr l t a) = AwaitExpr l (-1) (erase a)"
| "erase_entry (DictEntry k v) = DictEntry (erase k) (erase v)"
| "erase_init (VarInit x e) = VarInit x (erase e)"
| "erase_stmt NoStmt = NoStmt"
| "erase_stmt (BlockStmt l b) = BlockStmt l (map erase_stmt b)"
| "erase_stmt (ExprStmt l e) = ExprStmt l (erase e)"
| "erase_stmt (VarDeclStmt l te c st th ds) = VarDeclStmt l te c st th (map erase_init ds)"
| "erase_stmt (IfStmt l c t e) = IfStmt l (erase c) (erase_stmt t) (erase_stmt e)"
| "erase_stmt (WhileStmt l lb c b) = WhileStmt l lb (erase c) (erase_stmt b)"
| "erase_stmt (DoWhileStmt l b c) = DoWhileStmt l (erase_stmt b) (erase c)"
| "erase_stmt (ForInStmt l te x e b) = ForInStmt l te x (erase e) (erase_stmt b)"
| "erase_stmt (ForCStmt l te x i c n b) =
     ForCStmt l te x (erase i) (erase c) (erase n) (erase_stmt b)"
| "erase_stmt (SwitchStmt l e cs) = SwitchStmt l (erase e) (map erase_case cs)"
| "erase_stmt (MatchStmt l e as) = MatchStmt l (erase e) (map erase_arm as)"
| "erase_stmt (TryCatchStmt l b al ct cv cb) =
     TryCatchStmt l (erase_stmt b) al ct cv (erase_stmt cb)"
| "erase_stmt (ReturnStmt l v) = ReturnStmt l (map_option erase v)"
| "erase_stmt (BreakStmt l lb) = BreakStmt l lb"
| "erase_stmt (ContinueStmt l lb) = ContinueStmt l lb"
| "erase_stmt (AssertStmt l e) = AssertStmt l (erase e)"
| "erase_stmt (DeleteStmt l e) = DeleteStmt l (erase e)"
| "erase_stmt (LabeledStmt l lb st) = LabeledStmt l lb (erase_stmt st)"
| "erase_stmt (DeferStmt l b) = DeferStmt l (map erase_stmt b)"
| "erase_stmt (ThrowStmt l e) = ThrowStmt l (erase e)"
| "erase_stmt (UnsafeStmt l b) = UnsafeStmt l (map erase_stmt b)"
| "erase_case (SwitchCase v b) = SwitchCase (map_option erase v) (map erase_stmt b)"
| "erase_arm (MatchArm p b l) = MatchArm p (map erase_stmt b) l"

text \<open>
  The trees a parser builds: every pointer the checker dereferences is set. Only the
  \<open>else\<close> branch of an \<open>if\<close> and the initialiser of a variable may be null.
\<close>

fun wf_expr :: "expr \<Rightarrow> bool"
  and wf_entry :: "dict_entry \<Rightarrow> bool"
  and wf_init :: "var_init \<Rightarrow> bool"
  and wf_stmt :: "stmt \<Rightarrow> bool"
  and wf_case :: "switch_case \<Rightarrow> bool"
  and wf_arm :: "match_arm \<Rightarrow> bool" where
  "wf_expr NoExpr = False"
| "wf_expr (BinaryExpr l t op a b) = (wf_expr a \<and> wf_expr b)"
| "wf_expr (UnaryExpr l t op a p) = wf_expr a"
| "wf_expr (AssignExpr l t op a b) = (wf_expr a \<and> wf_expr b)"
| "wf_expr (CallExpr l t f as) = (wf_expr f \<and> (\<forall>a\<in>set as. wf_expr a))"
| "wf_expr (MemberExpr l t a m) = wf_expr a"
| "wf_expr (IndexExpr l t a b) = (wf_expr a \<and> wf_expr b)"
| "wf_expr (NewExpr l t te as) = (\<forall>a\<in>set as. wf_expr a)"
| "wf_expr (ListExpr l t es) = (\<forall>a\<in>set es. wf_expr a)"
| "wf_expr (DictExpr l t ps) = (\<forall>p\<in>set ps. wf_entry p)"
| "wf_expr (LambdaExpr l t ps b cs r i) = wf_stmt b"
| "wf_expr (AwaitExpr l t a) = wf_expr a"
| "wf_expr e = True"
| "wf_entry (DictEntry k v) = (wf_expr k \<and> wf_expr v)"
| "wf_init (VarInit x e) = (e = NoExpr \<or> wf_expr e)"
| "wf_stmt NoStmt = False"
| "wf_stmt (BlockStmt l b) = (\<forall>s\<in>set b. wf_stmt s)"
| "wf_stmt (ExprStmt l e) = wf_expr e"
| "wf_stmt (VarDeclStmt l te c st th ds) = (\<forall>d\<in>set ds. wf_init d)"
| "wf_stmt (IfStmt l c t e) = (wf_expr c \<and> wf_stmt t \<and> (e = NoStmt \<or> wf_stmt e))"
| "wf_stmt (WhileStmt l lb c b) = (wf_expr c \<and> wf_stmt b)"
| "wf_stmt (DoWhileStmt l b c) = (wf_stmt b \<and> wf_expr c)"
| "wf_stmt (ForInStmt l te x e b) = (wf_expr e \<and> wf_stmt b)"
| "wf_stmt (ForCStmt l te x i c n b) = (wf_expr i \<and> wf_expr c \<and> wf_expr n \<and> wf_stmt b)"
| "wf_stmt (SwitchStmt l e cs) = (wf_expr e \<and> (\<forall>c\<in>set cs. wf_case c))"
| "wf_stmt (MatchStmt l e as) = (wf_expr e \<and> (\<forall>a\<in>set as. wf_arm a))"
| "wf_stmt (TryCatchStmt l b al ct cv cb) = (wf_stmt b \<and> wf_stmt cb)"
| "wf_stmt (ReturnStmt l v) = (case v of None \<Rightarrow> True | Some e \<Rightarrow> wf_expr e)"
| "wf_stmt (AssertStmt l e) = wf_expr e"
| "wf_stmt (DeleteStmt l e) = wf_expr e"
| "wf_stmt (LabeledStmt l lb st) = wf_stmt st"
| "wf_stmt (DeferStmt l b) = (\<forall>s\<in>set b. wf_stmt s)"
| "wf_stmt (ThrowStmt l e) = wf_expr e"
| "wf_stmt (UnsafeStmt l b) = (\<forall>s\<in>set b. wf_stmt s)"
| "wf_stmt s = True"
| "wf_case (SwitchCase v b) =
     ((case v of None \<Rightarrow> True | Some e \<Rightarrow> wf_expr e) \<and> (\<forall>s\<in>set b. wf_stmt s))"
| "wf_arm (MatchArm p b l) = (\<forall>s\<in>set b. wf_stmt s)"

end
