(* ===== verification/Loops.thy ===== *)
theory Loops
  imports Dux_Prelude
begin

text \<open>
  Loops of the source with no bound in the code: \<open>iter_until f x\<close> runs the loop body
  \<open>f\<close> (\<open>Inl r\<close> leaves the loop with \<open>r\<close>, \<open>Inr y\<close> goes round with \<open>y\<close>) and is \<open>None\<close>
  when the loop never ends. \<open>iter_fuel\<close> is the same loop with a bounded number of
  rounds; on a finite set closed under the body the two agree when the fuel is the
  size of the set, so the walks over the type table are decided by evaluation, a
  non-terminating one included. The end of the file has the decimal rendering
  of numbers (\<open>std::to_string\<close>) and the splitting of dotted paths.
\<close>

section \<open>Loops that may not end\<close>

partial_function (option) iter_until :: "('a \<Rightarrow> 'r + 'a) \<Rightarrow> 'a \<Rightarrow> 'r option" where
  "iter_until f x = (case f x of Inl r \<Rightarrow> Some r | Inr y \<Rightarrow> iter_until f y)"

fun iter_fuel :: "nat \<Rightarrow> ('a \<Rightarrow> 'r + 'a) \<Rightarrow> 'a \<Rightarrow> 'r option" where
  "iter_fuel 0 f x = None"
| "iter_fuel (Suc n) f x = (case f x of Inl r \<Rightarrow> Some r | Inr y \<Rightarrow> iter_fuel n f y)"

text \<open>\<open>takes f n x r\<close>: the loop from \<open>x\<close> evaluates its body \<open>n\<close> times and leaves with \<open>r\<close>.\<close>

inductive takes :: "('a \<Rightarrow> 'r + 'a) \<Rightarrow> nat \<Rightarrow> 'a \<Rightarrow> 'r \<Rightarrow> bool" for f where
  takes_exit: "f x = Inl r \<Longrightarrow> takes f (Suc 0) x r"
| takes_round: "f x = Inr y \<Longrightarrow> takes f n y r \<Longrightarrow> takes f (Suc n) x r"

inductive_cases takesE: "takes f n x r"

lemma iter_until_exit: "f x = Inl r \<Longrightarrow> iter_until f x = Some r"
  by (simp add: iter_until.simps)

lemma iter_until_round: "f x = Inr y \<Longrightarrow> iter_until f x = iter_until f y"
  by (simp add: iter_until.simps)

lemma takes_iter_until: "takes f n x r \<Longrightarrow> iter_until f x = Some r"
  by (induction rule: takes.induct) (simp_all add: iter_until_exit iter_until_round)

lemma iter_until_takes:
  fixes f :: "'a \<Rightarrow> 'r + 'a"
  assumes "iter_until f x = Some r"
  shows "\<exists>n. takes f n x r"
proof -
  from assms have returns: "(case (f, x) of (f, x) \<Rightarrow> iter_until f x) = Some r" by simp
  have "(case (f, x) of (f, x) \<Rightarrow> \<lambda>r. \<exists>n. takes f n x r) r"
  proof (rule iter_until.raw_induct [where P = "\<lambda>f x r. \<exists>n. takes f n x r", OF _ returns])
    fix it :: "('a \<Rightarrow> 'r + 'a) \<Rightarrow> 'a \<Rightarrow> 'r option" and f :: "'a \<Rightarrow> 'r + 'a" and x r
    assume IH: "\<And>f x r. it f x = Some r \<Longrightarrow> \<exists>n. takes f n x r"
      and eq: "(case f x of Inl r \<Rightarrow> Some r | Inr y \<Rightarrow> it f y) = Some r"
    show "\<exists>n. takes f n x r"
    proof (cases "f x")
      case (Inl a)
      with eq show ?thesis by (auto intro: takes_exit)
    next
      case (Inr y)
      with eq have "it f y = Some r" by simp
      then obtain n where "takes f n y r" using IH by blast
      with Inr show ?thesis by (auto intro: takes_round)
    qed
  qed
  then show ?thesis by simp
qed

lemma takes_deterministic: "takes f n x r \<Longrightarrow> takes f m x q \<Longrightarrow> n = m \<and> r = q"
proof (induction arbitrary: m rule: takes.induct)
  case (takes_exit x r)
  from takes_exit.prems takes_exit.hyps show ?case by cases simp_all
next
  case (takes_round x y n r)
  from takes_round.prems takes_round.hyps(1) obtain k where "m = Suc k" "takes f k y q"
    by cases simp_all
  with takes_round.IH show ?case by blast
qed

lemma takes_fuel: "takes f n x r \<Longrightarrow> n \<le> k \<Longrightarrow> iter_fuel k f x = Some r"
proof (induction arbitrary: k rule: takes.induct)
  case (takes_exit x r)
  then show ?case by (cases k) simp_all
next
  case (takes_round x y n r)
  then show ?case by (cases k) simp_all
qed

lemma fuel_takes: "iter_fuel k f x = Some r \<Longrightarrow> \<exists>n\<le>k. takes f n x r"
proof (induction k arbitrary: x)
  case 0
  then show ?case by simp
next
  case (Suc k)
  show ?case
  proof (cases "f x")
    case (Inl a)
    with Suc.prems show ?thesis by (auto intro: takes_exit)
  next
    case (Inr y)
    with Suc obtain n where "n \<le> k" "takes f n y r" by auto
    with Inr show ?thesis by (auto intro!: exI [of _ "Suc n"] takes_round)
  qed
qed

lemma iter_fuel_until: "iter_fuel k f x = Some r \<Longrightarrow> iter_until f x = Some r"
  using fuel_takes takes_iter_until by metis

text \<open>The states a terminating loop visits are all different, so they number at most the states there are.\<close>

definition closed_under :: "('a \<Rightarrow> 'r + 'a) \<Rightarrow> 'a set \<Rightarrow> bool" where
  "closed_under f S \<longleftrightarrow> (\<forall>y\<in>S. \<forall>z. f y = Inr z \<longrightarrow> z \<in> S)"

definition rounds :: "('a \<Rightarrow> 'r + 'a) \<Rightarrow> 'a \<Rightarrow> nat" where
  "rounds f x = (THE n. \<exists>r. takes f n x r)"

lemma rounds_eq: "takes f n x r \<Longrightarrow> rounds f x = n"
  unfolding rounds_def by (blast dest: takes_deterministic)

lemma takes_all_counts: "takes f n x r \<Longrightarrow> x \<in> S \<Longrightarrow> closed_under f S \<Longrightarrow> {1..n} \<subseteq> rounds f ` S"
proof (induction rule: takes.induct)
  case (takes_exit x r)
  then have "rounds f x = Suc 0" by (blast intro: rounds_eq takes.intros)
  with takes_exit show ?case by (auto simp: image_iff intro!: bexI [of _ x])
next
  case (takes_round x y n r)
  then have "rounds f x = Suc n" by (blast intro: rounds_eq takes.intros)
  moreover have "{1..n} \<subseteq> rounds f ` S"
    using takes_round by (auto simp: closed_under_def)
  ultimately show ?case
    using takes_round.prems(1) by (auto simp: atLeastAtMostSuc_conv intro!: image_eqI [of _ _ x])
qed

lemma takes_bounded:
  assumes "takes f n x r" and "x \<in> S" and "finite S" and "closed_under f S"
  shows "n \<le> card S"
proof -
  have "card {1..n} \<le> card (rounds f ` S)"
    using assms by (intro card_mono takes_all_counts) auto
  also have "\<dots> \<le> card S" by (rule card_image_le) fact
  finally show ?thesis by simp
qed

theorem iter_until_fuel:
  assumes "x \<in> S" and "finite S" and "card S \<le> k" and "closed_under f S"
  shows "iter_until f x = iter_fuel k f x"
proof (cases "iter_until f x")
  case None
  then show ?thesis using iter_fuel_until by (metis option.exhaust)
next
  case (Some r)
  then obtain n where n: "takes f n x r" using iter_until_takes by metis
  then have "n \<le> k" using takes_bounded [OF n assms(1,2,4)] assms(3) by simp
  with n Some show ?thesis by (simp add: takes_fuel)
qed

text \<open>A loop whose body decreases a measure ends; a loop that keeps going round does not.\<close>

lemma iter_until_wf:
  assumes "wf R" and "P x" and step: "\<And>y z. P y \<Longrightarrow> f y = Inr z \<Longrightarrow> P z \<and> (z, y) \<in> R"
  shows "\<exists>r. iter_until f x = Some r"
  using assms(1,2)
proof (induction x rule: wf_induct_rule)
  case (less x)
  show ?case
  proof (cases "f x")
    case (Inl r)
    then show ?thesis by (auto simp: iter_until_exit)
  next
    case (Inr y)
    with less step show ?thesis by (fastforce simp: iter_until_round)
  qed
qed

lemma iter_until_measure:
  fixes m :: "'a \<Rightarrow> nat"
  assumes "P x" and "\<And>y z. P y \<Longrightarrow> f y = Inr z \<Longrightarrow> P z \<and> m z < m y"
  shows "\<exists>r. iter_until f x = Some r"
  by (rule iter_until_wf [where P = P, OF wf_measure [of m]]) (use assms in auto)

lemma iter_until_diverges:
  assumes "x \<in> S" and stay: "\<And>y. y \<in> S \<Longrightarrow> \<exists>z\<in>S. f y = Inr z"
  shows "iter_until f x = None"
proof -
  have "takes f n y r \<Longrightarrow> y \<notin> S" for n y r
    by (induction rule: takes.induct) (use stay in fastforce)+
  with assms(1) have "\<nexists>n r. takes f n x r" by blast
  then show ?thesis using iter_until_takes by (metis option.exhaust)
qed

lemma iter_until_rule:
  assumes "iter_until f x = Some r" and "P x"
    and keep: "\<And>y z. P y \<Longrightarrow> f y = Inr z \<Longrightarrow> P z"
    and leave: "\<And>y q. P y \<Longrightarrow> f y = Inl q \<Longrightarrow> Q q"
  shows "Q r"
proof -
  obtain n where "takes f n x r" using iter_until_takes assms(1) by metis
  then show ?thesis using assms(2) by (induction rule: takes.induct) (use keep leave in blast)+
qed

section \<open>Strings\<close>

text \<open>\<open>std::to_string\<close> and the decimal \<open>operator<<\<close> of integers.\<close>

fun show_nat :: "nat \<Rightarrow> string" where
  "show_nat n = (if n < 10 then [char_of (48 + n)]
                 else show_nat (n div 10) @ [char_of (48 + n mod 10)])"

declare show_nat.simps [simp del]

definition show_int :: "int \<Rightarrow> string" where
  "show_int i = (if i < 0 then ''-'' @ show_nat (nat (- i)) else show_nat (nat i))"

text \<open>\<open>path.substr(path.rfind(c) + 1)\<close>, the whole path when \<open>c\<close> does not occur.\<close>

definition after_last :: "char \<Rightarrow> string \<Rightarrow> string" where
  "after_last c s = rev (takeWhile (\<lambda>d. d \<noteq> c) (rev s))"

text \<open>\<open>path.substr(0, path.find(c))\<close>.\<close>

definition before_first :: "char \<Rightarrow> string \<Rightarrow> string" where
  "before_first c s = takeWhile (\<lambda>d. d \<noteq> c) s"

text \<open>Elements of a vector joined by a separator.\<close>

fun join_with :: "string \<Rightarrow> string list \<Rightarrow> string" where
  "join_with sep [] = []"
| "join_with sep [s] = s"
| "join_with sep (s # t # ts) = s @ sep @ join_with sep (t # ts)"

lemma after_last_no_sep: "c \<notin> set s \<Longrightarrow> after_last c s = s"
proof -
  assume "c \<notin> set s"
  then have "takeWhile (\<lambda>d. d \<noteq> c) (rev s) = rev s"
    by (subst takeWhile_eq_all_conv) auto
  then show ?thesis unfolding after_last_def by (simp only: rev_rev_ident)
qed

lemma after_last_append: "c \<notin> set t \<Longrightarrow> after_last c (s @ c # t) = t"
proof -
  assume "c \<notin> set t"
  then have "takeWhile (\<lambda>d. d \<noteq> c) (rev t @ c # rev s) = rev t"
    by (subst takeWhile_append2) auto
  then show ?thesis by (simp add: after_last_def)
qed

lemma show_nat_nonempty: "show_nat n \<noteq> []"
  by (subst show_nat.simps) simp

end
