(* ===== verification/Type_Registry.thy ===== *)
theory Type_Registry
  imports Ast Loops
begin

text \<open>
  The type table of \<^verbatim>\<open>src/sema/types.hpp\<close> and \<^verbatim>\<open>src/sema/types.cpp\<close>: a vector of type
  descriptions indexed by \<open>TypeId\<close> and a name index, with interning, subtyping,
  assignability and unification. A \<open>TypeId\<close> is a 32-bit integer in the code; it is an
  \<open>int\<close> here, which agrees as long as fewer than \<open>2 ^ 31\<close> types exist. The walks up the
  parent chain have no bound in the code, so they are loops that may not end.
\<close>

section \<open>Types\<close>

datatype type_kind =
    TK_Unknown | TK_Void | TK_Bool | TK_Int | TK_Long | TK_Real | TK_Double
  | TK_Str | TK_List | TK_Dict | TK_Tuple | TK_Object | TK_Null
  | TK_Class | TK_Interface | TK_Function | TK_Enum

record enum_variant_info =
  evi_name :: string
  evi_tag :: int
  evi_payload :: "type_id list"

record type_info =
  ti_kind :: type_kind
  ti_name :: string
  ti_parent :: type_id
  ti_ifaces :: "type_id list"
  ti_return_type :: type_id
  ti_param_types :: "type_id list"
  ti_variants :: "enum_variant_info list"

definition default_info :: type_info where
  "default_info = \<lparr>ti_kind = TK_Unknown, ti_name = [], ti_parent = -1, ti_ifaces = [],
     ti_return_type = -1, ti_param_types = [], ti_variants = []\<rparr>"

abbreviation (input) "TID_UNKNOWN \<equiv> (-1 :: type_id)"
abbreviation (input) "TID_VOID \<equiv> (0 :: type_id)"
abbreviation (input) "TID_BOOL \<equiv> (1 :: type_id)"
abbreviation (input) "TID_INT \<equiv> (2 :: type_id)"
abbreviation (input) "TID_LONG \<equiv> (3 :: type_id)"
abbreviation (input) "TID_REAL \<equiv> (4 :: type_id)"
abbreviation (input) "TID_DOUBLE \<equiv> (5 :: type_id)"
abbreviation (input) "TID_STR \<equiv> (6 :: type_id)"
abbreviation (input) "TID_LIST \<equiv> (7 :: type_id)"
abbreviation (input) "TID_DICT \<equiv> (8 :: type_id)"
abbreviation (input) "TID_TUPLE \<equiv> (9 :: type_id)"
abbreviation (input) "TID_OBJECT \<equiv> (10 :: type_id)"
abbreviation (input) "TID_NULL \<equiv> (11 :: type_id)"

record registry =
  type_table :: "type_info list"
  by_name :: "string \<Rightarrow> type_id option"

section \<open>Construction and interning\<close>

definition add_builtin ::
  "type_id \<Rightarrow> type_kind \<Rightarrow> string \<Rightarrow> type_id \<Rightarrow> registry \<Rightarrow> registry" where
  "add_builtin tid k name parent r = r\<lparr>
     type_table := (type_table r)[nat tid := (type_table r ! nat tid)
       \<lparr>ti_kind := k, ti_name := name, ti_parent := parent\<rparr>],
     by_name := (by_name r)(name \<mapsto> tid)\<rparr>"

definition new_registry :: registry where
  "new_registry =
     (add_builtin TID_NULL TK_Null ''null'' (-1) \<circ>
      add_builtin TID_OBJECT TK_Object ''object'' (-1) \<circ>
      add_builtin TID_TUPLE TK_Tuple ''tuple'' TID_OBJECT \<circ>
      add_builtin TID_DICT TK_Dict ''dict'' TID_OBJECT \<circ>
      add_builtin TID_LIST TK_List ''list'' TID_OBJECT \<circ>
      add_builtin TID_STR TK_Str ''str'' TID_OBJECT \<circ>
      add_builtin TID_DOUBLE TK_Double ''double'' TID_OBJECT \<circ>
      add_builtin TID_REAL TK_Real ''real'' TID_OBJECT \<circ>
      add_builtin TID_LONG TK_Long ''long'' TID_OBJECT \<circ>
      add_builtin TID_INT TK_Int ''int'' TID_OBJECT \<circ>
      add_builtin TID_BOOL TK_Bool ''bool'' TID_OBJECT \<circ>
      add_builtin TID_VOID TK_Void ''void'' (-1))
     \<lparr>type_table = replicate 12 default_info, by_name = (\<lambda>_. None)\<rparr>"

definition intern :: "string \<Rightarrow> type_kind \<Rightarrow> registry \<Rightarrow> type_id \<times> registry" where
  "intern name k r = (case by_name r name of
       Some tid \<Rightarrow> (tid, r)
     | None \<Rightarrow>
         (let tid = int (length (type_table r));
              ti = default_info\<lparr>ti_kind := k, ti_name := name, ti_parent := TID_OBJECT\<rparr>
          in (tid, r\<lparr>type_table := type_table r @ [ti], by_name := (by_name r)(name \<mapsto> tid)\<rparr>)))"

definition in_range :: "registry \<Rightarrow> type_id \<Rightarrow> bool" where
  "in_range r tid \<longleftrightarrow> 0 \<le> tid \<and> tid < int (length (type_table r))"

text \<open>Both overloads of \<open>info\<close> fall back to slot 0 (\<open>void\<close>) outside the table.\<close>

definition slot :: "registry \<Rightarrow> type_id \<Rightarrow> nat" where
  "slot r tid = (if in_range r tid then nat tid else 0)"

definition info :: "registry \<Rightarrow> type_id \<Rightarrow> type_info" where
  "info r tid = type_table r ! slot r tid"

definition update_info :: "type_id \<Rightarrow> (type_info \<Rightarrow> type_info) \<Rightarrow> registry \<Rightarrow> registry" where
  "update_info tid f r = r\<lparr>type_table := (type_table r)[slot r tid := f (info r tid)]\<rparr>"

definition from_name :: "registry \<Rightarrow> string \<Rightarrow> type_id" where
  "from_name r name =
     (if name = ''ptr'' then TID_OBJECT
      else case by_name r name of Some tid \<Rightarrow> tid | None \<Rightarrow> TID_UNKNOWN)"

definition from_type_expr :: "registry \<Rightarrow> type_expr \<Rightarrow> type_id" where
  "from_type_expr r te = from_name r (te_name te)"

definition set_parent :: "type_id \<Rightarrow> type_id \<Rightarrow> registry \<Rightarrow> registry" where
  "set_parent child parent r =
     (if in_range r child
      then r\<lparr>type_table := (type_table r)[nat child := (type_table r ! nat child)\<lparr>ti_parent := parent\<rparr>]\<rparr>
      else r)"

definition add_interface :: "type_id \<Rightarrow> type_id \<Rightarrow> registry \<Rightarrow> registry" where
  "add_interface cls iface r =
     (if in_range r cls
      then r\<lparr>type_table := (type_table r)[nat cls := (type_table r ! nat cls)
             \<lparr>ti_ifaces := ti_ifaces (type_table r ! nat cls) @ [iface]\<rparr>]\<rparr>
      else r)"

definition name_of :: "registry \<Rightarrow> type_id \<Rightarrow> string" where
  "name_of r tid =
     (if tid = TID_UNKNOWN then ''<unknown>''
      else if \<not> in_range r tid then ''<invalid>''
      else ti_name (type_table r ! nat tid))"

section \<open>Subtyping, assignability, unification\<close>

definition is_numeric :: "type_id \<Rightarrow> bool" where
  "is_numeric tid \<longleftrightarrow> tid = TID_INT \<or> tid = TID_LONG \<or> tid = TID_REAL \<or> tid = TID_DOUBLE \<or> tid = TID_BOOL"

definition is_integral :: "type_id \<Rightarrow> bool" where
  "is_integral tid \<longleftrightarrow> tid = TID_INT \<or> tid = TID_LONG \<or> tid = TID_BOOL"

text \<open>The body of the \<open>while\<close> loop of \<open>is_subtype\<close>, on the loop variable \<open>cur\<close>.\<close>

definition subtype_step :: "registry \<Rightarrow> type_id \<Rightarrow> type_id \<Rightarrow> bool + type_id" where
  "subtype_step r ancestor cur =
     (if \<not> (cur \<noteq> TID_UNKNOWN \<and> 0 \<le> cur) then Inl False
      else if cur = ancestor then Inl True
      else if ti_parent (info r cur) = cur then Inl False
      else Inr (ti_parent (info r cur)))"

definition is_subtype :: "registry \<Rightarrow> type_id \<Rightarrow> type_id \<Rightarrow> bool option" where
  "is_subtype r child ancestor =
     (if child = ancestor then Some True
      else if ancestor = TID_OBJECT then Some True
      else if child = TID_NULL then Some True
      else if child = TID_UNKNOWN \<or> ancestor = TID_UNKNOWN then Some True
      else iter_until (subtype_step r ancestor) child)"

definition is_class_or_iface :: "type_info \<Rightarrow> bool" where
  "is_class_or_iface ti \<longleftrightarrow> ti_kind ti = TK_Class \<or> ti_kind ti = TK_Interface"

definition assignable :: "registry \<Rightarrow> type_id \<Rightarrow> type_id \<Rightarrow> bool option" where
  "assignable r from to =
     (if from = TID_UNKNOWN \<or> to = TID_UNKNOWN then Some True
      else if from = to then Some True
      else if to = TID_OBJECT then Some True
      else if from = TID_OBJECT \<and> (to = TID_STR \<or> to = TID_LIST \<or> to = TID_DICT) then Some True
      else if from = TID_OBJECT \<and> is_class_or_iface (info r to) then Some True
      else if from = TID_NULL then
        Some (is_class_or_iface (info r to) \<or> to = TID_LIST \<or> to = TID_DICT \<or> to = TID_STR)
      else if is_numeric from \<and> is_numeric to then Some True
      else if from = TID_LIST \<and> to = TID_TUPLE then Some True
      else if 0 \<le> from \<and> ti_kind (info r from) = TK_Enum \<and> (to = TID_INT \<or> to = TID_LONG)
        then Some True
      else if 0 \<le> to \<and> ti_kind (info r to) = TK_Enum \<and> (from = TID_INT \<or> from = TID_LONG)
        then Some True
      else is_subtype r from to)"

definition rank :: "type_id \<Rightarrow> nat" where
  "rank t =
     (if t = TID_BOOL then 1 else if t = TID_INT then 2 else if t = TID_LONG then 3
      else if t = TID_REAL then 4 else if t = TID_DOUBLE then 5 else 0)"

definition unify :: "registry \<Rightarrow> type_id \<Rightarrow> type_id \<Rightarrow> type_id option" where
  "unify r a b =
     (if a = TID_UNKNOWN then Some b
      else if b = TID_UNKNOWN then Some a
      else if a = b then Some a
      else if a = TID_NULL then Some b
      else if b = TID_NULL then Some a
      else if 0 < rank a \<and> 0 < rank b then Some (if rank b \<le> rank a then a else b)
      else Option.bind (is_subtype r a b) (\<lambda>ab.
           if ab then Some b
           else Option.bind (is_subtype r b a) (\<lambda>ba.
                if ba then Some a else Some TID_OBJECT)))"

text \<open>\<open>satisfies\<close> recurs on the parent in tail position, so it is a loop on \<open>cls\<close>.\<close>

definition satisfies_step :: "registry \<Rightarrow> type_id \<Rightarrow> type_id \<Rightarrow> bool + type_id" where
  "satisfies_step r iface cls =
     (if cls = iface \<or> iface = TID_OBJECT then Inl True
      else if cls = TID_UNKNOWN \<or> iface = TID_UNKNOWN then Inl True
      else if \<not> in_range r cls then Inl False
      else if iface \<in> set (ti_ifaces (type_table r ! nat cls)) then Inl True
      else let par = ti_parent (type_table r ! nat cls)
           in if par \<noteq> cls \<and> 0 \<le> par \<and> par \<noteq> TID_UNKNOWN then Inr par else Inl False)"

definition satisfies :: "registry \<Rightarrow> type_id \<Rightarrow> type_id \<Rightarrow> bool option" where
  "satisfies r cls iface = iter_until (satisfies_step r iface) cls"

end
