(* ===== verification/Type_Lemmas.thy ===== *)
theory Type_Lemmas
  imports Type_Registry
begin

text \<open>
  Lemmas of the type table. The invariant \<open>registry_inv\<close> says that the table and the
  name index agree, that the built-in slots are where the \<open>TID_*\<close> constants point and
  that parents are table indices; every operation of the table keeps it. The parent
  chains are compared with reachability in the parent relation, and the loops over
  them are shown to end exactly when the relation is well founded from where they start.
\<close>

section \<open>The built-in table\<close>

definition builtin_kinds :: "type_kind list" where
  "builtin_kinds = [TK_Void, TK_Bool, TK_Int, TK_Long, TK_Real, TK_Double, TK_Str, TK_List,
     TK_Dict, TK_Tuple, TK_Object, TK_Null]"

definition builtin_names :: "string list" where
  "builtin_names = [''void'', ''bool'', ''int'', ''long'', ''real'', ''double'', ''str'', ''list'',
     ''dict'', ''tuple'', ''object'', ''null'']"

definition builtin_parents :: "type_id list" where
  "builtin_parents = [-1, 10, 10, 10, 10, 10, 10, 10, 10, 10, -1, -1]"

lemma new_registry_table:
  "type_table new_registry =
     map (\<lambda>(k, n, p). default_info\<lparr>ti_kind := k, ti_name := n, ti_parent := p\<rparr>)
       (zip builtin_kinds (zip builtin_names builtin_parents))"
  by (simp add: new_registry_def add_builtin_def builtin_kinds_def builtin_names_def
      builtin_parents_def numeral_eq_Suc)

lemma new_registry_names:
  "by_name new_registry = [''void'' \<mapsto> 0, ''bool'' \<mapsto> 1, ''int'' \<mapsto> 2, ''long'' \<mapsto> 3, ''real'' \<mapsto> 4,
     ''double'' \<mapsto> 5, ''str'' \<mapsto> 6, ''list'' \<mapsto> 7, ''dict'' \<mapsto> 8, ''tuple'' \<mapsto> 9, ''object'' \<mapsto> 10,
     ''null'' \<mapsto> 11]"
  by (simp add: new_registry_def add_builtin_def)

lemma length_new_registry [simp]: "length (type_table new_registry) = 12"
  by (simp add: new_registry_table builtin_kinds_def builtin_names_def builtin_parents_def)

section \<open>The invariant\<close>

definition builtins_ok :: "registry \<Rightarrow> bool" where
  "builtins_ok r \<longleftrightarrow> 12 \<le> length (type_table r) \<and>
     map ti_kind (take 12 (type_table r)) = builtin_kinds \<and>
     map ti_name (take 12 (type_table r)) = builtin_names"

definition index_sound :: "registry \<Rightarrow> bool" where
  "index_sound r \<longleftrightarrow> (\<forall>n i. by_name r n = Some i \<longrightarrow>
     in_range r i \<and> ti_name (type_table r ! nat i) = n)"

definition index_complete :: "registry \<Rightarrow> bool" where
  "index_complete r \<longleftrightarrow> (\<forall>i<length (type_table r).
     by_name r (ti_name (type_table r ! i)) = Some (int i))"

definition parents_ok :: "registry \<Rightarrow> bool" where
  "parents_ok r \<longleftrightarrow> (\<forall>i<length (type_table r).
     ti_parent (type_table r ! i) = -1 \<or> in_range r (ti_parent (type_table r ! i)))"

definition registry_inv :: "registry \<Rightarrow> bool" where
  "registry_inv r \<longleftrightarrow> builtins_ok r \<and> index_sound r \<and> index_complete r \<and> parents_ok r"

lemma in_range_nat: "in_range r i \<Longrightarrow> nat i < length (type_table r)"
  by (auto simp: in_range_def)

lemma registry_inv_length: "registry_inv r \<Longrightarrow> 12 \<le> length (type_table r)"
  by (simp add: registry_inv_def builtins_ok_def)

lemma registry_inv_nonempty: "registry_inv r \<Longrightarrow> type_table r \<noteq> []"
  by (auto dest: registry_inv_length)

lemma registry_inv_find:
  "registry_inv r \<Longrightarrow> by_name r n = Some i \<Longrightarrow> in_range r i \<and> ti_name (type_table r ! nat i) = n"
  by (simp add: registry_inv_def index_sound_def)

lemma registry_inv_index:
  "registry_inv r \<Longrightarrow> i < length (type_table r) \<Longrightarrow> by_name r (ti_name (type_table r ! i)) = Some (int i)"
  by (simp add: registry_inv_def index_complete_def)

lemma registry_inv_parent:
  "registry_inv r \<Longrightarrow> i < length (type_table r) \<Longrightarrow>
   ti_parent (type_table r ! i) = -1 \<or> in_range r (ti_parent (type_table r ! i))"
  by (simp add: registry_inv_def parents_ok_def)

lemma new_registry_inv: "registry_inv new_registry"
proof -
  have "builtins_ok new_registry"
    by (simp add: builtins_ok_def new_registry_table builtin_kinds_def builtin_names_def
        builtin_parents_def)
  moreover have "index_sound new_registry"
    by (auto simp: index_sound_def new_registry_names new_registry_table builtin_kinds_def
        builtin_names_def builtin_parents_def in_range_def upt_rec split: if_splits)
  moreover have "index_complete new_registry"
    by (auto simp: index_complete_def new_registry_names new_registry_table builtin_kinds_def
        builtin_names_def builtin_parents_def less_Suc_eq numeral_eq_Suc upt_rec)
  moreover have "parents_ok new_registry"
    by (auto simp: parents_ok_def new_registry_table builtin_kinds_def
        builtin_names_def builtin_parents_def in_range_def less_Suc_eq numeral_eq_Suc)
  ultimately show ?thesis by (simp add: registry_inv_def)
qed

lemma in_range_mono: "length (type_table r) \<le> length (type_table r') \<Longrightarrow> in_range r i \<Longrightarrow> in_range r' i"
  by (simp add: in_range_def)

lemma slot_less: "type_table r \<noteq> [] \<Longrightarrow> slot r i < length (type_table r)"
  by (auto simp: slot_def in_range_def)

lemma info_in_set: "type_table r \<noteq> [] \<Longrightarrow> info r i \<in> set (type_table r)"
  by (simp add: info_def slot_less)

lemma builtin_slot:
  assumes "registry_inv r" and "i < 12"
  shows "ti_kind (type_table r ! i) = builtin_kinds ! i" "ti_name (type_table r ! i) = builtin_names ! i"
proof -
  have "map ti_kind (take 12 (type_table r)) ! i = builtin_kinds ! i"
    "map ti_name (take 12 (type_table r)) ! i = builtin_names ! i"
    using assms(1) by (simp_all add: registry_inv_def builtins_ok_def)
  then show "ti_kind (type_table r ! i) = builtin_kinds ! i"
    "ti_name (type_table r ! i) = builtin_names ! i"
    using assms registry_inv_length [OF assms(1)] by simp_all
qed

lemma info_out_of_range:
  "registry_inv r \<Longrightarrow> \<not> in_range r i \<Longrightarrow> ti_kind (info r i) = TK_Void"
  using builtin_slot(1) [of r 0] by (simp add: info_def slot_def builtin_kinds_def)

text \<open>Interning a new name appends; interning a known one changes nothing.\<close>

lemma intern_known: "by_name r n = Some i \<Longrightarrow> intern n k r = (i, r)"
  by (simp add: intern_def)

lemma intern_new:
  "by_name r n = None \<Longrightarrow> intern n k r =
     (int (length (type_table r)),
      r\<lparr>type_table := type_table r @
           [default_info\<lparr>ti_kind := k, ti_name := n, ti_parent := TID_OBJECT\<rparr>],
        by_name := (by_name r)(n \<mapsto> int (length (type_table r)))\<rparr>)"
  by (simp add: intern_def Let_def)

lemma registry_inv_intern: "registry_inv r \<Longrightarrow> registry_inv (snd (intern n k r))"
proof (cases "by_name r n")
  case (Some i)
  assume "registry_inv r"
  with Some show ?thesis by (simp add: intern_known)
next
  case None
  assume inv: "registry_inv r"
  let ?r = "snd (intern n k r)"
  have len: "length (type_table ?r) = Suc (length (type_table r))"
    and old: "\<And>i. i < length (type_table r) \<Longrightarrow> type_table ?r ! i = type_table r ! i"
    by (simp_all add: intern_new [OF None] nth_append)
  have fresh: "i < length (type_table r) \<Longrightarrow> ti_name (type_table r ! i) \<noteq> n" for i
    using registry_inv_index [OF inv, of i] None by auto
  have "builtins_ok ?r"
    using inv by (simp add: registry_inv_def builtins_ok_def intern_new [OF None])
  moreover have "index_sound ?r"
    unfolding index_sound_def
  proof (intro allI impI)
    fix m i assume find: "by_name ?r m = Some i"
    show "in_range ?r i \<and> ti_name (type_table ?r ! nat i) = m"
    proof (cases "m = n")
      case True
      with find show ?thesis by (auto simp: intern_new [OF None] in_range_def)
    next
      case False
      with find have "by_name r m = Some i" by (simp add: intern_new [OF None])
      then have "in_range r i" "ti_name (type_table r ! nat i) = m"
        using registry_inv_find [OF inv] by auto
      then show ?thesis using old [of "nat i"] len by (auto simp: in_range_def)
    qed
  qed
  moreover have "index_complete ?r"
    using registry_inv_index [OF inv] fresh
    by (auto simp: index_complete_def intern_new [OF None] nth_append less_Suc_eq)
  moreover have "parents_ok ?r"
    using registry_inv_parent [OF inv] registry_inv_length [OF inv]
    by (fastforce simp: parents_ok_def intern_new [OF None] nth_append less_Suc_eq in_range_def)
  ultimately show ?thesis by (simp add: registry_inv_def)
qed

text \<open>Updates that keep the name, the kind and a parent in range keep the invariant.\<close>

lemma registry_inv_update:
  assumes inv: "registry_inv r" and j: "j < length (type_table r)"
    and name: "ti_name ti = ti_name (type_table r ! j)"
    and kind: "ti_kind ti = ti_kind (type_table r ! j)"
    and parent: "ti_parent ti = -1 \<or> in_range r (ti_parent ti)"
  shows "registry_inv (r\<lparr>type_table := (type_table r)[j := ti]\<rparr>)"
proof -
  let ?r = "r\<lparr>type_table := (type_table r)[j := ti]\<rparr>"
  have kinds: "map ti_kind (type_table ?r) = map ti_kind (type_table r)"
    and names: "map ti_name (type_table ?r) = map ti_name (type_table r)"
    using kind name j by (simp_all add: map_update list_update_same_conv)
  have range: "in_range ?r i = in_range r i" for i by (simp add: in_range_def)
  have at: "i < length (type_table r) \<Longrightarrow> ti_name (type_table ?r ! i) = ti_name (type_table r ! i)" for i
    using name j by (cases "i = j") simp_all
  have "builtins_ok ?r"
    using inv kinds names unfolding registry_inv_def builtins_ok_def
    by (simp flip: take_map)
  moreover have "index_sound ?r"
    unfolding index_sound_def range
  proof (intro allI impI)
    fix n i assume "by_name ?r n = Some i"
    then have "in_range r i" "ti_name (type_table r ! nat i) = n"
      using registry_inv_find [OF inv, of n i] by simp_all
    then show "in_range r i \<and> ti_name (type_table ?r ! nat i) = n"
      using at [of "nat i"] by (simp_all add: in_range_nat)
  qed
  moreover have "index_complete ?r"
    using registry_inv_index [OF inv] at by (auto simp: index_complete_def)
  moreover have "parents_ok ?r"
    using registry_inv_parent [OF inv] parent j
    by (auto simp: parents_ok_def range nth_list_update)
  ultimately show ?thesis by (simp add: registry_inv_def)
qed

lemma registry_inv_set_parent:
  "registry_inv r \<Longrightarrow> p = -1 \<or> in_range r p \<Longrightarrow> registry_inv (set_parent c p r)"
  by (auto simp: set_parent_def in_range_def intro!: registry_inv_update)

lemma registry_inv_add_interface: "registry_inv r \<Longrightarrow> registry_inv (add_interface c i r)"
  by (auto simp: add_interface_def in_range_def
      intro!: registry_inv_update dest: registry_inv_parent [where i = "nat c"])

lemma registry_inv_update_info:
  assumes inv: "registry_inv r"
    and "\<And>ti. ti_name (f ti) = ti_name ti" and "\<And>ti. ti_kind (f ti) = ti_kind ti"
    and "\<And>ti. ti_parent (f ti) = ti_parent ti"
  shows "registry_inv (update_info i f r)"
  unfolding update_info_def
  using assms registry_inv_parent [OF inv slot_less [OF registry_inv_nonempty [OF inv]]]
  by (intro registry_inv_update)
    (auto simp: info_def slot_less registry_inv_nonempty)

lemma in_range_builtin: "registry_inv r \<Longrightarrow> 0 \<le> i \<Longrightarrow> i < 12 \<Longrightarrow> in_range r i"
  using registry_inv_length [of r] by (auto simp: in_range_def)

lemma builtin_kind:
  "registry_inv r \<Longrightarrow> 0 \<le> i \<Longrightarrow> i < 12 \<Longrightarrow> ti_kind (info r i) = builtin_kinds ! nat i"
  using builtin_slot(1) [of r "nat i"] by (simp add: info_def slot_def in_range_builtin)

lemma builtin_kind_simps [simp]:
  assumes "registry_inv r"
  shows "ti_kind (info r TID_VOID) = TK_Void" "ti_kind (info r TID_BOOL) = TK_Bool"
    "ti_kind (info r TID_INT) = TK_Int" "ti_kind (info r TID_LONG) = TK_Long"
    "ti_kind (info r TID_REAL) = TK_Real" "ti_kind (info r TID_DOUBLE) = TK_Double"
    "ti_kind (info r TID_STR) = TK_Str" "ti_kind (info r TID_LIST) = TK_List"
    "ti_kind (info r TID_DICT) = TK_Dict" "ti_kind (info r TID_TUPLE) = TK_Tuple"
    "ti_kind (info r TID_OBJECT) = TK_Object" "ti_kind (info r TID_NULL) = TK_Null"
  using builtin_kind [OF assms] by (simp_all add: builtin_kinds_def)

lemma from_name_range:
  "registry_inv r \<Longrightarrow> from_name r n = -1 \<or> in_range r (from_name r n)"
  using registry_inv_find by (fastforce simp: from_name_def in_range_builtin split: option.splits)

section \<open>Interning as an interface\<close>

text \<open>
  What the checker relies on when it interns a name: the name is found afterwards,
  other names are unaffected, a known name is not entered twice, and an index has one
  name. The consequences are proved from these laws alone.
\<close>

locale intern_table =
  fixes put :: "'n \<Rightarrow> 'k \<Rightarrow> 't \<Rightarrow> 'i \<times> 't"
    and find :: "'t \<Rightarrow> 'n \<Rightarrow> 'i option"
    and name_at :: "'t \<Rightarrow> 'i \<Rightarrow> 'n"
    and inv :: "'t \<Rightarrow> bool"
  assumes put_inv: "inv t \<Longrightarrow> inv (snd (put n k t))"
    and find_put: "find (snd (put n k t)) n = Some (fst (put n k t))"
    and find_put_other: "m \<noteq> n \<Longrightarrow> find (snd (put n k t)) m = find t m"
    and put_known: "find t n = Some i \<Longrightarrow> put n k t = (i, t)"
    and name_find: "inv t \<Longrightarrow> find t n = Some i \<Longrightarrow> name_at t i = n"
begin

lemma find_kept: "find t m = Some i \<Longrightarrow> find (snd (put n k t)) m = Some i"
  by (cases "m = n") (simp_all add: put_known find_put_other)

lemma put_name: "inv t \<Longrightarrow> name_at (snd (put n k t)) (fst (put n k t)) = n"
  using name_find put_inv find_put by metis

lemma put_twice: "put n l (snd (put n k t)) = put n k t"
  using put_known [OF find_put [of n k t], of l] by simp

lemma find_injective: "inv t \<Longrightarrow> find t m = Some i \<Longrightarrow> find t n = Some i \<Longrightarrow> m = n"
  using name_find by metis

lemma fold_kept: "find t m = Some i \<Longrightarrow> find (fold (\<lambda>n t. snd (put n k t)) ns t) m = Some i"
  by (induction ns arbitrary: t) (simp_all add: find_kept)

lemma fold_inv: "inv t \<Longrightarrow> inv (fold (\<lambda>n t. snd (put n k t)) ns t)"
  by (induction ns arbitrary: t) (simp_all add: put_inv)

lemma fold_finds: "n \<in> set ns \<Longrightarrow> find (fold (\<lambda>n t. snd (put n k t)) ns t) n \<noteq> None"
proof (induction ns arbitrary: t)
  case Nil
  then show ?case by simp
next
  case (Cons m ns)
  then show ?case
    using find_put [of m k t] fold_kept [of "snd (put m k t)" m _ k ns] by (cases "n = m") auto
qed

end

lemma find_intern: "by_name (snd (intern n k r)) n = Some (fst (intern n k r))"
  by (cases "by_name r n") (simp_all add: intern_known intern_new)

lemma name_of_find: "registry_inv r \<Longrightarrow> by_name r n = Some i \<Longrightarrow> name_of r i = n"
  using registry_inv_find [of r n i] by (auto simp: name_of_def in_range_def)

interpretation types: intern_table intern by_name name_of registry_inv
proof unfold_locales
  fix m n :: string and k and t :: registry
  assume "m \<noteq> n"
  then show "by_name (snd (intern n k t)) m = by_name t m"
    by (cases "by_name t n") (simp_all add: intern_known intern_new)
qed (simp_all add: registry_inv_intern find_intern intern_known name_of_find)

section \<open>Parent chains\<close>

text \<open>
  \<open>parent_rel r\<close> has a pair \<open>(p, c)\<close> for every step a walk makes from \<open>c\<close> to its parent
  \<open>p\<close>; \<open>chain_ends r c\<close> says that no walk from \<open>c\<close> goes on for ever.
\<close>

definition parent_of :: "registry \<Rightarrow> type_id \<Rightarrow> type_id" where
  "parent_of r c = ti_parent (info r c)"

definition parent_rel :: "registry \<Rightarrow> (type_id \<times> type_id) set" where
  "parent_rel r = {(p, c). 0 \<le> c \<and> p = parent_of r c \<and> 0 \<le> p \<and> p \<noteq> c}"

definition descends :: "registry \<Rightarrow> type_id \<Rightarrow> type_id \<Rightarrow> bool" where
  "descends r c a \<longleftrightarrow> (a, c) \<in> (parent_rel r)\<^sup>*"

definition chain_ends :: "registry \<Rightarrow> type_id \<Rightarrow> bool" where
  "chain_ends r c \<longleftrightarrow> c \<in> Wellfounded.acc (parent_rel r)"

definition acyclic_types :: "registry \<Rightarrow> bool" where
  "acyclic_types r \<longleftrightarrow> wf (parent_rel r)"

lemma acyclic_chain_ends: "acyclic_types r \<Longrightarrow> chain_ends r c"
  by (simp add: acyclic_types_def chain_ends_def wf_iff_acc)

lemma descends_refl [simp]: "descends r c c"
  by (simp add: descends_def)

lemma descends_step:
  "0 \<le> c \<Longrightarrow> parent_of r c \<noteq> c \<Longrightarrow> 0 \<le> parent_of r c \<Longrightarrow> a \<noteq> c \<Longrightarrow>
   descends r c a \<longleftrightarrow> descends r (parent_of r c) a"
proof
  assume c: "0 \<le> c" "parent_of r c \<noteq> c" "0 \<le> parent_of r c" "a \<noteq> c"
  {
    assume "descends r c a"
    then have "(a, c) \<in> (parent_rel r)\<^sup>*" by (simp add: descends_def)
    then show "descends r (parent_of r c) a"
    proof cases
      case base
      with c show ?thesis by simp
    next
      case (step y)
      then show ?thesis by (simp add: parent_rel_def descends_def)
    qed
  next
    assume "descends r (parent_of r c) a"
    moreover have "(parent_of r c, c) \<in> parent_rel r" using c by (simp add: parent_rel_def)
    ultimately show "descends r c a" by (simp add: descends_def rtrancl.rtrancl_into_rtrancl)
  }
qed

lemma descends_stop:
  "parent_of r c = c \<or> parent_of r c < 0 \<or> c < 0 \<Longrightarrow> descends r c a \<longleftrightarrow> a = c"
proof
  assume stop: "parent_of r c = c \<or> parent_of r c < 0 \<or> c < 0" and "descends r c a"
  then have "(a, c) \<in> (parent_rel r)\<^sup>*" by (simp add: descends_def)
  then show "a = c" by cases (use stop in \<open>auto simp: parent_rel_def\<close>)
qed simp

text \<open>The loop of \<open>is_subtype\<close> decides reachability, and ends when the chain does.\<close>

lemma subtype_walk_result:
  assumes "iter_until (subtype_step r a) c = Some b" and "0 \<le> a"
  shows "b \<longleftrightarrow> descends r c a"
proof -
  obtain n where "takes (subtype_step r a) n c b" using iter_until_takes assms(1) by metis
  then show ?thesis
  proof (induction rule: takes.induct)
    case (takes_exit c b)
    then show ?case using assms(2) descends_stop [of r c a]
      by (auto simp: subtype_step_def parent_of_def split: if_splits)
  next
    case (takes_round c p n b)
    then have step: "0 \<le> c" "a \<noteq> c" "p \<noteq> c" "p = parent_of r c"
      by (auto simp: subtype_step_def parent_of_def split: if_splits)
    show ?case
    proof (cases "0 \<le> p")
      case True
      with step takes_round.IH show ?thesis by (simp add: descends_step)
    next
      case False
      then have "\<not> descends r c a" "\<not> descends r p a"
        using step assms(2) descends_stop [of r c a] descends_stop [of r p a] by auto
      with takes_round.IH show ?thesis by simp
    qed
  qed
qed

lemma walk_ends:
  assumes "chain_ends r c"
    and step: "\<And>c p. f c = Inr p \<Longrightarrow> (p, c) \<in> parent_rel r \<or> (\<exists>b. f p = Inl b)"
  shows "\<exists>b. iter_until f c = Some b"
  using assms(1) unfolding chain_ends_def
proof (induction c rule: acc.induct)
  case (accI c)
  show ?case
  proof (cases "f c")
    case (Inl b)
    then show ?thesis by (auto simp: iter_until_exit)
  next
    case (Inr p)
    then have "\<exists>b. iter_until f p = Some b"
      using step accI.IH iter_until_exit by metis
    with Inr show ?thesis by (simp add: iter_until_round)
  qed
qed

lemma subtype_walk_ends: "chain_ends r c \<Longrightarrow> \<exists>b. iter_until (subtype_step r a) c = Some b"
  by (erule walk_ends)
    (auto simp: subtype_step_def parent_rel_def parent_of_def not_le split: if_splits)

lemma satisfies_walk_ends: "chain_ends r c \<Longrightarrow> \<exists>b. iter_until (satisfies_step r a) c = Some b"
  by (erule walk_ends)
    (auto simp: satisfies_step_def Let_def parent_rel_def parent_of_def info_def slot_def
      in_range_def split: if_splits)

text \<open>On a cycle that misses the ancestor the loop never ends.\<close>

lemma subtype_walk_cycle:
  assumes "c \<in> C" and "a \<notin> C"
    and "\<And>x. x \<in> C \<Longrightarrow> 0 \<le> x \<and> parent_of r x \<in> C \<and> parent_of r x \<noteq> x"
  shows "iter_until (subtype_step r a) c = None"
  using assms(1)
proof (rule iter_until_diverges)
  fix x assume "x \<in> C"
  then have "0 \<le> x" "parent_of r x \<in> C" "parent_of r x \<noteq> x" "x \<noteq> a"
    using assms(2,3) by auto
  then show "\<exists>z\<in>C. subtype_step r a x = Inr z"
    by (intro bexI [of _ "parent_of r x"]) (auto simp: subtype_step_def parent_of_def)
qed

text \<open>Every walk stays in the table, so as many rounds as it has slots (and one) decide it.\<close>

lemma walk_closed:
  assumes "type_table r \<noteq> []" and "\<And>y z. f y = Inr z \<Longrightarrow> z \<in> ti_parent ` set (type_table r)"
  shows "iter_until f c = iter_fuel (Suc (length (type_table r))) f (c :: type_id)"
proof (rule iter_until_fuel)
  let ?S = "insert c (ti_parent ` set (type_table r))"
  show "c \<in> ?S" "finite ?S" by simp_all
  have "card ?S \<le> Suc (card (ti_parent ` set (type_table r)))" by (rule card_insert_le_m1) auto
  also have "\<dots> \<le> Suc (length (type_table r))"
    using card_image_le [of "set (type_table r)" ti_parent] card_length [of "type_table r"] by simp
  finally show "card ?S \<le> Suc (length (type_table r))" .
  show "closed_under f ?S" using assms(2) by (auto simp: closed_under_def)
qed

lemma subtype_walk_fuel:
  "type_table r \<noteq> [] \<Longrightarrow>
   iter_until (subtype_step r a) c = iter_fuel (Suc (length (type_table r))) (subtype_step r a) c"
  by (rule walk_closed) (auto simp: subtype_step_def info_in_set split: if_splits)

lemma satisfies_walk_fuel:
  "type_table r \<noteq> [] \<Longrightarrow>
   iter_until (satisfies_step r a) c = iter_fuel (Suc (length (type_table r))) (satisfies_step r a) c"
  by (rule walk_closed) (auto simp: satisfies_step_def Let_def in_range_def split: if_splits)

end
