(* ===== verification/Subtyping.thy ===== *)
theory Subtyping
  imports Type_Lemmas
begin

text \<open>
  What the predicates of the type table decide. \<open>is_subtype\<close>, \<open>assignable\<close>, \<open>unify\<close> and
  \<open>satisfies\<close> are compared with reachability along parents; they are total on an acyclic
  table and do not return on a cycle. \<open>unify\<close> is shown to give an upper bound, and not
  to depend on the order of its arguments when the table is a tree.
\<close>

section \<open>Acyclic tables\<close>

lemma parent_rel_intern:
  assumes "registry_inv r" and "by_name r n = None"
  shows "parent_rel (snd (intern n k r)) \<subseteq> insert (TID_OBJECT, int (length (type_table r))) (parent_rel r)"
proof -
  have "type_table r \<noteq> []" using assms(1) by (rule registry_inv_nonempty)
  then have "parent_of (snd (intern n k r)) c =
      (if c = int (length (type_table r)) then TID_OBJECT else parent_of r c)" for c
    by (auto simp: parent_of_def info_def slot_def in_range_def intern_new [OF assms(2)] nth_append)
  then show ?thesis by (auto simp: parent_rel_def split: if_splits)
qed

lemma parent_in_table: "registry_inv r \<Longrightarrow> parent_of r c \<noteq> int (length (type_table r))"
  using registry_inv_parent [of r "slot r c"] slot_less [of r c] registry_inv_nonempty [of r]
  by (auto simp: parent_of_def info_def in_range_def)

lemma acyclic_intern:
  assumes inv: "registry_inv r" and "acyclic_types r"
  shows "acyclic_types (snd (intern n k r))"
proof (cases "by_name r n")
  case (Some i)
  with assms show ?thesis by (simp add: intern_known)
next
  case None
  let ?n = "int (length (type_table r))"
  have "(?n, TID_OBJECT) \<notin> (parent_rel r)\<^sup>*"
  proof
    assume "(?n, TID_OBJECT) \<in> (parent_rel r)\<^sup>*"
    then show False
    proof (cases rule: converse_rtranclE)
      case base
      then show ?thesis using registry_inv_length [OF inv] by simp
    next
      case (step y)
      then show ?thesis using parent_in_table [OF inv, of y] by (auto simp: parent_rel_def)
    qed
  qed
  then have "wf (insert (TID_OBJECT, ?n) (parent_rel r))"
    using assms(2) by (simp add: acyclic_types_def wf_insert)
  then show ?thesis
    unfolding acyclic_types_def by (rule wf_subset) (rule parent_rel_intern [OF inv None])
qed

lemma parent_of_update_info:
  "type_table r \<noteq> [] \<Longrightarrow> (\<And>ti. ti_parent (f ti) = ti_parent ti) \<Longrightarrow>
   parent_of (update_info i f r) c = parent_of r c"
  by (auto simp: parent_of_def update_info_def info_def slot_def in_range_def nth_list_update)

lemma acyclic_update_info:
  "registry_inv r \<Longrightarrow> acyclic_types r \<Longrightarrow> (\<And>ti. ti_parent (f ti) = ti_parent ti) \<Longrightarrow>
   acyclic_types (update_info i f r)"
  unfolding acyclic_types_def parent_rel_def
  by (simp add: parent_of_update_info registry_inv_nonempty)

lemma parent_of_new_registry:
  "parent_of new_registry c \<in> {-1, TID_OBJECT} \<and> parent_of new_registry TID_OBJECT = -1"
proof -
  have "ti_parent ` set (type_table new_registry) \<subseteq> {-1, TID_OBJECT}"
    by (auto simp: new_registry_table builtin_kinds_def builtin_names_def builtin_parents_def)
  moreover have "info new_registry c \<in> set (type_table new_registry)"
    by (rule info_in_set) (metis length_new_registry list.size(3) zero_neq_numeral)
  moreover have "parent_of new_registry TID_OBJECT = -1"
    by (simp add: parent_of_def info_def slot_def in_range_def new_registry_table
        builtin_kinds_def builtin_names_def builtin_parents_def)
  ultimately show ?thesis by (auto simp: parent_of_def)
qed

lemma acyclic_new_registry: "acyclic_types new_registry"
proof -
  have "(p, c) \<in> parent_rel new_registry \<Longrightarrow> p = TID_OBJECT \<and> c \<noteq> TID_OBJECT" for p c
    using parent_of_new_registry [of c] by (auto simp: parent_rel_def)
  then have "parent_rel new_registry \<subseteq> measure (\<lambda>c. if c = TID_OBJECT then 0 else 1)"
    by (fastforce split: if_splits)
  then show ?thesis unfolding acyclic_types_def by (rule wf_subset [OF wf_measure])
qed

section \<open>Subtyping\<close>

lemma is_subtype_refl [simp]: "is_subtype r c c = Some True"
  by (simp add: is_subtype_def)

lemma is_subtype_ends: "chain_ends r c \<Longrightarrow> \<exists>b. is_subtype r c a = Some b"
  using subtype_walk_ends [of r c a] by (auto simp: is_subtype_def)

lemma is_subtype_descends:
  assumes "is_subtype r c a = Some b" and "0 \<le> c" and "c \<noteq> TID_NULL" and "0 \<le> a" and "a \<noteq> TID_OBJECT"
  shows "b \<longleftrightarrow> descends r c a"
  using assms subtype_walk_result [of r a c b] by (auto simp: is_subtype_def split: if_splits)

lemma is_subtype_trans:
  assumes "is_subtype r a b = Some True" and "is_subtype r b c = Some True"
    and "0 \<le> a" "0 \<le> b" "0 \<le> c" "a \<noteq> TID_NULL" "b \<noteq> TID_NULL" "b \<noteq> TID_OBJECT" "chain_ends r a"
  shows "is_subtype r a c = Some True"
proof (cases "c = TID_OBJECT")
  case True
  then show ?thesis by (simp add: is_subtype_def)
next
  case False
  have "descends r a b" "descends r b c"
    using assms False is_subtype_descends by blast+
  then have "descends r a c" by (simp add: descends_def)
  moreover obtain x where "is_subtype r a c = Some x" using is_subtype_ends assms(9) by blast
  ultimately show ?thesis using is_subtype_descends [of r a c x] assms False by simp
qed

lemma descends_antisym:
  assumes "acyclic_types r" and "descends r a b" and "descends r b a"
  shows "a = b"
proof (rule ccontr)
  assume "a \<noteq> b"
  with assms(2,3) have "(b, a) \<in> (parent_rel r)\<^sup>+" "(a, b) \<in> (parent_rel r)\<^sup>+"
    by (simp_all add: descends_def rtrancl_eq_or_trancl)
  then have "(a, a) \<in> (parent_rel r)\<^sup>+" by (rule trancl_trans [rotated])
  moreover have "acyclic (parent_rel r)" using assms(1) by (simp add: acyclic_types_def wf_acyclic)
  ultimately show False by (simp add: acyclic_def)
qed

lemma is_subtype_cycle:
  assumes "c \<in> C" and "a \<notin> C" and "a \<noteq> TID_OBJECT" and "0 \<le> a" and "TID_NULL \<notin> C"
    and "\<And>x. x \<in> C \<Longrightarrow> 0 \<le> x \<and> parent_of r x \<in> C \<and> parent_of r x \<noteq> x"
  shows "is_subtype r c a = None"
proof -
  have "c \<noteq> a" "c \<noteq> TID_NULL" "c \<noteq> TID_UNKNOWN" using assms(1,2,5) assms(6) [of c] by auto
  then show ?thesis
    using subtype_walk_cycle [of c C a r] assms by (simp add: is_subtype_def)
qed

section \<open>Assignability\<close>

lemma assignable_refl [simp]: "assignable r t t = Some True"
  by (simp add: assignable_def)

lemma assignable_object [simp]: "assignable r t TID_OBJECT = Some True"
  by (simp add: assignable_def)

lemma assignable_unknown [simp]:
  "assignable r TID_UNKNOWN t = Some True" "assignable r t TID_UNKNOWN = Some True"
  by (simp_all add: assignable_def)

lemma assignable_numeric: "is_numeric a \<Longrightarrow> is_numeric b \<Longrightarrow> assignable r a b = Some True"
  by (auto simp: assignable_def is_numeric_def)

lemma assignable_None: "assignable r a t = None \<Longrightarrow> is_subtype r a t = None"
  by (simp add: assignable_def split: if_splits)

lemma assignable_ends: "chain_ends r a \<Longrightarrow> \<exists>b. assignable r a t = Some b"
  using is_subtype_ends [of r a t] assignable_None [of r a t] by fastforce

lemma subtype_assignable:
  "is_subtype r a b = Some True \<Longrightarrow> a \<noteq> TID_NULL \<Longrightarrow> assignable r a b = Some True"
  by (auto simp: assignable_def)

lemma class_kind_not_builtin:
  assumes "registry_inv r" and "is_class_or_iface (info r t)" and "0 \<le> t"
  shows "12 \<le> t"
proof (rule ccontr)
  assume "\<not> 12 \<le> t"
  then have "ti_kind (info r t) = builtin_kinds ! nat t" "nat t < length builtin_kinds"
    using assms builtin_kind [of r t] by (simp_all add: builtin_kinds_def)
  then have "ti_kind (info r t) \<in> set builtin_kinds" by simp
  with assms(2) show False by (auto simp: is_class_or_iface_def builtin_kinds_def)
qed

lemma not_numeric_class: "12 \<le> t \<Longrightarrow> \<not> is_numeric t"
  by (simp add: is_numeric_def)

text \<open>Between two user types that are classes or interfaces, assignable is subtype.\<close>

lemma assignable_class:
  assumes inv: "registry_inv r" and "0 \<le> a" and "0 \<le> b"
    and "is_class_or_iface (info r a)" and "is_class_or_iface (info r b)"
  shows "assignable r a b = is_subtype r a b"
proof -
  have "12 \<le> a" "12 \<le> b" using class_kind_not_builtin assms by blast+
  moreover have "ti_kind (info r a) \<noteq> TK_Enum" "ti_kind (info r b) \<noteq> TK_Enum"
    using assms(4,5) by (auto simp: is_class_or_iface_def)
  ultimately show ?thesis by (auto simp: assignable_def is_numeric_def is_subtype_def)
qed

section \<open>Unification\<close>

lemma rank_pos: "0 < rank t \<longleftrightarrow> is_numeric t"
  by (simp add: rank_def is_numeric_def)

lemma rank_inj: "rank a = rank b \<Longrightarrow> 0 < rank a \<Longrightarrow> a = b"
  by (auto simp: rank_def split: if_splits)

lemma unify_numeric:
  "is_numeric a \<Longrightarrow> is_numeric b \<Longrightarrow>
   unify r a b = Some (if rank b \<le> rank a then a else b)"
proof -
  assume num: "is_numeric a" "is_numeric b"
  then have "a \<noteq> TID_UNKNOWN" "b \<noteq> TID_UNKNOWN" "a \<noteq> TID_NULL" "b \<noteq> TID_NULL"
    by (auto simp: is_numeric_def)
  with num show ?thesis by (auto simp: unify_def rank_pos)
qed

lemma unify_ends:
  assumes "chain_ends r a" and "chain_ends r b"
  shows "\<exists>c. unify r a b = Some c"
proof -
  obtain x y where "is_subtype r a b = Some x" "is_subtype r b a = Some y"
    using is_subtype_ends assms by blast
  then show ?thesis by (auto simp: unify_def)
qed

text \<open>The result is a type both operands may be assigned to.\<close>

lemma unify_upper:
  assumes "unify r a b = Some c" and "a \<noteq> TID_NULL" and "b \<noteq> TID_NULL"
  shows "assignable r a c = Some True \<and> assignable r b c = Some True"
proof -
  consider "a = TID_UNKNOWN" | "b = TID_UNKNOWN" "a \<noteq> TID_UNKNOWN" | "a = b"
    | "is_numeric a" "is_numeric b" | "\<not> (is_numeric a \<and> is_numeric b)" "a \<noteq> b"
      "a \<noteq> TID_UNKNOWN" "b \<noteq> TID_UNKNOWN"
    by blast
  then show ?thesis
  proof cases
    case 4
    with assms(1) have "c = a \<or> c = b" by (simp add: unify_numeric split: if_splits)
    with 4 show ?thesis by (auto simp: assignable_numeric)
  next
    case 5
    with assms obtain ab where ab: "is_subtype r a b = Some ab"
      "(if ab then Some b else Option.bind (is_subtype r b a)
         (\<lambda>ba. if ba then Some a else Some TID_OBJECT)) = Some c"
      by (auto simp: unify_def rank_pos bind_eq_Some_conv)
    show ?thesis
    proof (cases ab)
      case True
      with ab assms show ?thesis by (simp add: subtype_assignable)
    next
      case False
      with ab obtain ba where "is_subtype r b a = Some ba" "(if ba then a else TID_OBJECT) = c"
        by (auto simp: bind_eq_Some_conv split: if_splits)
      with assms show ?thesis by (cases ba) (auto simp: subtype_assignable)
    qed
  qed (use assms(1) in \<open>auto simp: unify_def split: if_splits\<close>)
qed

text \<open>On a tree rooted at \<open>object\<close> the order of the operands does not matter.\<close>

lemma subtype_both_ways:
  assumes "acyclic_types r" and "parent_of r TID_OBJECT = -1"
    and "is_subtype r a b = Some True" and "is_subtype r b a = Some True"
    and "0 \<le> a" "0 \<le> b" "a \<noteq> TID_NULL" "b \<noteq> TID_NULL"
  shows "a = b"
proof -
  have root: "descends r TID_OBJECT x \<Longrightarrow> x = TID_OBJECT" for x
    using descends_stop [of r TID_OBJECT x] assms(2) by simp
  consider "a = TID_OBJECT" | "b = TID_OBJECT" | "a \<noteq> TID_OBJECT" "b \<noteq> TID_OBJECT" by blast
  then show ?thesis
  proof cases
    case 1
    then show ?thesis using is_subtype_descends [of r a b True] assms root by fastforce
  next
    case 2
    then show ?thesis using is_subtype_descends [of r b a True] assms root by fastforce
  next
    case 3
    then have "descends r a b" "descends r b a"
      using is_subtype_descends assms by blast+
    then show ?thesis using descends_antisym assms(1) by blast
  qed
qed

lemma unify_commute:
  assumes "acyclic_types r" and "parent_of r TID_OBJECT = -1"
    and "-1 \<le> a" "-1 \<le> b"
  shows "unify r a b = unify r b a"
proof (cases "a = TID_UNKNOWN \<or> b = TID_UNKNOWN \<or> a = b \<or> a = TID_NULL \<or> b = TID_NULL")
  case True
  then show ?thesis by (auto simp: unify_def)
next
  case False
  then have ne: "0 \<le> a" "0 \<le> b" "a \<noteq> b" "a \<noteq> TID_NULL" "b \<noteq> TID_NULL" using assms(3,4) by auto
  obtain x y where xy: "is_subtype r a b = Some x" "is_subtype r b a = Some y"
    using is_subtype_ends acyclic_chain_ends assms(1) by blast
  then have "\<not> (x \<and> y)" using subtype_both_ways [of r a b] assms ne by auto
  moreover have "rank b = rank a \<Longrightarrow> rank a = 0" using rank_inj ne(3) by fastforce
  ultimately show ?thesis using False xy by (auto simp: unify_def)
qed

section \<open>Interface satisfaction\<close>

lemma satisfies_ends: "chain_ends r c \<Longrightarrow> \<exists>b. satisfies r c i = Some b"
  using satisfies_walk_ends by (simp add: satisfies_def)

lemma satisfies_result:
  assumes "satisfies r c i = Some True" and "0 \<le> c" and "i \<noteq> TID_UNKNOWN" and "i \<noteq> TID_OBJECT"
  shows "\<exists>a. descends r c a \<and> (a = i \<or> i \<in> set (ti_ifaces (info r a)))"
proof -
  obtain n where "takes (satisfies_step r i) n c True"
    using iter_until_takes assms(1) unfolding satisfies_def by metis
  then show ?thesis using assms(2)
  proof (induction n c "True" rule: takes.induct)
    case (takes_exit c)
    then show ?case using assms(3,4)
      by (intro exI [of _ c])
        (auto simp: satisfies_step_def info_def slot_def Let_def split: if_splits)
  next
    case (takes_round c p n)
    then have p: "0 \<le> p" "p \<noteq> c" "p = parent_of r c" "0 \<le> c"
      by (auto simp: satisfies_step_def parent_of_def info_def slot_def Let_def split: if_splits)
    then have "(p, c) \<in> parent_rel r" by (simp add: parent_rel_def)
    moreover obtain a where "descends r p a" "a = i \<or> i \<in> set (ti_ifaces (info r a))"
      using takes_round p by blast
    ultimately show ?case by (auto simp: descends_def intro: rtrancl.rtrancl_into_rtrancl)
  qed
qed

end
