(* ===== verification/Type_Properties.thy ===== *)
theory Type_Properties
  imports Subtyping
begin

text \<open>
  What the type table promises to the rest of the compiler: its reachable states, name
  interning, the subtype relation and its decision procedure, assignability, unification and
  interface satisfaction.
\<close>

section \<open>Reachable tables\<close>

text \<open>A table the operations build, with the parents the callers pass (unset, or a type).\<close>

inductive registry_reachable :: "registry \<Rightarrow> bool" where
  reach_new: "registry_reachable new_registry"
| reach_intern: "registry_reachable r \<Longrightarrow> registry_reachable (snd (intern n k r))"
| reach_parent: "registry_reachable r \<Longrightarrow> p = -1 \<or> in_range r p \<Longrightarrow> registry_reachable (set_parent c p r)"
| reach_interface: "registry_reachable r \<Longrightarrow> registry_reachable (add_interface c i r)"
| reach_update: "registry_reachable r \<Longrightarrow> (\<And>ti. ti_name (f ti) = ti_name ti \<and> ti_kind (f ti) = ti_kind ti \<and>
      ti_parent (f ti) = ti_parent ti) \<Longrightarrow> registry_reachable (update_info i f r)"

lemma reachable_inv: "registry_reachable r \<Longrightarrow> registry_inv r"
  by (induction rule: registry_reachable.induct)
    (simp_all add: new_registry_inv registry_inv_intern registry_inv_set_parent
      registry_inv_add_interface registry_inv_update_info)

text \<open>A new parent keeps the inheritance acyclic unless the child is among its ancestors.\<close>

lemma parent_of_set_parent:
  "registry_inv r \<Longrightarrow> in_range r c \<Longrightarrow> c \<noteq> TID_VOID \<Longrightarrow> parent_of (set_parent c p r) d = (if d = c then p else parent_of r d)"
  by (auto simp: set_parent_def parent_of_def info_def slot_def in_range_def nth_list_update
      parent_in_table eq_nat_nat_iff)

lemma acyclic_set_parent:
  assumes "registry_inv r" and "acyclic_types r" and "\<not> descends r p c" and "c \<noteq> TID_VOID"
  shows "acyclic_types (set_parent c p r)"
proof (cases "in_range r c")
  case True
  have "parent_rel (set_parent c p r) \<subseteq> insert (p, c) (parent_rel r)"
    by (auto simp: parent_rel_def parent_of_set_parent [OF assms(1) True assms(4)] split: if_splits)
  moreover have "wf (insert (p, c) (parent_rel r))"
    using assms(2,3) by (simp add: acyclic_types_def descends_def wf_insert)
  ultimately show ?thesis unfolding acyclic_types_def by (rule wf_subset [rotated])
qed (use assms(2) in \<open>simp add: set_parent_def\<close>)

text \<open>The table of \<open>interface Named\<close>, \<open>class Animal\<close>, \<open>class Dog : Animal, Named\<close>.\<close>

definition example_types :: registry where
  "example_types =
     add_interface 14 12 (set_parent 14 13 (snd (intern ''Dog'' TK_Class
       (snd (intern ''Animal'' TK_Class (snd (intern ''Named'' TK_Interface new_registry)))))))"

lemma example_reachable: "registry_reachable example_types"
  unfolding example_types_def
  by (intro registry_reachable.intros)
    (simp_all add: intern_def new_registry_names in_range_def Let_def)

lemma example_inv: "registry_inv example_types"
  by (rule reachable_inv) (rule example_reachable)

lemma example_table:
  "type_table example_types = type_table new_registry @
     [default_info\<lparr>ti_kind := TK_Interface, ti_name := ''Named'', ti_parent := 10\<rparr>,
      default_info\<lparr>ti_kind := TK_Class, ti_name := ''Animal'', ti_parent := 10\<rparr>,
      default_info\<lparr>ti_kind := TK_Class, ti_name := ''Dog'', ti_parent := 13, ti_ifaces := [12]\<rparr>]"
  by (simp add: example_types_def add_interface_def set_parent_def intern_def new_registry_names
      Let_def in_range_def nth_append list_update_append default_info_def)

lemma example_parents:
  "parent_of example_types 12 = 10" "parent_of example_types 13 = 10"
  "parent_of example_types 14 = 13" "parent_of example_types 10 = -1"
  by (simp_all add: parent_of_def info_def slot_def in_range_def example_table nth_append
      new_registry_table builtin_kinds_def builtin_names_def builtin_parents_def default_info_def)

lemma example_acyclic: "acyclic_types example_types"
proof -
  let ?r = "snd (intern ''Dog'' TK_Class
       (snd (intern ''Animal'' TK_Class (snd (intern ''Named'' TK_Interface new_registry)))))"
  have inv: "registry_inv ?r" and acyclic: "acyclic_types ?r"
    by (simp_all add: registry_inv_intern new_registry_inv acyclic_intern acyclic_new_registry)
  have parents: "parent_of ?r 13 = 10" "parent_of ?r 10 = -1"
    by (simp_all add: parent_of_def info_def slot_def in_range_def intern_def new_registry_names
        Let_def nth_append new_registry_table builtin_kinds_def builtin_names_def
        builtin_parents_def default_info_def)
  have "\<not> descends ?r 13 14"
    using parents by (simp add: descends_step [of 13] descends_stop [of _ 10])
  then have "acyclic_types (set_parent 14 13 ?r)"
    using inv acyclic by (intro acyclic_set_parent) simp_all
  moreover have "parent_of (add_interface 14 12 r) c = parent_of r c" for r c
    by (auto simp: add_interface_def parent_of_def info_def slot_def in_range_def nth_list_update)
  ultimately show ?thesis by (simp add: example_types_def acyclic_types_def parent_rel_def)
qed

lemma example_chain [simp]: "chain_ends example_types c"
  by (rule acyclic_chain_ends) (rule example_acyclic)

lemma descends_iff:
  "descends r c a \<longleftrightarrow> a = c \<or>
     0 \<le> c \<and> parent_of r c \<noteq> c \<and> 0 \<le> parent_of r c \<and> descends r (parent_of r c) a"
  using descends_step [of c r a] descends_stop [of r c a]
  by (cases "a = c"; cases "0 \<le> c \<and> parent_of r c \<noteq> c \<and> 0 \<le> parent_of r c") auto

lemma example_descends:
  "descends example_types 14 a \<longleftrightarrow> a = 14 \<or> a = 13 \<or> a = 10"
  "descends example_types 13 a \<longleftrightarrow> a = 13 \<or> a = 10"
  by (simp_all add: descends_iff [of _ 14] descends_iff [of _ 13] descends_iff [of _ 10] example_parents)

lemma example_names:
  "by_name example_types = (by_name new_registry)(''Named'' \<mapsto> 12, ''Animal'' \<mapsto> 13, ''Dog'' \<mapsto> 14)"
  by (simp add: example_types_def add_interface_def set_parent_def intern_def new_registry_names
      Let_def in_range_def)

text \<open>
  C25. Every state of the type table that the compiler can reach is consistent: the name index
  and the table are inverse to each other on all types, the built-in types are in their fixed
  slots, and every parent is a type of the table.
\<close>

theorem registry_always_consistent:
  assumes "registry_reachable r"
  shows "registry_inv r \<and>
    (\<forall>i. in_range r i \<longrightarrow> by_name r (name_of r i) = Some i) \<and>
    (\<forall>n i. by_name r n = Some i \<longrightarrow> in_range r i \<and> name_of r i = n)"
proof -
  have inv: "registry_inv r" using assms by (rule reachable_inv)
  then have "by_name r (name_of r i) = Some i" if "in_range r i" for i
    using registry_inv_index [OF inv, of "nat i"] that by (auto simp: name_of_def in_range_def)
  then show ?thesis using inv registry_inv_find [OF inv] name_of_find [OF inv] by blast
qed

lemma registry_always_consistent_witness:
  "registry_inv example_types \<and> by_name example_types (name_of example_types 14) = Some 14"
  using registry_always_consistent [OF example_reachable] by (simp add: in_range_def example_table)

text \<open>
  Interning is a round trip: the index it returns resolves from the name and names the type,
  asking again returns the same index and changes nothing (whatever the kind), every other name
  and every type that was there is untouched, and two names never share an index.
\<close>

theorem intern_round_trip:
  assumes "registry_inv r" and "n \<noteq> ''ptr''" and "intern n k r = (i, r')"
  shows "from_name r' n = i \<and> name_of r' i = n \<and> in_range r' i \<and> intern n l r' = (i, r') \<and>
    (\<forall>m. m \<noteq> n \<longrightarrow> by_name r' m = by_name r m) \<and> (\<forall>j. in_range r j \<longrightarrow> info r' j = info r j) \<and>
    (\<forall>m. by_name r' m = Some i \<longrightarrow> m = n)"
proof -
  have r': "r' = snd (intern n k r)" and i: "i = fst (intern n k r)" using assms(3) by simp_all
  have inv: "registry_inv r'" unfolding r' using assms(1) by (rule types.put_inv)
  have found: "by_name r' n = Some i" unfolding r' i by (rule types.find_put)
  have old: "info r' j = info r j" if "in_range r j" for j
    using that by (cases "by_name r n")
      (auto simp: r' intern_known intern_new info_def slot_def in_range_def nth_append)
  have twice: "intern n l r' = (i, r')"
    unfolding r' types.put_twice by (simp add: i)
  have other: "by_name r' m = by_name r m" if "m \<noteq> n" for m
    unfolding r' using that by (rule types.find_put_other)
  have name: "from_name r' n = i" using assms(2) found by (simp add: from_name_def)
  show ?thesis
    using name twice other old registry_inv_find [OF inv found] types.name_find [OF inv found]
      types.find_injective [OF inv _ found] by blast
qed

lemma intern_round_trip_witness:
  "from_name (snd (intern ''Cat'' TK_Class example_types)) ''Cat'' = 15 \<and>
   info (snd (intern ''Cat'' TK_Class example_types)) 14 = info example_types 14"
proof -
  have new: "intern ''Cat'' TK_Class example_types = (15, snd (intern ''Cat'' TK_Class example_types))"
    by (rule prod_eqI) (simp_all add: intern_def Let_def example_names new_registry_names example_table)
  have "''Cat'' \<noteq> ''ptr''" "in_range example_types 14" by (simp_all add: in_range_def example_table)
  then show ?thesis using intern_round_trip [OF example_inv _ new, of TK_Enum] by blast
qed

section \<open>Walks over the parents\<close>

lemma type_queries_up:
  assumes "chain_ends r c" and "0 \<le> c" and "c \<noteq> TID_NULL" and "0 \<le> a"
  shows "is_subtype r c a = Some (a = TID_OBJECT \<or> descends r c a)"
proof (cases "a = TID_OBJECT")
  case False
  then show ?thesis using is_subtype_ends [OF assms(1), of a] is_subtype_descends [of r c a] assms by force
qed (simp add: is_subtype_def)



text \<open>
  With acyclic inheritance every question the checker asks the type table is answered: the
  four walks terminate on all arguments.
\<close>

theorem type_queries_terminate:
  assumes "acyclic_types r"
  shows "(\<exists>b. is_subtype r a c = Some b) \<and> (\<exists>b. assignable r a c = Some b) \<and>
    (\<exists>t. unify r a c = Some t) \<and> (\<exists>b. satisfies r a c = Some b)"
  using acyclic_chain_ends [OF assms] is_subtype_ends assignable_ends unify_ends satisfies_ends
  by blast

lemma type_queries_terminate_witness: "\<exists>b. satisfies example_types 14 12 = Some b"
  using type_queries_terminate [OF example_acyclic] by blast

text \<open>
  The loop of \<open>is_subtype\<close> only stops for a type that is its own parent. On a longer
  cycle, as two classes that name each other as base produce, it never returns for any
  ancestor off the cycle.
\<close>

theorem is_subtype_hangs_on_cycle:
  assumes "registry_inv r" and "in_range r c" and "in_range r d" and "c \<noteq> d"
    and "12 \<le> c" and "12 \<le> d" and "0 \<le> a" and "a \<notin> {c, d, TID_OBJECT}"
  shows "is_subtype (set_parent d c (set_parent c d r)) c a = None"
proof -
  let ?r = "set_parent d c (set_parent c d r)"
  have inv: "registry_inv (set_parent c d r)" using assms(1,3) by (simp add: registry_inv_set_parent)
  have range: "in_range (set_parent c d r) d" using assms(3) by (simp add: set_parent_def in_range_def)
  have parents: "parent_of ?r c = d" "parent_of ?r d = c"
    using parent_of_set_parent [OF inv range] parent_of_set_parent [OF assms(1,2)] assms(4,5,6) by simp_all
  show ?thesis
    by (rule is_subtype_cycle [where C = "{c, d}"]) (use assms(4-8) parents in auto)
qed

lemma is_subtype_hangs_on_cycle_witness:
  "is_subtype (set_parent 14 13 (set_parent 13 14 example_types)) 13 TID_INT = None"
  using is_subtype_hangs_on_cycle [OF example_inv, of 13 14 TID_INT]
  by (simp add: in_range_def example_table)

section \<open>The order of types\<close>


text \<open>
  On acyclic inheritance, subtyping between proper types (neither unknown nor null) is a
  partial order with \<open>object\<close> on top.
\<close>

theorem subtype_partial_order:
  assumes "acyclic_types r" and "parent_of r TID_OBJECT = -1"
    and "0 \<le> a" "0 \<le> b" "0 \<le> c" "a \<noteq> TID_NULL" "b \<noteq> TID_NULL"
  shows "is_subtype r a a = Some True \<and> is_subtype r a TID_OBJECT = Some True \<and>
    (is_subtype r a b = Some True \<longrightarrow> is_subtype r b a = Some True \<longrightarrow> a = b) \<and>
    (is_subtype r a b = Some True \<longrightarrow> is_subtype r b c = Some True \<longrightarrow> is_subtype r a c = Some True)"
proof -
  have top: "descends r TID_OBJECT x \<longleftrightarrow> x = TID_OBJECT" for x
    using descends_stop [of r TID_OBJECT x] assms(2) by simp
  have "is_subtype r a c = Some True"
    if up: "is_subtype r a b = Some True" "is_subtype r b c = Some True"
  proof (cases "b = TID_OBJECT")
    case True
    then have "c = TID_OBJECT"
      using is_subtype_descends [OF up(2)] assms(4,5,7) top [of c] by auto
    then show ?thesis by (simp add: is_subtype_def)
  next
    case False
    then show ?thesis
      using is_subtype_trans [OF up assms(3,4,5,6,7) False acyclic_chain_ends [OF assms(1)]] by simp
  qed
  moreover have "is_subtype r a TID_OBJECT = Some True" by (simp add: is_subtype_def)
  ultimately show ?thesis using subtype_both_ways [OF assms(1,2) _ _ assms(3,4,6,7)] by auto
qed

lemma subtype_partial_order_witness:
  "is_subtype example_types 14 10 = Some True \<and> is_subtype example_types 13 14 = Some False"
proof -
  have up: "is_subtype example_types 14 13 = Some True" "is_subtype example_types 13 10 = Some True"
    "is_subtype example_types 13 14 \<noteq> None"
    using type_queries_up [of example_types 14 13] type_queries_up [of example_types 13 10]
      type_queries_up [of example_types 13 14] by (simp_all add: example_descends)
  then show ?thesis
    using subtype_partial_order [OF example_acyclic example_parents(4), of 14 13 10] by auto
qed

text \<open>
  Between two classes or interfaces the many special cases of \<open>assignable\<close> do not apply: it
  is subtyping, and so, when the chain ends, reachability through parents.
\<close>

theorem assignable_between_classes:
  assumes "registry_inv r" and "in_range r a" and "in_range r b"
    and "is_class_or_iface (info r a)" and "is_class_or_iface (info r b)"
  shows "assignable r a b = is_subtype r a b \<and>
    (chain_ends r a \<longrightarrow> assignable r a b = Some (descends r a b))"
proof -
  have pos: "0 \<le> a" "0 \<le> b" using assms(2,3) by (simp_all add: in_range_def)
  have eq: "assignable r a b = is_subtype r a b"
    using assms(1) pos assms(4,5) by (rule assignable_class)
  have user: "12 \<le> a" "12 \<le> b" using class_kind_not_builtin assms(1,4,5) pos by blast+
  have "is_subtype r a b = Some (descends r a b)" if "chain_ends r a"
    using is_subtype_ends [OF that, of b] is_subtype_descends [of r a b] user by force
  then show ?thesis using eq by simp
qed

lemma assignable_between_classes_witness:
  "assignable example_types 14 13 = Some True \<and> is_subtype example_types 13 14 = Some False"
  using assignable_between_classes [OF example_inv, of 14 13]
    assignable_between_classes [OF example_inv, of 13 14]
  by (simp add: in_range_def info_def slot_def example_table nth_append is_class_or_iface_def
      example_descends, auto)

text \<open>
  Unification does not depend on the order of its operands; its result is one both operands
  can be assigned to; between numbers it is the one of the higher rank.
\<close>

theorem unify_is_common_supertype:
  assumes "acyclic_types r" and "parent_of r TID_OBJECT = -1" and "-1 \<le> a" "-1 \<le> b"
    and "unify r a b = Some c"
  shows "unify r b a = Some c \<and>
    (a \<noteq> TID_NULL \<longrightarrow> b \<noteq> TID_NULL \<longrightarrow> assignable r a c = Some True \<and> assignable r b c = Some True) \<and>
    (is_numeric a \<longrightarrow> is_numeric b \<longrightarrow> c \<in> {a, b} \<and> rank a \<le> rank c \<and> rank b \<le> rank c)"
  using unify_commute [OF assms(1,2,3,4)] unify_upper [OF assms(5)] unify_numeric [of a b r] assms(5)
  by (auto split: if_splits)

lemma unify_is_common_supertype_witness:
  "unify example_types TID_INT TID_DOUBLE = Some TID_DOUBLE \<and>
   unify example_types TID_DOUBLE TID_INT = Some TID_DOUBLE"
proof -
  have "unify example_types TID_INT TID_DOUBLE = Some TID_DOUBLE" by (simp add: unify_def rank_def)
  then show ?thesis
    using unify_is_common_supertype [OF example_acyclic example_parents(4), of TID_INT TID_DOUBLE] by simp
qed

text \<open>
  Interface satisfaction, the test behind a generic bound, looks for the interface on the
  class and on all its ancestors.
\<close>

theorem satisfies_searches_ancestors:
  assumes "registry_inv r" and "chain_ends r c" and "in_range r c"
    and "i \<noteq> TID_UNKNOWN" and "i \<noteq> TID_OBJECT"
  shows "satisfies r c i = Some (\<exists>a. descends r c a \<and> (a = i \<or> i \<in> set (ti_ifaces (info r a))))"
  using assms(2,3) unfolding chain_ends_def
proof (induction c rule: acc.induct)
  case (accI c)
  have c: "0 \<le> c" "c \<noteq> TID_UNKNOWN" and at: "type_table r ! nat c = info r c"
    using accI.prems by (simp_all add: in_range_def info_def slot_def)
  have par: "ti_parent (info r c) = parent_of r c" by (simp add: parent_of_def)
  show ?case
  proof (cases "c \<noteq> i \<and> i \<notin> set (ti_ifaces (info r c)) \<and> parent_of r c \<noteq> c \<and> 0 \<le> parent_of r c")
    case True
    have "in_range r (parent_of r c)"
      using registry_inv_parent [OF assms(1), of "nat c"] True accI.prems at
      by (auto simp: parent_of_def in_range_def)
    moreover have "(parent_of r c, c) \<in> parent_rel r" using True c by (simp add: parent_rel_def)
    moreover have "satisfies r c i = satisfies r (parent_of r c) i"
      using True c accI.prems assms(4,5)
      by (simp add: satisfies_def iter_until_round satisfies_step_def at par Let_def)
    ultimately have "satisfies r c i =
        Some (\<exists>a. descends r (parent_of r c) a \<and> (a = i \<or> i \<in> set (ti_ifaces (info r a))))"
      using accI.IH by simp
    then show ?thesis using True c descends_iff [of r c] by auto
  next
    case False
    then have "satisfies r c i = Some (c = i \<or> i \<in> set (ti_ifaces (info r c)))"
      using c accI.prems assms(4,5)
      by (auto simp: satisfies_def iter_until_exit satisfies_step_def at par Let_def)
    then show ?thesis using False descends_iff [of r c] by auto
  qed
qed

lemma example_ifaces:
  "ti_ifaces (info example_types 14) = [12]" "ti_ifaces (info example_types 13) = []"
  "ti_ifaces (info example_types 10) = []"
  by (simp_all add: in_range_def info_def slot_def example_table nth_append default_info_def
      new_registry_table builtin_kinds_def builtin_names_def builtin_parents_def)

lemma satisfies_searches_ancestors_witness:
  "satisfies example_types 14 12 = Some True \<and> satisfies example_types 13 12 = Some False"
proof -
  have "in_range example_types 14" "in_range example_types 13"
    by (simp_all add: in_range_def example_table)
  then show ?thesis
    using satisfies_searches_ancestors [OF example_inv example_chain, of 14 12]
      satisfies_searches_ancestors [OF example_inv example_chain, of 13 12]
    by (auto simp: example_descends example_ifaces)
qed

end
