(* ===== verification/Symbols.thy ===== *)
theory Symbols
  imports Type_Registry
begin

text \<open>
  Symbols and scopes of \<^verbatim>\<open>src/sema/symbol.hpp\<close> and \<^verbatim>\<open>src/sema/symbol.cpp\<close>. A scope is an
  \<open>unordered_map\<close> entered with \<open>emplace\<close>, so the first definition of a name stays; it is
  kept as an association list in insertion order (the code iterates it once, in an order
  it does not fix). The vector of scopes is a list with the current scope first and the
  global scope last; the parent of a scope is the next element. What clients
  rely on is the interface \<open>symbol_table\<close>.
\<close>

section \<open>Symbols\<close>

datatype sym_kind =
  SK_Var | SK_Param | SK_Function | SK_Class | SK_Interface | SK_Namespace | SK_BuiltIn

text \<open>The non-owning pointer \<open>decl\<close> is a copy of the declaration, which nothing moves or changes.\<close>

record symbol =
  sy_name :: string
  sy_kind :: sym_kind
  sy_type :: type_id
  sy_return_type :: type_id
  sy_params :: "(string \<times> type_id) list"
  sy_decl :: "decl option"
  sy_loc :: source_loc
  sy_is_const :: bool
  sy_is_async :: bool

text \<open>\<open>Symbol s;\<close> with its default member initialisers.\<close>

definition default_symbol :: symbol where
  "default_symbol = \<lparr>sy_name = [], sy_kind = SK_Var, sy_type = TID_UNKNOWN,
     sy_return_type = TID_UNKNOWN, sy_params = [], sy_decl = None,
     sy_loc = SourceLoc [] 0 0, sy_is_const = False, sy_is_async = False\<rparr>"

section \<open>Scopes\<close>

record scope =
  is_class_scope :: bool
  symbols :: "(string \<times> symbol) list"

definition new_scope :: "bool \<Rightarrow> scope" where
  "new_scope is_class = \<lparr>is_class_scope = is_class, symbols = []\<rparr>"

definition scope_lookup :: "scope \<Rightarrow> string \<Rightarrow> symbol option" where
  "scope_lookup sc name = map_of (symbols sc) name"

definition scope_define :: "string \<Rightarrow> symbol \<Rightarrow> scope \<Rightarrow> bool \<times> scope" where
  "scope_define name sy sc = (case scope_lookup sc name of
       Some _ \<Rightarrow> (False, sc)
     | None \<Rightarrow> (True, sc\<lparr>symbols := symbols sc @ [(name, sy)]\<rparr>))"

section \<open>The scope stack\<close>

type_synonym scope_stack = "scope list"

definition new_stack :: scope_stack where
  "new_stack = [new_scope False]"

definition push_scope :: "bool \<Rightarrow> scope_stack \<Rightarrow> scope_stack" where
  "push_scope is_class st = new_scope is_class # st"

definition pop_scope :: "scope_stack \<Rightarrow> scope_stack" where
  "pop_scope st = (if 1 < length st then tl st else st)"

fun stack_define :: "string \<Rightarrow> symbol \<Rightarrow> scope_stack \<Rightarrow> bool \<times> scope_stack" where
  "stack_define name sy [] = (False, [])"
| "stack_define name sy (sc # st) =
     (let (inserted, sc') = scope_define name sy sc in (inserted, sc' # st))"

fun stack_lookup :: "scope_stack \<Rightarrow> string \<Rightarrow> symbol option" where
  "stack_lookup [] name = None"
| "stack_lookup (sc # st) name = (case scope_lookup sc name of
       Some sy \<Rightarrow> Some sy
     | None \<Rightarrow> stack_lookup st name)"

definition lookup_current :: "scope_stack \<Rightarrow> string \<Rightarrow> symbol option" where
  "lookup_current st name = (case st of [] \<Rightarrow> None | sc # _ \<Rightarrow> scope_lookup sc name)"

text \<open>\<open>global_scope().define\<close> and \<open>global_scope().lookup\<close>.\<close>

fun global_define :: "string \<Rightarrow> symbol \<Rightarrow> scope_stack \<Rightarrow> scope_stack" where
  "global_define name sy [] = []"
| "global_define name sy [sc] = [snd (scope_define name sy sc)]"
| "global_define name sy (sc # sc' # st) = sc # global_define name sy (sc' # st)"

definition global_lookup :: "scope_stack \<Rightarrow> string \<Rightarrow> symbol option" where
  "global_lookup st name = (if st = [] then None else scope_lookup (last st) name)"

definition depth :: "scope_stack \<Rightarrow> nat" where
  "depth st = length st"

section \<open>The interface\<close>

locale symbol_table =
  fixes push pop :: "'t \<Rightarrow> 't"
    and enter :: "'n \<Rightarrow> 'x \<Rightarrow> 't \<Rightarrow> bool \<times> 't"
    and current :: "'t \<Rightarrow> 'n \<Rightarrow> 'x option"
    and lookup :: "'t \<Rightarrow> 'n \<Rightarrow> 'x option"
    and ok nested :: "'t \<Rightarrow> bool"
  assumes nested_push: "ok t \<Longrightarrow> nested (push t)"
    and nested_enter: "nested t \<Longrightarrow> nested (snd (enter n x t))"
    and pop_push: "ok t \<Longrightarrow> pop (push t) = t"
    and pop_enter: "nested t \<Longrightarrow> pop (snd (enter n x t)) = pop t"
    and current_push: "current (push t) n = None"
    and enter_result: "nested t \<Longrightarrow> fst (enter n x t) \<longleftrightarrow> current t n = None"
    and current_enter: "nested t \<Longrightarrow> current (snd (enter n x t)) m =
          (if m = n \<and> current t n = None then Some x else current t m)"
    and lookup_split: "nested t \<Longrightarrow> lookup t n =
          (case current t n of Some x \<Rightarrow> Some x | None \<Rightarrow> lookup (pop t) n)"
begin

definition enter_all :: "('n \<times> 'x) list \<Rightarrow> 't \<Rightarrow> 't" where
  "enter_all ds t = fold (\<lambda>(n, x) t. snd (enter n x t)) ds t"

lemma enter_all_simps [simp]:
  "enter_all [] t = t"
  "enter_all ((n, x) # ds) t = enter_all ds (snd (enter n x t))"
  by (simp_all add: enter_all_def)

lemma lookup_push: "ok t \<Longrightarrow> lookup (push t) n = lookup t n"
  by (simp add: lookup_split nested_push current_push pop_push)

lemma nested_enter_all: "nested t \<Longrightarrow> nested (enter_all ds t)"
  by (induction ds arbitrary: t) (auto simp: nested_enter)

lemma pop_enter_all: "nested t \<Longrightarrow> pop (enter_all ds t) = pop t"
  by (induction ds arbitrary: t) (auto simp: nested_enter pop_enter)

text \<open>Whatever a block declares is gone when the block is left.\<close>

lemma block_restores: "ok t \<Longrightarrow> pop (enter_all ds (push t)) = t"
  by (simp add: pop_enter_all nested_push pop_push)

lemma current_enter_all:
  "nested t \<Longrightarrow> current (enter_all ds t) n =
     (case current t n of Some x \<Rightarrow> Some x | None \<Rightarrow> map_of ds n)"
  by (induction ds arbitrary: t) (auto simp: nested_enter current_enter split: option.splits)

text \<open>Inside a block the first declaration of a name is seen, and the enclosing one otherwise.\<close>

lemma block_lookup:
  "ok t \<Longrightarrow> lookup (enter_all ds (push t)) n =
     (case map_of ds n of Some x \<Rightarrow> Some x | None \<Rightarrow> lookup t n)"
  by (simp add: lookup_split [of "enter_all ds (push t)"] nested_enter_all nested_push
      current_enter_all current_push block_restores split: option.split)

lemma block_accepts:
  "ok t \<Longrightarrow> fst (enter n x (enter_all ds (push t))) \<longleftrightarrow> n \<notin> fst ` set ds"
  by (simp add: enter_result nested_enter_all nested_push current_enter_all current_push map_of_eq_None_iff)

end

section \<open>The stack provides the interface\<close>

lemma scope_lookup_define:
  "scope_lookup (snd (scope_define n x sc)) m =
     (if m = n \<and> scope_lookup sc n = None then Some x else scope_lookup sc m)"
  by (auto simp: scope_define_def scope_lookup_def map_of_append map_add_def split: option.splits)

lemma scope_define_result: "fst (scope_define n x sc) \<longleftrightarrow> scope_lookup sc n = None"
  by (auto simp: scope_define_def split: option.splits)

lemma stack_define_Cons:
  "stack_define n x (sc # st) = (fst (scope_define n x sc), snd (scope_define n x sc) # st)"
  by (simp add: case_prod_beta)

definition nested_stack :: "scope_stack \<Rightarrow> bool" where
  "nested_stack st \<longleftrightarrow> 1 < length st"

text \<open>A stack with a scope above the global one; the stack is never empty.\<close>

lemma nested_stackE:
  assumes "nested_stack st"
  obtains sc sc' rest where "st = sc # sc' # rest"
  using assms by (cases st; cases "tl st") (auto simp: nested_stack_def)

lemma nested_push_scope: "st \<noteq> [] \<Longrightarrow> nested_stack (push_scope c st)"
  by (cases st) (simp_all add: nested_stack_def push_scope_def)

lemma pop_push_scope: "st \<noteq> [] \<Longrightarrow> pop_scope (push_scope c st) = st"
  by (cases st) (simp_all add: pop_scope_def push_scope_def)

lemma lookup_current_push: "lookup_current (push_scope c st) n = None"
  by (simp add: lookup_current_def push_scope_def new_scope_def scope_lookup_def)

lemma nested_stack_define: "nested_stack st \<Longrightarrow> nested_stack (snd (stack_define n x st))"
  by (erule nested_stackE) (simp add: nested_stack_def stack_define_Cons del: stack_define.simps)

lemma pop_stack_define: "nested_stack st \<Longrightarrow> pop_scope (snd (stack_define n x st)) = pop_scope st"
  by (erule nested_stackE) (simp add: pop_scope_def stack_define_Cons del: stack_define.simps)

interpretation scopes: symbol_table "push_scope c" pop_scope stack_define lookup_current
  stack_lookup "\<lambda>st. st \<noteq> []" nested_stack for c
proof unfold_locales
  fix t n x
  assume "nested_stack t"
  then show "fst (stack_define n x t) \<longleftrightarrow> lookup_current t n = None"
    by (auto elim!: nested_stackE simp: lookup_current_def stack_define_Cons scope_define_result
        simp del: stack_define.simps)
next
  fix t n x m
  assume "nested_stack t"
  then show "lookup_current (snd (stack_define n x t)) m =
      (if m = n \<and> lookup_current t n = None then Some x else lookup_current t m)"
    by (auto elim!: nested_stackE simp: lookup_current_def stack_define_Cons scope_lookup_define
        simp del: stack_define.simps)
next
  fix t n
  assume "nested_stack t"
  then show "stack_lookup t n = (case lookup_current t n of
      Some x \<Rightarrow> Some x | None \<Rightarrow> stack_lookup (pop_scope t) n)"
    by (auto elim!: nested_stackE simp: lookup_current_def pop_scope_def split: option.split)
qed (simp_all add: nested_push_scope nested_stack_define pop_push_scope pop_stack_define
    lookup_current_push)

lemma length_stack_define [simp]: "length (snd (stack_define n x st)) = length st"
  by (cases st) (simp_all add: case_prod_beta)

lemma length_global_define [simp]: "length (global_define n x st) = length st"
  by (induction n x st rule: global_define.induct) simp_all

lemma length_push_scope [simp]: "length (push_scope c st) = Suc (length st)"
  by (simp add: push_scope_def)

lemma length_pop_scope: "length (pop_scope st) = (if 1 < length st then length st - 1 else length st)"
  by (simp add: pop_scope_def)

end
