(* ===== verification/Driver.thy ===== *)
theory Driver
  imports Ast Loops
begin

text \<open>
  The diagnostics of \<^verbatim>\<open>src/driver/driver.cpp\<close>: the state a \<open>Driver\<close> keeps, the text it
  writes to standard error, and the error limit that turns the twentieth error into
  the exception \<open>DiagnosticAbort\<close>. The invariant of the file is that an operation
  that returns leaves fewer errors than the limit.
\<close>

section \<open>State and output\<close>

record driver =
  filename :: string
  source_lines :: "string list"
  driver_errors :: nat
  stderr_out :: string

text \<open>A fresh \<open>Driver\<close>, and what \<open>Driver::parse\<close> resets before it reads a file.\<close>

definition new_driver :: driver where
  "new_driver = \<lparr>filename = [], source_lines = [], driver_errors = 0, stderr_out = []\<rparr>"

definition parse_reset :: "string \<Rightarrow> string list \<Rightarrow> driver \<Rightarrow> driver" where
  "parse_reset fname src d = d\<lparr>
     filename := fname,
     driver_errors := 0,
     source_lines := (if fname = [] \<or> fname = ''-'' then [] else src)\<rparr>"

definition kMaxErrors :: nat where
  "kMaxErrors = 20"

text \<open>\<open>yy::location\<close>: begin and end, each a line and a column (unsigned in the code).\<close>

record location =
  begin_line :: nat
  begin_col :: nat
  end_line :: nat
  end_col :: nat

definition shown_name :: "driver \<Rightarrow> string" where
  "shown_name d = (if filename d = [] then ''<stdin>'' else filename d)"

definition newline :: string where
  "newline = [CHR 0x0A]"

text \<open>
  \<open>Driver::emit_diagnostic\<close>: the headline, then the source line with a caret under the
  start column and, for a span of several columns on one line, tildes after it.
\<close>

definition caret_line :: "location \<Rightarrow> string" where
  "caret_line l =
     (let col = max 1 (begin_col l);
          span = int (end_col l) - int col
      in replicate (4 + (col - 1)) (CHR '' '') @ ''^'' @
         (if begin_line l = end_line l \<and> 1 < span
          then replicate (nat (span - 1)) (CHR ''~'') else []) @ newline)"

definition diagnostic_text :: "driver \<Rightarrow> location \<Rightarrow> string \<Rightarrow> string \<Rightarrow> string" where
  "diagnostic_text d l severity msg =
     shown_name d @ '':'' @ show_nat (begin_line l) @ '':'' @ show_nat (begin_col l) @ '': '' @
     severity @ '': '' @ msg @ newline @
     (if 1 \<le> begin_line l \<and> begin_line l \<le> length (source_lines d)
      then ''    '' @ (source_lines d ! (begin_line l - 1)) @ newline @ caret_line l
      else [])"

definition write_err :: "string \<Rightarrow> driver \<Rightarrow> driver" where
  "write_err txt d = d\<lparr>stderr_out := stderr_out d @ txt\<rparr>"

definition emit_diagnostic :: "location \<Rightarrow> string \<Rightarrow> string \<Rightarrow> (driver, unit) prog" where
  "emit_diagnostic l severity msg =
     modify (\<lambda>d. write_err (diagnostic_text d l severity msg) d)"

section \<open>Errors and warnings\<close>

text \<open>\<open>throw DiagnosticAbort{}\<close>.\<close>

definition throw_abort :: "('s, 'a) prog" where
  "throw_abort = (\<lambda>s. Thrown s)"

definition driver_error_at :: "location \<Rightarrow> string \<Rightarrow> (driver, unit) prog" where
  "driver_error_at l msg =
     then_s (emit_diagnostic l ''error'' msg) (
     then_s (modify (\<lambda>d. d\<lparr>driver_errors := driver_errors d + 1\<rparr>)) (
     bind_s (gets (\<lambda>d. kMaxErrors \<le> driver_errors d)) (\<lambda>limit.
     if limit
     then then_s (modify (\<lambda>d. write_err
            (shown_name d @ '': fatal: too many errors, aborting'' @ newline) d)) throw_abort
     else ret ())))"

definition driver_warning_at :: "location \<Rightarrow> string \<Rightarrow> (driver, unit) prog" where
  "driver_warning_at l msg = emit_diagnostic l ''warning'' msg"

text \<open>The overloads for an AST location: an empty span, with 1 for an unset line or column.\<close>

definition point_location :: "source_loc \<Rightarrow> location" where
  "point_location sl =
     (let ln = (if 0 < loc_line sl then nat (loc_line sl) else 1);
          col = (if 0 < loc_col sl then nat (loc_col sl) else 1)
      in \<lparr>begin_line = ln, begin_col = col, end_line = ln, end_col = col\<rparr>)"

definition driver_error :: "source_loc \<Rightarrow> string \<Rightarrow> (driver, unit) prog" where
  "driver_error sl msg = driver_error_at (point_location sl) msg"

definition driver_warning :: "source_loc \<Rightarrow> string \<Rightarrow> (driver, unit) prog" where
  "driver_warning sl msg = driver_warning_at (point_location sl) msg"

text \<open>\<open>Driver::make_loc\<close>: the location a node of the tree is given.\<close>

definition make_loc :: "location \<Rightarrow> driver \<Rightarrow> source_loc" where
  "make_loc l d = SourceLoc (filename d) (int (begin_line l)) (int (begin_col l))"

lemmas driver_defs = emit_diagnostic_def write_err_def throw_abort_def driver_error_at_def
  driver_warning_at_def driver_error_def driver_warning_def

section \<open>Properties\<close>

lemma driver_errors_write [simp]: "driver_errors (write_err t d) = driver_errors d"
  by (simp add: write_err_def)

lemma filename_write [simp]: "filename (write_err t d) = filename d"
  by (simp add: write_err_def)

lemma driver_warning_outcome:
  "driver_warning sl msg d =
     Returned () (write_err (diagnostic_text d (point_location sl) ''warning'' msg) d)"
  by (simp add: driver_defs prog_defs)

text \<open>What \<open>error\<close> does on each side of the limit.\<close>

lemma driver_error_below:
  "Suc (driver_errors d) < kMaxErrors \<Longrightarrow>
   driver_error sl msg d =
     Returned () (write_err (diagnostic_text d (point_location sl) ''error'' msg) d
       \<lparr>driver_errors := Suc (driver_errors d)\<rparr>)"
  by (simp add: driver_defs prog_defs)

lemma driver_error_limit:
  "kMaxErrors \<le> Suc (driver_errors d) \<Longrightarrow> \<exists>d'. driver_error sl msg d = Thrown d'"
  by (simp add: driver_defs prog_defs)

lemma driver_error_cases:
  obtains d' where "driver_error sl msg d = Returned () d'"
      "driver_errors d' = Suc (driver_errors d)" "Suc (driver_errors d) < kMaxErrors"
  | d' where "driver_error sl msg d = Thrown d'"
      "driver_errors d' = Suc (driver_errors d)" "kMaxErrors \<le> Suc (driver_errors d)"
  by (cases "kMaxErrors \<le> Suc (driver_errors d)") (simp_all add: driver_defs prog_defs)

text \<open>The invariant of the component: an operation that returns has not reached the limit.\<close>

definition below_limit :: "driver \<Rightarrow> bool" where
  "below_limit d \<longleftrightarrow> driver_errors d < kMaxErrors"

lemma below_limit_new: "below_limit new_driver"
  by (simp add: below_limit_def new_driver_def kMaxErrors_def)

lemma below_limit_parse: "below_limit (parse_reset f src d)"
  by (simp add: below_limit_def parse_reset_def kMaxErrors_def)

lemma below_limit_error: "driver_error sl msg d = Returned () d' \<Longrightarrow> below_limit d'"
  by (rule driver_error_cases [of sl msg d]) (auto simp: below_limit_def)

lemma below_limit_warning: "driver_warning sl msg d = Returned () d' \<Longrightarrow> below_limit d \<Longrightarrow> below_limit d'"
  by (auto simp: driver_warning_outcome below_limit_def)

lemma make_loc_point:
  "1 \<le> begin_line l \<Longrightarrow> 1 \<le> begin_col l \<Longrightarrow>
   begin_line (point_location (make_loc l d)) = begin_line l \<and>
   begin_col (point_location (make_loc l d)) = begin_col l"
  by (simp add: make_loc_def point_location_def Let_def)

end
