(* ===== verification/Scope_Properties.thy ===== *)
theory Scope_Properties
  imports Symbols Driver
begin

text \<open>
  What the scope stack and the driver promise: block structure, a refinement of the abstract
  environment, the error limit and the shape of a diagnostic.
\<close>

section \<open>Block structure\<close>

definition define_all :: "(string \<times> symbol) list \<Rightarrow> scope_stack \<Rightarrow> scope_stack" where
  "define_all ds st = fold (\<lambda>(x, sy) st. snd (stack_define x sy st)) ds st"

text \<open>
  C23. Blocks nest: whatever a block defines is gone when it is left; inside it a name means its
  first definition in the block, and what it meant outside when the block has none; a
  definition is refused exactly when the block already has one of that name.
\<close>

theorem block_scoping:
  assumes "st \<noteq> []"
  shows "pop_scope (define_all ds (push_scope c st)) = st \<and>
    stack_lookup (define_all ds (push_scope c st)) x =
      (case map_of ds x of Some sy \<Rightarrow> Some sy | None \<Rightarrow> stack_lookup st x) \<and>
    (fst (stack_define x sy (define_all ds (push_scope c st))) \<longleftrightarrow> x \<notin> fst ` set ds)"
  using scopes.block_restores [OF assms, where c = c and ds = ds]
    scopes.block_lookup [OF assms, where c = c and ds = ds and n = x]
    scopes.block_accepts [OF assms, where c = c and ds = ds and n = x and x = sy]
  by (simp add: define_all_def scopes.enter_all_def)

lemma block_scoping_witness:
  "stack_lookup (define_all [(''x'', default_symbol), (''x'', default_symbol\<lparr>sy_type := 2\<rparr>)]
     (push_scope False new_stack)) ''x'' = Some default_symbol"
  using block_scoping [of new_stack "[(''x'', default_symbol), (''x'', default_symbol\<lparr>sy_type := 2\<rparr>)]"
      False "''x''"] by (simp add: new_stack_def)

section \<open>The abstract environment\<close>

text \<open>An environment is a list of partial maps, the innermost first.\<close>

type_synonym environment = "(string \<Rightarrow> symbol option) list"

definition env_of :: "scope_stack \<Rightarrow> environment" where
  "env_of st = map (\<lambda>sc. map_of (symbols sc)) st"

fun env_lookup :: "environment \<Rightarrow> string \<Rightarrow> symbol option" where
  "env_lookup [] x = None"
| "env_lookup (m # e) x = (if x \<in> dom m then m x else env_lookup e x)"

text \<open>A map that keeps the binding it has.\<close>

definition bind_first :: "string \<Rightarrow> symbol \<Rightarrow> (string \<Rightarrow> symbol option) \<Rightarrow> (string \<Rightarrow> symbol option)" where
  "bind_first x sy m = (if x \<in> dom m then m else m(x \<mapsto> sy))"

lemma symbols_define:
  "map_of (symbols (snd (scope_define x sy sc))) = bind_first x sy (map_of (symbols sc))"
  using scope_lookup_define [of x sy sc] unfolding scope_lookup_def
  by (auto simp: bind_first_def fun_eq_iff)

text \<open>
  C24. The stack of scopes implements the abstract environment: every operation on scopes is the
  operation on partial maps, through \<open>env_of\<close>.
\<close>

theorem scopes_refine_environment:
  "env_of new_stack = [Map.empty] \<and>
   env_of (push_scope c st) = Map.empty # env_of st \<and>
   env_of (pop_scope (sc # st)) = (if st = [] then env_of [sc] else env_of st) \<and>
   stack_lookup st x = env_lookup (env_of st) x \<and>
   env_of (snd (stack_define x sy (sc # st))) =
     bind_first x sy (hd (env_of (sc # st))) # tl (env_of (sc # st)) \<and>
   (fst (stack_define x sy (sc # st)) \<longleftrightarrow> x \<notin> dom (hd (env_of (sc # st)))) \<and>
   env_of (global_define x sy (st @ [sc])) = env_of st @ [bind_first x sy (map_of (symbols sc))] \<and>
   global_lookup (st @ [sc]) x = map_of (symbols sc) x"
proof -
  have "stack_lookup st x = env_lookup (env_of st) x"
    by (induction st) (auto simp: env_of_def scope_lookup_def split: option.split)
  moreover have "env_of (global_define x sy (st @ [sc])) = env_of st @ [bind_first x sy (map_of (symbols sc))]"
    by (induction st rule: induct_list012) (simp_all add: env_of_def symbols_define)
  ultimately show ?thesis
    by (auto simp: env_of_def new_stack_def new_scope_def push_scope_def pop_scope_def
        stack_define_Cons symbols_define scope_define_result scope_lookup_def global_lookup_def
        simp del: stack_define.simps)
qed

section \<open>Diagnostics\<close>

text \<open>
  C31. The driver tolerates nineteen errors: a sequence of reports returns exactly when the count
  stays below the limit, with every report counted, and otherwise throws at the twentieth.
\<close>

theorem error_limit:
  assumes "below_limit d"
  shows "if driver_errors d + length es < kMaxErrors
    then \<exists>d'. for_each (\<lambda>(l, msg). driver_error l msg) es d = Returned () d' \<and>
           driver_errors d' = driver_errors d + length es
    else \<exists>d'. for_each (\<lambda>(l, msg). driver_error l msg) es d = Thrown d' \<and>
           driver_errors d' = kMaxErrors"
  using assms
proof (induction es arbitrary: d)
  case Nil
  then show ?case by (simp add: below_limit_def ret_def)
next
  case (Cons e es)
  obtain l msg where e: "e = (l, msg)" by (cases e)
  show ?case
  proof (cases rule: driver_error_cases [of l msg d])
    case (1 d')
    then have "below_limit d'" by (simp add: below_limit_def)
    then show ?thesis using Cons.IH [of d'] 1 e by (auto simp: then_s_def bind_s_def)
  next
    case (2 d')
    then show ?thesis using Cons.prems e by (auto simp: then_s_def bind_s_def below_limit_def)
  qed
qed

lemma error_limit_witness:
  "\<exists>d'. for_each (\<lambda>(l, msg). driver_error l msg) (replicate 20 (SourceLoc [] 1 1, ''bad'')) new_driver =
     Thrown d' \<and> driver_errors d' = 20"
  using error_limit [OF below_limit_new, of "replicate 20 (SourceLoc [] 1 1, ''bad'')"]
  by (simp add: kMaxErrors_def new_driver_def)

text \<open>
  The caret of a diagnostic stands under the column it reports: after the indentation, the
  caret line has it at the place where the quoted source line has that column's character.
\<close>

theorem caret_under_column:
  assumes "1 \<le> begin_line l" and "begin_line l \<le> length (source_lines d)"
    and "src = source_lines d ! (begin_line l - 1)"
    and "1 \<le> begin_col l" and "begin_col l \<le> length src"
  shows "\<exists>headline. diagnostic_text d l severity msg =
      headline @ newline @ (''    '' @ src) @ newline @ caret_line l \<and>
    (''    '' @ src) ! (begin_col l + 3) = src ! (begin_col l - 1) \<and>
    caret_line l ! (begin_col l + 3) = CHR ''^'' \<and>
    (\<forall>i<begin_col l + 3. caret_line l ! i = CHR '' '')"
proof -
  have "(''    '' @ src) ! (begin_col l + 3) = src ! (begin_col l - 1)"
    using assms(4) nth_append_length_plus [of "''    ''" src "begin_col l - 1"] by simp
  moreover have "4 + (begin_col l - 1) = begin_col l + 3" using assms(4) by simp
  ultimately show ?thesis
    using assms unfolding diagnostic_text_def caret_line_def
    by (simp add: Let_def max_def nth_append flip: append_assoc)
qed

lemma caret_under_column_witness:
  "caret_line \<lparr>begin_line = 1, begin_col = 3, end_line = 1, end_col = 5\<rparr> ! 6 = CHR ''^''"
  using caret_under_column [of "\<lparr>begin_line = 1, begin_col = 3, end_line = 1, end_col = 5\<rparr>"
      "new_driver\<lparr>source_lines := [''x = y'']\<rparr>" "''x = y''"] by simp

text \<open>
  A location put into the tree and read back by a later diagnostic is the start of the
  original one, and a location without line or column is reported at 1.
\<close>

lemma location_round_trip:
  "point_location (make_loc l d) =
     l\<lparr>begin_line := max 1 (begin_line l), begin_col := max 1 (begin_col l),
       end_line := max 1 (begin_line l), end_col := max 1 (begin_col l)\<rparr> \<and>
   loc_file (make_loc l d) = filename d"
  by (cases l) (auto simp: point_location_def make_loc_def Let_def)

end
