(* ===== verification/Sema_State.thy ===== *)
theory Sema_State
  imports Driver Symbols Subtyping
begin

text \<open>
  The state of a \<open>Sema\<close> object (\<^verbatim>\<open>src/sema/sema.hpp\<close>) and the helpers every check uses
  (\<^verbatim>\<open>src/sema/sema.cpp\<close>): the reporting of diagnostics, scopes, type expressions and the
  \<open>require_*\<close> tests. The driver the class refers to is a field of the state.
\<close>

section \<open>State\<close>

record sema =
  drv :: driver
  reg :: registry
  stack :: scope_stack
  current_return_type :: type_id
  current_class_name :: string
  current_class_type :: type_id
  in_loop :: bool
  in_unsafe :: bool
  in_await :: bool
  sema_errors :: nat

text \<open>Text in single quotes, as every message shows names.\<close>

definition quoted :: "string \<Rightarrow> string" where
  "quoted s = [CHR 0x27] @ s @ [CHR 0x27]"

section \<open>Diagnostics\<close>

definition err :: "source_loc \<Rightarrow> string \<Rightarrow> (sema, unit) prog" where
  "err loc msg =
     then_s (on_field drv (\<lambda>d s. s\<lparr>drv := d\<rparr>) (driver_error loc msg))
       (modify (\<lambda>s. s\<lparr>sema_errors := sema_errors s + 1\<rparr>))"

definition warn :: "source_loc \<Rightarrow> string \<Rightarrow> (sema, unit) prog" where
  "warn loc msg = on_field drv (\<lambda>d s. s\<lparr>drv := d\<rparr>) (driver_warning loc msg)"

section \<open>Scopes\<close>

definition lookup_sym :: "string \<Rightarrow> (sema, symbol option) prog" where
  "lookup_sym name = gets (\<lambda>s. stack_lookup (stack s) name)"

definition define_sym :: "string \<Rightarrow> symbol \<Rightarrow> (sema, bool) prog" where
  "define_sym name sy = (\<lambda>s.
     Returned (fst (stack_define name sy (stack s))) (s\<lparr>stack := snd (stack_define name sy (stack s))\<rparr>))"

definition define_global :: "string \<Rightarrow> symbol \<Rightarrow> (sema, unit) prog" where
  "define_global name sy = modify (\<lambda>s. s\<lparr>stack := global_define name sy (stack s)\<rparr>)"

text \<open>A definition whose result the code ignores, and one that reports a duplicate.\<close>

definition declare_sym :: "string \<Rightarrow> symbol \<Rightarrow> (sema, unit) prog" where
  "declare_sym name sy = bind_s (define_sym name sy) (\<lambda>_. ret ())"

definition define_or_err :: "string \<Rightarrow> symbol \<Rightarrow> source_loc \<Rightarrow> string \<Rightarrow> (sema, unit) prog" where
  "define_or_err name sy loc msg =
     bind_s (define_sym name sy) (\<lambda>inserted. guarded (\<not> inserted) (err loc msg))"

text \<open>\<open>scopes_.push(c); body; scopes_.pop();\<close>.\<close>

definition scoped :: "bool \<Rightarrow> (sema, 'a) prog \<Rightarrow> (sema, 'a) prog" where
  "scoped c m =
     then_s (modify (\<lambda>s. s\<lparr>stack := push_scope c (stack s)\<rparr>)) (
     bind_s m (\<lambda>r.
     then_s (modify (\<lambda>s. s\<lparr>stack := pop_scope (stack s)\<rparr>)) (ret r)))"

text \<open>The members that are saved, set and restored around a sub-check.\<close>

definition with_loop :: "bool \<Rightarrow> (sema, 'a) prog \<Rightarrow> (sema, 'a) prog" where
  "with_loop = with_field in_loop (\<lambda>b s. s\<lparr>in_loop := b\<rparr>)"

definition with_unsafe :: "bool \<Rightarrow> (sema, 'a) prog \<Rightarrow> (sema, 'a) prog" where
  "with_unsafe = with_field in_unsafe (\<lambda>b s. s\<lparr>in_unsafe := b\<rparr>)"

definition with_await :: "bool \<Rightarrow> (sema, 'a) prog \<Rightarrow> (sema, 'a) prog" where
  "with_await = with_field in_await (\<lambda>b s. s\<lparr>in_await := b\<rparr>)"

definition with_return_type :: "type_id \<Rightarrow> (sema, 'a) prog \<Rightarrow> (sema, 'a) prog" where
  "with_return_type = with_field current_return_type (\<lambda>t s. s\<lparr>current_return_type := t\<rparr>)"

definition with_class :: "string \<Rightarrow> type_id \<Rightarrow> (sema, 'a) prog \<Rightarrow> (sema, 'a) prog" where
  "with_class name t = with_field (\<lambda>s. (current_class_name s, current_class_type s))
     (\<lambda>(n, u) s. s\<lparr>current_class_name := n, current_class_type := u\<rparr>) (name, t)"

section \<open>The type table\<close>

definition intern_s :: "string \<Rightarrow> type_kind \<Rightarrow> (sema, type_id) prog" where
  "intern_s name k = (\<lambda>s. Returned (fst (intern name k (reg s))) (s\<lparr>reg := snd (intern name k (reg s))\<rparr>))"

definition update_type :: "type_id \<Rightarrow> (type_info \<Rightarrow> type_info) \<Rightarrow> (sema, unit) prog" where
  "update_type i f = modify (\<lambda>s. s\<lparr>reg := update_info i f (reg s)\<rparr>)"

definition name_type :: "string \<Rightarrow> (sema, type_id) prog" where
  "name_type n = gets (\<lambda>s. from_name (reg s) n)"

definition type_name :: "type_id \<Rightarrow> (sema, string) prog" where
  "type_name t = gets (\<lambda>s. name_of (reg s) t)"

text \<open>\<open>__fn(T1,...,Tn)->R\<close>.\<close>

definition fn_signature :: "string list \<Rightarrow> string \<Rightarrow> string" where
  "fn_signature params result = ''__fn('' @ join_with '','' params @ '')->'' @ result"

text \<open>A function type gets its return and parameter types the first time it is seen.\<close>

definition fill_fn_info :: "registry \<Rightarrow> type_expr \<Rightarrow> type_info \<Rightarrow> type_info" where
  "fill_fn_info r te ti =
     (if ti_return_type ti < 0
      then ti\<lparr>ti_return_type := from_name r (te_fn_ret te),
              ti_param_types := ti_param_types ti @ map (\<lambda>p. from_name r (te_name p)) (te_fn_params te)\<rparr>
      else ti)"

definition type_from_te :: "type_expr \<Rightarrow> (sema, type_id) prog" where
  "type_from_te te =
     (if te_name te = ''ptr'' then ret TID_OBJECT
      else if te_name te = ''__fn'' then
        bind_s (intern_s (fn_signature (map te_name (te_fn_params te)) (te_fn_ret te)) TK_Function) (\<lambda>i.
        bind_s (gets reg) (\<lambda>r.
        then_s (update_type i (fill_fn_info r te)) (ret i)))
      else gets (\<lambda>s. from_type_expr (reg s) te))"

definition param_symbols :: "param list \<Rightarrow> (sema, (string \<times> type_id) list) prog" where
  "param_symbols = map_s (\<lambda>p. bind_s (type_from_te (param_type p)) (\<lambda>t. ret (param_name p, t)))"

section \<open>Requirements\<close>

definition assignable_s :: "type_id \<Rightarrow> type_id \<Rightarrow> (sema, bool) prog" where
  "assignable_s from to = run_loop (\<lambda>s. assignable (reg s) from to)"

definition require_assignable ::
  "type_id \<Rightarrow> type_id \<Rightarrow> source_loc \<Rightarrow> string \<Rightarrow> (sema, bool) prog" where
  "require_assignable from to loc ctx =
     bind_s (assignable_s from to) (\<lambda>ok.
     if ok then ret True
     else bind_s (gets in_unsafe) (\<lambda>unsafe.
     if unsafe \<and> (from = TID_OBJECT \<or> to = TID_OBJECT) then ret True
     else bind_s (type_name from) (\<lambda>nf.
     bind_s (type_name to) (\<lambda>nt.
     then_s (err loc (ctx @ '': cannot assign '' @ quoted nf @ '' to '' @ quoted nt)) (ret False)))))"

definition require_numeric :: "type_id \<Rightarrow> source_loc \<Rightarrow> string \<Rightarrow> (sema, bool) prog" where
  "require_numeric t loc ctx =
     (if t = TID_UNKNOWN \<or> is_numeric t then ret True
      else bind_s (type_name t) (\<lambda>n.
           then_s (err loc (ctx @ '': expected numeric type, got '' @ quoted n)) (ret False)))"

definition require_bool :: "type_id \<Rightarrow> source_loc \<Rightarrow> string \<Rightarrow> (sema, bool) prog" where
  "require_bool t loc ctx =
     (if t = TID_UNKNOWN \<or> t = TID_BOOL then ret True
      else bind_s (assignable_s t TID_BOOL) (\<lambda>ok.
           if ok then ret True
           else bind_s (type_name t) (\<lambda>n.
                then_s (warn loc (ctx @ '': condition is '' @ quoted n @ '', expected '' @ quoted ''bool''))
                  (ret True))))"

section \<open>The constructor\<close>

definition builtin_symbol :: "string \<Rightarrow> type_id \<Rightarrow> (string \<times> type_id) list \<Rightarrow> symbol" where
  "builtin_symbol name result params = default_symbol\<lparr>sy_name := name, sy_kind := SK_BuiltIn,
     sy_type := result, sy_return_type := result, sy_params := params\<rparr>"

definition builtin_class :: "string \<Rightarrow> type_id \<Rightarrow> symbol" where
  "builtin_class name t = default_symbol\<lparr>sy_name := name, sy_kind := SK_Class, sy_type := t\<rparr>"

definition builtin_symbols :: "symbol list" where
  "builtin_symbols = [
     builtin_symbol ''println'' TID_VOID [(''value'', TID_OBJECT)],
     builtin_symbol ''print'' TID_VOID [(''value'', TID_OBJECT)],
     builtin_symbol ''readline'' TID_STR [],
     builtin_symbol ''len'' TID_INT [(''x'', TID_OBJECT)],
     builtin_symbol ''str'' TID_STR [(''x'', TID_OBJECT)],
     builtin_symbol ''int'' TID_INT [(''x'', TID_OBJECT)],
     builtin_symbol ''double'' TID_DOUBLE [(''x'', TID_OBJECT)],
     builtin_symbol ''range'' TID_LIST [(''end'', TID_INT)],
     builtin_symbol ''assert'' TID_VOID [(''cond'', TID_BOOL)],
     builtin_symbol ''__fstr_to_str'' TID_STR [(''x'', TID_OBJECT)],
     builtin_class ''object'' TID_OBJECT,
     builtin_class ''any'' TID_OBJECT]"

definition new_sema :: "driver \<Rightarrow> sema" where
  "new_sema d = \<lparr>drv = d, reg = new_registry,
     stack = fold (\<lambda>sy st. snd (stack_define (sy_name sy) sy st)) builtin_symbols new_stack,
     current_return_type = TID_VOID, current_class_name = [], current_class_type = TID_UNKNOWN,
     in_loop = False, in_unsafe = False, in_await = False, sema_errors = 0\<rparr>"

lemmas sema_state_defs = err_def warn_def lookup_sym_def define_sym_def define_global_def
  declare_sym_def define_or_err_def scoped_def with_loop_def with_unsafe_def with_await_def
  with_return_type_def with_class_def intern_s_def update_type_def name_type_def type_name_def
  type_from_te_def param_symbols_def assignable_s_def require_assignable_def
  require_numeric_def require_bool_def

end
