(* ===== verification/Sema_Rules.thy ===== *)
theory Sema_Rules
  imports Sema_State
begin

text \<open>
  The typing rules of \<^verbatim>\<open>src/sema/sema.cpp\<close> that do not descend into the tree: what each
  check does with the types of its operands. The traversal that calls them is in
  \<open>Sema_Check\<close>.
\<close>

section \<open>Operator methods\<close>

definition op_methods :: "string \<Rightarrow> string option" where
  "op_methods = map_of [
     (''+'', ''operator__add''), (''-'', ''operator__sub''),
     (''*'', ''operator__mul''), (''/'', ''operator__div''),
     (''=='', ''operator__eq''), (''!='', ''operator__ne''),
     (''<'', ''operator__lt''), (''<='', ''operator__le''),
     (''>'', ''operator__gt''), (''>='', ''operator__ge'')]"

text \<open>The first method of that name among the members of a class.\<close>

fun find_method :: "string \<Rightarrow> class_member list \<Rightarrow> function_decl option" where
  "find_method name [] = None"
| "find_method name (m # ms) = (case cm_decl m of
       Some (FunctionDecl f) \<Rightarrow> if f_name f = name then Some f else find_method name ms
     | _ \<Rightarrow> find_method name ms)"

definition class_of_symbol :: "symbol \<Rightarrow> class_decl option" where
  "class_of_symbol sy = (case sy_decl sy of Some (ClassDecl c) \<Rightarrow> Some c | _ \<Rightarrow> None)"

definition iface_of_symbol :: "symbol \<Rightarrow> interface_decl option" where
  "iface_of_symbol sy = (case sy_decl sy of Some (InterfaceDecl i) \<Rightarrow> Some i | _ \<Rightarrow> None)"

text \<open>
  The name under which the class of an operand is looked up: the name of its type and,
  when that is empty, the type of the variable the operand names.
\<close>

definition operand_class :: "sema \<Rightarrow> expr \<Rightarrow> type_id \<Rightarrow> string" where
  "operand_class s e t =
     (if name_of (reg s) t \<noteq> [] then name_of (reg s) t
      else case ident_name e of
        None \<Rightarrow> []
      | Some x \<Rightarrow> (case stack_lookup (stack s) x of
            None \<Rightarrow> []
          | Some sy \<Rightarrow> name_of (reg s) (sy_type sy)))"

definition overload :: "sema \<Rightarrow> expr \<Rightarrow> type_id \<Rightarrow> string \<Rightarrow> function_decl option" where
  "overload s e t method =
     (let cls = operand_class s e t
      in if cls = [] then None
         else Option.bind (stack_lookup (stack s) cls) (\<lambda>cs.
              if sy_kind cs = SK_Class
              then Option.bind (class_of_symbol cs) (\<lambda>cd. find_method method (c_members cd))
              else None))"

definition find_overload :: "expr \<Rightarrow> type_id \<Rightarrow> string \<Rightarrow> (sema, function_decl option) prog" where
  "find_overload e t method = gets (\<lambda>s. overload s e t method)"

section \<open>Binary and unary operators\<close>

definition concat_operand :: "string \<Rightarrow> string \<Rightarrow> bool \<Rightarrow> type_id \<Rightarrow> source_loc \<Rightarrow> (sema, unit) prog" where
  "concat_operand what side ok t loc =
     guarded (\<not> ok) (bind_s (type_name t) (\<lambda>n.
       warn loc (quoted ''+'' @ '' with '' @ what @ '': '' @ side @ '' operand is '' @ quoted n)))"

definition unify_s :: "type_id \<Rightarrow> type_id \<Rightarrow> (sema, type_id) prog" where
  "unify_s a b = run_loop (\<lambda>s. unify (reg s) a b)"

definition check_arith :: "string \<Rightarrow> expr \<Rightarrow> expr \<Rightarrow> type_id \<Rightarrow> type_id \<Rightarrow> (sema, type_id) prog" where
  "check_arith op l r L R =
     (if op = ''+'' \<and> (L = TID_STR \<or> R = TID_STR) then
        then_s (concat_operand ''str'' ''left'' (L = TID_STR \<or> L = TID_OBJECT) L (expr_loc l)) (
        then_s (concat_operand ''str'' ''right'' (R = TID_STR \<or> R = TID_OBJECT) R (expr_loc r)) (
        ret TID_STR))
      else if op = ''+'' \<and> (L = TID_LIST \<or> R = TID_LIST) then
        then_s (concat_operand ''list'' ''left'' (L = TID_LIST) L (expr_loc l)) (
        then_s (concat_operand ''list'' ''right'' (R = TID_LIST) R (expr_loc r)) (
        ret TID_LIST))
      else
        then_s (require_numeric L (expr_loc l) (quoted op @ '' left operand'')) (
        then_s (require_numeric R (expr_loc r) (quoted op @ '' right operand'')) (
        unify_s L R)))"

definition check_compare :: "source_loc \<Rightarrow> type_id \<Rightarrow> type_id \<Rightarrow> (sema, type_id) prog" where
  "check_compare loc L R =
     (if L \<noteq> TID_UNKNOWN \<and> R \<noteq> TID_UNKNOWN then
        bind_s (assignable_s L R) (\<lambda>lr.
        bind_s (if lr then ret True else assignable_s R L) (\<lambda>ok.
        then_s (guarded (\<not> ok) (
          bind_s (type_name L) (\<lambda>nl. bind_s (type_name R) (\<lambda>nr.
          warn loc (''comparing '' @ quoted nl @ '' with '' @ quoted nr))))) (
        ret TID_BOOL)))
      else ret TID_BOOL)"

definition check_builtin_op ::
  "source_loc \<Rightarrow> string \<Rightarrow> expr \<Rightarrow> expr \<Rightarrow> type_id \<Rightarrow> type_id \<Rightarrow> (sema, type_id) prog" where
  "check_builtin_op loc op l r L R =
     (if op \<in> {''+'', ''-'', ''*'', ''/'', ''%''} then check_arith op l r L R
      else if op \<in> {''=='', ''!='', ''<'', ''>'', ''<='', ''>=''} then check_compare loc L R
      else if op \<in> {''&&'', ''||''} then
        then_s (require_bool L (expr_loc l) (quoted op @ '' left operand'')) (
        then_s (require_bool R (expr_loc r) (quoted op @ '' right operand'')) (
        ret TID_BOOL))
      else if op \<in> {''..<'', ''..=''} then
        then_s (require_numeric L (expr_loc l) ''range start'') (
        then_s (require_numeric R (expr_loc r) ''range end'') (
        ret TID_OBJECT))
      else ret TID_UNKNOWN)"

text \<open>\<open>check_binary\<close> after its operands: an operator method of the left class wins.\<close>

definition check_binary ::
  "source_loc \<Rightarrow> string \<Rightarrow> expr \<Rightarrow> expr \<Rightarrow> type_id \<Rightarrow> type_id \<Rightarrow> (sema, type_id) prog" where
  "check_binary loc op l r L R = (case op_methods op of
       None \<Rightarrow> check_builtin_op loc op l r L R
     | Some method \<Rightarrow> bind_s (find_overload l L method) (\<lambda>f. case f of
           Some fd \<Rightarrow> type_from_te (f_return_type fd)
         | None \<Rightarrow> check_builtin_op loc op l r L R))"

definition check_unary :: "string \<Rightarrow> expr \<Rightarrow> type_id \<Rightarrow> (sema, type_id) prog" where
  "check_unary op e t =
     (if op \<in> {''!'', ''not''} then
        then_s (require_bool t (expr_loc e) (quoted op @ '' operand'')) (ret TID_BOOL)
      else if op \<in> {''-'', ''+''} then
        then_s (require_numeric t (expr_loc e) (quoted op @ '' operand'')) (ret t)
      else if op = ''~'' then
        then_s (guarded (\<not> is_integral t \<and> t \<noteq> TID_UNKNOWN) (bind_s (type_name t) (\<lambda>n.
          err (expr_loc e) (quoted ''~'' @ '' requires integral operand, got '' @ quoted n)))) (ret t)
      else if op \<in> {''++'', ''--''} then
        then_s (require_numeric t (expr_loc e) (quoted op @ '' operand'')) (ret t)
      else ret t)"

section \<open>Assignment\<close>

text \<open>
  What \<open>check_assign\<close> decides about an identifier before it checks the target: an
  unknown name assigned with \<open>=\<close> is declared, a \<open>const\<close> one is rejected. \<open>Some\<close> is the type
  the assignment has in these two cases, with the target as it is left.
\<close>

definition assign_target :: "string \<Rightarrow> expr \<Rightarrow> type_id \<Rightarrow> (sema, (type_id \<times> expr) option) prog" where
  "assign_target op target rhs = (case ident_name target of
       None \<Rightarrow> ret None
     | Some x \<Rightarrow> bind_s (lookup_sym x) (\<lambda>found. case found of
           None \<Rightarrow>
             if op = ''=''
             then then_s (declare_sym x (default_symbol\<lparr>sy_name := x, sy_kind := SK_Var,
                    sy_type := rhs, sy_loc := expr_loc target\<rparr>))
                  (ret (Some (rhs, set_type_id rhs target)))
             else ret None
         | Some sy \<Rightarrow>
             if sy_is_const sy
             then then_s (err (expr_loc target) (''cannot assign to const variable '' @ quoted x))
                  (ret (Some (sy_type sy, target)))
             else ret None))"

definition check_assign_types ::
  "string \<Rightarrow> expr \<Rightarrow> expr \<Rightarrow> type_id \<Rightarrow> type_id \<Rightarrow> (sema, unit) prog" where
  "check_assign_types op target value lhs rhs =
     (if op \<noteq> ''='' then
        (if op = ''+='' \<and> lhs = TID_STR
         then then_s (require_assignable rhs TID_STR (expr_loc value) (quoted ''+='' @ '' on str'')) (ret ())
         else then_s (require_numeric lhs (expr_loc target) ''compound assignment target'') (
              then_s (require_numeric rhs (expr_loc value) ''compound assignment value'') (ret ())))
      else then_s (require_assignable rhs lhs (expr_loc value) ''assignment'') (ret ()))"

section \<open>Calls\<close>

definition kStdlibRet :: "string \<Rightarrow> (string \<Rightarrow> type_id option) option" where
  "kStdlibRet = map_of [
     (''math'', map_of [
        (''sqrt'', TID_DOUBLE), (''pow'', TID_DOUBLE), (''abs'', TID_DOUBLE), (''floor'', TID_DOUBLE),
        (''ceil'', TID_DOUBLE), (''log'', TID_DOUBLE), (''log2'', TID_DOUBLE), (''sin'', TID_DOUBLE),
        (''cos'', TID_DOUBLE), (''tan'', TID_DOUBLE), (''min'', TID_DOUBLE), (''max'', TID_DOUBLE),
        (''abs_i'', TID_LONG), (''min_i'', TID_LONG), (''max_i'', TID_LONG)]),
     (''str'', map_of [
        (''concat'', TID_STR), (''from_int'', TID_STR), (''from_double'', TID_STR),
        (''length'', TID_LONG), (''slice'', TID_STR), (''index'', TID_STR), (''eq'', TID_BOOL),
        (''ord'', TID_LONG), (''chr'', TID_STR), (''cmp'', TID_INT), (''contains'', TID_BOOL),
        (''find'', TID_LONG), (''rfind'', TID_LONG), (''starts_with'', TID_BOOL),
        (''ends_with'', TID_BOOL), (''replace'', TID_STR), (''replace_all'', TID_STR),
        (''to_upper'', TID_STR), (''to_lower'', TID_STR), (''trim'', TID_STR),
        (''trim_start'', TID_STR), (''trim_end'', TID_STR), (''repeat'', TID_STR),
        (''split'', TID_LIST)]),
     (''io'', map_of [(''readline'', TID_STR)])]"

text \<open>The type of a standard-library member call such as \<open>math.sqrt(x)\<close>, by its spelling alone.\<close>

definition stdlib_ret :: "expr \<Rightarrow> type_id option" where
  "stdlib_ret callee = (case callee of
       MemberExpr l t obj m \<Rightarrow> Option.bind (ident_name obj) (\<lambda>ns.
          Option.bind (kStdlibRet ns) (\<lambda>fns. fns m))
     | _ \<Rightarrow> None)"

text \<open>How a callee is resolved: a name with or without a symbol, or any other expression.\<close>

datatype callee_kind =
    CalleeUndefined
  | CalleeSymbol symbol expr
  | CalleeStdlib type_id
  | CalleeOther

definition resolve_callee :: "expr \<Rightarrow> (sema, callee_kind) prog" where
  "resolve_callee callee = (case ident_name callee of
       Some x \<Rightarrow> bind_s (lookup_sym x) (\<lambda>found. case found of
           None \<Rightarrow> then_s (err (expr_loc callee) (''undefined function '' @ quoted x)) (ret CalleeUndefined)
         | Some sy \<Rightarrow> ret (CalleeSymbol sy (set_type_id (sy_type sy) callee)))
     | None \<Rightarrow> ret (case stdlib_ret callee of Some t \<Rightarrow> CalleeStdlib t | None \<Rightarrow> CalleeOther))"

text \<open>The tests of \<open>check_call\<close> on a function symbol before its arguments are checked.\<close>

definition check_call_shape :: "symbol \<Rightarrow> source_loc \<Rightarrow> nat \<Rightarrow> (sema, unit) prog" where
  "check_call_shape sy loc nargs =
     bind_s (gets in_await) (\<lambda>awaiting.
     then_s (guarded (sy_is_async sy \<and> \<not> awaiting)
       (err loc (''async function '' @ quoted (sy_name sy) @ '' must be called with '' @ quoted ''await''))) (
     guarded (sy_params sy \<noteq> [] \<and> length (sy_params sy) \<noteq> nargs)
       (err loc (quoted (sy_name sy) @ '' expects '' @ show_nat (length (sy_params sy)) @
          '' argument(s), got '' @ show_nat nargs))))"

definition check_argument :: "symbol \<Rightarrow> nat \<Rightarrow> type_id \<Rightarrow> source_loc \<Rightarrow> (sema, unit) prog" where
  "check_argument sy i t loc =
     (if i < length (sy_params sy)
      then then_s (require_assignable t (snd (sy_params sy ! i)) loc
             (''argument '' @ show_nat (i + 1) @ '' to '' @ quoted (sy_name sy))) (ret ())
      else ret ())"

text \<open>The type of the function value a variable holds, for a call of a closure.\<close>

definition closure_type :: "string \<Rightarrow> (sema, type_id option) prog" where
  "closure_type x = gets (\<lambda>s. case stack_lookup (stack s) x of
       Some cs \<Rightarrow>
         if (sy_kind cs = SK_Var \<or> sy_kind cs = SK_Param) \<and> 0 \<le> sy_type cs \<and>
            ti_kind (info (reg s) (sy_type cs)) = TK_Function
         then Some (sy_type cs) else None
     | None \<Rightarrow> None)"

section \<open>Members, indexing, allocation\<close>

definition has_variant :: "type_info \<Rightarrow> string \<Rightarrow> bool" where
  "has_variant ti name \<longleftrightarrow> name \<in> set (map evi_name (ti_variants ti))"

text \<open>
  \<open>Color.Red\<close>: \<open>Some\<close> of the type and the annotated object when the object names an enum,
  with an error when the variant is missing.
\<close>

definition enum_access :: "source_loc \<Rightarrow> expr \<Rightarrow> string \<Rightarrow> (sema, (type_id \<times> expr) option) prog" where
  "enum_access loc obj m = (case ident_name obj of
       None \<Rightarrow> ret None
     | Some x \<Rightarrow> bind_s (lookup_sym x) (\<lambda>found. case found of
           None \<Rightarrow> ret None
         | Some sy \<Rightarrow> bind_s (gets (\<lambda>s. info (reg s) (sy_type sy))) (\<lambda>ti.
             if sy_kind sy = SK_Class \<and> ti_kind ti = TK_Enum then
               (if has_variant ti m then ret (Some (sy_type sy, set_type_id (sy_type sy) obj))
                else then_s (err loc (''enum '' @ quoted x @ '' has no variant '' @ quoted m))
                       (ret (Some (TID_UNKNOWN, obj))))
             else ret None)))"

definition class_has_member :: "class_decl \<Rightarrow> string \<Rightarrow> bool" where
  "class_has_member cd name \<longleftrightarrow> (\<exists>m\<in>set (c_members cd). case cm_decl m of
       Some (FunctionDecl f) \<Rightarrow> f_name f = name
     | Some (FieldDecl f) \<Rightarrow> fd_name f = name
     | _ \<Rightarrow> False)"

text \<open>The body of the \<open>while\<close> loop that walks the class hierarchy for a member.\<close>

definition member_step :: "sema \<Rightarrow> string \<Rightarrow> type_id \<Rightarrow> bool + type_id" where
  "member_step s name cur =
     (if \<not> (cur \<noteq> TID_UNKNOWN \<and> 0 \<le> cur \<and> cur \<noteq> TID_OBJECT) then Inl False
      else case global_lookup (stack s) (ti_name (info (reg s) cur)) of
        None \<Rightarrow> Inl False
      | Some cls_sym \<Rightarrow>
          if sy_kind cls_sym \<noteq> SK_Class then Inl False
          else case class_of_symbol cls_sym of
            None \<Rightarrow> Inl False
          | Some cd \<Rightarrow>
              if class_has_member cd name then Inl True
              else let parent = ti_parent (info (reg s) cur)
                   in if parent = cur then Inl False else Inr parent)"

definition find_member :: "type_id \<Rightarrow> string \<Rightarrow> (sema, bool) prog" where
  "find_member t name = run_loop (\<lambda>s. iter_until (member_step s name) t)"

text \<open>\<open>check_member\<close> after the object: the type of the access.\<close>

definition member_type :: "source_loc \<Rightarrow> expr \<Rightarrow> string \<Rightarrow> type_id \<Rightarrow> (sema, type_id) prog" where
  "member_type loc obj m obj_t =
     bind_s (lookup_sym m) (\<lambda>found.
     case (if is_this obj then found else None) of
       Some sy \<Rightarrow> ret (sy_type sy)
     | None \<Rightarrow>
         bind_s (gets (\<lambda>s. info (reg s) obj_t)) (\<lambda>ti.
         if obj_t \<noteq> TID_UNKNOWN \<and> obj_t \<noteq> TID_OBJECT \<and> 0 \<le> obj_t \<and> ti_kind ti = TK_Class
         then bind_s (find_member obj_t m) (\<lambda>has.
              then_s (guarded (\<not> has)
                (err loc (''type '' @ quoted (ti_name ti) @ '' has no member '' @ quoted m)))
              (ret TID_UNKNOWN))
         else ret TID_UNKNOWN))"

definition index_type :: "expr \<Rightarrow> expr \<Rightarrow> type_id \<Rightarrow> type_id \<Rightarrow> (sema, type_id) prog" where
  "index_type obj idx obj_t idx_t =
     bind_s (find_overload obj obj_t ''operator__index'') (\<lambda>f. case f of
       Some fd \<Rightarrow> type_from_te (f_return_type fd)
     | None \<Rightarrow>
         if obj_t = TID_LIST then
           then_s (guarded (\<not> is_integral idx_t \<and> idx_t \<noteq> TID_UNKNOWN) (bind_s (type_name idx_t) (\<lambda>n.
             err (expr_loc idx) (''list index must be integral, got '' @ quoted n))))
           (ret TID_UNKNOWN)
         else if obj_t = TID_DICT then ret TID_UNKNOWN
         else if obj_t = TID_STR then ret TID_STR
         else ret TID_UNKNOWN)"

definition new_type :: "source_loc \<Rightarrow> type_expr \<Rightarrow> (sema, type_id) prog" where
  "new_type loc te =
     bind_s (type_from_te te) (\<lambda>t.
     then_s (guarded (t = TID_UNKNOWN)
       (err loc (''unknown type '' @ quoted (te_name te) @ '' in '' @ quoted ''new''))) (
     ret t))"

definition this_type :: "source_loc \<Rightarrow> (sema, type_id) prog" where
  "this_type loc =
     bind_s (lookup_sym ''this'') (\<lambda>found.
     then_s (guarded (found = None) (err loc (quoted ''this'' @ '' cannot be used in a static method''))) (
     gets current_class_type))"

definition super_type :: "(sema, type_id) prog" where
  "super_type = gets (\<lambda>s.
     let p = ti_parent (info (reg s) (current_class_type s)) in if p < 0 then TID_OBJECT else p)"

definition ident_type :: "source_loc \<Rightarrow> string \<Rightarrow> (sema, type_id) prog" where
  "ident_type loc x =
     bind_s (lookup_sym x) (\<lambda>found. case found of
       None \<Rightarrow> then_s (err loc (''undefined identifier '' @ quoted x)) (ret TID_UNKNOWN)
     | Some sy \<Rightarrow> ret (sy_type sy))"

section \<open>Lambdas\<close>

definition declare_var :: "string \<Rightarrow> type_id \<Rightarrow> source_loc \<Rightarrow> (sema, unit) prog" where
  "declare_var x t loc =
     declare_sym x (default_symbol\<lparr>sy_name := x, sy_kind := SK_Var, sy_type := t, sy_loc := loc\<rparr>)"

definition lambda_params :: "param list \<Rightarrow> (sema, unit) prog" where
  "lambda_params = for_each (\<lambda>p. bind_s (type_from_te (param_type p)) (\<lambda>t.
     declare_var (param_name p) t (te_loc (param_type p))))"

text \<open>The type of the first top-level \<open>return\<close> of a checked body that has one.\<close>

fun inferred_return :: "stmt list \<Rightarrow> type_id" where
  "inferred_return [] = TID_VOID"
| "inferred_return (ReturnStmt l (Some v) # b) =
     (if 0 \<le> expr_type_id v then expr_type_id v else inferred_return b)"
| "inferred_return (st # b) = inferred_return b"

text \<open>The end of \<open>check_lambda\<close>: the function type of the lambda and the name of its result.\<close>

definition lambda_type ::
  "param list \<Rightarrow> type_expr option \<Rightarrow> type_id \<Rightarrow> (sema, type_id \<times> string) prog" where
  "lambda_type ps explicit inferred =
     bind_s (case explicit of None \<Rightarrow> ret inferred | Some te \<Rightarrow> type_from_te te) (\<lambda>ret_tid.
     bind_s (type_name ret_tid) (\<lambda>nr.
     bind_s (intern_s (fn_signature (map (\<lambda>p. te_name (param_type p)) ps) nr) TK_Function) (\<lambda>fn_tid.
     then_s (update_type fn_tid (\<lambda>ti. ti\<lparr>ti_return_type := ret_tid\<rparr>)) (
     bind_s (gets (\<lambda>s. ti_param_types (info (reg s) fn_tid))) (\<lambda>old.
     then_s (if old = []
       then for_each (\<lambda>p. bind_s (type_from_te (param_type p)) (\<lambda>t.
              update_type fn_tid (\<lambda>ti. ti\<lparr>ti_param_types := ti_param_types ti @ [t]\<rparr>))) ps
       else ret ()) (
     bind_s (type_name ret_tid) (\<lambda>nr'.
     ret (fn_tid, nr'))))))))"

end
