(* ===== verification/Sema_Check.thy ===== *)
theory Sema_Check
  imports Sema_Rules
begin

text \<open>
  The traversal of \<^verbatim>\<open>src/sema/sema.cpp\<close>: \<open>check_expr\<close>, \<open>check_stmt\<close> and the loops over
  arguments, initialisers, cases and arms. A check returns the tree with the \<open>type_id\<close>
  it wrote into each expression, next to the type it computed; the old annotations are
  never read before they are written again. Dereferencing a null pointer is
  \<open>NullDeref\<close>.
\<close>

section \<open>Statements, apart from their parts\<close>

definition outside_loop :: "source_loc \<Rightarrow> string \<Rightarrow> (sema, unit) prog" where
  "outside_loop loc what =
     bind_s (gets in_loop) (\<lambda>inside.
     guarded (\<not> inside) (err loc (quoted what @ '' outside of loop'')))"

definition check_return_value :: "type_id \<Rightarrow> source_loc \<Rightarrow> (sema, unit) prog" where
  "check_return_value t loc =
     bind_s (gets current_return_type) (\<lambda>r.
     then_s (require_assignable t r loc ''return value'') (ret ()))"

definition check_no_return_value :: "source_loc \<Rightarrow> (sema, unit) prog" where
  "check_no_return_value loc =
     bind_s (gets current_return_type) (\<lambda>r.
     guarded (r \<noteq> TID_VOID \<and> r \<noteq> TID_UNKNOWN)
       (warn loc ''missing return value in non-void function''))"

definition check_iterable :: "type_id \<Rightarrow> source_loc \<Rightarrow> (sema, unit) prog" where
  "check_iterable t loc =
     guarded (t = TID_DICT \<or> t = TID_TUPLE \<or> t = TID_STR) (bind_s (type_name t) (\<lambda>n.
       err loc (''for-in requires a list or range; got '' @ quoted n)))"

definition check_delete_type :: "type_id \<Rightarrow> source_loc \<Rightarrow> (sema, unit) prog" where
  "check_delete_type t loc =
     guarded (t \<noteq> TID_UNKNOWN \<and> is_numeric t)
       (warn loc (quoted ''delete'' @ '' on numeric value '' @ [CHR 0xE2, CHR 0x80, CHR 0x94] @
          '' did you mean a pointer?''))"

text \<open>The parts of \<open>check_var_decl\<close> before the loop and around one initialiser.\<close>

definition var_decl_head :: "source_loc \<Rightarrow> bool \<Rightarrow> (sema, unit) prog" where
  "var_decl_head loc is_thread_local =
     bind_s (gets (\<lambda>s. depth (stack s))) (\<lambda>n.
     guarded (is_thread_local \<and> 1 < n) (err loc ''thread_local is only valid at module scope''))"

definition var_decl_before :: "source_loc \<Rightarrow> bool \<Rightarrow> bool \<Rightarrow> string \<Rightarrow> expr \<Rightarrow> (sema, unit) prog" where
  "var_decl_before loc is_const is_thread_local x e =
     then_s (guarded (is_const \<and> e = NoExpr)
       (err loc (''const variable '' @ quoted x @ '' must have an initializer''))) (
     guarded (e \<noteq> NoExpr \<and> is_thread_local \<and> \<not> is_literal e)
       (err (expr_loc e) ''thread_local initializer must be a compile-time constant''))"

definition var_decl_type :: "string \<Rightarrow> expr \<Rightarrow> type_id \<Rightarrow> type_id \<Rightarrow> (sema, type_id) prog" where
  "var_decl_type x e decl_type init_t =
     (if decl_type = TID_UNKNOWN \<or> is_lambda e then ret init_t
      else then_s (require_assignable init_t decl_type (expr_loc e)
             (''variable '' @ quoted x @ '' initialiser'')) (ret decl_type))"

definition var_decl_define :: "source_loc \<Rightarrow> bool \<Rightarrow> string \<Rightarrow> type_id \<Rightarrow> (sema, unit) prog" where
  "var_decl_define loc is_const x t =
     define_or_err x (default_symbol\<lparr>sy_name := x, sy_kind := SK_Var, sy_type := t,
         sy_is_const := is_const, sy_loc := loc\<rparr>)
       loc (''variable '' @ quoted x @ '' already declared in this scope'')"

text \<open>\<open>check_match\<close>: the test of one enum pattern, the bindings of an arm, the final consistency test.\<close>

definition arm_enum :: "sema \<Rightarrow> match_pattern \<Rightarrow> type_info option" where
  "arm_enum s p = (case stack_lookup (stack s) (pat_enum_name p) of
       None \<Rightarrow> None
     | Some sy \<Rightarrow>
         if ti_kind (info (reg s) (sy_type sy)) = TK_Enum
         then Some (info (reg s) (sy_type sy)) else None)"

definition check_arm_pattern :: "match_pattern \<Rightarrow> source_loc \<Rightarrow> (sema, unit) prog" where
  "check_arm_pattern p loc =
     guarded (pat_kind p = EnumVariantPat) (
     bind_s (gets (\<lambda>s. arm_enum s p)) (\<lambda>found. case found of
       None \<Rightarrow> err loc (quoted (pat_enum_name p) @ '' is not an enum type'')
     | Some ti \<Rightarrow> guarded (\<not> has_variant ti (pat_variant_name p))
         (err loc (''enum '' @ quoted (pat_enum_name p) @ '' has no variant '' @
            quoted (pat_variant_name p)))))"

definition arm_payload :: "sema \<Rightarrow> match_pattern \<Rightarrow> type_id list" where
  "arm_payload s p = (case arm_enum s p of
       None \<Rightarrow> []
     | Some ti \<Rightarrow> (case find (\<lambda>v. evi_name v = pat_variant_name p) (ti_variants ti) of
           None \<Rightarrow> []
         | Some v \<Rightarrow> evi_payload v))"

definition bind_arm :: "match_pattern \<Rightarrow> (sema, unit) prog" where
  "bind_arm p =
     guarded (pat_kind p = EnumVariantPat \<and> pat_bindings p \<noteq> []) (
     bind_s (gets (\<lambda>s. arm_payload s p)) (\<lambda>payload.
     for_each (\<lambda>(i, x). declare_sym x (default_symbol\<lparr>sy_name := x, sy_kind := SK_Var,
         sy_type := (if i < length payload then payload ! i else TID_OBJECT)\<rparr>))
       (enumerate 0 (pat_bindings p))))"

definition non_enum_type :: "type_id \<Rightarrow> bool" where
  "non_enum_type t \<longleftrightarrow> t = TID_STR \<or> t = TID_DOUBLE \<or> t = TID_REAL \<or> t = TID_LIST \<or> t = TID_DICT"

fun arm_pattern :: "match_arm \<Rightarrow> match_pattern" where
  "arm_pattern (MatchArm p b l) = p"

fun arm_loc :: "match_arm \<Rightarrow> source_loc" where
  "arm_loc (MatchArm p b l) = l"

definition check_arm_enum :: "type_id \<Rightarrow> match_arm \<Rightarrow> (sema, unit) prog" where
  "check_arm_enum expr_t a =
     guarded (pat_kind (arm_pattern a) = EnumVariantPat) (
     bind_s (lookup_sym (pat_enum_name (arm_pattern a))) (\<lambda>found. case found of
       None \<Rightarrow> ret ()
     | Some sy \<Rightarrow> bind_s (gets (\<lambda>s. info (reg s) (sy_type sy))) (\<lambda>ti.
         guarded (ti_kind ti = TK_Enum \<and> sy_type sy \<noteq> expr_t)
           (err (arm_loc a) (''pattern enum '' @ quoted (pat_enum_name (arm_pattern a)) @
              '' does not match scrutinee enum type'')))))"

definition check_scrutinee :: "type_id \<Rightarrow> source_loc \<Rightarrow> match_arm list \<Rightarrow> (sema, unit) prog" where
  "check_scrutinee expr_t loc arms =
     guarded (expr_t \<noteq> TID_UNKNOWN) (
       (let has_enum = (\<exists>a\<in>set arms. pat_kind (arm_pattern a) = EnumVariantPat);
            has_bool = (\<exists>a\<in>set arms. pat_kind (arm_pattern a) = BoolLitPat)
        in then_s (guarded (has_enum \<and> non_enum_type expr_t)
             (err loc (''match expression type cannot hold an enum value '' @
                ''but patterns use enum variants''))) (
           then_s (guarded (has_bool \<and> non_enum_type expr_t)
             (err loc (''match expression type cannot hold a bool '' @
                ''but patterns use boolean literals''))) (
           bind_s (gets (\<lambda>s. info (reg s) expr_t)) (\<lambda>ti.
           guarded (has_enum \<and> ti_kind ti = TK_Enum) (for_each (check_arm_enum expr_t) arms))))))"

definition catch_symbol ::
  "bool \<Rightarrow> type_expr option \<Rightarrow> string option \<Rightarrow> (sema, unit) prog" where
  "catch_symbol catch_all catch_type catch_var = (case catch_var of
       None \<Rightarrow> ret ()
     | Some x \<Rightarrow> guarded (\<not> catch_all) (
         bind_s (case catch_type of Some te \<Rightarrow> type_from_te te | None \<Rightarrow> ret TID_OBJECT) (\<lambda>t.
         declare_sym x (default_symbol\<lparr>sy_name := x, sy_kind := SK_Var, sy_type := t\<rparr>))))"

section \<open>The traversal\<close>

fun check_expr :: "expr \<Rightarrow> (sema, type_id \<times> expr) prog"
  and check_exprs :: "expr list \<Rightarrow> (sema, expr list) prog"
  and check_args :: "symbol \<Rightarrow> nat \<Rightarrow> expr list \<Rightarrow> (sema, expr list) prog"
  and check_pairs :: "dict_entry list \<Rightarrow> (sema, dict_entry list) prog"
  and check_stmt :: "stmt \<Rightarrow> (sema, stmt) prog"
  and check_stmts :: "stmt list \<Rightarrow> (sema, stmt list) prog"
  and check_var_inits ::
    "source_loc \<Rightarrow> bool \<Rightarrow> bool \<Rightarrow> type_id \<Rightarrow> var_init list \<Rightarrow> (sema, var_init list) prog"
  and check_cases :: "switch_case list \<Rightarrow> (sema, switch_case list) prog"
  and check_arms :: "match_arm list \<Rightarrow> (sema, match_arm list) prog" where
  "check_expr NoExpr = null_deref"
| "check_expr (IntLitExpr l t v) = ret (TID_INT, IntLitExpr l TID_INT v)"
| "check_expr (LongLitExpr l t v) = ret (TID_LONG, LongLitExpr l TID_LONG v)"
| "check_expr (FloatLitExpr l t v) = ret (TID_DOUBLE, FloatLitExpr l TID_DOUBLE v)"
| "check_expr (RealLitExpr l t v) = ret (TID_REAL, RealLitExpr l TID_REAL v)"
| "check_expr (StringLitExpr l t v) = ret (TID_STR, StringLitExpr l TID_STR v)"
| "check_expr (BoolLitExpr l t v) = ret (TID_BOOL, BoolLitExpr l TID_BOOL v)"
| "check_expr (NullLitExpr l t) = ret (TID_NULL, NullLitExpr l TID_NULL)"
| "check_expr (IdentExpr l t x) =
     bind_s (ident_type l x) (\<lambda>r. ret (r, IdentExpr l r x))"
| "check_expr (ThisExpr l t) = bind_s (this_type l) (\<lambda>r. ret (r, ThisExpr l r))"
| "check_expr (SuperExpr l t) = bind_s super_type (\<lambda>r. ret (r, SuperExpr l r))"
| "check_expr (BinaryExpr l t op a b) =
     bind_s (check_expr a) (\<lambda>(ta, a').
     bind_s (check_expr b) (\<lambda>(tb, b').
     bind_s (check_binary l op a b ta tb) (\<lambda>r.
     ret (r, BinaryExpr l r op a' b'))))"
| "check_expr (UnaryExpr l t op a p) =
     bind_s (check_expr a) (\<lambda>(ta, a').
     bind_s (check_unary op a ta) (\<lambda>r.
     ret (r, UnaryExpr l r op a' p)))"
| "check_expr (AssignExpr l t op target v) =
     bind_s (check_expr v) (\<lambda>(rhs, v').
     bind_s (assign_target op target rhs) (\<lambda>decided. case decided of
       Some (r, target') \<Rightarrow> ret (r, AssignExpr l r op target' v')
     | None \<Rightarrow>
         bind_s (check_expr target) (\<lambda>(lhs, target').
         then_s (check_assign_types op target v lhs rhs) (
         ret (lhs, AssignExpr l lhs op target' v')))))"
| "check_expr (CallExpr l t callee args) =
     bind_s (resolve_callee callee) (\<lambda>kind. case kind of
       CalleeUndefined \<Rightarrow>
         bind_s (check_exprs args) (\<lambda>args'.
         ret (TID_UNKNOWN, CallExpr l TID_UNKNOWN callee args'))
     | CalleeStdlib r \<Rightarrow>
         bind_s (check_exprs args) (\<lambda>args'. ret (r, CallExpr l r callee args'))
     | CalleeOther \<Rightarrow>
         bind_s (check_expr callee) (\<lambda>(tc, callee').
         bind_s (check_exprs args) (\<lambda>args'.
         ret (TID_UNKNOWN, CallExpr l TID_UNKNOWN callee' args')))
     | CalleeSymbol sy callee' \<Rightarrow>
         if sy_kind sy = SK_Function \<or> sy_kind sy = SK_BuiltIn then
           then_s (check_call_shape sy (expr_loc callee) (length args)) (
           bind_s (check_args sy 0 args) (\<lambda>args'.
           ret (sy_return_type sy, CallExpr l (sy_return_type sy) callee' args')))
         else if sy_kind sy = SK_Class then
           bind_s (check_exprs args) (\<lambda>args'.
           ret (sy_type sy, CallExpr l (sy_type sy) callee' args'))
         else
           bind_s (check_exprs args) (\<lambda>args'.
           bind_s (closure_type (case ident_name callee of Some x \<Rightarrow> x | None \<Rightarrow> [])) (\<lambda>closure.
           case closure of
             Some ct \<Rightarrow>
               bind_s (check_exprs args) (\<lambda>args''.
               bind_s (gets (\<lambda>s. ti_return_type (info (reg s) ct))) (\<lambda>r.
               ret (r, CallExpr l r callee' args'')))
           | None \<Rightarrow> ret (TID_UNKNOWN, CallExpr l TID_UNKNOWN callee' args'))))"
| "check_expr (MemberExpr l t obj m) =
     bind_s (enum_access l obj m) (\<lambda>decided. case decided of
       Some (r, obj') \<Rightarrow> ret (r, MemberExpr l r obj' m)
     | None \<Rightarrow>
         bind_s (check_expr obj) (\<lambda>(ot, obj').
         bind_s (member_type l obj m ot) (\<lambda>r.
         ret (r, MemberExpr l r obj' m))))"
| "check_expr (IndexExpr l t obj idx) =
     bind_s (check_expr obj) (\<lambda>(ot, obj').
     bind_s (check_expr idx) (\<lambda>(it, idx').
     bind_s (index_type obj idx ot it) (\<lambda>r.
     ret (r, IndexExpr l r obj' idx'))))"
| "check_expr (NewExpr l t te args) =
     bind_s (new_type l te) (\<lambda>r.
     bind_s (check_exprs args) (\<lambda>args'.
     ret (r, NewExpr l r te args')))"
| "check_expr (ListExpr l t es) =
     bind_s (check_exprs es) (\<lambda>es'. ret (TID_LIST, ListExpr l TID_LIST es'))"
| "check_expr (DictExpr l t ps) =
     bind_s (check_pairs ps) (\<lambda>ps'. ret (TID_DICT, DictExpr l TID_DICT ps'))"
| "check_expr (LambdaExpr l t ps body captures explicit iret) =
     bind_s (scoped False (
       then_s (lambda_params ps) (
       with_return_type TID_UNKNOWN (case body of
         BlockStmt bl b \<Rightarrow>
           bind_s (check_stmts b) (\<lambda>b'. ret (inferred_return b', BlockStmt bl b'))
       | _ \<Rightarrow> ret (TID_VOID, body))))) (\<lambda>(inferred, body').
     bind_s (lambda_type ps explicit inferred) (\<lambda>(r, name).
     ret (r, LambdaExpr l r ps body' captures explicit name)))"
| "check_expr (AwaitExpr l t a) =
     bind_s (with_await True (check_expr a)) (\<lambda>(r, a'). ret (r, AwaitExpr l r a'))"
| "check_exprs [] = ret []"
| "check_exprs (e # es) =
     bind_s (check_expr e) (\<lambda>(t, e').
     bind_s (check_exprs es) (\<lambda>es'. ret (e' # es')))"
| "check_args sy i [] = ret []"
| "check_args sy i (e # es) =
     bind_s (check_expr e) (\<lambda>(t, e').
     then_s (check_argument sy i t (expr_loc e)) (
     bind_s (check_args sy (Suc i) es) (\<lambda>es'. ret (e' # es'))))"
| "check_pairs [] = ret []"
| "check_pairs (DictEntry k v # ps) =
     bind_s (check_expr k) (\<lambda>(tk, k').
     bind_s (check_expr v) (\<lambda>(tv, v').
     bind_s (check_pairs ps) (\<lambda>ps'. ret (DictEntry k' v' # ps'))))"
| "check_stmt NoStmt = null_deref"
| "check_stmt (BlockStmt l b) = bind_s (scoped False (check_stmts b)) (\<lambda>b'. ret (BlockStmt l b'))"
| "check_stmt (ExprStmt l e) = bind_s (check_expr e) (\<lambda>(t, e'). ret (ExprStmt l e'))"
| "check_stmt (VarDeclStmt l te is_const is_static is_tl ds) =
     (if te_name te = ''__fn''
      then then_s (err l (''fn type cannot be used as a variable type; '' @
             ''use: auto name = fn(params) -> type => ...''))
           (ret (VarDeclStmt l te is_const is_static is_tl ds))
      else bind_s (type_from_te te) (\<lambda>decl_type.
           then_s (var_decl_head l is_tl) (
           bind_s (check_var_inits l is_const is_tl decl_type ds) (\<lambda>ds'.
           ret (VarDeclStmt l te is_const is_static is_tl ds')))))"
| "check_stmt (IfStmt l c th el) =
     bind_s (check_expr c) (\<lambda>(t, c').
     then_s (require_bool t (expr_loc c) ''if condition'') (
     bind_s (check_stmt th) (\<lambda>th'.
     bind_s (if el = NoStmt then ret NoStmt else check_stmt el) (\<lambda>el'.
     ret (IfStmt l c' th' el')))))"
| "check_stmt (WhileStmt l label c b) =
     bind_s (check_expr c) (\<lambda>(t, c').
     then_s (require_bool t (expr_loc c) ''while condition'') (
     bind_s (with_loop True (check_stmt b)) (\<lambda>b'.
     ret (WhileStmt l label c' b'))))"
| "check_stmt (DoWhileStmt l b c) =
     bind_s (with_loop True (check_stmt b)) (\<lambda>b'.
     bind_s (check_expr c) (\<lambda>(t, c').
     then_s (require_bool t (expr_loc c) ''do-while condition'') (
     ret (DoWhileStmt l b' c'))))"
| "check_stmt (ForInStmt l te x e b) =
     bind_s (check_expr e) (\<lambda>(t, e').
     then_s (check_iterable t (expr_loc e)) (
     scoped False (
       bind_s (type_from_te te) (\<lambda>vt.
       then_s (declare_var x vt (te_loc te)) (
       bind_s (with_loop True (check_stmt b)) (\<lambda>b'.
       ret (ForInStmt l te x e' b')))))))"
| "check_stmt (ForCStmt l te x i c n b) =
     scoped False (
       bind_s (type_from_te te) (\<lambda>vt.
       then_s (declare_sym x (default_symbol\<lparr>sy_name := x, sy_kind := SK_Var, sy_type := vt\<rparr>)) (
       bind_s (check_expr i) (\<lambda>(it, i').
       then_s (require_assignable it vt (expr_loc i) ''for init'') (
       bind_s (check_expr c) (\<lambda>(ct, c').
       bind_s (check_expr n) (\<lambda>(nt, n').
       bind_s (with_loop True (check_stmt b)) (\<lambda>b'.
       ret (ForCStmt l te x i' c' n' b'))))))))) "
| "check_stmt (SwitchStmt l e cs) =
     bind_s (check_expr e) (\<lambda>(t, e').
     bind_s (with_loop True (check_cases cs)) (\<lambda>cs'.
     ret (SwitchStmt l e' cs')))"
| "check_stmt (MatchStmt l e arms) =
     bind_s (check_expr e) (\<lambda>(t, e').
     bind_s (check_arms arms) (\<lambda>arms'.
     then_s (check_scrutinee t (expr_loc e) arms) (
     ret (MatchStmt l e' arms'))))"
| "check_stmt (TryCatchStmt l b catch_all catch_type catch_var cb) =
     bind_s (check_stmt b) (\<lambda>b'.
     bind_s (scoped False (
       then_s (catch_symbol catch_all catch_type catch_var) (check_stmt cb))) (\<lambda>cb'.
     ret (TryCatchStmt l b' catch_all catch_type catch_var cb')))"
| "check_stmt (ReturnStmt l v) = (case v of
       None \<Rightarrow> then_s (check_no_return_value l) (ret (ReturnStmt l None))
     | Some e \<Rightarrow>
         bind_s (check_expr e) (\<lambda>(t, e').
         then_s (check_return_value t (expr_loc e)) (
         ret (ReturnStmt l (Some e')))))"
| "check_stmt (BreakStmt l label) = then_s (outside_loop l ''break'') (ret (BreakStmt l label))"
| "check_stmt (ContinueStmt l label) =
     then_s (outside_loop l ''continue'') (ret (ContinueStmt l label))"
| "check_stmt (AssertStmt l e) =
     bind_s (check_expr e) (\<lambda>(t, e').
     then_s (require_bool t (expr_loc e) ''assert'') (
     ret (AssertStmt l e')))"
| "check_stmt (DeleteStmt l e) =
     bind_s (check_expr e) (\<lambda>(t, e').
     then_s (check_delete_type t (expr_loc e)) (
     ret (DeleteStmt l e')))"
| "check_stmt (LabeledStmt l label st) =
     bind_s (check_stmt st) (\<lambda>st'. ret (LabeledStmt l label st'))"
| "check_stmt (DeferStmt l b) = bind_s (check_stmts b) (\<lambda>b'. ret (DeferStmt l b'))"
| "check_stmt (ThrowStmt l e) = bind_s (check_expr e) (\<lambda>(t, e'). ret (ThrowStmt l e'))"
| "check_stmt (UnsafeStmt l b) =
     bind_s (with_unsafe True (check_stmts b)) (\<lambda>b'. ret (UnsafeStmt l b'))"
| "check_stmts [] = ret []"
| "check_stmts (st # sts) =
     bind_s (check_stmt st) (\<lambda>st'.
     bind_s (check_stmts sts) (\<lambda>sts'. ret (st' # sts')))"
| "check_var_inits l is_const is_tl decl_type [] = ret []"
| "check_var_inits l is_const is_tl decl_type (VarInit x e # ds) =
     then_s (var_decl_before l is_const is_tl x e) (
     bind_s (if e = NoExpr then ret (decl_type, NoExpr)
       else bind_s (check_expr e) (\<lambda>(init_t, e').
            bind_s (var_decl_type x e decl_type init_t) (\<lambda>t. ret (t, e')))) (\<lambda>(t, e').
     then_s (var_decl_define l is_const x t) (
     bind_s (check_var_inits l is_const is_tl decl_type ds) (\<lambda>ds'.
     ret (VarInit x e' # ds')))))"
| "check_cases [] = ret []"
| "check_cases (SwitchCase v b # cs) =
     bind_s (case v of
         None \<Rightarrow> ret None
       | Some e \<Rightarrow> bind_s (check_expr e) (\<lambda>(t, e'). ret (Some e'))) (\<lambda>v'.
     bind_s (scoped False (check_stmts b)) (\<lambda>b'.
     bind_s (check_cases cs) (\<lambda>cs'.
     ret (SwitchCase v' b' # cs'))))"
| "check_arms [] = ret []"
| "check_arms (MatchArm p b l # arms) =
     then_s (check_arm_pattern p l) (
     bind_s (scoped False (then_s (bind_arm p) (check_stmts b))) (\<lambda>b'.
     bind_s (check_arms arms) (\<lambda>arms'.
     ret (MatchArm p b' l # arms'))))"

end
