(* ===== verification/Sema_Frames.thy ===== *)
theory Sema_Frames
  imports Sema_Check
begin

text \<open>
  What checking an expression or a statement does to the state of the checker, whatever its
  outcome. The locale \<open>check_frame\<close> lists the primitive actions a check is made of; a relation
  that every one of them respects is respected by the whole traversal. The locale is interpreted
  on three relations: the environment (scopes and flags), the diagnostics, and the type table.
\<close>

section \<open>The primitives of a check\<close>

definition keeps_identity :: "(type_info \<Rightarrow> type_info) \<Rightarrow> bool" where
  "keeps_identity f \<longleftrightarrow> (\<forall>ti. ti_name (f ti) = ti_name ti \<and> ti_kind (f ti) = ti_kind ti \<and>
     ti_parent (f ti) = ti_parent ti \<and> ti_ifaces (f ti) = ti_ifaces ti)"

lemma keeps_identity_fill [simp]: "keeps_identity (fill_fn_info r te)"
  by (simp add: keeps_identity_def fill_fn_info_def)

lemma keeps_identity_return [simp]: "keeps_identity (\<lambda>ti. ti\<lparr>ti_return_type := t\<rparr>)"
  by (simp add: keeps_identity_def)

lemma keeps_identity_params [simp]: "keeps_identity (\<lambda>ti. ti\<lparr>ti_param_types := g ti\<rparr>)"
  by (simp add: keeps_identity_def)

text \<open>A scope that is pushed and popped, and a field that is saved and restored, are brackets.\<close>

lemma scoped_eq:
  "scoped c m = bracket (\<lambda>s. s\<lparr>stack := push_scope c (stack s)\<rparr>) (\<lambda>_ t. t\<lparr>stack := pop_scope (stack t)\<rparr>) m"
  by (rule ext) (simp add: scoped_def bracket_def then_s_def bind_s_def modify_def ret_def split: outcome.split)

lemmas require_defs = lookup_sym_def type_name_def assignable_s_def declare_sym_def
  define_or_err_def type_from_te_def require_assignable_def require_numeric_def require_bool_def

lemmas rule_defs = concat_operand_def unify_s_def check_arith_def check_compare_def
  check_builtin_op_def find_overload_def check_binary_def check_unary_def assign_target_def
  check_assign_types_def resolve_callee_def check_call_shape_def check_argument_def
  closure_type_def enum_access_def find_member_def member_type_def index_type_def new_type_def
  this_type_def super_type_def ident_type_def declare_var_def lambda_params_def lambda_type_def

lemmas stmt_defs = outside_loop_def check_return_value_def check_no_return_value_def
  check_iterable_def check_delete_type_def var_decl_head_def var_decl_before_def
  var_decl_type_def var_decl_define_def check_arm_pattern_def bind_arm_def check_arm_enum_def
  check_scrutinee_def catch_symbol_def

locale check_frame = frame_pair R E for R E :: "sema \<Rightarrow> sema \<Rightarrow> bool" +
  assumes frame_err [frame_intros]: "frame R E (err l msg)"
    and frame_warn [frame_intros]: "frame R E (warn l msg)"
    and frame_define_sym [frame_intros]: "frame R E (define_sym x sy)"
    and frame_intern_s [frame_intros]: "frame R E (intern_s n k)"
    and frame_update_type: "keeps_identity f \<Longrightarrow> frame R E (update_type i f)"
    and R_push: "R (s\<lparr>stack := push_scope c (stack s)\<rparr>) t \<Longrightarrow> R s (t\<lparr>stack := pop_scope (stack t)\<rparr>)"
    and E_push: "E (s\<lparr>stack := push_scope c (stack s)\<rparr>) t \<Longrightarrow> E s t"
    and R_loop: "R (s\<lparr>in_loop := b\<rparr>) t \<Longrightarrow> R s (t\<lparr>in_loop := in_loop s\<rparr>)"
    and E_loop: "E (s\<lparr>in_loop := b\<rparr>) t \<Longrightarrow> E s t"
    and R_unsafe: "R (s\<lparr>in_unsafe := b\<rparr>) t \<Longrightarrow> R s (t\<lparr>in_unsafe := in_unsafe s\<rparr>)"
    and E_unsafe: "E (s\<lparr>in_unsafe := b\<rparr>) t \<Longrightarrow> E s t"
    and R_await: "R (s\<lparr>in_await := b\<rparr>) t \<Longrightarrow> R s (t\<lparr>in_await := in_await s\<rparr>)"
    and E_await: "E (s\<lparr>in_await := b\<rparr>) t \<Longrightarrow> E s t"
    and R_result: "R (s\<lparr>current_return_type := r\<rparr>) t \<Longrightarrow>
          R s (t\<lparr>current_return_type := current_return_type s\<rparr>)"
    and E_result: "E (s\<lparr>current_return_type := r\<rparr>) t \<Longrightarrow> E s t"
begin

lemma frame_scoped [frame_intros]: "frame R E m \<Longrightarrow> frame R E (scoped c m)"
  unfolding scoped_eq by (rule frame_bracket [OF R_push E_push])

lemma frame_with_flags [frame_intros]:
  assumes "frame R E m"
  shows "frame R E (with_loop b m)" "frame R E (with_unsafe b m)" "frame R E (with_await b m)"
    "frame R E (with_return_type t m)"
  unfolding with_loop_def with_unsafe_def with_await_def with_return_type_def with_field_eq
  by (rule frame_bracket; (erule R_loop R_unsafe R_await R_result E_loop E_unsafe E_await E_result
      | rule assms))+

lemma frame_requirements [frame_intros]:
  "frame R E (lookup_sym x)"
  "frame R E (type_name t)"
  "frame R E (assignable_s a b)"
  "frame R E (declare_sym x sy)"
  "frame R E (define_or_err x sy l msg)"
  "frame R E (type_from_te te)"
  "frame R E (require_assignable a b l c)"
  "frame R E (require_numeric t l c)"
  "frame R E (require_bool t l c)"
  unfolding require_defs by (intro frame_intros frame_update_type keeps_identity_fill)+

lemma frame_rules [frame_intros]:
  "frame R E (unify_s a b)"
  "frame R E (concat_operand w sd ok t l)"
  "frame R E (check_arith op tg v a b)"
  "frame R E (check_compare l a b)"
  "frame R E (check_builtin_op l op tg v a b)"
  "frame R E (find_overload e t m)"
  "frame R E (check_binary l op tg v a b)"
  "frame R E (check_unary op e t)"
  "frame R E (assign_target op target rhs)"
  "frame R E (check_assign_types op tg v a b)"
  "frame R E (resolve_callee e)"
  "frame R E (check_call_shape sy l n)"
  "frame R E (check_argument sy i t l)"
  "frame R E (closure_type x)"
  "frame R E (enum_access l e m)"
  "frame R E (find_member t m)"
  "frame R E (member_type l e m t)"
  "frame R E (index_type tg v a b)"
  "frame R E (new_type l te)"
  "frame R E (this_type l)"
  "frame R E super_type"
  "frame R E (ident_type l x)"
  "frame R E (declare_var x t l)"
  "frame R E (lambda_params ps)"
  "frame R E (lambda_type ps ct t)"
  unfolding rule_defs Let_def by (intro frame_intros frame_update_type keeps_identity_return keeps_identity_params)+

lemma frame_stmt_parts [frame_intros]:
  "frame R E (outside_loop l w)"
  "frame R E (check_return_value t l)"
  "frame R E (check_no_return_value l)"
  "frame R E (check_iterable t l)"
  "frame R E (check_delete_type t l)"
  "frame R E (var_decl_head l b)"
  "frame R E (var_decl_before l c d x e)"
  "frame R E (var_decl_type x e t u)"
  "frame R E (var_decl_define l c x t)"
  "frame R E (check_arm_pattern p l)"
  "frame R E (bind_arm p)"
  "frame R E (check_arm_enum t a)"
  "frame R E (check_scrutinee t l arms)"
  "frame R E (catch_symbol al ct cv)"
  unfolding stmt_defs Let_def by (intro frame_intros)+

text \<open>The body of a lambda is checked only when it is a block.\<close>

lemma frame_case_block [frame_intros]:
  "(\<And>l b. st = BlockStmt l b \<Longrightarrow> frame R E (f l b)) \<Longrightarrow> frame R E m \<Longrightarrow> frame R E (case st of BlockStmt l b \<Rightarrow> f l b | _ \<Rightarrow> m)"
  by (cases st) simp_all

lemma frame_case_callee [frame_intros]:
  "frame R E m1 \<Longrightarrow> (\<And>sy e. frame R E (m2 sy e)) \<Longrightarrow> (\<And>t. frame R E (m3 t)) \<Longrightarrow> frame R E m4 \<Longrightarrow>
   frame R E (case k of CalleeUndefined \<Rightarrow> m1 | CalleeSymbol sy e \<Rightarrow> m2 sy e
     | CalleeStdlib t \<Rightarrow> m3 t | CalleeOther \<Rightarrow> m4)"
  by (cases k) simp_all

theorem frame_check [frame_intros]:
  shows "frame R E (check_expr e)"
    and "frame R E (check_exprs es)"
    and "frame R E (check_args sy i as)"
    and "frame R E (check_pairs ps)"
    and "frame R E (check_stmt st)"
    and "frame R E (check_stmts sts)"
    and "frame R E (check_var_inits l c d t ds)"
    and "frame R E (check_cases cs)"
    and "frame R E (check_arms arms)"
proof (induction e and es and sy i as and ps and st and sts and l c d t ds and cs and arms
    rule: check_expr_check_exprs_check_args_check_pairs_check_stmt_check_stmts_check_var_inits_check_cases_check_arms.induct)
qed (unfold check_expr.simps check_exprs.simps check_args.simps check_pairs.simps check_stmt.simps
    check_stmts.simps check_var_inits.simps check_cases.simps check_arms.simps,
    (intro frame_intros; blast?)+)

end

end
