(* ===== verification/Sema_Effects.thy ===== *)
theory Sema_Effects
  imports Sema_Frames
begin

text \<open>
  The interpretations of \<open>check_frame\<close>: the environment a check restores, the diagnostics it
  accounts for, the type table it only extends.
\<close>

section \<open>The environment\<close>

definition scope_extends :: "scope \<Rightarrow> scope \<Rightarrow> bool" where
  "scope_extends sc sc' \<longleftrightarrow> is_class_scope sc' = is_class_scope sc \<and>
     (\<exists>new. symbols sc' = symbols sc @ new)"

lemma scope_extends_refl [simp]: "scope_extends sc sc"
  by (simp add: scope_extends_def)

lemma scope_extends_trans: "scope_extends a b \<Longrightarrow> scope_extends b c \<Longrightarrow> scope_extends a c"
  by (auto simp: scope_extends_def)

lemma scope_extends_define [simp]: "scope_extends sc (snd (scope_define x sy sc))"
  by (auto simp: scope_extends_def scope_define_def split: option.split)

lemma scope_extends_lookup:
  "scope_extends sc sc' \<Longrightarrow> scope_lookup sc x = Some sy \<Longrightarrow> scope_lookup sc' x = Some sy"
  by (auto simp: scope_extends_def scope_lookup_def map_add_def)

text \<open>The members that every sub-check saves and restores.\<close>

definition flags :: "sema \<Rightarrow> type_id \<times> string \<times> type_id \<times> bool \<times> bool \<times> bool" where
  "flags s = (current_return_type s, current_class_name s, current_class_type s,
     in_loop s, in_unsafe s, in_await s)"

definition env_kept :: "sema \<Rightarrow> sema \<Rightarrow> bool" where
  "env_kept s t \<longleftrightarrow> flags t = flags s \<and>
     (stack s \<noteq> [] \<longrightarrow> stack t \<noteq> [] \<and> tl (stack t) = tl (stack s) \<and>
        scope_extends (hd (stack s)) (hd (stack t)))"

text \<open>A throw leaves the scopes that were open, with the enclosing ones untouched.\<close>

definition env_thrown :: "sema \<Rightarrow> sema \<Rightarrow> bool" where
  "env_thrown s t \<longleftrightarrow> (stack s \<noteq> [] \<longrightarrow>
     (\<exists>inner sc. stack t = inner @ sc # tl (stack s) \<and> scope_extends (hd (stack s)) sc))"

lemma frame_errI:
  assumes "\<And>d' s. R s (s\<lparr>drv := d', sema_errors := Suc (sema_errors s)\<rparr>)"
    and "\<And>d' s. E s (s\<lparr>drv := d'\<rparr>)"
  shows "frame R E (err l msg)"
proof -
  have "case err l msg s of Returned a t \<Rightarrow> R s t | Thrown t \<Rightarrow> E s t | _ \<Rightarrow> True" for s
    by (rule driver_error_cases [of l msg "drv s"]) (auto simp: err_def prog_defs assms)
  then show ?thesis by (simp add: frame_def)
qed

lemma frame_warnI: "(\<And>d' s. R s (s\<lparr>drv := d'\<rparr>)) \<Longrightarrow> frame R E (warn l msg)"
  by (simp add: frame_def warn_def on_field_def driver_warning_outcome)

lemma frame_define_symI:
  "(\<And>s. R s (s\<lparr>stack := snd (stack_define x sy (stack s))\<rparr>)) \<Longrightarrow> frame R E (define_sym x sy)"
  by (simp add: frame_def define_sym_def)

lemma frame_intern_sI:
  "(\<And>s. R s (s\<lparr>reg := snd (intern n k (reg s))\<rparr>)) \<Longrightarrow> frame R E (intern_s n k)"
  by (simp add: frame_def intern_s_def)

lemma frame_update_typeI:
  "(\<And>s. R s (s\<lparr>reg := update_info i f (reg s)\<rparr>)) \<Longrightarrow> frame R E (update_type i f)"
  by (simp add: frame_def update_type_def modify_def)

lemma stack_define_split:
  "st \<noteq> [] \<Longrightarrow> snd (stack_define x sy st) = snd (scope_define x sy (hd st)) # tl st"
  by (cases st) (simp_all add: case_prod_beta)

lemma pop_scope_Cons: "st \<noteq> [] \<Longrightarrow> pop_scope (sc # st) = st"
  by (cases st) (simp_all add: pop_scope_def)

lemma env_thrown_same: "stack t = stack s \<Longrightarrow> env_thrown s t"
  by (cases "stack s") (auto simp: env_thrown_def intro: exI [of _ "[]"])

interpretation env: check_frame env_kept env_thrown
proof unfold_locales
  show "env_kept s t \<Longrightarrow> env_kept t u \<Longrightarrow> env_kept s u" for s t u
    by (auto simp: env_kept_def intro: scope_extends_trans)
  show "env_kept s t \<Longrightarrow> env_thrown t u \<Longrightarrow> env_thrown s u" for s t u
    by (auto simp: env_kept_def env_thrown_def intro: scope_extends_trans)
  show "frame env_kept env_thrown (err l msg)" for l msg
    by (rule frame_errI) (simp_all add: env_kept_def flags_def env_thrown_same)
  show "frame env_kept env_thrown (define_sym x sy)" for x sy
    by (rule frame_define_symI) (simp add: env_kept_def flags_def stack_define_split)
  show "env_kept s (t\<lparr>stack := pop_scope (stack t)\<rparr>)"
    if "env_kept (s\<lparr>stack := push_scope c (stack s)\<rparr>) t" for s t c
    using that by (cases "stack t")
      (auto simp: env_kept_def flags_def push_scope_def pop_scope_Cons)
  show "env_thrown s t" if thrown: "env_thrown (s\<lparr>stack := push_scope c (stack s)\<rparr>) t" for s t c
  proof (cases "stack s")
    case (Cons sc rest)
    then obtain inner top where "stack t = inner @ top # sc # rest"
      using thrown Cons by (auto simp: env_thrown_def push_scope_def)
    then show ?thesis using Cons by (auto simp: env_thrown_def intro!: exI [of _ "inner @ [top]"])
  qed (simp add: env_thrown_def)
qed (auto simp: env_kept_def env_thrown_def flags_def intro!: frame_warnI frame_intern_sI frame_update_typeI)

section \<open>Diagnostics\<close>

definition diag_grows :: "sema \<Rightarrow> sema \<Rightarrow> bool" where
  "diag_grows s t \<longleftrightarrow>
     sema_errors t + driver_errors (drv s) = sema_errors s + driver_errors (drv t) \<and>
     driver_errors (drv s) \<le> driver_errors (drv t) \<and>
     (below_limit (drv s) \<longrightarrow> below_limit (drv t)) \<and>
     filename (drv t) = filename (drv s) \<and> source_lines (drv t) = source_lines (drv s) \<and>
     (\<exists>txt. stderr_out (drv t) = stderr_out (drv s) @ txt)"

text \<open>A throw happens at the limit: the driver has counted an error the checker has not.\<close>

definition diag_thrown :: "sema \<Rightarrow> sema \<Rightarrow> bool" where
  "diag_thrown s t \<longleftrightarrow>
     sema_errors t + driver_errors (drv s) + 1 = sema_errors s + driver_errors (drv t) \<and>
     driver_errors (drv s) < driver_errors (drv t) \<and>
     (below_limit (drv s) \<longrightarrow> driver_errors (drv t) = kMaxErrors) \<and>
     kMaxErrors \<le> driver_errors (drv t)"

lemma driver_error_returned:
  "driver_error l msg d = Returned () d' \<Longrightarrow>
   driver_errors d' = Suc (driver_errors d) \<and> below_limit d' \<and> filename d' = filename d \<and>
   source_lines d' = source_lines d \<and> (\<exists>txt. stderr_out d' = stderr_out d @ txt)"
  by (auto simp: driver_defs prog_defs below_limit_def split: if_splits)

lemma driver_error_thrown:
  "driver_error l msg d = Thrown d' \<Longrightarrow>
   driver_errors d' = Suc (driver_errors d) \<and> kMaxErrors \<le> Suc (driver_errors d)"
  by (auto simp: driver_defs prog_defs split: if_splits)

lemma frame_diag_err: "frame diag_grows diag_thrown (err l msg)"
proof -
  have "case err l msg s of Returned a t \<Rightarrow> diag_grows s t | Thrown t \<Rightarrow> diag_thrown s t | _ \<Rightarrow> True" for s
  proof (cases "driver_error l msg (drv s)")
    case (Returned u d)
    then show ?thesis using driver_error_returned [of l msg "drv s" d]
      by (simp add: err_def prog_defs diag_grows_def)
  next
    case (Thrown d)
    then show ?thesis using driver_error_thrown [of l msg "drv s" d]
      by (simp add: err_def prog_defs diag_thrown_def below_limit_def)
  qed (simp_all add: err_def prog_defs)
  then show ?thesis by (simp add: frame_def)
qed

lemma frame_diag_warn: "frame diag_grows diag_thrown (warn l msg)"
  by (simp add: frame_def warn_def on_field_def driver_warning_outcome diag_grows_def
      write_err_def below_limit_def)

lemma diag_grows_same: "drv t = drv s \<Longrightarrow> sema_errors t = sema_errors s \<Longrightarrow> diag_grows s t"
  by (simp add: diag_grows_def)

interpretation diag: check_frame diag_grows diag_thrown
proof unfold_locales
  show "diag_grows s t \<Longrightarrow> diag_grows t u \<Longrightarrow> diag_grows s u" for s t u
    by (auto simp: diag_grows_def)
  show "diag_grows s t \<Longrightarrow> diag_thrown t u \<Longrightarrow> diag_thrown s u" for s t u
    by (auto simp: diag_grows_def diag_thrown_def)
qed (auto simp: diag_grows_same frame_diag_err frame_diag_warn
    intro!: frame_define_symI frame_intern_sI frame_update_typeI,
    auto simp: diag_grows_def diag_thrown_def)

section \<open>The type table\<close>

text \<open>Types keep their name, kind, parent and interfaces; new ones are added at the end.\<close>

definition identity :: "type_info \<Rightarrow> type_kind \<times> string \<times> type_id \<times> type_id list" where
  "identity ti = (ti_kind ti, ti_name ti, ti_parent ti, ti_ifaces ti)"

definition table_extends :: "registry \<Rightarrow> registry \<Rightarrow> bool" where
  "table_extends r r' \<longleftrightarrow>
     (\<exists>new. map identity (type_table r') = map identity (type_table r) @ new) \<and>
     by_name r \<subseteq>\<^sub>m by_name r'"

definition types_kept :: "sema \<Rightarrow> sema \<Rightarrow> bool" where
  "types_kept s t \<longleftrightarrow> table_extends (reg s) (reg t) \<and>
     (registry_inv (reg s) \<longrightarrow> registry_inv (reg t)) \<and>
     (registry_inv (reg s) \<longrightarrow> acyclic_types (reg s) \<longrightarrow> acyclic_types (reg t))"

lemma table_extends_refl [simp]: "table_extends r r"
  by (simp add: table_extends_def)

lemma table_extends_trans: "table_extends a b \<Longrightarrow> table_extends b c \<Longrightarrow> table_extends a c"
  by (auto simp: table_extends_def intro: map_le_trans)

lemma table_extends_intern: "table_extends r (snd (intern n k r))"
  by (cases "by_name r n") (auto simp: table_extends_def intern_known intern_new map_le_def)

lemma map_update_same:
  assumes "g y = g (xs ! i)"
  shows "map g (xs[i := y]) = map g xs"
proof (cases "i < length xs")
  case True
  then show ?thesis using list_update_id [of "map g xs" i] by (simp add: map_update assms)
qed (simp add: list_update_beyond)

lemma table_extends_update: "keeps_identity f \<Longrightarrow> table_extends r (update_info i f r)"
  by (simp add: table_extends_def update_info_def info_def keeps_identity_def identity_def map_update_same)

lemma types_kept_trans: "types_kept s t \<Longrightarrow> types_kept t u \<Longrightarrow> types_kept s u"
  by (auto simp: types_kept_def intro: table_extends_trans)

interpretation table: check_frame types_kept types_kept
proof unfold_locales
  show "frame types_kept types_kept (intern_s n k)" for n k
    by (rule frame_intern_sI) (auto simp: types_kept_def table_extends_intern
        intro: registry_inv_intern acyclic_intern)
  show "frame types_kept types_kept (update_type i f)" if f: "keeps_identity f" for i f
    using f by (intro frame_update_typeI)
      (auto simp: types_kept_def table_extends_update keeps_identity_def
        intro: registry_inv_update_info acyclic_update_info)
qed (auto intro: types_kept_trans, auto simp: types_kept_def intro!: frame_errI frame_warnI frame_define_symI)

end
