(* ===== verification/Sema_Sound.thy ===== *)
theory Sema_Sound
  imports Sema_Effects
begin

text \<open>
  Total correctness of the checker. The judgement \<open>sound I n m Q\<close> says that \<open>m\<close>, started in a state
  with invariant \<open>I\<close> and at least \<open>n\<close> types, does not hang and follows no null pointer, and
  when it returns, keeps \<open>I\<close>, does not lose types and gives a result with \<open>Q\<close> at the new number of
  types and every larger one. The locale \<open>check_sound\<close> states what \<open>I\<close> must allow; in it every check is sound on
  the trees a parser builds, and the types it computes are entries of the table.
\<close>

section \<open>Valid types\<close>

text \<open>Unknown, one of the twelve built-in types, or below \<open>n\<close>.\<close>

definition type_ok :: "nat \<Rightarrow> type_id \<Rightarrow> bool" where
  "type_ok n t \<longleftrightarrow> - 1 \<le> t \<and> (t < 12 \<or> t < int n)"

definition symbol_ok :: "nat \<Rightarrow> symbol \<Rightarrow> bool" where
  "symbol_ok n sy \<longleftrightarrow> type_ok n (sy_type sy) \<and> type_ok n (sy_return_type sy) \<and>
     (\<forall>p\<in>set (sy_params sy). type_ok n (snd p))"

definition info_ok :: "nat \<Rightarrow> type_info \<Rightarrow> bool" where
  "info_ok n ti \<longleftrightarrow> type_ok n (ti_return_type ti) \<and> (\<forall>t\<in>set (ti_param_types ti). type_ok n t) \<and>
     (\<forall>v\<in>set (ti_variants ti). \<forall>t\<in>set (evi_payload v). type_ok n t)"

definition tsize :: "sema \<Rightarrow> nat" where
  "tsize s = length (type_table (reg s))"

definition scopes_ok :: "nat \<Rightarrow> scope_stack \<Rightarrow> bool" where
  "scopes_ok n st \<longleftrightarrow> st \<noteq> [] \<and> (\<forall>sc\<in>set st. \<forall>(x, sy)\<in>set (symbols sc). symbol_ok n sy)"

definition state_ok :: "sema \<Rightarrow> bool" where
  "state_ok s \<longleftrightarrow> registry_inv (reg s) \<and> acyclic_types (reg s) \<and>
     scopes_ok (tsize s) (stack s) \<and> (\<forall>ti\<in>set (type_table (reg s)). info_ok (tsize s) ti) \<and>
     type_ok (tsize s) (current_return_type s) \<and> type_ok (tsize s) (current_class_type s)"

lemma type_ok_mono: "type_ok n t \<Longrightarrow> n \<le> m \<Longrightarrow> type_ok m t"
  by (auto simp: type_ok_def)

lemma type_ok_builtin [simp]:
  "type_ok n TID_UNKNOWN" "type_ok n TID_VOID" "type_ok n TID_BOOL" "type_ok n TID_INT"
  "type_ok n TID_LONG" "type_ok n TID_REAL" "type_ok n TID_DOUBLE" "type_ok n TID_STR"
  "type_ok n TID_LIST" "type_ok n TID_DICT" "type_ok n TID_TUPLE" "type_ok n TID_OBJECT"
  "type_ok n TID_NULL"
  by (simp_all add: type_ok_def)

lemma symbol_ok_default [simp]: "symbol_ok n default_symbol"
  by (simp add: symbol_ok_def default_symbol_def)

lemma symbol_ok_update [simp]:
  "symbol_ok n (sy\<lparr>sy_name := x\<rparr>) \<longleftrightarrow> symbol_ok n sy"
  "symbol_ok n (sy\<lparr>sy_kind := k\<rparr>) \<longleftrightarrow> symbol_ok n sy"
  "symbol_ok n (sy\<lparr>sy_decl := d\<rparr>) \<longleftrightarrow> symbol_ok n sy"
  "symbol_ok n (sy\<lparr>sy_loc := l\<rparr>) \<longleftrightarrow> symbol_ok n sy"
  "symbol_ok n (sy\<lparr>sy_is_const := b\<rparr>) \<longleftrightarrow> symbol_ok n sy"
  "symbol_ok n (sy\<lparr>sy_is_async := b\<rparr>) \<longleftrightarrow> symbol_ok n sy"
  by (simp_all add: symbol_ok_def)

lemma symbol_ok_types [simp]:
  "symbol_ok n sy \<Longrightarrow> type_ok n t \<Longrightarrow> symbol_ok n (sy\<lparr>sy_type := t\<rparr>)"
  "symbol_ok n sy \<Longrightarrow> type_ok n t \<Longrightarrow> symbol_ok n (sy\<lparr>sy_return_type := t\<rparr>)"
  "symbol_ok n sy \<Longrightarrow> \<forall>p\<in>set ps. type_ok n (snd p) \<Longrightarrow> symbol_ok n (sy\<lparr>sy_params := ps\<rparr>)"
  by (simp_all add: symbol_ok_def)

lemma symbol_okD:
  "symbol_ok n sy \<Longrightarrow> type_ok n (sy_type sy)"
  "symbol_ok n sy \<Longrightarrow> type_ok n (sy_return_type sy)"
  by (simp_all add: symbol_ok_def)

lemma symbol_ok_mono: "symbol_ok n sy \<Longrightarrow> n \<le> m \<Longrightarrow> symbol_ok m sy"
  by (auto simp: symbol_ok_def intro: type_ok_mono)

lemma info_ok_mono: "info_ok n ti \<Longrightarrow> n \<le> m \<Longrightarrow> info_ok m ti"
  by (fastforce simp: info_ok_def intro: type_ok_mono)

lemma scopes_ok_mono: "scopes_ok n st \<Longrightarrow> n \<le> m \<Longrightarrow> scopes_ok m st"
  by (fastforce simp: scopes_ok_def intro: symbol_ok_mono)

lemma type_ok_in_range:
  "registry_inv r \<Longrightarrow> type_ok (length (type_table r)) t \<longleftrightarrow> t = TID_UNKNOWN \<or> in_range r t"
  using registry_inv_length [of r] by (auto simp: type_ok_def in_range_def)

lemma from_name_ok: "registry_inv r \<Longrightarrow> length (type_table r) \<le> k \<Longrightarrow> type_ok k (from_name r x)"
  using from_name_range [of r x] type_ok_in_range [of r "from_name r x"] type_ok_mono by blast

lemma stack_lookup_ok:
  "scopes_ok n st \<Longrightarrow> stack_lookup st x = Some sy \<Longrightarrow> symbol_ok n sy"
proof (induction st x rule: stack_lookup.induct)
  case (2 sc st x)
  have here: "symbol_ok n sy" if "scope_lookup sc x = Some sy"
    using that 2(2) map_of_SomeD [of "symbols sc" x sy] by (fastforce simp: scopes_ok_def scope_lookup_def)
  show ?case
  proof (cases "scope_lookup sc x")
    case None
    then have "st \<noteq> []" using 2(3) by auto
    then show ?thesis using None 2 by (simp add: scopes_ok_def)
  qed (use here 2(3) in simp)
qed simp

text \<open>A node that got a new valid type, or none.\<close>

definition retyped :: "nat \<Rightarrow> expr \<Rightarrow> expr \<Rightarrow> bool" where
  "retyped n e e' \<longleftrightarrow> e' = e \<or> (\<exists>t. type_ok n t \<and> e' = set_type_id t e)"

lemma retyped_same [simp]: "retyped n e e"
  by (simp add: retyped_def)

lemma retyped_set [simp]: "type_ok n t \<Longrightarrow> retyped n e (set_type_id t e)"
  by (auto simp: retyped_def)

section \<open>The judgement\<close>

definition sound ::
  "(sema \<Rightarrow> bool) \<Rightarrow> nat \<Rightarrow> (sema, 'a) prog \<Rightarrow> (nat \<Rightarrow> 'a \<Rightarrow> bool) \<Rightarrow> bool" where
  "sound I n m Q \<longleftrightarrow> (\<forall>s. I s \<longrightarrow> n \<le> tsize s \<longrightarrow>
     (case m s of
        Returned a t \<Rightarrow> I t \<and> tsize s \<le> tsize t \<and> (\<forall>k\<ge>tsize t. Q k a)
      | Thrown t \<Rightarrow> True
      | Looping \<Rightarrow> False
      | NullDeref \<Rightarrow> False))"

abbreviation (input) any_post :: "nat \<Rightarrow> 'a \<Rightarrow> bool" where
  "any_post \<equiv> (\<lambda>_ _. True)"

lemma soundD:
  assumes "sound I n m Q" and "I s" and "n \<le> tsize s"
  obtains a t where "m s = Returned a t" and "I t" and "tsize s \<le> tsize t" and "\<forall>k\<ge>tsize t. Q k a"
  | t where "m s = Thrown t"
  using assms unfolding sound_def by (cases "m s") fastforce+

lemma sound_ret: "(\<And>k. n \<le> k \<Longrightarrow> Q k a) \<Longrightarrow> sound I n (ret a) Q"
  by (simp add: sound_def ret_def)

lemma sound_gets:
  "(\<And>s k. I s \<Longrightarrow> n \<le> tsize s \<Longrightarrow> tsize s \<le> k \<Longrightarrow> Q k (f s)) \<Longrightarrow> sound I n (gets f) Q"
  by (simp add: sound_def gets_def)

lemma sound_run_loop:
  assumes "\<And>s. I s \<Longrightarrow> n \<le> tsize s \<Longrightarrow> \<exists>a. f s = Some a"
    and "\<And>s k a. I s \<Longrightarrow> n \<le> tsize s \<Longrightarrow> tsize s \<le> k \<Longrightarrow> f s = Some a \<Longrightarrow> Q k a"
  shows "sound I n (run_loop f) Q"
  unfolding sound_def
proof (intro allI impI)
  fix s
  assume "I s" "n \<le> tsize s"
  with assms show "case run_loop f s of
      Returned a t \<Rightarrow> I t \<and> tsize s \<le> tsize t \<and> (\<forall>k\<ge>tsize t. Q k a)
    | Thrown t \<Rightarrow> True | Looping \<Rightarrow> False | NullDeref \<Rightarrow> False"
    by (fastforce simp: run_loop_def)
qed

lemma sound_bind:
  assumes "sound I n m P" and "\<And>a n'. n \<le> n' \<Longrightarrow> \<forall>k\<ge>n'. P k a \<Longrightarrow> sound I n' (f a) Q"
  shows "sound I n (bind_s m f) Q"
  unfolding sound_def
proof (intro allI impI)
  fix s
  assume s: "I s" "n \<le> tsize s"
  from assms(1) s show "case bind_s m f s of
      Returned a t \<Rightarrow> I t \<and> tsize s \<le> tsize t \<and> (\<forall>k\<ge>tsize t. Q k a)
    | Thrown t \<Rightarrow> True | Looping \<Rightarrow> False | NullDeref \<Rightarrow> False"
  proof (cases rule: soundD)
    case (1 a t)
    then have "n \<le> tsize t" using s by simp
    with assms(2) [of "tsize t" a] 1 have "sound I (tsize t) (f a) Q" by simp
    then show ?thesis using 1(2) order_refl
    proof (cases rule: soundD)
      case (1 b u)
      then show ?thesis using \<open>m s = Returned a t\<close> \<open>tsize s \<le> tsize t\<close> by (simp add: bind_s_def)
    qed (simp add: bind_s_def 1)
  qed (simp add: bind_s_def)
qed

lemma sound_then:
  "sound I n m P \<Longrightarrow> (\<And>n'. n \<le> n' \<Longrightarrow> sound I n' k Q) \<Longrightarrow> sound I n (then_s m k) Q"
  unfolding then_s_def by (rule sound_bind) blast+

lemma sound_post:
  assumes "sound I n m P" and "\<And>k a. n \<le> k \<Longrightarrow> P k a \<Longrightarrow> Q k a"
  shows "sound I n m Q"
  unfolding sound_def
proof (intro allI impI)
  fix s
  assume s: "I s" "n \<le> tsize s"
  from assms(1) s show "case m s of
      Returned a t \<Rightarrow> I t \<and> tsize s \<le> tsize t \<and> (\<forall>k\<ge>tsize t. Q k a)
    | Thrown t \<Rightarrow> True | Looping \<Rightarrow> False | NullDeref \<Rightarrow> False"
    by (cases rule: soundD) (use s assms(2) in auto)
qed

lemma sound_any: "sound I n m P \<Longrightarrow> sound I n m any_post"
  by (erule sound_post) simp

lemma sound_if: "(b \<Longrightarrow> sound I n m Q) \<Longrightarrow> (\<not> b \<Longrightarrow> sound I n k Q) \<Longrightarrow> sound I n (if b then m else k) Q"
  by simp

lemma sound_case_prod:
  "(\<And>a b. p = (a, b) \<Longrightarrow> sound I n (f a b) Q) \<Longrightarrow> sound I n (case p of (a, b) \<Rightarrow> f a b) Q"
  by (cases p) simp

lemma sound_case_option:
  "(x = None \<Longrightarrow> sound I n m Q) \<Longrightarrow> (\<And>a. x = Some a \<Longrightarrow> sound I n (f a) Q) \<Longrightarrow>
   sound I n (case x of None \<Rightarrow> m | Some a \<Rightarrow> f a) Q"
  by (cases x) simp_all

lemma sound_guarded: "(b \<Longrightarrow> sound I n m any_post) \<Longrightarrow> sound I n (guarded b m) any_post"
  by (cases b) (auto simp: guarded_def intro: sound_ret sound_any)

lemma sound_for_each:
  "(\<And>x n'. x \<in> set xs \<Longrightarrow> n \<le> n' \<Longrightarrow> sound I n' (f x) any_post) \<Longrightarrow> sound I n (for_each f xs) any_post"
proof (induction xs arbitrary: n)
  case (Cons x xs)
  have "sound I n (f x) any_post" using Cons.prems by simp
  moreover have "sound I n' (for_each f xs) any_post" if "n \<le> n'" for n'
    using that Cons.prems by (intro Cons.IH) (meson le_trans list.set_intros(2))
  ultimately show ?case by (simp add: sound_then)
qed (simp add: sound_ret)

lemmas sound_rules = sound_ret sound_bind sound_then sound_if sound_case_prod sound_case_option
  sound_guarded sound_for_each

end
