(* ===== verification/Sema_Total.thy ===== *)
theory Sema_Total
  imports Sema_Sound
begin

text \<open>
  The locale \<open>check_sound\<close>: an invariant that implies \<open>state_ok\<close> and is kept by the primitive
  actions of a check is kept by every check of a well-formed tree, which returns or throws.
\<close>

section \<open>What the invariant must allow\<close>

locale check_sound =
  fixes I :: "sema \<Rightarrow> bool"
  assumes I_ok: "I s \<Longrightarrow> state_ok s"
    and I_drv: "I s \<Longrightarrow> I (s\<lparr>drv := d\<rparr>)"
    and I_errors: "I s \<Longrightarrow> I (s\<lparr>sema_errors := j\<rparr>)"
    and I_define: "I s \<Longrightarrow> symbol_ok (tsize s) sy \<Longrightarrow> sy_kind sy = SK_Var \<Longrightarrow>
          I (s\<lparr>stack := snd (stack_define x sy (stack s))\<rparr>)"
    and I_intern: "I s \<Longrightarrow> I (s\<lparr>reg := snd (intern x k (reg s))\<rparr>)"
    and I_update: "I s \<Longrightarrow> keeps_identity f \<Longrightarrow> (\<And>ti. info_ok (tsize s) ti \<Longrightarrow> info_ok (tsize s) (f ti)) \<Longrightarrow>
          I (s\<lparr>reg := update_info i f (reg s)\<rparr>)"
    and I_push: "I s \<Longrightarrow> I (s\<lparr>stack := push_scope c (stack s)\<rparr>)"
    and I_pop: "I s \<Longrightarrow> I (s\<lparr>stack := pop_scope (stack s)\<rparr>)"
    and I_loop: "I s \<Longrightarrow> I (s\<lparr>in_loop := b\<rparr>)"
    and I_unsafe: "I s \<Longrightarrow> I (s\<lparr>in_unsafe := b\<rparr>)"
    and I_await: "I s \<Longrightarrow> I (s\<lparr>in_await := b\<rparr>)"
    and I_result: "I s \<Longrightarrow> type_ok (tsize s) r \<Longrightarrow> I (s\<lparr>current_return_type := r\<rparr>)"
begin

lemma I_registry: "I s \<Longrightarrow> registry_inv (reg s)"
  using I_ok [of s] by (simp add: state_ok_def)

lemma I_chain: "I s \<Longrightarrow> chain_ends (reg s) t"
  using I_ok [of s] by (simp add: state_ok_def acyclic_chain_ends)

lemma I_lookup:
  assumes "I s" and "stack_lookup (stack s) x = Some sy" and "tsize s \<le> k"
  shows "symbol_ok k sy"
  using assms I_ok [of s] stack_lookup_ok [of "tsize s" "stack s" x sy] symbol_ok_mono
  by (auto simp: state_ok_def)

lemma I_from_name: "I s \<Longrightarrow> tsize s \<le> k \<Longrightarrow> type_ok k (from_name (reg s) x)"
  by (simp add: I_registry from_name_ok tsize_def)

lemma I_info: "I s \<Longrightarrow> tsize s \<le> k \<Longrightarrow> info_ok k (info (reg s) t)"
  using I_ok [of s] registry_inv_nonempty [of "reg s"] info_in_set [of "reg s" t] info_ok_mono
  by (auto simp: state_ok_def)

lemma I_parent: "I s \<Longrightarrow> tsize s \<le> k \<Longrightarrow> type_ok k (ti_parent (info (reg s) t))"
proof -
  assume s: "I s" and k: "tsize s \<le> k"
  note inv = I_registry [OF s]
  have "slot (reg s) t < length (type_table (reg s))"
    using registry_inv_nonempty [OF inv] by (rule slot_less)
  then have "ti_parent (info (reg s) t) = -1 \<or> in_range (reg s) (ti_parent (info (reg s) t))"
    unfolding info_def by (rule registry_inv_parent [OF inv])
  then have "type_ok (tsize s) (ti_parent (info (reg s) t))"
    using type_ok_in_range [OF inv] by (simp add: tsize_def)
  then show ?thesis using k by (rule type_ok_mono)
qed

section \<open>Primitives\<close>

lemma sound_err [sound_intros]: "sound I n (err l msg) any_post"
  unfolding sound_def
proof (intro allI impI)
  fix s
  assume "I s"
  then show "case err l msg s of
      Returned a t \<Rightarrow> I t \<and> tsize s \<le> tsize t \<and> (\<forall>k\<ge>tsize t. True)
    | Thrown t \<Rightarrow> True | Looping \<Rightarrow> False | NullDeref \<Rightarrow> False"
    by (cases rule: driver_error_cases [of l msg "drv s"])
      (simp_all add: err_def prog_defs tsize_def I_drv I_errors)
qed

lemma sound_warn [sound_intros]: "sound I n (warn l msg) any_post"
  by (simp add: sound_def warn_def on_field_def driver_warning_outcome I_drv tsize_def)

lemma sound_define_sym:
  assumes "\<And>k. n \<le> k \<Longrightarrow> symbol_ok k sy" and "sy_kind sy = SK_Var"
  shows "sound I n (define_sym x sy) any_post"
  using assms by (auto simp: sound_def define_sym_def tsize_def intro: I_define)

lemma sound_declare_sym [sound_intros]:
  assumes "\<And>k. n \<le> k \<Longrightarrow> symbol_ok k sy" and "sy_kind sy = SK_Var"
  shows "sound I n (declare_sym x sy) any_post"
  unfolding declare_sym_def by (rule sound_define_sym sound_rules assms TrueI | assumption)+

lemma sound_define_or_err [sound_intros]:
  assumes "\<And>k. n \<le> k \<Longrightarrow> symbol_ok k sy" and "sy_kind sy = SK_Var"
  shows "sound I n (define_or_err x sy l msg) any_post"
  unfolding define_or_err_def by (rule sound_define_sym sound_err sound_rules assms | assumption)+

lemma intern_result:
  assumes "registry_inv r"
  shows "type_ok (length (type_table (snd (intern x k r)))) (fst (intern x k r))"
    and "length (type_table r) \<le> length (type_table (snd (intern x k r)))"
  using assms registry_inv_find [of r x]
  by (cases "by_name r x"; force simp: intern_known intern_new type_ok_def in_range_def)+

lemma sound_intern_s [sound_intros]: "sound I n (intern_s x k) type_ok"
  unfolding sound_def
proof (intro allI impI)
  fix s
  assume s: "I s"
  show "case intern_s x k s of
      Returned a t \<Rightarrow> I t \<and> tsize s \<le> tsize t \<and> (\<forall>j\<ge>tsize t. type_ok j a)
    | Thrown t \<Rightarrow> True | Looping \<Rightarrow> False | NullDeref \<Rightarrow> False"
    using I_intern [OF s] intern_result [OF I_registry [OF s]] type_ok_mono
    by (simp add: intern_s_def tsize_def) blast
qed

lemma sound_update_type:
  assumes "keeps_identity f" and "\<And>k ti. n \<le> k \<Longrightarrow> info_ok k ti \<Longrightarrow> info_ok k (f ti)"
  shows "sound I n (update_type i f) any_post"
  unfolding sound_def
proof (intro allI impI)
  fix s
  assume s: "I s" "n \<le> tsize s"
  then have "I (s\<lparr>reg := update_info i f (reg s)\<rparr>)" using assms by (intro I_update) blast+
  then show "case update_type i f s of
      Returned a t \<Rightarrow> I t \<and> tsize s \<le> tsize t \<and> (\<forall>k\<ge>tsize t. True)
    | Thrown t \<Rightarrow> True | Looping \<Rightarrow> False | NullDeref \<Rightarrow> False"
    by (simp add: update_type_def modify_def tsize_def) (simp add: update_info_def)
qed

lemma sound_lookup_sym [sound_intros]:
  "sound I n (lookup_sym x) (\<lambda>k found. \<forall>sy. found = Some sy \<longrightarrow> symbol_ok k sy)"
  unfolding lookup_sym_def by (rule sound_gets) (blast intro: I_lookup)

lemma sound_gets_any: "sound I n (gets f) any_post"
  by (simp add: sound_gets)

lemma sound_type_name [sound_intros]: "sound I n (type_name t) any_post"
  by (simp add: type_name_def sound_gets_any)

lemma sound_bracket:
  assumes "\<And>s. I s \<Longrightarrow> n \<le> tsize s \<Longrightarrow> I (enter s) \<and> tsize (enter s) = tsize s"
    and "\<And>s t. I s \<Longrightarrow> I t \<Longrightarrow> tsize s \<le> tsize t \<Longrightarrow> I (leave s t) \<and> tsize (leave s t) = tsize t"
    and "sound I n m Q"
  shows "sound I n (bracket enter leave m) Q"
  unfolding sound_def
proof (intro allI impI)
  fix s
  assume s: "I s" "n \<le> tsize s"
  then have enter: "I (enter s)" "n \<le> tsize (enter s)" "tsize (enter s) = tsize s"
    using assms(1) by simp_all
  from assms(3) enter(1,2) show "case bracket enter leave m s of
      Returned a t \<Rightarrow> I t \<and> tsize s \<le> tsize t \<and> (\<forall>k\<ge>tsize t. Q k a)
    | Thrown t \<Rightarrow> True | Looping \<Rightarrow> False | NullDeref \<Rightarrow> False"
    by (cases rule: soundD) (use s enter(3) assms(2) in \<open>simp_all add: bracket_def\<close>)
qed

lemma sound_scoped [sound_intros]: "sound I n m Q \<Longrightarrow> sound I n (scoped c m) Q"
  unfolding scoped_eq by (rule sound_bracket) (auto simp: tsize_def intro: I_push I_pop)

lemma sound_with_flags [sound_intros]:
  assumes "sound I n m Q"
  shows "sound I n (with_loop b m) Q" "sound I n (with_unsafe b m) Q" "sound I n (with_await b m) Q"
  unfolding with_loop_def with_unsafe_def with_await_def with_field_eq
  by (rule sound_bracket [OF _ _ assms]; simp add: tsize_def I_loop I_unsafe I_await)+

text \<open>The result type of a function or lambda is set to a valid type and restored.\<close>

lemma I_result_type: "I s \<Longrightarrow> tsize s \<le> k \<Longrightarrow> type_ok k (current_return_type s)"
  using I_ok [of s] by (auto simp: state_ok_def intro: type_ok_mono)

lemma sound_with_return_type [sound_intros]:
  assumes "\<And>k. n \<le> k \<Longrightarrow> type_ok k r" and "sound I n m Q"
  shows "sound I n (with_return_type r m) Q"
  unfolding with_return_type_def with_field_eq
proof (rule sound_bracket)
  show "I (s\<lparr>current_return_type := r\<rparr>) \<and> tsize (s\<lparr>current_return_type := r\<rparr>) = tsize s"
    if "I s" "n \<le> tsize s" for s
    using I_result [OF that(1) assms(1) [OF that(2)]] by (simp add: tsize_def)
  show "I (t\<lparr>current_return_type := current_return_type s\<rparr>) \<and>
      tsize (t\<lparr>current_return_type := current_return_type s\<rparr>) = tsize t"
    if "I s" "I t" "tsize s \<le> tsize t" for s t
    using I_result [OF that(2) I_result_type [OF that(1,3)]] by (simp add: tsize_def)
qed (rule assms(2))

section \<open>Requirements and rules\<close>

lemma sound_assignable_s [sound_intros]: "sound I n (assignable_s a b) any_post"
  unfolding assignable_s_def by (rule sound_run_loop) (auto intro: assignable_ends I_chain)

lemma unify_cases: "unify r a b = Some c \<Longrightarrow> c = a \<or> c = b \<or> c = TID_OBJECT"
  by (auto simp: unify_def split: if_splits Option.bind_splits)

lemma sound_unify_s [sound_intros]:
  assumes "\<And>k. n \<le> k \<Longrightarrow> type_ok k a" and "\<And>k. n \<le> k \<Longrightarrow> type_ok k b"
  shows "sound I n (unify_s a b) type_ok"
  unfolding unify_s_def
proof (rule sound_run_loop)
  show "type_ok k c" if "n \<le> tsize s" "tsize s \<le> k" "unify (reg s) a b = Some c" for s k c
    using unify_cases [OF that(3)] assms [of k] that(1,2) by (auto simp: type_ok_def)
qed (auto intro: unify_ends I_chain)

lemma sound_type_from_te [sound_intros]: "sound I n (type_from_te te) type_ok"
proof -
  let ?Q = "\<lambda>k r. registry_inv r \<and> length (type_table r) \<le> k"
  have reg: "sound I m (gets reg) ?Q" for m
    by (rule sound_gets) (simp add: I_registry tsize_def)
  have fill: "info_ok k (fill_fn_info r te ti)" if "?Q k r" "info_ok k ti" for k r ti
    using that by (simp add: info_ok_def fill_fn_info_def from_name_ok ball_Un)
  have fn: "sound I n (bind_s (intern_s x TK_Function) (\<lambda>i. bind_s (gets reg) (\<lambda>r.
      then_s (update_type i (fill_fn_info r te)) (ret i)))) type_ok" for x
    by (rule sound_intern_s reg sound_rules sound_update_type keeps_identity_fill | simp add: fill)+
  have name: "sound I n (gets (\<lambda>s. from_type_expr (reg s) te)) type_ok"
    by (rule sound_gets) (simp add: from_type_expr_def I_from_name)
  show ?thesis
    unfolding type_from_te_def by (rule sound_if sound_ret fn name | simp)+
qed

lemma sound_require [sound_intros]:
  "sound I n (require_assignable a b l c) any_post"
  "sound I n (require_numeric t l c) any_post"
  "sound I n (require_bool t l c) any_post"
  unfolding require_assignable_def require_numeric_def require_bool_def
  by (rule sound_intros sound_rules sound_gets_any TrueI | assumption)+

lemma sound_arith [sound_intros]:
  assumes "\<And>k. n \<le> k \<Longrightarrow> type_ok k a" and "\<And>k. n \<le> k \<Longrightarrow> type_ok k b"
  shows "sound I n (check_arith op tg v a b) type_ok"
  unfolding check_arith_def concat_operand_def
  by (rule sound_intros sound_rules TrueI | assumption | simp add: assms)+

lemma sound_compare [sound_intros]: "sound I n (check_compare l a b) type_ok"
proof -
  have either: "sound I m (if b then ret True else assignable_s c d) any_post" for m b c d
    by (simp add: sound_ret sound_assignable_s)
  show ?thesis
    unfolding check_compare_def
    by (rule either sound_intros sound_rules TrueI | assumption | simp)+
qed

lemma sound_find_overload [sound_intros]: "sound I n (find_overload e t m) any_post"
  unfolding find_overload_def by (rule sound_gets_any)

lemma sound_binary [sound_intros]:
  assumes "\<And>k. n \<le> k \<Longrightarrow> type_ok k a" and "\<And>k. n \<le> k \<Longrightarrow> type_ok k b"
  shows "sound I n (check_binary l op tg v a b) type_ok"
  unfolding check_binary_def check_builtin_op_def
  by (rule sound_intros sound_rules TrueI | assumption | simp add: assms)+

lemma sound_unary [sound_intros]:
  assumes "\<And>k. n \<le> k \<Longrightarrow> type_ok k t"
  shows "sound I n (check_unary op e t) type_ok"
  unfolding check_unary_def
  by (rule sound_intros sound_rules TrueI | assumption | simp add: assms)+

lemma sound_assign_target [sound_intros]:
  assumes "\<And>k. n \<le> k \<Longrightarrow> type_ok k rhs"
  shows "sound I n (assign_target op tg rhs)
    (\<lambda>k d. \<forall>r e. d = Some (r, e) \<longrightarrow> type_ok k r \<and> retyped k tg e)"
  unfolding assign_target_def
  by (rule sound_intros sound_rules TrueI | assumption | simp add: assms symbol_okD)+

lemma sound_assign_types [sound_intros]: "sound I n (check_assign_types op tg v a b) any_post"
  unfolding check_assign_types_def by (rule sound_intros sound_rules TrueI | assumption)+

lemma stdlib_ret_ok: "stdlib_ret e = Some t \<Longrightarrow> type_ok k t"
  by (auto simp: stdlib_ret_def kStdlibRet_def Option.bind_eq_Some_conv split: expr.splits if_splits)

lemma sound_resolve_callee [sound_intros]:
  "sound I n (resolve_callee e) (\<lambda>k kind. case kind of
     CalleeUndefined \<Rightarrow> True | CalleeSymbol sy e' \<Rightarrow> symbol_ok k sy \<and> e' = set_type_id (sy_type sy) e
   | CalleeStdlib t \<Rightarrow> type_ok k t | CalleeOther \<Rightarrow> True)"
  unfolding resolve_callee_def
  by (rule sound_intros sound_rules TrueI | assumption | simp add: stdlib_ret_ok split: option.split)+

lemma sound_call_parts [sound_intros]:
  "sound I n (check_call_shape sy l j) any_post"
  "sound I n (check_argument sy i t l) any_post"
  "sound I n (closure_type x) any_post"
  unfolding check_call_shape_def check_argument_def closure_type_def
  by (rule sound_intros sound_rules sound_gets_any TrueI | assumption)+

lemma sound_enum_access [sound_intros]:
  "sound I n (enum_access l e m) (\<lambda>k d. \<forall>r e'. d = Some (r, e') \<longrightarrow> type_ok k r \<and> retyped k e e')"
  unfolding enum_access_def
  by (rule sound_intros sound_rules sound_gets_any TrueI | assumption | simp add: symbol_okD)+

text \<open>The walk for a member climbs the parent chain, so it ends with it.\<close>

lemma member_walk_ends:
  assumes "chain_ends (reg s) t"
  shows "\<exists>b. iter_until (member_step s m) t = Some b"
proof (rule walk_ends [OF assms])
  fix c p
  assume step: "member_step s m c = Inr p"
  then have "0 \<le> c" "p = parent_of (reg s) c" "p \<noteq> c"
    by (auto simp: member_step_def parent_of_def Let_def split: if_splits option.splits)
  then show "(p, c) \<in> parent_rel (reg s) \<or> (\<exists>b. member_step s m p = Inl b)"
    by (auto simp: parent_rel_def member_step_def)
qed

lemma sound_find_member [sound_intros]: "sound I n (find_member t m) any_post"
  unfolding find_member_def by (rule sound_run_loop) (auto intro: member_walk_ends I_chain)

lemma sound_member_type [sound_intros]: "sound I n (member_type l e m t) type_ok"
proof -
  have pick: "sound I k (case (if b then found else None) of
      Some sy \<Rightarrow> ret (sy_type sy) | None \<Rightarrow> p) type_ok"
    if "\<forall>j\<ge>k. \<forall>sy. found = Some sy \<longrightarrow> symbol_ok j sy" "sound I k p type_ok" for k b found p
    using that by (auto intro!: sound_ret intro: symbol_okD split: option.split)
  show ?thesis
    unfolding member_type_def
    by (rule sound_intros sound_bind pick sound_if sound_then sound_guarded sound_ret sound_gets_any TrueI
        | assumption | simp)+
qed

lemma sound_access [sound_intros]:
  "sound I n (index_type tg v a b) type_ok"
  "sound I n (new_type l te) type_ok"
  unfolding index_type_def new_type_def
  by (rule sound_intros sound_rules sound_gets_any TrueI | assumption | simp)+

lemma sound_this_type [sound_intros]: "sound I n (this_type l) type_ok"
proof -
  have "sound I m (gets current_class_type) type_ok" for m
    using I_ok by (intro sound_gets) (auto simp: state_ok_def intro: type_ok_mono)
  then show ?thesis
    unfolding this_type_def by (blast intro: sound_bind sound_then sound_lookup_sym sound_guarded sound_err)
qed

lemma sound_super_type [sound_intros]: "sound I n super_type type_ok"
  unfolding super_type_def Let_def by (rule sound_gets) (simp add: I_parent)

lemma sound_ident_type [sound_intros]: "sound I n (ident_type l x) type_ok"
  unfolding ident_type_def by (rule sound_intros sound_rules TrueI | assumption | simp add: symbol_okD)+

lemma sound_declare_var [sound_intros]:
  assumes "\<And>k. n \<le> k \<Longrightarrow> type_ok k t"
  shows "sound I n (declare_var x t l) any_post"
  unfolding declare_var_def by (rule sound_intros | simp add: assms)+

lemma sound_lambda_params [sound_intros]: "sound I n (lambda_params ps) any_post"
  unfolding lambda_params_def by (rule sound_intros sound_rules | simp)+

lemma sound_lambda_type [sound_intros]:
  assumes "\<And>k. n \<le> k \<Longrightarrow> type_ok k t"
  shows "sound I n (lambda_type ps ct t) (\<lambda>k (r, name). type_ok k r)"
proof -
  have result: "sound I n (case ct of None \<Rightarrow> ret t | Some te \<Rightarrow> type_from_te te) type_ok"
    by (rule sound_intros sound_rules | simp add: assms)+
  have params: "sound I m (if old = [] then for_each (\<lambda>p. bind_s (type_from_te (param_type p)) (\<lambda>t.
      update_type fn (\<lambda>ti. ti\<lparr>ti_param_types := ti_param_types ti @ [t]\<rparr>))) ps else ret ()) any_post"
    for m fn and old :: "type_id list"
    by (rule sound_intros sound_rules sound_update_type keeps_identity_params
        | simp add: info_ok_def ball_Un)+
  show ?thesis
    unfolding lambda_type_def
    by (rule result params sound_intros sound_bind sound_then sound_ret sound_gets_any sound_update_type
        keeps_identity_return | simp add: info_ok_def)+
qed

section \<open>Parts of statements\<close>

lemma sound_stmt_parts [sound_intros]:
  "sound I n (outside_loop l w) any_post"
  "sound I n (check_return_value t l) any_post"
  "sound I n (check_no_return_value l) any_post"
  "sound I n (check_iterable t l) any_post"
  "sound I n (check_delete_type t l) any_post"
  "sound I n (var_decl_head l b) any_post"
  "sound I n (var_decl_before l b c x e) any_post"
  "sound I n (check_arm_pattern p l) any_post"
  "sound I n (check_arm_enum t a) any_post"
  "sound I n (check_scrutinee t l arms) any_post"
  unfolding outside_loop_def check_return_value_def check_no_return_value_def check_iterable_def
    check_delete_type_def var_decl_head_def var_decl_before_def check_arm_pattern_def
    check_arm_enum_def check_scrutinee_def Let_def
  by (rule sound_intros sound_rules sound_gets_any TrueI | assumption)+

lemma sound_var_decl_type [sound_intros]:
  assumes "\<And>k. n \<le> k \<Longrightarrow> type_ok k a" and "\<And>k. n \<le> k \<Longrightarrow> type_ok k b"
  shows "sound I n (var_decl_type x e a b) type_ok"
  unfolding var_decl_type_def by (rule sound_intros sound_rules | simp add: assms)+

lemma sound_var_decl_define [sound_intros]:
  assumes "\<And>k. n \<le> k \<Longrightarrow> type_ok k t"
  shows "sound I n (var_decl_define l c x t) any_post"
  unfolding var_decl_define_def by (rule sound_intros | simp add: assms)+

lemma find_in_set: "Some x = find P xs \<Longrightarrow> x \<in> set xs"
  by (auto simp: find_Some_iff2)

lemma arm_payload_ok:
  assumes "I s" and "tsize s \<le> k" and "t \<in> set (arm_payload s p)"
  shows "type_ok k t"
proof -
  from assms(3) obtain u v where "v \<in> set (ti_variants (info (reg s) u))" and "t \<in> set (evi_payload v)"
    by (auto simp: arm_payload_def arm_enum_def dest!: find_in_set split: option.splits if_splits)
  then show ?thesis using I_info [OF assms(1,2), of u] by (auto simp: info_ok_def)
qed

lemma sound_bind_arm [sound_intros]: "sound I n (bind_arm p) any_post"
proof -
  have payload: "sound I m (gets (\<lambda>s. arm_payload s p)) (\<lambda>k ts. \<forall>t\<in>set ts. type_ok k t)" for m
    by (rule sound_gets) (blast intro: arm_payload_ok)
  show ?thesis
    unfolding bind_arm_def by (rule payload sound_intros sound_rules | simp)+
qed

lemma sound_catch_symbol [sound_intros]: "sound I n (catch_symbol b ct x) any_post"
proof -
  have var: "sound I m (case ct of Some te \<Rightarrow> type_from_te te | None \<Rightarrow> ret TID_OBJECT) type_ok" for m
    by (rule sound_intros sound_rules | simp)+
  show ?thesis
    unfolding catch_symbol_def by (rule var sound_intros sound_rules TrueI | simp)+
qed

end

end
