(* ===== verification/Sema_Typed.thy ===== *)
theory Sema_Typed
  imports Sema_Total
begin

text \<open>
  The traversal is total: on the trees a parser builds, a check returns or reports too many
  errors, it never hangs and never follows a null pointer, and every type it computes or writes
  into the tree is an entry of the type table.
\<close>

section \<open>Trees with valid annotations\<close>

fun ann_expr :: "nat \<Rightarrow> expr \<Rightarrow> bool"
  and ann_entry :: "nat \<Rightarrow> dict_entry \<Rightarrow> bool"
  and ann_init :: "nat \<Rightarrow> var_init \<Rightarrow> bool"
  and ann_stmt :: "nat \<Rightarrow> stmt \<Rightarrow> bool"
  and ann_case :: "nat \<Rightarrow> switch_case \<Rightarrow> bool"
  and ann_arm :: "nat \<Rightarrow> match_arm \<Rightarrow> bool" where
  "ann_expr n (BinaryExpr l t op a b) = (type_ok n t \<and> ann_expr n a \<and> ann_expr n b)"
| "ann_expr n (UnaryExpr l t op a p) = (type_ok n t \<and> ann_expr n a)"
| "ann_expr n (AssignExpr l t op a b) = (type_ok n t \<and> ann_expr n a \<and> ann_expr n b)"
| "ann_expr n (CallExpr l t f as) = (type_ok n t \<and> ann_expr n f \<and> (\<forall>a\<in>set as. ann_expr n a))"
| "ann_expr n (MemberExpr l t a m) = (type_ok n t \<and> ann_expr n a)"
| "ann_expr n (IndexExpr l t a b) = (type_ok n t \<and> ann_expr n a \<and> ann_expr n b)"
| "ann_expr n (NewExpr l t te as) = (type_ok n t \<and> (\<forall>a\<in>set as. ann_expr n a))"
| "ann_expr n (ListExpr l t es) = (type_ok n t \<and> (\<forall>a\<in>set es. ann_expr n a))"
| "ann_expr n (DictExpr l t ps) = (type_ok n t \<and> (\<forall>p\<in>set ps. ann_entry n p))"
| "ann_expr n (LambdaExpr l t ps b cs r i) = (type_ok n t \<and> ann_stmt n b)"
| "ann_expr n (AwaitExpr l t a) = (type_ok n t \<and> ann_expr n a)"
| "ann_expr n e = type_ok n (expr_type_id e)"
| "ann_entry n (DictEntry k v) = (ann_expr n k \<and> ann_expr n v)"
| "ann_init n (VarInit x e) = ann_expr n e"
| "ann_stmt n (BlockStmt l b) = (\<forall>s\<in>set b. ann_stmt n s)"
| "ann_stmt n (ExprStmt l e) = ann_expr n e"
| "ann_stmt n (VarDeclStmt l te c st th ds) = (\<forall>d\<in>set ds. ann_init n d)"
| "ann_stmt n (IfStmt l c t e) = (ann_expr n c \<and> ann_stmt n t \<and> ann_stmt n e)"
| "ann_stmt n (WhileStmt l lb c b) = (ann_expr n c \<and> ann_stmt n b)"
| "ann_stmt n (DoWhileStmt l b c) = (ann_stmt n b \<and> ann_expr n c)"
| "ann_stmt n (ForInStmt l te x e b) = (ann_expr n e \<and> ann_stmt n b)"
| "ann_stmt n (ForCStmt l te x i c m b) = (ann_expr n i \<and> ann_expr n c \<and> ann_expr n m \<and> ann_stmt n b)"
| "ann_stmt n (SwitchStmt l e cs) = (ann_expr n e \<and> (\<forall>c\<in>set cs. ann_case n c))"
| "ann_stmt n (MatchStmt l e as) = (ann_expr n e \<and> (\<forall>a\<in>set as. ann_arm n a))"
| "ann_stmt n (TryCatchStmt l b al ct cv cb) = (ann_stmt n b \<and> ann_stmt n cb)"
| "ann_stmt n (ReturnStmt l v) = (case v of None \<Rightarrow> True | Some e \<Rightarrow> ann_expr n e)"
| "ann_stmt n (AssertStmt l e) = ann_expr n e"
| "ann_stmt n (DeleteStmt l e) = ann_expr n e"
| "ann_stmt n (LabeledStmt l lb st) = ann_stmt n st"
| "ann_stmt n (DeferStmt l b) = (\<forall>s\<in>set b. ann_stmt n s)"
| "ann_stmt n (ThrowStmt l e) = ann_expr n e"
| "ann_stmt n (UnsafeStmt l b) = (\<forall>s\<in>set b. ann_stmt n s)"
| "ann_stmt n s = True"
| "ann_case n (SwitchCase v b) =
     ((case v of None \<Rightarrow> True | Some e \<Rightarrow> ann_expr n e) \<and> (\<forall>s\<in>set b. ann_stmt n s))"
| "ann_arm n (MatchArm p b l) = (\<forall>s\<in>set b. ann_stmt n s)"

lemma ann_mono:
  shows "ann_expr n e \<Longrightarrow> n \<le> k \<Longrightarrow> ann_expr k e"
    and "ann_entry n de \<Longrightarrow> n \<le> k \<Longrightarrow> ann_entry k de"
    and "ann_init n vi \<Longrightarrow> n \<le> k \<Longrightarrow> ann_init k vi"
    and "ann_stmt n st \<Longrightarrow> n \<le> k \<Longrightarrow> ann_stmt k st"
    and "ann_case n sc \<Longrightarrow> n \<le> k \<Longrightarrow> ann_case k sc"
    and "ann_arm n ma \<Longrightarrow> n \<le> k \<Longrightarrow> ann_arm k ma"
  by (induction n e and n de and n vi and n st and n sc and n ma
      rule: ann_expr_ann_entry_ann_init_ann_stmt_ann_case_ann_arm.induct)
    (auto intro: type_ok_mono split: option.splits)

lemma ann_all_mono:
  "\<forall>e\<in>set es. ann_expr n e \<Longrightarrow> n \<le> k \<Longrightarrow> \<forall>e\<in>set es. ann_expr k e"
  "\<forall>p\<in>set ps. ann_entry n p \<Longrightarrow> n \<le> k \<Longrightarrow> \<forall>p\<in>set ps. ann_entry k p"
  "\<forall>d\<in>set ds. ann_init n d \<Longrightarrow> n \<le> k \<Longrightarrow> \<forall>d\<in>set ds. ann_init k d"
  "\<forall>st\<in>set b. ann_stmt n st \<Longrightarrow> n \<le> k \<Longrightarrow> \<forall>st\<in>set b. ann_stmt k st"
  "\<forall>c\<in>set cs. ann_case n c \<Longrightarrow> n \<le> k \<Longrightarrow> \<forall>c\<in>set cs. ann_case k c"
  "\<forall>a\<in>set arms. ann_arm n a \<Longrightarrow> n \<le> k \<Longrightarrow> \<forall>a\<in>set arms. ann_arm k a"
  by (blast intro: ann_mono)+

lemma ann_type: "ann_expr n e \<Longrightarrow> type_ok n (expr_type_id e)"
  by (cases e) simp_all

lemma ann_set_type: "ann_expr n e \<Longrightarrow> type_ok n t \<Longrightarrow> ann_expr n (set_type_id t e)"
  by (cases e) simp_all

lemma ann_retyped: "ann_expr n e \<Longrightarrow> retyped n e e' \<Longrightarrow> ann_expr n e'"
  by (auto simp: retyped_def ann_set_type)

lemma inferred_return_ok: "\<forall>st\<in>set b. ann_stmt n st \<Longrightarrow> type_ok n (inferred_return b)"
  by (induction b rule: inferred_return.induct) (auto dest: ann_type)

text \<open>The results of the nine checks.\<close>

definition expr_post :: "nat \<Rightarrow> type_id \<times> expr \<Rightarrow> bool" where
  "expr_post k r \<longleftrightarrow> type_ok k (fst r) \<and> ann_expr k (snd r)"

definition all_post :: "(nat \<Rightarrow> 'a \<Rightarrow> bool) \<Rightarrow> nat \<Rightarrow> 'a list \<Rightarrow> bool" where
  "all_post P k xs \<longleftrightarrow> (\<forall>x\<in>set xs. P k x)"

lemma all_post_simps [simp]:
  "all_post P k []"
  "all_post P k (x # xs) \<longleftrightarrow> P k x \<and> all_post P k xs"
  by (auto simp: all_post_def)

lemma expr_post_pair [simp]: "expr_post k (t, e) \<longleftrightarrow> type_ok k t \<and> ann_expr k e"
  by (simp add: expr_post_def)

lemma sound_bind_pair:
  assumes "sound I n m P"
    and "\<And>t e n'. n \<le> n' \<Longrightarrow> \<forall>k\<ge>n'. P k (t, e) \<Longrightarrow> sound I n' (f t e) Q"
  shows "sound I n (bind_s m (\<lambda>(t, e). f t e)) Q"
  by (rule sound_bind [OF assms(1)]) (use assms(2) in auto)

section \<open>One node at a time\<close>

context check_sound
begin

definition good_expr :: "expr \<Rightarrow> bool" where
  "good_expr e \<longleftrightarrow> (\<forall>n. wf_expr e \<longrightarrow> ann_expr n e \<longrightarrow> sound I n (check_expr e) expr_post)"

definition good_exprs :: "expr list \<Rightarrow> bool" where
  "good_exprs es \<longleftrightarrow> (\<forall>n. (\<forall>e\<in>set es. wf_expr e) \<longrightarrow> (\<forall>e\<in>set es. ann_expr n e) \<longrightarrow>
     sound I n (check_exprs es) (all_post ann_expr))"

definition good_args :: "symbol \<Rightarrow> nat \<Rightarrow> expr list \<Rightarrow> bool" where
  "good_args sy i es \<longleftrightarrow> (\<forall>n. (\<forall>e\<in>set es. wf_expr e) \<longrightarrow> (\<forall>e\<in>set es. ann_expr n e) \<longrightarrow>
     sound I n (check_args sy i es) (all_post ann_expr))"

definition good_pairs :: "dict_entry list \<Rightarrow> bool" where
  "good_pairs ps \<longleftrightarrow> (\<forall>n. (\<forall>p\<in>set ps. wf_entry p) \<longrightarrow> (\<forall>p\<in>set ps. ann_entry n p) \<longrightarrow>
     sound I n (check_pairs ps) (all_post ann_entry))"

definition good_stmt :: "stmt \<Rightarrow> bool" where
  "good_stmt st \<longleftrightarrow> (\<forall>n. wf_stmt st \<longrightarrow> ann_stmt n st \<longrightarrow> sound I n (check_stmt st) ann_stmt)"

definition good_stmts :: "stmt list \<Rightarrow> bool" where
  "good_stmts sts \<longleftrightarrow> (\<forall>n. (\<forall>st\<in>set sts. wf_stmt st) \<longrightarrow> (\<forall>st\<in>set sts. ann_stmt n st) \<longrightarrow>
     sound I n (check_stmts sts) (all_post ann_stmt))"

definition good_inits :: "source_loc \<Rightarrow> bool \<Rightarrow> bool \<Rightarrow> type_id \<Rightarrow> var_init list \<Rightarrow> bool" where
  "good_inits l c d t ds \<longleftrightarrow> (\<forall>n. (\<forall>x\<in>set ds. wf_init x) \<longrightarrow> (\<forall>x\<in>set ds. ann_init n x) \<longrightarrow>
     type_ok n t \<longrightarrow> sound I n (check_var_inits l c d t ds) (all_post ann_init))"

definition good_cases :: "switch_case list \<Rightarrow> bool" where
  "good_cases cs \<longleftrightarrow> (\<forall>n. (\<forall>c\<in>set cs. wf_case c) \<longrightarrow> (\<forall>c\<in>set cs. ann_case n c) \<longrightarrow>
     sound I n (check_cases cs) (all_post ann_case))"

definition good_arms :: "match_arm list \<Rightarrow> bool" where
  "good_arms arms \<longleftrightarrow> (\<forall>n. (\<forall>a\<in>set arms. wf_arm a) \<longrightarrow> (\<forall>a\<in>set arms. ann_arm n a) \<longrightarrow>
     sound I n (check_arms arms) (all_post ann_arm))"

lemmas good_defs = good_expr_def good_exprs_def good_args_def good_pairs_def good_stmt_def
  good_stmts_def good_inits_def good_cases_def good_arms_def

lemma goodD:
  "good_expr e \<Longrightarrow> wf_expr e \<Longrightarrow> ann_expr n e \<Longrightarrow> sound I n (check_expr e) expr_post"
  "good_exprs es \<Longrightarrow> \<forall>e\<in>set es. wf_expr e \<Longrightarrow> \<forall>e\<in>set es. ann_expr n e \<Longrightarrow>
     sound I n (check_exprs es) (all_post ann_expr)"
  "good_args sy i es \<Longrightarrow> \<forall>e\<in>set es. wf_expr e \<Longrightarrow> \<forall>e\<in>set es. ann_expr n e \<Longrightarrow>
     sound I n (check_args sy i es) (all_post ann_expr)"
  "good_pairs ps \<Longrightarrow> \<forall>p\<in>set ps. wf_entry p \<Longrightarrow> \<forall>p\<in>set ps. ann_entry n p \<Longrightarrow>
     sound I n (check_pairs ps) (all_post ann_entry)"
  "good_stmt st \<Longrightarrow> wf_stmt st \<Longrightarrow> ann_stmt n st \<Longrightarrow> sound I n (check_stmt st) ann_stmt"
  "good_stmts sts \<Longrightarrow> \<forall>st\<in>set sts. wf_stmt st \<Longrightarrow> \<forall>st\<in>set sts. ann_stmt n st \<Longrightarrow>
     sound I n (check_stmts sts) (all_post ann_stmt)"
  "good_inits l c d t ds \<Longrightarrow> \<forall>x\<in>set ds. wf_init x \<Longrightarrow> \<forall>x\<in>set ds. ann_init n x \<Longrightarrow> type_ok n t \<Longrightarrow>
     sound I n (check_var_inits l c d t ds) (all_post ann_init)"
  "good_cases cs \<Longrightarrow> \<forall>c\<in>set cs. wf_case c \<Longrightarrow> \<forall>c\<in>set cs. ann_case n c \<Longrightarrow>
     sound I n (check_cases cs) (all_post ann_case)"
  "good_arms arms \<Longrightarrow> \<forall>a\<in>set arms. wf_arm a \<Longrightarrow> \<forall>a\<in>set arms. ann_arm n a \<Longrightarrow>
     sound I n (check_arms arms) (all_post ann_arm)"
  by (simp_all add: good_defs)

lemmas ann_wf_simps = wf_expr.simps wf_stmt.simps ann_expr.simps ann_stmt.simps

lemmas ann_later = type_ok_mono ann_mono ann_all_mono

lemma good_leaves:
  "good_expr NoExpr" "good_expr (IntLitExpr l t v)" "good_expr (LongLitExpr l t v)"
  "good_expr (FloatLitExpr l t w)" "good_expr (RealLitExpr l t w)" "good_expr (StringLitExpr l t x)"
  "good_expr (BoolLitExpr l t b)" "good_expr (NullLitExpr l t)" "good_expr (IdentExpr l t x)"
  "good_expr (ThisExpr l t)" "good_expr (SuperExpr l t)"
  unfolding good_expr_def check_expr.simps
  by (intro allI impI, (rule sound_intros sound_rules | simp)+)+

lemma good_binary: "good_expr a \<Longrightarrow> good_expr b \<Longrightarrow> good_expr (BinaryExpr l t op a b)"
  unfolding good_expr_def [of "BinaryExpr l t op a b"] check_expr.simps
  by (intro allI impI, simp only: ann_wf_simps, (elim conjE)?)
    (rule goodD sound_intros sound_bind_pair sound_rules | assumption
      | erule ann_later, linarith | simp add: all_post_def)+

lemma good_unary: "good_expr a \<Longrightarrow> good_expr (UnaryExpr l t op a p)"
  unfolding good_expr_def [of "UnaryExpr l t op a p"] check_expr.simps
  by (intro allI impI, simp only: ann_wf_simps, (elim conjE)?)
    (rule goodD sound_intros sound_bind_pair sound_rules | assumption
      | erule ann_later, linarith | simp add: all_post_def)+

lemma good_index: "good_expr a \<Longrightarrow> good_expr b \<Longrightarrow> good_expr (IndexExpr l t a b)"
  unfolding good_expr_def [of "IndexExpr l t a b"] check_expr.simps
  by (intro allI impI, simp only: ann_wf_simps, (elim conjE)?)
    (rule goodD sound_intros sound_bind_pair sound_rules | assumption
      | erule ann_later, linarith | simp add: all_post_def)+

lemma good_new: "good_exprs es \<Longrightarrow> good_expr (NewExpr l t te es)"
  unfolding good_expr_def [of "NewExpr l t te es"] check_expr.simps
  by (intro allI impI, simp only: ann_wf_simps, (elim conjE)?)
    (rule goodD sound_intros sound_bind_pair sound_rules | assumption
      | erule ann_later, linarith | simp add: all_post_def)+

lemma good_list: "good_exprs es \<Longrightarrow> good_expr (ListExpr l t es)"
  unfolding good_expr_def [of "ListExpr l t es"] check_expr.simps
  by (intro allI impI, simp only: ann_wf_simps, (elim conjE)?)
    (rule goodD sound_intros sound_bind_pair sound_rules | assumption
      | erule ann_later, linarith | simp add: all_post_def)+

lemma good_dict: "good_pairs ps \<Longrightarrow> good_expr (DictExpr l t ps)"
  unfolding good_expr_def [of "DictExpr l t ps"] check_expr.simps
  by (intro allI impI, simp only: ann_wf_simps, (elim conjE)?)
    (rule goodD sound_intros sound_bind_pair sound_rules | assumption
      | erule ann_later, linarith | simp add: all_post_def)+

lemma good_await: "good_expr a \<Longrightarrow> good_expr (AwaitExpr l t a)"
  unfolding good_expr_def [of "AwaitExpr l t a"] check_expr.simps
  by (intro allI impI, simp only: ann_wf_simps, (elim conjE)?)
    (rule goodD sound_intros sound_bind_pair sound_rules | assumption
      | erule ann_later, linarith | simp add: all_post_def)+

lemma good_block: "good_stmts b \<Longrightarrow> good_stmt (BlockStmt l b)"
  unfolding good_stmt_def [of "BlockStmt l b"] check_stmt.simps
  by (intro allI impI, simp only: ann_wf_simps, (elim conjE)?)
    (rule goodD sound_intros sound_bind_pair sound_rules | assumption
      | erule ann_later, linarith | simp add: all_post_def)+

lemma good_expr_stmt: "good_expr e \<Longrightarrow> good_stmt (ExprStmt l e)"
  unfolding good_stmt_def [of "ExprStmt l e"] check_stmt.simps
  by (intro allI impI, simp only: ann_wf_simps, (elim conjE)?)
    (rule goodD sound_intros sound_bind_pair sound_rules | assumption
      | erule ann_later, linarith | simp add: all_post_def)+

lemma good_while: "good_expr c \<Longrightarrow> good_stmt b \<Longrightarrow> good_stmt (WhileStmt l lb c b)"
  unfolding good_stmt_def [of "WhileStmt l lb c b"] check_stmt.simps
  by (intro allI impI, simp only: ann_wf_simps, (elim conjE)?)
    (rule goodD sound_intros sound_bind_pair sound_rules | assumption
      | erule ann_later, linarith | simp add: all_post_def)+

lemma good_do_while: "good_expr c \<Longrightarrow> good_stmt b \<Longrightarrow> good_stmt (DoWhileStmt l b c)"
  unfolding good_stmt_def [of "DoWhileStmt l b c"] check_stmt.simps
  by (intro allI impI, simp only: ann_wf_simps, (elim conjE)?)
    (rule goodD sound_intros sound_bind_pair sound_rules | assumption
      | erule ann_later, linarith | simp add: all_post_def)+

lemma good_for_in: "good_expr e \<Longrightarrow> good_stmt b \<Longrightarrow> good_stmt (ForInStmt l te x e b)"
  unfolding good_stmt_def [of "ForInStmt l te x e b"] check_stmt.simps
  by (intro allI impI, simp only: ann_wf_simps, (elim conjE)?)
    (rule goodD sound_intros sound_bind_pair sound_rules | assumption
      | erule ann_later, linarith | simp add: all_post_def)+

lemma good_for_c: "good_expr i \<Longrightarrow> good_expr c \<Longrightarrow> good_expr m \<Longrightarrow> good_stmt b \<Longrightarrow> good_stmt (ForCStmt l te x i c m b)"
  unfolding good_stmt_def [of "ForCStmt l te x i c m b"] check_stmt.simps
  by (intro allI impI, simp only: ann_wf_simps, (elim conjE)?)
    (rule goodD sound_intros sound_bind_pair sound_rules | assumption
      | erule ann_later, linarith | simp add: all_post_def)+

lemma good_switch: "good_expr e \<Longrightarrow> good_cases cs \<Longrightarrow> good_stmt (SwitchStmt l e cs)"
  unfolding good_stmt_def [of "SwitchStmt l e cs"] check_stmt.simps
  by (intro allI impI, simp only: ann_wf_simps, (elim conjE)?)
    (rule goodD sound_intros sound_bind_pair sound_rules | assumption
      | erule ann_later, linarith | simp add: all_post_def)+

lemma good_match: "good_expr e \<Longrightarrow> good_arms arms \<Longrightarrow> good_stmt (MatchStmt l e arms)"
  unfolding good_stmt_def [of "MatchStmt l e arms"] check_stmt.simps
  by (intro allI impI, simp only: ann_wf_simps, (elim conjE)?)
    (rule goodD sound_intros sound_bind_pair sound_rules | assumption
      | erule ann_later, linarith | simp add: all_post_def)+

lemma good_try: "good_stmt b \<Longrightarrow> good_stmt cb \<Longrightarrow> good_stmt (TryCatchStmt l b al ct cv cb)"
  unfolding good_stmt_def [of "TryCatchStmt l b al ct cv cb"] check_stmt.simps
  by (intro allI impI, simp only: ann_wf_simps, (elim conjE)?)
    (rule goodD sound_intros sound_bind_pair sound_rules | assumption
      | erule ann_later, linarith | simp add: all_post_def)+

lemma good_assert: "good_expr e \<Longrightarrow> good_stmt (AssertStmt l e)"
  unfolding good_stmt_def [of "AssertStmt l e"] check_stmt.simps
  by (intro allI impI, simp only: ann_wf_simps, (elim conjE)?)
    (rule goodD sound_intros sound_bind_pair sound_rules | assumption
      | erule ann_later, linarith | simp add: all_post_def)+

lemma good_delete: "good_expr e \<Longrightarrow> good_stmt (DeleteStmt l e)"
  unfolding good_stmt_def [of "DeleteStmt l e"] check_stmt.simps
  by (intro allI impI, simp only: ann_wf_simps, (elim conjE)?)
    (rule goodD sound_intros sound_bind_pair sound_rules | assumption
      | erule ann_later, linarith | simp add: all_post_def)+

lemma good_throw: "good_expr e \<Longrightarrow> good_stmt (ThrowStmt l e)"
  unfolding good_stmt_def [of "ThrowStmt l e"] check_stmt.simps
  by (intro allI impI, simp only: ann_wf_simps, (elim conjE)?)
    (rule goodD sound_intros sound_bind_pair sound_rules | assumption
      | erule ann_later, linarith | simp add: all_post_def)+

lemma good_labeled: "good_stmt st \<Longrightarrow> good_stmt (LabeledStmt l lb st)"
  unfolding good_stmt_def [of "LabeledStmt l lb st"] check_stmt.simps
  by (intro allI impI, simp only: ann_wf_simps, (elim conjE)?)
    (rule goodD sound_intros sound_bind_pair sound_rules | assumption
      | erule ann_later, linarith | simp add: all_post_def)+

lemma good_defer: "good_stmts b \<Longrightarrow> good_stmt (DeferStmt l b)"
  unfolding good_stmt_def [of "DeferStmt l b"] check_stmt.simps
  by (intro allI impI, simp only: ann_wf_simps, (elim conjE)?)
    (rule goodD sound_intros sound_bind_pair sound_rules | assumption
      | erule ann_later, linarith | simp add: all_post_def)+

lemma good_unsafe: "good_stmts b \<Longrightarrow> good_stmt (UnsafeStmt l b)"
  unfolding good_stmt_def [of "UnsafeStmt l b"] check_stmt.simps
  by (intro allI impI, simp only: ann_wf_simps, (elim conjE)?)
    (rule goodD sound_intros sound_bind_pair sound_rules | assumption
      | erule ann_later, linarith | simp add: all_post_def)+

text \<open>Nodes whose target may be decided before it is checked.\<close>

lemma good_assign: "good_expr a \<Longrightarrow> good_expr b \<Longrightarrow> good_expr (AssignExpr l t op a b)"
  unfolding good_expr_def [of "AssignExpr l t op a b"] check_expr.simps
  by (intro allI impI, simp only: ann_wf_simps, (elim conjE)?)
    (rule goodD sound_intros sound_bind_pair sound_rules | assumption
      | erule ann_later, linarith | force simp: all_post_def intro: ann_retyped ann_mono)+

lemma good_member: "good_expr a \<Longrightarrow> good_expr (MemberExpr l t a m)"
  unfolding good_expr_def [of "MemberExpr l t a m"] check_expr.simps
  by (intro allI impI, simp only: ann_wf_simps, (elim conjE)?)
    (rule goodD sound_intros sound_bind_pair sound_rules | assumption
      | erule ann_later, linarith | force simp: all_post_def intro: ann_retyped ann_mono)+

lemma good_if:
  assumes good: "good_expr c" "good_stmt th" "el \<noteq> NoStmt \<Longrightarrow> good_stmt el"
  shows "good_stmt (IfStmt l c th el)"
proof -
  have else_branch: "sound I k (if el = NoStmt then ret NoStmt else check_stmt el) ann_stmt"
    if "el = NoStmt \<or> wf_stmt el" "ann_stmt k el" for k
    using that good(3) by (cases "el = NoStmt") (auto intro: goodD sound_ret)
  from good(1,2) show ?thesis
    unfolding good_stmt_def [of "IfStmt l c th el"] check_stmt.simps
    by (intro allI impI, simp only: ann_wf_simps, (elim conjE)?)
      (rule goodD sound_intros sound_bind_pair sound_bind sound_then sound_ret else_branch | assumption
        | erule ann_later, linarith | simp add: all_post_def)+
qed

lemma good_return: "(\<And>e. v = Some e \<Longrightarrow> good_expr e) \<Longrightarrow> good_stmt (ReturnStmt l v)"
  unfolding good_stmt_def [of "ReturnStmt l v"] check_stmt.simps
  by (intro allI impI, cases v; simp only: ann_wf_simps option.case)
    (rule goodD sound_intros sound_bind_pair sound_rules refl | assumption
      | erule ann_later, linarith | simp add: all_post_def)+

lemma good_jumps: "good_stmt NoStmt" "good_stmt (BreakStmt l lb)" "good_stmt (ContinueStmt l lb)"
  unfolding good_stmt_def check_stmt.simps
  by (intro allI impI, (rule sound_intros sound_rules | simp)+)+

section \<open>Sequences\<close>

lemma good_exprs_Nil: "good_exprs []" and good_args_Nil: "good_args sy i []"
  and good_pairs_Nil: "good_pairs []" and good_stmts_Nil: "good_stmts []"
  and good_inits_Nil: "good_inits l c d t []" and good_cases_Nil: "good_cases []"
  and good_arms_Nil: "good_arms []"
  by (simp_all add: good_defs sound_ret)

lemma good_exprs_Cons: "good_expr e \<Longrightarrow> good_exprs es \<Longrightarrow> good_exprs (e # es)"
  unfolding good_exprs_def [of "e # es"] check_exprs.simps list.set ball_simps
  by (intro allI impI, (elim conjE)?)
    (rule goodD sound_intros sound_bind_pair sound_rules | assumption
      | erule ann_later, linarith | simp)+

lemma good_args_Cons: "good_expr e \<Longrightarrow> good_args sy (Suc i) es \<Longrightarrow> good_args sy i (e # es)"
  unfolding good_args_def [of sy i "e # es"] check_args.simps list.set ball_simps
  by (intro allI impI, (elim conjE)?)
    (rule goodD sound_intros sound_bind_pair sound_rules | assumption
      | erule ann_later, linarith | simp)+

lemma good_pairs_Cons: "good_expr k \<Longrightarrow> good_expr v \<Longrightarrow> good_pairs ps \<Longrightarrow> good_pairs (DictEntry k v # ps)"
  unfolding good_pairs_def [of "DictEntry k v # ps"] check_pairs.simps list.set ball_simps
    wf_entry.simps ann_entry.simps
  by (intro allI impI, (elim conjE)?)
    (rule goodD sound_intros sound_bind_pair sound_rules | assumption
      | erule ann_later, linarith | simp)+

lemma good_stmts_Cons: "good_stmt st \<Longrightarrow> good_stmts sts \<Longrightarrow> good_stmts (st # sts)"
  unfolding good_stmts_def [of "st # sts"] check_stmts.simps list.set ball_simps
  by (intro allI impI, (elim conjE)?)
    (rule goodD sound_intros sound_bind_pair sound_rules | assumption
      | erule ann_later, linarith | simp)+

lemma good_inits_Cons:
  assumes "e \<noteq> NoExpr \<Longrightarrow> good_expr e" and "good_inits l c d t ds"
  shows "good_inits l c d t (VarInit x e # ds)"
proof -
  have init: "sound I n (if e = NoExpr then ret (t, NoExpr)
      else bind_s (check_expr e) (\<lambda>(u, e'). bind_s (var_decl_type x e t u) (\<lambda>r. ret (r, e')))) expr_post"
    if "e = NoExpr \<or> wf_expr e" "ann_expr n e" "type_ok n t" for n
  proof (cases "e = NoExpr")
    case True
    then show ?thesis using that(3) by (auto intro!: sound_ret intro: type_ok_mono)
  next
    case False
    then show ?thesis using that assms(1)
      by (simp only: if_False)
        (rule goodD sound_intros sound_bind_pair sound_rules | assumption
          | erule ann_later, linarith | simp)+
  qed
  from assms(2) show ?thesis
    unfolding good_inits_def [of l c d t "VarInit x e # ds"] check_var_inits.simps list.set ball_simps
      wf_init.simps ann_init.simps
    by (intro allI impI, (elim conjE)?)
      (rule init goodD sound_intros sound_bind_pair sound_rules | assumption
        | erule ann_later, linarith | simp)+
qed

lemma good_cases_Cons:
  assumes "\<And>e. v = Some e \<Longrightarrow> good_expr e" and "good_stmts b" and "good_cases cs"
  shows "good_cases (SwitchCase v b # cs)"
proof -
  let ?P = "\<lambda>k v'. case v' of None \<Rightarrow> True | Some e \<Rightarrow> ann_expr k e"
  have label: "sound I n (case v of None \<Rightarrow> ret None
      | Some e \<Rightarrow> bind_s (check_expr e) (\<lambda>(t, e'). ret (Some e'))) ?P"
    if "?P n v" "case v of None \<Rightarrow> True | Some e \<Rightarrow> wf_expr e" for n
    using that assms(1) by (cases v; simp only: option.case)
      (rule goodD sound_bind_pair sound_rules refl | assumption | simp)+
  from assms(2,3) show ?thesis
    unfolding good_cases_def [of "SwitchCase v b # cs"] check_cases.simps list.set ball_simps
      wf_case.simps ann_case.simps
    by (intro allI impI, (elim conjE)?)
      (rule label goodD sound_intros sound_bind | assumption
        | erule ann_later, linarith | rule sound_ret, simp add: all_post_def)+
qed

lemma good_arms_Cons: "good_stmts b \<Longrightarrow> good_arms arms \<Longrightarrow> good_arms (MatchArm p b l # arms)"
  unfolding good_arms_def [of "MatchArm p b l # arms"] check_arms.simps list.set ball_simps
    wf_arm.simps ann_arm.simps
  by (intro allI impI, (elim conjE)?)
    (rule goodD sound_intros sound_bind sound_then | assumption
      | erule ann_later, linarith | rule sound_ret, simp add: all_post_def)+

section \<open>Calls, lambdas, variable declarations\<close>

lemma sound_closure_result: "sound I n (gets (\<lambda>s. ti_return_type (info (reg s) ct))) type_ok"
  by (rule sound_gets) (use I_info in \<open>simp add: info_ok_def\<close>)

lemma good_call:
  assumes "good_expr f" and "good_exprs as"
    and "\<And>sy. sy_kind sy = SK_Function \<or> sy_kind sy = SK_BuiltIn \<Longrightarrow> good_args sy 0 as"
  shows "good_expr (CallExpr l t f as)"
proof -
  have symbol: "sound I n
      (if sy_kind sy = SK_Function \<or> sy_kind sy = SK_BuiltIn then
         then_s (check_call_shape sy (expr_loc f) (length as)) (
         bind_s (check_args sy 0 as) (\<lambda>args'.
         ret (sy_return_type sy, CallExpr l (sy_return_type sy) f' args')))
       else if sy_kind sy = SK_Class then
         bind_s (check_exprs as) (\<lambda>args'. ret (sy_type sy, CallExpr l (sy_type sy) f' args'))
       else
         bind_s (check_exprs as) (\<lambda>args'.
         bind_s (closure_type x) (\<lambda>closure. case closure of
             Some ct \<Rightarrow>
               bind_s (check_exprs as) (\<lambda>args''.
               bind_s (gets (\<lambda>s. ti_return_type (info (reg s) ct))) (\<lambda>r.
               ret (r, CallExpr l r f' args'')))
           | None \<Rightarrow> ret (TID_UNKNOWN, CallExpr l TID_UNKNOWN f' args')))) expr_post"
    if "\<forall>a\<in>set as. wf_expr a" "\<forall>a\<in>set as. ann_expr n a" "symbol_ok n sy" "ann_expr n f'" for n sy f' x
    using that assms(2)
    by - (rule goodD sound_intros sound_closure_result sound_rules assms(3) | assumption
        | erule ann_later, linarith
        | force simp: all_post_def intro: ann_mono type_ok_mono symbol_okD)+
  have other: "sound I n (bind_s (check_expr f) (\<lambda>(tc, f'). bind_s (check_exprs as) (\<lambda>args'.
      ret (TID_UNKNOWN, CallExpr l TID_UNKNOWN f' args')))) expr_post"
    if "wf_expr f" "\<forall>a\<in>set as. wf_expr a" "ann_expr n f" "\<forall>a\<in>set as. ann_expr n a" for n
    using that assms(1,2)
    by - (rule goodD sound_bind_pair sound_bind sound_ret | assumption
        | erule ann_later, linarith | simp add: all_post_def)+
  have known: "sound I n (bind_s (check_exprs as) (\<lambda>args'. ret (r, CallExpr l r f args'))) expr_post"
    if "\<forall>a\<in>set as. wf_expr a" "ann_expr n f" "\<forall>a\<in>set as. ann_expr n a" "type_ok n r" for n r
    using that assms(2)
    by - (rule goodD sound_bind sound_ret | assumption
        | force simp: all_post_def intro: ann_mono type_ok_mono)+
  show ?thesis
    unfolding good_expr_def [of "CallExpr l t f as"] check_expr.simps
  proof (intro allI impI, rule sound_bind [OF sound_resolve_callee])
    fix n n' kind
    assume wf: "wf_expr (CallExpr l t f as)" and ann: "ann_expr n (CallExpr l t f as)" and n': "n \<le> n'"
      and post: "\<forall>k\<ge>n'. case kind of CalleeUndefined \<Rightarrow> True
        | CalleeSymbol sy e' \<Rightarrow> symbol_ok k sy \<and> e' = set_type_id (sy_type sy) f
        | CalleeStdlib t \<Rightarrow> type_ok k t | CalleeOther \<Rightarrow> True"
    have ann': "ann_expr n' f" "\<forall>a\<in>set as. ann_expr n' a"
      using ann n' ann_mono(1) ann_all_mono(1) [of as n n'] by auto
    have post': "case kind of CalleeUndefined \<Rightarrow> True
        | CalleeSymbol sy e' \<Rightarrow> symbol_ok n' sy \<and> ann_expr n' e'
        | CalleeStdlib t \<Rightarrow> type_ok n' t | CalleeOther \<Rightarrow> True"
      using post [THEN spec, of n'] ann' by (cases kind) (auto intro: ann_set_type symbol_okD)
    show "sound I n' (case kind of
       CalleeUndefined \<Rightarrow>
         bind_s (check_exprs as) (\<lambda>args'. ret (TID_UNKNOWN, CallExpr l TID_UNKNOWN f args'))
     | CalleeSymbol sy callee' \<Rightarrow>
         if sy_kind sy = SK_Function \<or> sy_kind sy = SK_BuiltIn then
           then_s (check_call_shape sy (expr_loc f) (length as)) (
           bind_s (check_args sy 0 as) (\<lambda>args'.
           ret (sy_return_type sy, CallExpr l (sy_return_type sy) callee' args')))
         else if sy_kind sy = SK_Class then
           bind_s (check_exprs as) (\<lambda>args'. ret (sy_type sy, CallExpr l (sy_type sy) callee' args'))
         else
           bind_s (check_exprs as) (\<lambda>args'.
           bind_s (closure_type (case ident_name f of None \<Rightarrow> [] | Some x \<Rightarrow> x)) (\<lambda>closure.
           case closure of
             None \<Rightarrow> ret (TID_UNKNOWN, CallExpr l TID_UNKNOWN callee' args')
           | Some ct \<Rightarrow>
               bind_s (check_exprs as) (\<lambda>args''.
               bind_s (gets (\<lambda>s. ti_return_type (info (reg s) ct))) (\<lambda>r.
               ret (r, CallExpr l r callee' args'')))))
     | CalleeStdlib r \<Rightarrow> bind_s (check_exprs as) (\<lambda>args'. ret (r, CallExpr l r f args'))
     | CalleeOther \<Rightarrow>
         bind_s (check_expr f) (\<lambda>(tc, callee'). bind_s (check_exprs as) (\<lambda>args'.
         ret (TID_UNKNOWN, CallExpr l TID_UNKNOWN callee' args')))) expr_post"
      using wf ann' post'
      by (cases kind; simp only: callee_kind.case ann_wf_simps; (elim conjE)?)
        (rule symbol other known type_ok_builtin | assumption)+
  qed
qed

lemma good_lambda:
  assumes "\<And>bl sts. body = BlockStmt bl sts \<Longrightarrow> good_stmts sts"
  shows "good_expr (LambdaExpr l t ps body cs r i)"
proof -
  let ?P = "\<lambda>k p. type_ok k (fst p) \<and> ann_stmt k (snd p)"
  have body: "sound I n (case body of
      BlockStmt bl b \<Rightarrow> bind_s (check_stmts b) (\<lambda>b'. ret (inferred_return b', BlockStmt bl b'))
    | _ \<Rightarrow> ret (TID_VOID, body)) ?P" if "wf_stmt body" "ann_stmt n body" for n
    using that assms
    by (cases body)
      (auto simp: all_post_def intro: ann_mono
        intro!: sound_ret sound_bind [OF goodD(6)] inferred_return_ok)
  have rest: "sound I n (bind_s (lambda_type ps r u) (\<lambda>(w, name). ret (w, LambdaExpr l w ps b' cs r name))) expr_post"
    if "\<forall>k\<ge>n. ?P k (u, b')" for n u b'
    using that by - (rule sound_intros sound_bind_pair sound_ret | simp)+
  show ?thesis
    unfolding good_expr_def [of "LambdaExpr l t ps body cs r i"] check_expr.simps
    by (intro allI impI, simp only: ann_wf_simps, (elim conjE)?)
      (rule body rest sound_intros sound_bind_pair sound_then | assumption
        | erule ann_later, linarith | simp)+
qed

lemma good_var_decl:
  assumes "\<And>u. te_name te \<noteq> ''__fn'' \<Longrightarrow> good_inits l c th u ds"
  shows "good_stmt (VarDeclStmt l te c st th ds)"
  unfolding good_stmt_def [of "VarDeclStmt l te c st th ds"] check_stmt.simps
  using assms
  by (intro allI impI, simp only: ann_wf_simps)
    (rule goodD sound_intros sound_rules | assumption | erule ann_later, linarith | simp add: all_post_def)+

section \<open>The traversal\<close>

lemmas good_steps = good_leaves good_binary good_unary good_assign good_call good_member good_index
  good_new good_list good_dict good_lambda good_await good_jumps good_block good_expr_stmt good_var_decl
  good_if good_while good_do_while good_for_in good_for_c good_switch good_match good_try good_return
  good_assert good_delete good_labeled good_defer good_throw good_unsafe
  good_exprs_Nil good_exprs_Cons good_args_Nil good_args_Cons good_pairs_Nil good_pairs_Cons
  good_stmts_Nil good_stmts_Cons good_inits_Nil good_inits_Cons good_cases_Nil good_cases_Cons
  good_arms_Nil good_arms_Cons

theorem good_check:
  shows "good_expr e" and "good_exprs es" and "good_args sy i as" and "good_pairs ps" and "good_stmt st"
    and "good_stmts sts" and "good_inits l c d t ds" and "good_cases cs" and "good_arms arms"
proof (induction e and es and sy i as and ps and st and sts and l c d t ds and cs and arms
    rule: check_expr_check_exprs_check_args_check_pairs_check_stmt_check_stmts_check_var_inits_check_cases_check_arms.induct)
qed (rule good_steps; blast)+

end

section \<open>The invariant of the checker\<close>

lemma scopes_ok_define:
  assumes "scopes_ok n st" and "symbol_ok n sy"
  shows "scopes_ok n (snd (stack_define x sy st))"
proof -
  obtain sc rest where "st = sc # rest" using assms(1) by (cases st) (auto simp: scopes_ok_def)
  then show ?thesis
    using assms by (auto simp: scopes_ok_def scope_define_def case_prod_beta split: option.splits)
qed

lemma scopes_ok_push: "scopes_ok n st \<Longrightarrow> scopes_ok n (push_scope c st)"
  by (auto simp: scopes_ok_def push_scope_def new_scope_def)

lemma scopes_ok_pop: "scopes_ok n st \<Longrightarrow> scopes_ok n (pop_scope st)"
  by (cases st) (auto simp: scopes_ok_def pop_scope_def)

lemma info_ok_default [simp]:
  "info_ok n (default_info\<lparr>ti_kind := k, ti_name := x, ti_parent := p\<rparr>)"
  by (simp add: info_ok_def default_info_def)

lemma state_ok_intern:
  assumes "state_ok s"
  shows "state_ok (s\<lparr>reg := snd (intern x k (reg s))\<rparr>)"
proof (cases "by_name (reg s) x")
  case (Some i)
  with assms show ?thesis by (simp add: intern_known)
next
  case None
  let ?t = "s\<lparr>reg := snd (intern x k (reg s))\<rparr>"
  have grow: "tsize s \<le> tsize ?t" by (simp add: tsize_def intern_new [OF None])
  have "info_ok (tsize ?t) ti" if "ti \<in> set (type_table (reg ?t))" for ti
    using that assms info_ok_mono [OF _ grow] by (auto simp: state_ok_def intern_new [OF None])
  then show ?thesis
    using assms scopes_ok_mono [OF _ grow] type_ok_mono [OF _ grow]
    by (simp add: state_ok_def registry_inv_intern acyclic_intern)
qed

lemma state_ok_update:
  assumes "state_ok s" and "keeps_identity f"
    and "\<And>ti. info_ok (tsize s) ti \<Longrightarrow> info_ok (tsize s) (f ti)"
  shows "state_ok (s\<lparr>reg := update_info i f (reg s)\<rparr>)"
proof -
  let ?t = "s\<lparr>reg := update_info i f (reg s)\<rparr>"
  have inv: "registry_inv (reg s)" using assms(1) by (simp add: state_ok_def)
  have same: "tsize ?t = tsize s" by (simp add: tsize_def update_info_def)
  have old: "info_ok (tsize s) (f (info (reg s) i))"
    using assms(1,3) info_in_set [OF registry_inv_nonempty [OF inv]] by (simp add: state_ok_def)
  have "info_ok (tsize s) ti" if "ti \<in> set (type_table (reg ?t))" for ti
    using that old assms(1) set_update_subset_insert
    by (fastforce simp: state_ok_def update_info_def)
  then show ?thesis
    using assms(1,2) same inv
    by (simp add: state_ok_def keeps_identity_def registry_inv_update_info acyclic_update_info)
qed

interpretation checker: check_sound state_ok
proof unfold_locales
  show "state_ok (s\<lparr>reg := snd (intern x k (reg s))\<rparr>)" if "state_ok s" for s x k
    using that by (rule state_ok_intern)
  show "state_ok (s\<lparr>reg := update_info i f (reg s)\<rparr>)"
    if "state_ok s" "keeps_identity f" "\<And>ti. info_ok (tsize s) ti \<Longrightarrow> info_ok (tsize s) (f ti)" for s f i
    using that by (rule state_ok_update)
qed (auto simp: state_ok_def tsize_def intro: scopes_ok_define scopes_ok_push scopes_ok_pop)

lemma state_ok_new: "state_ok (new_sema d)"
proof -
  have table: "info_ok 12 ti" if "ti \<in> set (type_table new_registry)" for ti
    using that by (auto simp: new_registry_table builtin_kinds_def builtin_names_def builtin_parents_def)
  have all_ok: "\<forall>sy\<in>set builtin_symbols. symbol_ok 12 sy"
    by (simp add: builtin_symbols_def builtin_symbol_def builtin_class_def)
  have "scopes_ok 12 (fold (\<lambda>sy st. snd (stack_define (sy_name sy) sy st)) sys st)"
    if "\<forall>sy\<in>set sys. symbol_ok 12 sy" "scopes_ok 12 st" for sys st
    using that by (induction sys arbitrary: st) (simp_all add: scopes_ok_define)
  from this [OF all_ok, of new_stack] show ?thesis
    using table
    by (simp add: new_sema_def state_ok_def tsize_def new_registry_inv acyclic_new_registry
        scopes_ok_def new_stack_def new_scope_def)
qed

end
