(* ===== verification/Sema_Decl.thy ===== *)
theory Sema_Decl
  imports Sema_Check
begin

text \<open>
  The two passes over declarations (\<^verbatim>\<open>src/sema/sema.cpp\<close>): hoisting enters the names and
  types of all declarations, checking walks their bodies. \<open>run\<close> is the entry point, \<open>check_decls\<close>
  the one for declarations added later. A checked declaration is returned with the
  annotations of its expressions.
\<close>

section \<open>Hoisting (pass 1)\<close>

definition hoist_function :: "function_decl \<Rightarrow> (sema, unit) prog" where
  "hoist_function f =
     bind_s (type_from_te (f_return_type f)) (\<lambda>r.
     bind_s (param_symbols (f_params f)) (\<lambda>ps.
     define_or_err (f_name f)
       (default_symbol\<lparr>sy_name := f_name f, sy_kind := SK_Function, sy_type := r,
          sy_return_type := r, sy_is_async := f_is_async f, sy_decl := Some (FunctionDecl f),
          sy_loc := f_loc f, sy_params := ps\<rparr>)
       (f_loc f) (''function '' @ quoted (f_name f) @ '' already declared in this scope'')))"

definition hoist_extern :: "extern_decl \<Rightarrow> (sema, unit) prog" where
  "hoist_extern e =
     bind_s (type_from_te (ex_ret e)) (\<lambda>r.
     bind_s (param_symbols (ex_params e)) (\<lambda>ps.
     declare_sym (ex_name e)
       (default_symbol\<lparr>sy_name := ex_name e, sy_kind := SK_Function, sy_type := r,
          sy_return_type := r, sy_loc := ex_loc e, sy_params := ps\<rparr>)))"

text \<open>One variant: its description in the type table and its qualified name in the global scope.\<close>

definition hoist_variant :: "string \<Rightarrow> type_id \<Rightarrow> nat \<times> enum_variant \<Rightarrow> (sema, unit) prog" where
  "hoist_variant enum_name i = (\<lambda>(tag, v).
     bind_s (gets reg) (\<lambda>r.
     then_s (update_type i (\<lambda>ti. ti\<lparr>ti_variants := ti_variants ti @
         [\<lparr>evi_name = ev_name v, evi_tag = int tag,
           evi_payload = map (from_type_expr r) (ev_payload v)\<rparr>]\<rparr>)) (
     define_global (enum_name @ ''.'' @ ev_name v)
       (default_symbol\<lparr>sy_name := enum_name @ ''.'' @ ev_name v, sy_kind := SK_Var,
          sy_type := i, sy_is_const := True, sy_loc := ev_loc v\<rparr>))))"

definition hoist_enum :: "enum_decl \<Rightarrow> (sema, unit) prog" where
  "hoist_enum e =
     bind_s (intern_s (en_name e) TK_Enum) (\<lambda>i.
     then_s (update_type i (\<lambda>ti. ti\<lparr>ti_variants := []\<rparr>)) (
     then_s (for_each (hoist_variant (en_name e) i) (enumerate 0 (en_variants e))) (
     define_or_err (en_name e)
       (default_symbol\<lparr>sy_name := en_name e, sy_kind := SK_Class, sy_type := i,
          sy_decl := Some (EnumDecl e), sy_loc := en_loc e\<rparr>)
       (en_loc e) (''enum '' @ quoted (en_name e) @ '' already declared''))))"

definition set_parent_s :: "type_id \<Rightarrow> type_id \<Rightarrow> (sema, unit) prog" where
  "set_parent_s c p = modify (\<lambda>s. s\<lparr>reg := set_parent c p (reg s)\<rparr>)"

definition add_interface_s :: "type_id \<Rightarrow> type_id \<Rightarrow> (sema, unit) prog" where
  "add_interface_s c i = modify (\<lambda>s. s\<lparr>reg := add_interface c i (reg s)\<rparr>)"

definition hoist_base_iface :: "type_id \<Rightarrow> base_class \<Rightarrow> (sema, unit) prog" where
  "hoist_base_iface i base =
     bind_s (name_type (base_name base)) (\<lambda>b.
     bind_s (gets (\<lambda>s. ti_kind (info (reg s) b))) (\<lambda>k.
     guarded (b \<noteq> TID_UNKNOWN \<and> k = TK_Interface) (add_interface_s i b)))"

definition hoist_bases :: "type_id \<Rightarrow> base_class list \<Rightarrow> (sema, unit) prog" where
  "hoist_bases i bases = (case bases of
       [] \<Rightarrow> ret ()
     | first # rest \<Rightarrow>
         bind_s (name_type (base_name first)) (\<lambda>p.
         then_s (set_parent_s i (if p = TID_UNKNOWN then TID_OBJECT else p)) (
         for_each (hoist_base_iface i) bases)))"

definition hoist_class :: "class_decl \<Rightarrow> (sema, unit) prog" where
  "hoist_class c =
     bind_s (intern_s (c_name c) TK_Class) (\<lambda>i.
     then_s (hoist_bases i (c_bases c)) (
     define_or_err (c_name c)
       (default_symbol\<lparr>sy_name := c_name c, sy_kind := SK_Class, sy_type := i,
          sy_decl := Some (ClassDecl c), sy_loc := c_loc c\<rparr>)
       (c_loc c) (''class '' @ quoted (c_name c) @ '' already declared'')))"

definition hoist_interface :: "interface_decl \<Rightarrow> (sema, unit) prog" where
  "hoist_interface d =
     bind_s (intern_s (i_name d) TK_Interface) (\<lambda>i.
     define_or_err (i_name d)
       (default_symbol\<lparr>sy_name := i_name d, sy_kind := SK_Interface, sy_type := i,
          sy_decl := Some (InterfaceDecl d), sy_loc := i_loc d\<rparr>)
       (i_loc d) (''interface '' @ quoted (i_name d) @ '' already declared''))"

text \<open>
  The members of a namespace are promoted to the global scope, qualified and
  unqualified. The code visits them in the order of an \<open>unordered_map\<close>; here it is the
  order of declaration.
\<close>

definition promote :: "string \<Rightarrow> (sema, unit) prog" where
  "promote ns =
     bind_s (gets (\<lambda>s. symbols (hd (stack s)))) (\<lambda>syms.
     for_each (\<lambda>(name, sy).
       then_s (define_global (ns @ ''.'' @ name) (sy\<lparr>sy_name := ns @ ''.'' @ name\<rparr>))
         (define_global name sy)) syms)"

definition declare_namespace :: "source_loc \<Rightarrow> string \<Rightarrow> decl \<Rightarrow> (sema, unit) prog" where
  "declare_namespace loc name d =
     declare_sym name (default_symbol\<lparr>sy_name := name, sy_kind := SK_Namespace,
       sy_type := TID_UNKNOWN, sy_decl := Some d, sy_loc := loc\<rparr>)"

fun hoist_decl :: "decl \<Rightarrow> (sema, unit) prog"
  and hoist_top :: "decl list \<Rightarrow> (sema, unit) prog" where
  "hoist_decl (ClassDecl c) = hoist_class c"
| "hoist_decl (InterfaceDecl i) = hoist_interface i"
| "hoist_decl (EnumDecl e) = hoist_enum e"
| "hoist_decl (NamespaceDecl (MkNamespace l name ds sts is_package)) =
     (if is_package then ret ()
      else then_s (declare_namespace l name (NamespaceDecl (MkNamespace l name ds sts is_package))) (
           scoped False (then_s (hoist_top ds) (promote name))))"
| "hoist_decl (FunctionDecl f) = hoist_function f"
| "hoist_decl (ExternDecl e) = hoist_extern e"
| "hoist_decl d = ret ()"
| "hoist_top [] = ret ()"
| "hoist_top (d # ds) = then_s (hoist_decl d) (hoist_top ds)"

section \<open>Declarations (pass 2)\<close>

text \<open>\<open>this\<close> and \<open>super\<close> inside an instance method.\<close>

definition define_receiver :: "bool \<Rightarrow> (sema, unit) prog" where
  "define_receiver is_static =
     bind_s (gets (\<lambda>s. (current_class_name s, current_class_type s,
         ti_parent (info (reg s) (current_class_type s))))) (\<lambda>(name, t, parent).
     guarded (name \<noteq> [] \<and> \<not> is_static) (
       then_s (declare_sym ''this'' (default_symbol\<lparr>sy_name := ''this'', sy_kind := SK_Var, sy_type := t\<rparr>)) (
       guarded (parent \<noteq> TID_UNKNOWN \<and> 0 \<le> parent)
         (declare_sym ''super''
           (default_symbol\<lparr>sy_name := ''super'', sy_kind := SK_Var, sy_type := parent\<rparr>)))))"

definition define_params :: "param list \<Rightarrow> (sema, unit) prog" where
  "define_params = for_each (\<lambda>p.
     bind_s (type_from_te (param_type p)) (\<lambda>t.
     define_or_err (param_name p)
       (default_symbol\<lparr>sy_name := param_name p, sy_kind := SK_Param, sy_type := t,
          sy_loc := te_loc (param_type p)\<rparr>)
       (te_loc (param_type p)) (''duplicate parameter '' @ quoted (param_name p))))"

definition check_body ::
  "(source_loc \<times> stmt list) option \<Rightarrow> (sema, (source_loc \<times> stmt list) option) prog" where
  "check_body body = (case body of
       None \<Rightarrow> ret None
     | Some (l, b) \<Rightarrow> bind_s (check_stmts b) (\<lambda>b'. ret (Some (l, b'))))"

definition check_func :: "function_decl \<Rightarrow> (sema, function_decl) prog" where
  "check_func f =
     bind_s (type_from_te (f_return_type f)) (\<lambda>r.
     bind_s (scoped False (
       then_s (define_receiver (f_is_static f)) (
       then_s (define_params (f_params f)) (
       with_return_type r (check_body (f_body f)))))) (\<lambda>body'.
     ret (f\<lparr>f_body := body'\<rparr>)))"

definition check_base :: "class_decl \<Rightarrow> type_id \<Rightarrow> base_class \<Rightarrow> (sema, unit) prog" where
  "check_base c class_type base =
     bind_s (lookup_sym (base_name base)) (\<lambda>found. case found of
       None \<Rightarrow> warn (c_loc c)
         (''unknown base class '' @ quoted (base_name base) @ '', treating as object'')
     | Some bs \<Rightarrow>
         if sy_kind bs \<noteq> SK_Class \<and> sy_kind bs \<noteq> SK_Interface
         then warn (c_loc c) (quoted (base_name base) @ '' is not a class or interface'')
         else set_parent_s class_type (sy_type bs))"

definition member_function :: "class_member \<Rightarrow> function_decl option" where
  "member_function m = (case cm_decl m of Some (FunctionDecl f) \<Rightarrow> Some f | _ \<Rightarrow> None)"

definition defined_methods :: "class_decl \<Rightarrow> string list" where
  "defined_methods c = map f_name (filter (\<lambda>f. \<not> f_is_ctor f \<and> \<not> f_is_dtor f)
     (List.map_filter member_function (c_members c)))"

definition check_contract :: "class_decl \<Rightarrow> base_class \<Rightarrow> (sema, unit) prog" where
  "check_contract c base =
     bind_s (lookup_sym (base_name base)) (\<lambda>found. case found of
       None \<Rightarrow> ret ()
     | Some bs \<Rightarrow>
         if sy_kind bs \<noteq> SK_Interface then ret ()
         else case iface_of_symbol bs of
           None \<Rightarrow> ret ()
         | Some iface \<Rightarrow> for_each (\<lambda>f.
             guarded (f_name f \<notin> set (defined_methods c))
               (err (c_loc c) (''class '' @ quoted (c_name c) @ '' implements interface '' @
                  quoted (base_name base) @ '' but does not define method '' @ quoted (f_name f))))
             (List.map_filter member_function (i_members iface)))"

definition hoist_member :: "class_member \<Rightarrow> (sema, unit) prog" where
  "hoist_member m = (case cm_decl m of
       Some (FunctionDecl f) \<Rightarrow>
         bind_s (type_from_te (f_return_type f)) (\<lambda>r.
         bind_s (param_symbols (f_params f)) (\<lambda>ps.
         declare_sym (f_name f)
           (default_symbol\<lparr>sy_name := f_name f, sy_kind := SK_Function, sy_type := r,
              sy_return_type := r, sy_decl := cm_decl m, sy_loc := f_loc f, sy_params := ps\<rparr>)))
     | Some (FieldDecl fd) \<Rightarrow>
         bind_s (type_from_te (fd_type fd)) (\<lambda>t.
         declare_sym (fd_name fd)
           (default_symbol\<lparr>sy_name := fd_name fd, sy_kind := SK_Var, sy_type := t,
              sy_decl := cm_decl m, sy_loc := fd_loc fd\<rparr>))
     | _ \<Rightarrow> ret ())"

definition check_field :: "field_decl \<Rightarrow> (sema, field_decl) prog" where
  "check_field fd = (case fd_init fd of
       None \<Rightarrow> ret fd
     | Some e \<Rightarrow>
         bind_s (check_expr e) (\<lambda>(init_t, e').
         bind_s (type_from_te (fd_type fd)) (\<lambda>decl_t.
         then_s (require_assignable init_t decl_t (expr_loc e)
           (''field '' @ quoted (fd_name fd) @ '' initialiser'')) (
         ret (fd\<lparr>fd_init := Some e'\<rparr>)))))"

definition set_member_decl :: "class_member \<Rightarrow> decl \<Rightarrow> class_member" where
  "set_member_decl m d = MkMember (cm_access m) (cm_decorators m) (Some d)"

definition check_member_decl :: "class_member \<Rightarrow> (sema, class_member) prog" where
  "check_member_decl m = (case cm_decl m of
       Some (FunctionDecl f) \<Rightarrow> bind_s (check_func f) (\<lambda>f'. ret (set_member_decl m (FunctionDecl f')))
     | Some (FieldDecl fd) \<Rightarrow> bind_s (check_field fd) (\<lambda>fd'. ret (set_member_decl m (FieldDecl fd')))
     | _ \<Rightarrow> ret m)"

definition set_members :: "class_decl \<Rightarrow> class_member list \<Rightarrow> class_decl" where
  "set_members c ms = MkClass (c_loc c) (c_decorators c) (c_name c) (c_type_params c)
     (c_type_bounds c) (c_bases c) ms"

definition check_class :: "class_decl \<Rightarrow> (sema, class_decl) prog" where
  "check_class c =
     bind_s (name_type (c_name c)) (\<lambda>class_type.
     then_s (for_each (check_base c class_type) (c_bases c)) (
     then_s (for_each (check_contract c) (c_bases c)) (
     bind_s (with_class (c_name c) class_type (
       scoped True (
         then_s (for_each hoist_member (c_members c)) (
         map_s check_member_decl (c_members c))))) (\<lambda>ms'.
     ret (set_members c ms')))))"

definition check_interface :: "interface_decl \<Rightarrow> (sema, unit) prog" where
  "check_interface d = for_each (\<lambda>f.
     bind_s (type_from_te (f_return_type f)) (\<lambda>r.
     guarded (r = TID_UNKNOWN \<and> te_name (f_return_type f) \<noteq> [])
       (warn (f_loc f) (''interface method '' @ quoted (f_name f) @ '': unknown return type '' @
          quoted (te_name (f_return_type f))))))
     (List.map_filter member_function (i_members d))"

definition kStdlib :: "string list" where
  "kStdlib = [''math'', ''str'', ''io'']"

definition check_import :: "import_decl \<Rightarrow> (sema, unit) prog" where
  "check_import im =
     (let last = after_last (CHR ''.'') (im_path im);
          ns_name = (if im_alias im = [] then last else im_alias im)
      in guarded (last \<in> set kStdlib) (
         bind_s (lookup_sym ns_name) (\<lambda>found.
         guarded (found = None) (declare_sym ns_name
           (default_symbol\<lparr>sy_name := ns_name, sy_kind := SK_Namespace, sy_type := TID_OBJECT\<rparr>)))))"

fun check_decl :: "decl \<Rightarrow> (sema, decl) prog"
  and check_all :: "decl list \<Rightarrow> (sema, decl list) prog" where
  "check_decl (FunctionDecl f) = bind_s (check_func f) (\<lambda>f'. ret (FunctionDecl f'))"
| "check_decl (ClassDecl c) = bind_s (check_class c) (\<lambda>c'. ret (ClassDecl c'))"
| "check_decl (InterfaceDecl i) = then_s (check_interface i) (ret (InterfaceDecl i))"
| "check_decl (NamespaceDecl (MkNamespace l name ds sts is_package)) =
     (if is_package then ret (NamespaceDecl (MkNamespace l name ds sts is_package))
      else bind_s (scoped False (
             then_s (hoist_top ds) (
             bind_s (check_all ds) (\<lambda>ds'.
             bind_s (check_stmts sts) (\<lambda>sts'. ret (ds', sts')))))) (\<lambda>(ds', sts').
           ret (NamespaceDecl (MkNamespace l name ds' sts' is_package))))"
| "check_decl (ImportDecl im) = then_s (check_import im) (ret (ImportDecl im))"
| "check_decl d = ret d"
| "check_all [] = ret []"
| "check_all (d # ds) =
     bind_s (check_decl d) (\<lambda>d'.
     bind_s (check_all ds) (\<lambda>ds'. ret (d' # ds')))"

section \<open>Entry points\<close>

definition check_decls :: "decl list \<Rightarrow> (sema, decl list) prog" where
  "check_decls ds = then_s (hoist_top ds) (check_all ds)"

definition run :: "program \<Rightarrow> (sema, bool \<times> program) prog" where
  "run p =
     then_s (hoist_top (prog_decls p)) (
     bind_s (check_all (prog_decls p)) (\<lambda>ds'.
     bind_s (check_stmts (prog_stmts p)) (\<lambda>sts'.
     bind_s (gets sema_errors) (\<lambda>n.
     ret (n = 0, \<lparr>prog_decls = ds', prog_stmts = sts'\<rparr>)))))"

end
