(* ===== verification/Ast_Shapes.thy ===== *)
theory Ast_Shapes
  imports Ast
begin

text \<open>
  Declarations as the proofs see them: the shape of a declaration without the annotations the
  checker writes, and the declarations a parser builds.
\<close>

section \<open>Shapes\<close>

lemma erase_null [simp]: "erase e = NoExpr \<longleftrightarrow> e = NoExpr"
  by (cases e) simp_all

lemma erase_stmt_null [simp]: "erase_stmt st = NoStmt \<longleftrightarrow> st = NoStmt"
  by (cases st) simp_all

fun erase_body :: "source_loc \<times> stmt list \<Rightarrow> source_loc \<times> stmt list" where
  "erase_body (l, b) = (l, map erase_stmt b)"

definition erase_func :: "function_decl \<Rightarrow> function_decl" where
  "erase_func f = f\<lparr>f_body := map_option erase_body (f_body f)\<rparr>"

definition erase_field :: "field_decl \<Rightarrow> field_decl" where
  "erase_field fd = fd\<lparr>fd_init := map_option erase (fd_init fd)\<rparr>"

fun erase_decl :: "decl \<Rightarrow> decl"
  and erase_member :: "class_member \<Rightarrow> class_member" where
  "erase_decl (FunctionDecl f) = FunctionDecl (erase_func f)"
| "erase_decl (FieldDecl fd) = FieldDecl (erase_field fd)"
| "erase_decl (ClassDecl (MkClass l decos n tps tbs bs ms)) =
     ClassDecl (MkClass l decos n tps tbs bs (map erase_member ms))"
| "erase_decl (NamespaceDecl (MkNamespace l n ds sts p)) =
     NamespaceDecl (MkNamespace l n (map erase_decl ds) (map erase_stmt sts) p)"
| "erase_decl d = d"
| "erase_member (MkMember a decos d) = MkMember a decos (map_option erase_decl d)"

definition erase_program :: "program \<Rightarrow> program" where
  "erase_program p = \<lparr>prog_decls = map erase_decl (prog_decls p), prog_stmts = map erase_stmt (prog_stmts p)\<rparr>"

section \<open>What a parser builds\<close>

definition wf_stmts :: "stmt list \<Rightarrow> bool" where
  "wf_stmts sts \<longleftrightarrow> (\<forall>st\<in>set sts. wf_stmt st)"

definition wf_func :: "function_decl \<Rightarrow> bool" where
  "wf_func f \<longleftrightarrow> (case f_body f of None \<Rightarrow> True | Some (l, b) \<Rightarrow> wf_stmts b)"

definition wf_field :: "field_decl \<Rightarrow> bool" where
  "wf_field fd \<longleftrightarrow> (case fd_init fd of None \<Rightarrow> True | Some e \<Rightarrow> wf_expr e)"

fun wf_decl :: "decl \<Rightarrow> bool"
  and wf_member :: "class_member \<Rightarrow> bool" where
  "wf_decl (FunctionDecl f) = wf_func f"
| "wf_decl (FieldDecl fd) = wf_field fd"
| "wf_decl (ClassDecl (MkClass l decos n tps tbs bs ms)) = (\<forall>m\<in>set ms. wf_member m)"
| "wf_decl (InterfaceDecl (MkInterface l n ms)) = (\<forall>m\<in>set ms. wf_member m)"
| "wf_decl (NamespaceDecl (MkNamespace l n ds sts p)) = ((\<forall>d\<in>set ds. wf_decl d) \<and> wf_stmts sts)"
| "wf_decl d = True"
| "wf_member (MkMember a decos d) = (case d of None \<Rightarrow> True | Some d \<Rightarrow> wf_decl d)"

definition wf_program :: "program \<Rightarrow> bool" where
  "wf_program p \<longleftrightarrow> (\<forall>d\<in>set (prog_decls p). wf_decl d) \<and> wf_stmts (prog_stmts p)"

end
