(* ===== verification/Sema_Shape.thy ===== *)
theory Sema_Shape
  imports Sema_Decl Ast_Shapes
begin

text \<open>
  The checker only annotates: a check returns the tree it was given up to the \<open>type_id\<close> of
  expressions and the inferred result of lambdas, and the type it returns is the one it wrote
  into the node. The judgement \<open>yields m Q\<close> says that every value \<open>m\<close> returns has \<open>Q\<close>.
\<close>

section \<open>The judgement\<close>

definition yields :: "('s, 'a) prog \<Rightarrow> ('a \<Rightarrow> bool) \<Rightarrow> bool" where
  "yields m Q \<longleftrightarrow> (\<forall>s a t. m s = Returned a t \<longrightarrow> Q a)"

named_theorems yields_intros \<open>rules of the judgement yields\<close>

lemma yieldsD: "yields m Q \<Longrightarrow> m s = Returned a t \<Longrightarrow> Q a"
  by (auto simp: yields_def)

lemma yields_any: "yields m (\<lambda>_. True)"
  by (simp add: yields_def)

lemma yields_ret [yields_intros]: "Q a \<Longrightarrow> yields (ret a) Q"
  by (simp add: yields_def ret_def)

lemma yields_null_deref [yields_intros]: "yields null_deref Q"
  by (simp add: yields_def null_deref_def)

lemma yields_bind:
  "yields m P \<Longrightarrow> (\<And>a. P a \<Longrightarrow> yields (f a) Q) \<Longrightarrow> yields (bind_s m f) Q"
  by (fastforce simp: yields_def bind_s_def split: outcome.splits)

lemma yields_bind_any: "(\<And>a. yields (f a) Q) \<Longrightarrow> yields (bind_s m f) Q"
  by (rule yields_bind [OF yields_any])

lemma yields_then [yields_intros]: "yields k Q \<Longrightarrow> yields (then_s m k) Q"
  unfolding then_s_def by (rule yields_bind_any)

lemma yields_if [yields_intros]:
  "(b \<Longrightarrow> yields m Q) \<Longrightarrow> (\<not> b \<Longrightarrow> yields k Q) \<Longrightarrow> yields (if b then m else k) Q"
  by simp

lemma yields_option [yields_intros]:
  "(x = None \<Longrightarrow> yields m Q) \<Longrightarrow> (\<And>a. x = Some a \<Longrightarrow> yields (f a) Q) \<Longrightarrow>
   yields (case x of None \<Rightarrow> m | Some a \<Rightarrow> f a) Q"
  by (cases x) simp_all

lemma yields_bracket: "yields m Q \<Longrightarrow> yields (bracket enter leave m) Q"
  by (fastforce simp: yields_def bracket_def split: outcome.splits)

lemma yields_scoped [yields_intros]: "yields m Q \<Longrightarrow> yields (scoped c m) Q"
  by (fastforce simp: yields_def scoped_def then_s_def bind_s_def modify_def ret_def split: outcome.splits)

lemma yields_with [yields_intros]:
  assumes "yields m Q"
  shows "yields (with_loop b m) Q" "yields (with_unsafe b m) Q" "yields (with_await b m) Q"
    "yields (with_return_type t m) Q" "yields (with_class n u m) Q"
  unfolding with_loop_def with_unsafe_def with_await_def with_return_type_def with_class_def with_field_eq
  by (rule yields_bracket [OF assms])+

section \<open>Expressions and statements\<close>

lemma erase_set_type [simp]: "erase (set_type_id t e) = erase e"
  by (cases e) simp_all

text \<open>The node a check returns: the type is the annotation, the shape the original one.\<close>

definition annotates :: "expr \<Rightarrow> type_id \<times> expr \<Rightarrow> bool" where
  "annotates e r \<longleftrightarrow> expr_type_id (snd r) = fst r \<and> erase (snd r) = erase e"

lemma annotates_pair [simp]: "annotates e (t, e') \<longleftrightarrow> expr_type_id e' = t \<and> erase e' = erase e"
  by (simp add: annotates_def)

lemma yields_bind_expr:
  "yields m (annotates e) \<Longrightarrow> (\<And>t e'. expr_type_id e' = t \<Longrightarrow> erase e' = erase e \<Longrightarrow> yields (f t e') Q) \<Longrightarrow>
   yields (bind_s m (\<lambda>(t, e'). f t e')) Q"
  by (erule yields_bind) auto

lemma yields_decided:
  "yields (assign_target op e t) (\<lambda>d. \<forall>r e'. d = Some (r, e') \<longrightarrow> erase e' = erase e)"
  "yields (enum_access l e m) (\<lambda>d. \<forall>r e'. d = Some (r, e') \<longrightarrow> erase e' = erase e)"
  "yields (resolve_callee e) (\<lambda>k. \<forall>sy e'. k = CalleeSymbol sy e' \<longrightarrow> erase e' = erase e)"
  unfolding assign_target_def enum_access_def resolve_callee_def
  by (rule yields_intros yields_bind_any | simp split: option.split)+

lemma yields_block [yields_intros]:
  "(\<And>l b. st = BlockStmt l b \<Longrightarrow> yields (f l b) Q) \<Longrightarrow> ((\<forall>l b. st \<noteq> BlockStmt l b) \<Longrightarrow> yields m Q) \<Longrightarrow>
   yields (case st of BlockStmt l b \<Rightarrow> f l b | _ \<Rightarrow> m) Q"
  by (cases st) simp_all

lemma yields_callee [yields_intros]:
  "(k = CalleeUndefined \<Longrightarrow> yields m1 Q) \<Longrightarrow> (\<And>sy e. k = CalleeSymbol sy e \<Longrightarrow> yields (m2 sy e) Q) \<Longrightarrow>
   (\<And>t. k = CalleeStdlib t \<Longrightarrow> yields (m3 t) Q) \<Longrightarrow> (k = CalleeOther \<Longrightarrow> yields m4 Q) \<Longrightarrow>
   yields (case k of CalleeUndefined \<Rightarrow> m1 | CalleeSymbol sy e \<Rightarrow> m2 sy e
     | CalleeStdlib t \<Rightarrow> m3 t | CalleeOther \<Rightarrow> m4) Q"
  by (cases k) simp_all

lemma yields_prod [yields_intros]:
  "(\<And>a b. p = (a, b) \<Longrightarrow> yields (f a b) Q) \<Longrightarrow> yields (case p of (a, b) \<Rightarrow> f a b) Q"
  by (cases p) simp

text \<open>The inner programs whose result is part of the tree.\<close>

lemma yields_else:
  "(el \<noteq> NoStmt \<Longrightarrow> yields (check_stmt el) (\<lambda>st'. erase_stmt st' = erase_stmt el)) \<Longrightarrow>
   yields (if el = NoStmt then ret NoStmt else check_stmt el) (\<lambda>st'. erase_stmt st' = erase_stmt el)"
  by (simp add: yields_ret)

lemma yields_init:
  "(e \<noteq> NoExpr \<Longrightarrow> yields (check_expr e) (annotates e)) \<Longrightarrow>
   yields (if e = NoExpr then ret (t, NoExpr)
     else bind_s (check_expr e) (\<lambda>(u, e'). bind_s (var_decl_type x e t u) (\<lambda>r. ret (r, e'))))
     (\<lambda>r. erase (snd r) = erase e)"
  by (rule yields_intros | (rule yields_bind_expr, blast) | rule yields_bind_any | simp)+

lemma yields_label:
  "(\<And>e. v = Some e \<Longrightarrow> yields (check_expr e) (annotates e)) \<Longrightarrow>
   yields (case v of None \<Rightarrow> ret None | Some e \<Rightarrow> bind_s (check_expr e) (\<lambda>(t, e'). ret (Some e')))
     (\<lambda>v'. map_option erase v' = map_option erase v)"
  by (rule yields_intros | (rule yields_bind_expr, blast) | rule yields_bind_any | simp)+

lemma yields_body:
  "(\<And>l b. body = BlockStmt l b \<Longrightarrow> yields (check_stmts b) (\<lambda>b'. map erase_stmt b' = map erase_stmt b)) \<Longrightarrow>
   yields (scoped False (then_s m (with_return_type u (case body of
       BlockStmt l b \<Rightarrow> bind_s (check_stmts b) (\<lambda>b'. ret (inferred_return b', BlockStmt l b'))
     | _ \<Rightarrow> ret (TID_VOID, body))))) (\<lambda>r. erase_stmt (snd r) = erase_stmt body)"
  by (rule yields_intros | (rule yields_bind, blast) | simp)+

theorem check_annotates:
  shows "yields (check_expr e) (annotates e)"
    and "yields (check_exprs es) (\<lambda>es'. map erase es' = map erase es)"
    and "yields (check_args sy i as) (\<lambda>as'. map erase as' = map erase as)"
    and "yields (check_pairs ps) (\<lambda>ps'. map erase_entry ps' = map erase_entry ps)"
    and "yields (check_stmt st) (\<lambda>st'. erase_stmt st' = erase_stmt st)"
    and "yields (check_stmts sts) (\<lambda>sts'. map erase_stmt sts' = map erase_stmt sts)"
    and "yields (check_var_inits l c d t ds) (\<lambda>ds'. map erase_init ds' = map erase_init ds)"
    and "yields (check_cases cs) (\<lambda>cs'. map erase_case cs' = map erase_case cs)"
    and "yields (check_arms arms) (\<lambda>arms'. map erase_arm arms' = map erase_arm arms)"
proof (induction e and es and sy i as and ps and st and sts and l c d t ds and cs and arms
    rule: check_expr_check_exprs_check_args_check_pairs_check_stmt_check_stmts_check_var_inits_check_cases_check_arms.induct)
qed (unfold check_expr.simps check_exprs.simps check_args.simps check_pairs.simps check_stmt.simps
    check_stmts.simps check_var_inits.simps check_cases.simps check_arms.simps,
    (rule yields_intros refl
      | rule yields_bind [OF yields_decided(1)] yields_bind [OF yields_decided(2)]
          yields_bind [OF yields_decided(3)]
      | rule yields_bind [OF yields_else] yields_bind [OF yields_init] yields_bind [OF yields_label]
          yields_bind [OF yields_body], blast
      | rule yields_bind_expr, (rule yields_with)?, blast
      | rule yields_bind, ((rule yields_with yields_scoped yields_then)+)?, blast
      | rule yields_bind_any | simp)+)

section \<open>Declarations\<close>

lemma yields_map_s:
  "(\<And>x. x \<in> set xs \<Longrightarrow> yields (f x) (\<lambda>y. g y = g x)) \<Longrightarrow> yields (map_s f xs) (\<lambda>ys. map g ys = map g xs)"
proof (induction xs)
  case (Cons x xs)
  have "yields (f x) (\<lambda>y. g y = g x)" "yields (map_s f xs) (\<lambda>ys. map g ys = map g xs)"
    using Cons by simp_all
  then show ?case
    by (auto intro!: yields_ret elim!: yields_bind)
qed (simp add: yields_ret)

lemma yields_func: "yields (check_func f) (\<lambda>f'. erase_func f' = erase_func f)"
proof -
  have body: "yields (check_body b) (\<lambda>b'. map_option erase_body b' = map_option erase_body b)" for b
    unfolding check_body_def
    by (cases b) (auto intro!: yields_ret yields_bind [OF check_annotates(6)])
  show ?thesis
    unfolding check_func_def
    by (rule yields_bind_any, rule yields_bind, (rule yields_scoped yields_then yields_with body)+)
      (auto simp: erase_func_def intro: yields_ret)
qed

lemma yields_field: "yields (check_field fd) (\<lambda>fd'. erase_field fd' = erase_field fd)"
  unfolding check_field_def
  by (rule yields_option yields_ret refl
      | (rule yields_bind_expr, rule check_annotates) | rule yields_bind_any yields_then
      | simp add: erase_field_def)+

lemma erase_member_eq:
  "erase_member m = MkMember (cm_access m) (cm_decorators m) (map_option erase_decl (cm_decl m))"
  by (cases m) simp

lemma yields_member: "yields (check_member_decl m) (\<lambda>m'. erase_member m' = erase_member m)"
proof -
  have func: "yields (bind_s (check_func f) (\<lambda>f'. ret (set_member_decl m (FunctionDecl f'))))
      (\<lambda>m'. erase_member m' = erase_member m)" if "cm_decl m = Some (FunctionDecl f)" for f
    using that by (auto intro!: yields_ret yields_bind [OF yields_func] simp: erase_member_eq set_member_decl_def)
  have field: "yields (bind_s (check_field fd) (\<lambda>fd'. ret (set_member_decl m (FieldDecl fd'))))
      (\<lambda>m'. erase_member m' = erase_member m)" if "cm_decl m = Some (FieldDecl fd)" for fd
    using that by (auto intro!: yields_ret yields_bind [OF yields_field] simp: erase_member_eq set_member_decl_def)
  show ?thesis
    unfolding check_member_decl_def
    by (auto intro: func field yields_ret split: option.split decl.split)
qed

lemma yields_class: "yields (check_class c) (\<lambda>c'. erase_decl (ClassDecl c') = erase_decl (ClassDecl c))"
  unfolding check_class_def
  by (rule yields_bind_any, (rule yields_then)+, rule yields_bind,
      (rule yields_with yields_scoped yields_then yields_map_s [where g = erase_member] yields_member)+)
    (cases c, simp add: set_members_def yields_ret)

theorem check_decl_annotates:
  shows "yields (check_decl d) (\<lambda>d'. erase_decl d' = erase_decl d)"
    and "yields (check_all ds) (\<lambda>ds'. map erase_decl ds' = map erase_decl ds)"
proof (induction d and ds rule: check_decl_check_all.induct)
  case (4 l name ds sts p)
  have "yields (bind_s (check_all ds) (\<lambda>ds'. bind_s (check_stmts sts) (\<lambda>sts'. ret (ds', sts'))))
      (\<lambda>r. map erase_decl (fst r) = map erase_decl ds \<and> map erase_stmt (snd r) = map erase_stmt sts)" if "\<not> p"
    using 4 that by (auto intro!: yields_ret yields_bind [OF check_annotates(6)] elim!: yields_bind)
  then show ?case
    by (auto intro!: yields_ret yields_bind [where P = "\<lambda>r. map erase_decl (fst r) = map erase_decl ds \<and>
        map erase_stmt (snd r) = map erase_stmt sts"] yields_scoped yields_then)
qed (auto intro!: yields_ret yields_then yields_bind [OF yields_func] yields_bind [OF yields_class]
    elim!: yields_bind simp del: erase_decl.simps(3))

end
