(* ===== verification/Decl_Frames.thy ===== *)
theory Decl_Frames
  imports Sema_Effects Sema_Decl
begin

text \<open>
  The passes over declarations use four more primitives than the traversal: the global scope,
  parents and interfaces in the type table, and the current class. The locale \<open>decl_frame\<close> adds
  them to \<open>check_frame\<close>; its theorem covers hoisting, checking and \<open>run\<close>.
\<close>

section \<open>The primitives of a pass\<close>

lemma keeps_identity_variants [simp]: "keeps_identity (\<lambda>ti. ti\<lparr>ti_variants := g ti\<rparr>)"
  by (simp add: keeps_identity_def)

lemma with_class_eq:
  "with_class n u m = bracket (\<lambda>s. s\<lparr>current_class_name := n, current_class_type := u\<rparr>)
     (\<lambda>s t. t\<lparr>current_class_name := current_class_name s, current_class_type := current_class_type s\<rparr>) m"
  by (simp add: with_class_def with_field_eq)

lemmas hoist_defs = hoist_function_def hoist_extern_def hoist_enum_def hoist_class_def
  hoist_bases_def hoist_base_iface_def hoist_interface_def promote_def declare_namespace_def

lemmas decl_part_defs = define_receiver_def define_params_def check_base_def check_contract_def
  hoist_member_def check_interface_def check_import_def Let_def

lemmas decl_defs = check_body_def check_func_def check_field_def check_member_decl_def check_class_def

locale decl_frame = check_frame R E for R E :: "sema \<Rightarrow> sema \<Rightarrow> bool" +
  assumes frame_define_global [frame_intros]: "frame R E (define_global x sy)"
    and frame_set_parent_s [frame_intros]: "frame R E (set_parent_s c p)"
    and frame_add_interface_s [frame_intros]: "frame R E (add_interface_s c p)"
    and R_class: "R (s\<lparr>current_class_name := n, current_class_type := u\<rparr>) t \<Longrightarrow>
          R s (t\<lparr>current_class_name := current_class_name s, current_class_type := current_class_type s\<rparr>)"
    and E_class: "E (s\<lparr>current_class_name := n, current_class_type := u\<rparr>) t \<Longrightarrow> E s t"
begin

lemma frame_with_class [frame_intros]: "frame R E m \<Longrightarrow> frame R E (with_class n u m)"
  unfolding with_class_eq by (rule frame_bracket [OF R_class E_class])

lemma frame_name_type [frame_intros]: "frame R E (name_type n)"
  by (simp add: name_type_def frame_gets)

lemma frame_param_symbols [frame_intros]: "frame R E (param_symbols ps)"
  unfolding param_symbols_def by (intro frame_intros)

lemma frame_hoist_variant [frame_intros]: "frame R E (hoist_variant n i v)"
  unfolding hoist_variant_def by (intro frame_intros frame_update_type keeps_identity_variants)

lemma frame_hoist_parts [frame_intros]:
  "frame R E (hoist_function f)" "frame R E (hoist_extern x)" "frame R E (hoist_enum en)"
  "frame R E (hoist_class cl)" "frame R E (hoist_interface i)" "frame R E (promote n)"
  "frame R E (declare_namespace l n d)"
  unfolding hoist_defs
  by (intro frame_intros frame_update_type keeps_identity_variants)+

lemma frame_hoist [frame_intros]:
  shows "frame R E (hoist_decl d)" and "frame R E (hoist_top ds)"
proof (induction d and ds rule: hoist_decl_hoist_top.induct)
qed (unfold hoist_decl.simps hoist_top.simps, (intro frame_intros; blast?)+)

text \<open>A member is a function, a field, or nothing the checker looks at.\<close>

lemma frame_case_decl [frame_intros]:
  "(\<And>f. frame R E (m1 f)) \<Longrightarrow> (\<And>fd. frame R E (m2 fd)) \<Longrightarrow> frame R E m \<Longrightarrow>
   frame R E (case d of FunctionDecl f \<Rightarrow> m1 f | FieldDecl fd \<Rightarrow> m2 fd | _ \<Rightarrow> m)"
  by (cases d) simp_all

lemma frame_decl_parts [frame_intros]:
  "frame R E (define_receiver b)" "frame R E (define_params ps)" "frame R E (check_base cl u ba)"
  "frame R E (check_contract cl ba)" "frame R E (hoist_member me)" "frame R E (check_interface i)"
  "frame R E (check_import im)"
  unfolding decl_part_defs by (intro frame_intros)+

lemma frame_func [frame_intros]:
  "frame R E (check_body bo)" "frame R E (check_func f)" "frame R E (check_field fd)"
  "frame R E (check_member_decl me)" "frame R E (check_class cl)"
  unfolding decl_defs by (intro frame_intros)+

lemma frame_decls [frame_intros]:
  shows "frame R E (check_decl d)" and "frame R E (check_all ds)"
proof (induction d and ds rule: check_decl_check_all.induct)
qed (unfold check_decl.simps check_all.simps, (intro frame_intros; blast?)+)

theorem frame_run: "frame R E (run p)" "frame R E (check_decls ds)"
  unfolding run_def check_decls_def by (intro frame_intros)+

end

section \<open>The environment of a pass\<close>

text \<open>
  A pass may add names to the global scope from anywhere, so what is left of the environment is
  the flags, the number of scopes, and that every scope only gained names.
\<close>

definition scopes_kept :: "sema \<Rightarrow> sema \<Rightarrow> bool" where
  "scopes_kept s t \<longleftrightarrow> flags t = flags s \<and> (stack s \<noteq> [] \<longrightarrow> list_all2 scope_extends (stack s) (stack t))"

definition scopes_thrown :: "sema \<Rightarrow> sema \<Rightarrow> bool" where
  "scopes_thrown s t \<longleftrightarrow> (stack s \<noteq> [] \<longrightarrow>
     (\<exists>inner rest. stack t = inner @ rest \<and> list_all2 scope_extends (stack s) rest))"

lemma scopes_thrown_same: "stack t = stack s \<Longrightarrow> scopes_thrown s t"
  by (auto simp: scopes_thrown_def list.rel_refl intro: exI [of _ "[]"])

lemma scopes_refl [simp]: "list_all2 scope_extends st st"
  by (simp add: list.rel_refl)

lemma scopes_trans:
  "list_all2 scope_extends a b \<Longrightarrow> list_all2 scope_extends b c \<Longrightarrow> list_all2 scope_extends a c"
  by (rule list_all2_trans [of scope_extends scope_extends scope_extends]) (auto intro: scope_extends_trans)

lemma scopes_define: "list_all2 scope_extends st (snd (stack_define x sy st))"
  by (cases st) (simp_all add: case_prod_beta)

lemma scopes_global_define: "list_all2 scope_extends st (global_define x sy st)"
  by (induction x sy st rule: global_define.induct) simp_all

lemma frame_define_globalI:
  "(\<And>s. R s (s\<lparr>stack := global_define x sy (stack s)\<rparr>)) \<Longrightarrow> frame R E (define_global x sy)"
  by (simp add: frame_def define_global_def modify_def)

lemma frame_set_parentI:
  "(\<And>s. R s (s\<lparr>reg := set_parent c p (reg s)\<rparr>)) \<Longrightarrow> frame R E (set_parent_s c p)"
  by (simp add: frame_def set_parent_s_def modify_def)

lemma frame_add_interfaceI:
  "(\<And>s. R s (s\<lparr>reg := add_interface c p (reg s)\<rparr>)) \<Longrightarrow> frame R E (add_interface_s c p)"
  by (simp add: frame_def add_interface_s_def modify_def)

lemmas frame_primitiveI = frame_errI frame_warnI frame_define_symI frame_intern_sI frame_update_typeI
  frame_define_globalI frame_set_parentI frame_add_interfaceI

interpretation scopes_env: decl_frame scopes_kept scopes_thrown
proof unfold_locales
  show "scopes_kept s u" if "scopes_kept s t" "scopes_kept t u" for s t u
    using that by (auto simp: scopes_kept_def intro: scopes_trans)
  show "scopes_thrown s u" if "scopes_kept s t" "scopes_thrown t u" for s t u
    using that by (auto simp: scopes_kept_def scopes_thrown_def intro: scopes_trans)
  show "scopes_kept s (t\<lparr>stack := pop_scope (stack t)\<rparr>)"
    if "scopes_kept (s\<lparr>stack := push_scope c (stack s)\<rparr>) t" for s t c
    using that by (auto simp: scopes_kept_def flags_def push_scope_def pop_scope_def list_all2_Cons1)
  show "scopes_thrown s t" if "scopes_thrown (s\<lparr>stack := push_scope c (stack s)\<rparr>) t" for s t c
    using that by (fastforce simp: scopes_thrown_def push_scope_def list_all2_Cons1
        intro: exI [of _ "_ @ [_]"])
qed (auto simp: scopes_kept_def scopes_thrown_same flags_def scopes_define scopes_global_define
    intro!: frame_primitiveI, auto simp: scopes_thrown_def)

section \<open>Diagnostics and type names of a pass\<close>

interpretation diag: decl_frame diag_grows diag_thrown
proof unfold_locales
qed (auto simp: diag_grows_same intro!: frame_define_globalI frame_set_parentI frame_add_interfaceI, auto simp: diag_grows_def diag_thrown_def)

text \<open>Types keep their name and kind in every pass; \<open>set_parent\<close> may change a parent.\<close>

definition names_kept :: "sema \<Rightarrow> sema \<Rightarrow> bool" where
  "names_kept s t \<longleftrightarrow>
     (\<exists>new. map (\<lambda>ti. (ti_kind ti, ti_name ti)) (type_table (reg t)) =
            map (\<lambda>ti. (ti_kind ti, ti_name ti)) (type_table (reg s)) @ new) \<and>
     by_name (reg s) \<subseteq>\<^sub>m by_name (reg t)"

lemma names_kept_trans: "names_kept s t \<Longrightarrow> names_kept t u \<Longrightarrow> names_kept s u"
  by (auto simp: names_kept_def intro: map_le_trans)

lemma types_kept_names: "table_extends (reg s) (reg t) \<Longrightarrow> names_kept s t"
proof -
  assume ext: "table_extends (reg s) (reg t)"
  have fst_snd: "map (\<lambda>ti. (ti_kind ti, ti_name ti)) tt =
      map (\<lambda>(k, n, _). (k, n)) (map identity tt)" for tt
    by (simp add: identity_def comp_def)
  show ?thesis
    using ext by (auto simp: table_extends_def names_kept_def fst_snd simp del: map_map)
qed

interpretation names: decl_frame names_kept names_kept
proof unfold_locales
  show "frame names_kept names_kept (intern_s n k)" for n k
    by (rule frame_intern_sI) (simp add: types_kept_names table_extends_intern)
  show "frame names_kept names_kept (update_type i f)" if "keeps_identity f" for i f
    using that by (intro frame_update_typeI) (simp add: types_kept_names table_extends_update)
qed (auto intro: names_kept_trans, auto simp: names_kept_def set_parent_def add_interface_def map_update_same
    intro!: frame_errI frame_warnI frame_define_symI frame_define_globalI frame_set_parentI frame_add_interfaceI)

end
