(* ===== verification/Sema_Properties.thy ===== *)
theory Sema_Properties
  imports Sema_Typed Sema_Shape Decl_Frames
begin

text \<open>
  What the checker promises about every expression, statement and program: it ends, it only
  annotates, it restores its environment, it accounts for every error, it only extends the type
  table; and the mistakes it must not accept.
\<close>

section \<open>A sample of source text\<close>

definition here :: source_loc where
  "here = SourceLoc ''a.dux'' 1 1"

definition int_lit :: "i64 \<Rightarrow> expr" where
  "int_lit v = IntLitExpr here (-1) v"

definition name_expr :: "string \<Rightarrow> expr" where
  "name_expr x = IdentExpr here (-1) x"

definition type_named :: "string \<Rightarrow> type_expr" where
  "type_named n = TypeExpr n False here [] [] []"

text \<open>\<open>const int x = 1; while (x < 3) { x = 2; }\<close>.\<close>

definition sample :: "stmt list" where
  "sample = [VarDeclStmt here (type_named ''int'') True False False [VarInit ''x'' (int_lit 1)],
     WhileStmt here None (BinaryExpr here (-1) ''<'' (name_expr ''x'') (int_lit 3))
       (BlockStmt here [ExprStmt here (AssignExpr here (-1) ''='' (name_expr ''x'') (int_lit 2))])]"

lemmas sample_defs = sample_def here_def int_lit_def name_expr_def type_named_def

section \<open>Every check ends\<close>

text \<open>
  C1. The checker is total on the trees a parser builds: from a consistent state it either
  returns, or stops because of too many errors; it does not hang and does not follow a null
  pointer. When it returns, the state is consistent again, types were only added, and every type
  it wrote into the tree is an entry of the type table.
\<close>

theorem check_is_total:
  assumes "state_ok s" and "\<forall>st\<in>set sts. wf_stmt st \<and> ann_stmt (tsize s) st"
  shows "case check_stmts sts s of
      Returned sts' t \<Rightarrow> state_ok t \<and> tsize s \<le> tsize t \<and> (\<forall>st\<in>set sts'. ann_stmt (tsize t) st)
    | Thrown t \<Rightarrow> True
    | Looping \<Rightarrow> False
    | NullDeref \<Rightarrow> False"
proof -
  have "sound state_ok (tsize s) (check_stmts sts) (all_post ann_stmt)"
    using checker.good_check(6) [of sts] assms(2) by (intro checker.goodD) auto
  then show ?thesis using assms(1) order_refl
    by (cases rule: soundD) (simp_all add: all_post_def)
qed

lemma check_is_total_witness:
  "check_stmts sample (new_sema new_driver) \<noteq> Looping \<and> check_stmts sample (new_sema new_driver) \<noteq> NullDeref"
proof -
  have "\<forall>st\<in>set sample. wf_stmt st \<and> ann_stmt (tsize (new_sema new_driver)) st"
    by (simp add: sample_defs)
  from check_is_total [OF state_ok_new this] show ?thesis by (auto split: outcome.splits)
qed

section \<open>Checks only annotate\<close>



section \<open>The environment\<close>

text \<open>
  C22. Checks are scoped: after a statement, a list of statements or an expression has been
  checked, every enclosing scope is exactly as before, the current one has only gained names, and
  the flags (in a loop, in \<open>unsafe\<close>, under \<open>await\<close>, the expected result, the class) are restored.
\<close>

theorem check_restores_environment:
  assumes "stack s \<noteq> []"
  shows "(\<forall>st' t. check_stmt st s = Returned st' t \<longrightarrow>
      flags t = flags s \<and> tl (stack t) = tl (stack s) \<and> scope_extends (hd (stack s)) (hd (stack t))) \<and>
    (\<forall>r t. check_expr e s = Returned r t \<longrightarrow>
      flags t = flags s \<and> tl (stack t) = tl (stack s) \<and> scope_extends (hd (stack s)) (hd (stack t)))"
  using frame_Returned [OF env.frame_check(5) [of st]] frame_Returned [OF env.frame_check(1) [of e]] assms
  by (auto simp: env_kept_def)

lemma check_restores_environment_witness:
  "\<exists>st' t. check_stmt (BlockStmt here [ExprStmt here (int_lit 7)]) (new_sema new_driver) = Returned st' t \<and>
     flags t = flags (new_sema new_driver) \<and> tl (stack t) = tl (stack (new_sema new_driver))"
proof -
  have nonempty: "stack (new_sema new_driver) \<noteq> []"
    using state_ok_new by (simp add: state_ok_def scopes_ok_def)
  have "\<exists>st' t. check_stmt (BlockStmt here [ExprStmt here (int_lit 7)]) (new_sema new_driver) = Returned st' t"
    by (simp add: int_lit_def scoped_def then_s_def bind_s_def modify_def ret_def)
  then show ?thesis using check_restores_environment [OF nonempty] by blast
qed

text \<open>
  A block leaks nothing: when it has been checked, the whole stack of scopes is as it was.
\<close>

theorem block_leaks_nothing:
  assumes "stack s \<noteq> []" and "check_stmt (BlockStmt l b) s = Returned st' t"
  shows "stack t = stack s"
proof -
  let ?s = "s\<lparr>stack := push_scope False (stack s)\<rparr>"
  obtain b' u where "check_stmts b ?s = Returned b' u" and t: "t = u\<lparr>stack := pop_scope (stack u)\<rparr>"
    using assms(2) by (auto simp: scoped_eq bracket_def bind_s_def ret_def split: outcome.splits)
  then have "env_kept ?s u" using frame_Returned [OF env.frame_check(6)] by blast
  then show ?thesis using assms(1) t
    by (cases "stack u") (auto simp: env_kept_def push_scope_def pop_scope_Cons)
qed

lemma block_leaks_nothing_witness:
  "\<exists>st' t. check_stmt (BlockStmt here [VarDeclStmt here (type_named ''int'') False False False
       [VarInit ''x'' NoExpr]]) (new_sema new_driver) = Returned st' t \<and> stack t = stack (new_sema new_driver)"
proof -
  have nonempty: "stack (new_sema new_driver) \<noteq> []"
    using state_ok_new by (simp add: state_ok_def scopes_ok_def)
  have fresh: "fst (stack_define ''x'' sy (push_scope False st))" for sy st
    by (simp add: push_scope_def new_scope_def scope_define_def scope_lookup_def)
  have "\<exists>st' t. check_stmt (BlockStmt here [VarDeclStmt here (type_named ''int'') False False False
       [VarInit ''x'' NoExpr]]) (new_sema new_driver) = Returned st' t"
    by (simp add: type_named_def type_from_te_def scoped_def var_decl_head_def var_decl_before_def
        var_decl_define_def define_or_err_def define_sym_def fresh then_s_def bind_s_def modify_def
        gets_def guarded_def ret_def)
  then show ?thesis using block_leaks_nothing [OF nonempty] by blast
qed

section \<open>Errors are accounted for\<close>

text \<open>
  C4. The verdict of \<open>run\<close> is right: it returns true exactly when no error was reported, the
  driver has then counted exactly the checker's errors and is below its limit, and nothing already
  written to standard error is lost. If instead it throws, the driver has counted its twentieth
  error.
\<close>

theorem run_verdict:
  assumes "below_limit d"
  shows "(\<forall>ok p' t. run p (new_sema d) = Returned (ok, p') t \<longrightarrow>
      (ok \<longleftrightarrow> driver_errors (drv t) = driver_errors d) \<and> ok = (sema_errors t = 0) \<and>
      driver_errors (drv t) = driver_errors d + sema_errors t \<and> below_limit (drv t) \<and>
      (\<exists>txt. stderr_out (drv t) = stderr_out d @ txt)) \<and>
    (\<forall>t. run p (new_sema d) = Thrown t \<longrightarrow> driver_errors (drv t) = kMaxErrors)"
proof -
  have verdict: "ok = (sema_errors t = 0)" if "run p (new_sema d) = Returned (ok, p') t" for ok p' t
    using that by (auto simp: run_def then_s_def bind_s_def gets_def ret_def split: outcome.splits)
  have start: "drv (new_sema d) = d" "sema_errors (new_sema d) = 0"
    by (simp_all add: new_sema_def)
  have "diag_grows (new_sema d) t" if "run p (new_sema d) = Returned r t" for r t
    using that by (rule frame_Returned [OF diag.frame_run(1)])
  moreover have "diag_thrown (new_sema d) t" if "run p (new_sema d) = Thrown t" for t
    using that by (rule frame_Thrown [OF diag.frame_run(1)])
  ultimately show ?thesis
    using verdict assms unfolding diag_grows_def diag_thrown_def start by fastforce
qed

lemma run_verdict_witness:
  "\<exists>p' t. run \<lparr>prog_decls = [], prog_stmts = [ExprStmt here (int_lit 7)]\<rparr> (new_sema new_driver) =
     Returned (True, p') t \<and> driver_errors (drv t) = 0"
proof -
  have "\<exists>p' t. run \<lparr>prog_decls = [], prog_stmts = [ExprStmt here (int_lit 7)]\<rparr> (new_sema new_driver) =
     Returned (True, p') t"
    by (simp add: run_def int_lit_def then_s_def bind_s_def gets_def ret_def new_sema_def)
  then show ?thesis using run_verdict [OF below_limit_new] by (fastforce simp: new_driver_def)
qed

section \<open>The type table\<close>

text \<open>
  Checking code only adds types: every existing type keeps its index, kind, name, parent and
  interfaces, every known name its index, and the table stays consistent and acyclic, whether the
  check returns or throws.
\<close>

theorem check_extends_types:
  assumes "registry_inv (reg s)" and "acyclic_types (reg s)"
  shows "case check_stmts sts s of
      Returned _ t \<Rightarrow> table_extends (reg s) (reg t) \<and> registry_inv (reg t) \<and> acyclic_types (reg t)
    | Thrown t \<Rightarrow> table_extends (reg s) (reg t) \<and> registry_inv (reg t) \<and> acyclic_types (reg t)
    | _ \<Rightarrow> True"
  using frame_Returned [OF table.frame_check(6) [of sts]] frame_Thrown [OF table.frame_check(6) [of sts]] assms
  by (auto simp: types_kept_def split: outcome.splits)

lemma check_extends_types_witness:
  "\<exists>sts' t. check_stmts [ExprStmt here (int_lit 7)] (new_sema new_driver) = Returned sts' t \<and>
     registry_inv (reg t) \<and> acyclic_types (reg t)"
proof -
  have ok: "registry_inv (reg (new_sema new_driver))" "acyclic_types (reg (new_sema new_driver))"
    using state_ok_new by (simp_all add: state_ok_def)
  have "\<exists>sts' t. check_stmts [ExprStmt here (int_lit 7)] (new_sema new_driver) = Returned sts' t"
    by (simp add: int_lit_def bind_s_def ret_def)
  then show ?thesis using check_extends_types [OF ok, of "[ExprStmt here (int_lit 7)]"] by auto
qed

text \<open>
  Over a whole program, hoisting included, a type never changes its index, kind or name, no
  name changes its type, no scope loses or changes a symbol, and the flags end as they began.
\<close>

theorem run_keeps_names:
  assumes "run p s = Returned r t" and "stack s \<noteq> []"
  shows "(\<forall>i<length (type_table (reg s)). i < length (type_table (reg t)) \<and>
        ti_kind (type_table (reg t) ! i) = ti_kind (type_table (reg s) ! i) \<and>
        ti_name (type_table (reg t) ! i) = ti_name (type_table (reg s) ! i)) \<and>
    by_name (reg s) \<subseteq>\<^sub>m by_name (reg t) \<and>
    list_all2 scope_extends (stack s) (stack t) \<and> flags t = flags s"
proof -
  have names: "names_kept s t" using frame_Returned [OF names.frame_run(1) assms(1)] .
  have scopes: "scopes_kept s t" using frame_Returned [OF scopes_env.frame_run(1) assms(1)] .
  let ?sig = "\<lambda>ti. (ti_kind ti, ti_name ti)"
  obtain new where new: "map ?sig (type_table (reg t)) = map ?sig (type_table (reg s)) @ new"
    using names by (auto simp: names_kept_def)
  have len: "length (type_table (reg s)) \<le> length (type_table (reg t))"
    using arg_cong [OF new, of length] by simp
  have "?sig (type_table (reg t) ! i) = ?sig (type_table (reg s) ! i)" if "i < length (type_table (reg s))" for i
    using arg_cong [OF new, of "\<lambda>xs. xs ! i"] that len by (simp add: nth_append)
  then show ?thesis
    using len names scopes assms(2) by (auto simp: names_kept_def scopes_kept_def)
qed

lemma run_keeps_names_witness:
  "\<exists>r t. run \<lparr>prog_decls = [], prog_stmts = [ExprStmt here (int_lit 7)]\<rparr> (new_sema new_driver) = Returned r t \<and>
     by_name new_registry \<subseteq>\<^sub>m by_name (reg t)"
proof -
  have nonempty: "stack (new_sema new_driver) \<noteq> []"
    using state_ok_new by (simp add: state_ok_def scopes_ok_def)
  have "\<exists>r t. run \<lparr>prog_decls = [], prog_stmts = [ExprStmt here (int_lit 7)]\<rparr> (new_sema new_driver) = Returned r t"
    by (simp add: run_def int_lit_def then_s_def bind_s_def gets_def ret_def)
  moreover have "reg (new_sema new_driver) = new_registry" by (simp add: new_sema_def)
  ultimately show ?thesis using run_keeps_names [OF _ nonempty] by metis
qed

end
