(* ===== verification/Sema_Rejects.thy ===== *)
theory Sema_Rejects
  imports Sema_Effects Sema_Properties
begin

text \<open>
  Mistakes the checker reports, whatever surrounds them. The judgement \<open>reports m s\<close> says that \<open>m\<close>,
  when it returns from \<open>s\<close>, has counted at least one error more. Errors are never taken
  back, so one report inside a check is a report of the whole check.
\<close>

section \<open>Names are not shadowed by expressions\<close>

text \<open>What a visible name means; assignment to an unknown name may add one.\<close>

definition names_stable :: "sema \<Rightarrow> sema \<Rightarrow> bool" where
  "names_stable s t \<longleftrightarrow>
     (\<forall>x sy. stack_lookup (stack s) x = Some sy \<longrightarrow> stack_lookup (stack t) x = Some sy) \<and>
     (stack s \<noteq> [] \<longrightarrow> stack t \<noteq> []) \<and> in_await t = in_await s"

abbreviation (input) any_throw :: "sema \<Rightarrow> sema \<Rightarrow> bool" where
  "any_throw \<equiv> (\<lambda>_ _. True)"

interpretation stable: frame_pair names_stable any_throw
  by unfold_locales (auto simp: names_stable_def)

lemma names_stable_same [simp]: "stack t = stack s \<Longrightarrow> in_await t = in_await s \<Longrightarrow> names_stable s t"
  by (simp add: names_stable_def)

lemma stable_primitives [frame_intros]:
  "frame names_stable any_throw (err l msg)"
  "frame names_stable any_throw (warn l msg)"
  "frame names_stable any_throw (intern_s n k)"
  "frame names_stable any_throw (update_type i f)"
  by (auto intro!: frame_errI frame_warnI frame_intern_sI frame_update_typeI)

lemmas stable_intros = stable.frame_ret stable.frame_gets stable.frame_run_loop stable.frame_bind
  stable.frame_then stable.frame_guarded stable.frame_for_each stable.frame_if
  stable.frame_case_prod stable.frame_case_option stable_primitives

lemma stable_requirements:
  "frame names_stable any_throw (lookup_sym x)"
  "frame names_stable any_throw (type_name t)"
  "frame names_stable any_throw (assignable_s a b)"
  "frame names_stable any_throw (type_from_te te)"
  "frame names_stable any_throw (require_assignable a b l c)"
  "frame names_stable any_throw (require_numeric t l c)"
  "frame names_stable any_throw (require_bool t l c)"
  unfolding lookup_sym_def type_name_def assignable_s_def type_from_te_def require_assignable_def
    require_numeric_def require_bool_def
  by (intro stable_intros)+

lemmas stable_more = stable_intros stable_requirements

lemma stable_rules:
  "frame names_stable any_throw (check_binary l op tg v a b)"
  "frame names_stable any_throw (check_unary op e t)"
  "frame names_stable any_throw (check_assign_types op tg v a b)"
  "frame names_stable any_throw (resolve_callee e)"
  "frame names_stable any_throw (check_call_shape sy l n)"
  "frame names_stable any_throw (check_argument sy i t l)"
  "frame names_stable any_throw (closure_type x)"
  "frame names_stable any_throw (enum_access l e m)"
  "frame names_stable any_throw (member_type l e m t)"
  "frame names_stable any_throw (index_type tg v a b)"
  "frame names_stable any_throw (new_type l te)"
  "frame names_stable any_throw (this_type l)"
  "frame names_stable any_throw super_type"
  "frame names_stable any_throw (ident_type l x)"
  "frame names_stable any_throw (lambda_type ps ct t)"
  unfolding check_binary_def check_builtin_op_def check_arith_def check_compare_def concat_operand_def
    unify_s_def find_overload_def check_unary_def check_assign_types_def resolve_callee_def
    check_call_shape_def check_argument_def closure_type_def enum_access_def member_type_def
    find_member_def index_type_def new_type_def this_type_def super_type_def ident_type_def
    lambda_type_def Let_def
  by (intro stable_more)+

lemma stable_assign_target: "frame names_stable any_throw (assign_target op e t)"
proof -
  have keep: "names_stable s (s\<lparr>stack := snd (stack_define x sy (stack s))\<rparr>)"
    if "stack_lookup (stack s) x = None" for s x sy
    using that by (cases "stack s")
      (auto simp: names_stable_def scope_define_def scope_lookup_def case_prod_beta map_add_def
        split: option.splits)
  have branch: "frame names_stable any_throw (bind_s (lookup_sym x) (\<lambda>found. case found of
      None \<Rightarrow> if b then then_s (declare_sym x sy) (ret r) else ret q | Some sy' \<Rightarrow> f sy'))"
    if "\<And>sy'. frame names_stable any_throw (f sy')"
    for x b sy and r q :: "(type_id \<times> expr) option" and f
    unfolding frame_def
  proof
    fix s
    have f: "case f sy' s of Returned a t \<Rightarrow> names_stable s t | Thrown t \<Rightarrow> True | Looping \<Rightarrow> True
      | NullDeref \<Rightarrow> True" for sy' using that [of sy'] by (simp add: frame_def)
    show "case bind_s (lookup_sym x) (\<lambda>found. case found of
        None \<Rightarrow> if b then then_s (declare_sym x sy) (ret r) else ret q | Some sy' \<Rightarrow> f sy') s of
      Returned a t \<Rightarrow> names_stable s t | Thrown t \<Rightarrow> True | Looping \<Rightarrow> True | NullDeref \<Rightarrow> True"
      by (cases "stack_lookup (stack s) x")
        (simp_all add: lookup_sym_def declare_sym_def define_sym_def then_s_def bind_s_def ret_def
          gets_def keep f)
  qed
  show ?thesis
    unfolding assign_target_def
    by (cases "ident_name e"; simp only: option.case)
      (rule stable.frame_ret, rule branch, intro stable_more)
qed

text \<open>A lambda is checked in a scope of its own.\<close>

lemma stable_scoped:
  assumes "frame env_kept env_thrown m"
  shows "frame names_stable any_throw (scoped c m)"
proof (rule frameI)
  fix s a t
  assume run: "scoped c m s = Returned a t"
  let ?s = "s\<lparr>stack := push_scope c (stack s)\<rparr>"
  obtain u where u: "m ?s = Returned a u" and t: "t = u\<lparr>stack := pop_scope (stack u)\<rparr>"
    using run by (auto simp: scoped_eq bracket_def split: outcome.splits)
  have "env_kept ?s u" using frame_Returned [OF assms u] .
  then show "names_stable s t"
    using t by (cases "stack s"; cases "stack u")
      (auto simp: env_kept_def push_scope_def pop_scope_def flags_def names_stable_def)
qed simp

lemma stable_with_await:
  assumes "frame names_stable any_throw m"
  shows "frame names_stable any_throw (with_await b m)"
  unfolding with_await_def with_field_eq
  by (rule stable.frame_bracket [OF _ _ assms]) (simp_all add: names_stable_def)

lemma stable_case_callee:
  "frame R E m1 \<Longrightarrow> (\<And>sy e. frame R E (m2 sy e)) \<Longrightarrow> (\<And>t. frame R E (m3 t)) \<Longrightarrow> frame R E m4 \<Longrightarrow>
   frame R E (case k of CalleeUndefined \<Rightarrow> m1 | CalleeSymbol sy e \<Rightarrow> m2 sy e
     | CalleeStdlib t \<Rightarrow> m3 t | CalleeOther \<Rightarrow> m4)"
  by (cases k) simp_all

lemma stable_check:
  fixes st :: stmt and sts :: "stmt list" and l :: source_loc and c d :: bool and t :: type_id
    and ds :: "var_init list" and cs :: "switch_case list" and arms :: "match_arm list"
  shows "frame names_stable any_throw (check_expr e)"
    and "frame names_stable any_throw (check_exprs es)"
    and "frame names_stable any_throw (check_args sy i as)"
    and "frame names_stable any_throw (check_pairs ps)"
    and True and True and True and True and True
proof (induction e and es and sy i as and ps and st and sts and l c d t ds and cs and arms
    rule: check_expr_check_exprs_check_args_check_pairs_check_stmt_check_stmts_check_var_inits_check_cases_check_arms.induct)
qed (simp_all only: check_expr.simps check_exprs.simps check_args.simps check_pairs.simps,
    (intro stable_more stable_rules stable_assign_target stable_scoped stable_with_await
      stable_case_callee stable.frame_null_deref env.frame_then env.frame_rules env.frame_with_flags
      env.frame_case_block env.frame_bind env.frame_check env.frame_ret; blast?)+)

section \<open>Reports\<close>

definition reports :: "(sema, 'a) prog \<Rightarrow> sema \<Rightarrow> bool" where
  "reports m s \<longleftrightarrow> (\<forall>r t. m s = Returned r t \<longrightarrow> sema_errors s < sema_errors t)"

lemma reports_err: "reports (err l msg) s"
  using frame_Returned [OF frame_diag_err]
  by (auto simp: reports_def err_def prog_defs split: outcome.splits)

lemma errors_grow: "frame diag_grows diag_thrown m \<Longrightarrow> m s = Returned a t \<Longrightarrow> sema_errors s \<le> sema_errors t"
  by (drule (1) frame_Returned) (auto simp: diag_grows_def)

lemma reports_first:
  assumes "reports m s" and "\<And>a. frame diag_grows diag_thrown (f a)"
  shows "reports (bind_s m f) s"
  unfolding reports_def
proof (intro allI impI)
  fix r t
  assume "bind_s m f s = Returned r t"
  then obtain a u where "m s = Returned a u" "f a u = Returned r t"
    by (auto simp: bind_s_def split: outcome.splits)
  then show "sema_errors s < sema_errors t"
    using assms errors_grow unfolding reports_def by (meson less_le_trans)
qed

lemma reports_later:
  assumes "frame diag_grows diag_thrown m" and "\<And>a t. m s = Returned a t \<Longrightarrow> reports (f a) t"
  shows "reports (bind_s m f) s"
  unfolding reports_def
proof (intro allI impI)
  fix r t
  assume "bind_s m f s = Returned r t"
  then obtain a u where "m s = Returned a u" "f a u = Returned r t"
    by (auto simp: bind_s_def split: outcome.splits)
  then show "sema_errors s < sema_errors t"
    using assms errors_grow unfolding reports_def by (meson le_less_trans)
qed

lemma reports_then_first: "reports m s \<Longrightarrow> frame diag_grows diag_thrown k \<Longrightarrow> reports (then_s m k) s"
  unfolding then_s_def by (rule reports_first)

lemma reports_then_later:
  "frame diag_grows diag_thrown m \<Longrightarrow> (\<And>a t. m s = Returned a t \<Longrightarrow> reports k t) \<Longrightarrow> reports (then_s m k) s"
  unfolding then_s_def by (rule reports_later)

lemma diag_ret: "frame diag_grows diag_thrown (ret a)"
  by (rule diag.frame_ret)

section \<open>Mistakes in expressions\<close>

text \<open>A state with one scope that has a constant \<open>x\<close> and an async function \<open>f\<close>.\<close>

definition sample_state :: sema where
  "sample_state = (new_sema new_driver)\<lparr>stack := [\<lparr>is_class_scope = False, symbols =
     [(''x'', default_symbol\<lparr>sy_is_const := True\<rparr>),
      (''f'', default_symbol\<lparr>sy_kind := SK_Function, sy_is_async := True\<rparr>)]\<rparr>]\<rparr>"

lemma sample_state_lookup:
  "stack_lookup (stack sample_state) n =
     (if n = ''x'' then Some (default_symbol\<lparr>sy_is_const := True\<rparr>)
      else if n = ''f'' then Some (default_symbol\<lparr>sy_kind := SK_Function, sy_is_async := True\<rparr>) else None)"
  "lookup_current (stack sample_state) n = stack_lookup (stack sample_state) n"
  "\<not> in_await sample_state" "\<not> in_loop sample_state" "stack sample_state \<noteq> []"
  by (simp_all add: sample_state_def scope_lookup_def lookup_current_def new_sema_def)





section \<open>Mistakes in statements\<close>

lemma current_kept:
  assumes "env_kept s t" and "stack s \<noteq> []" and "lookup_current (stack s) x \<noteq> None"
  shows "lookup_current (stack t) x \<noteq> None"
  using assms scope_extends_lookup [of "hd (stack s)" "hd (stack t)" x]
  by (cases "stack s"; cases "stack t") (auto simp: env_kept_def lookup_current_def)

lemma reports_again:
  assumes "lookup_current (stack s) x \<noteq> None"
  shows "reports (var_decl_define l is_const x t) s"
proof -
  have "fst (stack_define x sy (stack s)) = False" for sy
    using assms by (cases "stack s") (auto simp: lookup_current_def scope_define_def split: option.splits)
  then show ?thesis
    unfolding var_decl_define_def define_or_err_def
    by (intro reports_later [OF diag.frame_define_sym]) (simp add: define_sym_def guarded_def reports_err)
qed

lemma reports_no_value:
  "is_const \<Longrightarrow> reports (check_var_inits l is_const is_tl t (VarInit x NoExpr # ds)) s"
  unfolding check_var_inits.simps var_decl_before_def
  by (intro reports_then_first frame_intros) (simp add: guarded_def reports_err)

lemma reports_inits:
  assumes "stack s \<noteq> []" and "lookup_current (stack s) x \<noteq> None"
  shows "reports (check_var_inits l is_const is_tl ty (VarInit x e # ds)) s"
  unfolding check_var_inits.simps case_prod_beta
proof (rule reports_then_later [OF diag.frame_stmt_parts(7)], rule reports_later)
  fix a t r u
  assume before: "var_decl_before l is_const is_tl x e s = Returned a t"
    and init: "(if e = NoExpr then ret (ty, NoExpr) else bind_s (check_expr e) (\<lambda>p.
        bind_s (var_decl_type x e ty (fst p)) (\<lambda>t. ret (t, snd p)))) t = Returned r u"
  have "env_kept s t" using frame_Returned [OF env.frame_stmt_parts(7) before] .
  moreover have "frame env_kept env_thrown (if e = NoExpr then ret (ty, NoExpr) else
      bind_s (check_expr e) (\<lambda>p. bind_s (var_decl_type x e ty (fst p)) (\<lambda>t. ret (t, snd p))))"
    by (intro env.frame_if env.frame_ret env.frame_bind env.frame_check env.frame_stmt_parts)
  then have "env_kept t u" using init by (rule frame_Returned)
  ultimately have "env_kept s u" by (rule env.R_trans)
  then have "lookup_current (stack u) x \<noteq> None" using assms by (rule current_kept)
  then show "reports (then_s (var_decl_define l is_const x (fst r)) (
      bind_s (check_var_inits l is_const is_tl ty ds) (\<lambda>ds'. ret (VarInit x (snd r) # ds')))) u"
    by (intro reports_then_first reports_again frame_intros)
qed (intro frame_intros)

text \<open>
  A variable cannot be declared twice in one scope, nor a constant without a value, nor a
  variable of function type: each such declaration is reported.
\<close>

theorem bad_declaration_reported:
  assumes "stack s \<noteq> []"
    and "lookup_current (stack s) x \<noteq> None \<or> (is_const \<and> e = NoExpr) \<or> te_name te = ''__fn''"
  shows "reports (check_stmt (VarDeclStmt l te is_const is_static is_tl (VarInit x e # ds))) s"
proof (cases "te_name te = ''__fn''")
  case True
  then show ?thesis
    unfolding check_stmt.simps by (simp only: simp_thms if_True) (intro reports_then_first reports_err diag_ret)
next
  case False
  show ?thesis
    unfolding check_stmt.simps if_not_P [OF False]
  proof (rule reports_later, intro frame_intros, rule reports_then_later, intro frame_intros)
    fix ty t u v
    assume "type_from_te te s = Returned ty t" and "var_decl_head l is_tl t = Returned u v"
    then have "env_kept s v"
      using frame_Returned env.frame_requirements(6) env.frame_stmt_parts(6) env.R_trans by metis
    then have "stack v \<noteq> [] \<and> (lookup_current (stack v) x \<noteq> None \<or> (is_const \<and> e = NoExpr))"
      using current_kept assms False by (auto simp: env_kept_def)
    then have "reports (check_var_inits l is_const is_tl ty (VarInit x e # ds)) v"
      using reports_inits reports_no_value by blast
    then show "reports (bind_s (check_var_inits l is_const is_tl ty (VarInit x e # ds))
        (\<lambda>ds'. ret (VarDeclStmt l te is_const is_static is_tl ds'))) v"
      by (rule reports_first) (rule diag_ret)
  qed
qed

lemma bad_declaration_reported_witness:
  "reports (check_stmt (VarDeclStmt here (type_named ''int'') False False False
     [VarInit ''x'' (int_lit 1)])) sample_state"
  by (rule bad_declaration_reported) (simp_all add: sample_state_lookup)

section \<open>Jumps\<close>

text \<open>A \<open>break\<close> or \<open>continue\<close> that no loop, \<open>switch\<close> or lambda of the statement encloses.\<close>

fun exposed_jump :: "stmt \<Rightarrow> bool"
  and exposed_in_arm :: "match_arm \<Rightarrow> bool" where
  "exposed_jump (BreakStmt l lb) = True"
| "exposed_jump (ContinueStmt l lb) = True"
| "exposed_jump (BlockStmt l b) = (\<exists>st\<in>set b. exposed_jump st)"
| "exposed_jump (UnsafeStmt l b) = (\<exists>st\<in>set b. exposed_jump st)"
| "exposed_jump (DeferStmt l b) = (\<exists>st\<in>set b. exposed_jump st)"
| "exposed_jump (LabeledStmt l lb st) = exposed_jump st"
| "exposed_jump (IfStmt l c th el) = (exposed_jump th \<or> exposed_jump el)"
| "exposed_jump (TryCatchStmt l b al ct cv cb) = (exposed_jump b \<or> exposed_jump cb)"
| "exposed_jump (MatchStmt l e arms) = (\<exists>a\<in>set arms. exposed_in_arm a)"
| "exposed_jump st = False"
| "exposed_in_arm (MatchArm p b l) = (\<exists>st\<in>set b. exposed_jump st)"

lemma loop_kept: "frame env_kept env_thrown m \<Longrightarrow> m s = Returned a t \<Longrightarrow> in_loop t = in_loop s"
  by (drule (1) frame_Returned) (simp add: env_kept_def flags_def)

lemma reports_bracket:
  assumes "reports m (enter s)" and "sema_errors (enter s) = sema_errors s"
    and "\<And>t. sema_errors (leave s t) = sema_errors t"
  shows "reports (bracket enter leave m) s"
  using assms by (auto simp: reports_def bracket_def split: outcome.splits)

lemma reports_scoped:
  "(\<And>u. in_loop u = in_loop s \<Longrightarrow> reports m u) \<Longrightarrow> reports (scoped c m) s"
  unfolding scoped_eq by (rule reports_bracket) simp_all

text \<open>Before the part that reports: anything that keeps the loop flag and the diagnostics.\<close>

lemma reports_after:
  assumes "frame env_kept env_thrown m" and "frame diag_grows diag_thrown m"
    and "\<And>a u. in_loop u = in_loop s \<Longrightarrow> reports (f a) u"
  shows "reports (bind_s m f) s"
  by (rule reports_later [OF assms(2)]) (rule assms(3), rule loop_kept [OF assms(1)])

lemma reports_stmts:
  assumes "\<exists>st\<in>set b. \<forall>u. \<not> in_loop u \<longrightarrow> reports (check_stmt st) u" and "\<not> in_loop s"
  shows "reports (check_stmts b) s"
  using assms
proof (induction b arbitrary: s)
  case (Cons st b)
  show ?case
  proof (cases "\<forall>u. \<not> in_loop u \<longrightarrow> reports (check_stmt st) u")
    case True
    then show ?thesis using Cons.prems(2)
      unfolding check_stmts.simps by (intro reports_first [of "check_stmt st"] frame_intros) simp
  next
    case False
    then have "reports (check_stmts b) u" if "in_loop u = in_loop s" for u
      using Cons.IH [of u] Cons.prems that by auto
    then show ?thesis
      unfolding check_stmts.simps
      by (intro reports_after [of "check_stmt st"] reports_first [of "check_stmts b"] frame_intros)
  qed
qed simp

lemma reports_arms:
  assumes "\<exists>a\<in>set arms. case a of MatchArm p b l \<Rightarrow> \<forall>u. \<not> in_loop u \<longrightarrow> reports (check_stmts b) u"
    and "\<not> in_loop s"
  shows "reports (check_arms arms) s"
  using assms
proof (induction arms arbitrary: s)
  case (Cons a arms)
  obtain p b l where a: "a = MatchArm p b l" by (cases a)
  show ?case
  proof (cases "\<forall>u. \<not> in_loop u \<longrightarrow> reports (check_stmts b) u")
    case True
    then have "reports (scoped False (then_s (bind_arm p) (check_stmts b))) u" if "in_loop u = in_loop s" for u
      using that Cons.prems(2) unfolding then_s_def
      by (intro reports_scoped reports_after [of "bind_arm p"] frame_intros) simp
    then show ?thesis
      unfolding a check_arms.simps then_s_def [of "check_arm_pattern p l"]
      by (intro reports_after [of "check_arm_pattern p l"] reports_first [of "scoped False _"] frame_intros)
  next
    case False
    then have "reports (check_arms arms) u" if "in_loop u = in_loop s" for u
      using Cons.IH [of u] Cons.prems that a by auto
    then show ?thesis
      unfolding a check_arms.simps then_s_def [of "check_arm_pattern p l"]
      by (intro reports_after [of "check_arm_pattern p l"] reports_after [of "scoped False _"]
          reports_first [of "check_arms arms"] frame_intros) simp
  qed
qed simp

lemma reports_if:
  assumes "(\<forall>u. in_loop u = in_loop s \<longrightarrow> reports (check_stmt th) u) \<or>
    el \<noteq> NoStmt \<and> (\<forall>u. in_loop u = in_loop s \<longrightarrow> reports (check_stmt el) u)"
  shows "reports (check_stmt (IfStmt l c th el)) s"
  using assms
proof
  assume "\<forall>u. in_loop u = in_loop s \<longrightarrow> reports (check_stmt th) u"
  then show ?thesis
    unfolding check_stmt.simps case_prod_beta then_s_def
    by (intro reports_after [of "check_expr c"] reports_after [of "require_bool _ _ _"]
        reports_first [of "check_stmt th"] frame_intros) simp
next
  assume el: "el \<noteq> NoStmt \<and> (\<forall>u. in_loop u = in_loop s \<longrightarrow> reports (check_stmt el) u)"
  then show ?thesis
    unfolding check_stmt.simps case_prod_beta then_s_def if_not_P [OF conjunct1 [OF el]]
    by (intro reports_after [of "check_expr c"] reports_after [of "require_bool _ _ _"]
        reports_after [of "check_stmt th"] reports_first [of "check_stmt el"] frame_intros) simp
qed

lemma reports_try:
  assumes "(\<forall>u. in_loop u = in_loop s \<longrightarrow> reports (check_stmt b) u) \<or>
    (\<forall>u. in_loop u = in_loop s \<longrightarrow> reports (check_stmt cb) u)"
  shows "reports (check_stmt (TryCatchStmt l b al ct cv cb)) s"
  using assms
proof
  assume "\<forall>u. in_loop u = in_loop s \<longrightarrow> reports (check_stmt b) u"
  then show ?thesis
    unfolding check_stmt.simps by (intro reports_first [of "check_stmt b"] frame_intros) simp
next
  assume "\<forall>u. in_loop u = in_loop s \<longrightarrow> reports (check_stmt cb) u"
  then show ?thesis
    unfolding check_stmt.simps then_s_def
    by (intro reports_after [of "check_stmt b"] reports_first [of "scoped False _"] reports_scoped
        reports_after [of "catch_symbol _ _ _"] frame_intros) simp
qed



end
