(* ===== verification/Printer.thy ===== *)
theory Printer
  imports Driver
begin

text \<open>
  The AST printer of \<^verbatim>\<open>src/ast/printer.hpp\<close>: a visitor with an output stream and an indentation
  level. Each \<open>visit\<close> is a program on that state; following a null pointer is \<open>NullDeref\<close>. The
  stream inserters the code uses on numbers are modelled: \<open>long long\<close> in decimal, \<open>double\<close> in the
  default format of an \<open>ostream\<close> (\<open>%g\<close> with six significant digits).
\<close>

section \<open>Inserting numbers\<close>

definition trim_zeros :: "string \<Rightarrow> string" where
  "trim_zeros s = rev (dropWhile (\<lambda>c. c = CHR ''0'') (rev s))"

definition with_point :: "string \<Rightarrow> string \<Rightarrow> string" where
  "with_point whole frac = (if frac = [] then whole else whole @ ''.'' @ frac)"

text \<open>\<open>n / d\<close> rounded to a natural number, ties to even.\<close>

definition round_div :: "nat \<Rightarrow> nat \<Rightarrow> nat" where
  "round_div n d =
     (let q = n div d; r = n mod d in if d < 2 * r \<or> (2 * r = d \<and> odd q) then q + 1 else q)"

text \<open>The least \<open>k\<close> with \<open>d \<le> n * 10 ^ k\<close>, at most \<open>fuel\<close>; the smallest double needs 324.\<close>

primrec shift_up :: "nat \<Rightarrow> nat \<Rightarrow> nat \<Rightarrow> nat" where
  "shift_up 0 n d = 0"
| "shift_up (Suc fuel) n d = (if d \<le> n then 0 else Suc (shift_up fuel (10 * n) d))"

definition decimal_exponent :: "nat \<Rightarrow> nat \<Rightarrow> int" where
  "decimal_exponent n d =
     (if d \<le> n then int (length (show_nat (n div d))) - 1 else - int (shift_up 400 n d))"

text \<open>The six significant digits of \<open>n / d\<close>, as a number below \<open>10 ^ 6\<close>, and the exponent.\<close>

definition six_digits :: "nat \<Rightarrow> nat \<Rightarrow> nat \<times> int" where
  "six_digits n d =
     (let x = decimal_exponent n d;
          m = (if 5 < x then round_div n (d * 10 ^ nat (x - 5)) else round_div (n * 10 ^ nat (5 - x)) d)
      in if m = 10 ^ 6 then (10 ^ 5, x + 1) else (m, x))"

definition show_exponent :: "int \<Rightarrow> string" where
  "show_exponent x =
     ''e'' @ (if x < 0 then ''-'' else ''+'') @
     (if abs x < 10 then ''0'' else []) @ show_nat (nat (abs x))"

definition show_positive :: "nat \<Rightarrow> nat \<Rightarrow> string" where
  "show_positive n d =
     (let (m, x) = six_digits n d; ds = show_nat m
      in if - 4 \<le> x \<and> x < 6 then
           (if 0 \<le> x then with_point (take (nat x + 1) ds) (trim_zeros (drop (nat x + 1) ds))
            else with_point ''0'' (replicate (nat (- x - 1)) (CHR ''0'') @ trim_zeros ds))
         else with_point (take 1 ds) (trim_zeros (drop 1 ds)) @ show_exponent x)"

definition double_sign :: "f64_bits \<Rightarrow> string" where
  "double_sign b = (if bit b 63 then ''-'' else [])"

definition show_double :: "f64_bits \<Rightarrow> string" where
  "show_double b =
     (let e = unat (take_bit 11 (drop_bit 52 b)); m = unat (take_bit 52 b)
      in double_sign b @
         (if e = 2047 then (if m = 0 then ''inf'' else ''nan'')
          else if e = 0 \<and> m = 0 then ''0''
          else if e = 0 then show_positive m (2 ^ 1074)
          else if 1075 \<le> e then show_positive ((2 ^ 52 + m) * 2 ^ (e - 1075)) 1
          else show_positive (2 ^ 52 + m) (2 ^ (1075 - e))))"

definition show_i64 :: "i64 \<Rightarrow> string" where
  "show_i64 v = show_int (sint v)"

section \<open>State\<close>

record printer =
  pr_out :: string
  pr_indent :: nat

type_synonym printing = "(printer, unit) prog"

definition emit :: "string \<Rightarrow> printing" where
  "emit s = modify (\<lambda>p. p\<lparr>pr_out := pr_out p @ s\<rparr>)"

definition pad :: printing where
  "pad = modify (\<lambda>p. p\<lparr>pr_out := pr_out p @ replicate (2 * pr_indent p) (CHR '' '')\<rparr>)"

definition indent :: printing where
  "indent = modify (\<lambda>p. p\<lparr>pr_indent := pr_indent p + 1\<rparr>)"

definition dedent :: printing where
  "dedent = modify (\<lambda>p. p\<lparr>pr_indent := pr_indent p - 1\<rparr>)"

primrec in_order :: "printing list \<Rightarrow> printing" where
  "in_order [] = ret ()"
| "in_order (m # ms) = then_s m (in_order ms)"

definition indented :: "printing \<Rightarrow> printing" where
  "indented m = in_order [indent, m, dedent]"

definition dquote :: string where
  "dquote = [CHR 0x22]"

text \<open>The names of a list with \<open>, \<close> between them.\<close>

definition emit_names :: "string list \<Rightarrow> printing" where
  "emit_names ns = emit (join_with '', '' ns)"

definition emit_params :: "param list \<Rightarrow> printing" where
  "emit_params ps = emit_names (map (\<lambda>p. te_name (param_type p) @ '' '' @ param_name p) ps)"

definition escape_char :: "char \<Rightarrow> string" where
  "escape_char c =
     (if c = CHR 0x22 then [CHR 0x5C, CHR 0x22]
      else if c = CHR 0x5C then [CHR 0x5C, CHR 0x5C]
      else if c = CHR 0x0A then [CHR 0x5C, CHR ''n'']
      else if c = CHR 0x09 then [CHR 0x5C, CHR ''t'']
      else [c])"

definition show_bool :: "bool \<Rightarrow> string" where
  "show_bool b = (if b then ''true'' else ''false'')"

definition show_pattern :: "match_pattern \<Rightarrow> string" where
  "show_pattern p = (case pat_kind p of
       Wildcard \<Rightarrow> ''_''
     | EnumVariantPat \<Rightarrow> pat_enum_name p @ ''.'' @ pat_variant_name p
     | IntLitPat \<Rightarrow> show_i64 (pat_int_value p)
     | BoolLitPat \<Rightarrow> show_bool (pat_bool_value p)
     | StrLitPat \<Rightarrow> dquote @ concat (map escape_char (pat_str_value p)) @ dquote)"

definition show_label :: "string option \<Rightarrow> string" where
  "show_label lb = (case lb of None \<Rightarrow> [] | Some x \<Rightarrow> '' &'' @ x)"

definition show_catch :: "bool \<Rightarrow> type_expr option \<Rightarrow> string option \<Rightarrow> string" where
  "show_catch catch_all ct cv =
     (if catch_all then '' ...''
      else case ct of
        Some te \<Rightarrow> '' ('' @ te_name te @ (case cv of Some x \<Rightarrow> '' '' @ x | None \<Rightarrow> []) @ '')''
      | None \<Rightarrow> [])"

section \<open>Expressions and statements\<close>

fun print_expr :: "expr \<Rightarrow> printing"
  and print_args :: "bool \<Rightarrow> expr list \<Rightarrow> printing"
  and print_pairs :: "bool \<Rightarrow> dict_entry list \<Rightarrow> printing"
  and print_stmt :: "stmt \<Rightarrow> printing"
  and print_stmts :: "stmt list \<Rightarrow> printing"
  and print_var_inits :: "bool \<Rightarrow> var_init list \<Rightarrow> printing"
  and print_switch_cases :: "switch_case list \<Rightarrow> printing"
  and print_arms :: "match_arm list \<Rightarrow> printing" where
  "print_expr NoExpr = null_deref"
| "print_expr (IntLitExpr l t v) = emit (show_i64 v)"
| "print_expr (LongLitExpr l t v) = emit (show_i64 v @ ''l'')"
| "print_expr (FloatLitExpr l t v) = emit (show_double v)"
| "print_expr (RealLitExpr l t v) = emit (show_double v @ ''f'')"
| "print_expr (BoolLitExpr l t v) = emit (show_bool v)"
| "print_expr (NullLitExpr l t) = emit ''null''"
| "print_expr (ThisExpr l t) = emit ''this''"
| "print_expr (SuperExpr l t) = emit ''super''"
| "print_expr (IdentExpr l t x) = emit x"
| "print_expr (StringLitExpr l t v) = emit (dquote @ v @ dquote)"
| "print_expr (BinaryExpr l t op a b) =
     in_order [emit ''('', print_expr a, emit ('' '' @ op @ '' ''), print_expr b, emit '')'']"
| "print_expr (UnaryExpr l t op a prefixed) =
     (if prefixed then in_order [emit op, print_expr a] else in_order [print_expr a, emit op])"
| "print_expr (AssignExpr l t op a b) =
     in_order [print_expr a, emit ('' '' @ op @ '' ''), print_expr b]"
| "print_expr (CallExpr l t f as) =
     in_order [print_expr f, emit ''('', print_args True as, emit '')'']"
| "print_expr (MemberExpr l t a m) = in_order [print_expr a, emit (''.'' @ m)]"
| "print_expr (IndexExpr l t a b) = in_order [print_expr a, emit ''['', print_expr b, emit '']'']"
| "print_expr (NewExpr l t te as) =
     in_order [emit (''new '' @ te_name te @ ''(''), print_args True as, emit '')'']"
| "print_expr (ListExpr l t es) = in_order [emit ''['', print_args True es, emit '']'']"
| "print_expr (DictExpr l t ps) = in_order [emit ''{'', print_pairs True ps, emit ''}'']"
| "print_expr (LambdaExpr l t ps b cs r i) =
     in_order [emit ''fn('', emit_params ps, emit '') => '',
       if b = NoStmt then ret () else print_stmt b]"
| "print_expr (AwaitExpr l t a) =
     in_order [emit ''await '', if a = NoExpr then ret () else print_expr a]"
| "print_args first [] = ret ()"
| "print_args first (e # es) =
     in_order [if first then ret () else emit '', '', print_expr e, print_args False es]"
| "print_pairs first [] = ret ()"
| "print_pairs first (DictEntry k v # ps) =
     in_order [if first then ret () else emit '', '', print_expr k, emit '': '', print_expr v,
       print_pairs False ps]"
| "print_stmt NoStmt = null_deref"
| "print_stmt (BlockStmt l b) =
     in_order [pad, emit (''{'' @ newline), indented (print_stmts b), pad, emit (''}'' @ newline)]"
| "print_stmt (ExprStmt l e) = in_order [pad, print_expr e, emit newline]"
| "print_stmt (VarDeclStmt l te is_const is_static is_tl ds) =
     in_order [pad, if is_const then emit ''const '' else ret (), emit (te_name te),
       print_var_inits True ds, emit newline]"
| "print_stmt (IfStmt l c th el) =
     in_order [pad, emit ''if ('', print_expr c, emit ('')'' @ newline), indented (print_stmt th),
       if el = NoStmt then ret ()
       else in_order [pad, emit (''else'' @ newline), indented (print_stmt el)]]"
| "print_stmt (WhileStmt l lb c b) =
     in_order [pad, case lb of None \<Rightarrow> ret () | Some x \<Rightarrow> emit (''&'' @ x @ '' ''), emit ''while ('',
       print_expr c, emit ('')'' @ newline), indented (print_stmt b)]"
| "print_stmt (DoWhileStmt l b c) =
     in_order [pad, emit (''do'' @ newline), indented (print_stmt b), pad, emit ''while ('',
       print_expr c, emit ('')'' @ newline)]"
| "print_stmt (ForInStmt l te x e b) =
     in_order [pad, emit (''for '' @ te_name te @ '' '' @ x @ '' in ''), print_expr e, emit newline,
       indented (print_stmt b)]"
| "print_stmt (ForCStmt l te x i c n b) =
     in_order [pad, emit (''for '' @ te_name te @ '' '' @ x @ '' = ''), print_expr i, emit '', '',
       print_expr c, emit '', '', print_expr n, emit newline, indented (print_stmt b)]"
| "print_stmt (SwitchStmt l e cs) =
     in_order [pad, emit ''switch ('', print_expr e, emit ('') {'' @ newline),
       indented (print_switch_cases cs), pad, emit (''}'' @ newline)]"
| "print_stmt (MatchStmt l e arms) =
     in_order [pad, emit ''match ('', print_expr e, emit ('') {'' @ newline),
       indented (print_arms arms), pad, emit (''}'' @ newline)]"
| "print_stmt (TryCatchStmt l b al ct cv cb) =
     in_order [pad, emit (''try'' @ newline), indented (print_stmt b), pad, emit ''catch'',
       emit (show_catch al ct cv), emit newline, indented (print_stmt cb)]"
| "print_stmt (ReturnStmt l v) =
     in_order [pad, emit ''return'',
       case v of None \<Rightarrow> ret () | Some e \<Rightarrow> in_order [emit '' '', print_expr e], emit newline]"
| "print_stmt (BreakStmt l lb) = in_order [pad, emit (''break'' @ show_label lb), emit newline]"
| "print_stmt (ContinueStmt l lb) = in_order [pad, emit (''continue'' @ show_label lb), emit newline]"
| "print_stmt (AssertStmt l e) = in_order [pad, emit ''assert('', print_expr e, emit ('')'' @ newline)]"
| "print_stmt (DeleteStmt l e) = in_order [pad, emit ''delete '', print_expr e, emit newline]"
| "print_stmt (LabeledStmt l lb st) = in_order [pad, emit (''&'' @ lb @ '' ''), print_stmt st]"
| "print_stmt (DeferStmt l b) =
     in_order [pad, emit (''defer {'' @ newline), indented (print_stmts b), pad, emit (''}'' @ newline)]"
| "print_stmt (ThrowStmt l e) = in_order [pad, emit ''throw '', print_expr e, emit newline]"
| "print_stmt (UnsafeStmt l b) =
     in_order [pad, emit (''unsafe {'' @ newline), indented (print_stmts b), pad, emit (''}'' @ newline)]"
| "print_stmts [] = ret ()"
| "print_stmts (st # sts) = in_order [print_stmt st, print_stmts sts]"
| "print_var_inits first [] = ret ()"
| "print_var_inits first (VarInit x e # ds) =
     in_order [if first then ret () else emit '','', emit ('' '' @ x),
       if e = NoExpr then ret () else in_order [emit '' = '', print_expr e], print_var_inits False ds]"
| "print_switch_cases [] = ret ()"
| "print_switch_cases (SwitchCase v b # cs) =
     in_order [pad,
       case v of Some e \<Rightarrow> in_order [emit ''case '', print_expr e, emit ('':'' @ newline)]
       | None \<Rightarrow> emit (''default:'' @ newline),
       indented (print_stmts b), print_switch_cases cs]"
| "print_arms [] = ret ()"
| "print_arms (MatchArm p b l # arms) =
     in_order [pad, emit (show_pattern p), emit ('' => {'' @ newline), indented (print_stmts b), pad,
       emit (''}'' @ newline), print_arms arms]"

section \<open>Declarations\<close>

definition access_str :: "access_mod \<Rightarrow> string" where
  "access_str m = (case m of
       AccessPublic \<Rightarrow> ''public''
     | AccessPrivate \<Rightarrow> ''private''
     | AccessProtected \<Rightarrow> ''protected''
     | AccessNone \<Rightarrow> [])"

definition emit_type_params :: "string list \<Rightarrow> printing" where
  "emit_type_params tps =
     (if tps = [] then ret () else in_order [emit ''<'', emit_names tps, emit ''>''])"

definition print_function :: "function_decl \<Rightarrow> printing" where
  "print_function f = in_order [pad,
     if f_is_dtor f then emit ''~'' else ret (),
     if \<not> f_is_ctor f \<and> \<not> f_is_dtor f then emit (te_name (f_return_type f) @ '' '') else ret (),
     emit (f_name f),
     emit_type_params (f_type_params f),
     emit ''('', emit_params (f_params f), emit '')'',
     case f_modifier f of None \<Rightarrow> ret () | Some md \<Rightarrow> emit ('' '' @ md),
     case f_body f of
       Some (l, b) \<Rightarrow> in_order [emit newline, indented (print_stmt (BlockStmt l b))]
     | None \<Rightarrow> emit newline]"

definition print_field :: "field_decl \<Rightarrow> printing" where
  "print_field fd = in_order [pad, emit (te_name (fd_type fd) @ '' '' @ fd_name fd),
     case fd_init fd of None \<Rightarrow> ret () | Some e \<Rightarrow> in_order [emit '' = '', print_expr e],
     emit newline]"

definition show_base :: "base_class \<Rightarrow> string" where
  "show_base b =
     (if base_access b \<noteq> AccessNone then access_str (base_access b) @ '' '' else []) @ base_name b"

definition print_import :: "import_decl \<Rightarrow> printing" where
  "print_import im =
     (let renamed = (if im_alias im \<noteq> [] then '' as '' @ im_alias im else [])
      in if im_global_scope im then
           in_order [pad, emit ''import { '', emit_names (im_symbols im),
             emit ('' } from '' @ im_path im @ newline)]
         else if im_symbols im \<noteq> [] then
           in_order [pad, emit (''import '' @ im_path im @ ''::{''), emit_names (im_symbols im),
             emit ''}'', emit renamed, emit newline]
         else in_order [pad, emit (''import '' @ im_path im), emit renamed, emit newline])"

definition print_extern :: "extern_decl \<Rightarrow> printing" where
  "print_extern e = in_order [pad,
     emit (''extern '' @ dquote @ ex_abi e @ dquote @ '' '' @ te_name (ex_ret e) @ '' '' @ ex_name e @ ''(''),
     emit_params (ex_params e), emit ('')'' @ newline)]"

definition print_variant :: "enum_variant \<Rightarrow> printing" where
  "print_variant v = in_order [pad, emit (ev_name v),
     if ev_payload v \<noteq> []
     then in_order [emit ''('', emit_names (map te_name (ev_payload v)), emit '')''] else ret (),
     emit newline]"

definition print_enum :: "enum_decl \<Rightarrow> printing" where
  "print_enum e = in_order [pad, emit (''enum '' @ en_name e @ '' {'' @ newline),
     indented (for_each print_variant (en_variants e)), pad, emit (''}'' @ newline)]"

text \<open>A member without a declaration is an access label, when it has an access.\<close>

fun print_decl :: "decl \<Rightarrow> printing"
  and print_class :: "class_decl \<Rightarrow> printing"
  and print_interface :: "interface_decl \<Rightarrow> printing"
  and print_namespace :: "namespace_decl \<Rightarrow> printing"
  and print_member :: "bool \<Rightarrow> class_member \<Rightarrow> printing"
  and print_members :: "bool \<Rightarrow> class_member list \<Rightarrow> printing"
  and print_decls :: "decl list \<Rightarrow> printing" where
  "print_decl (FunctionDecl f) = print_function f"
| "print_decl (FieldDecl fd) = print_field fd"
| "print_decl (ClassDecl c) = print_class c"
| "print_decl (InterfaceDecl i) = print_interface i"
| "print_decl (ImportDecl im) = print_import im"
| "print_decl (NamespaceDecl n) = print_namespace n"
| "print_decl (ExternDecl e) = print_extern e"
| "print_decl (EnumDecl e) = print_enum e"
| "print_class (MkClass l decos name tps tbs bases ms) =
     in_order [pad, emit (''class '' @ name), emit_type_params tps,
       if bases \<noteq> [] then in_order [emit ''('', emit_names (map show_base bases), emit '')''] else ret (),
       emit ('' {'' @ newline), indented (print_members True ms), pad, emit (''}'' @ newline)]"
| "print_interface (MkInterface l name ms) =
     in_order [pad, emit (''interface '' @ name @ '' {'' @ newline),
       indented (print_members False ms), pad, emit (''}'' @ newline)]"
| "print_namespace (MkNamespace l name ds sts is_package) =
     (if is_package then in_order [pad, emit (''namespace '' @ name @ newline)]
      else in_order [pad, emit (''namespace '' @ name @ '' {'' @ newline),
        indented (in_order [print_decls ds, print_stmts sts]), pad, emit (''}'' @ newline)])"
| "print_member labels (MkMember a decos d) = (case d of
       None \<Rightarrow> if labels \<and> a \<noteq> AccessNone
               then in_order [pad, emit (access_str a @ '':'' @ newline)] else ret ()
     | Some d \<Rightarrow> print_decl d)"
| "print_members labels [] = ret ()"
| "print_members labels (m # ms) = in_order [print_member labels m, print_members labels ms]"
| "print_decls [] = ret ()"
| "print_decls (d # ds) = in_order [print_decl d, print_decls ds]"

definition print_program :: "program \<Rightarrow> printing" where
  "print_program p = in_order [print_decls (prog_decls p), print_stmts (prog_stmts p)]"

definition new_printer :: printer where
  "new_printer = \<lparr>pr_out = [], pr_indent = 0\<rparr>"

end
