(* ===== verification/Printer_Properties.thy ===== *)
theory Printer_Properties
  imports Printer Ast_Shapes
begin

text \<open>
  What the printer promises: on the trees a parser builds it ends, it only appends to its stream,
  and the text is a function of the tree without its annotations and of the indentation; numbers
  are printed without loss. It does not escape string literals, so the text does not determine
  the tree.
\<close>

section \<open>Writing\<close>

text \<open>\<open>writes m\<close>: \<open>m\<close> returns, appends a text that depends on the indentation only, and restores it.\<close>

definition writes :: "printing \<Rightarrow> bool" where
  "writes m \<longleftrightarrow> (\<exists>f. \<forall>p. m p = Returned () (p\<lparr>pr_out := pr_out p @ f (pr_indent p)\<rparr>))"

named_theorems writes_intros \<open>programs that only write\<close>

lemma writes_emit [writes_intros]: "writes (emit s)"
  unfolding writes_def by (rule exI [of _ "\<lambda>_. s"]) (simp add: emit_def modify_def)

lemma writes_pad [writes_intros]: "writes pad"
  unfolding writes_def
  by (rule exI [of _ "\<lambda>n. replicate (2 * n) (CHR '' '')"]) (simp add: pad_def modify_def)

lemma writes_ret [writes_intros]: "writes (ret ())"
  unfolding writes_def by (rule exI [of _ "\<lambda>_. []"]) (simp add: ret_def)

lemma writes_then [writes_intros]:
  assumes "writes m" and "writes k"
  shows "writes (then_s m k)"
proof -
  obtain f g where "\<forall>p. m p = Returned () (p\<lparr>pr_out := pr_out p @ f (pr_indent p)\<rparr>)"
    and "\<forall>p. k p = Returned () (p\<lparr>pr_out := pr_out p @ g (pr_indent p)\<rparr>)"
    using assms by (auto simp: writes_def)
  then show ?thesis
    unfolding writes_def by (intro exI [of _ "\<lambda>n. f n @ g n"]) (simp add: then_s_def bind_s_def)
qed

lemma writes_in_order [writes_intros]: "(\<forall>m\<in>set ms. writes m) \<Longrightarrow> writes (in_order ms)"
  by (induction ms) (simp_all add: writes_ret writes_then)

lemma writes_indented [writes_intros]:
  assumes "writes m"
  shows "writes (indented m)"
proof -
  obtain f where "\<forall>p. m p = Returned () (p\<lparr>pr_out := pr_out p @ f (pr_indent p)\<rparr>)"
    using assms by (auto simp: writes_def)
  then show ?thesis
    unfolding writes_def
    by (intro exI [of _ "\<lambda>n. f (n + 1)"])
      (simp add: indented_def indent_def dedent_def then_s_def bind_s_def modify_def ret_def)
qed

lemma writes_for_each [writes_intros]: "(\<And>x. writes (f x)) \<Longrightarrow> writes (for_each f xs)"
  by (induction xs) (simp_all add: writes_ret writes_then)

lemma writes_if [writes_intros]: "(b \<Longrightarrow> writes m) \<Longrightarrow> (\<not> b \<Longrightarrow> writes k) \<Longrightarrow> writes (if b then m else k)"
  by simp

lemma writes_option [writes_intros]:
  "(x = None \<Longrightarrow> writes m) \<Longrightarrow> (\<And>a. x = Some a \<Longrightarrow> writes (f a)) \<Longrightarrow>
   writes (case x of None \<Rightarrow> m | Some a \<Rightarrow> f a)"
  by (cases x) simp_all

lemma writes_names [writes_intros]: "writes (emit_names ns)" "writes (emit_params ps)"
    "writes (emit_type_params tps)"
  unfolding emit_names_def emit_params_def emit_type_params_def
  by (auto intro!: writes_intros)

section \<open>Expressions and statements\<close>

lemma writes_print:
  shows "wf_expr e \<Longrightarrow> writes (print_expr e)"
    and "\<forall>e\<in>set es. wf_expr e \<Longrightarrow> writes (print_args first es)"
    and "\<forall>p\<in>set ps. wf_entry p \<Longrightarrow> writes (print_pairs first' ps)"
    and "wf_stmt st \<Longrightarrow> writes (print_stmt st)"
    and "\<forall>st\<in>set sts. wf_stmt st \<Longrightarrow> writes (print_stmts sts)"
    and "\<forall>d\<in>set ds. wf_init d \<Longrightarrow> writes (print_var_inits first'' ds)"
    and "\<forall>c\<in>set cs. wf_case c \<Longrightarrow> writes (print_switch_cases cs)"
    and "\<forall>a\<in>set arms. wf_arm a \<Longrightarrow> writes (print_arms arms)"
  by (induction e and first es and first' ps and st and sts and first'' ds and cs and arms
      rule: print_expr_print_args_print_pairs_print_stmt_print_stmts_print_var_inits_print_switch_cases_print_arms.induct)
    (auto intro!: writes_intros split: option.splits)

lemma print_erase:
  shows "print_expr (erase e) = print_expr e"
    and "print_args first (map erase es) = print_args first es"
    and "print_pairs first' (map erase_entry ps) = print_pairs first' ps"
    and "print_stmt (erase_stmt st) = print_stmt st"
    and "print_stmts (map erase_stmt sts) = print_stmts sts"
    and "print_var_inits first'' (map erase_init ds) = print_var_inits first'' ds"
    and "print_switch_cases (map erase_case cs) = print_switch_cases cs"
    and "print_arms (map erase_arm arms) = print_arms arms"
proof (induction e and first es and first' ps and st and sts and first'' ds and cs and arms
      rule: print_expr_print_args_print_pairs_print_stmt_print_stmts_print_var_inits_print_switch_cases_print_arms.induct)
qed (simp_all cong: option.case_cong split: option.split)

section \<open>Declarations\<close>

lemma writes_function [writes_intros]: "wf_func f \<Longrightarrow> writes (print_function f)"
  unfolding print_function_def wf_func_def wf_stmts_def
  by (auto intro!: writes_intros writes_print simp del: print_stmt.simps split: option.splits)

lemma writes_field [writes_intros]: "wf_field fd \<Longrightarrow> writes (print_field fd)"
  unfolding print_field_def wf_field_def
  by (auto intro!: writes_intros writes_print split: option.splits)

lemma writes_simple_decls [writes_intros]:
  "writes (print_import im)" "writes (print_extern x)" "writes (print_variant v)" "writes (print_enum en)"
  unfolding print_import_def print_extern_def print_variant_def print_enum_def Let_def
  by (auto intro!: writes_intros)

lemma writes_decls:
  shows "wf_decl d \<Longrightarrow> writes (print_decl d)"
    and "wf_decl (ClassDecl c) \<Longrightarrow> writes (print_class c)"
    and "wf_decl (InterfaceDecl i) \<Longrightarrow> writes (print_interface i)"
    and "wf_decl (NamespaceDecl n) \<Longrightarrow> writes (print_namespace n)"
    and "wf_member m \<Longrightarrow> writes (print_member labels m)"
    and "\<forall>m\<in>set ms. wf_member m \<Longrightarrow> writes (print_members labels' ms)"
    and "\<forall>d\<in>set ds. wf_decl d \<Longrightarrow> writes (print_decls ds)"
  by (induction d and c and i and n and labels m and labels' ms and ds
      rule: print_decl_print_class_print_interface_print_namespace_print_member_print_members_print_decls.induct)
    (auto intro!: writes_intros writes_print simp: wf_stmts_def split: option.splits)

lemma print_erase_decls:
  shows "print_decl (erase_decl d) = print_decl d"
    and "(\<And>c'. erase_decl (ClassDecl c) = ClassDecl c' \<Longrightarrow> print_class c' = print_class c)"
    and "(\<And>i'. erase_decl (InterfaceDecl i) = InterfaceDecl i' \<Longrightarrow> print_interface i' = print_interface i)"
    and "(\<And>n'. erase_decl (NamespaceDecl n) = NamespaceDecl n' \<Longrightarrow> print_namespace n' = print_namespace n)"
    and "print_member labels (erase_member m) = print_member labels m"
    and "print_members labels' (map erase_member ms) = print_members labels' ms"
    and "print_decls (map erase_decl ds) = print_decls ds"
proof (induction d and c and i and n and labels m and labels' ms and ds
    rule: print_decl_print_class_print_interface_print_namespace_print_member_print_members_print_decls.induct)
  case (3 c)
  then show ?case by (cases c) simp
next
  case (6 n)
  then show ?case by (cases n) simp
qed (auto simp: print_erase print_function_def print_field_def erase_func_def erase_field_def
    split: option.split)

text \<open>
  Printing a program a parser built ends without following a null pointer, appends to the
  stream, restores the indentation, and the text depends on nothing but the program and the
  indentation; annotations do not matter, so printing before or after the checker is the same.
\<close>

theorem printing_is_a_function_of_the_program:
  assumes "wf_program p"
  shows "(\<exists>txt. \<forall>pr. print_program p pr = Returned () (pr\<lparr>pr_out := pr_out pr @ txt (pr_indent pr)\<rparr>)) \<and>
    (\<forall>q. erase_program q = erase_program p \<longrightarrow> print_program q = print_program p)"
proof -
  have "writes (print_program p)"
    using assms unfolding print_program_def wf_program_def wf_stmts_def
    by (auto intro!: writes_intros writes_decls writes_print)
  moreover have "print_program (erase_program q) = print_program q" for q
    by (simp add: print_program_def erase_program_def print_erase print_erase_decls)
  then have "print_program q = print_program p" if "erase_program q = erase_program p" for q
    using that by metis
  ultimately show ?thesis unfolding writes_def by blast
qed

definition sample_program :: program where
  "sample_program = \<lparr>prog_decls = [], prog_stmts =
     [BlockStmt (SourceLoc [] 1 1) [BreakStmt (SourceLoc [] 2 3) None]]\<rparr>"

lemma printing_is_a_function_of_the_program_witness:
  "\<exists>txt. print_program sample_program new_printer = Returned () (new_printer\<lparr>pr_out := txt\<rparr>)"
proof -
  have "wf_program sample_program" by (simp add: wf_program_def wf_stmts_def sample_program_def)
  from printing_is_a_function_of_the_program [OF this] obtain t where
    "\<forall>pr. print_program sample_program pr = Returned () (pr\<lparr>pr_out := pr_out pr @ t (pr_indent pr)\<rparr>)"
    by blast
  then have "print_program sample_program new_printer = Returned () (new_printer\<lparr>pr_out := t 0\<rparr>)"
    by (simp add: new_printer_def)
  then show ?thesis by blast
qed

section \<open>Numbers\<close>

text \<open>Reading back a decimal numeral.\<close>

definition digit_value :: "char \<Rightarrow> nat" where
  "digit_value c = of_char c - 48"

definition read_nat :: "string \<Rightarrow> nat" where
  "read_nat s = foldl (\<lambda>n c. 10 * n + digit_value c) 0 s"

definition read_int :: "string \<Rightarrow> int" where
  "read_int s = (if s \<noteq> [] \<and> hd s = CHR ''-'' then - int (read_nat (tl s)) else int (read_nat s))"

lemma digit_value_char: "n < 10 \<Longrightarrow> digit_value (char_of (48 + n)) = n"
  by (simp add: digit_value_def)

lemma read_show_nat: "read_nat (show_nat n) = n"
proof (induction n rule: show_nat.induct)
  case (1 n)
  then show ?case
    using digit_value_char [of n] digit_value_char [of "n mod 10"]
    by (subst show_nat.simps) (simp add: read_nat_def)
qed

lemma show_nat_digits: "c \<in> set (show_nat n) \<Longrightarrow> c \<noteq> CHR ''-''"
proof (induction n rule: show_nat.induct)
  case (1 n)
  have digit: "char_of (48 + k) \<noteq> CHR ''-''" if "k < 10" for k :: nat
    using that by (auto dest: arg_cong [where f = "of_char :: char \<Rightarrow> nat"])
  show ?case
    using 1 digit [of n] digit [of "n mod 10"] by (subst (asm) (2) show_nat.simps) (cases "n < 10"; auto)
qed

lemma read_show_int: "read_int (show_int i) = i"
proof -
  have "hd (show_nat n) \<noteq> CHR ''-''" for n
    using show_nat_digits [of "hd (show_nat n)" n] show_nat_nonempty by auto
  then show ?thesis by (simp add: read_int_def show_int_def read_show_nat show_nat_nonempty)
qed

text \<open>
  Integer literals are printed without loss: the text of a 64-bit literal is the decimal
  numeral of its signed value, which reads back to it, so different values print differently.
\<close>

theorem integer_literals_round_trip:
  "read_int (show_i64 v) = sint v \<and> (show_i64 v = show_i64 w \<longleftrightarrow> v = w)"
  unfolding show_i64_def using read_show_int by (metis signed_word_eqI)

text \<open>
  String literals are printed as they are, quotes included, so the printed text does not
  determine the tree: a call with one string argument and a call with two can print the same.
\<close>

theorem strings_are_not_escaped:
  "print_expr (CallExpr l t (IdentExpr l t f) [StringLitExpr l t ([CHR ''a''] @ dquote @ '', '' @ dquote @ ''b'')]) =
   print_expr (CallExpr l t (IdentExpr l t f) [StringLitExpr l t ''a'', StringLitExpr l t ''b''])"
  by (rule ext) (simp add: emit_def then_s_def bind_s_def modify_def ret_def dquote_def)

end
