(* ===== verification/Repl.thy ===== *)
theory Repl
  imports Dux_Prelude Loops
begin

text \<open>
  The read-eval-print loop of \<^verbatim>\<open>src/repl/repl.cpp\<close>, in the build without a line-editing library.
  The state is the two accumulated contexts, the two sequence numbers of the temporary files and
  the text on standard output. What the loop runs is outside the program: the compiler process,
  the compiled program and the file system are the functions of a \<open>toolchain\<close>.
\<close>

section \<open>State and environment\<close>

text \<open>
  \<open>run_compiler path source\<close> is the status and output of the compiler on that file (\<open>None\<close>: the
  pipe cannot be opened), \<open>run_program\<close> the exit status of the result (\<open>None\<close>: killed by a signal).
\<close>

record toolchain =
  can_write :: "string \<Rightarrow> bool"
  run_compiler :: "string \<Rightarrow> string \<Rightarrow> (int \<times> string) option"
  run_program :: "string \<Rightarrow> string \<Rightarrow> int option"

record repl =
  temp_dir :: string
  context_decls :: "string list"
  context_stmts :: "string list"
  run_seq :: nat
  verify_seq :: nat
  repl_out :: string

definition new_repl :: "string \<Rightarrow> repl" where
  "new_repl dir = \<lparr>temp_dir = dir, context_decls = [], context_stmts = [], run_seq = 0,
     verify_seq = 0, repl_out = []\<rparr>"

definition end_line :: string where
  "end_line = [CHR 0x0A]"

definition say :: "string \<Rightarrow> (repl, unit) prog" where
  "say s = modify (\<lambda>r. r\<lparr>repl_out := repl_out r @ s\<rparr>)"

section \<open>Classifying a line\<close>

definition starts_with_kw :: "string \<Rightarrow> string \<Rightarrow> bool" where
  "starts_with_kw line kw \<longleftrightarrow> length kw < length line \<and> take (length kw) line = kw \<and>
     line ! length kw \<in> {CHR '' '', CHR ''<'', CHR 0x09}"

definition is_decl :: "string \<Rightarrow> bool" where
  "is_decl line \<longleftrightarrow> line \<noteq> [] \<and>
     (list_ex (starts_with_kw line)
        [''class'', ''enum'', ''interface'', ''import'', ''namespace'', ''extern''] \<or>
      CHR ''('' \<in> set line \<and> CHR ''{'' \<in> set line \<and>
      list_ex (starts_with_kw line)
        [''void'', ''int'', ''str'', ''bool'', ''long'', ''double'', ''float'', ''auto'', ''fn''])"

text \<open>Trailing blanks, tabs and carriage returns are removed.\<close>

definition strip_line :: "string \<Rightarrow> string" where
  "strip_line s = rev (dropWhile (\<lambda>c. c \<in> {CHR '' '', CHR 0x09, CHR 0x0D}) (rev s))"

section \<open>Building programs\<close>

definition each_line :: "string list \<Rightarrow> string" where
  "each_line ls = concat (map (\<lambda>l. l @ end_line) ls)"

definition build_source :: "string list \<Rightarrow> string list \<Rightarrow> string \<Rightarrow> string" where
  "build_source decls stmts new =
     each_line decls @ ''void main() {'' @ end_line @
     each_line (map (\<lambda>s. ''    '' @ s) stmts) @
     ''    '' @ new @ end_line @ ''}'' @ end_line"

definition decl_source :: "string list \<Rightarrow> string \<Rightarrow> string" where
  "decl_source decls line = each_line decls @ line @ end_line @ ''void main() {}'' @ end_line"

text \<open>\<open>std::getline\<close> until the end, and the first occurrence of the path made anonymous.\<close>

fun split_lines :: "string \<Rightarrow> string \<Rightarrow> string list" where
  "split_lines acc [] = (if acc = [] then [] else [rev acc])"
| "split_lines acc (c # cs) =
     (if c = CHR 0x0A then rev acc # split_lines [] cs else split_lines (c # acc) cs)"

fun replace_first :: "string \<Rightarrow> string \<Rightarrow> string \<Rightarrow> string" where
  "replace_first old new [] = (if old = [] then new else [])"
| "replace_first old new (c # cs) =
     (if take (length old) (c # cs) = old then new @ drop (length old) (c # cs)
      else c # replace_first old new cs)"

definition show_errors :: "string \<Rightarrow> string \<Rightarrow> string" where
  "show_errors path out = each_line (map (replace_first path ''<input>'') (split_lines [] out))"

section \<open>Running\<close>

definition compile_and_run :: "toolchain \<Rightarrow> string \<Rightarrow> (repl, int) prog" where
  "compile_and_run tc source =
     then_s (modify (\<lambda>r. r\<lparr>run_seq := run_seq r + 1\<rparr>)) (
     bind_s (gets (\<lambda>r. temp_dir r @ ''/repl_'' @ show_nat (run_seq r))) (\<lambda>bin_path.
     let src_path = bin_path @ ''.dux''
     in if \<not> can_write tc src_path then ret 1
        else case run_compiler tc src_path source of
          None \<Rightarrow> ret 1
        | Some (status, out) \<Rightarrow>
            if status \<noteq> 0 then then_s (say (show_errors src_path out)) (ret 1)
            else ret (case run_program tc bin_path source of Some code \<Rightarrow> code | None \<Rightarrow> 1)))"

text \<open>
  A declaration is compiled with the accepted ones and an empty \<open>main\<close>. The pipe is not tested
  here: reading from a null pipe is \<open>NullDeref\<close>.
\<close>

definition add_declaration :: "toolchain \<Rightarrow> string \<Rightarrow> (repl, unit) prog" where
  "add_declaration tc line =
     then_s (modify (\<lambda>r. r\<lparr>verify_seq := verify_seq r + 1\<rparr>)) (
     bind_s (gets (\<lambda>r. temp_dir r @ ''/decl_'' @ show_nat (verify_seq r) @ ''.dux'')) (\<lambda>vsrc.
     bind_s (gets (\<lambda>r. decl_source (context_decls r) line)) (\<lambda>source.
     case run_compiler tc vsrc source of
       None \<Rightarrow> null_deref
     | Some (status, out) \<Rightarrow>
         if status \<noteq> 0 then say (show_errors vsrc out)
         else then_s (modify (\<lambda>r. r\<lparr>context_decls := context_decls r @ [line]\<rparr>)) (say (''OK'' @ end_line)))))"

definition add_statement :: "toolchain \<Rightarrow> string \<Rightarrow> (repl, unit) prog" where
  "add_statement tc line =
     bind_s (gets (\<lambda>r. build_source (context_decls r) (context_stmts r) line)) (\<lambda>source.
     bind_s (compile_and_run tc source) (\<lambda>rc.
     guarded (rc = 0) (modify (\<lambda>r. r\<lparr>context_stmts := context_stmts r @ [line]\<rparr>))))"

definition show_context :: "repl \<Rightarrow> string" where
  "show_context r =
     (if context_decls r = [] \<and> context_stmts r = [] then ''(empty)'' @ end_line
      else each_line (context_decls r) @
           (if context_stmts r \<noteq> []
            then ''void main() {'' @ end_line @ each_line (map (\<lambda>s. ''    '' @ s) (context_stmts r)) @
                 ''    ...'' @ end_line @ ''}'' @ end_line
            else []))"

definition help_text :: string where
  "help_text = each_line [
     ''Commands:'',
     ''  :q / :quit   -- exit the REPL'',
     ''  :clear       -- reset the accumulated declaration context'',
     ''  :context     -- show accumulated declarations'',
     ''  :help        -- show this message'',
     [],
     ''Tips:'',
     ''  Define functions/classes first, then call them.'',
     ''  Declarations (class, fn, void/int/str/... name(...) {...}) are'',
     ''  accumulated and available to all subsequent statements.'',
     ''  Statements are accumulated too: variables declared on one'',
     ''  line are in scope on every following line.'',
     ''  Note: accumulated statements are replayed on each new line,'',
     ''  so side-effectful calls (print, file I/O) will run again.'',
     ''  Use :clear to reset all accumulated state.'']"

section \<open>The loop\<close>

text \<open>One line of input, stripped; the result says whether the loop goes on.\<close>

definition handle_line :: "toolchain \<Rightarrow> string \<Rightarrow> (repl, bool) prog" where
  "handle_line tc line =
     (if line = [] then ret True
      else if line \<in> {'':q'', '':quit'', ''exit'', ''quit''} then ret False
      else if line = '':help'' then then_s (say help_text) (ret True)
      else if line = '':clear'' then
        then_s (modify (\<lambda>r. r\<lparr>context_decls := [], context_stmts := []\<rparr>)) (
        then_s (say (''Context cleared.'' @ end_line)) (ret True))
      else if line = '':context'' then bind_s (gets show_context) (\<lambda>s. then_s (say s) (ret True))
      else if is_decl line then then_s (add_declaration tc line) (ret True)
      else then_s (add_statement tc line) (ret True))"

fun repl_loop :: "toolchain \<Rightarrow> string list \<Rightarrow> (repl, unit) prog" where
  "repl_loop tc [] = then_s (say ''dux> '') (say end_line)"
| "repl_loop tc (l # ls) =
     then_s (say ''dux> '') (
     bind_s (handle_line tc (strip_line l)) (\<lambda>continue.
     if continue then repl_loop tc ls else ret ()))"

definition repl_run :: "toolchain \<Rightarrow> string list \<Rightarrow> (repl, unit) prog" where
  "repl_run tc input =
     then_s (say (''Dux REPL -- type :help for commands, :q to quit'' @ end_line)) (repl_loop tc input)"

end
