(* ===== verification/Repl_Properties.thy ===== *)
theory Repl_Properties
  imports Repl
begin

text \<open>
  What the read-eval-print loop promises: its context holds only what the compiler accepted, a line
  that fails leaves the context alone, nothing is read after the end, and error output is passed on
  line by line.
\<close>

section \<open>The context is accepted\<close>

text \<open>The compiler accepted \<open>source\<close>, at some path.\<close>

definition compiles :: "toolchain \<Rightarrow> string \<Rightarrow> bool" where
  "compiles tc source \<longleftrightarrow> (\<exists>path out. run_compiler tc path source = Some (0, out))"

definition runs :: "toolchain \<Rightarrow> string \<Rightarrow> bool" where
  "runs tc source \<longleftrightarrow> compiles tc source \<and> (\<exists>path. run_program tc path source = Some 0)"

text \<open>
  Each declaration was accepted after the ones before it, and each statement ran to a zero exit
  status after the ones before it, with a prefix of the declarations.
\<close>

definition accepted :: "toolchain \<Rightarrow> repl \<Rightarrow> bool" where
  "accepted tc r \<longleftrightarrow>
     (\<forall>i<length (context_decls r). compiles tc (decl_source (take i (context_decls r)) (context_decls r ! i))) \<and>
     (\<forall>j<length (context_stmts r). \<exists>i\<le>length (context_decls r).
        runs tc (build_source (take i (context_decls r)) (take j (context_stmts r)) (context_stmts r ! j)))"

text \<open>The context of a state, apart from output and counters.\<close>

definition context_of :: "repl \<Rightarrow> string list \<times> string list" where
  "context_of r = (context_decls r, context_stmts r)"

lemma accepted_same: "context_of t = context_of r \<Longrightarrow> accepted tc r \<Longrightarrow> accepted tc t"
  by (simp add: accepted_def context_of_def)

lemma accepted_decl:
  assumes "accepted tc r" and "compiles tc (decl_source (context_decls r) line)"
    and "context_of t = (context_decls r @ [line], context_stmts r)"
  shows "accepted tc t"
proof -
  have t: "context_decls t = context_decls r @ [line]" "context_stmts t = context_stmts r"
    using assms(3) by (simp_all add: context_of_def)
  have "\<exists>i\<le>length (context_decls t). runs tc (build_source (take i (context_decls t))
      (take j (context_stmts t)) (context_stmts t ! j))" if "j < length (context_stmts t)" for j
  proof -
    obtain i where "i \<le> length (context_decls r)" and
      "runs tc (build_source (take i (context_decls r)) (take j (context_stmts r)) (context_stmts r ! j))"
      using assms(1) \<open>j < length (context_stmts t)\<close> t by (auto simp: accepted_def)
    then show ?thesis using t by (intro exI [of _ i]) simp
  qed
  then show ?thesis
    using assms(1,2) t by (auto simp: accepted_def nth_append less_Suc_eq)
qed

lemma accepted_stmt:
  assumes "accepted tc r" and "runs tc (build_source (context_decls r) (context_stmts r) line)"
    and "context_of t = (context_decls r, context_stmts r @ [line])"
  shows "accepted tc t"
proof -
  have t: "context_decls t = context_decls r" "context_stmts t = context_stmts r @ [line]"
    using assms(3) by (simp_all add: context_of_def)
  have "runs tc (build_source (take (length (context_decls r)) (context_decls r)) (context_stmts r) line)"
    using assms(2) by simp
  then show ?thesis
    using assms(1) t by (auto simp: accepted_def nth_append less_Suc_eq)
qed

section \<open>What one line does\<close>

lemma compile_and_run_result:
  assumes "compile_and_run tc source r = Returned rc t"
  shows "context_of t = context_of r \<and> (rc = 0 \<longrightarrow> runs tc source)"
  using assms
  by (auto simp: compile_and_run_def then_s_def bind_s_def modify_def gets_def ret_def say_def
      context_of_def runs_def compiles_def Let_def split: if_splits option.splits) blast+

text \<open>The possible outcomes of a declaration line and of a statement line.\<close>

lemma add_declaration_result:
  assumes "add_declaration tc line r = Returned u t"
  shows "context_of t = context_of r \<or>
    compiles tc (decl_source (context_decls r) line) \<and>
      context_of t = (context_decls r @ [line], context_stmts r)"
  using assms
  by (auto simp: add_declaration_def then_s_def bind_s_def modify_def gets_def ret_def say_def
      null_deref_def context_of_def compiles_def split: if_splits option.splits)

lemma add_statement_result:
  assumes "add_statement tc line r = Returned u t"
  shows "context_of t = context_of r \<or>
    runs tc (build_source (context_decls r) (context_stmts r) line) \<and>
      context_of t = (context_decls r, context_stmts r @ [line])"
proof -
  let ?source = "build_source (context_decls r) (context_stmts r) line"
  obtain rc v where run: "compile_and_run tc ?source r = Returned rc v"
    and rest: "guarded (rc = 0) (modify (\<lambda>r. r\<lparr>context_stmts := context_stmts r @ [line]\<rparr>)) v = Returned u t"
    using assms by (auto simp: add_statement_def bind_s_def gets_def split: outcome.splits)
  then show ?thesis
    using compile_and_run_result [OF run]
    by (auto simp: guarded_def modify_def ret_def context_of_def split: if_splits)
qed

text \<open>
  C34. One line of input changes the context in one of four ways: not at all (a failing line, a
  command, an empty line), by the one declaration the compiler has just accepted after the
  others, by the one statement that has just run successfully, or, for \<open>:clear\<close>, to empty.
\<close>

theorem line_changes_context:
  assumes "handle_line tc line r = Returned continue t"
  shows "context_of t = context_of r \<or>
    (is_decl line \<and> compiles tc (decl_source (context_decls r) line) \<and>
      context_of t = (context_decls r @ [line], context_stmts r)) \<or>
    (runs tc (build_source (context_decls r) (context_stmts r) line) \<and>
      context_of t = (context_decls r, context_stmts r @ [line])) \<or>
    (line = '':clear'' \<and> context_of t = ([], []))"
proof -
  consider "context_of t = context_of r" | "line = '':clear''" "context_of t = ([], [])"
    | u where "is_decl line" "add_declaration tc line r = Returned u t"
    | u where "add_statement tc line r = Returned u t"
    using assms unfolding handle_line_def
    by (simp only: then_s_def bind_s_def ret_def gets_def modify_def say_def context_of_def
        split: if_splits outcome.splits) (simp_all split: if_splits outcome.splits, auto)
  then show ?thesis
  proof cases
    case 3
    then show ?thesis using add_declaration_result [of tc line r] by metis
  next
    case 4
    then show ?thesis using add_statement_result [of tc line r] by metis
  qed blast+
qed

text \<open>A toolchain that accepts and runs everything, and one that rejects everything.\<close>

definition willing :: toolchain where
  "willing = \<lparr>can_write = (\<lambda>_. True), run_compiler = (\<lambda>_ _. Some (0, [])), run_program = (\<lambda>_ _. Some 0)\<rparr>"

definition refusing :: toolchain where
  "refusing = \<lparr>can_write = (\<lambda>_. True), run_compiler = (\<lambda>_ _. Some (1, ''no'')), run_program = (\<lambda>_ _. Some 0)\<rparr>"

lemma line_changes_context_witness:
  "\<exists>t. handle_line refusing ''x = 1'' (new_repl ''/tmp'') = Returned True t \<and> context_of t = ([], [])"
proof -
  have plain: "\<not> is_decl ''x = 1''" by (simp add: is_decl_def starts_with_kw_def)
  obtain t where t: "handle_line refusing ''x = 1'' (new_repl ''/tmp'') = Returned True t"
    using plain by (simp add: handle_line_def add_statement_def compile_and_run_def refusing_def
        then_s_def bind_s_def modify_def gets_def ret_def say_def guarded_def)
  have "\<not> compiles refusing s" "\<not> runs refusing s" for s
    by (simp_all add: compiles_def runs_def refusing_def)
  then show ?thesis using line_changes_context [OF t] t by (simp add: context_of_def new_repl_def)
qed

section \<open>Sessions\<close>

text \<open>
  Whatever is typed, in every state the loop ends in the accumulated context was accepted by
  the compiler piece by piece, so it can be replayed in front of the next line.
\<close>

theorem context_always_accepted:
  assumes "repl_run tc input (new_repl dir) = Returned u t"
  shows "accepted tc t"
proof -
  have line: "accepted tc v" if "accepted tc r" "handle_line tc l r = Returned b v" for l r b v
    using line_changes_context [OF that(2)] accepted_same [OF _ that(1)] accepted_decl [OF that(1)]
      accepted_stmt [OF that(1)] by (auto simp: accepted_def context_of_def)
  have loop: "accepted tc v" if "accepted tc r" "repl_loop tc ls r = Returned u v" for ls r u v
    using that
  proof (induction ls arbitrary: r)
    case Nil
    then show ?case
      by (auto simp: then_s_def bind_s_def say_def modify_def context_of_def intro: accepted_same)
  next
    case (Cons l ls)
    let ?r = "r\<lparr>repl_out := repl_out r @ ''dux> ''\<rparr>"
    have "accepted tc ?r" using Cons.prems(1) by (rule accepted_same [rotated]) (simp add: context_of_def)
    with Cons show ?case
      by (auto simp: then_s_def bind_s_def say_def modify_def ret_def split: outcome.splits if_splits
          dest: line)
  qed
  have "accepted tc (new_repl dir)" by (simp add: accepted_def new_repl_def)
  then have "accepted tc ((new_repl dir)\<lparr>repl_out := x\<rparr>)" for x
    by (rule accepted_same [rotated]) (simp add: context_of_def)
  then show ?thesis
    using assms loop by (auto simp: repl_run_def then_s_def bind_s_def say_def modify_def)
qed

lemma context_always_accepted_witness:
  "\<exists>t. repl_run willing [''x = 1''] (new_repl ''/tmp'') = Returned () t \<and> accepted willing t"
proof -
  have plain: "\<not> is_decl ''x = 1''" by (simp add: is_decl_def starts_with_kw_def)
  have "\<exists>t. repl_run willing [''x = 1''] (new_repl ''/tmp'') = Returned () t"
    using plain by (simp add: repl_run_def strip_line_def handle_line_def add_statement_def
        compile_and_run_def willing_def then_s_def bind_s_def modify_def gets_def ret_def say_def guarded_def)
  then show ?thesis using context_always_accepted by blast
qed

text \<open>
  The loop stops at a quit command: nothing after it is read, compiled or run.
\<close>

lemma quit_stops_the_loop:
  assumes "strip_line q \<in> {'':q'', '':quit'', ''exit'', ''quit''}"
  shows "repl_loop tc (ls @ q # rest) = repl_loop tc (ls @ [q])"
proof (induction ls)
  case Nil
  have "strip_line q \<noteq> []" using assms by auto
  then show ?case using assms by (simp add: handle_line_def then_s_def bind_s_def ret_def fun_eq_iff say_def modify_def)
next
  case (Cons l ls)
  then show ?case by (simp cong: if_cong)
qed

lemma quit_stops_the_loop_witness:
  "repl_loop willing ([''x = 1''] @ '':q '' # [''y'']) = repl_loop willing ([''x = 1''] @ ['':q ''])"
  by (rule quit_stops_the_loop) (simp add: strip_line_def)

section \<open>Lines\<close>

text \<open>
  A line is a declaration exactly when it is one of the keywords that open one, followed by a
  blank, a tab or \<open><\<close>, or a type name so followed with a parenthesis and a brace somewhere.
\<close>

lemma declaration_lines:
  "is_decl line \<longleftrightarrow> (\<exists>kw sep rest. line = kw @ sep # rest \<and> sep \<in> {CHR '' '', CHR ''<'', CHR 0x09} \<and>
     (kw \<in> {''class'', ''enum'', ''interface'', ''import'', ''namespace'', ''extern''} \<or>
      kw \<in> {''void'', ''int'', ''str'', ''bool'', ''long'', ''double'', ''float'', ''auto'', ''fn''} \<and>
      {CHR ''('', CHR ''{''} \<subseteq> set line))"
proof -
  have starts: "starts_with_kw line kw \<longleftrightarrow>
      (\<exists>sep rest. line = kw @ sep # rest \<and> sep \<in> {CHR '' '', CHR ''<'', CHR 0x09})" for kw
  proof
    assume kw: "starts_with_kw line kw"
    then have "line = take (length kw) line @ line ! length kw # drop (Suc (length kw)) line"
      by (intro id_take_nth_drop) (simp add: starts_with_kw_def)
    with kw show "\<exists>sep rest. line = kw @ sep # rest \<and> sep \<in> {CHR '' '', CHR ''<'', CHR 0x09}"
      unfolding starts_with_kw_def by metis
  qed (auto simp: starts_with_kw_def)
  have "is_decl line \<longleftrightarrow> line \<noteq> [] \<and>
     ((\<exists>kw\<in>{''class'', ''enum'', ''interface'', ''import'', ''namespace'', ''extern''}. starts_with_kw line kw) \<or>
      {CHR ''('', CHR ''{''} \<subseteq> set line \<and>
      (\<exists>kw\<in>{''void'', ''int'', ''str'', ''bool'', ''long'', ''double'', ''float'', ''auto'', ''fn''}.
         starts_with_kw line kw))"
    by (simp add: is_decl_def list_ex_iff)
  moreover have "line \<noteq> []" if "starts_with_kw line kw" for kw
    using that by (auto simp: starts_with_kw_def)
  ultimately show ?thesis
    unfolding starts by (metis (no_types, lifting))
qed

text \<open>
  The compiler's output is passed on without loss: splitting it into lines and writing them out
  gives the same text, with a final newline added when it lacks one.
\<close>

theorem error_output_round_trip:
  "each_line (split_lines [] out) =
     out @ (if out = [] \<or> last out = CHR 0x0A then [] else end_line)"
proof -
  have "each_line (split_lines acc out) =
      rev acc @ out @ (if acc = [] \<and> out = [] \<or> out \<noteq> [] \<and> last out = CHR 0x0A then [] else end_line)" for acc
    by (induction acc out rule: split_lines.induct) (auto simp: each_line_def end_line_def)
  from this [of "[]"] show ?thesis by auto
qed

end
