(* ===== verification/Generics.thy ===== *)
theory Generics
  imports Driver
begin

text \<open>
  The expansion of generic classes and functions (\<^verbatim>\<open>src/sema/generics.cpp\<close>), a pass from
  program to program that runs before the checker: name mangling, cloning with
  substitution, the walk that replaces every \<open>G<A>\<close> by its mangled name and records what must
  be instantiated, and the work list. The walk is a program on the list \<open>pending\<close>
  (its back is the end of the list); \<open>done\<close> is only read by it. The work list may
  never become empty, so it is a loop that may not end.
\<close>

section \<open>Mangling and substitution\<close>

lemma size_type_args [termination_simp]: "size_list size (te_type_args a) < size a"
  by (cases a) simp

fun mangle_generic :: "string \<Rightarrow> type_expr list \<Rightarrow> string" where
  "mangle_generic name [] = name"
| "mangle_generic name (a # as) =
     mangle_generic (name @ ''__'' @
       (if te_type_args a \<noteq> [] then mangle_generic (te_name a) (te_type_args a) else te_name a)) as"

type_synonym subst_map = "string \<Rightarrow> type_expr option"

fun subst_te :: "subst_map \<Rightarrow> type_expr \<Rightarrow> type_expr" where
  "subst_te s (TypeExpr n c l fps fr tas) =
     (case (if n \<noteq> ''__fn'' \<and> tas = [] then s n else None) of
        Some r \<Rightarrow> TypeExpr (te_name r) (te_is_const r \<or> c) (te_loc r) (te_fn_params r)
                    (te_fn_ret r) (te_type_args r)
      | None \<Rightarrow> TypeExpr n c l (map (subst_te s) fps) fr (map (subst_te s) tas))"

definition subst_param :: "subst_map \<Rightarrow> param \<Rightarrow> param" where
  "subst_param s p = \<lparr>param_type = subst_te s (param_type p), param_name = param_name p\<rparr>"

section \<open>Cloning\<close>

text \<open>
  A clone has fresh nodes: \<open>type_id\<close> is unset, and members no line copies keep
  their defaults. A node no branch matches is cloned to a null pointer.
\<close>

fun clone_expr :: "subst_map \<Rightarrow> expr \<Rightarrow> expr"
  and clone_entry :: "subst_map \<Rightarrow> dict_entry \<Rightarrow> dict_entry"
  and clone_init :: "subst_map \<Rightarrow> var_init \<Rightarrow> var_init"
  and clone_stmt :: "subst_map \<Rightarrow> stmt \<Rightarrow> stmt"
  and clone_case :: "subst_map \<Rightarrow> switch_case \<Rightarrow> switch_case" where
  "clone_expr s NoExpr = NoExpr"
| "clone_expr s (IntLitExpr l t v) = IntLitExpr l (-1) v"
| "clone_expr s (FloatLitExpr l t v) = FloatLitExpr l (-1) v"
| "clone_expr s (LongLitExpr l t v) = LongLitExpr l (-1) v"
| "clone_expr s (RealLitExpr l t v) = RealLitExpr l (-1) v"
| "clone_expr s (StringLitExpr l t v) = StringLitExpr l (-1) v"
| "clone_expr s (BoolLitExpr l t v) = BoolLitExpr l (-1) v"
| "clone_expr s (NullLitExpr l t) = NullLitExpr l (-1)"
| "clone_expr s (IdentExpr l t x) = IdentExpr l (-1) x"
| "clone_expr s (ThisExpr l t) = ThisExpr l (-1)"
| "clone_expr s (SuperExpr l t) = SuperExpr l (-1)"
| "clone_expr s (BinaryExpr l t op a b) = BinaryExpr l (-1) op (clone_expr s a) (clone_expr s b)"
| "clone_expr s (UnaryExpr l t op a p) = UnaryExpr l (-1) op (clone_expr s a) p"
| "clone_expr s (AssignExpr l t op a b) = AssignExpr l (-1) op (clone_expr s a) (clone_expr s b)"
| "clone_expr s (CallExpr l t f as) = CallExpr l (-1) (clone_expr s f) (map (clone_expr s) as)"
| "clone_expr s (MemberExpr l t a m) = MemberExpr l (-1) (clone_expr s a) m"
| "clone_expr s (IndexExpr l t a b) = IndexExpr l (-1) (clone_expr s a) (clone_expr s b)"
| "clone_expr s (NewExpr l t te as) = NewExpr l (-1) (subst_te s te) (map (clone_expr s) as)"
| "clone_expr s (ListExpr l t es) = ListExpr l (-1) (map (clone_expr s) es)"
| "clone_expr s (DictExpr l t ps) = DictExpr l (-1) (map (clone_entry s) ps)"
| "clone_expr s (LambdaExpr l t ps b cs r i) =
     LambdaExpr l (-1) (map (subst_param s) ps) (clone_stmt s b) [] None []"
| "clone_expr s (AwaitExpr l t a) = NoExpr"
| "clone_entry s (DictEntry k v) = DictEntry (clone_expr s k) (clone_expr s v)"
| "clone_init s (VarInit x e) = VarInit x (clone_expr s e)"
| "clone_stmt s NoStmt = NoStmt"
| "clone_stmt s (BlockStmt l b) = BlockStmt l (map (clone_stmt s) b)"
| "clone_stmt s (ExprStmt l e) = ExprStmt l (clone_expr s e)"
| "clone_stmt s (VarDeclStmt l te is_const is_static is_tl ds) =
     VarDeclStmt l (subst_te s te) is_const False False (map (clone_init s) ds)"
| "clone_stmt s (IfStmt l c th el) =
     IfStmt l (clone_expr s c) (clone_stmt s th) (clone_stmt s el)"
| "clone_stmt s (WhileStmt l lb c b) = WhileStmt l lb (clone_expr s c) (clone_stmt s b)"
| "clone_stmt s (DoWhileStmt l b c) = DoWhileStmt l (clone_stmt s b) (clone_expr s c)"
| "clone_stmt s (ForInStmt l te x e b) =
     ForInStmt l (subst_te s te) x (clone_expr s e) (clone_stmt s b)"
| "clone_stmt s (ForCStmt l te x i c n b) =
     ForCStmt l (subst_te s te) x (clone_expr s i) (clone_expr s c) (clone_expr s n) (clone_stmt s b)"
| "clone_stmt s (SwitchStmt l e cs) = SwitchStmt l (clone_expr s e) (map (clone_case s) cs)"
| "clone_stmt s (MatchStmt l e arms) = NoStmt"
| "clone_stmt s (TryCatchStmt l b al ct cv cb) =
     TryCatchStmt l (clone_stmt s b) al (map_option (subst_te s) ct) cv (clone_stmt s cb)"
| "clone_stmt s (ReturnStmt l v) = ReturnStmt l (map_option (clone_expr s) v)"
| "clone_stmt s (BreakStmt l lb) = BreakStmt l lb"
| "clone_stmt s (ContinueStmt l lb) = ContinueStmt l lb"
| "clone_stmt s (AssertStmt l e) = AssertStmt l (clone_expr s e)"
| "clone_stmt s (DeleteStmt l e) = DeleteStmt l (clone_expr s e)"
| "clone_stmt s (LabeledStmt l lb st) = LabeledStmt l lb (clone_stmt s st)"
| "clone_stmt s (DeferStmt l b) = DeferStmt l (map (clone_stmt s) b)"
| "clone_stmt s (ThrowStmt l e) = ThrowStmt l (clone_expr s e)"
| "clone_stmt s (UnsafeStmt l b) = UnsafeStmt l (map (clone_stmt s) b)"
| "clone_case s (SwitchCase v b) = SwitchCase (map_option (clone_expr s) v) (map (clone_stmt s) b)"

definition clone_entry_init :: "subst_map \<Rightarrow> init_entry \<Rightarrow> init_entry" where
  "clone_entry_init s ie = \<lparr>init_field = init_field ie, init_args = map (clone_expr s) (init_args ie)\<rparr>"

definition clone_func_decl :: "subst_map \<Rightarrow> function_decl \<Rightarrow> function_decl" where
  "clone_func_decl s f = \<lparr>
     f_loc = f_loc f,
     f_return_type = subst_te s (f_return_type f),
     f_name = f_name f,
     f_type_params = [],
     f_type_bounds = [],
     f_params = map (subst_param s) (f_params f),
     f_modifier = f_modifier f,
     f_body = map_option (\<lambda>(l, b). (l, map (clone_stmt s) b)) (f_body f),
     f_is_ctor = f_is_ctor f,
     f_is_dtor = f_is_dtor f,
     f_is_static = False,
     f_is_async = False,
     f_init_list = map (clone_entry_init s) (f_init_list f)\<rparr>"

definition clone_field_decl :: "subst_map \<Rightarrow> field_decl \<Rightarrow> field_decl" where
  "clone_field_decl s f = \<lparr>
     fd_loc = fd_loc f,
     fd_type = subst_te s (fd_type f),
     fd_name = fd_name f,
     fd_init = map_option (clone_expr s) (fd_init f),
     fd_is_static = False\<rparr>"

definition clone_member :: "subst_map \<Rightarrow> string \<Rightarrow> class_member \<Rightarrow> class_member" where
  "clone_member s new_name m = MkMember (cm_access m) [] (case cm_decl m of
       Some (FunctionDecl f) \<Rightarrow>
         (let cf = clone_func_decl s f
          in Some (FunctionDecl (if f_is_ctor cf \<or> f_is_dtor cf then cf\<lparr>f_name := new_name\<rparr> else cf)))
     | Some (FieldDecl fd) \<Rightarrow> Some (FieldDecl (clone_field_decl s fd))
     | _ \<Rightarrow> None)"

definition clone_class_decl :: "class_decl \<Rightarrow> string \<Rightarrow> subst_map \<Rightarrow> class_decl" where
  "clone_class_decl c new_name s =
     MkClass (c_loc c) [] new_name [] [] (c_bases c) (map (clone_member s new_name) (c_members c))"

definition clone_generic_func :: "function_decl \<Rightarrow> string \<Rightarrow> subst_map \<Rightarrow> function_decl" where
  "clone_generic_func f new_name s =
     (clone_func_decl s f)\<lparr>f_name := new_name, f_type_params := [], f_type_bounds := []\<rparr>"

end
