(* ===== verification/Clone_Properties.thy ===== *)
theory Clone_Properties
  imports Generics Sema_Check
begin

text \<open>
  What cloning a template does to its body. Without a substitution a clone is the shape of
  the original; the exceptions are the nodes no branch of the code copies, which become null
  pointers that the checker follows.
\<close>

section \<open>Substitution in types\<close>

lemma subst_te_empty: "subst_te Map.empty te = te"
  by (induction te) (simp add: map_idI)

lemma subst_param_empty: "subst_param Map.empty p = p"
  by (simp add: subst_param_def subst_te_empty)

lemma map_option_subst_empty: "map_option (subst_te Map.empty) ct = ct"
  by (cases ct) (simp_all add: subst_te_empty)

section \<open>What survives\<close>

text \<open>
  The nodes a clone keeps: no \<open>await\<close> and no \<open>match\<close>, no lambda with captures or an explicit
  result, no \<open>static\<close> or \<open>thread_local\<close> variable.
\<close>

fun kept_expr :: "expr \<Rightarrow> bool"
  and kept_entry :: "dict_entry \<Rightarrow> bool"
  and kept_init :: "var_init \<Rightarrow> bool"
  and kept_stmt :: "stmt \<Rightarrow> bool"
  and kept_case :: "switch_case \<Rightarrow> bool" where
  "kept_expr (AwaitExpr l t a) = False"
| "kept_expr (BinaryExpr l t op a b) = (kept_expr a \<and> kept_expr b)"
| "kept_expr (UnaryExpr l t op a p) = kept_expr a"
| "kept_expr (AssignExpr l t op a b) = (kept_expr a \<and> kept_expr b)"
| "kept_expr (CallExpr l t f as) = (kept_expr f \<and> (\<forall>a\<in>set as. kept_expr a))"
| "kept_expr (MemberExpr l t a m) = kept_expr a"
| "kept_expr (IndexExpr l t a b) = (kept_expr a \<and> kept_expr b)"
| "kept_expr (NewExpr l t te as) = (\<forall>a\<in>set as. kept_expr a)"
| "kept_expr (ListExpr l t es) = (\<forall>a\<in>set es. kept_expr a)"
| "kept_expr (DictExpr l t ps) = (\<forall>p\<in>set ps. kept_entry p)"
| "kept_expr (LambdaExpr l t ps b cs r i) = (kept_stmt b \<and> cs = [] \<and> r = None)"
| "kept_expr e = True"
| "kept_entry (DictEntry k v) = (kept_expr k \<and> kept_expr v)"
| "kept_init (VarInit x e) = kept_expr e"
| "kept_stmt (MatchStmt l e arms) = False"
| "kept_stmt (BlockStmt l b) = (\<forall>s\<in>set b. kept_stmt s)"
| "kept_stmt (ExprStmt l e) = kept_expr e"
| "kept_stmt (VarDeclStmt l te c st th ds) = (\<not> st \<and> \<not> th \<and> (\<forall>d\<in>set ds. kept_init d))"
| "kept_stmt (IfStmt l c t e) = (kept_expr c \<and> kept_stmt t \<and> kept_stmt e)"
| "kept_stmt (WhileStmt l lb c b) = (kept_expr c \<and> kept_stmt b)"
| "kept_stmt (DoWhileStmt l b c) = (kept_stmt b \<and> kept_expr c)"
| "kept_stmt (ForInStmt l te x e b) = (kept_expr e \<and> kept_stmt b)"
| "kept_stmt (ForCStmt l te x i c n b) = (kept_expr i \<and> kept_expr c \<and> kept_expr n \<and> kept_stmt b)"
| "kept_stmt (SwitchStmt l e cs) = (kept_expr e \<and> (\<forall>c\<in>set cs. kept_case c))"
| "kept_stmt (TryCatchStmt l b al ct cv cb) = (kept_stmt b \<and> kept_stmt cb)"
| "kept_stmt (ReturnStmt l v) = (case v of None \<Rightarrow> True | Some e \<Rightarrow> kept_expr e)"
| "kept_stmt (AssertStmt l e) = kept_expr e"
| "kept_stmt (DeleteStmt l e) = kept_expr e"
| "kept_stmt (LabeledStmt l lb st) = kept_stmt st"
| "kept_stmt (DeferStmt l b) = (\<forall>s\<in>set b. kept_stmt s)"
| "kept_stmt (ThrowStmt l e) = kept_expr e"
| "kept_stmt (UnsafeStmt l b) = (\<forall>s\<in>set b. kept_stmt s)"
| "kept_stmt s = True"
| "kept_case (SwitchCase v b) =
     ((case v of None \<Rightarrow> True | Some e \<Rightarrow> kept_expr e) \<and> (\<forall>s\<in>set b. kept_stmt s))"

lemma clone_null_expr [simp]: "kept_expr e \<Longrightarrow> clone_expr \<sigma> e = NoExpr \<longleftrightarrow> e = NoExpr"
  by (cases e) simp_all

lemma clone_null_stmt [simp]: "kept_stmt st \<Longrightarrow> clone_stmt \<sigma> st = NoStmt \<longleftrightarrow> st = NoStmt"
  by (cases st) simp_all

lemma clone_empty:
  shows "kept_expr e \<Longrightarrow> clone_expr Map.empty e = erase e"
    and "kept_entry de \<Longrightarrow> clone_entry Map.empty de = erase_entry de"
    and "kept_init vi \<Longrightarrow> clone_init Map.empty vi = erase_init vi"
    and "kept_stmt st \<Longrightarrow> clone_stmt Map.empty st = erase_stmt st"
    and "kept_case sc \<Longrightarrow> clone_case Map.empty sc = erase_case sc"
  by (induction e and de and vi and st and sc rule: kept_expr_kept_entry_kept_init_kept_stmt_kept_case.induct)
    (auto simp: subst_te_empty subst_param_empty map_option_subst_empty map_idI split: option.splits)

lemma clone_wf:
  shows "kept_expr e \<Longrightarrow> wf_expr e \<Longrightarrow> wf_expr (clone_expr \<sigma> e)"
    and "kept_entry de \<Longrightarrow> wf_entry de \<Longrightarrow> wf_entry (clone_entry \<sigma> de)"
    and "kept_init vi \<Longrightarrow> wf_init vi \<Longrightarrow> wf_init (clone_init \<sigma> vi)"
    and "kept_stmt st \<Longrightarrow> wf_stmt st \<Longrightarrow> wf_stmt (clone_stmt \<sigma> st)"
    and "kept_case sc \<Longrightarrow> wf_case sc \<Longrightarrow> wf_case (clone_case \<sigma> sc)"
  by (induction e and de and vi and st and sc rule: kept_expr_kept_entry_kept_init_kept_stmt_kept_case.induct)
    (auto split: option.splits)

text \<open>
  Cloning a statement of a template without substitution gives the same source text with the
  annotations unset, and with any substitution a tree the checker can walk, provided the statement
  uses only what clones keep.
\<close>

theorem clone_is_a_copy:
  assumes "kept_stmt st"
  shows "clone_stmt Map.empty st = erase_stmt st \<and> (wf_stmt st \<longrightarrow> wf_stmt (clone_stmt \<sigma> st))"
  using assms clone_empty(4) clone_wf(4) by blast

lemma clone_is_a_copy_witness:
  "clone_stmt Map.empty (ReturnStmt (SourceLoc [] 1 1) (Some (IdentExpr (SourceLoc [] 1 1) 5 ''x''))) =
     ReturnStmt (SourceLoc [] 1 1) (Some (IdentExpr (SourceLoc [] 1 1) (-1) ''x''))"
  using clone_is_a_copy [of "ReturnStmt (SourceLoc [] 1 1) (Some (IdentExpr (SourceLoc [] 1 1) 5 ''x''))"] by simp

text \<open>
  An \<open>await\<close> or a \<open>match\<close> in a template is cloned to a null pointer: as a statement the checker
  follows it and crashes; as the initialiser of a variable or the \<open>else\<close> branch of an \<open>if\<close> it
  silently disappears.
\<close>

theorem clone_loses_await_and_match:
  "check_stmt (clone_stmt \<sigma> (ExprStmt l (AwaitExpr l' t e))) s = NullDeref \<and>
   check_stmt (clone_stmt \<sigma> (MatchStmt l e arms)) s = NullDeref \<and>
   clone_stmt \<sigma> (VarDeclStmt l te False False False [VarInit x (AwaitExpr l' t e)]) =
     clone_stmt \<sigma> (VarDeclStmt l te False False False [VarInit x NoExpr]) \<and>
   clone_stmt \<sigma> (IfStmt l c th (MatchStmt l' e arms)) = clone_stmt \<sigma> (IfStmt l c th NoStmt)"
  by (simp add: null_deref_def bind_s_def)

end
