(* ===== verification/Expand.thy ===== *)
theory Expand
  imports Generics
begin

text \<open>
  The second half of \<^verbatim>\<open>src/sema/generics.cpp\<close>: the in-place walk \<open>fix_*\<close> over a tree, the test
  of type bounds, and \<open>expand_generics\<close> with its work list.
\<close>

section \<open>The walk\<close>

record inst_key =
  k_generic_name :: string
  k_type_args :: "type_expr list"
  k_mangled :: string
  k_loc :: source_loc

text \<open>\<open>pending.push_back(key)\<close>.\<close>

definition push_pending :: "inst_key \<Rightarrow> (inst_key list, unit) prog" where
  "push_pending k = modify (\<lambda>p. p @ [k])"

lemma map_s_cong [fundef_cong]:
  "xs = ys \<Longrightarrow> (\<And>x. x \<in> set ys \<Longrightarrow> f x = g x) \<Longrightarrow> map_s f xs = map_s g ys"
  by (induction xs arbitrary: ys) auto

fun fix_te :: "string set \<Rightarrow> type_expr \<Rightarrow> (inst_key list, type_expr) prog" where
  "fix_te D (TypeExpr n c l fps fr tas) =
     bind_s (map_s (fix_te D) tas) (\<lambda>tas'.
     bind_s (map_s (fix_te D) fps) (\<lambda>fps'.
     if tas' \<noteq> [] then
       let mangled = mangle_generic n tas'
       in then_s (guarded (mangled \<notin> D) (push_pending
            \<lparr>k_generic_name = n, k_type_args = tas', k_mangled = mangled, k_loc = l\<rparr>)) (
          ret (TypeExpr mangled c l fps' fr []))
     else ret (TypeExpr n c l fps' fr tas')))"

definition fix_param :: "string set \<Rightarrow> param \<Rightarrow> (inst_key list, param) prog" where
  "fix_param D p = bind_s (fix_te D (param_type p)) (\<lambda>te. ret (p\<lparr>param_type := te\<rparr>))"

definition fix_option :: "('a \<Rightarrow> ('s, 'a) prog) \<Rightarrow> 'a option \<Rightarrow> ('s, 'a option) prog" where
  "fix_option f v = (case v of None \<Rightarrow> ret None | Some x \<Rightarrow> bind_s (f x) (\<lambda>y. ret (Some y)))"

lemma fix_option_cong [fundef_cong]:
  "v = w \<Longrightarrow> (\<And>x. w = Some x \<Longrightarrow> f x = g x) \<Longrightarrow> fix_option f v = fix_option g w"
  by (auto simp: fix_option_def split: option.split)

text \<open>
  A null pointer and a node without a branch (literals, names, \<open>await\<close>, \<open>match\<close>,
  \<open>break\<close>, \<open>continue\<close>) are left as they are.
\<close>

fun fix_expr :: "string set \<Rightarrow> expr \<Rightarrow> (inst_key list, expr) prog"
  and fix_entry :: "string set \<Rightarrow> dict_entry \<Rightarrow> (inst_key list, dict_entry) prog"
  and fix_init :: "string set \<Rightarrow> var_init \<Rightarrow> (inst_key list, var_init) prog"
  and fix_stmt :: "string set \<Rightarrow> stmt \<Rightarrow> (inst_key list, stmt) prog"
  and fix_case :: "string set \<Rightarrow> switch_case \<Rightarrow> (inst_key list, switch_case) prog" where
  "fix_expr D (NewExpr l t te as) =
     bind_s (fix_te D te) (\<lambda>te'.
     bind_s (map_s (fix_expr D) as) (\<lambda>as'. ret (NewExpr l t te' as')))"
| "fix_expr D (BinaryExpr l t op a b) =
     bind_s (fix_expr D a) (\<lambda>a'.
     bind_s (fix_expr D b) (\<lambda>b'. ret (BinaryExpr l t op a' b')))"
| "fix_expr D (UnaryExpr l t op a p) =
     bind_s (fix_expr D a) (\<lambda>a'. ret (UnaryExpr l t op a' p))"
| "fix_expr D (AssignExpr l t op a b) =
     bind_s (fix_expr D a) (\<lambda>a'.
     bind_s (fix_expr D b) (\<lambda>b'. ret (AssignExpr l t op a' b')))"
| "fix_expr D (CallExpr l t f as) =
     bind_s (fix_expr D f) (\<lambda>f'.
     bind_s (map_s (fix_expr D) as) (\<lambda>as'. ret (CallExpr l t f' as')))"
| "fix_expr D (MemberExpr l t a m) =
     bind_s (fix_expr D a) (\<lambda>a'. ret (MemberExpr l t a' m))"
| "fix_expr D (IndexExpr l t a b) =
     bind_s (fix_expr D a) (\<lambda>a'.
     bind_s (fix_expr D b) (\<lambda>b'. ret (IndexExpr l t a' b')))"
| "fix_expr D (ListExpr l t es) =
     bind_s (map_s (fix_expr D) es) (\<lambda>es'. ret (ListExpr l t es'))"
| "fix_expr D (DictExpr l t ps) =
     bind_s (map_s (fix_entry D) ps) (\<lambda>ps'. ret (DictExpr l t ps'))"
| "fix_expr D (LambdaExpr l t ps b cs r i) =
     bind_s (map_s (fix_param D) ps) (\<lambda>ps'.
     bind_s (fix_stmt D b) (\<lambda>b'. ret (LambdaExpr l t ps' b' cs r i)))"
| "fix_expr D e = ret e"
| "fix_entry D (DictEntry k v) =
     bind_s (fix_expr D k) (\<lambda>k'. bind_s (fix_expr D v) (\<lambda>v'. ret (DictEntry k' v')))"
| "fix_init D (VarInit x e) = bind_s (fix_expr D e) (\<lambda>e'. ret (VarInit x e'))"
| "fix_stmt D (BlockStmt l b) = bind_s (map_s (fix_stmt D) b) (\<lambda>b'. ret (BlockStmt l b'))"
| "fix_stmt D (ExprStmt l e) = bind_s (fix_expr D e) (\<lambda>e'. ret (ExprStmt l e'))"
| "fix_stmt D (VarDeclStmt l te is_const is_static is_tl ds) =
     bind_s (fix_te D te) (\<lambda>te'.
     bind_s (map_s (fix_init D) ds) (\<lambda>ds'.
     ret (VarDeclStmt l te' is_const is_static is_tl ds')))"
| "fix_stmt D (IfStmt l c th el) =
     bind_s (fix_expr D c) (\<lambda>c'.
     bind_s (fix_stmt D th) (\<lambda>th'.
     bind_s (fix_stmt D el) (\<lambda>el'. ret (IfStmt l c' th' el'))))"
| "fix_stmt D (WhileStmt l lb c b) =
     bind_s (fix_expr D c) (\<lambda>c'.
     bind_s (fix_stmt D b) (\<lambda>b'. ret (WhileStmt l lb c' b')))"
| "fix_stmt D (DoWhileStmt l b c) =
     bind_s (fix_stmt D b) (\<lambda>b'.
     bind_s (fix_expr D c) (\<lambda>c'. ret (DoWhileStmt l b' c')))"
| "fix_stmt D (ForInStmt l te x e b) =
     bind_s (fix_te D te) (\<lambda>te'.
     bind_s (fix_expr D e) (\<lambda>e'.
     bind_s (fix_stmt D b) (\<lambda>b'. ret (ForInStmt l te' x e' b'))))"
| "fix_stmt D (ForCStmt l te x i c n b) =
     bind_s (fix_te D te) (\<lambda>te'.
     bind_s (fix_expr D i) (\<lambda>i'.
     bind_s (fix_expr D c) (\<lambda>c'.
     bind_s (fix_expr D n) (\<lambda>n'.
     bind_s (fix_stmt D b) (\<lambda>b'. ret (ForCStmt l te' x i' c' n' b'))))))"
| "fix_stmt D (SwitchStmt l e cs) =
     bind_s (fix_expr D e) (\<lambda>e'.
     bind_s (map_s (fix_case D) cs) (\<lambda>cs'. ret (SwitchStmt l e' cs')))"
| "fix_stmt D (TryCatchStmt l b al ct cv cb) =
     bind_s (fix_stmt D b) (\<lambda>b'.
     bind_s (fix_option (fix_te D) ct) (\<lambda>ct'.
     bind_s (fix_stmt D cb) (\<lambda>cb'. ret (TryCatchStmt l b' al ct' cv cb'))))"
| "fix_stmt D (ReturnStmt l v) =
     bind_s (fix_option (fix_expr D) v) (\<lambda>v'. ret (ReturnStmt l v'))"
| "fix_stmt D (AssertStmt l e) = bind_s (fix_expr D e) (\<lambda>e'. ret (AssertStmt l e'))"
| "fix_stmt D (DeleteStmt l e) = bind_s (fix_expr D e) (\<lambda>e'. ret (DeleteStmt l e'))"
| "fix_stmt D (LabeledStmt l lb st) = bind_s (fix_stmt D st) (\<lambda>st'. ret (LabeledStmt l lb st'))"
| "fix_stmt D (DeferStmt l b) = bind_s (map_s (fix_stmt D) b) (\<lambda>b'. ret (DeferStmt l b'))"
| "fix_stmt D (ThrowStmt l e) = bind_s (fix_expr D e) (\<lambda>e'. ret (ThrowStmt l e'))"
| "fix_stmt D (UnsafeStmt l b) = bind_s (map_s (fix_stmt D) b) (\<lambda>b'. ret (UnsafeStmt l b'))"
| "fix_stmt D st = ret st"
| "fix_case D (SwitchCase v b) =
     bind_s (fix_option (fix_expr D) v) (\<lambda>v'.
     bind_s (map_s (fix_stmt D) b) (\<lambda>b'. ret (SwitchCase v' b')))"

definition fix_body ::
  "string set \<Rightarrow> source_loc \<times> stmt list \<Rightarrow> (inst_key list, source_loc \<times> stmt list) prog" where
  "fix_body D = (\<lambda>(l, b). bind_s (map_s (fix_stmt D) b) (\<lambda>b'. ret (l, b')))"

definition fix_func_decl :: "string set \<Rightarrow> function_decl \<Rightarrow> (inst_key list, function_decl) prog" where
  "fix_func_decl D f =
     bind_s (fix_te D (f_return_type f)) (\<lambda>rt.
     bind_s (map_s (fix_param D) (f_params f)) (\<lambda>ps.
     bind_s (fix_option (fix_body D) (f_body f)) (\<lambda>b.
     ret (f\<lparr>f_return_type := rt, f_params := ps, f_body := b\<rparr>))))"

definition fix_member :: "string set \<Rightarrow> class_member \<Rightarrow> (inst_key list, class_member) prog" where
  "fix_member D m = (case cm_decl m of
       Some (FunctionDecl f) \<Rightarrow> bind_s (fix_func_decl D f) (\<lambda>f'.
         ret (MkMember (cm_access m) (cm_decorators m) (Some (FunctionDecl f'))))
     | Some (FieldDecl fd) \<Rightarrow> bind_s (fix_te D (fd_type fd)) (\<lambda>te.
         ret (MkMember (cm_access m) (cm_decorators m) (Some (FieldDecl (fd\<lparr>fd_type := te\<rparr>)))))
     | _ \<Rightarrow> ret m)"

definition fix_class :: "string set \<Rightarrow> class_decl \<Rightarrow> (inst_key list, class_decl) prog" where
  "fix_class D c =
     bind_s (map_s (fix_member D) (c_members c)) (\<lambda>ms.
     ret (MkClass (c_loc c) (c_decorators c) (c_name c) (c_type_params c) (c_type_bounds c) (c_bases c) ms))"

fun fix_decl :: "string set \<Rightarrow> bool \<Rightarrow> decl \<Rightarrow> (inst_key list, decl) prog" where
  "fix_decl D skip_generic (ClassDecl c) =
     (if skip_generic \<and> c_type_params c \<noteq> [] then ret (ClassDecl c)
      else bind_s (fix_class D c) (\<lambda>c'. ret (ClassDecl c')))"
| "fix_decl D skip_generic (FunctionDecl f) =
     (if skip_generic \<and> f_type_params f \<noteq> [] then ret (FunctionDecl f)
      else bind_s (fix_func_decl D f) (\<lambda>f'. ret (FunctionDecl f')))"
| "fix_decl D skip_generic (NamespaceDecl (MkNamespace l name ds sts is_package)) =
     bind_s (map_s (fix_decl D skip_generic) ds) (\<lambda>ds'.
     bind_s (map_s (fix_stmt D) sts) (\<lambda>sts'.
     ret (NamespaceDecl (MkNamespace l name ds' sts' is_package))))"
| "fix_decl D skip_generic d = ret d"

section \<open>Templates and bounds\<close>

type_synonym templates = "(string \<Rightarrow> class_decl option) \<times> (string \<Rightarrow> function_decl option)"

text \<open>A later template of the same name replaces the earlier one.\<close>

fun collect_template :: "decl \<Rightarrow> templates \<Rightarrow> templates"
  and collect_templates :: "decl list \<Rightarrow> templates \<Rightarrow> templates" where
  "collect_template (ClassDecl c) (cs, fs) =
     (if c_type_params c \<noteq> [] then (cs(c_name c \<mapsto> c), fs) else (cs, fs))"
| "collect_template (FunctionDecl f) (cs, fs) =
     (if f_type_params f \<noteq> [] then (cs, fs(f_name f \<mapsto> f)) else (cs, fs))"
| "collect_template (NamespaceDecl (MkNamespace l name ds sts is_package)) ts = collect_templates ds ts"
| "collect_template d ts = ts"
| "collect_templates [] ts = ts"
| "collect_templates (d # ds) ts = collect_templates ds (collect_template d ts)"

text \<open>\<open>generic_classes.empty() && generic_funcs.empty()\<close>.\<close>

fun has_template :: "decl \<Rightarrow> bool" where
  "has_template (ClassDecl c) \<longleftrightarrow> c_type_params c \<noteq> []"
| "has_template (FunctionDecl f) \<longleftrightarrow> f_type_params f \<noteq> []"
| "has_template (NamespaceDecl (MkNamespace l name ds sts is_package)) \<longleftrightarrow> (\<exists>d\<in>set ds. has_template d)"
| "has_template d \<longleftrightarrow> False"

fun ast_satisfies_bound :: "string \<Rightarrow> string \<Rightarrow> decl list \<Rightarrow> bool" where
  "ast_satisfies_bound concrete iface [] = True"
| "ast_satisfies_bound concrete iface (d # ds) =
     (if iface = [] then True
      else case d of
        ClassDecl c \<Rightarrow>
          if c_name c = concrete then iface \<in> set (map base_name (c_bases c))
          else ast_satisfies_bound concrete iface ds
      | _ \<Rightarrow> ast_satisfies_bound concrete iface ds)"

section \<open>The work list\<close>

record expander =
  xp_driver :: driver
  xp_done :: "string set"
  xp_pending :: "inst_key list"
  xp_new :: "decl list"

definition on_driver :: "(driver, 'a) prog \<Rightarrow> (expander, 'a) prog" where
  "on_driver = on_field xp_driver (\<lambda>d x. x\<lparr>xp_driver := d\<rparr>)"

definition on_pending :: "(inst_key list, 'a) prog \<Rightarrow> (expander, 'a) prog" where
  "on_pending = on_field xp_pending (\<lambda>p x. x\<lparr>xp_pending := p\<rparr>)"

definition subst_of :: "string list \<Rightarrow> type_expr list \<Rightarrow> subst_map" where
  "subst_of params args = map_of (rev (zip params args))"

definition check_bound ::
  "decl list \<Rightarrow> subst_map \<Rightarrow> source_loc \<Rightarrow> type_bound \<Rightarrow> (expander, unit) prog" where
  "check_bound ds s loc b = (case s (bound_param b) of
       None \<Rightarrow> ret ()
     | Some te \<Rightarrow>
         guarded (\<not> ast_satisfies_bound (te_name te) (bound_interface b) ds)
           (on_driver (driver_error loc (''type '' @ [CHR 0x27] @ te_name te @ [CHR 0x27] @
              '' does not implement '' @ [CHR 0x27] @ bound_interface b @ [CHR 0x27] @
              '' (required by generic parameter '' @ [CHR 0x27] @ bound_param b @ [CHR 0x27] @ '')''))))"

definition add_concrete :: "decl \<Rightarrow> (expander, unit) prog" where
  "add_concrete d =
     bind_s (gets xp_done) (\<lambda>D.
     bind_s (on_pending (fix_decl D False d)) (\<lambda>d'.
     modify (\<lambda>x. x\<lparr>xp_new := xp_new x @ [d']\<rparr>)))"

definition instantiate_class :: "decl list \<Rightarrow> class_decl \<Rightarrow> inst_key \<Rightarrow> (expander, unit) prog" where
  "instantiate_class ds tmpl k =
     (if length (c_type_params tmpl) \<noteq> length (k_type_args k) then ret ()
      else let s = subst_of (c_type_params tmpl) (k_type_args k)
           in then_s (for_each (check_bound ds s (k_loc k)) (c_type_bounds tmpl))
                (add_concrete (ClassDecl (clone_class_decl tmpl (k_mangled k) s))))"

definition instantiate_func :: "decl list \<Rightarrow> function_decl \<Rightarrow> inst_key \<Rightarrow> (expander, unit) prog" where
  "instantiate_func ds tmpl k =
     (if length (f_type_params tmpl) \<noteq> length (k_type_args k) then ret ()
      else let s = subst_of (f_type_params tmpl) (k_type_args k)
           in then_s (for_each (check_bound ds s (k_loc k)) (f_type_bounds tmpl))
                (add_concrete (FunctionDecl (clone_generic_func tmpl (k_mangled k) s))))"

text \<open>One round of the loop, for a key taken from the back of \<open>pending\<close>.\<close>

definition process_key :: "templates \<Rightarrow> decl list \<Rightarrow> inst_key \<Rightarrow> (expander, unit) prog" where
  "process_key ts ds k =
     bind_s (gets xp_done) (\<lambda>D.
     if k_mangled k \<in> D then ret ()
     else then_s (modify (\<lambda>x. x\<lparr>xp_done := insert (k_mangled k) D\<rparr>)) (
          case fst ts (k_generic_name k) of
            Some tmpl \<Rightarrow> instantiate_class ds tmpl k
          | None \<Rightarrow> (case snd ts (k_generic_name k) of
                Some tmpl \<Rightarrow> instantiate_func ds tmpl k
              | None \<Rightarrow> ret ())))"

definition expand_round ::
  "templates \<Rightarrow> decl list \<Rightarrow> expander \<Rightarrow> (expander, unit) outcome + expander" where
  "expand_round ts ds x =
     (if xp_pending x = [] then Inl (Returned () x)
      else case process_key ts ds (last (xp_pending x)) (x\<lparr>xp_pending := butlast (xp_pending x)\<rparr>) of
        Returned u x' \<Rightarrow> Inr x'
      | r \<Rightarrow> Inl r)"

definition expand_all :: "templates \<Rightarrow> decl list \<Rightarrow> (expander, unit) prog" where
  "expand_all ts ds x = (case iter_until (expand_round ts ds) x of Some r \<Rightarrow> r | None \<Rightarrow> Looping)"

section \<open>The result\<close>

definition is_generic :: "decl \<Rightarrow> bool" where
  "is_generic d = (case d of
       ClassDecl c \<Rightarrow> c_type_params c \<noteq> []
     | FunctionDecl f \<Rightarrow> f_type_params f \<noteq> []
     | _ \<Rightarrow> False)"

text \<open>Templates directly inside a namespace go too; those of a namespace inside it stay.\<close>

definition strip_namespace :: "decl \<Rightarrow> decl" where
  "strip_namespace d = (case d of
       NamespaceDecl n \<Rightarrow> NamespaceDecl (MkNamespace (ns_loc n) (ns_name n)
         (filter (\<lambda>d. \<not> is_generic d) (ns_decls n)) (ns_stmts n) (ns_is_package_decl n))
     | _ \<Rightarrow> d)"

definition assemble :: "decl list \<Rightarrow> decl list \<Rightarrow> decl list" where
  "assemble new ds = map strip_namespace (new @ filter (\<lambda>d. \<not> is_generic d) ds)"

definition start_expander :: "driver \<Rightarrow> expander" where
  "start_expander d = \<lparr>xp_driver = d, xp_done = {}, xp_pending = [], xp_new = []\<rparr>"

definition expand_program :: "program \<Rightarrow> (expander, program) prog" where
  "expand_program p =
     bind_s (gets xp_done) (\<lambda>D.
     bind_s (on_pending (map_s (fix_decl D True) (prog_decls p))) (\<lambda>ds.
     bind_s (on_pending (map_s (fix_stmt D) (prog_stmts p))) (\<lambda>sts.
     then_s (expand_all (collect_templates (prog_decls p) (Map.empty, Map.empty)) ds) (
     bind_s (gets xp_new) (\<lambda>new.
     ret \<lparr>prog_decls = assemble new ds, prog_stmts = sts\<rparr>)))))"

definition expand_generics :: "program \<Rightarrow> (driver, program) prog" where
  "expand_generics p d =
     (if \<not> (\<exists>dc\<in>set (prog_decls p). has_template dc) then Returned p d
      else case expand_program p (start_expander d) of
        Returned p' x \<Rightarrow> Returned p' (xp_driver x)
      | Thrown x \<Rightarrow> Thrown (xp_driver x)
      | Looping \<Rightarrow> Looping
      | NullDeref \<Rightarrow> NullDeref)"

end
