(* ===== verification/Expand_Properties.thy ===== *)
theory Expand_Properties
  imports Expand
begin

text \<open>
  What the expansion of generics promises. The walk is compared with a pure function on types:
  it rewrites every type it visits to a plain one and records, once per use, what must still be
  instantiated. The work list instantiates every mangled name at most once and leaves none out.
\<close>

section \<open>The pure rewriting\<close>

fun fixed_te :: "type_expr \<Rightarrow> type_expr" where
  "fixed_te (TypeExpr n c l fps fr tas) =
     TypeExpr (if tas = [] then n else mangle_generic n (map fixed_te tas)) c l (map fixed_te fps) fr []"

fun plain_te :: "type_expr \<Rightarrow> bool" where
  "plain_te (TypeExpr n c l fps fr tas) \<longleftrightarrow> tas = [] \<and> (\<forall>fp\<in>set fps. plain_te fp)"

lemma plain_fixed: "plain_te (fixed_te te)"
  by (induction te rule: fixed_te.induct) auto

lemma fixed_plain: "plain_te te \<Longrightarrow> fixed_te te = te"
  by (induction te rule: plain_te.induct) (auto simp: map_idI)

text \<open>The types the walk visits, in order.\<close>

fun expr_types :: "expr \<Rightarrow> type_expr list"
  and entry_types :: "dict_entry \<Rightarrow> type_expr list"
  and init_types :: "var_init \<Rightarrow> type_expr list"
  and stmt_types :: "stmt \<Rightarrow> type_expr list"
  and case_types :: "switch_case \<Rightarrow> type_expr list" where
  "expr_types (NewExpr l t te as) = te # concat (map expr_types as)"
| "expr_types (BinaryExpr l t op a b) = expr_types a @ expr_types b"
| "expr_types (UnaryExpr l t op a p) = expr_types a"
| "expr_types (AssignExpr l t op a b) = expr_types a @ expr_types b"
| "expr_types (CallExpr l t f as) = expr_types f @ concat (map expr_types as)"
| "expr_types (MemberExpr l t a m) = expr_types a"
| "expr_types (IndexExpr l t a b) = expr_types a @ expr_types b"
| "expr_types (ListExpr l t es) = concat (map expr_types es)"
| "expr_types (DictExpr l t ps) = concat (map entry_types ps)"
| "expr_types (LambdaExpr l t ps b cs r i) = map param_type ps @ stmt_types b"
| "expr_types e = []"
| "entry_types (DictEntry k v) = expr_types k @ expr_types v"
| "init_types (VarInit x e) = expr_types e"
| "stmt_types (BlockStmt l b) = concat (map stmt_types b)"
| "stmt_types (ExprStmt l e) = expr_types e"
| "stmt_types (VarDeclStmt l te c st th ds) = te # concat (map init_types ds)"
| "stmt_types (IfStmt l c th el) = expr_types c @ stmt_types th @ stmt_types el"
| "stmt_types (WhileStmt l lb c b) = expr_types c @ stmt_types b"
| "stmt_types (DoWhileStmt l b c) = stmt_types b @ expr_types c"
| "stmt_types (ForInStmt l te x e b) = te # expr_types e @ stmt_types b"
| "stmt_types (ForCStmt l te x i c n b) =
     te # expr_types i @ expr_types c @ expr_types n @ stmt_types b"
| "stmt_types (SwitchStmt l e cs) = expr_types e @ concat (map case_types cs)"
| "stmt_types (TryCatchStmt l b al ct cv cb) =
     stmt_types b @ (case ct of None \<Rightarrow> [] | Some te \<Rightarrow> [te]) @ stmt_types cb"
| "stmt_types (ReturnStmt l v) = (case v of None \<Rightarrow> [] | Some e \<Rightarrow> expr_types e)"
| "stmt_types (AssertStmt l e) = expr_types e"
| "stmt_types (DeleteStmt l e) = expr_types e"
| "stmt_types (LabeledStmt l lb st) = stmt_types st"
| "stmt_types (DeferStmt l b) = concat (map stmt_types b)"
| "stmt_types (ThrowStmt l e) = expr_types e"
| "stmt_types (UnsafeStmt l b) = concat (map stmt_types b)"
| "stmt_types st = []"
| "case_types (SwitchCase v b) =
     (case v of None \<Rightarrow> [] | Some e \<Rightarrow> expr_types e) @ concat (map stmt_types b)"

section \<open>Collecting\<close>

text \<open>The instances a type asks for: the template and the rewritten arguments of every application in it.\<close>

type_synonym request = "string \<times> type_expr list"

abbreviation mangled :: "request \<Rightarrow> string" where
  "mangled r \<equiv> mangle_generic (fst r) (snd r)"

definition request_of :: "inst_key \<Rightarrow> request" where
  "request_of k = (k_generic_name k, k_type_args k)"

fun applications :: "type_expr \<Rightarrow> request list" where
  "applications (TypeExpr n c l fps fr tas) =
     concat (map applications tas) @ concat (map applications fps) @
     (if tas = [] then [] else [(n, map fixed_te tas)])"

text \<open>Those still missing, once per use.\<close>

definition needs :: "string set \<Rightarrow> type_expr list \<Rightarrow> request list" where
  "needs D tes = filter (\<lambda>r. mangled r \<notin> D) (concat (map applications tes))"

lemma needs_simps [simp]:
  "needs D [] = []" "needs D (te # tes) = filter (\<lambda>r. mangled r \<notin> D) (applications te) @ needs D tes"
  "needs D (tes @ uses) = needs D tes @ needs D uses"
  by (simp_all add: needs_def)

text \<open>A key worth instantiating: new, for a proper application to plain types.\<close>

definition new_key :: "string set \<Rightarrow> inst_key \<Rightarrow> bool" where
  "new_key D k \<longleftrightarrow> k_mangled k = mangled (request_of k) \<and>
     k_mangled k \<notin> D \<and> k_type_args k \<noteq> [] \<and> (\<forall>a\<in>set (k_type_args k). plain_te a)"

text \<open>
  \<open>m\<close> returns one value and appends one list of new keys, whatever is pending;
  \<open>Q\<close> holds of the value and of their requests.
\<close>

definition collects :: "string set \<Rightarrow> (inst_key list, 'a) prog \<Rightarrow> ('a \<Rightarrow> request list \<Rightarrow> bool) \<Rightarrow> bool" where
  "collects D m Q \<longleftrightarrow>
     (\<exists>a ks. (\<forall>p. m p = Returned a (p @ ks)) \<and> Q a (map request_of ks) \<and> (\<forall>k\<in>set ks. new_key D k))"

lemma collects_ret: "Q a [] \<Longrightarrow> collects D (ret a) Q"
  unfolding collects_def by (rule exI [of _ a], rule exI [of _ "[]"]) (simp add: ret_def)

lemma collects_bind:
  assumes "collects D m P" and "\<And>a ns. P a ns \<Longrightarrow> collects D (f a) (\<lambda>b ms. Q b (ns @ ms))"
  shows "collects D (bind_s m f) Q"
proof -
  obtain a ks where a: "\<forall>p. m p = Returned a (p @ ks)" "P a (map request_of ks)" "\<forall>k\<in>set ks. new_key D k"
    using assms(1) by (auto simp: collects_def)
  obtain b ls where b: "\<forall>p. f a p = Returned b (p @ ls)" "Q b (map request_of (ks @ ls))" "\<forall>k\<in>set ls. new_key D k"
    using assms(2) [OF a(2)] by (auto simp: collects_def)
  show ?thesis
    unfolding collects_def
    by (rule exI [of _ b], rule exI [of _ "ks @ ls"]) (use a b in \<open>auto simp: bind_s_def\<close>)
qed

lemma collects_push: "new_key D k \<Longrightarrow> collects D (push_pending k) (\<lambda>_ ns. ns = [request_of k])"
  unfolding collects_def by (rule exI [of _ "()"], rule exI [of _ "[k]"]) (simp add: push_pending_def modify_def)

lemma collects_post: "collects D m P \<Longrightarrow> (\<And>a ns. P a ns \<Longrightarrow> Q a ns) \<Longrightarrow> collects D m Q"
  by (auto simp: collects_def)

text \<open>The value has the rewritten types \<open>tes\<close>, read by \<open>g\<close>, and the keys are those they need.\<close>

abbreviation rewriting ::
  "string set \<Rightarrow> (inst_key list, 'a) prog \<Rightarrow> ('a \<Rightarrow> type_expr list) \<Rightarrow> type_expr list \<Rightarrow> bool" where
  "rewriting D m g tes \<equiv> collects D m (\<lambda>a ns. g a = map fixed_te tes \<and> ns = needs D tes)"

lemma rewriting_map_s:
  "(\<And>x. x \<in> set xs \<Longrightarrow> rewriting D (f x) g (h x)) \<Longrightarrow>
   rewriting D (map_s f xs) (\<lambda>ys. concat (map g ys)) (concat (map h xs))"
proof (induction xs)
  case (Cons x xs)
  have "rewriting D (f x) g (h x)" "rewriting D (map_s f xs) (\<lambda>ys. concat (map g ys)) (concat (map h xs))"
    using Cons by simp_all
  then show ?case by (auto intro!: collects_ret elim!: collects_bind)
qed (simp add: collects_ret)

lemma map_singletons: "concat (map (\<lambda>x. [f x]) xs) = map f xs"
  by (induction xs) simp_all

lemma rewriting_fix_te: "rewriting D (fix_te D te) (\<lambda>te'. [te']) [te]"
proof (induction te rule: fixed_te.induct)
  case (1 n c l fps fr tas)
  have many: "rewriting D (map_s (fix_te D) tes) (\<lambda>tes'. tes') tes"
    if "\<And>te. te \<in> set tes \<Longrightarrow> rewriting D (fix_te D te) (\<lambda>te'. [te']) [te]" for tes
    using rewriting_map_s [where g = "\<lambda>te. [te]" and h = "\<lambda>te. [te]", OF that]
    by (simp add: map_singletons)
  have args: "rewriting D (map_s (fix_te D) tas) (\<lambda>tes. tes) tas"
    and params: "rewriting D (map_s (fix_te D) fps) (\<lambda>tes. tes) fps"
    by (rule many, use 1 in \<open>cases "tas = []"; simp\<close>)+
  have push: "collects D (guarded (m \<notin> D) (push_pending
      \<lparr>k_generic_name = n, k_type_args = map fixed_te tas, k_mangled = m, k_loc = l\<rparr>))
      (\<lambda>_ ns. ns = filter (\<lambda>r. mangled r \<notin> D) [(n, map fixed_te tas)])"
    if "tas \<noteq> []" "m = mangle_generic n (map fixed_te tas)" for m
    using that by (cases "m \<in> D")
      (auto simp: guarded_def new_key_def request_of_def plain_fixed intro!: collects_ret collects_post [OF collects_push])
  have here: "needs D [TypeExpr n c l fps fr tas] = needs D tas @ needs D fps @
      (if tas = [] then [] else filter (\<lambda>r. mangled r \<notin> D) [(n, map fixed_te tas)])"
    by (simp add: needs_def)
  show ?case
    unfolding fix_te.simps here
  proof (rule collects_bind [OF args], rule collects_bind [OF params])
    fix tas' fps' ns ms
    assume "tas' = map fixed_te tas \<and> ns = needs D tas" "fps' = map fixed_te fps \<and> ms = needs D fps"
    then show "collects D (if tas' \<noteq> [] then let mangled = mangle_generic n tas'
          in then_s (guarded (mangled \<notin> D) (push_pending
              \<lparr>k_generic_name = n, k_type_args = tas', k_mangled = mangled, k_loc = l\<rparr>))
            (ret (TypeExpr mangled c l fps' fr []))
        else ret (TypeExpr n c l fps' fr tas'))
      (\<lambda>b vs. [b] = map fixed_te [TypeExpr n c l fps fr tas] \<and> ns @ ms @ vs = needs D tas @ needs D fps @
        (if tas = [] then [] else filter (\<lambda>r. mangled r \<notin> D) [(n, map fixed_te tas)]))"
      unfolding Let_def then_s_def
      by (cases "tas = []") (auto intro!: collects_ret collects_bind [OF push] simp del: filter.simps)
  qed
qed

lemma rewriting_concat:
  "(\<And>x. x \<in> set xs \<Longrightarrow> rewriting D (f x) g (g x)) \<Longrightarrow>
   rewriting D (map_s f xs) (\<lambda>ys. concat (map g ys)) (concat (map g xs))"
  by (rule rewriting_map_s)

lemma rewriting_params: "rewriting D (map_s (fix_param D) ps) (map param_type) (map param_type ps)"
proof -
  have "rewriting D (fix_param D p) (\<lambda>p. [param_type p]) [param_type p]" for p
    unfolding fix_param_def
    by (rule collects_bind [OF rewriting_fix_te], rule collects_ret) simp
  then show ?thesis
    using rewriting_concat [of ps D "fix_param D" "\<lambda>p. [param_type p]"] by (simp add: map_singletons)
qed

lemma rewriting_option:
  "(\<And>x. v = Some x \<Longrightarrow> rewriting D (f x) g (g x)) \<Longrightarrow>
   rewriting D (fix_option f v) (\<lambda>w. case w of None \<Rightarrow> [] | Some y \<Rightarrow> g y)
     (case v of None \<Rightarrow> [] | Some x \<Rightarrow> g x)"
  by (cases v) (auto simp: fix_option_def intro!: collects_ret elim!: collects_bind)

lemma rewriting_type_option:
  "rewriting D (fix_option (fix_te D) v) (\<lambda>w. case w of None \<Rightarrow> [] | Some te \<Rightarrow> [te])
     (case v of None \<Rightarrow> [] | Some te \<Rightarrow> [te])"
  by (rule rewriting_option [where g = "\<lambda>te. [te]"]) (rule rewriting_fix_te)

lemmas rewriting_lists =
  collects_bind [OF rewriting_concat [where g = expr_types]]
  collects_bind [OF rewriting_concat [where g = entry_types]]
  collects_bind [OF rewriting_concat [where g = init_types]]
  collects_bind [OF rewriting_concat [where g = stmt_types]]
  collects_bind [OF rewriting_concat [where g = case_types]]
  collects_bind [OF rewriting_option [where g = expr_types]]

theorem rewriting_fix:
  shows "rewriting D (fix_expr D e) expr_types (expr_types e)"
    and "rewriting D (fix_entry D de) entry_types (entry_types de)"
    and "rewriting D (fix_init D vi) init_types (init_types vi)"
    and "rewriting D (fix_stmt D st) stmt_types (stmt_types st)"
    and "rewriting D (fix_case D sc) case_types (case_types sc)"
proof (induction D e and D de and D vi and D st and D sc
    rule: fix_expr_fix_entry_fix_init_fix_stmt_fix_case.induct)
qed (unfold fix_expr.simps fix_entry.simps fix_init.simps fix_stmt.simps fix_case.simps,
    (rule collects_bind [OF rewriting_fix_te] collects_bind [OF rewriting_params] collects_bind [OF rewriting_type_option]
      | (rule collects_bind, blast)
      | (rule rewriting_lists, blast)
      | (rule collects_ret, simp))+)

section \<open>Declarations\<close>

definition func_types :: "function_decl \<Rightarrow> type_expr list" where
  "func_types f = f_return_type f # map param_type (f_params f) @
     (case f_body f of None \<Rightarrow> [] | Some b \<Rightarrow> concat (map stmt_types (snd b)))"

definition member_types :: "class_member \<Rightarrow> type_expr list" where
  "member_types m = (case cm_decl m of
       Some (FunctionDecl f) \<Rightarrow> func_types f
     | Some (FieldDecl fd) \<Rightarrow> [fd_type fd]
     | _ \<Rightarrow> [])"

text \<open>With \<open>skip\<close>, the types of the templates are left out.\<close>

fun decl_types :: "bool \<Rightarrow> decl \<Rightarrow> type_expr list" where
  "decl_types skip (FunctionDecl f) = (if skip \<and> f_type_params f \<noteq> [] then [] else func_types f)"
| "decl_types skip (ClassDecl c) =
     (if skip \<and> c_type_params c \<noteq> [] then [] else concat (map member_types (c_members c)))"
| "decl_types skip (NamespaceDecl (MkNamespace l n ds sts p)) =
     concat (map (decl_types skip) ds) @ concat (map stmt_types sts)"
| "decl_types skip d = []"

definition concrete_name :: "decl \<Rightarrow> string" where
  "concrete_name d = (case d of ClassDecl c \<Rightarrow> c_name c | FunctionDecl f \<Rightarrow> f_name f | _ \<Rightarrow> [])"

lemma collects_func:
  "collects D (fix_func_decl D f) (\<lambda>f' ns. func_types f' = map fixed_te (func_types f) \<and>
     ns = needs D (func_types f) \<and> f_name f' = f_name f \<and> f_type_params f' = f_type_params f)"
proof -
  have body: "rewriting D (fix_option (fix_body D) b)
      (\<lambda>b. case b of None \<Rightarrow> [] | Some b \<Rightarrow> concat (map stmt_types (snd b)))
      (case b of None \<Rightarrow> [] | Some b \<Rightarrow> concat (map stmt_types (snd b)))" for b
    by (rule rewriting_option [where g = "\<lambda>b. concat (map stmt_types (snd b))"])
      (auto simp: fix_body_def intro!: collects_bind [OF rewriting_concat [where g = stmt_types]]
        rewriting_fix collects_ret split: prod.split)
  show ?thesis
    unfolding fix_func_decl_def
    by (rule collects_bind [OF rewriting_fix_te], rule collects_bind [OF rewriting_params],
        rule collects_bind [OF body], rule collects_ret) (simp add: func_types_def)
qed

lemma rewriting_member: "rewriting D (fix_member D m) member_types (member_types m)"
  unfolding fix_member_def
  by (auto simp: member_types_def intro!: collects_ret collects_bind [OF collects_func]
      collects_bind [OF rewriting_fix_te] split: option.split decl.split)

lemma collects_class:
  "collects D (fix_class D c) (\<lambda>c' ns. concat (map member_types (c_members c')) =
     map fixed_te (concat (map member_types (c_members c))) \<and>
     ns = needs D (concat (map member_types (c_members c))) \<and>
     c_name c' = c_name c \<and> c_type_params c' = c_type_params c)"
  unfolding fix_class_def
  by (rule collects_bind [OF rewriting_concat [where g = member_types]], rule rewriting_member,
      rule collects_ret) simp

theorem collects_decl:
  "collects D (fix_decl D skip d) (\<lambda>d' ns. decl_types skip d' = map fixed_te (decl_types skip d) \<and>
     ns = needs D (decl_types skip d) \<and> concrete_name d' = concrete_name d)"
proof (induction D skip d rule: fix_decl.induct)
  case (3 D skip l n ds sts p)
  have "rewriting D (fix_decl D skip d) (decl_types skip) (decl_types skip d)" if "d \<in> set ds" for d
    by (rule collects_post [OF 3 [OF that]]) simp
  then show ?case
    unfolding fix_decl.simps
    by (intro collects_bind [OF rewriting_concat [where g = "decl_types skip"]]
        collects_bind [OF rewriting_concat [where g = stmt_types]] rewriting_fix collects_ret)
      (auto simp: concrete_name_def)
qed (auto simp: concrete_name_def intro!: collects_ret collects_bind [OF collects_class]
    collects_bind [OF collects_func])

section \<open>The work list\<close>

text \<open>The copy of a template that a request asks for, and what follows from a set of requests.\<close>

definition instance_of :: "templates \<Rightarrow> request \<Rightarrow> decl option" where
  "instance_of ts r = (case fst ts (fst r) of
       Some c \<Rightarrow> if length (c_type_params c) \<noteq> length (snd r) then None
         else Some (ClassDecl (clone_class_decl c (mangled r) (subst_of (c_type_params c) (snd r))))
     | None \<Rightarrow> (case snd ts (fst r) of
           Some f \<Rightarrow> if length (f_type_params f) \<noteq> length (snd r) then None
             else Some (FunctionDecl (clone_generic_func f (mangled r) (subst_of (f_type_params f) (snd r))))
         | None \<Rightarrow> None))"

inductive wanted :: "templates \<Rightarrow> request set \<Rightarrow> request \<Rightarrow> bool" for ts R where
  wanted_given: "r \<in> R \<Longrightarrow> wanted ts R r"
| wanted_inside: "wanted ts R r \<Longrightarrow> instance_of ts r = Some c \<Longrightarrow> te \<in> set (decl_types False c) \<Longrightarrow>
    q \<in> set (applications te) \<Longrightarrow> wanted ts R q"

definition honest :: "inst_key list \<Rightarrow> bool" where
  "honest ks \<longleftrightarrow> (\<forall>k\<in>set ks. k_mangled k = mangled (request_of k))"

lemma honest_simps [simp]:
  "honest []" "honest (k # ks) \<longleftrightarrow> k_mangled k = mangled (request_of k) \<and> honest ks"
  "honest (ks @ ls) \<longleftrightarrow> honest ks \<and> honest ls"
  by (auto simp: honest_def)

text \<open>The bounds only touch the driver.\<close>

definition same_work :: "expander \<Rightarrow> expander \<Rightarrow> bool" where
  "same_work x y \<longleftrightarrow> xp_done y = xp_done x \<and> xp_pending y = xp_pending x \<and> xp_new y = xp_new x"

interpretation bounds: frame_pair same_work "\<lambda>_ _. True"
  by unfold_locales (auto simp: same_work_def)

lemma bounds_frame: "frame same_work (\<lambda>_ _. True) (for_each (check_bound ds \<sigma> l) bs)"
proof (rule bounds.frame_for_each)
  fix b
  have report: "frame same_work (\<lambda>_ _. True) (on_driver m)" for m :: "(driver, unit) prog"
    by (auto simp: frame_def on_driver_def on_field_def same_work_def split: outcome.split)
  show "frame same_work (\<lambda>_ _. True) (check_bound ds \<sigma> l b)"
    unfolding check_bound_def by (intro bounds.frame_case_option bounds.frame_guarded bounds.frame_ret report)
qed

text \<open>\<open>added D c x y\<close>: from \<open>x\<close> to \<open>y\<close> the expansion has added the rewritten copy of \<open>c\<close>.\<close>

definition fixed_copy :: "decl \<Rightarrow> decl \<Rightarrow> bool" where
  "fixed_copy c d \<longleftrightarrow> concrete_name d = concrete_name c \<and>
     decl_types False d = map fixed_te (decl_types False c)"

definition added :: "decl \<Rightarrow> expander \<Rightarrow> expander \<Rightarrow> bool" where
  "added c x y \<longleftrightarrow> xp_done y = xp_done x \<and>
     (\<exists>ks. xp_pending y = xp_pending x @ ks \<and> honest ks \<and>
       map request_of ks = needs (xp_done x) (decl_types False c)) \<and>
     (\<exists>d. xp_new y = xp_new x @ [d] \<and> fixed_copy c d)"

lemma add_concrete_result: "\<exists>y. add_concrete c x = Returned () y \<and> added c x y"
proof -
  obtain d ks where run: "\<forall>p. fix_decl (xp_done x) False c p = Returned d (p @ ks)"
    and d: "fixed_copy c d" and ks: "map request_of ks = needs (xp_done x) (decl_types False c)" "honest ks"
    using collects_decl [of "xp_done x" False c]
    by (auto simp: collects_def fixed_copy_def honest_def new_key_def)
  have "add_concrete c x = Returned () (x\<lparr>xp_pending := xp_pending x @ ks, xp_new := xp_new x @ [d]\<rparr>)"
    by (simp add: add_concrete_def on_pending_def on_field_def bind_s_def gets_def modify_def run)
  then show ?thesis using d ks by (auto simp: added_def)
qed

lemma bounded_concrete:
  assumes "then_s (for_each (check_bound ds \<sigma> l) bs) (add_concrete c) x = Returned u y"
  shows "added c x y"
proof -
  obtain v z where z: "for_each (check_bound ds \<sigma> l) bs x = Returned v z" and y: "add_concrete c z = Returned u y"
    using assms by (auto simp: then_s_def bind_s_def split: outcome.splits)
  have "same_work x z" using frame_Returned [OF bounds_frame z] .
  then show ?thesis using add_concrete_result [of c z] y by (auto simp: added_def same_work_def)
qed

definition marked :: "inst_key \<Rightarrow> expander \<Rightarrow> expander" where
  "marked k x = x\<lparr>xp_done := insert (k_mangled k) (xp_done x)\<rparr>"

lemma process_key_eq:
  "process_key ts ds k x = (if k_mangled k \<in> xp_done x then Returned () x
     else (case fst ts (k_generic_name k) of
         Some c \<Rightarrow> instantiate_class ds c k
       | None \<Rightarrow> (case snd ts (k_generic_name k) of Some f \<Rightarrow> instantiate_func ds f k | None \<Rightarrow> ret ()))
       (marked k x))"
  by (simp add: process_key_def bind_s_def gets_def then_s_def modify_def ret_def marked_def)

lemma process_key_result:
  assumes "process_key ts ds k x = Returned u y" and k: "k_mangled k = mangled (request_of k)"
  shows "if k_mangled k \<in> xp_done x then y = x
    else case instance_of ts (request_of k) of None \<Rightarrow> y = marked k x | Some c \<Rightarrow> added c (marked k x) y"
proof -
  have cls: "if length (c_type_params c) \<noteq> length (k_type_args k) then y = z
      else added (ClassDecl (clone_class_decl c (k_mangled k) (subst_of (c_type_params c) (k_type_args k)))) z y"
    if "instantiate_class ds c k z = Returned v y" for c z v
    using that by (auto simp: instantiate_class_def Let_def ret_def dest: bounded_concrete split: if_splits)
  have func: "if length (f_type_params f) \<noteq> length (k_type_args k) then y = z
      else added (FunctionDecl (clone_generic_func f (k_mangled k) (subst_of (f_type_params f) (k_type_args k)))) z y"
    if "instantiate_func ds f k z = Returned v y" for f z v
    using that by (auto simp: instantiate_func_def Let_def ret_def dest: bounded_concrete split: if_splits)
  have parts: "fst (request_of k) = k_generic_name k" "snd (request_of k) = k_type_args k"
    by (simp_all add: request_of_def)
  show ?thesis
    using assms(1)
    by (auto simp: process_key_eq instance_of_def ret_def k parts split: if_splits option.splits
        dest!: cls func)
qed

text \<open>
  The specification: \<open>rs\<close> are the requests served so far, one per mangled name, in order, all of them
  wanted; the new declarations are the rewritten copies; what the copies apply is made or pending.
\<close>

definition served :: "expander \<Rightarrow> type_expr list \<Rightarrow> bool" where
  "served x tes \<longleftrightarrow> (\<forall>te\<in>set tes. mangled ` set (applications te) \<subseteq> xp_done x \<union> k_mangled ` set (xp_pending x))"

definition copied :: "expander \<Rightarrow> decl \<Rightarrow> decl \<Rightarrow> bool" where
  "copied x c d \<longleftrightarrow> fixed_copy c d \<and> served x (decl_types False c)"

definition pending_wanted :: "templates \<Rightarrow> request set \<Rightarrow> inst_key list \<Rightarrow> bool" where
  "pending_wanted ts R ks \<longleftrightarrow> honest ks \<and> (\<forall>k\<in>set ks. wanted ts R (request_of k))"

definition expanded :: "templates \<Rightarrow> request set \<Rightarrow> request list \<Rightarrow> expander \<Rightarrow> bool" where
  "expanded ts R rs x \<longleftrightarrow> distinct (map mangled rs) \<and> xp_done x = mangled ` set rs \<and>
     (\<forall>r\<in>set rs. wanted ts R r) \<and> pending_wanted ts R (xp_pending x) \<and>
     list_all2 (copied x) (List.map_filter (instance_of ts) rs) (xp_new x)"

definition progress :: "expander \<Rightarrow> expander \<Rightarrow> bool" where
  "progress x y \<longleftrightarrow> xp_done x \<union> k_mangled ` set (xp_pending x) \<subseteq> xp_done y \<union> k_mangled ` set (xp_pending y)"

lemma pending_wanted_append [simp]:
  "pending_wanted ts R (ks @ ls) \<longleftrightarrow> pending_wanted ts R ks \<and> pending_wanted ts R ls"
  "pending_wanted ts R [k] \<longleftrightarrow> k_mangled k = mangled (request_of k) \<and> wanted ts R (request_of k)"
  "pending_wanted ts R []"
  by (auto simp: pending_wanted_def)

lemma progress_trans: "progress x y \<Longrightarrow> progress y z \<Longrightarrow> progress x z"
  unfolding progress_def by (rule subset_trans)

lemma served_progress: "served x tes \<Longrightarrow> progress x y \<Longrightarrow> served y tes"
  unfolding served_def progress_def by blast

lemma needs_served:
  assumes ks: "map request_of ks = needs D tes" "honest ks"
    and y: "D \<subseteq> xp_done y" "set ks \<subseteq> set (xp_pending y)"
  shows "served y tes"
proof -
  have "request_of ` set ks = set (needs D tes)" using ks by (metis set_map)
  moreover have "k_mangled ` set ks = mangled ` (request_of ` set ks)"
    using ks(2) by (force simp: honest_def)
  ultimately have names: "k_mangled ` set ks = mangled ` set (needs D tes)" by simp
  have "mangled r \<in> xp_done y \<union> k_mangled ` set (xp_pending y)" if "te \<in> set tes" "r \<in> set (applications te)" for te r
  proof (cases "mangled r \<in> D")
    case False
    then have "r \<in> set (needs D tes)" using that by (auto simp: needs_def)
    then show ?thesis using names y(2) by blast
  qed (use y(1) in blast)
  then show ?thesis by (auto simp: served_def)
qed

lemma copies_progress:
  "list_all2 (copied x) cs ds \<Longrightarrow> progress x y \<Longrightarrow> list_all2 (copied y) cs ds"
  by (erule list_all2_mono) (auto simp: copied_def intro: served_progress)

lemma map_filter_snoc: "List.map_filter f (xs @ [x]) =
    List.map_filter f xs @ (case f x of None \<Rightarrow> [] | Some y \<Rightarrow> [y])"
  by (induction xs) (auto simp: List.map_filter_simps split: option.split)

lemma wanted_copies:
  assumes "wanted ts R r" "instance_of ts r = Some c" "map request_of ks = needs D (decl_types False c)" "honest ks"
  shows "pending_wanted ts R ks"
proof -
  have "request_of ` set ks = set (needs D (decl_types False c))" using assms(3) by (metis set_map)
  then have "\<exists>te\<in>set (decl_types False c). request_of k \<in> set (applications te)" if "k \<in> set ks" for k
    using that by (auto simp: needs_def)
  then show ?thesis using assms(1,2,4) by (auto simp: pending_wanted_def intro: wanted_inside)
qed

text \<open>One round: either the key is a duplicate and the list gets shorter, or a name is finished.\<close>

lemma expanded_step:
  assumes x: "expanded ts R rs x" and p: "xp_pending x = p @ [k]"
    and run: "process_key ts ds k (x\<lparr>xp_pending := p\<rparr>) = Returned u y"
  shows "progress x y \<and> (y = x\<lparr>xp_pending := p\<rparr> \<and> expanded ts R rs y
    \<or> mangled (request_of k) \<notin> xp_done x \<and> expanded ts R (rs @ [request_of k]) y)"
proof (cases "k_mangled k \<in> xp_done x")
  case True
  have y: "y = x\<lparr>xp_pending := p\<rparr>" using process_key_result [OF run] True x p by (simp add: expanded_def)
  have "progress x y" using True y p by (auto simp: progress_def)
  then show ?thesis using x y p by (auto simp: expanded_def intro: copies_progress)
next
  case False
  let ?z = "marked k (x\<lparr>xp_pending := p\<rparr>)" and ?r = "request_of k"
  have k: "k_mangled k = mangled ?r" "wanted ts R ?r" using x p by (simp_all add: expanded_def)
  have step: "case instance_of ts ?r of None \<Rightarrow> y = ?z | Some c \<Rightarrow> added c ?z y"
    using process_key_result [OF run k(1)] False by simp
  then have "progress ?z y" by (auto simp: added_def progress_def split: option.splits)
  moreover have "progress x ?z" using p by (auto simp: progress_def marked_def)
  ultimately have xy: "progress x y" by (blast intro: progress_trans)
  have names: "distinct (map mangled (rs @ [?r]))" "xp_done y = mangled ` set (rs @ [?r])"
    using x k False step by (auto simp: expanded_def marked_def added_def split: option.splits)
  have old: "list_all2 (copied y) (List.map_filter (instance_of ts) rs) (xp_new x)"
    using x xy by (auto simp: expanded_def intro: copies_progress)
  have "list_all2 (copied y) (List.map_filter (instance_of ts) (rs @ [?r])) (xp_new y)
    \<and> pending_wanted ts R (xp_pending y)"
  proof (cases "instance_of ts ?r")
    case None
    then show ?thesis using old step x p by (simp add: map_filter_snoc marked_def expanded_def)
  next
    case (Some c)
    then obtain ks d where y: "xp_new y = xp_new x @ [d]" "fixed_copy c d"
      "xp_pending y = p @ ks" "map request_of ks = needs (xp_done y) (decl_types False c)" "honest ks"
      using step by (auto simp: added_def marked_def)
    then have "served y (decl_types False c)" by (auto intro: needs_served)
    then show ?thesis
      using old y Some x p wanted_copies [OF k(2) Some y(4,5)]
      by (simp add: map_filter_snoc list_all2_appendI expanded_def copied_def)
  qed
  with names xy k x False show ?thesis by (simp add: expanded_def)
qed

text \<open>A round ends: it goes on or throws the error limit.\<close>

definition ends :: "('s, 'a) prog \<Rightarrow> bool" where
  "ends m \<longleftrightarrow> (\<forall>x. m x \<noteq> Looping \<and> m x \<noteq> NullDeref)"

lemma ends_bind: "ends m \<Longrightarrow> (\<And>a. ends (f a)) \<Longrightarrow> ends (bind_s m f)"
  by (auto simp: ends_def bind_s_def split: outcome.split)

lemma ends_then: "ends m \<Longrightarrow> ends n \<Longrightarrow> ends (then_s m n)"
  unfolding then_s_def by (rule ends_bind)

lemma ends_ret: "ends (ret a)"
  by (simp add: ends_def ret_def)

lemma ends_simple: "ends (gets f)" "ends (modify g)"
  by (simp_all add: ends_def gets_def modify_def)

lemma ends_driver_error: "ends (driver_error l msg)"
  by (auto simp: ends_def driver_defs prog_defs split: outcome.splits if_splits)

lemma ends_check_bound: "ends (check_bound ds \<sigma> l b)"
proof -
  have "ends (on_driver m)" if "ends m" for m :: "(driver, unit) prog"
    using that by (auto simp: ends_def on_driver_def on_field_def split: outcome.split)
  then show ?thesis
    by (auto simp: check_bound_def guarded_def intro!: ends_ret ends_driver_error split: option.split)
qed

lemma ends_bounds: "ends (for_each (check_bound ds \<sigma> l) bs)"
  by (induction bs) (auto intro: ends_then ends_ret ends_check_bound)

lemma ends_concrete: "ends (add_concrete c)"
  unfolding ends_def using add_concrete_result [of c] by (metis outcome.distinct(3,5))

lemma ends_process_key: "ends (process_key ts ds k)"
  unfolding process_key_def instantiate_class_def instantiate_func_def Let_def
  by (auto intro!: ends_bind ends_then ends_ret ends_simple ends_bounds ends_concrete split: option.split)

lemma expand_round_step:
  assumes "expand_round ts ds x = Inr y" and "expanded ts R rs x"
  shows "\<exists>qs. expanded ts R qs y \<and> progress x y \<and>
    (xp_done y = xp_done x \<and> length (xp_pending y) < length (xp_pending x) \<or> xp_done x \<subset> xp_done y)"
proof -
  from assms(1) obtain v where ne: "xp_pending x \<noteq> []"
    and run: "process_key ts ds (last (xp_pending x)) (x\<lparr>xp_pending := butlast (xp_pending x)\<rparr>) = Returned v y"
    by (auto simp: expand_round_def split: if_splits outcome.splits)
  let ?r = "request_of (last (xp_pending x))"
  have "xp_pending x = butlast (xp_pending x) @ [last (xp_pending x)]" using ne by simp
  from expanded_step [OF assms(2) this run] show ?thesis
  proof (elim conjE disjE)
    assume "progress x y" "y = x\<lparr>xp_pending := butlast (xp_pending x)\<rparr>" "expanded ts R rs y"
    then show ?thesis using ne by (intro exI [of _ rs]) simp
  next
    assume "progress x y" "mangled ?r \<notin> xp_done x" "expanded ts R (rs @ [?r]) y"
    moreover from this assms(2) have "xp_done x \<subset> xp_done y" by (auto simp: expanded_def)
    ultimately show ?thesis by blast
  qed
qed

lemma expand_all_expanded:
  assumes run: "expand_all ts ds x = Returned u y" and "expanded ts R rs x"
  shows "xp_pending y = [] \<and> progress x y \<and> (\<exists>rs. expanded ts R rs y)"
proof -
  have "iter_until (expand_round ts ds) x = Some (Returned u y)"
    using run by (simp add: expand_all_def split: option.splits)
  then have "\<forall>v z. Returned u y = Returned v z \<longrightarrow> xp_pending z = [] \<and> progress x z \<and> (\<exists>rs. expanded ts R rs z)"
  proof (rule iter_until_rule [where P = "\<lambda>z. progress x z \<and> (\<exists>rs. expanded ts R rs z)"])
    show "progress x x \<and> (\<exists>rs. expanded ts R rs x)" using assms(2) by (auto simp: progress_def)
  next
    fix z z'
    assume "progress x z \<and> (\<exists>rs. expanded ts R rs z)" "expand_round ts ds z = Inr z'"
    then show "progress x z' \<and> (\<exists>rs. expanded ts R rs z')" by (blast dest: expand_round_step intro: progress_trans)
  next
    fix z q
    assume "progress x z \<and> (\<exists>rs. expanded ts R rs z)" "expand_round ts ds z = Inl q"
    then show "\<forall>v z. q = Returned v z \<longrightarrow> xp_pending z = [] \<and> progress x z \<and> (\<exists>rs. expanded ts R rs z)"
      by (auto simp: expand_round_def split: if_splits outcome.splits)
  qed
  then show ?thesis by simp
qed

text \<open>When finitely many names are wanted, the work list becomes empty.\<close>

lemma expand_all_returns:
  assumes "expanded ts R rs x" and fin: "finite (mangled ` {r. wanted ts R r})"
  shows "expand_all ts ds x \<noteq> Looping"
proof -
  let ?N = "mangled ` {r. wanted ts R r}"
  let ?m = "\<lambda>x. (card (?N - xp_done x), length (xp_pending x))"
  have "\<exists>r. iter_until (expand_round ts ds) x = Some r"
  proof (rule iter_until_wf [where P = "\<lambda>x. \<exists>rs. expanded ts R rs x" and R = "inv_image (less_than <*lex*> less_than) ?m"])
    fix x y
    assume "\<exists>rs. expanded ts R rs x" "expand_round ts ds x = Inr y"
    then obtain qs where y: "expanded ts R qs y" and less: "xp_done y = xp_done x \<and>
        length (xp_pending y) < length (xp_pending x) \<or> xp_done x \<subset> xp_done y"
      by (blast dest: expand_round_step)
    have "xp_done y \<subseteq> ?N" using y by (auto simp: expanded_def)
    then have "?N - xp_done y \<subset> ?N - xp_done x" if "xp_done x \<subset> xp_done y" using that by blast
    then have "card (?N - xp_done y) < card (?N - xp_done x)" if "xp_done x \<subset> xp_done y"
      using that fin by (simp add: psubset_card_mono)
    then show "(\<exists>rs. expanded ts R rs y) \<and> (y, x) \<in> inv_image (less_than <*lex*> less_than) ?m"
      using y less by auto
  qed (use assms(1) in auto)
  moreover have "r \<noteq> Looping" if "iter_until (expand_round ts ds) x = Some r" for r
    using that by (rule iter_until_rule [where P = "\<lambda>x. True"])
      (use ends_process_key in \<open>auto simp: expand_round_def ends_def split: if_splits outcome.splits\<close>)
  ultimately show ?thesis by (auto simp: expand_all_def)
qed

lemma expand_all_no_crash: "expand_all ts ds x \<noteq> NullDeref"
proof -
  have "r \<noteq> NullDeref" if "iter_until (expand_round ts ds) x = Some r" for r
    using that by (rule iter_until_rule [where P = "\<lambda>x. True"])
      (use ends_process_key in \<open>auto simp: expand_round_def ends_def split: if_splits outcome.splits\<close>)
  then show ?thesis by (auto simp: expand_all_def split: option.split)
qed

section \<open>The pass\<close>

definition program_types :: "program \<Rightarrow> type_expr list" where
  "program_types p = concat (map (decl_types True) (prog_decls p)) @ concat (map stmt_types (prog_stmts p))"

definition program_requests :: "program \<Rightarrow> request set" where
  "program_requests p = set (concat (map applications (program_types p)))"

definition templates_of :: "program \<Rightarrow> templates" where
  "templates_of p = collect_templates (prog_decls p) (Map.empty, Map.empty)"

lemma needs_nothing_done: "needs {} tes = concat (map applications tes)"
  by (simp add: needs_def)

lemma expand_program_start:
  obtains ds sts ks where
    "expand_program p (start_expander d) =
       (then_s (expand_all (templates_of p) ds) (bind_s (gets xp_new) (\<lambda>new.
         ret \<lparr>prog_decls = assemble new ds, prog_stmts = sts\<rparr>))) ((start_expander d)\<lparr>xp_pending := ks\<rparr>)"
    and "concat (map (decl_types True) ds) @ concat (map stmt_types sts) = map fixed_te (program_types p)"
    and "expanded (templates_of p) (program_requests p) [] ((start_expander d)\<lparr>xp_pending := ks\<rparr>)"
    and "mangled ` program_requests p = k_mangled ` set ks"
proof -
  have one: "rewriting {} (fix_decl {} True d) (decl_types True) (decl_types True d)" for d
    by (rule collects_post [OF collects_decl]) simp
  have "rewriting {} (map_s (fix_decl {} True) (prog_decls p)) (\<lambda>ds. concat (map (decl_types True) ds))
      (concat (map (decl_types True) (prog_decls p)))"
    by (rule rewriting_concat) (rule one)
  then obtain ds ks1 where ds: "\<forall>q. map_s (fix_decl {} True) (prog_decls p) q = Returned ds (q @ ks1)"
      "concat (map (decl_types True) ds) = map fixed_te (concat (map (decl_types True) (prog_decls p)))"
      "map request_of ks1 = needs {} (concat (map (decl_types True) (prog_decls p)))" "\<forall>k\<in>set ks1. new_key {} k"
    unfolding collects_def by blast
  have "rewriting {} (map_s (fix_stmt {}) (prog_stmts p)) (\<lambda>sts. concat (map stmt_types sts))
      (concat (map stmt_types (prog_stmts p)))"
    by (rule rewriting_concat) (rule rewriting_fix)
  then obtain sts ks2 where sts: "\<forall>q. map_s (fix_stmt {}) (prog_stmts p) q = Returned sts (q @ ks2)"
      "concat (map stmt_types sts) = map fixed_te (concat (map stmt_types (prog_stmts p)))"
      "map request_of ks2 = needs {} (concat (map stmt_types (prog_stmts p)))" "\<forall>k\<in>set ks2. new_key {} k"
    unfolding collects_def by blast
  let ?ks = "ks1 @ ks2"
  have "set (map request_of ?ks) = program_requests p"
    using ds(3) sts(3) by (simp add: program_requests_def program_types_def needs_nothing_done)
  then have requests: "request_of ` set ?ks = program_requests p" by (simp add: image_Un)
  have honest: "honest ?ks" using ds(4) sts(4) by (auto simp: honest_def new_key_def)
  have "k_mangled ` set ?ks = mangled ` request_of ` set ?ks"
    using honest by (force simp: honest_def)
  then have names: "mangled ` program_requests p = k_mangled ` set ?ks" using requests by simp
  have "wanted (templates_of p) (program_requests p) (request_of k)" if "k \<in> set ?ks" for k
    using that requests by (blast intro: wanted_given)
  then have start: "expanded (templates_of p) (program_requests p) [] ((start_expander d)\<lparr>xp_pending := ?ks\<rparr>)"
    using honest by (simp add: expanded_def pending_wanted_def start_expander_def List.map_filter_simps)
  have run: "expand_program p (start_expander d) =
       (then_s (expand_all (templates_of p) ds) (bind_s (gets xp_new) (\<lambda>new.
         ret \<lparr>prog_decls = assemble new ds, prog_stmts = sts\<rparr>))) ((start_expander d)\<lparr>xp_pending := ?ks\<rparr>)"
    using ds(1) sts(1)
    by (simp add: expand_program_def templates_of_def on_pending_def on_field_def bind_s_def gets_def start_expander_def)
  show thesis
    by (rule that [OF run _ start names]) (simp add: ds(2) sts(2) program_types_def)
qed



text \<open>
  C15. The expansion ends, with a program or at the error limit, when the program wants finitely many
  instances.
\<close>

theorem expansion_ends:
  assumes "finite (mangled ` {r. wanted (templates_of p) (program_requests p) r})"
  shows "(\<exists>p' d'. expand_generics p d = Returned p' d') \<or> (\<exists>d'. expand_generics p d = Thrown d')"
proof -
  obtain ds sts ks where run: "expand_program p (start_expander d) =
       (then_s (expand_all (templates_of p) ds) (bind_s (gets xp_new) (\<lambda>new.
         ret \<lparr>prog_decls = assemble new ds, prog_stmts = sts\<rparr>))) ((start_expander d)\<lparr>xp_pending := ks\<rparr>)"
    and start: "expanded (templates_of p) (program_requests p) [] ((start_expander d)\<lparr>xp_pending := ks\<rparr>)"
    by (rule expand_program_start)
  have "expand_all (templates_of p) ds ((start_expander d)\<lparr>xp_pending := ks\<rparr>) \<noteq> Looping"
    by (rule expand_all_returns [OF start assms])
  moreover have "expand_all (templates_of p) ds x \<noteq> NullDeref" for x
    by (rule expand_all_no_crash)
  ultimately show ?thesis
    by (auto simp: expand_generics_def run then_s_def bind_s_def gets_def ret_def split: outcome.split)
qed

section \<open>Two recursive templates\<close>

text \<open>\<open>class n<T> { te item; }\<close>, used by a variable of type \<open>n<int>\<close>.\<close>

definition nowhere :: source_loc where
  "nowhere = SourceLoc [] 1 1"

definition named :: "string \<Rightarrow> type_expr" where
  "named n = TypeExpr n False nowhere [] [] []"

definition applied :: "string \<Rightarrow> type_expr \<Rightarrow> type_expr" where
  "applied n te = TypeExpr n False nowhere [] [] [te]"

definition item_class :: "string \<Rightarrow> string list \<Rightarrow> type_expr \<Rightarrow> decl" where
  "item_class n ps te = ClassDecl (MkClass nowhere [] n ps [] [] [MkMember AccessPublic []
     (Some (FieldDecl \<lparr>fd_loc = nowhere, fd_type = te, fd_name = ''item'', fd_init = None, fd_is_static = False\<rparr>))])"

definition item_program :: "string \<Rightarrow> type_expr \<Rightarrow> program" where
  "item_program n te = \<lparr>prog_decls = [item_class n [''T''] te],
     prog_stmts = [VarDeclStmt nowhere (applied n (named ''int'')) False False False [VarInit ''x'' NoExpr]]\<rparr>"

lemmas item_defs = item_program_def item_class_def applied_def named_def

text \<open>\<open>class List<T> { List<T> item; }\<close>.\<close>

definition list_program :: program where
  "list_program = item_program ''List'' (applied ''List'' (named ''T''))"

lemma list_wanted: "wanted (templates_of list_program) (program_requests list_program) r \<Longrightarrow>
    r = (''List'', [named ''int''])"
proof (induction rule: wanted.induct)
  case (wanted_given r)
  then show ?case
    by (simp add: program_requests_def program_types_def list_program_def item_defs)
next
  case (wanted_inside r c te q)
  have "templates_of list_program = ([''List'' \<mapsto> MkClass nowhere [] ''List'' [''T''] [] [] [MkMember AccessPublic []
      (Some (FieldDecl \<lparr>fd_loc = nowhere, fd_type = applied ''List'' (named ''T''), fd_name = ''item'',
         fd_init = None, fd_is_static = False\<rparr>))]], Map.empty)"
    by (simp add: templates_of_def list_program_def item_program_def item_class_def)
  then show ?case
    using wanted_inside
    by (auto simp: instance_of_def clone_class_decl_def clone_member_def clone_field_decl_def subst_of_def member_types_def applied_def named_def)
qed

lemma expansion_ends_witness:
  "\<exists>d p' d'. expand_generics list_program d = Returned p' d' \<or> expand_generics list_program d = Thrown d'"
proof -
  have "{r. wanted (templates_of list_program) (program_requests list_program) r} \<subseteq> {(''List'', [named ''int''])}"
    using list_wanted by auto
  then have "finite (mangled ` {r. wanted (templates_of list_program) (program_requests list_program) r})"
    by (intro finite_imageI) (erule finite_subset, simp)
  then show ?thesis using expansion_ends [of list_program] by blast
qed

text \<open>One instance is made, \<open>class List__int { List__int item; }\<close>.\<close>

definition list_key :: inst_key where
  "list_key = \<lparr>k_generic_name = ''List'', k_type_args = [named ''int''], k_mangled = ''List__int'', k_loc = nowhere\<rparr>"

definition list_result :: expander where
  "list_result = (start_expander new_driver)\<lparr>xp_done := {''List__int''},
     xp_new := [item_class ''List__int'' [] (named ''List__int'')]\<rparr>"

lemma expand_all_fuel: "iter_fuel n (expand_round ts ds) x = Some r \<Longrightarrow> expand_all ts ds x = r"
  by (simp add: expand_all_def iter_fuel_until)

lemma list_expanded:
  "expand_program list_program (start_expander new_driver) = Returned
     \<lparr>prog_decls = [item_class ''List__int'' [] (named ''List__int'')],
      prog_stmts = [VarDeclStmt nowhere (named ''List__int'') False False False [VarInit ''x'' NoExpr]]\<rparr> list_result"
proof -
  have decls: "map_s (fix_decl {} True) (prog_decls list_program) [] = Returned (prog_decls list_program) []"
    by code_simp
  have stmts: "map_s (fix_stmt {}) (prog_stmts list_program) [] = Returned
      [VarDeclStmt nowhere (named ''List__int'') False False False [VarInit ''x'' NoExpr]] [list_key]"
    by code_simp
  have all: "expand_all (collect_templates (prog_decls list_program) (Map.empty, Map.empty)) (prog_decls list_program)
      ((start_expander new_driver)\<lparr>xp_pending := [list_key]\<rparr>) = Returned () list_result"
    by (rule expand_all_fuel [of 2]) code_simp
  have "assemble (xp_new list_result) (prog_decls list_program) = [item_class ''List__int'' [] (named ''List__int'')]"
    by code_simp
  then show ?thesis
    using decls stmts all
    by (simp add: expand_program_def on_pending_def prog_defs start_expander_def)
qed


section \<open>Divergence\<close>

text \<open>\<open>class A<T> { A<A<T>> item; }\<close>.\<close>

definition grow_program :: program where
  "grow_program = item_program ''A'' (applied ''A'' (applied ''A'' (named ''T'')))"

definition grow_key :: inst_key where
  "grow_key = \<lparr>k_generic_name = ''A'', k_type_args = [named ''int''], k_mangled = ''A__int'', k_loc = nowhere\<rparr>"

text \<open>In every round one key for a longer name is pending, and no finished name is that long.\<close>

definition growing :: "expander \<Rightarrow> bool" where
  "growing x \<longleftrightarrow> (\<exists>te k. xp_pending x = [k] \<and> k_generic_name k = ''A'' \<and> k_type_args k = [te] \<and>
     te_fn_params te = [] \<and> te_type_args te = [] \<and> k_mangled k = ''A__'' @ te_name te \<and>
     (\<forall>n\<in>xp_done x. length n \<le> length (te_name te)))"

definition grow_copy :: "type_expr \<Rightarrow> decl" where
  "grow_copy te = ClassDecl (clone_class_decl (MkClass nowhere [] ''A'' [''T''] [] [] [MkMember AccessPublic []
     (Some (FieldDecl \<lparr>fd_loc = nowhere, fd_type = applied ''A'' (applied ''A'' (named ''T'')), fd_name = ''item'',
        fd_init = None, fd_is_static = False\<rparr>))]) (''A__'' @ te_name te) [''T'' \<mapsto> te])"

lemma grow_copy_types: "te_type_args te = [] \<Longrightarrow> te_fn_params te = [] \<Longrightarrow>
    concat (map applications (decl_types False (grow_copy te))) =
    [(''A'', [fixed_te (subst_te [''T'' \<mapsto> te] (named ''T''))]),
     (''A'', [TypeExpr (''A__'' @ te_name te) False nowhere [] [] []])]"
  by (simp add: grow_copy_def clone_class_decl_def clone_member_def clone_field_decl_def member_types_def
      applied_def named_def)

lemma growing_round:
  assumes "growing x"
  shows "\<exists>y. growing y \<and> expand_round (templates_of grow_program) ds x = Inr y"
proof -
  obtain te k where k: "xp_pending x = [k]" "k_generic_name k = ''A''" "k_type_args k = [te]"
      "te_type_args te = []" "te_fn_params te = []" "k_mangled k = ''A__'' @ te_name te"
    and short: "\<forall>n\<in>xp_done x. length n \<le> length (te_name te)"
    using assms by (auto simp: growing_def)
  let ?z = "marked k (x\<lparr>xp_pending := []\<rparr>)"
  obtain y where y: "add_concrete (grow_copy te) ?z = Returned () y" "added (grow_copy te) ?z y"
    using add_concrete_result by blast
  have fresh: "k_mangled k \<notin> xp_done x" "''A__'' @ k_mangled k \<notin> xp_done y"
    using short k(6) y(2) by (force simp: added_def marked_def)+
  have "process_key (templates_of grow_program) ds k (x\<lparr>xp_pending := []\<rparr>) = Returned () y"
    using fresh(1) k y(1)
    by (simp add: process_key_eq instantiate_class_def templates_of_def grow_program_def item_program_def
        item_class_def subst_of_def grow_copy_def)
  moreover have "growing y"
  proof -
    obtain ks where ks: "xp_pending y = ks" "honest ks" "map request_of ks = needs (xp_done ?z) (decl_types False (grow_copy te))"
      and finished: "xp_done y = insert (k_mangled k) (xp_done x)"
      using y(2) by (auto simp: added_def marked_def)
    have "needs (xp_done ?z) (decl_types False (grow_copy te)) = [(''A'', [TypeExpr (k_mangled k) False nowhere [] [] []])]"
      using fresh(2) finished k(4-6) by (simp add: needs_def grow_copy_types marked_def named_def)
    then obtain q where q: "ks = [q]" "request_of q = (''A'', [TypeExpr (k_mangled k) False nowhere [] [] []])"
      using ks(3) by (auto simp: map_eq_Cons_conv)
    then show ?thesis
      using ks short finished k(6) by (fastforce simp: growing_def request_of_def)
  qed
  ultimately show ?thesis using k(1) by (auto simp: expand_round_def)
qed

text \<open>
  A class template that uses itself at a larger type never stops expanding:
  \<open>class A<T> { A<A<T>> item; }\<close> used at \<open>A<int>\<close> sends the compiler into an endless loop.
\<close>

theorem growing_templates_hang: "expand_generics grow_program d = Looping"
proof -
  let ?ds = "prog_decls grow_program"
  have "map_s (fix_decl {} True) ?ds [] = Returned ?ds []" by code_simp
  moreover have "map_s (fix_stmt {}) (prog_stmts grow_program) [] = Returned
      [VarDeclStmt nowhere (named ''A__int'') False False False [VarInit ''x'' NoExpr]] [grow_key]"
    by code_simp
  moreover have "growing ((start_expander d)\<lparr>xp_pending := [grow_key]\<rparr>)"
    by (simp add: growing_def grow_key_def start_expander_def named_def)
  then have looping: "iter_until (expand_round (templates_of grow_program) ?ds) ((start_expander d)\<lparr>xp_pending := [grow_key]\<rparr>) = None"
    using growing_round by (intro iter_until_diverges [where S = "Collect growing"]) auto
  ultimately have "expand_program grow_program (start_expander d) = Looping"
    by (simp add: expand_program_def expand_all_def on_pending_def prog_defs start_expander_def templates_of_def)
  moreover have "\<exists>dc\<in>set ?ds. has_template dc" by code_simp
  ultimately show ?thesis by (simp add: expand_generics_def)
qed

end
