(* ===== verification/Pipeline.thy ===== *)
theory Pipeline
  imports Sema_Decl Expand
begin

text \<open>
  The command line and the front half of \<open>main\<close> (\<^verbatim>\<open>src/main.cpp\<close>): options, the loading of
  library modules, and the sequence parse, expand, check that decides the exit status. The
  parser and the file system are a parameter: what a module path loads to. Code generation and
  linking are not modelled.
\<close>

section \<open>Options\<close>

record options =
  o_input :: string
  o_output :: string
  o_dump_ast :: bool
  o_check :: bool
  o_emit_ir :: bool
  o_emit_obj :: bool
  o_compile :: bool
  o_debug_info :: bool
  o_opt_level :: nat
  o_trace_lex :: bool
  o_trace_parse :: bool
  o_repl :: bool
  o_help :: bool
  o_version :: bool

definition default_options :: options where
  "default_options = \<lparr>o_input = [], o_output = [], o_dump_ast = False, o_check = False,
     o_emit_ir = False, o_emit_obj = False, o_compile = False, o_debug_info = False,
     o_opt_level = 0, o_trace_lex = False, o_trace_parse = False, o_repl = False,
     o_help = False, o_version = False\<rparr>"

text \<open>An option that takes no value; anything else is handled by \<open>parse_args\<close>.\<close>

definition flag :: "string \<Rightarrow> (options \<Rightarrow> options) option" where
  "flag = map_of [
     (''--dump-ast'', \<lambda>o1. o1\<lparr>o_dump_ast := True\<rparr>),
     (''--check'', \<lambda>o1. o1\<lparr>o_check := True\<rparr>),
     (''--emit-ir'', \<lambda>o1. o1\<lparr>o_emit_ir := True\<rparr>),
     (''--emit-obj'', \<lambda>o1. o1\<lparr>o_emit_obj := True\<rparr>),
     (''--compile'', \<lambda>o1. o1\<lparr>o_compile := True\<rparr>),
     (''--repl'', \<lambda>o1. o1\<lparr>o_repl := True\<rparr>),
     (''-g'', \<lambda>o1. o1\<lparr>o_debug_info := True\<rparr>),
     (''-O0'', \<lambda>o1. o1\<lparr>o_opt_level := 0\<rparr>),
     (''-O1'', \<lambda>o1. o1\<lparr>o_opt_level := 1\<rparr>),
     (''-O2'', \<lambda>o1. o1\<lparr>o_opt_level := 2\<rparr>),
     (''-O3'', \<lambda>o1. o1\<lparr>o_opt_level := 3\<rparr>),
     (''--trace-lex'', \<lambda>o1. o1\<lparr>o_trace_lex := True\<rparr>),
     (''--trace-parse'', \<lambda>o1. o1\<lparr>o_trace_parse := True\<rparr>),
     (''--version'', \<lambda>o1. o1\<lparr>o_version := True\<rparr>),
     (''-h'', \<lambda>o1. o1\<lparr>o_help := True\<rparr>),
     (''--help'', \<lambda>o1. o1\<lparr>o_help := True\<rparr>)]"

text \<open>The arguments after the program name; the second result is what goes to standard error.\<close>

fun parse_args :: "string list \<Rightarrow> options \<Rightarrow> string \<Rightarrow> options \<times> string" where
  "parse_args [] opts e = (opts, e)"
| "parse_args (a # rest) opts e =
     (case flag a of
        Some f \<Rightarrow> parse_args rest (f opts) e
      | None \<Rightarrow>
          if a = ''-o'' then
            (case rest of
               [] \<Rightarrow> (opts, e)
             | v # rest' \<Rightarrow> parse_args rest' (opts\<lparr>o_output := v\<rparr>) e)
          else if take 2 a = ''-o'' then parse_args rest (opts\<lparr>o_output := drop 2 a\<rparr>) e
          else if take 1 a = ''-'' then
            parse_args rest (opts\<lparr>o_help := True\<rparr>) (e @ ''dux: unknown option: '' @ a @ newline)
          else parse_args rest (opts\<lparr>o_input := a\<rparr>) e)"

section \<open>Loading library modules\<close>

definition import_path :: "decl \<Rightarrow> string option" where
  "import_path d = (case d of
       ImportDecl im \<Rightarrow> if im_path im \<noteq> [] then Some (im_path im) else None
     | _ \<Rightarrow> None)"

definition import_paths :: "program \<Rightarrow> string list" where
  "import_paths p = List.map_filter import_path (prog_decls p)"

text \<open>Dots become slashes: \<open>io.path\<close> is the file \<open>io/path.dux\<close>.\<close>

definition module_file :: "string \<Rightarrow> string" where
  "module_file path = map (\<lambda>c. if c = CHR ''.'' then CHR ''/'' else c) path @ ''.dux''"

text \<open>
  \<open>load f\<close> is the program in file \<open>f\<close> below the library directory, \<open>None\<close> when the file does not
  exist or does not parse. The recursion goes into the loaded program, so it is bounded by
  \<open>fuel\<close>; \<open>None\<close> is running out of it. \<open>loaded\<close> is the set of module paths seen so far.
\<close>

fun merge_stdlib_imports ::
    "nat \<Rightarrow> (string \<Rightarrow> program option) \<Rightarrow> program \<Rightarrow> string set \<Rightarrow> (program \<times> string set) option"
  and merge_paths ::
    "nat \<Rightarrow> (string \<Rightarrow> program option) \<Rightarrow> string list \<Rightarrow> program \<Rightarrow> string set \<Rightarrow>
     (program \<times> string set) option" where
  "merge_stdlib_imports fuel load p loaded = merge_paths fuel load (import_paths p) p loaded"
| "merge_paths fuel load [] p loaded = Some (p, loaded)"
| "merge_paths fuel load (path # paths) p loaded =
     (if path \<in> loaded then merge_paths fuel load paths p loaded
      else case load (module_file path) of
        None \<Rightarrow> merge_paths fuel load paths p (insert path loaded)
      | Some sub \<Rightarrow> (case fuel of
            0 \<Rightarrow> None
          | Suc n \<Rightarrow> (case merge_stdlib_imports n load sub (insert path loaded) of
                None \<Rightarrow> None
              | Some (sub', loaded') \<Rightarrow>
                  merge_paths fuel load paths (p\<lparr>prog_decls := prog_decls sub' @ prog_decls p\<rparr>) loaded')))"

section \<open>From the parsed program to the exit status\<close>

definition need_sema :: "options \<Rightarrow> bool" where
  "need_sema opts \<longleftrightarrow> o_check opts \<or> o_emit_ir opts \<or> o_emit_obj opts \<or> o_compile opts"

text \<open>A \<open>Sema\<close> on the driver; the result is its error count and the annotated program.\<close>

definition run_sema :: "program \<Rightarrow> (driver, nat \<times> program) prog" where
  "run_sema p d = (case run p (new_sema d) of
       Returned (ok, p') s \<Rightarrow> Returned (sema_errors s, p') (drv s)
     | Thrown s \<Rightarrow> Thrown (drv s)
     | Looping \<Rightarrow> Looping
     | NullDeref \<Rightarrow> NullDeref)"

text \<open>
  \<open>main\<close> from the loaded program to the status that decides whether code is generated. No
  handler is in place here, so \<open>Thrown\<close> ends the process in \<open>std::terminate\<close>.
\<close>

definition front_end :: "options \<Rightarrow> program \<Rightarrow> (driver, int \<times> program) prog" where
  "front_end opts p =
     bind_s (expand_generics p) (\<lambda>p1.
     if need_sema opts
     then bind_s (run_sema p1) (\<lambda>(errors, p2). ret (if 0 < errors then 1 else 0, p2))
     else ret (0, p1))"

end
