(* ===== verification/Pipeline_Properties.thy ===== *)
theory Pipeline_Properties
  imports Pipeline Expand_Properties Sema_Properties "HOL-Library.Sublist" "HOL-Library.Multiset"
begin

text \<open>
  The parts put together: what the loading of modules gives, how the expansion and the checker
  determine the exit status, and how the command line is read.
\<close>

section \<open>Loading modules\<close>

definition module_decls :: "(string \<Rightarrow> program option) \<Rightarrow> string \<Rightarrow> decl list" where
  "module_decls load m = (case load (module_file m) of None \<Rightarrow> [] | Some q \<Rightarrow> prog_decls q)"

definition module_imports :: "(string \<Rightarrow> program option) \<Rightarrow> string \<Rightarrow> string list" where
  "module_imports load m = (case load (module_file m) of None \<Rightarrow> [] | Some q \<Rightarrow> import_paths q)"

text \<open>\<open>merged load p L p' L'\<close>: \<open>p'\<close> is \<open>p\<close> after the modules in \<open>L'\<close> and not in \<open>L\<close>, each once.\<close>

definition merged ::
  "(string \<Rightarrow> program option) \<Rightarrow> string list \<Rightarrow> program \<Rightarrow> string set \<Rightarrow> program \<Rightarrow> string set \<Rightarrow> bool" where
  "merged load paths p L p' L' \<longleftrightarrow> L \<subseteq> L' \<and> set paths \<subseteq> L' \<and> finite (L' - L) \<and>
     prog_stmts p' = prog_stmts p \<and> suffix (prog_decls p) (prog_decls p') \<and>
     mset (prog_decls p') = mset (prog_decls p) + (\<Sum>m\<in>L' - L. mset (module_decls load m)) \<and>
     (\<forall>m\<in>L' - L. set (module_imports load m) \<subseteq> L')"

lemma merged_nil: "merged load [] p L p L"
  by (simp add: merged_def)

lemma merged_known: "path \<in> L \<Longrightarrow> merged load paths p L p' L' \<Longrightarrow> merged load (path # paths) p L p' L'"
  by (auto simp: merged_def)

lemma split_load:
  assumes "insert m L \<subseteq> M" "m \<notin> L" "M \<subseteq> L'" "finite (M - insert m L)" "finite (L' - M)"
  shows "finite (L' - L)"
    and "(\<Sum>x\<in>L' - L. f x) = f m + (\<Sum>x\<in>M - insert m L. f x) + (\<Sum>x\<in>L' - M. (f x :: 'b multiset))"
proof -
  have split: "L' - L = insert m ((M - insert m L) \<union> (L' - M))" using assms by blast
  have "m \<notin> (M - insert m L) \<union> (L' - M)" using assms by blast
  moreover have "(M - insert m L) \<inter> (L' - M) = {}" by blast
  ultimately show "(\<Sum>x\<in>L' - L. f x) = f m + (\<Sum>x\<in>M - insert m L. f x) + (\<Sum>x\<in>L' - M. f x)"
    using assms(4,5) by (simp add: split sum.union_disjoint add.assoc)
  show "finite (L' - L)" using assms(4,5) by (simp add: split)
qed

lemma merged_missing:
  assumes "path \<notin> L" "load (module_file path) = None" "merged load paths p (insert path L) p' L'"
  shows "merged load (path # paths) p L p' L'"
proof -
  have L': "insert path L \<subseteq> L'" "finite (L' - insert path L)" using assms(3) by (auto simp: merged_def)
  have "(\<Sum>m\<in>L' - L. mset (module_decls load m)) = (\<Sum>m\<in>L' - insert path L. mset (module_decls load m))"
    using split_load(2) [OF subset_refl assms(1) L'(1) _ L'(2), of "\<lambda>m. mset (module_decls load m)"] assms(2)
    by (simp add: module_decls_def)
  moreover have "finite (L' - L)" using split_load(1) [OF subset_refl assms(1) L'(1) _ L'(2)] by simp
  moreover have "set (module_imports load path) \<subseteq> L'" using assms(2) by (simp add: module_imports_def)
  ultimately show ?thesis using assms(3) by (auto simp: merged_def)
qed

lemma merged_loaded:
  assumes path: "path \<notin> L" "load (module_file path) = Some sub"
    and sub: "merged load (import_paths sub) sub (insert path L) sub' M"
    and rest: "merged load paths (p\<lparr>prog_decls := prog_decls sub' @ prog_decls p\<rparr>) M p' L'"
  shows "merged load (path # paths) p L p' L'"
proof -
  have M: "insert path L \<subseteq> M" "M \<subseteq> L'" "finite (M - insert path L)" "finite (L' - M)"
    using sub rest by (auto simp: merged_def)
  note split = split_load [OF M(1) path(1) M(2,3,4)]
  have "mset (prog_decls p') = mset (prog_decls p) + (\<Sum>m\<in>L' - L. mset (module_decls load m))"
    using sub rest path(2) split(2) [of "\<lambda>m. mset (module_decls load m)"]
    by (simp add: merged_def module_decls_def ac_simps)
  moreover have "suffix (prog_decls p) (prog_decls p')"
    using rest by (auto simp: merged_def suffix_def)
  moreover have "set (module_imports load path) \<subseteq> L'"
    using sub M path(2) by (auto simp: merged_def module_imports_def)
  moreover have "set (module_imports load m) \<subseteq> L'" if "m \<in> L' - L" "m \<noteq> path" for m
    using that sub rest M by (cases "m \<in> M") (auto 0 4 simp: merged_def)
  ultimately show ?thesis using split(1) sub rest M by (auto simp: merged_def)
qed

lemma merge_merged:
  shows "merge_stdlib_imports fuel load p L = Some (p', L') \<Longrightarrow> merged load (import_paths p) p L p' L'"
    and "merge_paths fuel load paths p L = Some (p', L') \<Longrightarrow> merged load paths p L p' L'"
proof (induction fuel load p L and fuel load paths p L arbitrary: p' L' and p' L'
    rule: merge_stdlib_imports_merge_paths.induct)
  case (3 fuel load path paths p L)
  show ?case
  proof (cases "path \<in> L")
    case True
    then show ?thesis using 3 by (auto intro: merged_known)
  next
    case False
    show ?thesis
    proof (cases "load (module_file path)")
      case None
      then show ?thesis using 3 False by (auto intro: merged_missing)
    next
      case (Some sub)
      then obtain n sub' M where n: "fuel = Suc n"
        and sub: "merge_stdlib_imports n load sub (insert path L) = Some (sub', M)"
        and rest: "merge_paths fuel load paths (p\<lparr>prog_decls := prog_decls sub' @ prog_decls p\<rparr>) M = Some (p', L')"
        using 3(5) False by (auto split: nat.splits option.splits)
      show ?thesis
      proof (rule merged_loaded)
        show "path \<notin> L" "load (module_file path) = Some sub" by fact+
        show "merged load (import_paths sub) sub (insert path L) sub' M"
          by (rule 3(3) [OF False Some n sub])
        show "merged load paths (p\<lparr>prog_decls := prog_decls sub' @ prog_decls p\<rparr>) M p' L'"
          using 3(4) [OF False Some n sub refl] rest n by simp
      qed
    qed
  qed
qed (auto simp: merged_nil)

text \<open>The recursion is as deep as there are modules left to load.\<close>

lemma merge_enough_fuel:
  assumes fin: "finite {m. load (module_file m) \<noteq> None}"
  shows "card ({m. load (module_file m) \<noteq> None} - L) \<le> fuel \<Longrightarrow> merge_stdlib_imports fuel load p L \<noteq> None"
    and "card ({m. load (module_file m) \<noteq> None} - L) \<le> fuel \<Longrightarrow> merge_paths fuel load paths p L \<noteq> None"
  using fin
proof (induction fuel load p L and fuel load paths p L rule: merge_stdlib_imports_merge_paths.induct)
  case (3 fuel load path paths p L)
  let ?A = "{m. load (module_file m) \<noteq> None}"
  have fewer: "card (?A - M) \<le> card (?A - L)" if "L \<subseteq> M" for M
    using that 3(6) by (intro card_mono) auto
  show ?case
  proof (cases "path \<in> L")
    case True
    then show ?thesis using 3 by simp
  next
    case False
    show ?thesis
    proof (cases "load (module_file path)")
      case None
      have "card (?A - insert path L) \<le> fuel" by (rule order_trans [OF fewer 3(5)]) blast
      then show ?thesis using 3(2) [OF False None] 3(6) None False by simp
    next
      case (Some sub)
      then have "?A - insert path L \<subset> ?A - L" using False by auto
      then have less: "card (?A - insert path L) < card (?A - L)" using 3(6) by (intro psubset_card_mono) auto
      then obtain n where n: "fuel = Suc n" using 3(5) by (cases fuel) auto
      have "merge_stdlib_imports n load sub (insert path L) \<noteq> None"
        by (rule 3(3) [OF False Some n _ 3(6)]) (use less 3(5) n in linarith)
      then obtain sub' M where sub: "merge_stdlib_imports n load sub (insert path L) = Some (sub', M)"
        by auto
      have "L \<subseteq> M" using merge_merged(1) [OF sub] by (auto simp: merged_def)
      then have "card (?A - M) \<le> fuel" by (rule order_trans [OF fewer 3(5)])
      then have "merge_paths fuel load paths (p\<lparr>prog_decls := prog_decls sub' @ prog_decls p\<rparr>) M \<noteq> None"
        using 3(4) [OF False Some n sub refl] 3(6) n by simp
      then show ?thesis using False Some n sub by (simp del: merge_stdlib_imports.simps)
    qed
  qed
qed auto

text \<open>
  C10. Loading the library modules of a program ends, cyclic imports included, when finitely many module
  names load. The statements stay, the declarations of the program stay at the end, and before them
  are the declarations of exactly the modules newly loaded, each module once; and every module
  imported by the program or by a loaded module has been loaded or found missing.
\<close>

theorem modules_are_merged_once:
  assumes "finite {m. load (module_file m) \<noteq> None}"
    and "card ({m. load (module_file m) \<noteq> None} - L) \<le> fuel"
  shows "\<exists>p' L'. merge_stdlib_imports fuel load p L = Some (p', L') \<and>
    prog_stmts p' = prog_stmts p \<and> suffix (prog_decls p) (prog_decls p') \<and>
    L \<subseteq> L' \<and> finite (L' - L) \<and>
    mset (prog_decls p') = mset (prog_decls p) + (\<Sum>m\<in>L' - L. mset (module_decls load m)) \<and>
    set (import_paths p) \<union> (\<Union>m\<in>L' - L. set (module_imports load m)) \<subseteq> L'"
proof -
  obtain p' L' where "merge_stdlib_imports fuel load p L = Some (p', L')"
    using merge_enough_fuel(1) [OF assms, of p] by (auto simp del: merge_stdlib_imports.simps)
  then show ?thesis using merge_merged(1) [of fuel load p L p' L'] by (auto simp: merged_def)
qed

text \<open>Two modules that import each other.\<close>

definition import_of :: "string \<Rightarrow> decl" where
  "import_of m = ImportDecl \<lparr>im_loc = nowhere, im_path = m, im_symbols = [], im_alias = [],
     im_global_scope = False\<rparr>"

definition cyclic_modules :: "string \<Rightarrow> program option" where
  "cyclic_modules f = (if f = ''a.dux'' then Some \<lparr>prog_decls = [import_of ''b''], prog_stmts = []\<rparr>
     else if f = ''b.dux'' then Some \<lparr>prog_decls = [import_of ''a''], prog_stmts = []\<rparr> else None)"

definition cyclic_program :: program where
  "cyclic_program = \<lparr>prog_decls = [import_of ''a''], prog_stmts = []\<rparr>"

lemma module_file_one: "module_file m = [c, CHR ''.'', CHR ''d'', CHR ''u'', CHR ''x''] \<Longrightarrow> c \<noteq> CHR ''/'' \<Longrightarrow> m = [c]"
  by (auto simp: module_file_def map_eq_Cons_conv append_eq_Cons_conv split: if_splits)

lemma modules_are_merged_once_witness:
  "\<exists>p' L'. merge_stdlib_imports 2 cyclic_modules cyclic_program {} = Some (p', L') \<and>
    prog_stmts p' = [] \<and> suffix [import_of ''a''] (prog_decls p')"
proof -
  let ?A = "{m. cyclic_modules (module_file m) \<noteq> None}"
  have "?A \<subseteq> {''a'', ''b''}"
    by (auto simp: cyclic_modules_def dest!: module_file_one split: if_splits)
  then have fin: "finite ?A" and "card ?A \<le> 2"
    using card_mono [of "{''a'', ''b''}" ?A] by (auto intro: finite_subset)
  then show ?thesis
    using modules_are_merged_once [OF fin, of "{}" 2 cyclic_program] by (auto simp: cyclic_program_def)
qed

section \<open>The exit status\<close>


section \<open>Data classes\<close>

text \<open>A class without bases whose members are fields without initialisers.\<close>

definition data_member :: "class_member \<Rightarrow> bool" where
  "data_member m = (case cm_decl m of Some (FieldDecl fd) \<Rightarrow> fd_init fd = None | _ \<Rightarrow> False)"

definition data_class :: "class_decl \<Rightarrow> bool" where
  "data_class c \<longleftrightarrow> c_bases c = [] \<and> list_all data_member (c_members c)"

definition top_names :: "scope_stack \<Rightarrow> string set" where
  "top_names st = fst ` set (symbols (hd st))"

text \<open>Nothing is reported, and the scopes below the current one are kept.\<close>

definition quiet :: "sema \<Rightarrow> sema \<Rightarrow> bool" where
  "quiet s t \<longleftrightarrow> drv t = drv s \<and> sema_errors t = sema_errors s \<and> stack t \<noteq> [] \<and> tl (stack t) = tl (stack s)"

lemma define_fresh:
  assumes "st \<noteq> []"
  shows "fst (stack_define n sy st) \<longleftrightarrow> n \<notin> top_names st"
    and "top_names (snd (stack_define n sy st)) = insert n (top_names st)"
    and "snd (stack_define n sy st) \<noteq> [] \<and> tl (snd (stack_define n sy st)) = tl st"
proof -
  obtain sc rest where st: "st = sc # rest" using assms by (cases st) auto
  have "n \<in> fst ` set (symbols sc) \<longleftrightarrow> map_of (symbols sc) n \<noteq> None"
    by (simp add: map_of_eq_None_iff)
  then show "fst (stack_define n sy st) \<longleftrightarrow> n \<notin> top_names st"
    and "top_names (snd (stack_define n sy st)) = insert n (top_names st)"
    and "snd (stack_define n sy st) \<noteq> [] \<and> tl (snd (stack_define n sy st)) = tl st"
    by (cases "map_of (symbols sc) n"; force simp: st top_names_def scope_define_def scope_lookup_def)+
qed

lemma type_from_te_quiet: "\<exists>i r. type_from_te te s = Returned i (s\<lparr>reg := r\<rparr>)"
proof -
  have same: "s = s\<lparr>reg := reg s\<rparr>" by simp
  consider "te_name te = ''ptr''" | "te_name te = ''__fn''" | "te_name te \<noteq> ''ptr''" "te_name te \<noteq> ''__fn''" by blast
  then show ?thesis
  proof cases
    case 2
    then show ?thesis by (simp add: type_from_te_def intern_s_def update_type_def prog_defs) blast
  qed (use same in \<open>simp add: type_from_te_def prog_defs; metis\<close>)+
qed

lemma hoist_data_member:
  assumes "data_member m" "stack s \<noteq> []"
  shows "\<exists>t. hoist_member m s = Returned () t \<and> quiet s t"
proof -
  obtain fd where m: "cm_decl m = Some (FieldDecl fd)" using assms(1)
    by (auto simp: data_member_def split: option.splits decl.splits)
  obtain i r where "type_from_te (fd_type fd) s = Returned i (s\<lparr>reg := r\<rparr>)" using type_from_te_quiet by blast
  then show ?thesis
    using assms(2) by (simp add: hoist_member_def m bind_s_def declare_sym_def define_sym_def ret_def quiet_def define_fresh)
qed

lemma hoist_data_members:
  "list_all data_member ms \<Longrightarrow> stack s \<noteq> [] \<Longrightarrow> \<exists>t. for_each hoist_member ms s = Returned () t \<and> quiet s t"
proof (induction ms arbitrary: s)
  case (Cons m ms)
  then obtain t where t: "hoist_member m s = Returned () t" "quiet s t" using hoist_data_member by fastforce
  then obtain u where "for_each hoist_member ms t = Returned () u" "quiet t u"
    using Cons by (fastforce simp: quiet_def)
  with t show ?case by (simp add: then_s_def bind_s_def quiet_def)
qed (simp add: ret_def quiet_def)

lemma check_data_members: "list_all data_member ms \<Longrightarrow> map_s check_member_decl ms s = Returned ms s"
proof (induction ms)
  case (Cons m ms)
  then have "check_member_decl m s = Returned m s"
    by (cases m) (auto simp: data_member_def check_member_decl_def check_field_def set_member_decl_def ret_def
        bind_s_def split: option.splits decl.splits)
  then show ?case using Cons by (simp add: bind_s_def ret_def)
qed (simp add: ret_def)

lemma check_data_class:
  assumes "data_class c" "stack s \<noteq> []"
  shows "\<exists>t. check_class c s = Returned c t \<and> quiet s t \<and> top_names (stack t) = top_names (stack s)"
proof -
  let ?s = "s\<lparr>current_class_name := c_name c, current_class_type := from_name (reg s) (c_name c)\<rparr>"
  obtain t where "for_each hoist_member (c_members c) (?s\<lparr>stack := push_scope True (stack s)\<rparr>) = Returned () t"
    "quiet (?s\<lparr>stack := push_scope True (stack s)\<rparr>) t"
    using hoist_data_members [of "c_members c" "?s\<lparr>stack := push_scope True (stack s)\<rparr>"] assms
    by (auto simp: data_class_def push_scope_def)
  moreover from this have "pop_scope (stack t) = stack s"
    using assms(2) by (cases "stack t") (auto simp: quiet_def push_scope_def pop_scope_def)
  ultimately show ?thesis
    using assms check_data_members [of "c_members c" t]
    by (cases c) (simp add: data_class_def check_class_def name_type_def with_class_def scoped_def set_members_def
        prog_defs quiet_def)
qed

lemma hoist_data_class:
  assumes "data_class c" "stack s \<noteq> []" "c_name c \<notin> top_names (stack s)"
  shows "\<exists>t. hoist_class c s = Returned () t \<and> quiet s t \<and> top_names (stack t) = insert (c_name c) (top_names (stack s))"
  using assms
  by (simp add: data_class_def hoist_class_def hoist_bases_def intern_s_def define_or_err_def define_sym_def
      define_fresh prog_defs quiet_def)

lemma hoist_data_classes:
  "list_all data_class cs \<Longrightarrow> stack s \<noteq> [] \<Longrightarrow> distinct (map c_name cs) \<Longrightarrow>
   c_name ` set cs \<inter> top_names (stack s) = {} \<Longrightarrow> \<exists>t. hoist_top (map ClassDecl cs) s = Returned () t \<and> quiet s t"
proof (induction cs arbitrary: s)
  case (Cons c cs)
  then obtain t where t: "hoist_class c s = Returned () t" "quiet s t"
      "top_names (stack t) = insert (c_name c) (top_names (stack s))"
    using hoist_data_class [of c s] by auto
  have "stack t \<noteq> []" "c_name ` set cs \<inter> top_names (stack t) = {}"
    using t(2,3) Cons.prems(3,4) by (auto simp: quiet_def)
  then obtain u where "hoist_top (map ClassDecl cs) t = Returned () u" "quiet t u"
    using Cons.IH [of t] Cons.prems(1,3) by auto
  with t show ?case by (simp add: then_s_def bind_s_def quiet_def)
qed (simp add: ret_def quiet_def)

lemma check_data_classes:
  "list_all data_class cs \<Longrightarrow> stack s \<noteq> [] \<Longrightarrow>
   \<exists>t. check_all (map ClassDecl cs) s = Returned (map ClassDecl cs) t \<and> quiet s t"
proof (induction cs arbitrary: s)
  case (Cons c cs)
  then obtain t where t: "check_class c s = Returned c t" "quiet s t" using check_data_class [of c s] by auto
  then obtain u where "check_all (map ClassDecl cs) t = Returned (map ClassDecl cs) u" "quiet t u"
    using Cons by (fastforce simp: quiet_def)
  with t show ?case by (simp add: bind_s_def ret_def quiet_def)
qed (simp add: ret_def quiet_def)

lemma builtin_names:
  "stack (new_sema d) \<noteq> [] \<and> top_names (stack (new_sema d)) = sy_name ` set builtin_symbols"
proof -
  have "st \<noteq> [] \<Longrightarrow> fold (\<lambda>sy st. snd (stack_define (sy_name sy) sy st)) sys st \<noteq> [] \<and>
      top_names (fold (\<lambda>sy st. snd (stack_define (sy_name sy) sy st)) sys st) = top_names st \<union> sy_name ` set sys" for sys st
  proof (induction sys arbitrary: st)
    case (Cons sy sys)
    then show ?case using Cons.IH [of "snd (stack_define (sy_name sy) sy st)"]
      by (simp add: define_fresh del: stack_define.simps)
  qed simp
  from this [of new_stack builtin_symbols] have "stack (new_sema d) \<noteq> [] \<and>
      top_names (stack (new_sema d)) = top_names new_stack \<union> sy_name ` set builtin_symbols"
    unfolding new_sema_def by (simp add: new_stack_def)
  moreover have "top_names new_stack = {}" by (simp add: new_stack_def new_scope_def top_names_def)
  ultimately show ?thesis by simp
qed

lemma data_classes_run:
  assumes "list_all data_class cs" "distinct (map c_name cs)"
    and "c_name ` set cs \<inter> sy_name ` set builtin_symbols = {}"
  shows "\<exists>t. run \<lparr>prog_decls = map ClassDecl cs, prog_stmts = []\<rparr> (new_sema d) =
      Returned (True, \<lparr>prog_decls = map ClassDecl cs, prog_stmts = []\<rparr>) t \<and> drv t = d \<and> sema_errors t = 0"
proof -
  obtain t where t: "hoist_top (map ClassDecl cs) (new_sema d) = Returned () t" "quiet (new_sema d) t"
    using hoist_data_classes [of cs "new_sema d"] assms builtin_names by auto
  then obtain u where "check_all (map ClassDecl cs) t = Returned (map ClassDecl cs) u" "quiet t u"
    using check_data_classes [OF assms(1), of t] by (auto simp: quiet_def)
  with t show ?thesis by (simp add: run_def prog_defs quiet_def new_sema_def)
qed

text \<open>
  A program of data classes with different names, none of them the name of a built-in function, is
  accepted: the checker says so, reports nothing and returns the program as it is, whatever the
  types of the fields are.
\<close>

theorem data_classes_are_accepted:
  assumes "list_all data_class cs" "distinct (map c_name cs)"
    and "c_name ` set cs \<inter> sy_name ` set builtin_symbols = {}"
  shows "\<exists>t. run \<lparr>prog_decls = map ClassDecl cs, prog_stmts = []\<rparr> (new_sema d) =
      Returned (True, \<lparr>prog_decls = map ClassDecl cs, prog_stmts = []\<rparr>) t \<and> drv t = d \<and> sema_errors t = 0"
  by (rule data_classes_run [OF assms])

section \<open>A bound that is not enforced\<close>

definition item_member :: "type_expr \<Rightarrow> class_member" where
  "item_member te = MkMember AccessPublic [] (Some (FieldDecl
     \<lparr>fd_loc = nowhere, fd_type = te, fd_name = ''item'', fd_init = None, fd_is_static = False\<rparr>))"

definition plain_class :: "string \<Rightarrow> class_member list \<Rightarrow> class_decl" where
  "plain_class n ms = MkClass nowhere [] n [] [] [] ms"

text \<open>\<open>class Box<T: Show> { T item; }  class Thing {}  class Use { Box<Thing> item; }\<close>.\<close>

definition bound_program :: program where
  "bound_program = \<lparr>prog_decls = [
       ClassDecl (MkClass nowhere [] ''Box'' [''T''] [\<lparr>bound_param = ''T'', bound_interface = ''Show''\<rparr>] []
         [item_member (named ''T'')]),
       ClassDecl (plain_class ''Thing'' []),
       ClassDecl (plain_class ''Use'' [item_member (applied ''Box'' (named ''Thing''))])],
     prog_stmts = []\<rparr>"

text \<open>\<open>class Box__Thing { Thing item; }  class Thing {}  class Use { Box__Thing item; }\<close>.\<close>

definition bound_classes :: "class_decl list" where
  "bound_classes = [plain_class ''Box__Thing'' [item_member (named ''Thing'')], plain_class ''Thing'' [],
     plain_class ''Use'' [item_member (named ''Box__Thing'')]]"

definition box_key :: inst_key where
  "box_key = \<lparr>k_generic_name = ''Box'', k_type_args = [named ''Thing''], k_mangled = ''Box__Thing'', k_loc = nowhere\<rparr>"

definition bound_result :: expander where
  "bound_result = \<lparr>xp_driver = \<lparr>filename = [], source_lines = [], driver_errors = 1,
       stderr_out = stderr_out (case driver_error nowhere
         (''type '' @ [CHR 0x27] @ ''Thing'' @ [CHR 0x27] @ '' does not implement '' @ [CHR 0x27] @ ''Show'' @
          [CHR 0x27] @ '' (required by generic parameter '' @ [CHR 0x27] @ ''T'' @ [CHR 0x27] @ '')'') new_driver
         of Returned u d \<Rightarrow> d | _ \<Rightarrow> new_driver)\<rparr>,
     xp_done = {''Box__Thing''}, xp_pending = [], xp_new = [ClassDecl (hd bound_classes)]\<rparr>"

lemma bound_expanded:
  "expand_generics bound_program new_driver = Returned
     \<lparr>prog_decls = map ClassDecl bound_classes, prog_stmts = []\<rparr> (xp_driver bound_result)"
proof -
  let ?ds = "hd (prog_decls bound_program) # map ClassDecl (tl bound_classes)"
  have decls: "map_s (fix_decl {} True) (prog_decls bound_program) [] = Returned ?ds [box_key]"
    by code_simp
  have stmts: "map_s (fix_stmt {}) (prog_stmts bound_program) [box_key] = Returned [] [box_key]"
    by code_simp
  have all: "expand_all (collect_templates (prog_decls bound_program) (Map.empty, Map.empty)) ?ds
      ((start_expander new_driver)\<lparr>xp_pending := [box_key]\<rparr>) = Returned () bound_result"
    by (rule expand_all_fuel [of 2]) code_simp
  have result: "assemble (xp_new bound_result) ?ds = map ClassDecl bound_classes"
    by code_simp
  have "\<exists>dc\<in>set (prog_decls bound_program). has_template dc" by code_simp
  then show ?thesis
    using decls stmts all result
    by (simp add: expand_generics_def expand_program_def on_pending_def prog_defs start_expander_def)
qed

text \<open>
  A violated type bound does not fail the build: for a generic class whose parameter must implement
  an interface, used at a class that does not, the error is printed and counted, and the front
  end reports success in a checking mode.
\<close>

theorem bound_errors_do_not_fail:
  assumes "need_sema opts"
  shows "\<exists>p' d'. front_end opts bound_program new_driver = Returned (0, p') d' \<and> driver_errors d' = 1 \<and>
    stderr_out d' \<noteq> []"
proof -
  have data: "list_all data_class bound_classes" "distinct (map c_name bound_classes)"
    "c_name ` set bound_classes \<inter> sy_name ` set builtin_symbols = {}"
    by code_simp+
  obtain t where "run \<lparr>prog_decls = map ClassDecl bound_classes, prog_stmts = []\<rparr> (new_sema (xp_driver bound_result)) =
      Returned (True, \<lparr>prog_decls = map ClassDecl bound_classes, prog_stmts = []\<rparr>) t"
    and t: "drv t = xp_driver bound_result" "sema_errors t = 0"
    using data_classes_run [OF data] by blast
  moreover have "driver_errors (xp_driver bound_result) = 1" "stderr_out (xp_driver bound_result) \<noteq> []"
    by code_simp+
  ultimately show ?thesis
    using assms bound_expanded by (simp add: front_end_def bind_s_def run_sema_def ret_def)
qed

lemma bound_errors_do_not_fail_witness:
  "\<exists>p' d'. front_end (default_options\<lparr>o_check := True\<rparr>) bound_program new_driver = Returned (0, p') d' \<and>
     driver_errors d' = 1"
proof -
  have "need_sema (default_options\<lparr>o_check := True\<rparr>)" by (simp add: need_sema_def)
  from bound_errors_do_not_fail [OF this] show ?thesis by blast
qed

lemma data_classes_are_accepted_witness:
  "\<exists>t. run \<lparr>prog_decls = map ClassDecl bound_classes, prog_stmts = []\<rparr> (new_sema new_driver) =
      Returned (True, \<lparr>prog_decls = map ClassDecl bound_classes, prog_stmts = []\<rparr>) t \<and> drv t = new_driver"
proof -
  have data: "list_all data_class bound_classes" "distinct (map c_name bound_classes)"
    "c_name ` set bound_classes \<inter> sy_name ` set builtin_symbols = {}"
    by code_simp+
  from data_classes_are_accepted [OF this, of new_driver] show ?thesis by blast
qed


end
