(* ===== verification/Rt_Dict.thy ===== *)
theory Rt_Dict
  imports Loops
begin

text \<open>
  The dictionary of the runtime (\<^verbatim>\<open>src/runtime/dict.c\<close>): an open-addressing hash table with linear
  probing and tombstones. A C string is the list of its characters before the terminator, a \<open>void*\<close>
  value is optional, the 64-bit hash is a word. Sizes and indices are natural numbers: they are never
  negative, and the table would have to outgrow the address space before the \<open>int64_t\<close> of the code
  could overflow. A probe loop that finds no empty slot never ends; the result is then \<open>None\<close>.
  Allocation is taken to succeed.
\<close>

unbundle bit_operations_syntax

datatype key_ptr = NullKey | TombstoneKey | StrKey string

record 'v table_entry =
  de_key :: key_ptr
  de_hash :: "64 word"
  de_val :: "'v option"

record 'v dict =
  d_refcount :: int
  d_len :: nat
  d_cap :: nat
  d_tomb :: nat
  d_entries :: "'v table_entry list"

definition DICT_INIT_CAP :: nat where
  "DICT_INIT_CAP = 16"

definition DICT_LOAD_NUM :: nat where
  "DICT_LOAD_NUM = 3"

definition DICT_LOAD_DEN :: nat where
  "DICT_LOAD_DEN = 4"

definition is_empty :: "key_ptr \<Rightarrow> bool" where
  "is_empty k \<longleftrightarrow> k = NullKey"

definition is_tombstone :: "key_ptr \<Rightarrow> bool" where
  "is_tombstone k \<longleftrightarrow> k = TombstoneKey"

definition is_live :: "key_ptr \<Rightarrow> bool" where
  "is_live k \<longleftrightarrow> k \<noteq> NullKey \<and> k \<noteq> TombstoneKey"

text \<open>FNV-1a.\<close>

definition hash_step :: "64 word \<Rightarrow> char \<Rightarrow> 64 word" where
  "hash_step h c = (h XOR of_char c) * 1099511628211"

definition hash_str :: "string \<Rightarrow> 64 word" where
  "hash_str s = foldl hash_step 14695981039346656037 s"

definition null_entry :: "'v table_entry" where
  "null_entry = \<lparr>de_key = NullKey, de_hash = 0, de_val = None\<rparr>"

definition duxrt_dict_new :: "'v dict" where
  "duxrt_dict_new = \<lparr>d_refcount = 1, d_len = 0, d_cap = DICT_INIT_CAP, d_tomb = 0,
     d_entries = replicate DICT_INIT_CAP null_entry\<rparr>"

text \<open>\<open>h & (uint64_t)(cap - 1)\<close> and \<open>(idx + 1) & (cap - 1)\<close>.\<close>

definition home_slot :: "nat \<Rightarrow> 64 word \<Rightarrow> nat" where
  "home_slot cap h = unat (h AND of_nat (cap - 1))"

definition next_slot :: "nat \<Rightarrow> nat \<Rightarrow> nat" where
  "next_slot cap i = (i + 1) AND (cap - 1)"

definition entry_matches :: "64 word \<Rightarrow> string \<Rightarrow> 'v table_entry \<Rightarrow> bool" where
  "entry_matches h key e \<longleftrightarrow> de_hash e = h \<and> de_key e = StrKey key"

text \<open>
  The loop of \<open>dict_insert_raw\<close> over \<open>idx\<close> and \<open>tombstone_idx\<close>. It leaves with the slot and whether
  the slot holds the key already.
\<close>

definition insert_step ::
  "'v dict \<Rightarrow> string \<Rightarrow> 64 word \<Rightarrow> nat \<times> nat option \<Rightarrow> (nat \<times> bool) + (nat \<times> nat option)" where
  "insert_step d key h = (\<lambda>(i, t).
     let e = d_entries d ! i in
     if is_empty (de_key e) then Inl (case t of None \<Rightarrow> (i, False) | Some j \<Rightarrow> (j, False))
     else if is_tombstone (de_key e) then
       Inr (next_slot (d_cap d) i, case t of None \<Rightarrow> Some i | Some j \<Rightarrow> Some j)
     else if entry_matches h key e then Inl (i, True)
     else Inr (next_slot (d_cap d) i, t))"

definition dict_insert_raw :: "'v dict \<Rightarrow> string \<Rightarrow> 64 word \<Rightarrow> 'v option \<Rightarrow> 'v dict option" where
  "dict_insert_raw d key h val =
     (case iter_until (insert_step d key h) (home_slot (d_cap d) h, None) of
        None \<Rightarrow> None
      | Some (i, True) \<Rightarrow> Some (d\<lparr>d_entries := (d_entries d)[i := (d_entries d ! i)\<lparr>de_val := val\<rparr>]\<rparr>)
      | Some (i, False) \<Rightarrow> Some (d\<lparr>
          d_entries := (d_entries d)[i := \<lparr>de_key = StrKey key, de_hash = h, de_val = val\<rparr>],
          d_len := d_len d + 1\<rparr>))"

text \<open>The loop of \<open>dict_grow\<close> over the old entries.\<close>

fun reinsert :: "'v table_entry list \<Rightarrow> 'v dict \<Rightarrow> 'v dict option" where
  "reinsert [] d = Some d"
| "reinsert (e # es) d = (case de_key e of
       StrKey key \<Rightarrow> (case dict_insert_raw d key (de_hash e) (de_val e) of
           None \<Rightarrow> None
         | Some d' \<Rightarrow> reinsert es d')
     | _ \<Rightarrow> reinsert es d)"

definition emptied :: "'v dict \<Rightarrow> 'v dict" where
  "emptied d = d\<lparr>d_cap := d_cap d * 2, d_len := 0, d_tomb := 0,
     d_entries := replicate (d_cap d * 2) null_entry\<rparr>"

definition dict_grow :: "'v dict \<Rightarrow> 'v dict option" where
  "dict_grow d = reinsert (d_entries d) (emptied d)"

definition must_grow :: "'v dict \<Rightarrow> bool" where
  "must_grow d \<longleftrightarrow> d_cap d * DICT_LOAD_NUM \<le> (d_len d + d_tomb d) * DICT_LOAD_DEN"

text \<open>The operations; a null dictionary or key is ignored before they are reached (below).\<close>

definition dict_set :: "'v dict \<Rightarrow> string \<Rightarrow> 'v option \<Rightarrow> 'v dict option" where
  "dict_set d key val =
     (case (if must_grow d then dict_grow d else Some d) of
        None \<Rightarrow> None
      | Some d' \<Rightarrow> dict_insert_raw d' key (hash_str key) val)"

text \<open>The loop of \<open>get\<close>, \<open>has\<close> and \<open>del\<close>: the slot of the key, if it is there.\<close>

definition search_step :: "'v dict \<Rightarrow> string \<Rightarrow> 64 word \<Rightarrow> nat \<Rightarrow> nat option + nat" where
  "search_step d key h i =
     (let e = d_entries d ! i in
      if is_empty (de_key e) then Inl None
      else if is_live (de_key e) \<and> entry_matches h key e then Inl (Some i)
      else Inr (next_slot (d_cap d) i))"

definition dict_search :: "'v dict \<Rightarrow> string \<Rightarrow> nat option option" where
  "dict_search d key =
     iter_until (search_step d key (hash_str key)) (home_slot (d_cap d) (hash_str key))"

definition dict_get :: "'v dict \<Rightarrow> string \<Rightarrow> 'v option option" where
  "dict_get d key = map_option (\<lambda>found. case found of None \<Rightarrow> None | Some i \<Rightarrow> de_val (d_entries d ! i))
     (dict_search d key)"

definition dict_has :: "'v dict \<Rightarrow> string \<Rightarrow> bool option" where
  "dict_has d key = map_option (\<lambda>found. found \<noteq> None) (dict_search d key)"

definition dict_del :: "'v dict \<Rightarrow> string \<Rightarrow> 'v dict option" where
  "dict_del d key = map_option (\<lambda>found. case found of
       None \<Rightarrow> d
     | Some i \<Rightarrow> d\<lparr>d_entries := (d_entries d)[i := \<lparr>de_key = TombstoneKey, de_hash = 0, de_val = None\<rparr>],
          d_len := d_len d - 1, d_tomb := d_tomb d + 1\<rparr>)
     (dict_search d key)"

text \<open>The entry points with their null checks.\<close>

definition duxrt_dict_set :: "'v dict option \<Rightarrow> string option \<Rightarrow> 'v option \<Rightarrow> 'v dict option option" where
  "duxrt_dict_set d key val = (case (d, key) of
       (Some d, Some key) \<Rightarrow> map_option Some (dict_set d key val)
     | _ \<Rightarrow> Some d)"

definition duxrt_dict_get :: "'v dict option \<Rightarrow> string option \<Rightarrow> 'v option option" where
  "duxrt_dict_get d key = (case (d, key) of (Some d, Some key) \<Rightarrow> dict_get d key | _ \<Rightarrow> Some None)"

definition duxrt_dict_has :: "'v dict option \<Rightarrow> string option \<Rightarrow> bool option" where
  "duxrt_dict_has d key = (case (d, key) of (Some d, Some key) \<Rightarrow> dict_has d key | _ \<Rightarrow> Some False)"

definition duxrt_dict_del :: "'v dict option \<Rightarrow> string option \<Rightarrow> 'v dict option option" where
  "duxrt_dict_del d key = (case (d, key) of
       (Some d, Some key) \<Rightarrow> map_option Some (dict_del d key)
     | _ \<Rightarrow> Some d)"

definition duxrt_dict_len :: "'v dict option \<Rightarrow> nat" where
  "duxrt_dict_len d = (case d of None \<Rightarrow> 0 | Some d \<Rightarrow> d_len d)"

text \<open>Sharing: \<open>release\<close> frees the dictionary when it takes the last reference.\<close>

definition duxrt_dict_retain :: "'v dict option \<Rightarrow> 'v dict option" where
  "duxrt_dict_retain = map_option (\<lambda>d. d\<lparr>d_refcount := d_refcount d + 1\<rparr>)"

definition duxrt_dict_release :: "'v dict option \<Rightarrow> 'v dict option" where
  "duxrt_dict_release d = (case d of
       None \<Rightarrow> None
     | Some d \<Rightarrow> if d_refcount d = 1 then None else Some (d\<lparr>d_refcount := d_refcount d - 1\<rparr>))"

definition duxrt_dict_free :: "'v dict option \<Rightarrow> 'v dict option" where
  "duxrt_dict_free = duxrt_dict_release"

end
