(* ===== verification/Rt_Dict_Properties.thy ===== *)
theory Rt_Dict_Properties
  imports Rt_Dict
begin

text \<open>
  The hash table implements a finite map: the invariant of the slots, the probe loops on tables with
  a free slot, and each operation as an operation on the map. The table always keeps a free slot, so
  no operation hangs; but the count of tombstones only grows until the table does.
\<close>

section \<open>Probing\<close>

lemma iter_path:
  assumes "\<And>m. m < n \<Longrightarrow> f (p m) = Inr (p (Suc m))" and "f (p n) = Inl r"
  shows "iter_until f (p 0) = Some r"
proof -
  have "iter_until f (p m) = Some r" if "m \<le> n" for m
    using that
  proof (induction "n - m" arbitrary: m)
    case 0
    then show ?case using assms(2) by (simp add: iter_until_exit)
  next
    case (Suc k)
    then have "iter_until f (p (Suc m)) = Some r" by auto
    then show ?case using assms(1) [of m] Suc by (simp add: iter_until_round)
  qed
  then show ?thesis by simp
qed

lemma and_pow_minus: "(i :: nat) AND (2 ^ k - 1) = i mod 2 ^ k"
proof -
  have "(2 ^ k - 1 :: nat) = mask k" by (simp add: mask_eq_exp_minus_1)
  then show ?thesis by (simp only: flip: take_bit_eq_mask take_bit_eq_mod)
qed

lemma next_slot_pow: "next_slot (2 ^ k) i = Suc i mod 2 ^ k"
  unfolding next_slot_def and_pow_minus by simp

lemma home_slot_pow: "home_slot (2 ^ k) h = unat h mod 2 ^ k"
proof -
  have "of_nat (2 ^ k - 1) = (mask k :: 64 word)"
    by (simp add: mask_eq_exp_minus_1 of_nat_diff)
  then have "h AND of_nat (2 ^ k - 1) = take_bit k h" by (simp add: take_bit_eq_mask)
  then have "home_slot (2 ^ k) h = take_bit k (unat h)"
    by (simp only: home_slot_def unsigned_take_bit_eq)
  then show ?thesis by (simp only: take_bit_eq_mod)
qed

text \<open>The slots in the order in which a key is looked for.\<close>

definition probe :: "'v dict \<Rightarrow> string \<Rightarrow> nat \<Rightarrow> nat" where
  "probe d key n = (home_slot (d_cap d) (hash_str key) + n) mod d_cap d"

abbreviation key_at :: "'v dict \<Rightarrow> nat \<Rightarrow> key_ptr" where
  "key_at d i \<equiv> de_key (d_entries d ! i)"

definition reached :: "'v dict \<Rightarrow> string \<Rightarrow> nat \<Rightarrow> bool" where
  "reached d key i \<longleftrightarrow> (\<exists>n. i = probe d key n \<and> (\<forall>m<n. key_at d (probe d key m) \<noteq> NullKey))"

definition wf_slots :: "'v dict \<Rightarrow> bool" where
  "wf_slots d \<longleftrightarrow> (\<exists>k. d_cap d = 2 ^ k) \<and> length (d_entries d) = d_cap d \<and>
     (\<forall>i<d_cap d. \<forall>key. key_at d i = StrKey key \<longrightarrow>
        de_hash (d_entries d ! i) = hash_str key \<and> reached d key i \<and>
        (\<forall>j<d_cap d. key_at d j = StrKey key \<longrightarrow> j = i))"

definition free_slot :: "'v dict \<Rightarrow> bool" where
  "free_slot d \<longleftrightarrow> (\<exists>i<d_cap d. key_at d i = NullKey)"

lemma wf_slotsD:
  assumes "wf_slots d" "i < d_cap d" "key_at d i = StrKey key"
  shows "de_hash (d_entries d ! i) = hash_str key" "reached d key i"
    "j < d_cap d \<Longrightarrow> key_at d j = StrKey key \<Longrightarrow> j = i"
  using assms unfolding wf_slots_def by blast+

lemma wf_pos: "wf_slots d \<Longrightarrow> 0 < d_cap d"
  by (auto simp: wf_slots_def)

lemma probe_less: "wf_slots d \<Longrightarrow> probe d key n < d_cap d"
  by (simp add: probe_def wf_pos)

lemma probe_Suc: "wf_slots d \<Longrightarrow> probe d key (Suc n) = next_slot (d_cap d) (probe d key n)"
  by (auto simp: wf_slots_def probe_def next_slot_pow mod_Suc_eq)

lemma probe_0: "wf_slots d \<Longrightarrow> probe d key 0 = home_slot (d_cap d) (hash_str key)"
  by (auto simp: wf_slots_def probe_def home_slot_pow)

lemma probe_onto: "wf_slots d \<Longrightarrow> i < d_cap d \<Longrightarrow> \<exists>n. probe d key n = i"
proof -
  assume wf: "wf_slots d" and i: "i < d_cap d"
  let ?h = "home_slot (d_cap d) (hash_str key)"
  have h: "?h < d_cap d" using wf by (auto simp: wf_slots_def home_slot_pow)
  then have "?h + (i + d_cap d - ?h) = i + d_cap d" using i by simp
  then have "probe d key (i + d_cap d - ?h) = i" using i by (simp add: probe_def)
  then show ?thesis by blast
qed

text \<open>The first slot on the way that is empty or has the key.\<close>

lemma first_stop:
  assumes "wf_slots d" "free_slot d"
  obtains n where "key_at d (probe d key n) = NullKey \<or> key_at d (probe d key n) = StrKey key"
    and "\<And>m. m < n \<Longrightarrow> key_at d (probe d key m) \<noteq> NullKey \<and> key_at d (probe d key m) \<noteq> StrKey key"
proof -
  let ?P = "\<lambda>n. key_at d (probe d key n) = NullKey \<or> key_at d (probe d key n) = StrKey key"
  have "\<exists>n. ?P n" using assms probe_onto [of d _ key] unfolding free_slot_def by metis
  then show thesis using that [of "LEAST n. ?P n"] LeastI_ex [of ?P] not_less_Least [of _ ?P] by blast
qed

lemma stop_empty:
  assumes "wf_slots d" "key_at d (probe d key n) = NullKey"
    and "\<And>m. m < n \<Longrightarrow> key_at d (probe d key m) \<noteq> StrKey key" and "i < d_cap d"
  shows "key_at d i \<noteq> StrKey key"
proof
  assume "key_at d i = StrKey key"
  then obtain l where l: "i = probe d key l" "\<forall>m<l. key_at d (probe d key m) \<noteq> NullKey"
    using wf_slotsD(2) [OF assms(1,4)] unfolding reached_def by blast
  consider "l < n" | "l = n" | "n < l" by linarith
  then show False
    by cases (use l assms(2,3) \<open>key_at d i = StrKey key\<close> in auto)
qed

lemma search_found:
  assumes "wf_slots d" "free_slot d" "i < d_cap d" "key_at d i = StrKey key"
  shows "dict_search d key = Some (Some i)"
proof -
  obtain n where n: "key_at d (probe d key n) = NullKey \<or> key_at d (probe d key n) = StrKey key"
      "\<And>m. m < n \<Longrightarrow> key_at d (probe d key m) \<noteq> NullKey \<and> key_at d (probe d key m) \<noteq> StrKey key"
    using first_stop [OF assms(1,2)] by metis
  have "key_at d (probe d key n) \<noteq> NullKey"
    using stop_empty [OF assms(1)] n(2) assms(3,4) by blast
  then have here: "key_at d (probe d key n) = StrKey key" using n(1) by simp
  then have "probe d key n = i" "de_hash (d_entries d ! probe d key n) = hash_str key"
    using assms probe_less [OF assms(1), of key n] unfolding wf_slots_def by blast+
  then have "search_step d key (hash_str key) (probe d key n) = Inl (Some i)"
    using here by (simp add: search_step_def is_empty_def is_live_def entry_matches_def)
  moreover have "search_step d key (hash_str key) (probe d key m) = Inr (probe d key (Suc m))" if "m < n" for m
    using n(2) [OF that] by (simp add: search_step_def is_empty_def is_live_def entry_matches_def probe_Suc assms(1))
  ultimately have "iter_until (search_step d key (hash_str key)) (probe d key 0) = Some (Some i)"
    by (rule iter_path [rotated])
  then show ?thesis by (simp add: dict_search_def probe_0 assms(1))
qed

lemma search_missing:
  assumes "wf_slots d" "free_slot d" "\<forall>i<d_cap d. key_at d i \<noteq> StrKey key"
  shows "dict_search d key = Some None"
proof -
  obtain n where n: "key_at d (probe d key n) = NullKey \<or> key_at d (probe d key n) = StrKey key"
      "\<And>m. m < n \<Longrightarrow> key_at d (probe d key m) \<noteq> NullKey \<and> key_at d (probe d key m) \<noteq> StrKey key"
    using first_stop [OF assms(1,2)] by metis
  have "key_at d (probe d key n) = NullKey"
    using n(1) assms(3) probe_less [OF assms(1), of key n] by blast
  then have "search_step d key (hash_str key) (probe d key n) = Inl None"
    by (simp add: search_step_def is_empty_def)
  moreover have "search_step d key (hash_str key) (probe d key m) = Inr (probe d key (Suc m))" if "m < n" for m
    using n(2) [OF that] by (simp add: search_step_def is_empty_def is_live_def entry_matches_def probe_Suc assms(1))
  ultimately have "iter_until (search_step d key (hash_str key)) (probe d key 0) = Some None"
    by (rule iter_path [rotated])
  then show ?thesis by (simp add: dict_search_def probe_0 assms(1))
qed

text \<open>The insertion remembers the first tombstone on its way.\<close>

primrec first_tomb :: "'v dict \<Rightarrow> string \<Rightarrow> nat \<Rightarrow> nat option" where
  "first_tomb d key 0 = None"
| "first_tomb d key (Suc n) = (case first_tomb d key n of
     None \<Rightarrow> if key_at d (probe d key n) = TombstoneKey then Some (probe d key n) else None
   | Some j \<Rightarrow> Some j)"

lemma first_tombD: "first_tomb d key n = Some j \<Longrightarrow>
    \<exists>m<n. j = probe d key m \<and> key_at d j = TombstoneKey"
  by (induction n) (auto split: option.splits if_splits intro: less_SucI)

lemma insert_path:
  assumes "wf_slots d" "key_at d (probe d key m) \<noteq> NullKey" "key_at d (probe d key m) \<noteq> StrKey key"
  shows "insert_step d key (hash_str key) (probe d key m, first_tomb d key m) =
    Inr (probe d key (Suc m), first_tomb d key (Suc m))"
  using assms
  by (cases "key_at d (probe d key m)")
    (auto simp: insert_step_def is_empty_def is_tombstone_def entry_matches_def probe_Suc Let_def split: option.split)

lemma insert_found:
  assumes "wf_slots d" "free_slot d" "i < d_cap d" "key_at d i = StrKey key"
  shows "dict_insert_raw d key (hash_str key) val =
    Some (d\<lparr>d_entries := (d_entries d)[i := (d_entries d ! i)\<lparr>de_val := val\<rparr>]\<rparr>)"
proof -
  obtain n where n: "key_at d (probe d key n) = NullKey \<or> key_at d (probe d key n) = StrKey key"
      "\<And>m. m < n \<Longrightarrow> key_at d (probe d key m) \<noteq> NullKey \<and> key_at d (probe d key m) \<noteq> StrKey key"
    using first_stop [OF assms(1,2)] by metis
  have "key_at d (probe d key n) \<noteq> NullKey"
    using stop_empty [OF assms(1)] n(2) assms(3,4) by blast
  then have here: "key_at d (probe d key n) = StrKey key" using n(1) by simp
  then have "probe d key n = i" "de_hash (d_entries d ! probe d key n) = hash_str key"
    using assms probe_less [OF assms(1), of key n] unfolding wf_slots_def by blast+
  then have "insert_step d key (hash_str key) (probe d key n, first_tomb d key n) = Inl (i, True)"
    using here by (simp add: insert_step_def is_empty_def is_tombstone_def entry_matches_def)
  moreover have "insert_step d key (hash_str key) (probe d key m, first_tomb d key m) =
      Inr (probe d key (Suc m), first_tomb d key (Suc m))" if "m < n" for m
    using n(2) [OF that] assms(1) by (simp only: insert_path simp_thms)
  ultimately have "iter_until (insert_step d key (hash_str key)) (probe d key 0, first_tomb d key 0) = Some (i, True)"
    by (rule iter_path [where p = "\<lambda>m. (probe d key m, first_tomb d key m)", rotated])
  then show ?thesis by (simp add: dict_insert_raw_def probe_0 assms(1))
qed

lemma insert_missing:
  assumes "wf_slots d" "free_slot d" "\<forall>i<d_cap d. key_at d i \<noteq> StrKey key"
  shows "\<exists>i<d_cap d. reached d key i \<and> (key_at d i = NullKey \<or> key_at d i = TombstoneKey) \<and>
    dict_insert_raw d key (hash_str key) val = Some (d\<lparr>
      d_entries := (d_entries d)[i := \<lparr>de_key = StrKey key, de_hash = hash_str key, de_val = val\<rparr>],
      d_len := d_len d + 1\<rparr>)"
proof -
  obtain n where n: "key_at d (probe d key n) = NullKey \<or> key_at d (probe d key n) = StrKey key"
      "\<And>m. m < n \<Longrightarrow> key_at d (probe d key m) \<noteq> NullKey \<and> key_at d (probe d key m) \<noteq> StrKey key"
    using first_stop [OF assms(1,2)] by metis
  have here: "key_at d (probe d key n) = NullKey"
    using n(1) assms(3) probe_less [OF assms(1), of key n] by blast
  define i where "i = (case first_tomb d key n of None \<Rightarrow> probe d key n | Some j \<Rightarrow> j)"
  have i: "\<exists>m\<le>n. i = probe d key m" "key_at d i = NullKey \<or> key_at d i = TombstoneKey"
    using here by (auto simp: i_def split: option.split dest!: first_tombD intro: less_imp_le)
  have "reached d key i" using i(1) n(2) by (force simp: reached_def)
  moreover have "i < d_cap d" using i(1) probe_less [OF assms(1)] by auto
  moreover have "insert_step d key (hash_str key) (probe d key n, first_tomb d key n) = Inl (i, False)"
    using here by (simp add: insert_step_def is_empty_def i_def split: option.split)
  moreover have "insert_step d key (hash_str key) (probe d key m, first_tomb d key m) =
      Inr (probe d key (Suc m), first_tomb d key (Suc m))" if "m < n" for m
    using n(2) [OF that] assms(1) by (simp only: insert_path simp_thms)
  ultimately show ?thesis
    using i(2) iter_path [where p = "\<lambda>m. (probe d key m, first_tomb d key m)" and f = "insert_step d key (hash_str key)"
        and n = n and r = "(i, False)"]
    by (auto simp: dict_insert_raw_def probe_0 assms(1))
qed

section \<open>The map\<close>

definition entry_pair :: "'v table_entry \<Rightarrow> (string \<times> 'v option) option" where
  "entry_pair e = (case de_key e of StrKey key \<Rightarrow> Some (key, de_val e) | _ \<Rightarrow> None)"

definition dict_pairs :: "'v dict \<Rightarrow> (string \<times> 'v option) list" where
  "dict_pairs d = List.map_filter entry_pair (d_entries d)"

definition dict_map :: "'v dict \<Rightarrow> string \<Rightarrow> 'v option option" where
  "dict_map d = map_of (dict_pairs d)"

lemma dict_pairs_iff: "wf_slots d \<Longrightarrow>
    (key, v) \<in> set (dict_pairs d) \<longleftrightarrow> (\<exists>i<d_cap d. key_at d i = StrKey key \<and> de_val (d_entries d ! i) = v)"
proof -
  assume "wf_slots d"
  then have len: "length (d_entries d) = d_cap d" by (simp add: wf_slots_def)
  have "entry_pair e = Some (key, v) \<longleftrightarrow> de_key e = StrKey key \<and> de_val e = v" for e :: "'a table_entry"
    by (auto simp: entry_pair_def split: key_ptr.splits)
  then have "(key, v) \<in> set (dict_pairs d) \<longleftrightarrow> (\<exists>e\<in>set (d_entries d). de_key e = StrKey key \<and> de_val e = v)"
    by (force simp: dict_pairs_def List.map_filter_def image_iff)
  also have "\<dots> \<longleftrightarrow> (\<exists>i<d_cap d. key_at d i = StrKey key \<and> de_val (d_entries d ! i) = v)"
    using len by (metis in_set_conv_nth)
  finally show ?thesis .
qed

lemma dict_map_iff:
  assumes "wf_slots d"
  shows "dict_map d key = Some v \<longleftrightarrow> (\<exists>i<d_cap d. key_at d i = StrKey key \<and> de_val (d_entries d ! i) = v)"
proof -
  have "dict_map d key = Some v \<Longrightarrow> (key, v) \<in> set (dict_pairs d)"
    unfolding dict_map_def by (rule map_of_SomeD)
  moreover have "dict_map d key = Some v" if pair: "(key, v) \<in> set (dict_pairs d)"
  proof -
    obtain w where w: "dict_map d key = Some w"
      using weak_map_of_SomeI [OF pair] unfolding dict_map_def by blast
    then have "(key, w) \<in> set (dict_pairs d)" unfolding dict_map_def by (rule map_of_SomeD)
    with pair have "v = w"
      using wf_slotsD(3) [OF assms] unfolding dict_pairs_iff [OF assms] by blast
    with w show ?thesis by simp
  qed
  ultimately show ?thesis using dict_pairs_iff [OF assms] by blast
qed

lemma dict_map_None: "wf_slots d \<Longrightarrow> dict_map d key = None \<longleftrightarrow> (\<forall>i<d_cap d. key_at d i \<noteq> StrKey key)"
  using dict_map_iff [of d key] by (metis not_Some_eq)

lemma map_eqI: "(\<And>k v. m k = Some v \<longleftrightarrow> n k = Some v) \<Longrightarrow> m = n"
  by (rule ext, rename_tac k, case_tac "n k") (metis option.exhaust, simp)

section \<open>Writing slots\<close>

definition put_slot :: "nat \<Rightarrow> 'v table_entry \<Rightarrow> 'v dict \<Rightarrow> 'v dict" where
  "put_slot i e d = d\<lparr>d_entries := (d_entries d)[i := e]\<rparr>"

lemma put_slot_simps [simp]:
  "d_cap (put_slot i e d) = d_cap d" "d_len (put_slot i e d) = d_len d" "d_tomb (put_slot i e d) = d_tomb d"
  "d_refcount (put_slot i e d) = d_refcount d" "probe (put_slot i e d) = probe d"
  by (simp_all add: put_slot_def probe_def fun_eq_iff)

lemma put_slot_nth: "wf_slots d \<Longrightarrow> i < d_cap d \<Longrightarrow>
    d_entries (put_slot i e d) ! j = (if j = i then e else d_entries d ! j)"
  by (auto simp: put_slot_def wf_slots_def)

lemma reached_put: "wf_slots d \<Longrightarrow> i < d_cap d \<Longrightarrow> de_key e \<noteq> NullKey \<Longrightarrow> reached d key j \<Longrightarrow>
    reached (put_slot i e d) key j"
  by (auto simp: reached_def put_slot_nth)

lemma wf_put:
  assumes wf: "wf_slots d" and i: "i < d_cap d" and e: "de_key e \<noteq> NullKey"
    and new: "\<And>key. de_key e = StrKey key \<Longrightarrow> de_hash e = hash_str key \<and> reached d key i \<and>
      (\<forall>j<d_cap d. key_at d j = StrKey key \<longrightarrow> j = i)"
  shows "wf_slots (put_slot i e d)"
  unfolding wf_slots_def
proof (intro conjI allI impI)
  show "\<exists>k. d_cap (put_slot i e d) = 2 ^ k" "length (d_entries (put_slot i e d)) = d_cap (put_slot i e d)"
    using wf by (auto simp: wf_slots_def put_slot_def)
next
  fix l key
  assume l: "l < d_cap (put_slot i e d)" and key: "key_at (put_slot i e d) l = StrKey key"
  note nth = put_slot_nth [OF wf i, of e]
  show "de_hash (d_entries (put_slot i e d) ! l) = hash_str key"
    using l key new wf_slotsD(1) [OF wf] by (cases "l = i") (simp_all add: nth)
  show "reached (put_slot i e d) key l"
    using l key new wf_slotsD(2) [OF wf] by (cases "l = i") (auto simp: nth intro!: reached_put [OF wf i e])
  fix j
  assume j: "j < d_cap (put_slot i e d)" "key_at (put_slot i e d) j = StrKey key"
  consider "l = i" "j = i" | "l = i" "j \<noteq> i" | "l \<noteq> i" "j = i" | "l \<noteq> i" "j \<noteq> i" by blast
  then show "j = l"
  proof cases
    case 2
    then show ?thesis using new [of key] key j by (simp add: nth)
  next
    case 3
    then show ?thesis using new [of key] key l j by (simp add: nth)
  next
    case 4
    then show ?thesis using wf_slotsD(3) [OF wf, of l key j] key l j by (simp add: nth)
  qed simp
qed

lemma map_put:
  assumes "wf_slots d" "wf_slots (put_slot i e d)" "i < d_cap d"
  shows "dict_map (put_slot i e d) k = Some v \<longleftrightarrow> de_key e = StrKey k \<and> de_val e = v \<or>
    (\<exists>j<d_cap d. j \<noteq> i \<and> key_at d j = StrKey k \<and> de_val (d_entries d ! j) = v)"
proof -
  have "dict_map (put_slot i e d) k = Some v \<longleftrightarrow>
      (\<exists>j<d_cap d. (if j = i then de_key e = StrKey k \<and> de_val e = v
        else key_at d j = StrKey k \<and> de_val (d_entries d ! j) = v))"
    unfolding dict_map_iff [OF assms(2)] put_slot_simps put_slot_nth [OF assms(1,3)]
    by (intro ex_cong1 conj_cong refl) simp
  then show ?thesis using assms(3) by metis
qed

lemma map_put_key:
  assumes wf: "wf_slots d" "wf_slots (put_slot i e d)" and i: "i < d_cap d" and e: "de_key e = StrKey key"
    and old: "key_at d i = StrKey key \<or> key_at d i = NullKey \<or> key_at d i = TombstoneKey"
  shows "dict_map (put_slot i e d) = (dict_map d)(key \<mapsto> de_val e)"
proof (rule map_eqI)
  fix k v
  show "dict_map (put_slot i e d) k = Some v \<longleftrightarrow> ((dict_map d)(key \<mapsto> de_val e)) k = Some v"
  proof (cases "k = key")
    case True
    have "j = i" if "j < d_cap d" "key_at d j = StrKey key" for j
    proof (rule ccontr)
      assume "j \<noteq> i"
      then show False
        using wf_slotsD(3) [OF wf(2), of i key j] that i e by (simp add: put_slot_nth [OF wf(1) i])
    qed
    then show ?thesis using map_put [OF wf i] True e by auto
  next
    case False
    have "j \<noteq> i" if "key_at d j = StrKey k" for j
      using that old False by auto
    then show ?thesis using map_put [OF wf i] dict_map_iff [OF wf(1), of k v] False e by auto
  qed
qed

lemma map_put_tombstone:
  assumes wf: "wf_slots d" "wf_slots (put_slot i e d)" and i: "i < d_cap d" and e: "de_key e = TombstoneKey"
    and old: "key_at d i = StrKey key"
  shows "dict_map (put_slot i e d) = (dict_map d)(key := None)"
proof (rule map_eqI)
  fix k v
  have only: "j = i" if "j < d_cap d" "key_at d j = StrKey key" for j
    using wf_slotsD(3) [OF wf(1) i old that] .
  show "dict_map (put_slot i e d) k = Some v \<longleftrightarrow> ((dict_map d)(key := None)) k = Some v"
  proof (cases "k = key")
    case True
    then show ?thesis using only map_put [OF wf i] e by auto
  next
    case False
    have "j \<noteq> i" if "key_at d j = StrKey k" for j
      using that old False by auto
    then show ?thesis using map_put [OF wf i] dict_map_iff [OF wf(1), of k v] False e by auto
  qed
qed

lemma len_update [simp]:
  "probe (d\<lparr>d_len := n\<rparr>) = probe d" "reached (d\<lparr>d_len := n\<rparr>) = reached d"
  "wf_slots (d\<lparr>d_len := n\<rparr>) \<longleftrightarrow> wf_slots d" "dict_map (d\<lparr>d_len := n\<rparr>) = dict_map d"
proof -
  show probe: "probe (d\<lparr>d_len := n\<rparr>) = probe d" by (simp add: probe_def fun_eq_iff)
  show reached: "reached (d\<lparr>d_len := n\<rparr>) = reached d" by (simp add: reached_def probe fun_eq_iff)
  show "wf_slots (d\<lparr>d_len := n\<rparr>) \<longleftrightarrow> wf_slots d" by (simp add: wf_slots_def reached)
  show "dict_map (d\<lparr>d_len := n\<rparr>) = dict_map d" by (simp add: dict_map_def dict_pairs_def)
qed

section \<open>Counting slots\<close>

definition live_slots :: "'v dict \<Rightarrow> nat set" where
  "live_slots d = {i. i < d_cap d \<and> is_live (key_at d i)}"

definition tomb_slots :: "'v dict \<Rightarrow> nat set" where
  "tomb_slots d = {i. i < d_cap d \<and> key_at d i = TombstoneKey}"

lemma finite_slots [simp]: "finite (live_slots d)" "finite (tomb_slots d)"
  by (simp_all add: live_slots_def tomb_slots_def)

lemma slots_disjoint: "live_slots d \<inter> tomb_slots d = {}"
  by (auto simp: live_slots_def tomb_slots_def is_live_def)

lemma free_if_room:
  assumes "card (live_slots d) + card (tomb_slots d) < d_cap d"
  shows "free_slot d"
proof -
  have "card (live_slots d \<union> tomb_slots d) < card {..<d_cap d}"
    using assms slots_disjoint [of d] by (simp add: card_Un_disjoint)
  then have "\<not> {..<d_cap d} \<subseteq> live_slots d \<union> tomb_slots d"
    using card_mono [of "live_slots d \<union> tomb_slots d" "{..<d_cap d}"] by auto
  then show ?thesis by (force simp: free_slot_def live_slots_def tomb_slots_def is_live_def)
qed

lemma slots_put:
  assumes "wf_slots d" "i < d_cap d"
  shows "live_slots (put_slot i e d) = (if is_live (de_key e) then insert i (live_slots d) else live_slots d - {i})"
    and "tomb_slots (put_slot i e d) = (if de_key e = TombstoneKey then insert i (tomb_slots d) else tomb_slots d - {i})"
  using assms by (auto simp: live_slots_def tomb_slots_def put_slot_nth)

text \<open>
  The invariant: the count of live slots is exact, that of tombstones an upper bound, and together
  they stay within three quarters of the capacity.
\<close>

definition counted :: "'v dict \<Rightarrow> bool" where
  "counted d \<longleftrightarrow> wf_slots d \<and> card (live_slots d) = d_len d \<and> card (tomb_slots d) \<le> d_tomb d"

definition dict_ok :: "'v dict \<Rightarrow> bool" where
  "dict_ok d \<longleftrightarrow> counted d \<and> (\<exists>c\<ge>4. d_cap d = 4 * c \<and> d_len d + d_tomb d \<le> 3 * c)"

lemma counted_free: "counted d \<Longrightarrow> d_len d + d_tomb d < d_cap d \<Longrightarrow> free_slot d"
  by (rule free_if_room) (auto simp: counted_def)

lemma dict_ok_free: "dict_ok d \<Longrightarrow> free_slot d"
  by (rule counted_free) (auto simp: dict_ok_def)

lemma insert_counted:
  assumes d: "counted d" and room: "d_len d + d_tomb d < d_cap d"
  shows "\<exists>d'. dict_insert_raw d key (hash_str key) val = Some d' \<and> counted d' \<and>
    dict_map d' = (dict_map d)(key \<mapsto> val) \<and> d_cap d' = d_cap d \<and> d_tomb d' = d_tomb d \<and>
    d_refcount d' = d_refcount d \<and> d_len d' = (if dict_map d key = None then d_len d + 1 else d_len d)"
proof -
  have wf: "wf_slots d" using d by (simp add: counted_def)
  have free: "free_slot d" using d room by (rule counted_free)
  show ?thesis
  proof (cases "\<exists>i<d_cap d. key_at d i = StrKey key")
    case True
    then obtain i where i: "i < d_cap d" "key_at d i = StrKey key" by blast
    let ?e = "(d_entries d ! i)\<lparr>de_val := val\<rparr>"
    have only: "\<forall>j<d_cap d. key_at d j = StrKey key \<longrightarrow> j = i" using wf_slotsD(3) [OF wf i] by blast
    have wf': "wf_slots (put_slot i ?e d)"
    proof (rule wf_put [OF wf i(1)])
      show "de_key ?e \<noteq> NullKey" using i(2) by simp
      fix k
      assume "de_key ?e = StrKey k"
      then have "k = key" using i(2) by simp
      then show "de_hash ?e = hash_str k \<and> reached d k i \<and> (\<forall>j<d_cap d. key_at d j = StrKey k \<longrightarrow> j = i)"
        using wf_slotsD(1,2) [OF wf i] only by simp
    qed
    have "live_slots (put_slot i ?e d) = live_slots d" "tomb_slots (put_slot i ?e d) = tomb_slots d"
      using i by (auto simp: put_slot_nth [OF wf i(1)] live_slots_def tomb_slots_def is_live_def split: if_splits)
    then have "counted (put_slot i ?e d)" using d wf' by (simp add: counted_def)
    moreover have "dict_map (put_slot i ?e d) = (dict_map d)(key \<mapsto> val)"
      using map_put_key [OF wf wf' i(1)] i(2) by simp
    moreover have "dict_map d key \<noteq> None" using i dict_map_None [OF wf] by blast
    ultimately show ?thesis
      using insert_found [OF wf free i, of val] unfolding put_slot_def [symmetric]
      by (intro exI [of _ "put_slot i ?e d"]) simp
  next
    case False
    then obtain i where i: "i < d_cap d" "reached d key i" "key_at d i = NullKey \<or> key_at d i = TombstoneKey"
      and ins: "dict_insert_raw d key (hash_str key) val = Some (d\<lparr>
        d_entries := (d_entries d)[i := \<lparr>de_key = StrKey key, de_hash = hash_str key, de_val = val\<rparr>],
        d_len := d_len d + 1\<rparr>)"
      using insert_missing [OF wf free, of key val] by blast
    let ?e = "\<lparr>de_key = StrKey key, de_hash = hash_str key, de_val = val\<rparr>"
    let ?d = "put_slot i ?e d"
    have wf': "wf_slots ?d"
      by (rule wf_put [OF wf i(1)]) (use False i(2) in auto)
    have "i \<notin> live_slots d" using i(3) by (auto simp: live_slots_def is_live_def)
    then have "card (live_slots ?d) = d_len d + 1"
      using d by (simp add: slots_put [OF wf i(1)] is_live_def counted_def)
    moreover have "card (tomb_slots ?d) \<le> d_tomb d"
      using d card_Diff1_le [of "tomb_slots d" i] by (simp add: slots_put [OF wf i(1)] counted_def)
    ultimately have count: "counted (?d\<lparr>d_len := d_len d + 1\<rparr>)"
      using wf' by (simp add: counted_def live_slots_def tomb_slots_def)
    have map: "dict_map (?d\<lparr>d_len := d_len d + 1\<rparr>) = (dict_map d)(key \<mapsto> val)"
      using map_put_key [OF wf wf' i(1)] i(3) by simp
    have None: "dict_map d key = None" using False dict_map_None [OF wf] by blast
    have "dict_insert_raw d key (hash_str key) val = Some (?d\<lparr>d_len := d_len d + 1\<rparr>)"
      by (simp add: ins put_slot_def)
    then show ?thesis
      by (intro exI [of _ "?d\<lparr>d_len := d_len d + 1\<rparr>"] conjI count map) (simp_all add: None)
  qed
qed

section \<open>Growing\<close>

lemma map_of_append_pairs: "map_of (xs @ ys) = map_of ys ++ map_of xs"
  by (rule map_of_append)

lemma reinsert_counted:
  assumes "counted t" "d_tomb t = 0" "d_len t + length (List.map_filter entry_pair es) < d_cap t"
    and "\<forall>e\<in>set es. \<forall>key. de_key e = StrKey key \<longrightarrow> de_hash e = hash_str key"
    and "distinct (map fst (List.map_filter entry_pair es))"
    and "\<forall>key\<in>fst ` set (List.map_filter entry_pair es). dict_map t key = None"
  shows "\<exists>t'. reinsert es t = Some t' \<and> counted t' \<and> d_tomb t' = 0 \<and> d_cap t' = d_cap t \<and>
    d_refcount t' = d_refcount t \<and> d_len t' = d_len t + length (List.map_filter entry_pair es) \<and>
    dict_map t' = dict_map t ++ map_of (List.map_filter entry_pair es)"
  using assms
proof (induction es arbitrary: t)
  case Nil
  then show ?case by (simp add: List.map_filter_simps)
next
  case (Cons e es)
  show ?case
  proof (cases "de_key e")
    case (StrKey key)
    then have pair: "entry_pair e = Some (key, de_val e)" by (simp add: entry_pair_def)
    have fresh: "dict_map t key = None" using Cons.prems(6) pair by (simp add: List.map_filter_simps)
    have hash: "de_hash e = hash_str key" using Cons.prems(4) StrKey by simp
    obtain u where u: "dict_insert_raw t key (de_hash e) (de_val e) = Some u" "counted u"
        "dict_map u = (dict_map t)(key \<mapsto> de_val e)" "d_cap u = d_cap t" "d_tomb u = 0"
        "d_refcount u = d_refcount t" "d_len u = d_len t + 1"
      using insert_counted [OF Cons.prems(1), of key "de_val e"] Cons.prems(2,3) fresh hash by auto
    have keys: "key \<notin> fst ` set (List.map_filter entry_pair es)"
      using Cons.prems(5) pair by (simp add: List.map_filter_simps)
    have "\<exists>t'. reinsert es u = Some t' \<and> counted t' \<and> d_tomb t' = 0 \<and> d_cap t' = d_cap u \<and>
        d_refcount t' = d_refcount u \<and> d_len t' = d_len u + length (List.map_filter entry_pair es) \<and>
        dict_map t' = dict_map u ++ map_of (List.map_filter entry_pair es)"
    proof (rule Cons.IH)
      show "d_len u + length (List.map_filter entry_pair es) < d_cap u"
        using Cons.prems(3) pair u by (simp add: List.map_filter_simps)
      show "\<forall>k\<in>fst ` set (List.map_filter entry_pair es). dict_map u k = None"
        using Cons.prems(6) pair u(3) keys by (auto simp: List.map_filter_simps)
    qed (use Cons.prems u pair in \<open>auto simp: List.map_filter_simps\<close>)
    moreover have maps: "dict_map u ++ map_of (List.map_filter entry_pair es) =
        dict_map t ++ map_of (List.map_filter entry_pair (e # es))"
    proof -
      have "map_of (List.map_filter entry_pair es) key = None" using keys by (simp add: map_of_eq_None_iff)
      then show ?thesis
        using pair u(3) by (auto simp: List.map_filter_simps fun_eq_iff map_add_def split: option.split)
    qed
    ultimately show ?thesis using u pair StrKey by (auto simp: List.map_filter_simps(1) simp del: map_of.simps)
  qed (use Cons in \<open>auto simp: List.map_filter_simps entry_pair_def\<close>)
qed

lemma pairs_of_wf:
  assumes "wf_slots d"
  shows "distinct (map fst (dict_pairs d))" and "length (dict_pairs d) = card (live_slots d)"
    and "\<forall>e\<in>set (d_entries d). \<forall>key. de_key e = StrKey key \<longrightarrow> de_hash e = hash_str key"
proof -
  let ?I = "filter (\<lambda>i. is_live (key_at d i)) [0..<d_cap d]"
  have len: "length (d_entries d) = d_cap d" using assms by (simp add: wf_slots_def)
  have entries: "d_entries d = map (\<lambda>i. d_entries d ! i) [0..<d_cap d]"
    using map_nth [of "d_entries d"] len by simp
  have live: "entry_pair e = (if is_live (de_key e) then Some (case de_key e of StrKey k \<Rightarrow> (k, de_val e)) else None)"
    for e :: "'a table_entry"
    by (auto simp: entry_pair_def is_live_def split: key_ptr.split)
  have pairs: "dict_pairs d = map (\<lambda>i. case key_at d i of StrKey k \<Rightarrow> (k, de_val (d_entries d ! i))) ?I"
  proof -
    have "List.map_filter entry_pair (map (\<lambda>i. d_entries d ! i) is) =
        map (\<lambda>i. case key_at d i of StrKey k \<Rightarrow> (k, de_val (d_entries d ! i))) (filter (\<lambda>i. is_live (key_at d i)) is)" for "is"
      by (induction "is") (simp_all add: List.map_filter_simps live)
    then show ?thesis using entries unfolding dict_pairs_def by metis
  qed
  have "inj_on (\<lambda>i. fst (case key_at d i of StrKey k \<Rightarrow> (k, de_val (d_entries d ! i)))) (set ?I)"
  proof (rule inj_onI)
    fix i j
    assume "i \<in> set ?I" "j \<in> set ?I"
      and same: "fst (case key_at d i of StrKey k \<Rightarrow> (k, de_val (d_entries d ! i))) =
        fst (case key_at d j of StrKey k \<Rightarrow> (k, de_val (d_entries d ! j)))"
    then have bounds: "i < d_cap d" "j < d_cap d" and "is_live (key_at d i)" "is_live (key_at d j)" by simp_all
    then obtain k l where keys: "key_at d i = StrKey k" "key_at d j = StrKey l"
      by (cases "key_at d i"; cases "key_at d j") (simp_all add: is_live_def)
    with same have "k = l" by simp
    then show "i = j" using wf_slotsD(3) [OF assms bounds(2) keys(2) bounds(1)] keys(1) by simp
  qed
  then show "distinct (map fst (dict_pairs d))"
    by (simp add: pairs distinct_map comp_def)
  have "set ?I = live_slots d" by (auto simp: live_slots_def)
  moreover have "distinct ?I" by simp
  ultimately show "length (dict_pairs d) = card (live_slots d)"
    unfolding pairs length_map using distinct_card [of ?I] by simp
  show "\<forall>e\<in>set (d_entries d). \<forall>key. de_key e = StrKey key \<longrightarrow> de_hash e = hash_str key"
  proof (intro ballI allI impI)
    fix e key
    assume "e \<in> set (d_entries d)" "de_key e = StrKey key"
    then obtain i where "i < d_cap d" "e = d_entries d ! i" "key_at d i = StrKey key"
      by (auto simp: in_set_conv_nth len)
    then show "de_hash e = hash_str key" using wf_slotsD(1) [OF assms] by blast
  qed
qed

lemma empty_table:
  assumes "d_entries t = replicate (d_cap t) null_entry" "d_cap t = 2 ^ k" "d_len t = 0"
  shows "counted t" and "dict_map t = Map.empty"
proof -
  have null: "key_at t i = NullKey" if "i < d_cap t" for i
    using that assms(1) by (simp add: null_entry_def)
  then have "wf_slots t" using assms by (auto simp: wf_slots_def)
  moreover have "live_slots t = {}" "tomb_slots t = {}"
    using null by (auto simp: live_slots_def tomb_slots_def is_live_def)
  ultimately show "counted t" using assms by (simp add: counted_def)
  show "dict_map t = Map.empty"
    using null dict_map_None [OF \<open>wf_slots t\<close>] by (auto simp: fun_eq_iff)
qed

lemma grow_counted:
  assumes "counted d" "d_len d < 2 * d_cap d"
  shows "\<exists>t. dict_grow d = Some t \<and> counted t \<and> d_tomb t = 0 \<and> d_cap t = 2 * d_cap d \<and>
    d_refcount t = d_refcount d \<and> d_len t = d_len d \<and> dict_map t = dict_map d"
proof -
  have wf: "wf_slots d" using assms by (simp add: counted_def)
  then obtain k where "d_cap (emptied d) = 2 ^ Suc k" by (auto simp: wf_slots_def emptied_def)
  note fresh = empty_table [of "emptied d", OF _ this]
  have fresh: "counted (emptied d)" "dict_map (emptied d) = Map.empty"
    using fresh by (simp_all add: emptied_def)
  have "length (dict_pairs d) = d_len d" using pairs_of_wf(2) [OF wf] assms(1) by (simp add: counted_def)
  then show ?thesis
    using reinsert_counted [of "emptied d" "d_entries d"] fresh assms pairs_of_wf [OF wf]
    unfolding dict_grow_def dict_map_def [of d] dict_pairs_def
    by (auto simp: emptied_def)
qed

section \<open>The operations\<close>

lemma new_ok: "dict_ok (duxrt_dict_new :: 'v dict)" "dict_map (duxrt_dict_new :: 'v dict) = Map.empty"
proof -
  have new: "d_entries (duxrt_dict_new :: 'v dict) = replicate (d_cap (duxrt_dict_new :: 'v dict)) null_entry"
    "d_cap (duxrt_dict_new :: 'v dict) = 2 ^ 4" "d_len (duxrt_dict_new :: 'v dict) = 0"
    by (simp_all add: duxrt_dict_new_def DICT_INIT_CAP_def)
  show "dict_ok (duxrt_dict_new :: 'v dict)"
    using empty_table(1) [OF new] by (auto simp: dict_ok_def duxrt_dict_new_def DICT_INIT_CAP_def intro!: exI [of _ 4])
  show "dict_map (duxrt_dict_new :: 'v dict) = Map.empty"
    by (rule empty_table(2) [OF new])
qed

lemma must_grow_iff: "must_grow d \<longleftrightarrow> 3 * d_cap d \<le> 4 * (d_len d + d_tomb d)"
  unfolding must_grow_def DICT_LOAD_NUM_def DICT_LOAD_DEN_def by (simp add: algebra_simps)

lemma set_ok:
  assumes "dict_ok d"
  shows "\<exists>d'. dict_set d key val = Some d' \<and> dict_ok d' \<and> dict_map d' = (dict_map d)(key \<mapsto> val) \<and>
    d_refcount d' = d_refcount d \<and>
    d_cap d' = (if must_grow d then 2 * d_cap d else d_cap d) \<and>
    d_tomb d' = (if must_grow d then 0 else d_tomb d)"
proof -
  obtain c where c: "c \<ge> 4" "d_cap d = 4 * c" "d_len d + d_tomb d \<le> 3 * c" and d: "counted d"
    using assms by (auto simp: dict_ok_def)
  show ?thesis
  proof (cases "must_grow d")
    case True
    obtain t where t: "dict_grow d = Some t" "counted t" "d_tomb t = 0" "d_cap t = 2 * d_cap d"
        "d_refcount t = d_refcount d" "d_len t = d_len d" "dict_map t = dict_map d"
      using grow_counted [OF d] c by auto
    obtain d' where d': "dict_insert_raw t key (hash_str key) val = Some d'" "counted d'"
        "dict_map d' = (dict_map t)(key \<mapsto> val)" "d_cap d' = d_cap t" "d_tomb d' = 0"
        "d_refcount d' = d_refcount t" "d_len d' \<le> d_len t + 1"
      using insert_counted [OF t(2), of key val] t c by auto
    have "dict_ok d'"
      using d' t c by (auto simp: dict_ok_def intro!: exI [of _ "2 * c"])
    then show ?thesis using d' t True by (auto simp: dict_set_def)
  next
    case False
    then have room: "d_len d + d_tomb d < 3 * c" using c by (simp add: must_grow_iff)
    obtain d' where d': "dict_insert_raw d key (hash_str key) val = Some d'" "counted d'"
        "dict_map d' = (dict_map d)(key \<mapsto> val)" "d_cap d' = d_cap d" "d_tomb d' = d_tomb d"
        "d_refcount d' = d_refcount d" "d_len d' \<le> d_len d + 1"
      using insert_counted [OF d, of key val] room c by auto
    have "dict_ok d'"
      using d' room c by (auto simp: dict_ok_def intro!: exI [of _ c])
    then show ?thesis using d' False by (auto simp: dict_set_def)
  qed
qed

lemma search_ok:
  assumes "dict_ok d"
  shows "case dict_map d key of
      None \<Rightarrow> dict_search d key = Some None
    | Some v \<Rightarrow> \<exists>i<d_cap d. dict_search d key = Some (Some i) \<and> key_at d i = StrKey key \<and> de_val (d_entries d ! i) = v"
proof -
  have wf: "wf_slots d" and free: "free_slot d"
    using assms dict_ok_free by (auto simp: dict_ok_def counted_def)
  show ?thesis
    using search_found [OF wf free] search_missing [OF wf free] dict_map_iff [OF wf, of key] dict_map_None [OF wf, of key]
    by (auto split: option.split)
qed

lemma get_ok: "dict_ok d \<Longrightarrow> dict_get d key = Some (case dict_map d key of None \<Rightarrow> None | Some v \<Rightarrow> v)"
  using search_ok [of d key] by (auto simp: dict_get_def split: option.splits)

lemma has_ok: "dict_ok d \<Longrightarrow> dict_has d key = Some (dict_map d key \<noteq> None)"
  using search_ok [of d key] by (auto simp: dict_has_def split: option.splits)

lemma del_ok:
  assumes "dict_ok d"
  shows "\<exists>d'. dict_del d key = Some d' \<and> dict_ok d' \<and> dict_map d' = (dict_map d)(key := None) \<and>
    d_refcount d' = d_refcount d \<and> d_cap d' = d_cap d \<and>
    d_tomb d' = (if dict_map d key = None then d_tomb d else d_tomb d + 1)"
proof (cases "dict_map d key")
  case None
  then have "dict_search d key = Some None" using search_ok [OF assms, of key] by simp
  then show ?thesis using assms None by (auto simp: dict_del_def fun_upd_idem)
next
  case (Some v)
  have d: "counted d" and wf: "wf_slots d" using assms by (auto simp: dict_ok_def counted_def)
  obtain i where i: "i < d_cap d" "key_at d i = StrKey key" and found: "dict_search d key = Some (Some i)"
    using search_ok [OF assms, of key] Some by auto
  let ?e = "\<lparr>de_key = TombstoneKey, de_hash = 0, de_val = None\<rparr> :: 'a table_entry"
  let ?d = "put_slot i ?e d"
  let ?d' = "?d\<lparr>d_len := d_len d - 1, d_tomb := d_tomb d + 1\<rparr>"
  have wf': "wf_slots ?d" by (rule wf_put [OF wf i(1)]) simp_all
  have same: "wf_slots ?d'" "dict_map ?d' = dict_map ?d" "live_slots ?d' = live_slots ?d" "tomb_slots ?d' = tomb_slots ?d"
    using wf' by (simp_all add: wf_slots_def reached_def probe_def dict_map_def dict_pairs_def live_slots_def tomb_slots_def)
  have "i \<in> live_slots d" using i by (simp add: live_slots_def is_live_def)
  then have len: "card (live_slots ?d) = d_len d - 1" "0 < d_len d"
    using d card_gt_0_iff [of "live_slots d"]
    by (auto simp: slots_put [OF wf i(1)] is_live_def counted_def)
  have "card (tomb_slots ?d) \<le> d_tomb d + 1"
    using d card_insert_le_m1 [of "d_tomb d + 1" "tomb_slots d" i]
    by (simp add: slots_put [OF wf i(1)] counted_def)
  then have count: "counted ?d'" using same len by (simp add: counted_def)
  obtain c where c: "c \<ge> 4" "d_cap d = 4 * c" "d_len d + d_tomb d \<le> 3 * c"
    using assms by (auto simp: dict_ok_def)
  then have ok: "dict_ok ?d'" using count len(2) by (auto simp: dict_ok_def)
  have del: "dict_del d key = Some ?d'" using found by (simp add: dict_del_def put_slot_def)
  have map: "dict_map ?d' = (dict_map d)(key := None)"
    using map_put_tombstone [OF wf wf' i(1) _ i(2)] same(2) by simp
  show ?thesis by (intro exI [of _ ?d'] conjI ok del map) (simp_all add: Some)
qed

lemma len_ok: "dict_ok d \<Longrightarrow> d_len d = card (dom (dict_map d))"
proof -
  assume ok: "dict_ok d"
  then have wf: "wf_slots d" and "card (live_slots d) = d_len d" by (auto simp: dict_ok_def counted_def)
  then have "d_len d = length (map fst (dict_pairs d))" using pairs_of_wf(2) [OF wf] by simp
  also have "\<dots> = card (set (map fst (dict_pairs d)))"
    using distinct_card [OF pairs_of_wf(1) [OF wf]] by (rule sym)
  finally show ?thesis by (simp add: dict_map_def dom_map_of_conv_image_fst)
qed

section \<open>The interface\<close>

text \<open>What the rest of the runtime may rely on: each operation ends and acts on a partial map.\<close>

datatype 'v dict_op = OpSet string 'v | OpDel string

locale dictionary =
  fixes ok :: "'d \<Rightarrow> bool"
    and abs :: "'d \<Rightarrow> string \<Rightarrow> 'v option"
    and new :: 'd
    and put :: "'d \<Rightarrow> string \<Rightarrow> 'v \<Rightarrow> 'd option"
    and del :: "'d \<Rightarrow> string \<Rightarrow> 'd option"
  assumes new_law: "ok new" "abs new = Map.empty"
    and put_law: "ok d \<Longrightarrow> \<exists>d'. put d key v = Some d' \<and> ok d' \<and> abs d' = (abs d)(key \<mapsto> v)"
    and del_law: "ok d \<Longrightarrow> \<exists>d'. del d key = Some d' \<and> ok d' \<and> abs d' = (abs d)(key := None)"
begin

fun perform :: "'v dict_op list \<Rightarrow> 'd \<Rightarrow> 'd option" where
  "perform [] d = Some d"
| "perform (OpSet key v # ops) d = (case put d key v of None \<Rightarrow> None | Some d' \<Rightarrow> perform ops d')"
| "perform (OpDel key # ops) d = (case del d key of None \<Rightarrow> None | Some d' \<Rightarrow> perform ops d')"

end

text \<open>The same on maps.\<close>

fun map_ops :: "'v dict_op list \<Rightarrow> (string \<Rightarrow> 'v option) \<Rightarrow> string \<Rightarrow> 'v option" where
  "map_ops [] m = m"
| "map_ops (OpSet key v # ops) m = map_ops ops (m(key \<mapsto> v))"
| "map_ops (OpDel key # ops) m = map_ops ops (m(key := None))"

context dictionary
begin

lemma perform_refines: "ok d \<Longrightarrow> \<exists>d'. perform ops d = Some d' \<and> ok d' \<and> abs d' = map_ops ops (abs d)"
proof (induction ops arbitrary: d)
  case (Cons op ops)
  show ?case
  proof (cases op)
    case (OpSet key v)
    then show ?thesis using put_law [OF Cons.prems, of key v] Cons.IH by fastforce
  next
    case (OpDel key)
    then show ?thesis using del_law [OF Cons.prems, of key] Cons.IH by fastforce
  qed
qed simp

lemma history_refines: "\<exists>d. perform ops new = Some d \<and> ok d \<and> abs d = map_ops ops Map.empty"
  using perform_refines [OF new_law(1), of ops] by (simp add: new_law(2))

end

interpretation dict: dictionary dict_ok dict_map duxrt_dict_new dict_set dict_del
  by unfold_locales (use new_ok set_ok del_ok in blast)+

text \<open>A sequence of calls on the table of the runtime.\<close>

fun dict_ops :: "'v option dict_op list \<Rightarrow> 'v dict \<Rightarrow> 'v dict option" where
  "dict_ops [] d = Some d"
| "dict_ops (OpSet key v # ops) d = (case dict_set d key v of None \<Rightarrow> None | Some d' \<Rightarrow> dict_ops ops d')"
| "dict_ops (OpDel key # ops) d = (case dict_del d key of None \<Rightarrow> None | Some d' \<Rightarrow> dict_ops ops d')"

lemma dict_ops_perform: "dict_ops ops d = dict.perform ops d"
  by (induction ops d rule: dict_ops.induct) (auto split: option.split)

text \<open>
  C6. The hash table of the runtime implements a finite map: from an empty table, every sequence of
  insertions and deletions ends, and afterwards \<open>get\<close>, \<open>has\<close> and \<open>len\<close> answer as the map that
  underwent the same updates.
\<close>

theorem dictionary_refines_map:
  "\<exists>d. dict_ops ops duxrt_dict_new = Some d \<and> d_len d = card (dom (map_ops ops Map.empty)) \<and>
    (\<forall>key. dict_has d key = Some (map_ops ops Map.empty key \<noteq> None) \<and>
      dict_get d key = Some (case map_ops ops Map.empty key of None \<Rightarrow> None | Some v \<Rightarrow> v))"
proof -
  obtain d where d: "dict_ops ops duxrt_dict_new = Some d" "dict_ok d" "dict_map d = map_ops ops Map.empty"
    using dict.history_refines [of ops] unfolding dict_ops_perform by blast
  then show ?thesis using get_ok [OF d(2)] has_ok [OF d(2)] len_ok [OF d(2)] by auto
qed

text \<open>
  C26. The load of the table is bounded: after any sequence of calls on a new table its capacity is a
  power of two, at most three quarters of its slots are in use or tombstones, so at least one slot
  is free and every search ends.
\<close>

theorem dictionary_load:
  assumes "dict_ops ops duxrt_dict_new = Some d"
  shows "(\<exists>k. d_cap d = 2 ^ k) \<and> length (d_entries d) = d_cap d \<and> 4 * (d_len d + d_tomb d) \<le> 3 * d_cap d \<and>
    card {i. i < d_cap d \<and> is_live (key_at d i)} = d_len d \<and>
    card {i. i < d_cap d \<and> key_at d i = TombstoneKey} \<le> d_tomb d \<and>
    (\<exists>i<d_cap d. key_at d i = NullKey) \<and> dict_search d key \<noteq> None"
proof -
  have ok: "dict_ok d" using dict.history_refines [of ops] assms by (auto simp: dict_ops_perform)
  have "dict_search d key \<noteq> None" using search_ok [OF ok, of key] by (auto split: option.splits)
  then show ?thesis
    using ok dict_ok_free [OF ok]
    by (auto simp: dict_ok_def counted_def wf_slots_def free_slot_def live_slots_def tomb_slots_def)
qed

lemma dictionary_load_witness:
  "\<exists>d. dict_ops [OpSet ''a'' (Some (1 :: nat)), OpSet ''b'' None, OpDel ''a''] duxrt_dict_new = Some d \<and>
    4 * (d_len d + d_tomb d) \<le> 3 * d_cap d \<and> dict_search d ''a'' \<noteq> None"
proof -
  obtain d where d: "dict_ops [OpSet ''a'' (Some (1 :: nat)), OpSet ''b'' None, OpDel ''a''] duxrt_dict_new = Some d"
    using dict.history_refines [of "[OpSet ''a'' (Some (1 :: nat)), OpSet ''b'' None, OpDel ''a'']"]
    unfolding dict_ops_perform by blast
  from dictionary_load [OF this, of "''a''"] d show ?thesis by blast
qed

section \<open>Tombstones that are never taken back\<close>

text \<open>Setting and deleting one key.\<close>

definition churn :: "string \<Rightarrow> 'v option \<Rightarrow> nat \<Rightarrow> 'v option dict_op list" where
  "churn key v n = concat (replicate n [OpSet key v, OpDel key])"

lemma dict_ops_append: "dict_ops (ops @ ops') d = (case dict_ops ops d of None \<Rightarrow> None | Some d' \<Rightarrow> dict_ops ops' d')"
  by (induction ops d rule: dict_ops.induct) (auto split: option.split)

lemma churn_add: "dict_ops (churn key v (m + n)) d =
    (case dict_ops (churn key v m) d of None \<Rightarrow> None | Some d' \<Rightarrow> dict_ops (churn key v n) d')"
  by (simp add: churn_def replicate_add dict_ops_append cong: option.case_cong)

definition vacant :: "'v dict \<Rightarrow> bool" where
  "vacant d \<longleftrightarrow> dict_ok d \<and> dict_map d = Map.empty"

lemma vacant_len: "vacant d \<Longrightarrow> d_len d = 0"
  using len_ok [of d] by (auto simp: vacant_def)

lemma churn_once:
  assumes "vacant d"
  shows "\<exists>d'. dict_ops (churn key v 1) d = Some d' \<and> vacant d' \<and>
    (if 3 * d_cap d \<le> 4 * d_tomb d then d_cap d' = 2 * d_cap d
     else d_cap d' = d_cap d \<and> d_tomb d' = d_tomb d + 1)"
proof -
  have ok: "dict_ok d" "dict_map d = Map.empty" using assms by (auto simp: vacant_def)
  obtain e where e: "dict_set d key v = Some e" "dict_ok e" "dict_map e = [key \<mapsto> v]"
      "d_cap e = (if must_grow d then 2 * d_cap d else d_cap d)" "d_tomb e = (if must_grow d then 0 else d_tomb d)"
    using set_ok [OF ok(1), of key v] ok(2) by auto
  obtain d' where d': "dict_del e key = Some d'" "dict_ok d'" "dict_map d' = Map.empty"
      "d_cap d' = d_cap e" "d_tomb d' = d_tomb e + 1"
    using del_ok [OF e(2), of key] e(3) by auto
  have "must_grow d \<longleftrightarrow> 3 * d_cap d \<le> 4 * d_tomb d"
    using vacant_len [OF assms] by (simp add: must_grow_iff)
  then show ?thesis using e d' by (auto simp: churn_def vacant_def)
qed

lemma churn_doubles:
  assumes "vacant d"
  shows "\<exists>n d'. dict_ops (churn key v n) d = Some d' \<and> vacant d' \<and> d_cap d' = 2 * d_cap d"
  using assms
proof (induction "3 * d_cap d - 4 * d_tomb d" arbitrary: d rule: less_induct)
  case less
  obtain e where e: "dict_ops (churn key v 1) d = Some e" "vacant e"
      "if 3 * d_cap d \<le> 4 * d_tomb d then d_cap e = 2 * d_cap d else d_cap e = d_cap d \<and> d_tomb e = d_tomb d + 1"
    using churn_once [OF less.prems] by blast
  show ?case
  proof (cases "3 * d_cap d \<le> 4 * d_tomb d")
    case True
    then show ?thesis using e by auto
  next
    case False
    then have "3 * d_cap e - 4 * d_tomb e < 3 * d_cap d - 4 * d_tomb d" using e(3) by simp
    then obtain n d' where "dict_ops (churn key v n) e = Some d'" "vacant d'" "d_cap d' = 2 * d_cap e"
      using less.hyps e(2) by blast
    then have "dict_ops (churn key v (1 + n)) d = Some d'" "vacant d'" "d_cap d' = 2 * d_cap d"
      using e False churn_add [of key v 1 n d] by simp_all
    then show ?thesis by blast
  qed
qed

text \<open>
  A tombstone that is used again stays in the count of tombstones, so a table grows without bound
  although it never holds more than one key: setting and deleting the same key often enough makes
  its capacity exceed any number.
\<close>

theorem churn_grows_without_bound:
  "\<exists>n d. dict_ops (churn key v n) duxrt_dict_new = Some d \<and> d_len d = 0 \<and> B \<le> d_cap d"
proof -
  have "\<exists>n d. dict_ops (churn key v n) duxrt_dict_new = Some d \<and> vacant d \<and> 2 ^ m \<le> d_cap d" for m
  proof (induction m)
    case 0
    have "vacant duxrt_dict_new" by (simp add: vacant_def new_ok)
    then show ?case
      by (intro exI [of _ 0] exI [of _ duxrt_dict_new]) (simp add: churn_def duxrt_dict_new_def DICT_INIT_CAP_def)
  next
    case (Suc m)
    then obtain n d where d: "dict_ops (churn key v n) duxrt_dict_new = Some d" "vacant d" "2 ^ m \<le> d_cap d"
      by blast
    obtain n' d' where "dict_ops (churn key v n') d = Some d'" "vacant d'" "d_cap d' = 2 * d_cap d"
      using churn_doubles [OF d(2)] by blast
    then have "dict_ops (churn key v (n + n')) duxrt_dict_new = Some d'" "vacant d'" "2 ^ Suc m \<le> d_cap d'"
      using d by (simp_all add: churn_add)
    then show ?case by blast
  qed
  from this [of B] obtain n d where "dict_ops (churn key v n) duxrt_dict_new = Some d" "vacant d" "2 ^ B \<le> d_cap d"
    by blast
  moreover have "B \<le> 2 ^ B" by (simp add: less_imp_le)
  ultimately show ?thesis using vacant_len by (meson order_trans)
qed

end
