(* ===== verification/Rt_Outcome.thy ===== *)
theory Rt_Outcome
  imports Loops
begin

text \<open>
  What the models of the C runtime share: how a call ends, and 64-bit signed arithmetic.
  \<open>Abort\<close> is \<open>abort()\<close>, \<open>Raised\<close> an exception thrown by \<open>duxrt_throw\<close> with its type name and message,
  and \<open>Wild\<close> an access outside the object it is meant for, after which C promises nothing.
  Allocation is taken to succeed unless a definition says otherwise.
\<close>

datatype 'a c_run =
    Done 'a
  | Abort
  | Raised string string
  | Wild

definition c_bind :: "'a c_run \<Rightarrow> ('a \<Rightarrow> 'b c_run) \<Rightarrow> 'b c_run" where
  "c_bind m f = (case m of Done a \<Rightarrow> f a | Abort \<Rightarrow> Abort | Raised t msg \<Rightarrow> Raised t msg | Wild \<Rightarrow> Wild)"

lemma c_bind_simps [simp]:
  "c_bind (Done a) f = f a" "c_bind Abort f = Abort" "c_bind (Raised t msg) f = Raised t msg" "c_bind Wild f = Wild"
  by (simp_all add: c_bind_def)

lemma c_bind_cong [fundef_cong]:
  "m = m' \<Longrightarrow> (\<And>a. m' = Done a \<Longrightarrow> f a = g a) \<Longrightarrow> c_bind m f = c_bind m' g"
  by (auto simp: c_bind_def split: c_run.split)

lemma c_bind_Done: "c_bind m f = Done b \<longleftrightarrow> (\<exists>a. m = Done a \<and> f a = Done b)"
  by (cases m) simp_all

text \<open>
  The value of an \<open>int64_t\<close> expression, as the hardware computes it when the exact result does not
  fit (the C standard leaves that case undefined).
\<close>

definition int64 :: "int \<Rightarrow> int" where
  "int64 x = (x + 2 ^ 63) mod 2 ^ 64 - 2 ^ 63"

definition is_int64 :: "int \<Rightarrow> bool" where
  "is_int64 x \<longleftrightarrow> - (2 ^ 63) \<le> x \<and> x < 2 ^ 63"

lemma int64_id: "is_int64 x \<Longrightarrow> int64 x = x"
  by (simp add: int64_def is_int64_def)

lemma is_int64_int64: "is_int64 (int64 x)"
  by (simp add: int64_def is_int64_def)

definition INT64_MAX :: int where
  "INT64_MAX = 2 ^ 63 - 1"

definition INT64_MIN :: int where
  "INT64_MIN = - (2 ^ 63)"

definition INT32_MAX :: int where
  "INT32_MAX = 2 ^ 31 - 1"

section \<open>Indices\<close>

text \<open>\<open>if (idx < 0) idx += len; if (idx < 0 || idx >= len) ...\<close>: the slot, if there is one.\<close>

definition slot_of :: "nat \<Rightarrow> int \<Rightarrow> nat option" where
  "slot_of len idx = (let i = (if idx < 0 then idx + int len else idx)
     in if i < 0 \<or> int len \<le> i then None else Some (nat i))"

lemma slot_of_less: "slot_of len idx = Some i \<Longrightarrow> i < len"
  by (auto simp: slot_of_def Let_def split: if_splits)

lemma slot_of_None: "slot_of len idx = None \<longleftrightarrow> idx < - int len \<or> int len \<le> idx"
  by (auto simp: slot_of_def Let_def)

lemma slot_of_Some: "slot_of len idx = Some i \<longleftrightarrow> i < len \<and> (idx = int i \<or> idx = int i - int len)"
  by (auto simp: slot_of_def Let_def)

section \<open>Counting\<close>

definition number :: "('a \<Rightarrow> bool) \<Rightarrow> 'a list \<Rightarrow> nat" where
  "number p ts = length (filter p ts)"

lemma number_update: "i < length ts \<Longrightarrow>
    number p (ts[i := x]) + (if p (ts ! i) then 1 else 0) = number p ts + (if p x then 1 else 0)"
proof (induction ts arbitrary: i)
  case (Cons t ts)
  show ?case
  proof (cases i)
    case (Suc j)
    then show ?thesis using Cons.IH [of j] Cons.prems by (simp add: number_def)
  qed (simp add: number_def)
qed simp

lemma number_0: "number p ts = 0 \<longleftrightarrow> (\<forall>t\<in>set ts. \<not> p t)"
  by (auto simp: number_def filter_empty_conv)

lemma number_pos: "i < length ts \<Longrightarrow> p (ts ! i) \<Longrightarrow> 0 < number p ts"
  using number_0 [of p ts] nth_mem [of i ts] by (auto simp del: nth_mem)

end
