(* ===== verification/Rt_List.thy ===== *)
theory Rt_List
  imports Rt_Outcome
begin

text \<open>
  The lists of the runtime (\<^verbatim>\<open>src/runtime/list.c\<close>), ranges (\<^verbatim>\<open>range.c\<close>) and the integer part of
  \<^verbatim>\<open>math_rt.c\<close>. A list owns a buffer of 64-bit cells (pointers, \<open>DUXLIST_ELEM_PTR\<close>) or of 32-bit cells
  (\<open>DUXLIST_ELEM_I32\<close>); the model keeps the cells in use and the capacity. An operation for cells of one
  width on a buffer of the other reads or writes across cells and is \<open>Wild\<close>, except \<open>get\<close> and \<open>set\<close>,
  which look at the kind.
\<close>

datatype list_data = PtrCells "64 word list" | I32Cells "32 word list"

record dux_list =
  l_refcount :: int
  l_cap :: nat
  l_data :: list_data

definition LIST_INIT_CAP :: nat where
  "LIST_INIT_CAP = 8"

definition l_len :: "dux_list \<Rightarrow> nat" where
  "l_len l = (case l_data l of PtrCells xs \<Rightarrow> length xs | I32Cells ws \<Rightarrow> length ws)"

definition list_index_error :: "int \<Rightarrow> nat \<Rightarrow> 'a c_run" where
  "list_index_error idx len = Raised ''IndexError''
     (''list index '' @ show_int idx @ '' out of range (len='' @ show_nat len @ '')'')"

definition duxrt_list_new :: dux_list where
  "duxrt_list_new = \<lparr>l_refcount = 1, l_cap = LIST_INIT_CAP, l_data = PtrCells []\<rparr>"

definition duxrt_list_new_i32 :: dux_list where
  "duxrt_list_new_i32 = \<lparr>l_refcount = 1, l_cap = LIST_INIT_CAP, l_data = I32Cells []\<rparr>"

definition grown :: "nat \<Rightarrow> nat \<Rightarrow> nat" where
  "grown len cap = (if len = cap then cap * 2 else cap)"

text \<open>A null list is dereferenced by both kinds of \<open>push\<close>.\<close>

definition duxrt_list_push :: "dux_list option \<Rightarrow> 64 word \<Rightarrow> dux_list c_run" where
  "duxrt_list_push l val = (case l of
       None \<Rightarrow> Wild
     | Some l \<Rightarrow> (case l_data l of
           PtrCells xs \<Rightarrow> Done (l\<lparr>l_cap := grown (length xs) (l_cap l), l_data := PtrCells (xs @ [val])\<rparr>)
         | I32Cells ws \<Rightarrow> Wild))"

definition duxrt_list_push_i32 :: "dux_list option \<Rightarrow> 32 word \<Rightarrow> dux_list c_run" where
  "duxrt_list_push_i32 l val = (case l of
       None \<Rightarrow> Wild
     | Some l \<Rightarrow> (case l_data l of
           I32Cells ws \<Rightarrow> Done (l\<lparr>l_cap := grown (length ws) (l_cap l), l_data := I32Cells (ws @ [val])\<rparr>)
         | PtrCells xs \<Rightarrow> Wild))"

definition duxrt_list_get :: "dux_list option \<Rightarrow> int \<Rightarrow> 64 word c_run" where
  "duxrt_list_get l idx = (case l of
       None \<Rightarrow> Done 0
     | Some l \<Rightarrow> (case slot_of (l_len l) idx of
           None \<Rightarrow> list_index_error idx (l_len l)
         | Some i \<Rightarrow> Done (case l_data l of PtrCells xs \<Rightarrow> xs ! i | I32Cells ws \<Rightarrow> ucast (ws ! i))))"

definition duxrt_list_set :: "dux_list option \<Rightarrow> int \<Rightarrow> 64 word \<Rightarrow> dux_list option c_run" where
  "duxrt_list_set l idx val = (case l of
       None \<Rightarrow> Done None
     | Some l \<Rightarrow> (case slot_of (l_len l) idx of
           None \<Rightarrow> list_index_error idx (l_len l)
         | Some i \<Rightarrow> Done (Some (l\<lparr>l_data := (case l_data l of
               PtrCells xs \<Rightarrow> PtrCells (xs[i := val])
             | I32Cells ws \<Rightarrow> I32Cells (ws[i := ucast val]))\<rparr>))))"

definition duxrt_list_len :: "dux_list option \<Rightarrow> nat" where
  "duxrt_list_len l = (case l of None \<Rightarrow> 0 | Some l \<Rightarrow> l_len l)"

definition duxrt_list_get_i32 :: "dux_list option \<Rightarrow> int \<Rightarrow> 32 word c_run" where
  "duxrt_list_get_i32 l idx = (case l of
       None \<Rightarrow> Done 0
     | Some l \<Rightarrow> (case slot_of (l_len l) idx of
           None \<Rightarrow> list_index_error idx (l_len l)
         | Some i \<Rightarrow> (case l_data l of I32Cells ws \<Rightarrow> Done (ws ! i) | PtrCells xs \<Rightarrow> Wild)))"

definition duxrt_list_set_i32 :: "dux_list option \<Rightarrow> int \<Rightarrow> 32 word \<Rightarrow> dux_list option c_run" where
  "duxrt_list_set_i32 l idx val = (case l of
       None \<Rightarrow> Done None
     | Some l \<Rightarrow> (case slot_of (l_len l) idx of
           None \<Rightarrow> list_index_error idx (l_len l)
         | Some i \<Rightarrow> (case l_data l of
               I32Cells ws \<Rightarrow> Done (Some (l\<lparr>l_data := I32Cells (ws[i := val])\<rparr>))
             | PtrCells xs \<Rightarrow> Wild)))"

text \<open>\<open>release\<close> frees the list (\<open>None\<close>) with the last reference.\<close>

definition duxrt_list_retain :: "dux_list option \<Rightarrow> dux_list option" where
  "duxrt_list_retain = map_option (\<lambda>l. l\<lparr>l_refcount := l_refcount l + 1\<rparr>)"

definition duxrt_list_release :: "dux_list option \<Rightarrow> dux_list option" where
  "duxrt_list_release l = (case l of
       None \<Rightarrow> None
     | Some l \<Rightarrow> if l_refcount l = 1 then None else Some (l\<lparr>l_refcount := l_refcount l - 1\<rparr>))"

definition duxrt_list_free :: "dux_list option \<Rightarrow> dux_list option" where
  "duxrt_list_free = duxrt_list_release"

text \<open>The loops of \<open>concat\<close>: every element of \<open>src\<close> from index \<open>i\<close> on is read and pushed.\<close>

fun push_all :: "nat list \<Rightarrow> dux_list \<Rightarrow> dux_list \<Rightarrow> dux_list c_run" where
  "push_all [] src out = Done out"
| "push_all (i # is) src out =
     c_bind (duxrt_list_get (Some src) (int i)) (\<lambda>val.
     c_bind (duxrt_list_push (Some out) val) (push_all is src))"

definition append_to :: "dux_list option \<Rightarrow> dux_list \<Rightarrow> dux_list c_run" where
  "append_to l out = (case l of None \<Rightarrow> Done out | Some l \<Rightarrow> push_all [0..<l_len l] l out)"

definition duxrt_list_concat :: "dux_list option \<Rightarrow> dux_list option \<Rightarrow> dux_list c_run" where
  "duxrt_list_concat a b = c_bind (append_to a duxrt_list_new) (append_to b)"

section \<open>Ranges\<close>

record dux_range =
  r_start :: int
  r_end :: int
  r_step :: int
  r_inclusive :: bool

definition duxrt_range_excl :: "int \<Rightarrow> int \<Rightarrow> dux_range" where
  "duxrt_range_excl a b = \<lparr>r_start = a, r_end = b, r_step = 1, r_inclusive = False\<rparr>"

definition duxrt_range_incl :: "int \<Rightarrow> int \<Rightarrow> dux_range" where
  "duxrt_range_incl a b = \<lparr>r_start = a, r_end = b, r_step = 1, r_inclusive = True\<rparr>"

definition duxrt_range_len :: "dux_range \<Rightarrow> int" where
  "duxrt_range_len r =
     (let n = int64 (r_end r - r_start r);
          n = (if r_inclusive r then int64 (n + 1) else n)
      in if n < 0 then 0 else n)"

section \<open>Integer arithmetic\<close>

definition duxrt_math_abs_i :: "int \<Rightarrow> int" where
  "duxrt_math_abs_i x = (if x = INT64_MIN then INT64_MAX else if x < 0 then int64 (- x) else x)"

definition duxrt_math_min_i :: "int \<Rightarrow> int \<Rightarrow> int" where
  "duxrt_math_min_i a b = (if a < b then a else b)"

definition duxrt_math_max_i :: "int \<Rightarrow> int \<Rightarrow> int" where
  "duxrt_math_max_i a b = (if a > b then a else b)"

definition duxrt_math_clamp_i :: "int \<Rightarrow> int \<Rightarrow> int \<Rightarrow> int" where
  "duxrt_math_clamp_i v lo hi = (if v < lo then lo else if v > hi then hi else v)"

definition duxrt_math_sign_i :: "int \<Rightarrow> int" where
  "duxrt_math_sign_i x = (if x > 0 then 1 else if x < 0 then - 1 else 0)"

end
