(* ===== verification/Rt_List_Properties.thy ===== *)
theory Rt_List_Properties
  imports Rt_List
begin

text \<open>
  Lists behave as sequences of cells with indices from both ends; ranges have the length they should
  as long as it fits.
\<close>

section \<open>Lists\<close>

text \<open>The cells as \<open>get\<close> shows them.\<close>

definition cells :: "dux_list \<Rightarrow> 64 word list" where
  "cells l = (case l_data l of PtrCells xs \<Rightarrow> xs | I32Cells ws \<Rightarrow> map ucast ws)"

definition is_ptr_list :: "dux_list \<Rightarrow> bool" where
  "is_ptr_list l \<longleftrightarrow> (\<exists>xs. l_data l = PtrCells xs)"

definition list_ok :: "dux_list \<Rightarrow> bool" where
  "list_ok l \<longleftrightarrow> l_len l \<le> l_cap l \<and> (\<exists>k. l_cap l = LIST_INIT_CAP * 2 ^ k)"

lemma length_cells [simp]: "length (cells l) = l_len l"
  by (simp add: cells_def l_len_def split: list_data.split)

lemma grown_ok: "len \<le> cap \<Longrightarrow> cap = 8 * 2 ^ k \<Longrightarrow> Suc len \<le> grown len cap \<and> (\<exists>k. grown len cap = 8 * 2 ^ k)"
  by (auto simp: grown_def intro: exI [of _ "Suc k"])

lemma push_cells:
  assumes "is_ptr_list l"
  shows "\<exists>l'. duxrt_list_push (Some l) val = Done l' \<and> is_ptr_list l' \<and> cells l' = cells l @ [val] \<and>
    l_refcount l' = l_refcount l \<and> (list_ok l \<longrightarrow> list_ok l')"
proof -
  obtain xs where "l_data l = PtrCells xs" using assms by (auto simp: is_ptr_list_def)
  then show ?thesis
    using grown_ok [of "length xs" "l_cap l"]
    by (auto simp: duxrt_list_push_def is_ptr_list_def cells_def list_ok_def l_len_def LIST_INIT_CAP_def)
qed

lemma push_all_cells:
  assumes "\<forall>i\<in>set is. i < l_len src" and "is_ptr_list out"
  shows "\<exists>l'. push_all is src out = Done l' \<and> is_ptr_list l' \<and> cells l' = cells out @ map ((!) (cells src)) is \<and>
    l_refcount l' = l_refcount out \<and> (list_ok out \<longrightarrow> list_ok l')"
  using assms
proof (induction "is" arbitrary: out)
  case (Cons i "is")
  have "duxrt_list_get (Some src) (int i) = Done (cells src ! i)"
    using Cons.prems(1) by (auto simp: duxrt_list_get_def slot_of_def Let_def cells_def l_len_def split: list_data.split)
  moreover obtain u where "duxrt_list_push (Some out) (cells src ! i) = Done u" "is_ptr_list u"
      "cells u = cells out @ [cells src ! i]" "l_refcount u = l_refcount out" "list_ok out \<longrightarrow> list_ok u"
    using push_cells [OF Cons.prems(2)] by blast
  ultimately show ?case using Cons.IH [of u] Cons.prems(1) by auto
qed simp

lemma append_to_cells:
  assumes "is_ptr_list out"
  shows "\<exists>l'. append_to l out = Done l' \<and> is_ptr_list l' \<and>
    cells l' = cells out @ (case l of None \<Rightarrow> [] | Some l \<Rightarrow> cells l) \<and>
    l_refcount l' = l_refcount out \<and> (list_ok out \<longrightarrow> list_ok l')"
proof (cases l)
  case None
  then show ?thesis using assms by (simp add: append_to_def)
next
  case (Some a)
  have "map ((!) (cells a)) [0..<l_len a] = cells a"
    using map_nth [of "cells a"] by simp
  then show ?thesis using push_all_cells [of "[0..<l_len a]" a out] assms Some by (auto simp: append_to_def)
qed



section \<open>Ranges and integers\<close>

text \<open>
  C38. A range has as many elements as there are integers in it whenever the difference of its ends fits
  in 64 bits; beyond that the computation wraps, so the range of all non-negative numbers, end
  included, has length zero. Absolute value, clamping and sign never leave the 64-bit range.
\<close>

theorem range_and_integer_bounds:
  "(is_int64 (r_end r - r_start r + 1) \<and> is_int64 (r_end r - r_start r) \<longrightarrow> duxrt_range_len r =
      int (card {i. r_start r \<le> i \<and> (if r_inclusive r then i \<le> r_end r else i < r_end r)})) \<and>
   duxrt_range_len (duxrt_range_incl 0 INT64_MAX) = 0 \<and>
   (is_int64 x \<longrightarrow> is_int64 (duxrt_math_abs_i x) \<and> 0 \<le> duxrt_math_abs_i x \<and>
      (x \<noteq> INT64_MIN \<longrightarrow> duxrt_math_abs_i x = \<bar>x\<bar>)) \<and>
   (lo \<le> hi \<longrightarrow> lo \<le> duxrt_math_clamp_i x lo hi \<and> duxrt_math_clamp_i x lo hi \<le> hi \<and>
      (lo \<le> x \<and> x \<le> hi \<longrightarrow> duxrt_math_clamp_i x lo hi = x)) \<and>
   duxrt_math_sign_i x = sgn x"
proof (intro conjI impI)
  assume fits: "is_int64 (r_end r - r_start r + 1) \<and> is_int64 (r_end r - r_start r)"
  have "{i. r_start r \<le> i \<and> (if r_inclusive r then i \<le> r_end r else i < r_end r)} =
      (if r_inclusive r then {r_start r..r_end r} else {r_start r..<r_end r})"
    by auto
  then show "duxrt_range_len r =
      int (card {i. r_start r \<le> i \<and> (if r_inclusive r then i \<le> r_end r else i < r_end r)})"
    using fits by (auto simp: duxrt_range_len_def int64_id Let_def)
qed (auto simp: duxrt_range_len_def duxrt_range_incl_def INT64_MAX_def INT64_MIN_def int64_def is_int64_def
    duxrt_math_abs_i_def duxrt_math_clamp_i_def duxrt_math_sign_i_def)

lemma range_and_integer_bounds_witness:
  "duxrt_range_len (duxrt_range_excl 2 5) = 3 \<and> duxrt_math_abs_i (-4) = 4 \<and> duxrt_math_clamp_i 9 1 5 \<le> 5"
proof -
  have "is_int64 (r_end (duxrt_range_excl 2 5) - r_start (duxrt_range_excl 2 5) + 1) \<and>
      is_int64 (r_end (duxrt_range_excl 2 5) - r_start (duxrt_range_excl 2 5))"
    by (simp add: duxrt_range_excl_def is_int64_def)
  moreover have "{i. r_start (duxrt_range_excl 2 5) \<le> i \<and> (if r_inclusive (duxrt_range_excl 2 5)
      then i \<le> r_end (duxrt_range_excl 2 5) else i < r_end (duxrt_range_excl 2 5))} = {2..<5}"
    by (auto simp: duxrt_range_excl_def)
  moreover have "is_int64 (-4)" by (simp add: is_int64_def)
  ultimately show ?thesis
    using range_and_integer_bounds [of "duxrt_range_excl 2 5" "-4" 1 5] range_and_integer_bounds [of "duxrt_range_excl 2 5" 9 1 5]
    by (simp add: INT64_MIN_def)
qed

end
