(* ===== verification/Rt_Str.thy ===== *)
theory Rt_Str
  imports Rt_List
begin

text \<open>
  The strings of the runtime (\<^verbatim>\<open>src/runtime/str.c\<close>): reference-counted byte strings with a length, stored
  in the header up to 63 bytes and in a buffer of their own beyond. The terminating zero byte is not
  part of the lists of characters. A null pointer is \<open>None\<close>. Formatting and parsing of floating-point
  numbers is left out.
\<close>

record dux_str =
  s_refcount :: int
  s_len :: nat
  s_ext :: "string option"
  s_data :: string

definition DUXSTR_INLINE_MAX :: nat where
  "DUXSTR_INLINE_MAX = 63"

definition sdata :: "dux_str \<Rightarrow> string" where
  "sdata s = (case s_ext s of Some b \<Rightarrow> b | None \<Rightarrow> s_data s)"

text \<open>A string of \<open>len\<close> bytes, filled.\<close>

definition filled :: "string \<Rightarrow> dux_str" where
  "filled bs = (if length bs \<le> DUXSTR_INLINE_MAX
     then \<lparr>s_refcount = 1, s_len = length bs, s_ext = None, s_data = bs\<rparr>
     else \<lparr>s_refcount = 1, s_len = length bs, s_ext = Some bs, s_data = []\<rparr>)"

definition too_long :: "int \<Rightarrow> bool" where
  "too_long len \<longleftrightarrow> len < 0 \<or> INT32_MAX < len"

text \<open>With a source to copy from, which must have \<open>len\<close> bytes.\<close>

definition duxrt_str_new :: "string \<Rightarrow> int \<Rightarrow> dux_str c_run" where
  "duxrt_str_new src len =
     (if too_long len then Abort
      else if int (length src) < len then Wild
      else Done (filled (take (nat len) src)))"

text \<open>
  With a null source, and then written by the caller: \<open>content\<close> is all that is copied into the new
  string of \<open>len\<close> bytes, so it must fill it exactly.
\<close>

definition str_fill :: "string \<Rightarrow> int \<Rightarrow> dux_str c_run" where
  "str_fill content len =
     (if too_long len then Abort
      else if int (length content) \<noteq> len then Wild
      else Done (filled content))"

definition empty_str :: "dux_str c_run" where
  "empty_str = duxrt_str_new [] 0"

definition duxrt_str_retain :: "dux_str \<Rightarrow> dux_str" where
  "duxrt_str_retain s = (if s_refcount s \<noteq> - 1 then s\<lparr>s_refcount := s_refcount s + 1\<rparr> else s)"

text \<open>\<open>None\<close> when the last reference is gone.\<close>

definition duxrt_str_release :: "dux_str option \<Rightarrow> dux_str option" where
  "duxrt_str_release s = (case s of
       None \<Rightarrow> None
     | Some s \<Rightarrow> if s_refcount s = - 1 then Some s
         else if s_refcount s = 1 then None
         else Some (s\<lparr>s_refcount := s_refcount s - 1\<rparr>))"

text \<open>The C string: up to the first zero byte.\<close>

definition duxrt_str_cstr :: "dux_str \<Rightarrow> string" where
  "duxrt_str_cstr s = takeWhile (\<lambda>c. c \<noteq> CHR 0x00) (sdata s)"

text \<open>The bytes and the length of a string that may be null.\<close>

definition bytes_of :: "dux_str option \<Rightarrow> string" where
  "bytes_of s = (case s of None \<Rightarrow> [] | Some s \<Rightarrow> sdata s)"

definition duxrt_str_length :: "dux_str option \<Rightarrow> nat" where
  "duxrt_str_length s = (case s of None \<Rightarrow> 0 | Some s \<Rightarrow> s_len s)"

definition duxrt_str_concat :: "dux_str option \<Rightarrow> dux_str option \<Rightarrow> dux_str c_run" where
  "duxrt_str_concat a b = str_fill (bytes_of a @ bytes_of b)
     (int (duxrt_str_length a) + int (duxrt_str_length b))"

definition duxrt_str_from_int :: "int \<Rightarrow> dux_str c_run" where
  "duxrt_str_from_int v = duxrt_str_new (show_int v) (int (length (show_int v)))"

definition duxrt_str_index :: "dux_str option \<Rightarrow> int \<Rightarrow> dux_str c_run" where
  "duxrt_str_index s i = (case s of
       None \<Rightarrow> empty_str
     | Some s \<Rightarrow> (case slot_of (s_len s) i of
           None \<Rightarrow> empty_str
         | Some k \<Rightarrow> duxrt_str_new (drop k (sdata s)) 1))"

definition duxrt_str_slice :: "dux_str option \<Rightarrow> int \<Rightarrow> int \<Rightarrow> dux_str c_run" where
  "duxrt_str_slice s a b = (case s of
       None \<Rightarrow> empty_str
     | Some s \<Rightarrow>
         (let a = (if a < 0 then 0 else a);
              b = (if b > int (s_len s) then int (s_len s) else b)
          in if a \<ge> b then empty_str else duxrt_str_new (drop (nat a) (sdata s)) (b - a)))"

text \<open>\<open>memcmp(h + i, n, len) == 0\<close>.\<close>

definition matches_at :: "string \<Rightarrow> string \<Rightarrow> nat \<Rightarrow> bool" where
  "matches_at h n i \<longleftrightarrow> take (length n) (drop i h) = n"

definition duxrt_str_eq :: "dux_str option \<Rightarrow> dux_str option \<Rightarrow> bool" where
  "duxrt_str_eq a b = (case (a, b) of
       (None, None) \<Rightarrow> True
     | (Some a, Some b) \<Rightarrow> s_len a = s_len b \<and> take (s_len a) (sdata a) = take (s_len a) (sdata b)
     | _ \<Rightarrow> False)"

section \<open>Joining\<close>

text \<open>Two passes over the first \<open>count\<close> elements; a null element is skipped, a missing one raises.\<close>

fun joined :: "nat list \<Rightarrow> dux_str option list \<Rightarrow> string c_run" where
  "joined [] parts = Done []"
| "joined (i # is) parts =
     (if length parts \<le> i then list_index_error (int i) (length parts)
      else c_bind (joined is parts) (\<lambda>rest. Done (bytes_of (parts ! i) @ rest)))"

definition duxrt_str_join_list :: "dux_str option list option \<Rightarrow> int \<Rightarrow> dux_str c_run" where
  "duxrt_str_join_list parts count = (case parts of
       None \<Rightarrow> empty_str
     | Some parts \<Rightarrow>
         if count \<le> 0 then empty_str
         else c_bind (joined [0..<nat count] parts) (\<lambda>content. str_fill content (int (length content))))"

section \<open>String buffers\<close>

record strbuf =
  b_data :: string
  b_cap :: nat

definition STRBUF_INIT_CAP :: nat where
  "STRBUF_INIT_CAP = 64"

text \<open>\<open>while (nc < need) nc *= 2;\<close> from a positive \<open>nc\<close>.\<close>

function doubled :: "nat \<Rightarrow> nat \<Rightarrow> nat" where
  "doubled nc need = (if nc < need \<and> 0 < nc then doubled (nc * 2) need else nc)"
  by pat_completeness auto
termination by (relation "measure (\<lambda>(nc, need). need - nc)") auto

declare doubled.simps [simp del]

definition strbuf_grow :: "nat \<Rightarrow> strbuf \<Rightarrow> strbuf" where
  "strbuf_grow extra b =
     (if length (b_data b) + extra + 1 \<le> b_cap b then b
      else b\<lparr>b_cap := doubled (if b_cap b \<noteq> 0 then b_cap b else STRBUF_INIT_CAP) (length (b_data b) + extra + 1)\<rparr>)"

definition duxrt_strbuf_new :: strbuf where
  "duxrt_strbuf_new = \<lparr>b_data = [], b_cap = STRBUF_INIT_CAP\<rparr>"

definition duxrt_strbuf_append_str :: "strbuf \<Rightarrow> dux_str \<Rightarrow> strbuf c_run" where
  "duxrt_strbuf_append_str b s =
     (if s_len s = 0 then Done b
      else let b' = strbuf_grow (s_len s) b
           in if b_cap b' < length (b_data b') + s_len s + 1 then Wild
              else Done (b'\<lparr>b_data := b_data b' @ take (s_len s) (sdata s)\<rparr>))"

definition duxrt_strbuf_build :: "strbuf \<Rightarrow> dux_str c_run" where
  "duxrt_strbuf_build b = duxrt_str_new (b_data b) (int (length (b_data b)))"

text \<open>A temporary string of \<open>len\<close> bytes that is appended and released.\<close>

definition append_piece :: "strbuf \<Rightarrow> string \<Rightarrow> int \<Rightarrow> strbuf c_run" where
  "append_piece b src len = c_bind (duxrt_str_new src len) (duxrt_strbuf_append_str b)"

section \<open>Searching\<close>

function find_from :: "string \<Rightarrow> string \<Rightarrow> nat \<Rightarrow> nat option" where
  "find_from h n i =
     (if i + length n \<le> length h then if matches_at h n i then Some i else find_from h n (i + 1)
      else None)"
  by pat_completeness auto
termination by (relation "measure (\<lambda>(h, n, i). length h + 1 - i)") auto

declare find_from.simps [simp del]

definition mem_find :: "string \<Rightarrow> string \<Rightarrow> nat option" where
  "mem_find h n = (if n = [] then Some 0 else if length n > length h then None else find_from h n 0)"

definition duxrt_str_ord :: "dux_str option \<Rightarrow> nat" where
  "duxrt_str_ord s = (case s of None \<Rightarrow> 0 | Some s \<Rightarrow> if s_len s = 0 then 0 else of_char (sdata s ! 0))"

definition duxrt_str_chr :: "int \<Rightarrow> dux_str c_run" where
  "duxrt_str_chr code = (if code < 1 \<or> code > 127 then empty_str else duxrt_str_new [char_of (nat code)] 1)"

text \<open>\<open>memcmp\<close> of the first \<open>n\<close> bytes: the sign of the first difference.\<close>

fun memcmp_sign :: "nat \<Rightarrow> string \<Rightarrow> string \<Rightarrow> int" where
  "memcmp_sign (Suc n) (a # as) (b # bs) =
     (if a = b then memcmp_sign n as bs else if (of_char a :: nat) < of_char b then - 1 else 1)"
| "memcmp_sign n as bs = 0"

definition duxrt_str_cmp :: "dux_str option \<Rightarrow> dux_str option \<Rightarrow> int" where
  "duxrt_str_cmp a b = (case (a, b) of
       (None, None) \<Rightarrow> 0
     | (None, _) \<Rightarrow> - 1
     | (_, None) \<Rightarrow> 1
     | (Some a, Some b) \<Rightarrow>
         (let r = memcmp_sign (if s_len a < s_len b then s_len a else s_len b) (sdata a) (sdata b)
          in if r \<noteq> 0 then if r < 0 then - 1 else 1
             else if s_len a < s_len b then - 1
             else if s_len a > s_len b then 1 else 0))"

definition duxrt_str_contains :: "dux_str option \<Rightarrow> dux_str option \<Rightarrow> bool" where
  "duxrt_str_contains h n = (case (h, n) of
       (Some h, Some n) \<Rightarrow> s_len n = 0 \<or> mem_find (sdata h) (sdata n) \<noteq> None
     | _ \<Rightarrow> False)"

definition duxrt_str_find :: "dux_str option \<Rightarrow> dux_str option \<Rightarrow> int" where
  "duxrt_str_find h n = (case (h, n) of
       (Some h, Some n) \<Rightarrow>
         if s_len n = 0 then 0
         else (case mem_find (sdata h) (sdata n) of None \<Rightarrow> - 1 | Some i \<Rightarrow> int i)
     | _ \<Rightarrow> - 1)"

text \<open>The loop of \<open>rfind\<close>: the last match seen so far is remembered.\<close>

function rfind_from :: "string \<Rightarrow> string \<Rightarrow> nat \<Rightarrow> int \<Rightarrow> int" where
  "rfind_from h n i seen =
     (if i + length n \<le> length h then rfind_from h n (i + 1) (if matches_at h n i then int i else seen)
      else seen)"
  by pat_completeness auto
termination by (relation "measure (\<lambda>(h, n, i, seen). length h + 1 - i)") auto

declare rfind_from.simps [simp del]

definition duxrt_str_rfind :: "dux_str option \<Rightarrow> dux_str option \<Rightarrow> int" where
  "duxrt_str_rfind h n = (case (h, n) of
       (Some h, Some n) \<Rightarrow>
         if s_len n = 0 then int (s_len h)
         else if s_len n > s_len h then - 1
         else rfind_from (sdata h) (sdata n) 0 (- 1)
     | _ \<Rightarrow> - 1)"

definition duxrt_str_starts_with :: "dux_str option \<Rightarrow> dux_str option \<Rightarrow> bool" where
  "duxrt_str_starts_with s p = (case (s, p) of
       (Some s, Some p) \<Rightarrow> s_len p = 0 \<or> s_len p \<le> s_len s \<and> matches_at (sdata s) (sdata p) 0
     | _ \<Rightarrow> False)"

definition duxrt_str_ends_with :: "dux_str option \<Rightarrow> dux_str option \<Rightarrow> bool" where
  "duxrt_str_ends_with s p = (case (s, p) of
       (Some s, Some p) \<Rightarrow> s_len p = 0 \<or> s_len p \<le> s_len s \<and> matches_at (sdata s) (sdata p) (s_len s - s_len p)
     | _ \<Rightarrow> False)"

section \<open>Replacing, splitting, repeating\<close>

text \<open>The string itself, retained, when there is nothing to replace.\<close>

definition unreplaced :: "dux_str option \<Rightarrow> dux_str c_run" where
  "unreplaced s = (case s of None \<Rightarrow> empty_str | Some s \<Rightarrow> Done (duxrt_str_retain s))"

definition duxrt_str_replace :: "dux_str option \<Rightarrow> dux_str option \<Rightarrow> dux_str option \<Rightarrow> dux_str c_run" where
  "duxrt_str_replace s f t = (case (s, f) of
       (Some s', Some f') \<Rightarrow>
         if s_len f' = 0 then unreplaced s
         else let idx = duxrt_str_find s f in
           if idx < 0 then unreplaced s
           else str_fill (take (nat idx) (sdata s') @ bytes_of t @ drop (nat idx + s_len f') (sdata s'))
             (idx + int (duxrt_str_length t) + (int (s_len s') - idx - int (s_len f')))
     | _ \<Rightarrow> unreplaced s)"

text \<open>The loop of \<open>replace_all\<close>, from index \<open>i\<close>, then the remaining tail.\<close>

function replace_from :: "string \<Rightarrow> string \<Rightarrow> string \<Rightarrow> nat \<Rightarrow> strbuf \<Rightarrow> strbuf c_run" where
  "replace_from sp fp tp i b =
     (if i + length fp \<le> length sp \<and> fp \<noteq> [] then
        if matches_at sp fp i
        then c_bind (append_piece b tp (int (length tp))) (replace_from sp fp tp (i + length fp))
        else c_bind (append_piece b (drop i sp) 1) (replace_from sp fp tp (i + 1))
      else if i < length sp then append_piece b (drop i sp) (int (length sp) - int i)
      else Done b)"
  by pat_completeness auto
termination by (relation "measure (\<lambda>(sp, fp, tp, i, b). length sp + 1 - i)") (auto simp flip: length_greater_0_conv)

declare replace_from.simps [simp del]

definition duxrt_str_replace_all :: "dux_str option \<Rightarrow> dux_str option \<Rightarrow> dux_str option \<Rightarrow> dux_str c_run" where
  "duxrt_str_replace_all s f t = (case (s, f) of
       (Some s', Some f') \<Rightarrow>
         if s_len f' = 0 then unreplaced s
         else c_bind (replace_from (sdata s') (sdata f') (bytes_of t) 0 duxrt_strbuf_new) duxrt_strbuf_build
     | _ \<Rightarrow> unreplaced s)"

definition upper_char :: "char \<Rightarrow> char" where
  "upper_char c = (if 97 \<le> (of_char c :: nat) \<and> (of_char c :: nat) \<le> 122 then char_of ((of_char c :: nat) - 32) else c)"

definition lower_char :: "char \<Rightarrow> char" where
  "lower_char c = (if 65 \<le> (of_char c :: nat) \<and> (of_char c :: nat) \<le> 90 then char_of ((of_char c :: nat) + 32) else c)"

definition mapped :: "(char \<Rightarrow> char) \<Rightarrow> dux_str option \<Rightarrow> dux_str c_run" where
  "mapped f s = (case s of
       None \<Rightarrow> empty_str
     | Some s \<Rightarrow> if s_len s = 0 then empty_str
         else c_bind (duxrt_str_new (sdata s) (int (s_len s))) (\<lambda>out. Done (case s_ext out of
             Some b \<Rightarrow> out\<lparr>s_ext := Some (map f b)\<rparr>
           | None \<Rightarrow> out\<lparr>s_data := map f (s_data out)\<rparr>)))"

definition duxrt_str_to_upper :: "dux_str option \<Rightarrow> dux_str c_run" where
  "duxrt_str_to_upper = mapped upper_char"

definition duxrt_str_to_lower :: "dux_str option \<Rightarrow> dux_str c_run" where
  "duxrt_str_to_lower = mapped lower_char"

definition is_ws :: "char \<Rightarrow> bool" where
  "is_ws c \<longleftrightarrow> c = CHR '' '' \<or> c = CHR 0x09 \<or> c = CHR 0x0A \<or> c = CHR 0x0D"

function ws_start :: "string \<Rightarrow> nat \<Rightarrow> nat \<Rightarrow> nat" where
  "ws_start p a b = (if a < b \<and> is_ws (p ! a) then ws_start p (a + 1) b else a)"
  by pat_completeness auto
termination by (relation "measure (\<lambda>(p, a, b). b - a)") auto

fun ws_end :: "string \<Rightarrow> nat \<Rightarrow> nat \<Rightarrow> nat" where
  "ws_end p a b = (if a < b \<and> is_ws (p ! (b - 1)) then ws_end p a (b - 1) else b)"

declare ws_start.simps [simp del] ws_end.simps [simp del]

definition duxrt_str_trim :: "dux_str option \<Rightarrow> dux_str c_run" where
  "duxrt_str_trim s = (case s of
       None \<Rightarrow> empty_str
     | Some s \<Rightarrow> if s_len s = 0 then empty_str
         else let a = ws_start (sdata s) 0 (s_len s); b = ws_end (sdata s) a (s_len s)
              in duxrt_str_new (drop a (sdata s)) (int b - int a))"

definition duxrt_str_trim_start :: "dux_str option \<Rightarrow> dux_str c_run" where
  "duxrt_str_trim_start s = (case s of
       None \<Rightarrow> empty_str
     | Some s \<Rightarrow> if s_len s = 0 then empty_str
         else let a = ws_start (sdata s) 0 (s_len s)
              in duxrt_str_new (drop a (sdata s)) (int (s_len s) - int a))"

definition duxrt_str_trim_end :: "dux_str option \<Rightarrow> dux_str c_run" where
  "duxrt_str_trim_end s = (case s of
       None \<Rightarrow> empty_str
     | Some s \<Rightarrow> if s_len s = 0 then empty_str
         else duxrt_str_new (sdata s) (int (ws_end (sdata s) 0 (s_len s))))"

text \<open>\<open>total\<close> is computed in 64 bits; \<open>n\<close> copies are written whatever it is.\<close>

definition duxrt_str_repeat :: "dux_str option \<Rightarrow> int \<Rightarrow> dux_str c_run" where
  "duxrt_str_repeat s n = (case s of
       None \<Rightarrow> empty_str
     | Some s \<Rightarrow> if s_len s = 0 \<or> n \<le> 0 then empty_str
         else str_fill (concat (replicate (nat n) (sdata s))) (int64 (int (s_len s) * n)))"

text \<open>The list of strings that \<open>split\<close> pushes, in order.\<close>

fun split_chars :: "string \<Rightarrow> dux_str list c_run" where
  "split_chars [] = Done []"
| "split_chars (c # cs) =
     c_bind (duxrt_str_new (c # cs) 1) (\<lambda>p. c_bind (split_chars cs) (\<lambda>ps. Done (p # ps)))"

function split_from :: "string \<Rightarrow> string \<Rightarrow> nat \<Rightarrow> nat \<Rightarrow> dux_str list c_run" where
  "split_from sp fp prev i =
     (if i + length fp \<le> length sp \<and> fp \<noteq> [] then
        if matches_at sp fp i
        then c_bind (duxrt_str_new (drop prev sp) (int i - int prev)) (\<lambda>p.
             c_bind (split_from sp fp (i + length fp) (i + length fp)) (\<lambda>ps. Done (p # ps)))
        else split_from sp fp prev (i + 1)
      else c_bind (duxrt_str_new (drop prev sp) (int (length sp) - int prev)) (\<lambda>p. Done [p]))"
  by pat_completeness auto
termination by (relation "measure (\<lambda>(sp, fp, prev, i). length sp + 1 - i)") (auto simp flip: length_greater_0_conv)

declare split_from.simps [simp del]

definition duxrt_str_split :: "dux_str option \<Rightarrow> dux_str option \<Rightarrow> dux_str list c_run" where
  "duxrt_str_split s sep = (case s of
       None \<Rightarrow> Done []
     | Some s \<Rightarrow> if duxrt_str_length sep = 0 then split_chars (sdata s)
         else split_from (sdata s) (bytes_of sep) 0 0)"

section \<open>Numbers\<close>

text \<open>\<open>strtol\<close> in base ten: the value and what is left of the C string; no digits leave all of it.\<close>

definition is_space :: "char \<Rightarrow> bool" where
  "is_space c \<longleftrightarrow> c = CHR '' '' \<or> 9 \<le> (of_char c :: nat) \<and> (of_char c :: nat) \<le> 13"

definition is_digit :: "char \<Rightarrow> bool" where
  "is_digit c \<longleftrightarrow> 48 \<le> (of_char c :: nat) \<and> (of_char c :: nat) \<le> 57"

definition digits_value :: "string \<Rightarrow> int" where
  "digits_value ds = foldl (\<lambda>v c. v * 10 + (int (of_char c) - 48)) 0 ds"

definition clamp64 :: "int \<Rightarrow> int" where
  "clamp64 v = (if v < INT64_MIN then INT64_MIN else if INT64_MAX < v then INT64_MAX else v)"

definition strtol :: "string \<Rightarrow> int \<times> string" where
  "strtol p =
     (let q = dropWhile is_space p;
          neg = (q \<noteq> [] \<and> hd q = CHR ''-'');
          r = (if q \<noteq> [] \<and> (hd q = CHR ''-'' \<or> hd q = CHR ''+'') then tl q else q);
          ds = takeWhile is_digit r
      in if ds = [] then (0, p)
         else (clamp64 (if neg then - digits_value ds else digits_value ds), dropWhile is_digit r))"

definition duxrt_str_to_long_valid :: "dux_str option \<Rightarrow> bool" where
  "duxrt_str_to_long_valid s = (case s of
       None \<Rightarrow> False
     | Some s \<Rightarrow> s_len s \<noteq> 0 \<and> snd (strtol (duxrt_str_cstr s)) \<noteq> duxrt_str_cstr s \<and>
         snd (strtol (duxrt_str_cstr s)) = [])"

definition duxrt_str_to_long_val :: "dux_str option \<Rightarrow> int" where
  "duxrt_str_to_long_val s = (case s of
       None \<Rightarrow> 0
     | Some s \<Rightarrow> if s_len s = 0 then 0 else fst (strtol (duxrt_str_cstr s)))"

end
