(* ===== verification/Rt_Str_Properties.thy ===== *)
theory Rt_Str_Properties
  imports Rt_Str "HOL-Library.Char_ord" "HOL-Library.List_Lexorder" "HOL-Library.Sublist"
begin

text \<open>
  The strings of the runtime behave as lists of characters: the operations of the model are equal to
  functions on lists, searches find the first or the last occurrence, comparison is the lexicographic
  order, and splitting, replacing and parsing agree with one another.
\<close>

section \<open>Well-formed strings\<close>

definition str_ok :: "dux_str \<Rightarrow> bool" where
  "str_ok s \<longleftrightarrow> s_len s = length (sdata s) \<and> int (s_len s) \<le> INT32_MAX \<and>
     (s_ext s = None \<longleftrightarrow> s_len s \<le> DUXSTR_INLINE_MAX)"

definition opt_ok :: "dux_str option \<Rightarrow> bool" where
  "opt_ok s \<longleftrightarrow> (case s of None \<Rightarrow> True | Some s \<Rightarrow> str_ok s)"

text \<open>A fresh string with these bytes, unless it would be too long.\<close>

definition made :: "string \<Rightarrow> dux_str c_run" where
  "made bs = (if INT32_MAX < int (length bs) then Abort else Done (filled bs))"

lemma filled_simps [simp]: "sdata (filled bs) = bs" "s_len (filled bs) = length bs" "s_refcount (filled bs) = 1"
  by (simp_all add: filled_def sdata_def)

lemma filled_ok: "int (length bs) \<le> INT32_MAX \<Longrightarrow> str_ok (filled bs)"
  by (simp add: str_ok_def) (simp add: filled_def)

lemma made_ok: "made bs = Done s \<Longrightarrow> str_ok s \<and> sdata s = bs \<and> s_refcount s = 1"
  by (auto simp: made_def filled_ok split: if_splits)

lemma made_Nil: "made [] = Done (filled [])"
  by (simp add: made_def INT32_MAX_def)

lemma new_made: "0 \<le> len \<Longrightarrow> len \<le> int (length src) \<Longrightarrow> duxrt_str_new src len = made (take (nat len) src)"
  by (auto simp: duxrt_str_new_def made_def too_long_def min_def)

lemma new_made_all: "len = int (length src) \<Longrightarrow> duxrt_str_new src len = made src"
  by (simp add: new_made)

lemma fill_made: "len = int (length bs) \<Longrightarrow> str_fill bs len = made bs"
  by (auto simp: str_fill_def made_def too_long_def)

lemma empty_made: "empty_str = made []"
  by (simp add: empty_str_def new_made)

lemma opt_ok_length: "opt_ok s \<Longrightarrow> duxrt_str_length s = length (bytes_of s)"
  by (auto simp: opt_ok_def duxrt_str_length_def bytes_of_def str_ok_def split: option.splits)

lemma opt_ok_Some: "opt_ok (Some s) \<Longrightarrow> s_len s = length (sdata s) \<and> int (length (sdata s)) \<le> INT32_MAX"
  by (simp add: opt_ok_def str_ok_def)

lemma take_drop_le: "length (take k (drop i xs)) \<le> length xs"
  by simp

section \<open>Trimming\<close>

definition stripped_end :: "string \<Rightarrow> string" where
  "stripped_end bs = rev (dropWhile is_ws (rev bs))"

lemma ws_start_drop: "a \<le> length p \<Longrightarrow> ws_start p a (length p) \<le> length p \<and>
   drop (ws_start p a (length p)) p = dropWhile is_ws (drop a p)"
proof (induction p a "length p" rule: ws_start.induct)
  case (1 p a)
  show ?case
  proof (cases "a < length p \<and> is_ws (p ! a)")
    case True
    then have "ws_start p a (length p) = ws_start p (a + 1) (length p)" by (subst ws_start.simps) simp
    moreover have "dropWhile is_ws (drop a p) = dropWhile is_ws (drop (a + 1) p)"
      using True by (simp add: Cons_nth_drop_Suc [symmetric])
    ultimately show ?thesis using 1(1) [OF True] True by simp
  next
    case False
    then have "ws_start p a (length p) = a" by (subst ws_start.simps) auto
    moreover have "dropWhile is_ws (drop a p) = drop a p"
      using False by (cases "a < length p") (simp_all add: Cons_nth_drop_Suc [symmetric])
    ultimately show ?thesis using 1(2) by simp
  qed
qed

lemma ws_end_take: "a \<le> b \<Longrightarrow> b \<le> length p \<Longrightarrow> a \<le> ws_end p a b \<and> ws_end p a b \<le> b \<and>
   take (ws_end p a b - a) (drop a p) = stripped_end (take (b - a) (drop a p))"
proof (induction p a b rule: ws_end.induct)
  case (1 p a b)
  have split: "take (b - a) (drop a p) = take (b - 1 - a) (drop a p) @ [p ! (b - 1)]" if "a < b"
  proof -
    have "b - a = Suc (b - 1 - a)" "b - 1 - a < length (drop a p)" "a + (b - 1 - a) = b - 1"
      using that 1(3) by auto
    then show ?thesis using take_Suc_conv_app_nth [of "b - 1 - a" "drop a p"] by simp
  qed
  show ?case
  proof (cases "a < b \<and> is_ws (p ! (b - 1))")
    case True
    then have "ws_end p a b = ws_end p a (b - 1)" by (subst ws_end.simps) simp
    moreover have "stripped_end (take (b - a) (drop a p)) = stripped_end (take (b - 1 - a) (drop a p))"
      using True split by (simp add: stripped_end_def)
    moreover have "a \<le> ws_end p a (b - 1) \<and> ws_end p a (b - 1) \<le> b - 1 \<and>
        take (ws_end p a (b - 1) - a) (drop a p) = stripped_end (take (b - 1 - a) (drop a p))"
    proof -
      have "a \<le> b - 1" "b - 1 \<le> length p" using True 1(3) by auto
      then show ?thesis using 1(1) [OF True] by simp
    qed
    ultimately show ?thesis by auto
  next
    case False
    then have "ws_end p a b = b" by (subst ws_end.simps) auto
    moreover have "stripped_end (take (b - a) (drop a p)) = take (b - a) (drop a p)"
      using False split by (cases "a < b") (simp_all add: stripped_end_def)
    ultimately show ?thesis using 1(2) by simp
  qed
qed

section \<open>The operations as functions on lists\<close>

lemma slice_made:
  assumes "str_ok s"
  shows "duxrt_str_slice (Some s) a b =
    made (take (nat (min b (int (length (sdata s)))) - nat (max a 0)) (drop (nat (max a 0)) (sdata s)))"
proof -
  have "s_len s = length (sdata s)" using assms by (simp add: str_ok_def)
  then show ?thesis
    by (auto simp: duxrt_str_slice_def Let_def empty_made new_made min_def max_def nat_diff_distrib
        intro!: arg_cong [where f = made])
qed

lemma trim_made:
  assumes "str_ok s"
  shows "duxrt_str_trim (Some s) = made (stripped_end (dropWhile is_ws (sdata s)))"
    and "duxrt_str_trim_start (Some s) = made (dropWhile is_ws (sdata s))"
    and "duxrt_str_trim_end (Some s) = made (stripped_end (sdata s))"
proof -
  let ?p = "sdata s" let ?a = "ws_start ?p 0 (length ?p)"
  have len: "s_len s = length ?p" using assms by (simp add: str_ok_def)
  have a: "?a \<le> length ?p" "drop ?a ?p = dropWhile is_ws ?p" using ws_start_drop [of 0 ?p] by auto
  have e: "take (length ?p - ?a) (drop ?a ?p) = dropWhile is_ws ?p" by (simp add: a(2) [symmetric])
  have b: "?a \<le> ws_end ?p ?a (length ?p)" "ws_end ?p ?a (length ?p) \<le> length ?p"
    "take (ws_end ?p ?a (length ?p) - ?a) (drop ?a ?p) = stripped_end (dropWhile is_ws ?p)"
    using ws_end_take [of ?a "length ?p" ?p] a(1) unfolding e by auto
  have c: "ws_end ?p 0 (length ?p) \<le> length ?p" "take (ws_end ?p 0 (length ?p)) ?p = stripped_end ?p"
    using ws_end_take [of 0 "length ?p" ?p] by auto
  have "length (dropWhile is_ws ?p) = length ?p - ?a" by (simp flip: a(2))
  then have "int (ws_end ?p ?a (length ?p)) - int ?a \<le> int (length (dropWhile is_ws ?p))"
    using a(1) b(2) by linarith
  moreover have "nat (int (ws_end ?p ?a (length ?p)) - int ?a) = ws_end ?p ?a (length ?p) - ?a"
    using b(1) by linarith
  ultimately have "duxrt_str_new (drop ?a ?p) (int (ws_end ?p ?a (length ?p)) - int ?a) =
      made (stripped_end (dropWhile is_ws ?p))"
    using b(1,3) by (subst new_made) (simp_all add: a(2))
  then show "duxrt_str_trim (Some s) = made (stripped_end (dropWhile is_ws ?p))"
    by (cases "?p = []") (auto simp: duxrt_str_trim_def len Let_def empty_made stripped_end_def)
  show "duxrt_str_trim_start (Some s) = made (dropWhile is_ws ?p)"
  proof -
    have "int (length ?p) - int ?a = int (length (drop ?a ?p))" using a(1) by simp
    then have "duxrt_str_new (drop ?a ?p) (int (length ?p) - int ?a) = made (drop ?a ?p)"
      by (rule new_made_all)
    then show ?thesis by (cases "?p = []") (auto simp: duxrt_str_trim_start_def len Let_def empty_made a(2))
  qed
  show "duxrt_str_trim_end (Some s) = made (stripped_end ?p)"
    using c by (cases "?p = []") (auto simp: duxrt_str_trim_end_def len new_made empty_made stripped_end_def)
qed

lemma mapped_made:
  assumes "str_ok s"
  shows "mapped f (Some s) = made (map f (sdata s))"
proof (cases "sdata s = []")
  case True
  then show ?thesis using assms by (simp add: mapped_def str_ok_def empty_made)
next
  case False
  have "duxrt_str_new (sdata s) (int (s_len s)) = Done (filled (sdata s))" "s_len s = length (sdata s)"
    using assms by (auto simp: str_ok_def new_made made_def)
  then show ?thesis using False assms
    by (auto simp: mapped_def made_def str_ok_def filled_def split: option.splits)
qed

lemma repeat_made:
  assumes "str_ok s" and "n * int (length (sdata s)) \<le> INT64_MAX" and "0 \<le> n"
  shows "duxrt_str_repeat (Some s) n = made (concat (replicate (nat n) (sdata s)))"
proof -
  have "length (concat (replicate (nat n) (sdata s))) = nat n * length (sdata s)"
    by (simp add: length_concat sum_list_replicate)
  moreover have "is_int64 (n * int (length (sdata s)))"
  proof -
    have "- (2 ^ 63) \<le> (0 :: int)" "0 \<le> n * int (length (sdata s))" using assms(3) by simp_all
    then show ?thesis using assms(2) unfolding is_int64_def INT64_MAX_def by linarith
  qed
  ultimately have "int64 (int (s_len s) * n) = int (length (concat (replicate (nat n) (sdata s))))"
    using assms by (simp add: str_ok_def int64_id mult.commute)
  then show ?thesis using assms by (auto simp: duxrt_str_repeat_def fill_made empty_made str_ok_def)
qed

section \<open>Searching\<close>

text \<open>\<open>n\<close> is in \<open>h\<close> at \<open>i\<close>, and at no index before or after.\<close>

definition first_at :: "string \<Rightarrow> string \<Rightarrow> nat \<Rightarrow> bool" where
  "first_at h n i \<longleftrightarrow> matches_at h n i \<and> (\<forall>j<i. \<not> matches_at h n j)"

definition last_at :: "string \<Rightarrow> string \<Rightarrow> nat \<Rightarrow> bool" where
  "last_at h n i \<longleftrightarrow> matches_at h n i \<and> (\<forall>j>i. \<not> matches_at h n j)"

lemma matches_at_bound: "matches_at h n i \<Longrightarrow> n \<noteq> [] \<Longrightarrow> i + length n \<le> length h"
  unfolding matches_at_def
  by (drule arg_cong [where f = length]) (auto simp: min_def simp flip: length_greater_0_conv split: if_splits)

lemma matches_at_sublist: "(\<exists>i. matches_at h n i) \<longleftrightarrow> sublist n h"
proof
  assume "\<exists>i. matches_at h n i"
  then obtain i where "take (length n) (drop i h) = n" by (auto simp: matches_at_def)
  then show "sublist n h" by (metis sublist_drop sublist_order.dual_order.trans sublist_take)
next
  assume "sublist n h"
  then obtain xs ys where "h = xs @ n @ ys" by (auto simp: sublist_def)
  then have "matches_at h n (length xs)" by (simp add: matches_at_def)
  then show "\<exists>i. matches_at h n i" ..
qed

lemma find_from_first:
  assumes "n \<noteq> []" and "\<forall>j<i. \<not> matches_at h n j"
  shows "case find_from h n i of None \<Rightarrow> \<forall>j. \<not> matches_at h n j | Some k \<Rightarrow> first_at h n k"
  using assms
proof (induction h n i rule: find_from.induct)
  case (1 h n i)
  consider "matches_at h n i" | "\<not> matches_at h n i" "i + length n \<le> length h" | "length h < i + length n"
    by linarith
  then show ?case
  proof cases
    case 1
    then show ?thesis using "1.prems" matches_at_bound
      by (subst find_from.simps) (auto simp: first_at_def)
  next
    case 2
    then have "\<forall>j<i + 1. \<not> matches_at h n j" using "1.prems"(2) by (auto simp: less_Suc_eq)
    then show ?thesis using "1.IH" 2 "1.prems"(1) by (subst find_from.simps) simp
  next
    case 3
    then have "\<forall>j. \<not> matches_at h n j" using "1.prems" matches_at_bound [of h n]
      by (metis add_le_mono1 leD le_trans not_le)
    then show ?thesis using 3 by (subst find_from.simps) simp
  qed
qed

lemma mem_find_first:
  assumes "n \<noteq> []"
  shows "case mem_find h n of None \<Rightarrow> \<not> sublist n h | Some k \<Rightarrow> first_at h n k"
proof (cases "length n > length h")
  case True
  then show ?thesis using assms by (auto simp: mem_find_def dest: sublist_length_le)
next
  case False
  then show ?thesis using find_from_first [OF assms, of 0 h] assms matches_at_sublist [of h n]
    by (auto simp: mem_find_def split: option.splits)
qed

lemma rfind_from_last:
  assumes "n \<noteq> []" and "if seen < 0 then seen = - 1 \<and> (\<forall>j<i. \<not> matches_at h n j)
      else matches_at h n (nat seen) \<and> (\<forall>j. nat seen < j \<and> j < i \<longrightarrow> \<not> matches_at h n j)"
  shows "if rfind_from h n i seen < 0 then rfind_from h n i seen = - 1 \<and> \<not> sublist n h
      else last_at h n (nat (rfind_from h n i seen))"
  using assms
proof (induction h n i seen rule: rfind_from.induct)
  case (1 h n i seen)
  show ?case
  proof (cases "i + length n \<le> length h")
    case True
    let ?seen = "if matches_at h n i then int i else seen"
    have seen: "if ?seen < 0 then ?seen = - 1 \<and> (\<forall>j<i + 1. \<not> matches_at h n j)
      else matches_at h n (nat ?seen) \<and> (\<forall>j. nat ?seen < j \<and> j < i + 1 \<longrightarrow> \<not> matches_at h n j)"
      using "1.prems" by (auto simp: less_Suc_eq split: if_splits)
    have eq: "rfind_from h n i seen = rfind_from h n (i + 1) ?seen"
      using True by (subst rfind_from.simps) simp
    show ?thesis unfolding eq by (rule "1.IH" [OF True "1.prems"(1) seen])
  next
    case False
    then have beyond: "\<not> matches_at h n j" if "i \<le> j" for j
      using "1.prems"(1) matches_at_bound [of h n j] that by force
    have seen: "rfind_from h n i seen = seen" using False by (subst rfind_from.simps) simp
    show ?thesis
    proof (cases "seen < 0")
      case True
      then have "\<not> matches_at h n j" for j using "1.prems"(2) beyond [of j] by (cases "i \<le> j") auto
      then show ?thesis using True "1.prems"(2) matches_at_sublist [of h n] unfolding seen by auto
    next
      case False
      then have "\<not> matches_at h n j" if "nat seen < j" for j
        using "1.prems"(2) beyond [of j] that by (cases "i \<le> j") auto
      then show ?thesis using False "1.prems"(2) unfolding seen by (auto simp: last_at_def)
    qed
  qed
qed

section \<open>Splitting and replacing\<close>

lemma join_with_Cons: "ps \<noteq> [] \<Longrightarrow> join_with sep (p # ps) = p @ sep @ join_with sep ps"
  by (cases ps) simp_all

definition buf_ok :: "strbuf \<Rightarrow> bool" where
  "buf_ok b \<longleftrightarrow> length (b_data b) < b_cap b"

lemma doubled_ge: "0 < nc \<Longrightarrow> need \<le> doubled nc need"
  by (induction nc need rule: doubled.induct) (subst doubled.simps, auto)

lemma strbuf_grow_ok: "buf_ok b \<Longrightarrow> length (b_data b) + extra + 1 \<le> b_cap (strbuf_grow extra b) \<and>
    b_data (strbuf_grow extra b) = b_data b"
  using doubled_ge [of "b_cap b" "length (b_data b) + extra + 1"] by (auto simp: strbuf_grow_def buf_ok_def)

lemma append_piece_ok:
  assumes "buf_ok b" and "0 \<le> len" and "len \<le> int (length src)" and "len \<le> INT32_MAX"
  shows "\<exists>b'. append_piece b src len = Done b' \<and> buf_ok b' \<and> b_data b' = b_data b @ take (nat len) src"
proof -
  have "duxrt_str_new src len = Done (filled (take (nat len) src))"
    using assms(2,3,4) by (auto simp: new_made made_def min_def)
  moreover have "length (take (nat len) src) = nat len" using assms(2,3) by simp
  ultimately show ?thesis using assms(1) strbuf_grow_ok [OF assms(1), of "nat len"]
    by (auto simp: append_piece_def duxrt_strbuf_append_str_def Let_def buf_ok_def)
qed

text \<open>The pieces between leftmost occurrences.\<close>

definition pieces_of :: "string \<Rightarrow> string \<Rightarrow> string list \<Rightarrow> bool" where
  "pieces_of s sep ps \<longleftrightarrow> join_with sep ps = s \<and> ps \<noteq> [] \<and> \<not> sublist sep (last ps) \<and>
     (\<forall>p\<in>set (butlast ps). first_at (p @ sep) sep (length p))"

lemma pieces_of_Cons: "first_at (p @ sep) sep (length p) \<Longrightarrow> pieces_of s sep ps \<Longrightarrow>
    pieces_of (p @ sep @ s) sep (p # ps)"
  by (auto simp: pieces_of_def join_with_Cons)

lemma first_at_piece:
  assumes "matches_at sp fp i" and "prev \<le> i" and "fp \<noteq> []"
    and "\<forall>j. prev \<le> j \<and> j < i \<longrightarrow> \<not> matches_at sp fp j"
  shows "first_at (take (i - prev) (drop prev sp) @ fp) fp (i - prev)"
    and "drop prev sp = take (i - prev) (drop prev sp) @ fp @ drop (i + length fp) sp"
proof -
  have bound: "i + length fp \<le> length sp" using assms(1,3) by (rule matches_at_bound)
  have fp: "take (length fp) (drop i sp) = fp" using assms(1) by (simp add: matches_at_def)
  have "drop i sp = fp @ drop (i + length fp) sp"
    by (metis append_take_drop_id drop_drop fp add.commute)
  moreover have "drop prev sp = take (i - prev) (drop prev sp) @ drop i sp"
    using assms(2) by (metis append_take_drop_id drop_drop le_add_diff_inverse2)
  ultimately show whole: "drop prev sp = take (i - prev) (drop prev sp) @ fp @ drop (i + length fp) sp" by simp
  let ?p = "take (i - prev) (drop prev sp)"
  have len: "length ?p = i - prev" using bound assms(2) by simp
  have "\<not> matches_at (?p @ fp) fp j" if "j < i - prev" for j
  proof
    assume m: "matches_at (?p @ fp) fp j"
    have "take (length fp) (drop j (?p @ fp @ drop (i + length fp) sp)) = take (length fp) (drop j (?p @ fp))"
      using that len by simp
    then have "take (length fp) (drop j (drop prev sp)) = take (length fp) (drop j (?p @ fp))"
      by (subst whole)
    then have "matches_at sp fp (prev + j)" using m by (simp add: matches_at_def add.commute)
    then show False using assms(4) that by auto
  qed
  then show "first_at (?p @ fp) fp (i - prev)" using len by (simp add: first_at_def matches_at_def)
qed

lemma split_replace:
  assumes "prev \<le> i" and "i \<le> length sp" and "int (length sp) \<le> INT32_MAX" and "fp \<noteq> []"
    and "int (length tp) \<le> INT32_MAX" and "\<forall>j. prev \<le> j \<and> j < i \<longrightarrow> \<not> matches_at sp fp j"
  shows "\<exists>ps. split_from sp fp prev i = Done (map filled ps) \<and> pieces_of (drop prev sp) fp ps \<and>
    (\<forall>b x. buf_ok b \<longrightarrow> b_data b = x @ take (i - prev) (drop prev sp) \<longrightarrow>
       (\<exists>b'. replace_from sp fp tp i b = Done b' \<and> buf_ok b' \<and> b_data b' = x @ join_with tp ps))"
  using assms
proof (induction sp fp prev i rule: split_from.induct)
  case (1 sp fp prev i)
  note prems = "1.prems"
  consider (found) "i + length fp \<le> length sp" "matches_at sp fp i"
    | (skip) "i + length fp \<le> length sp" "\<not> matches_at sp fp i" | (ended) "length sp < i + length fp"
    by linarith
  then show ?case
  proof cases
    case found
    let ?p = "take (i - prev) (drop prev sp)" and ?k = "i + length fp"
    have new: "duxrt_str_new (drop prev sp) (int i - int prev) = Done (filled ?p)"
      using prems(1,2,3) by (auto simp: new_made made_def nat_diff_distrib)
    obtain ps where ps: "split_from sp fp ?k ?k = Done (map filled ps)" "pieces_of (drop ?k sp) fp ps"
      and rep: "\<And>b x. buf_ok b \<Longrightarrow> b_data b = x \<Longrightarrow>
        \<exists>b'. replace_from sp fp tp ?k b = Done b' \<and> buf_ok b' \<and> b_data b' = x @ join_with tp ps"
      using "1.IH"(1) [OF conjI, OF found(1) prems(4) found(2) new] prems found(1) by auto
    have "pieces_of (drop prev sp) fp (?p # ps)"
      using pieces_of_Cons [OF _ ps(2), of ?p] first_at_piece [OF found(2) prems(1,4,6)] prems(2) by simp
    moreover have "split_from sp fp prev i = Done (map filled (?p # ps))"
      using found prems(4) new ps(1) by (subst split_from.simps) simp
    moreover have "\<exists>b'. replace_from sp fp tp i b = Done b' \<and> buf_ok b' \<and> b_data b' = x @ join_with tp (?p # ps)"
      if b: "buf_ok b" "b_data b = x @ ?p" for b x
    proof -
      obtain b1 where b1: "append_piece b tp (int (length tp)) = Done b1" "buf_ok b1" "b_data b1 = (x @ ?p) @ tp"
        using append_piece_ok [OF b(1), of "int (length tp)" tp] prems(5) b(2) by auto
      obtain b2 where "replace_from sp fp tp ?k b1 = Done b2" "buf_ok b2" "b_data b2 = ((x @ ?p) @ tp) @ join_with tp ps"
        using rep [OF b1(2,3)] by blast
      moreover have "ps \<noteq> []" using ps(2) by (simp add: pieces_of_def)
      ultimately show ?thesis using found prems(4) b1(1) by (subst replace_from.simps) (simp add: join_with_Cons)
    qed
    ultimately show ?thesis by blast
  next
    case skip
    have no: "\<forall>j. prev \<le> j \<and> j < i + 1 \<longrightarrow> \<not> matches_at sp fp j"
      using prems(6) skip(2) by (auto simp: less_Suc_eq)
    have "i < length sp" using skip(1) prems(4) by (cases fp) auto
    then obtain ps where ps: "split_from sp fp prev (i + 1) = Done (map filled ps)" "pieces_of (drop prev sp) fp ps"
      and rep: "\<And>b x. buf_ok b \<Longrightarrow> b_data b = x @ take (i + 1 - prev) (drop prev sp) \<Longrightarrow>
        \<exists>b'. replace_from sp fp tp (i + 1) b = Done b' \<and> buf_ok b' \<and> b_data b' = x @ join_with tp ps"
      using "1.IH"(2) [OF conjI, OF skip(1) prems(4) skip(2)] no prems by auto
    have "split_from sp fp prev i = Done (map filled ps)"
      using skip prems(4) ps(1) by (subst split_from.simps) simp
    moreover have "\<exists>b'. replace_from sp fp tp i b = Done b' \<and> buf_ok b' \<and> b_data b' = x @ join_with tp ps"
      if b: "buf_ok b" "b_data b = x @ take (i - prev) (drop prev sp)" for b x
    proof -
      have "take (i + 1 - prev) (drop prev sp) = take (i - prev) (drop prev sp) @ [sp ! i]"
        using prems(1) \<open>i < length sp\<close> by (simp add: Suc_diff_le take_Suc_conv_app_nth)
      moreover obtain b1 where b1: "append_piece b (drop i sp) 1 = Done b1" "buf_ok b1" "b_data b1 = b_data b @ [sp ! i]"
        using append_piece_ok [OF b(1), of 1 "drop i sp"] \<open>i < length sp\<close>
        by (auto simp: INT32_MAX_def take_Suc_conv_app_nth)
      ultimately show ?thesis using rep [of b1 x] skip prems(4) b(2) by (subst replace_from.simps) simp
    qed
    ultimately show ?thesis using ps(2) by blast
  next
    case ended
    let ?p = "drop prev sp"
    have new: "duxrt_str_new ?p (int (length sp) - int prev) = Done (filled ?p)"
      using prems(1,2,3) by (auto simp: new_made made_def)
    have "\<not> matches_at ?p fp j" for j
    proof
      assume m: "matches_at ?p fp j"
      then have "matches_at sp fp (prev + j)" by (simp add: matches_at_def add.commute)
      then show False using prems(4,6) matches_at_bound [of sp fp "prev + j"] ended by auto
    qed
    then have "pieces_of ?p fp [?p]" using matches_at_sublist by (auto simp: pieces_of_def)
    moreover have "split_from sp fp prev i = Done (map filled [?p])"
      using ended new by (subst split_from.simps) simp
    moreover have "\<exists>b'. replace_from sp fp tp i b = Done b' \<and> buf_ok b' \<and> b_data b' = x @ join_with tp [?p]"
      if b: "buf_ok b" "b_data b = x @ take (i - prev) ?p" for b x
    proof -
      have whole: "take (i - prev) ?p @ drop i sp = ?p"
        using prems(1) by (metis append_take_drop_id drop_drop le_add_diff_inverse2)
      obtain b1 where "append_piece b (drop i sp) (int (length sp) - int i) = Done b1" "buf_ok b1"
          "b_data b1 = b_data b @ drop i sp"
        using append_piece_ok [OF b(1), of "int (length sp) - int i" "drop i sp"] prems(2,3) by auto
      then show ?thesis using ended b whole prems(2)
        by (subst replace_from.simps) auto
    qed
    ultimately show ?thesis by blast
  qed
qed

section \<open>Comparison\<close>

lemma memcmp_order:
  "(let r = memcmp_sign (min (length xs) (length ys)) xs ys
    in if r \<noteq> 0 then if r < 0 then - 1 else 1
       else if length xs < length ys then - 1 else if length ys < length xs then 1 else 0) =
   (if xs < ys then - 1 else if xs = ys then 0 else (1 :: int))"
proof (induction xs arbitrary: ys)
  case Nil
  then show ?case by (cases ys) (simp_all add: Let_def)
next
  case (Cons x xs)
  show ?case
  proof (cases ys)
    case Nil
    then show ?thesis by (simp add: Let_def)
  next
    case ys: (Cons y zs)
    show ?thesis
    proof (cases "x = y")
      case True
      have "memcmp_sign (min (length (x # xs)) (length (y # zs))) (x # xs) (y # zs) =
          memcmp_sign (min (length xs) (length zs)) xs zs"
        using True by simp
      then show ?thesis using Cons.IH [of zs] True unfolding ys
        by (simp only: length_Cons Suc_less_eq Cons_less_Cons list.inject less_irrefl simp_thms)
    next
      case False
      then have "(of_char x :: nat) < of_char y \<longleftrightarrow> x < y" by (simp add: less_char_def)
      then show ?thesis using False ys by (auto simp: Let_def)
    qed
  qed
qed

lemma cmp_order: "str_ok a \<Longrightarrow> str_ok b \<Longrightarrow> duxrt_str_cmp (Some a) (Some b) =
    (if sdata a < sdata b then - 1 else if sdata a = sdata b then 0 else 1)"
proof -
  assume "str_ok a" "str_ok b"
  then have len: "s_len a = length (sdata a)" "s_len b = length (sdata b)" by (simp_all add: str_ok_def)
  have if_min: "(if m < n then m else n) = min m n" for m n :: nat by simp
  show ?thesis unfolding duxrt_str_cmp_def len if_min prod.case option.case by (rule memcmp_order)
qed

section \<open>Numerals\<close>

lemma digit_char: "n < 10 \<Longrightarrow> is_digit (char_of (48 + n :: nat))"
  by (simp add: is_digit_def)

lemma show_nat_is_digit: "c \<in> set (show_nat n) \<Longrightarrow> is_digit c"
proof (induction n rule: show_nat.induct)
  case (1 n)
  show ?case
    using 1 digit_char [of n] digit_char [of "n mod 10"] by (subst (asm) (2) show_nat.simps) (cases "n < 10"; auto)
qed

lemma digits_value_show_nat: "digits_value (show_nat n) = int n"
proof (induction n rule: show_nat.induct)
  case (1 n)
  have "int (n div 10) * 10 + int (n mod 10) = int n" using div_mult_mod_eq [of n 10] by linarith
  then show ?case using 1 by (subst show_nat.simps) (simp add: digits_value_def)
qed

lemma show_nat_length: "n < 10 ^ Suc k \<Longrightarrow> length (show_nat n) \<le> Suc k"
proof (induction n arbitrary: k rule: show_nat.induct)
  case (1 n)
  show ?case
  proof (cases "n < 10")
    case True
    then show ?thesis by (subst show_nat.simps) simp
  next
    case False
    then obtain j where "k = Suc j" using 1(2) by (cases k) auto
    then show ?thesis using False 1 by (subst show_nat.simps) (simp add: less_mult_imp_div_less mult.commute)
  qed
qed

lemma digit_not_special: "is_digit c \<Longrightarrow> \<not> is_space c \<and> c \<noteq> CHR ''-'' \<and> c \<noteq> CHR ''+'' \<and> c \<noteq> CHR 0x00"
  by (auto simp: is_digit_def is_space_def)

lemma strtol_show_int:
  assumes "is_int64 v"
  shows "strtol (show_int v) = (v, [])"
proof -
  define ds where "ds = show_nat (nat \<bar>v\<bar>)"
  have digits: "\<forall>c\<in>set ds. is_digit c" "ds \<noteq> []"
    using show_nat_is_digit by (auto simp: ds_def show_nat_nonempty)
  then have read: "takeWhile is_digit ds = ds" "dropWhile is_digit ds = []" "ds \<noteq> []"
    by (auto simp: takeWhile_eq_all_conv dropWhile_eq_Nil_conv)
  have val_ds: "digits_value ds = \<bar>v\<bar>" by (simp add: ds_def digits_value_show_nat)
  have hd: "\<not> is_space (hd ds)" "hd ds \<noteq> CHR ''-''" "hd ds \<noteq> CHR ''+''"
    using digit_not_special [of "hd ds"] digits by auto
  have whole: "dropWhile is_space ds = ds" "\<not> is_space (CHR ''-'')"
    using hd(1) digits(2) by (cases ds; simp) (simp add: is_space_def)
  have clamp: "clamp64 v = v" using assms by (simp add: clamp64_def is_int64_def INT64_MAX_def INT64_MIN_def)
  show ?thesis
  proof (cases "v < 0")
    case True
    then have "show_int v = CHR ''-'' # ds" by (simp add: show_int_def ds_def)
    then show ?thesis using True by (simp add: strtol_def Let_def read val_ds hd whole clamp)
  next
    case False
    then have "show_int v = ds" by (simp add: show_int_def ds_def)
    then show ?thesis using False by (simp add: strtol_def Let_def read val_ds hd whole clamp)
  qed
qed

lemma show_int_cstr: "takeWhile (\<lambda>c. c \<noteq> CHR 0x00) (show_int v) = show_int v"
proof -
  have "c \<noteq> CHR 0x00" if "c \<in> set (show_int v)" for c
    using that digit_not_special [OF show_nat_is_digit, of c] by (auto simp: show_int_def split: if_splits)
  then show ?thesis by (simp add: takeWhile_eq_all_conv)
qed

lemma show_int_length:
  assumes "is_int64 v"
  shows "length (show_int v) \<le> 20"
proof -
  have "\<bar>v\<bar> < 10 ^ Suc 18" using assms by (simp add: is_int64_def abs_if)
  then have "nat \<bar>v\<bar> < 10 ^ Suc 18" by (simp add: nat_less_iff)
  then have "length (show_nat (nat \<bar>v\<bar>)) \<le> 19" using show_nat_length by fastforce
  then show ?thesis by (auto simp: show_int_def)
qed

lemma from_int_made: "is_int64 v \<Longrightarrow> duxrt_str_from_int v = Done (filled (show_int v))"
  using show_int_length [of v] by (simp add: duxrt_str_from_int_def new_made made_def INT32_MAX_def)

section \<open>What the strings promise\<close>

lemma index_made: "str_ok s \<Longrightarrow> duxrt_str_index (Some s) i =
    made (case slot_of (length (sdata s)) i of None \<Rightarrow> [] | Some k \<Rightarrow> [sdata s ! k])"
  by (auto simp: duxrt_str_index_def str_ok_def empty_made new_made take_Suc_conv_app_nth slot_of_less
      split: option.splits dest: slot_of_less)

lemma concat_made: "opt_ok a \<Longrightarrow> opt_ok b \<Longrightarrow> duxrt_str_concat a b = made (bytes_of a @ bytes_of b)"
  by (simp add: duxrt_str_concat_def opt_ok_length fill_made)







text \<open>
  C39. Numbers survive the way through text: every 64-bit integer is written by \<open>from_int\<close> into a string
  that \<open>to_long_valid\<close> accepts and \<open>to_long_val\<close> reads back to the same integer.
\<close>

theorem integers_round_trip:
  assumes "is_int64 v"
  shows "\<exists>s. duxrt_str_from_int v = Done s \<and> str_ok s \<and> duxrt_str_to_long_valid (Some s) \<and>
    duxrt_str_to_long_val (Some s) = v"
proof -
  have "show_int v \<noteq> []" by (simp add: show_int_def show_nat_nonempty)
  moreover have "duxrt_str_cstr (filled (show_int v)) = show_int v"
    by (simp add: duxrt_str_cstr_def show_int_cstr)
  moreover have "str_ok (filled (show_int v))"
    using from_int_made [OF assms] show_int_length [OF assms] by (intro filled_ok) (simp add: INT32_MAX_def)
  ultimately show ?thesis
    using from_int_made [OF assms] strtol_show_int [OF assms]
    by (auto simp: duxrt_str_to_long_valid_def duxrt_str_to_long_val_def)
qed

theorem integers_round_trip_witness:
  "\<exists>s. duxrt_str_from_int INT64_MIN = Done s \<and> duxrt_str_to_long_val (Some s) = INT64_MIN"
  using integers_round_trip [of INT64_MIN] by (auto simp: is_int64_def INT64_MIN_def)

text \<open>
  \<open>repeat\<close> computes the length of its result in 64 bits without a check: repeating a string of four
  bytes 2^62 + 1 times allocates four bytes, passes the 2 GiB test and writes beyond them.
\<close>

theorem repeat_overflows:
  "duxrt_str_repeat (Some (filled ''abcd'')) (2 ^ 62 + 1) = Wild"
proof -
  have "int64 (int (s_len (filled ''abcd'')) * (2 ^ 62 + 1)) = 4" by (simp add: int64_def)
  moreover have "int (length (concat (replicate m ''abcd''))) \<noteq> 4" if "m \<noteq> 1" for m
    using that by (simp add: length_concat sum_list_replicate)
  ultimately show ?thesis
    by (simp add: duxrt_str_repeat_def str_fill_def too_long_def INT32_MAX_def nat_add_distrib)
qed

end
