(* ===== verification/Rt_Bytes.thy ===== *)
theory Rt_Bytes
  imports Rt_Str
begin

text \<open>
  The byte buffers of the runtime (\<^verbatim>\<open>src/runtime/bytes_rt.c\<close>). The bytes in use are a list of 8-bit words
  and the capacity is kept beside it; a 64-bit argument that is only masked and shifted is a word,
  indices are integers. A null handle is \<open>None\<close>.
\<close>

unbundle bit_operations_syntax

record bytes =
  y_data :: "8 word list"
  y_cap :: nat

definition y_len :: "bytes \<Rightarrow> nat" where
  "y_len b = length (y_data b)"

definition duxrt_bytes_new :: "int \<Rightarrow> bytes" where
  "duxrt_bytes_new cap = \<lparr>y_data = [], y_cap = nat (if cap < 8 then 8 else cap)\<rparr>"

definition duxrt_bytes_from_str :: "dux_str option \<Rightarrow> bytes" where
  "duxrt_bytes_from_str s = (case s of
       None \<Rightarrow> duxrt_bytes_new 8
     | Some s \<Rightarrow> (duxrt_bytes_new (int (s_len s) + 1))\<lparr>y_data := map of_char (take (s_len s) (sdata s))\<rparr>)"

text \<open>A byte as a \<open>char\<close> and back.\<close>

definition char_of_byte :: "8 word \<Rightarrow> char" where
  "char_of_byte w = char_of (unat w)"

definition duxrt_bytes_to_str :: "bytes option \<Rightarrow> dux_str c_run" where
  "duxrt_bytes_to_str h = (case h of
       None \<Rightarrow> empty_str
     | Some b \<Rightarrow> if y_len b = 0 then empty_str
         else duxrt_str_new (map char_of_byte (y_data b)) (int (y_len b)))"

definition duxrt_bytes_len :: "bytes option \<Rightarrow> nat" where
  "duxrt_bytes_len h = (case h of None \<Rightarrow> 0 | Some b \<Rightarrow> y_len b)"

definition duxrt_bytes_get :: "bytes option \<Rightarrow> int \<Rightarrow> int" where
  "duxrt_bytes_get h i = (case h of
       None \<Rightarrow> 0
     | Some b \<Rightarrow> if i < 0 \<or> i \<ge> int (y_len b) then 0 else uint (y_data b ! nat i))"

text \<open>\<open>(uint8_t)((v >> (8 * k)) & 0xFF)\<close> of a signed 64-bit \<open>v\<close>.\<close>

definition byte_of :: "64 word \<Rightarrow> nat \<Rightarrow> 8 word" where
  "byte_of v k = ucast (signed_drop_bit (8 * k) v AND 0xFF)"

definition duxrt_bytes_set :: "bytes option \<Rightarrow> int \<Rightarrow> 64 word \<Rightarrow> bytes option" where
  "duxrt_bytes_set h i val = (case h of
       None \<Rightarrow> None
     | Some b \<Rightarrow> if i < 0 \<or> i \<ge> int (y_len b) then Some b
         else Some (b\<lparr>y_data := (y_data b)[nat i := byte_of val 0]\<rparr>))"

text \<open>A store at the end, which needs the capacity for it.\<close>

definition put_byte :: "8 word \<Rightarrow> bytes \<Rightarrow> bytes c_run" where
  "put_byte w b = (if y_len b < y_cap b then Done (b\<lparr>y_data := y_data b @ [w]\<rparr>) else Wild)"

definition duxrt_bytes_push :: "bytes \<Rightarrow> 64 word \<Rightarrow> bytes c_run" where
  "duxrt_bytes_push b val = put_byte (byte_of val 0) (if y_cap b \<le> y_len b then b\<lparr>y_cap := y_cap b * 2\<rparr> else b)"

definition duxrt_bytes_append :: "bytes \<Rightarrow> bytes option \<Rightarrow> bytes c_run" where
  "duxrt_bytes_append dst src = (case src of
       None \<Rightarrow> Done dst
     | Some src \<Rightarrow> if y_len src = 0 then Done dst
         else let needed = y_len dst + y_len src;
                  dst = (if needed > y_cap dst then dst\<lparr>y_cap := doubled (y_cap dst) needed\<rparr> else dst)
              in if y_cap dst < needed then Wild else Done (dst\<lparr>y_data := y_data dst @ y_data src\<rparr>))"

section \<open>Typed access\<close>

definition bytes_ensure_cap :: "nat \<Rightarrow> bytes \<Rightarrow> bytes" where
  "bytes_ensure_cap needed b = b\<lparr>y_cap := doubled (y_cap b) (y_len b + needed)\<rparr>"

text \<open>The stores of one value, byte \<open>k\<close> of it for each \<open>k\<close> of the list.\<close>

fun put_bytes :: "64 word \<Rightarrow> nat list \<Rightarrow> bytes \<Rightarrow> bytes c_run" where
  "put_bytes v [] b = Done b"
| "put_bytes v (k # ks) b = c_bind (put_byte (byte_of v k) b) (put_bytes v ks)"

definition duxrt_bytes_write_u8 :: "64 word \<Rightarrow> bytes \<Rightarrow> bytes c_run" where
  "duxrt_bytes_write_u8 v b = put_bytes v [0] (bytes_ensure_cap 1 b)"

definition duxrt_bytes_write_u16_le :: "64 word \<Rightarrow> bytes \<Rightarrow> bytes c_run" where
  "duxrt_bytes_write_u16_le v b = put_bytes v [0, 1] (bytes_ensure_cap 2 b)"

definition duxrt_bytes_write_u16_be :: "64 word \<Rightarrow> bytes \<Rightarrow> bytes c_run" where
  "duxrt_bytes_write_u16_be v b = put_bytes v [1, 0] (bytes_ensure_cap 2 b)"

definition duxrt_bytes_write_u32_le :: "64 word \<Rightarrow> bytes \<Rightarrow> bytes c_run" where
  "duxrt_bytes_write_u32_le v b = put_bytes v [0, 1, 2, 3] (bytes_ensure_cap 4 b)"

definition duxrt_bytes_write_u32_be :: "64 word \<Rightarrow> bytes \<Rightarrow> bytes c_run" where
  "duxrt_bytes_write_u32_be v b = put_bytes v [3, 2, 1, 0] (bytes_ensure_cap 4 b)"

definition duxrt_bytes_write_u64_le :: "64 word \<Rightarrow> bytes \<Rightarrow> bytes c_run" where
  "duxrt_bytes_write_u64_le v b = put_bytes v [0..<8] (bytes_ensure_cap 8 b)"

definition duxrt_bytes_write_u64_be :: "64 word \<Rightarrow> bytes \<Rightarrow> bytes c_run" where
  "duxrt_bytes_write_u64_be v b = put_bytes v (rev [0..<8]) (bytes_ensure_cap 8 b)"

text \<open>
  The test \<open>off < 0 || off + n > b->len\<close>, with the sum in 64 bits: past it, \<open>n\<close> bytes from \<open>off\<close> are
  read.
\<close>

definition read_bytes :: "bytes option \<Rightarrow> int \<Rightarrow> nat \<Rightarrow> (8 word list \<Rightarrow> 64 word) \<Rightarrow> 64 word c_run" where
  "read_bytes h off n f = (case h of
       None \<Rightarrow> Done 0
     | Some b \<Rightarrow> if off < 0 \<or> int64 (off + int n) > int (y_len b) then Done 0
         else if off + int n > int (y_len b) then Wild
         else Done (f (take n (drop (nat off) (y_data b)))))"

definition duxrt_bytes_read_u8 :: "bytes option \<Rightarrow> int \<Rightarrow> 64 word c_run" where
  "duxrt_bytes_read_u8 h off = (case h of
       None \<Rightarrow> Done 0
     | Some b \<Rightarrow> if off < 0 \<or> off \<ge> int (y_len b) then Done 0 else Done (ucast (y_data b ! nat off)))"

definition duxrt_bytes_read_u16_le :: "bytes option \<Rightarrow> int \<Rightarrow> 64 word c_run" where
  "duxrt_bytes_read_u16_le h off = read_bytes h off 2
     (\<lambda>d. ucast (d ! 0) OR push_bit 8 (ucast (d ! 1)))"

definition duxrt_bytes_read_u16_be :: "bytes option \<Rightarrow> int \<Rightarrow> 64 word c_run" where
  "duxrt_bytes_read_u16_be h off = read_bytes h off 2
     (\<lambda>d. push_bit 8 (ucast (d ! 0)) OR ucast (d ! 1))"

definition duxrt_bytes_read_u32_le :: "bytes option \<Rightarrow> int \<Rightarrow> 64 word c_run" where
  "duxrt_bytes_read_u32_le h off = read_bytes h off 4
     (\<lambda>d. ucast (d ! 0) OR push_bit 8 (ucast (d ! 1)) OR push_bit 16 (ucast (d ! 2)) OR push_bit 24 (ucast (d ! 3)))"

definition duxrt_bytes_read_u32_be :: "bytes option \<Rightarrow> int \<Rightarrow> 64 word c_run" where
  "duxrt_bytes_read_u32_be h off = read_bytes h off 4
     (\<lambda>d. push_bit 24 (ucast (d ! 0)) OR push_bit 16 (ucast (d ! 1)) OR push_bit 8 (ucast (d ! 2)) OR ucast (d ! 3))"

definition duxrt_bytes_read_u64_le :: "bytes option \<Rightarrow> int \<Rightarrow> 64 word c_run" where
  "duxrt_bytes_read_u64_le h off = read_bytes h off 8
     (\<lambda>d. foldl (\<lambda>r i. r OR push_bit (i * 8) (ucast (d ! i))) 0 [0..<8])"

definition duxrt_bytes_read_u64_be :: "bytes option \<Rightarrow> int \<Rightarrow> 64 word c_run" where
  "duxrt_bytes_read_u64_be h off = read_bytes h off 8
     (\<lambda>d. foldl (\<lambda>r i. push_bit 8 r OR ucast (d ! i)) 0 [0..<8])"

text \<open>\<open>"%02x"\<close>.\<close>

definition hex_digit :: "nat \<Rightarrow> char" where
  "hex_digit n = (if n < 10 then char_of (48 + n) else char_of (87 + n))"

definition hex_byte :: "8 word \<Rightarrow> string" where
  "hex_byte w = [hex_digit (unat w div 16), hex_digit (unat w mod 16)]"

definition duxrt_bytes_hex :: "bytes option \<Rightarrow> dux_str c_run" where
  "duxrt_bytes_hex h = (case h of
       None \<Rightarrow> empty_str
     | Some b \<Rightarrow> if y_len b = 0 then empty_str
         else duxrt_str_new (concat (map hex_byte (y_data b))) (int (y_len b) * 2))"

definition duxrt_bytes_slice :: "bytes option \<Rightarrow> int \<Rightarrow> int \<Rightarrow> bytes" where
  "duxrt_bytes_slice h a e = (case h of
       None \<Rightarrow> duxrt_bytes_new 8
     | Some b \<Rightarrow>
         (let a = (if a < 0 then 0 else a);
              e = (if e > int (y_len b) then int (y_len b) else e)
          in if a \<ge> e then duxrt_bytes_new 8
             else (duxrt_bytes_new (e - a))\<lparr>y_data := take (nat (e - a)) (drop (nat a) (y_data b))\<rparr>))"

end
