(* ===== verification/Rt_Bytes_Properties.thy ===== *)
theory Rt_Bytes_Properties
  imports Rt_Bytes Rt_Str_Properties
begin

text \<open>
  Byte buffers: the capacity always suffices, values written in either byte order are read back from
  where they were written, text survives the way through bytes.
\<close>

definition bytes_ok :: "bytes \<Rightarrow> bool" where
  "bytes_ok b \<longleftrightarrow> y_len b \<le> y_cap b \<and> 8 \<le> y_cap b"

lemma new_bytes_ok: "bytes_ok (duxrt_bytes_new cap)"
  by (auto simp: bytes_ok_def duxrt_bytes_new_def y_len_def)

section \<open>Words from bytes\<close>

lemma bit_byte_of: "k < 8 \<Longrightarrow> bit (byte_of v k) i \<longleftrightarrow> i < 8 \<and> bit v (8 * k + i)"
proof -
  assume k: "k < 8"
  have mask: "bit (0xFF :: 64 word) i \<longleftrightarrow> i < 8"
  proof -
    have "(0xFF :: 64 word) = mask 8" by (simp add: mask_eq_exp_minus_1)
    then show ?thesis by (simp only: bit_mask_iff) auto
  qed
  show ?thesis unfolding byte_of_def using k mask
    by (auto simp: bit_simps)
qed

lemma fold_le_bytes: "n \<le> 8 \<Longrightarrow> foldl (\<lambda>r i. r OR push_bit (i * 8) (ucast (byte_of v i))) 0 [0..<n] =
    (take_bit (8 * n) v :: 64 word)"
proof (induction n)
  case (Suc n)
  have "take_bit (8 * n) v OR push_bit (n * 8) (ucast (byte_of v n)) = take_bit (8 * Suc n) v"
    using Suc.prems by (intro bit_eqI) (auto simp: bit_simps bit_byte_of)
  then show ?case using Suc by simp
qed simp

lemma fold_be_bytes: "n \<le> 8 \<Longrightarrow> foldl (\<lambda>r i. push_bit 8 r OR ucast (byte_of v (7 - i))) 0 [0..<n] =
    (drop_bit (64 - 8 * n) v :: 64 word)"
proof (induction n)
  case (Suc n)
  have "push_bit 8 (drop_bit (64 - 8 * n) v) OR ucast (byte_of v (7 - n)) = drop_bit (64 - 8 * Suc n) v"
  proof (rule bit_eqI)
    fix i
    assume "possible_bit TYPE(64 word) i"
    then have "i < 64" by simp
    show "bit (push_bit 8 (drop_bit (64 - 8 * n) v) OR ucast (byte_of v (7 - n))) i \<longleftrightarrow>
        bit (drop_bit (64 - 8 * Suc n) v) i"
    proof (cases "i < 8")
      case True
      then have "8 * (7 - n) + i = 64 - 8 * Suc n + i" using Suc.prems by simp
      then show ?thesis using True by (simp add: bit_simps bit_byte_of)
    next
      case False
      then have "64 - 8 * n + (i - 8) = 64 - 8 * Suc n + i" using Suc.prems by simp
      then show ?thesis using False \<open>i < 64\<close> by (simp add: bit_simps bit_byte_of)
    qed
  qed
  then show ?case using Suc by simp
next
  case 0
  show ?case by (intro bit_eqI) (simp add: bit_simps)
qed

lemma be_bytes: "foldl (\<lambda>r i. push_bit 8 r OR ucast (map (byte_of v) (rev [0..<8]) ! i)) 0 [0..<8] = (v :: 64 word)"
proof -
  have "map (byte_of v) (rev [0..<8]) ! i = byte_of v (7 - i)" if "i < 8" for i
    using that by (simp add: rev_nth)
  then have "foldl (\<lambda>r i. push_bit 8 r OR ucast (map (byte_of v) (rev [0..<8]) ! i)) 0 [0..<8] =
      foldl (\<lambda>r i. push_bit 8 r OR (ucast (byte_of v (7 - i)) :: 64 word)) 0 [0..<8]"
    by (intro foldl_cong) simp_all
  then show ?thesis using fold_be_bytes [of 8 v] by simp
qed

lemma or_bytes_16: "ucast (byte_of v 0) OR push_bit 8 (ucast (byte_of v 1)) = (take_bit 16 v :: 64 word)"
  using fold_le_bytes [of 2 v] by (simp add: upt_rec)

lemma or_bytes_32: "ucast (byte_of v 0) OR push_bit 8 (ucast (byte_of v 1)) OR
    push_bit 16 (ucast (byte_of v 2)) OR push_bit 24 (ucast (byte_of v 3)) = (take_bit 32 v :: 64 word)"
  using fold_le_bytes [of 4 v] by (simp add: upt_rec or.assoc numeral_2_eq_2 numeral_3_eq_3)

section \<open>Writing and reading back\<close>

lemma put_bytes_done: "y_len b + length ks \<le> y_cap b \<Longrightarrow>
    put_bytes v ks b = Done (b\<lparr>y_data := y_data b @ map (byte_of v) ks\<rparr>)"
proof (induction ks arbitrary: b)
  case (Cons k ks)
  then have "put_byte (byte_of v k) b = Done (b\<lparr>y_data := y_data b @ [byte_of v k]\<rparr>)"
    by (simp add: put_byte_def)
  then show ?case using Cons by (simp add: y_len_def)
qed simp

lemma ensure_cap: "bytes_ok b \<Longrightarrow> y_len b + n \<le> y_cap (bytes_ensure_cap n b) \<and>
    8 \<le> y_cap (bytes_ensure_cap n b) \<and> y_data (bytes_ensure_cap n b) = y_data b"
proof -
  have "nc \<le> doubled nc need" for nc need
    by (induction nc need rule: doubled.induct) (subst doubled.simps, auto)
  then show "bytes_ok b \<Longrightarrow> ?thesis"
    using doubled_ge [of "y_cap b" "y_len b + n"] by (auto simp: bytes_ensure_cap_def bytes_ok_def intro: order_trans)
qed

text \<open>The buffer after a value has been written: well-formed, its bytes at the end.\<close>

definition written :: "bytes \<Rightarrow> bytes \<Rightarrow> 8 word list \<Rightarrow> bool" where
  "written b b' ws \<longleftrightarrow> bytes_ok b' \<and> y_data b' = y_data b @ ws"

lemma write_done: "bytes_ok b \<Longrightarrow> n = length ks \<Longrightarrow> \<exists>b'. put_bytes v ks (bytes_ensure_cap n b) = Done b' \<and>
    written b b' (map (byte_of v) ks)"
proof -
  assume "bytes_ok b" "n = length ks"
  then have "y_len (bytes_ensure_cap n b) + length ks \<le> y_cap (bytes_ensure_cap n b)"
    using ensure_cap [of b n] by (simp add: y_len_def)
  then show ?thesis using put_bytes_done [of "bytes_ensure_cap n b" ks v] ensure_cap [OF \<open>bytes_ok b\<close>, of n]
    by (simp add: written_def bytes_ok_def y_len_def)
qed

lemma read_written: "written b b' ws \<Longrightarrow> n = length ws \<Longrightarrow> int (y_len b') \<le> INT64_MAX \<Longrightarrow>
    read_bytes (Some b') (int (y_len b)) n f = Done (f ws)"
proof -
  assume w: "written b b' ws" "n = length ws" "int (y_len b') \<le> INT64_MAX"
  then have "y_len b' = y_len b + n" by (simp add: written_def y_len_def)
  then have "int64 (int (y_len b) + int n) = int (y_len b')"
    using w(3) by (simp add: int64_id is_int64_def INT64_MAX_def)
  then show ?thesis using w \<open>y_len b' = y_len b + n\<close> by (simp add: read_bytes_def written_def y_len_def)
qed

lemma write_read:
  assumes "bytes_ok b" and "int (y_len b) + 8 \<le> INT64_MAX" and "n = length ks" and "n \<le> 8"
    and "f (map (byte_of v) ks) = t"
  shows "\<exists>b'. put_bytes v ks (bytes_ensure_cap n b) = Done b' \<and> written b b' (map (byte_of v) ks) \<and>
    read_bytes (Some b') (int (y_len b)) n f = Done t"
proof -
  obtain b' where b': "put_bytes v ks (bytes_ensure_cap n b) = Done b'" "written b b' (map (byte_of v) ks)"
    using write_done [OF assms(1,3)] by blast
  then have "int (y_len b') \<le> INT64_MAX" using assms(2-4) by (simp add: written_def y_len_def)
  then show ?thesis using b' read_written [OF b'(2), of n f] assms(3,5) by simp
qed

text \<open>
  Values come back from a byte buffer: on a well-formed buffer each typed write succeeds without
  touching memory beyond the capacity, appends the bytes of the value in its byte order and keeps
  what was there, and the read of the same width and order at the old end gives the value, cut to
  its width. This holds for 16, 32 and 64 bits, little and big endian, negative values included.
\<close>

theorem bytes_round_trip:
  assumes "bytes_ok b" and "int (y_len b) + 8 \<le> INT64_MAX"
  shows "(\<exists>b'. duxrt_bytes_write_u16_le v b = Done b' \<and> written b b' (map (byte_of v) [0, 1]) \<and>
      duxrt_bytes_read_u16_le (Some b') (int (y_len b)) = Done (take_bit 16 v)) \<and>
    (\<exists>b'. duxrt_bytes_write_u16_be v b = Done b' \<and> written b b' (map (byte_of v) [1, 0]) \<and>
      duxrt_bytes_read_u16_be (Some b') (int (y_len b)) = Done (take_bit 16 v)) \<and>
    (\<exists>b'. duxrt_bytes_write_u32_le v b = Done b' \<and> written b b' (map (byte_of v) [0, 1, 2, 3]) \<and>
      duxrt_bytes_read_u32_le (Some b') (int (y_len b)) = Done (take_bit 32 v)) \<and>
    (\<exists>b'. duxrt_bytes_write_u32_be v b = Done b' \<and> written b b' (map (byte_of v) [3, 2, 1, 0]) \<and>
      duxrt_bytes_read_u32_be (Some b') (int (y_len b)) = Done (take_bit 32 v)) \<and>
    (\<exists>b'. duxrt_bytes_write_u64_le v b = Done b' \<and> written b b' (map (byte_of v) [0..<8]) \<and>
      duxrt_bytes_read_u64_le (Some b') (int (y_len b)) = Done v) \<and>
    (\<exists>b'. duxrt_bytes_write_u64_be v b = Done b' \<and> written b b' (map (byte_of v) (rev [0..<8])) \<and>
      duxrt_bytes_read_u64_be (Some b') (int (y_len b)) = Done v)"
proof -
  have all: "take_bit 64 v = v" by (intro bit_eqI) (simp add: bit_simps)
  have le: "foldl (\<lambda>r i. r OR push_bit (i * 8) (ucast (map (byte_of v) [0..<8] ! i))) 0 [0..<8] = v"
    using fold_le_bytes [of 8 v] all by (simp add: upt_rec)
  have be: "foldl (\<lambda>r i. push_bit 8 r OR ucast (map (byte_of v) (rev [0..<8]) ! i)) 0 [0..<8] = v"
    by (rule be_bytes)
  have b16: "ucast (map (byte_of v) [0, 1] ! 0) OR push_bit 8 (ucast (map (byte_of v) [0, 1] ! 1)) = take_bit 16 v"
      "push_bit 8 (ucast (map (byte_of v) [1, 0] ! 0)) OR ucast (map (byte_of v) [1, 0] ! 1) = take_bit 16 v"
    using or_bytes_16 [of v] by (simp_all add: or.commute)
  have b32: "ucast (map (byte_of v) [0, 1, 2, 3] ! 0) OR push_bit 8 (ucast (map (byte_of v) [0, 1, 2, 3] ! 1)) OR
        push_bit 16 (ucast (map (byte_of v) [0, 1, 2, 3] ! 2)) OR
        push_bit 24 (ucast (map (byte_of v) [0, 1, 2, 3] ! 3)) = take_bit 32 v"
      "push_bit 24 (ucast (map (byte_of v) [3, 2, 1, 0] ! 0)) OR push_bit 16 (ucast (map (byte_of v) [3, 2, 1, 0] ! 1)) OR
        push_bit 8 (ucast (map (byte_of v) [3, 2, 1, 0] ! 2)) OR ucast (map (byte_of v) [3, 2, 1, 0] ! 3) = take_bit 32 v"
    using or_bytes_32 [of v] by (simp_all add: ac_simps)
  note w = write_read [OF assms]
  show ?thesis
    unfolding duxrt_bytes_write_u16_le_def duxrt_bytes_write_u16_be_def duxrt_bytes_write_u32_le_def
      duxrt_bytes_write_u32_be_def duxrt_bytes_write_u64_le_def duxrt_bytes_write_u64_be_def
      duxrt_bytes_read_u16_le_def duxrt_bytes_read_u16_be_def duxrt_bytes_read_u32_le_def
      duxrt_bytes_read_u32_be_def duxrt_bytes_read_u64_le_def duxrt_bytes_read_u64_be_def
    by (intro conjI w le be b16 b32) simp_all
qed

theorem bytes_round_trip_witness:
  "\<exists>b'. duxrt_bytes_write_u32_be (- 2) (duxrt_bytes_new 0) = Done b' \<and>
     duxrt_bytes_read_u32_be (Some b') 0 = Done 0xFFFFFFFE"
proof -
  have "y_len (duxrt_bytes_new 0) = 0" by (simp add: duxrt_bytes_new_def y_len_def)
  moreover have "take_bit 32 (- 2) = (0xFFFFFFFE :: 64 word)" by simp
  ultimately show ?thesis
    using bytes_round_trip [OF new_bytes_ok, of 0 "- 2"] by (auto simp: INT64_MAX_def)
qed

section \<open>Other operations\<close>

lemma push_done:
  assumes "bytes_ok b"
  shows "\<exists>b'. duxrt_bytes_push b val = Done b' \<and> written b b' [byte_of val 0]"
  using assms by (auto simp: duxrt_bytes_push_def put_byte_def written_def bytes_ok_def y_len_def)

lemma append_done:
  assumes "bytes_ok b"
  shows "\<exists>b'. duxrt_bytes_append b src = Done b' \<and> written b b' (case src of None \<Rightarrow> [] | Some s \<Rightarrow> y_data s)"
proof (cases src)
  case None
  then show ?thesis using assms by (simp add: duxrt_bytes_append_def written_def)
next
  case (Some s)
  show ?thesis
    using assms doubled_ge [of "y_cap b" "y_len b + y_len s"] Some
    by (auto simp: duxrt_bytes_append_def written_def bytes_ok_def y_len_def Let_def)
qed

lemma text_bytes: "str_ok s \<Longrightarrow> y_data (duxrt_bytes_from_str (Some s)) = map of_char (sdata s) \<and>
    bytes_ok (duxrt_bytes_from_str (Some s))"
  by (auto simp: duxrt_bytes_from_str_def duxrt_bytes_new_def bytes_ok_def y_len_def str_ok_def)

lemma char_of_byte_of_char: "char_of_byte (of_char c) = c"
proof -
  have "(of_char c :: 8 word) = of_nat (of_char c)" by (cases c) (simp add: of_char_def)
  then have "unat (of_char c :: 8 word) = unat (of_nat (of_char c) :: 8 word)" by (rule arg_cong)
  also have "\<dots> = of_char c" by (simp add: unat_of_nat)
  finally show ?thesis by (simp add: char_of_byte_def)
qed

text \<open>
  Bytes and text hold the same: the buffer made from a string gives that string back, pushes and
  appends (of any buffer, itself included) add exactly their bytes and leave a well-formed buffer, and
  a slice holds the bytes between its clipped ends.
\<close>

theorem bytes_hold_text:
  assumes "str_ok s" and "bytes_ok b"
  shows "duxrt_bytes_to_str (Some (duxrt_bytes_from_str (Some s))) = made (sdata s) \<and>
    (\<exists>b'. duxrt_bytes_push b val = Done b' \<and> written b b' [byte_of val 0]) \<and>
    (\<exists>b'. duxrt_bytes_append b (Some src) = Done b' \<and> written b b' (y_data src)) \<and>
    (let c = duxrt_bytes_slice (Some b) a e
     in bytes_ok c \<and> y_data c = take (nat (min e (int (y_len b))) - nat (max a 0)) (drop (nat (max a 0)) (y_data b)))"
proof -
  have "duxrt_bytes_to_str (Some (duxrt_bytes_from_str (Some s))) = made (sdata s)"
    using text_bytes [OF assms(1)]
    by (auto simp: duxrt_bytes_to_str_def y_len_def empty_made new_made char_of_byte_of_char comp_def)
  moreover have "let c = duxrt_bytes_slice (Some b) a e
     in bytes_ok c \<and> y_data c = take (nat (min e (int (y_len b))) - nat (max a 0)) (drop (nat (max a 0)) (y_data b))"
    by (auto simp: duxrt_bytes_slice_def duxrt_bytes_new_def bytes_ok_def y_len_def Let_def min_def max_def
        nat_diff_distrib)
  ultimately show ?thesis using push_done [OF assms(2), of val] append_done [OF assms(2), of "Some src"] by simp
qed

theorem bytes_hold_text_witness:
  "duxrt_bytes_to_str (Some (duxrt_bytes_from_str (Some (filled ''abc'')))) = made ''abc''"
  using bytes_hold_text [OF filled_ok [of "''abc''"] new_bytes_ok, of 8] by (simp add: INT32_MAX_def)

text \<open>
  The bounds test of the reads adds before it compares: with an offset of \<open>INT64_MAX\<close> the sum wraps to
  a negative number, the test passes and the read is outside the buffer, whatever the buffer holds.
\<close>

theorem read_offset_overflows:
  assumes "int (y_len b) \<le> INT64_MAX"
  shows "duxrt_bytes_read_u16_le (Some b) INT64_MAX = Wild \<and> duxrt_bytes_read_u64_be (Some b) INT64_MAX = Wild"
  using assms by (simp add: duxrt_bytes_read_u16_le_def duxrt_bytes_read_u64_be_def read_bytes_def
      int64_def INT64_MAX_def)

theorem read_offset_overflows_witness:
  "duxrt_bytes_read_u16_le (Some (duxrt_bytes_new 8)) INT64_MAX = Wild"
  using read_offset_overflows [of "duxrt_bytes_new 8"] by (simp add: duxrt_bytes_new_def y_len_def INT64_MAX_def)

end
