(* ===== verification/Rt_Json.thy ===== *)
theory Rt_Json
  imports Rt_Dict Rt_Str
begin

text \<open>
  The JSON reader and writer of the runtime (\<^verbatim>\<open>src/runtime/json_rt.c\<close>), for flat objects held in a
  dictionary of strings. A \<open>const char*\<close> is what is left of the C string, \<open>[]\<close> when it points at the
  terminating zero byte; going past that byte is \<open>Wild\<close>. An endless probe of the dictionary is \<open>None\<close>.
  The floating-point accessor is left out.
\<close>

type_synonym json = "dux_str dict"

section \<open>Reading\<close>

definition skip_ws :: "string \<Rightarrow> string" where
  "skip_ws p = dropWhile is_space p"

text \<open>\<open>*p == c\<close>.\<close>

definition at :: "char \<Rightarrow> string \<Rightarrow> bool" where
  "at c p \<longleftrightarrow> p \<noteq> [] \<and> hd p = c"

definition unescape :: "char \<Rightarrow> char" where
  "unescape c = (if c = CHR 0x22 then CHR 0x22
     else if c = CHR 0x5C then CHR 0x5C
     else if c = CHR ''n'' then CHR 0x0A
     else if c = CHR ''t'' then CHR 0x09
     else if c = CHR ''r'' then CHR 0x0D
     else c)"

text \<open>\<open>if (i < bufsz-1) buf[i++] = c;\<close>\<close>

definition store :: "nat \<Rightarrow> string \<Rightarrow> char \<Rightarrow> string" where
  "store bufsz buf c = (if length buf < bufsz - 1 then buf @ [c] else buf)"

text \<open>The loop of \<open>parse_string\<close>: the text and the pointer after the closing quote.\<close>

fun scan_string :: "nat \<Rightarrow> string \<Rightarrow> string \<Rightarrow> (string \<times> string) c_run" where
  "scan_string bufsz buf [] = Done (buf, [])"
| "scan_string bufsz buf (c # p) =
     (if c = CHR 0x22 then Done (buf, p)
      else if c = CHR 0x5C then (case p of
          [] \<Rightarrow> Wild
        | e # q \<Rightarrow> scan_string bufsz (store bufsz buf (unescape e)) q)
      else scan_string bufsz (store bufsz buf c) p)"

definition parse_string :: "string \<Rightarrow> nat \<Rightarrow> (string \<times> string) option c_run" where
  "parse_string p bufsz =
     (if \<not> at (CHR 0x22) p then Done None
      else c_bind (scan_string bufsz [] (tl p)) (\<lambda>r. Done (Some r)))"

definition is_number_char :: "char \<Rightarrow> bool" where
  "is_number_char c \<longleftrightarrow> is_digit c \<or> c \<in> set ''.eE+-''"

text \<open>The number branch: the sign, then every character a number may have.\<close>

definition number_end :: "string \<Rightarrow> string" where
  "number_end p = dropWhile is_number_char (if at (CHR ''-'') p then tl p else p)"

definition VAL_SIZE :: nat where
  "VAL_SIZE = 4096"

definition KEY_SIZE :: nat where
  "KEY_SIZE = 512"

definition str_of :: "string \<Rightarrow> dux_str c_run" where
  "str_of bs = duxrt_str_new bs (int (length bs))"

text \<open>A value and the pointer after it; \<open>None\<close> leaves the loop.\<close>

definition parse_value :: "string \<Rightarrow> (dux_str \<times> string) option c_run" where
  "parse_value p =
     (if at (CHR 0x22) p then c_bind (parse_string p VAL_SIZE) (\<lambda>r. case r of
          None \<Rightarrow> Done None
        | Some (val, q) \<Rightarrow> c_bind (str_of val) (\<lambda>s. Done (Some (s, q))))
      else if at (CHR ''t'') p \<and> take 4 p = ''true'' then c_bind (str_of ''true'') (\<lambda>s. Done (Some (s, drop 4 p)))
      else if at (CHR ''f'') p \<and> take 5 p = ''false'' then c_bind (str_of ''false'') (\<lambda>s. Done (Some (s, drop 5 p)))
      else if at (CHR ''n'') p \<and> take 4 p = ''null'' then c_bind (str_of ''null'') (\<lambda>s. Done (Some (s, drop 4 p)))
      else let q = number_end p; n = length p - length q
           in c_bind (str_of (take (if n \<ge> VAL_SIZE then VAL_SIZE - 1 else n) p)) (\<lambda>s. Done (Some (s, q))))"

text \<open>A key, the colon and a value.\<close>

definition parse_member :: "string \<Rightarrow> (string \<times> dux_str \<times> string) option c_run" where
  "parse_member p = c_bind (parse_string p KEY_SIZE) (\<lambda>r. case r of
       None \<Rightarrow> Done None
     | Some (key, next) \<Rightarrow>
         (let p = skip_ws next
          in if \<not> at (CHR '':'') p then Done None
             else c_bind (parse_value (skip_ws (tl p))) (\<lambda>v. case v of
                 None \<Rightarrow> Done None
               | Some (s, q) \<Rightarrow> Done (Some (key, s, q)))))"

lemma at_tl: "at c p \<Longrightarrow> length (tl p) < length p"
  by (cases p) (simp_all add: at_def)

lemma skip_ws_shorter: "length (skip_ws p) \<le> length p"
  by (simp add: skip_ws_def length_dropWhile_le)

lemma scan_string_shorter: "scan_string bufsz buf p = Done (b, q) \<Longrightarrow> length q \<le> length p"
proof (induction bufsz buf p rule: scan_string.induct)
  case (2 bufsz buf c p)
  then show ?case by (auto split: if_splits list.splits)
qed auto

lemma parse_string_shorter: "parse_string p bufsz = Done (Some (b, q)) \<Longrightarrow> length q < length p"
  using at_tl [of "CHR 0x22" p]
  by (auto simp: parse_string_def c_bind_Done split: if_splits dest!: scan_string_shorter)

lemma parse_value_shorter: "parse_value p = Done (Some (s, q)) \<Longrightarrow> length q \<le> length p"
proof -
  have "length (number_end p) \<le> length p"
    using length_dropWhile_le [of is_number_char p] length_dropWhile_le [of is_number_char "tl p"]
    by (auto simp: number_end_def intro: le_trans)
  then show "parse_value p = Done (Some (s, q)) \<Longrightarrow> length q \<le> length p"
    by (auto simp: parse_value_def c_bind_Done Let_def split: if_splits option.splits
        dest!: parse_string_shorter)
qed

lemma parse_member_shorter: "parse_member p = Done (Some (key, s, q)) \<Longrightarrow> length q < length p"
proof -
  assume "parse_member p = Done (Some (key, s, q))"
  then obtain r where r: "parse_string p KEY_SIZE = Done (Some (key, r))" "at (CHR '':'') (skip_ws r)"
      "parse_value (skip_ws (tl (skip_ws r))) = Done (Some (s, q))"
    by (auto simp: parse_member_def c_bind_def Let_def split: c_run.splits option.splits if_splits)
  then show ?thesis
    using parse_string_shorter [OF r(1)] at_tl [OF r(2)] parse_value_shorter [OF r(3)]
      skip_ws_shorter [of r] skip_ws_shorter [of "tl (skip_ws r)"] by simp
qed

text \<open>The loop of \<open>duxrt_json_parse\<close>.\<close>

function parse_members :: "string \<Rightarrow> json \<Rightarrow> json c_run option" where
  "parse_members p d =
     (if p = [] then Some (Done d)
      else let p = skip_ws p in
        if at (CHR ''}'') p then Some (Done d)
        else if at (CHR '','') p then parse_members (tl p) d
        else (case parse_member p of
            Done None \<Rightarrow> Some (Done d)
          | Done (Some (key, s, q)) \<Rightarrow> (case dict_set d key (Some s) of
                None \<Rightarrow> None
              | Some d' \<Rightarrow> parse_members q d')
          | Abort \<Rightarrow> Some Abort
          | Raised t msg \<Rightarrow> Some (Raised t msg)
          | Wild \<Rightarrow> Some Wild))"
  by pat_completeness auto
termination
proof (relation "measure (\<lambda>(p, d). length p)", goal_cases)
  case (2 p d x)
  then show ?case using at_tl [of "CHR '',''" "skip_ws p"] skip_ws_shorter [of p] by simp
next
  case (3 p d)
  then show ?case using parse_member_shorter [of "skip_ws p"] skip_ws_shorter [of p] by fastforce
qed simp

declare parse_members.simps [simp del]

definition duxrt_json_parse :: "dux_str option \<Rightarrow> json c_run option" where
  "duxrt_json_parse input = (case input of
       None \<Rightarrow> Some (Done duxrt_dict_new)
     | Some s \<Rightarrow>
         (let p = skip_ws (duxrt_str_cstr s)
          in if \<not> at (CHR ''{'') p then Some (Done duxrt_dict_new)
             else let p = skip_ws (tl p)
               in if at (CHR ''}'') p then Some (Done duxrt_dict_new) else parse_members p duxrt_dict_new))"

section \<open>Access\<close>

definition json_lookup :: "json option \<Rightarrow> dux_str option \<Rightarrow> dux_str option option" where
  "json_lookup h key = duxrt_dict_get h (map_option duxrt_str_cstr key)"

definition duxrt_json_get_str :: "json option \<Rightarrow> dux_str option \<Rightarrow> dux_str c_run option" where
  "duxrt_json_get_str h key = map_option (\<lambda>v. case v of None \<Rightarrow> empty_str | Some s \<Rightarrow> Done (duxrt_str_retain s))
     (json_lookup h key)"

text \<open>\<open>atoll\<close> is \<open>strtol\<close> without the end pointer.\<close>

definition duxrt_json_get_int :: "json option \<Rightarrow> dux_str option \<Rightarrow> int option" where
  "duxrt_json_get_int h key = map_option (\<lambda>v. case v of None \<Rightarrow> 0 | Some s \<Rightarrow> fst (strtol (duxrt_str_cstr s)))
     (json_lookup h key)"

definition duxrt_json_has :: "json option \<Rightarrow> dux_str option \<Rightarrow> bool option" where
  "duxrt_json_has h key = duxrt_dict_has h (map_option duxrt_str_cstr key)"

section \<open>Writing\<close>

definition JSON_BUF :: nat where
  "JSON_BUF = 256"

text \<open>The text of one member, with its comma unless it is the first.\<close>

definition member_text :: "bool \<Rightarrow> string \<Rightarrow> string \<Rightarrow> string" where
  "member_text first k v = (if first then [] else '','') @ [CHR 0x22] @ k @ [CHR 0x22, CHR '':'', CHR 0x22] @ v @ [CHR 0x22]"

text \<open>The loop over the slots: the buffer, its size and whether no member has been written yet.\<close>

fun stringify_entries :: "dux_str table_entry list \<Rightarrow> string \<times> nat \<times> bool \<Rightarrow> (string \<times> nat \<times> bool) c_run" where
  "stringify_entries [] st = Done st"
| "stringify_entries (e # es) (buf, bufsz, first) = (case de_key e of
       StrKey k \<Rightarrow>
         (let v = (case de_val e of None \<Rightarrow> [] | Some s \<Rightarrow> duxrt_str_cstr s);
              needed = 1 + length k + 4 + length v + 2;
              bufsz = doubled bufsz (length buf + needed + 2);
              buf = buf @ member_text first k v
          in if bufsz < length buf then Wild else stringify_entries es (buf, bufsz, False))
     | _ \<Rightarrow> stringify_entries es (buf, bufsz, first))"

definition duxrt_json_stringify :: "json option \<Rightarrow> dux_str c_run" where
  "duxrt_json_stringify h = (case h of
       None \<Rightarrow> str_of ''{}''
     | Some d \<Rightarrow> c_bind (stringify_entries (d_entries d) (''{'', JSON_BUF, True)) (\<lambda>(buf, bufsz, first).
         if bufsz < length buf + 2 then Wild else str_of (buf @ ''}'')))"

end
