(* ===== verification/Rt_Json_Properties.thy ===== *)
theory Rt_Json_Properties
  imports Rt_Json Rt_Dict_Properties Rt_Str_Properties
begin

text \<open>
  Writing a flat object and reading it back: it works for keys and values without quotes and
  backslashes that fit the reader's buffers, and only for those.
\<close>

section \<open>What is safe\<close>

definition plain :: "string \<Rightarrow> bool" where
  "plain s \<longleftrightarrow> CHR 0x22 \<notin> set s \<and> CHR 0x5C \<notin> set s \<and> CHR 0x00 \<notin> set s"

lemma scan_plain: "plain k \<Longrightarrow> length buf + length k < bufsz \<Longrightarrow>
    scan_string bufsz buf (k @ CHR 0x22 # rest) = Done (buf @ k, rest)"
  by (induction k arbitrary: buf) (auto simp: plain_def store_def)

lemma parse_plain: "plain k \<Longrightarrow> length k < bufsz \<Longrightarrow>
    parse_string (CHR 0x22 # k @ CHR 0x22 # rest) bufsz = Done (Some (k, rest))"
  by (simp add: parse_string_def at_def scan_plain)

definition pair_ok :: "string \<times> string \<Rightarrow> bool" where
  "pair_ok p \<longleftrightarrow> plain (fst p) \<and> length (fst p) < KEY_SIZE \<and> plain (snd p) \<and> length (snd p) < VAL_SIZE"

lemma str_of_made: "int (length bs) \<le> INT32_MAX \<Longrightarrow> str_of bs = Done (filled bs)"
  by (simp add: str_of_def new_made made_def)

lemma parse_member_text: "pair_ok (k, v) \<Longrightarrow>
    parse_member (CHR 0x22 # k @ CHR 0x22 # CHR '':'' # CHR 0x22 # v @ CHR 0x22 # rest) = Done (Some (k, filled v, rest))"
  by (simp add: parse_member_def pair_ok_def parse_plain skip_ws_def is_space_def at_def parse_value_def
      str_of_made VAL_SIZE_def INT32_MAX_def)

section \<open>Reading members\<close>

fun members_text :: "bool \<Rightarrow> (string \<times> string) list \<Rightarrow> string" where
  "members_text first [] = []"
| "members_text first ((k, v) # ps) = member_text first k v @ members_text False ps"

lemma parse_comma: "parse_members (CHR '','' # p) d = parse_members p d"
  by (subst parse_members.simps) (simp add: skip_ws_def is_space_def at_def)

lemma parse_written:
  assumes "\<forall>p\<in>set ps. pair_ok p" and "dict_ok d"
  shows "\<exists>d'. parse_members (members_text first ps @ ''}'') d = Some (Done d') \<and> dict_ok d' \<and>
    dict_map d' = dict_map d ++ map_of (rev (map (\<lambda>(k, v). (k, Some (filled v))) ps))"
  using assms
proof (induction ps arbitrary: d first)
  case Nil
  then show ?case by (subst parse_members.simps) (simp add: skip_ws_def is_space_def at_def)
next
  case (Cons p ps)
  obtain k v where p: "p = (k, v)" by (cases p)
  let ?q = "members_text False ps @ ''}''"
  obtain d1 where d1: "dict_set d k (Some (filled v)) = Some d1" "dict_ok d1"
      "dict_map d1 = (dict_map d)(k \<mapsto> Some (filled v))"
    using dict.put_law [OF Cons.prems(2), of k "Some (filled v)"] by blast
  have step: "parse_members (members_text True (p # ps) @ ''}'') d = parse_members ?q d1"
    using Cons.prems(1) d1(1) parse_member_text [of k v ?q] unfolding p
    by (subst parse_members.simps) (simp add: member_text_def skip_ws_def is_space_def at_def)
  have "members_text False (p # ps) = CHR '','' # members_text True (p # ps)"
    by (simp add: p member_text_def)
  then have "parse_members (members_text first (p # ps) @ ''}'') d = parse_members ?q d1"
    using step parse_comma by (cases first) simp_all
  moreover obtain d' where "parse_members ?q d1 = Some (Done d')" "dict_ok d'"
      "dict_map d' = dict_map d1 ++ map_of (rev (map (\<lambda>(k, v). (k, Some (filled v))) ps))"
    using Cons.IH [of d1 False] Cons.prems(1) d1(2) by auto
  ultimately show ?case using d1(3) p by (auto simp: map_add_def fun_eq_iff split: option.splits)
qed

section \<open>Writing members\<close>

definition value_text :: "dux_str option \<Rightarrow> string" where
  "value_text v = (case v of None \<Rightarrow> [] | Some s \<Rightarrow> duxrt_str_cstr s)"

definition text_pairs :: "json \<Rightarrow> (string \<times> string) list" where
  "text_pairs d = map (\<lambda>(k, v). (k, value_text v)) (dict_pairs d)"

definition object_text :: "json \<Rightarrow> string" where
  "object_text d = ''{'' @ members_text True (text_pairs d) @ ''}''"

text \<open>The buffer grows before every member and never overflows.\<close>

lemma stringify_entries_text:
  assumes "length buf + 2 \<le> bufsz"
  shows "\<exists>bufsz' first'. stringify_entries es (buf, bufsz, first) =
      Done (buf @ members_text first (map (\<lambda>(k, v). (k, value_text v)) (List.map_filter entry_pair es)), bufsz', first') \<and>
    length buf + length (members_text first (map (\<lambda>(k, v). (k, value_text v)) (List.map_filter entry_pair es))) + 2 \<le> bufsz'"
  using assms
proof (induction es arbitrary: buf bufsz first)
  case Nil
  then show ?case by (simp add: List.map_filter_simps)
next
  case (Cons e es)
  show ?case
  proof (cases "de_key e")
    case (StrKey k)
    define v where "v = value_text (de_val e)"
    define sz where "sz = doubled bufsz (length buf + (1 + length k + 4 + length v + 2) + 2)"
    let ?buf = "buf @ member_text first k v"
    have "length buf + (1 + length k + 4 + length v + 2) + 2 \<le> sz"
      unfolding sz_def using Cons.prems by (intro doubled_ge) simp
    then have fits: "length ?buf + 2 \<le> sz" by (simp add: member_text_def)
    have "stringify_entries (e # es) (buf, bufsz, first) = stringify_entries es (?buf, sz, False)"
      using fits by (simp add: StrKey Let_def v_def [unfolded value_text_def] sz_def)
    moreover have "entry_pair e = Some (k, de_val e)" by (simp add: entry_pair_def StrKey)
    ultimately show ?thesis
      using Cons.IH [OF fits, of False] v_def by (auto simp: List.map_filter_simps)
  qed (use Cons in \<open>simp_all add: List.map_filter_simps entry_pair_def\<close>)
qed

lemma stringify_text:
  assumes "int (length (object_text d)) \<le> INT32_MAX"
  shows "duxrt_json_stringify (Some d) = Done (filled (object_text d))"
proof -
  have "length ''{'' + 2 \<le> JSON_BUF" by (simp add: JSON_BUF_def)
  from stringify_entries_text [OF this, of "d_entries d" True]
  obtain sz first where "stringify_entries (d_entries d) (''{'', JSON_BUF, True) =
      Done (''{'' @ members_text True (text_pairs d), sz, first)"
    and "length ''{'' + length (members_text True (text_pairs d)) + 2 \<le> sz"
    by (auto simp: text_pairs_def dict_pairs_def)
  then show ?thesis using assms by (simp add: duxrt_json_stringify_def object_text_def str_of_made)
qed

lemma members_plain: "\<forall>p\<in>set ps. CHR 0x00 \<notin> set (fst p) \<and> CHR 0x00 \<notin> set (snd p) \<Longrightarrow>
    CHR 0x00 \<notin> set (members_text first ps)"
  by (induction first ps rule: members_text.induct) (auto simp: member_text_def)

lemma parse_object_text:
  assumes "\<forall>p\<in>set ps. pair_ok p"
  shows "\<exists>d'. duxrt_json_parse (Some (filled (CHR ''{'' # members_text True ps @ ''}''))) = Some (Done d') \<and> dict_ok d' \<and>
    dict_map d' = map_of (rev (map (\<lambda>(k, v). (k, Some (filled v))) ps))"
proof -
  let ?m = "members_text True ps"
  have "CHR 0x00 \<notin> set (CHR ''{'' # members_text True ps @ ''}'')"
    using members_plain [of "ps" True] assms by (auto simp: pair_ok_def plain_def)
  then have "takeWhile (\<lambda>c. c \<noteq> CHR 0x00) (CHR ''{'' # members_text True ps @ ''}'') = CHR ''{'' # members_text True ps @ ''}''"
    by (auto simp: takeWhile_eq_all_conv)
  then have cstr: "duxrt_str_cstr (filled (CHR ''{'' # members_text True ps @ ''}'')) = CHR ''{'' # ?m @ ''}''"
    by (simp add: duxrt_str_cstr_def)
  have skip: "skip_ws (?m @ ''}'') = ?m @ ''}'' \<and> (at (CHR ''}'') (?m @ ''}'') \<longleftrightarrow> ps = [])"
    by (cases "ps") (auto simp: skip_ws_def is_space_def at_def member_text_def)
  have "duxrt_json_parse (Some (filled (CHR ''{'' # members_text True ps @ ''}''))) = parse_members (?m @ ''}'') duxrt_dict_new"
  proof (cases "ps = []")
    case True
    have "parse_members ''}'' (duxrt_dict_new :: json) = Some (Done duxrt_dict_new)"
      by (subst parse_members.simps) (simp add: skip_ws_def is_space_def at_def)
    moreover have "duxrt_str_cstr (filled ''{}'') = ''{}''" using cstr True by simp
    ultimately show ?thesis using True
      by (simp add: duxrt_json_parse_def skip_ws_def is_space_def at_def)
  next
    case False
    have "skip_ws (CHR ''{'' # ?m @ ''}'') = CHR ''{'' # ?m @ ''}''" by (simp add: skip_ws_def is_space_def)
    then show ?thesis using skip False by (simp add: duxrt_json_parse_def cstr at_def [of "CHR ''{''"])
  qed
  then show ?thesis using parse_written [OF assms dict.new_law(1), of True] by (simp add: dict.new_law(2))
qed

lemma dict_pairs_map: "dict_ok d \<Longrightarrow> distinct (map fst (dict_pairs d)) \<and> dict_map d = map_of (dict_pairs d)"
  by (auto simp: dict_ok_def counted_def dict_map_def intro: pairs_of_wf)

lemma dict_pairs_single:
  assumes "dict_ok d" and "dict_map d = [k \<mapsto> v]"
  shows "dict_pairs d = [(k, v)]"
proof -
  have "map_of (dict_pairs d) = [k \<mapsto> v]" "distinct (map fst (dict_pairs d))"
    using dict_pairs_map [OF assms(1)] assms(2) by simp_all
  then have "(x, y) \<in> set (dict_pairs d) \<longleftrightarrow> x = k \<and> y = v" for x y
    by (auto simp flip: map_of_eq_Some_iff split: if_splits)
  then have "set (dict_pairs d) = {(k, v)}" by auto
  moreover have "distinct (dict_pairs d)" using \<open>distinct (map fst (dict_pairs d))\<close> by (simp add: distinct_map)
  ultimately show ?thesis
    by (metis distinct.simps(2) empty_iff insert_iff list.set(1) list.set(2) neq_Nil_conv set_empty)
qed

text \<open>
  C11. Objects survive the way through text: if the keys and the values of a dictionary have no quote,
  backslash or zero byte and are shorter than the reader's 512 and 4096 bytes, and the whole text
  stays below the 2 GiB limit, the written text is read back, without going past its end, to a
  dictionary with exactly the same keys and the same texts as values (a null value comes back as
  the empty string).
\<close>

theorem json_round_trip:
  assumes "dict_ok d" and "\<forall>key v. dict_map d key = Some v \<longrightarrow> pair_ok (key, value_text v)"
    and "int (length (object_text d)) \<le> INT32_MAX"
  shows "\<exists>s d'. duxrt_json_stringify (Some d) = Done s \<and> duxrt_json_parse (Some s) = Some (Done d') \<and>
    dict_ok d' \<and> (\<forall>key. dict_map d' key = map_option (\<lambda>v. Some (filled (value_text v))) (dict_map d key))"
proof -
  have pairs: "distinct (map fst (dict_pairs d))" "dict_map d = map_of (dict_pairs d)"
    using dict_pairs_map [OF assms(1)] by simp_all
  then have "\<forall>p\<in>set (text_pairs d). pair_ok p"
    using assms(2) by (auto simp: text_pairs_def)
  then obtain d' where d': "duxrt_json_parse (Some (filled (object_text d))) = Some (Done d')" "dict_ok d'"
      "dict_map d' = map_of (rev (map (\<lambda>(k, v). (k, Some (filled v))) (text_pairs d)))"
    using parse_object_text [of "text_pairs d"] by (auto simp: object_text_def)
  let ?ps = "map (\<lambda>(k, v). (k, Some (filled (value_text v)))) (dict_pairs d)"
  have "distinct (map fst ?ps)" using pairs(1) by (simp add: comp_def case_prod_unfold)
  then have "map_of (rev ?ps) = map_of ?ps"
    by (subst map_of_inject_set) (simp_all flip: rev_map)
  moreover have "map (\<lambda>(k, v). (k, Some (filled v))) (text_pairs d) = ?ps"
    by (simp add: text_pairs_def comp_def case_prod_unfold)
  ultimately have "dict_map d' key = map_option (\<lambda>v. Some (filled (value_text v))) (dict_map d key)" for key
    using d'(3) pairs(2) by (simp add: map_of_map)
  then show ?thesis using d' stringify_text [OF assms(3)] by blast
qed

text \<open>A dictionary with one key.\<close>

lemma one_key: "\<exists>d. dict_ok d \<and> dict_map d = [k \<mapsto> Some (filled v)] \<and>
    object_text d = ''{'' @ member_text True k (takeWhile (\<lambda>c. c \<noteq> CHR 0x00) v) @ ''}''"
proof -
  obtain d where d: "dict_ok d" "dict_map d = [k \<mapsto> Some (filled v)]"
    using dict.put_law [OF dict.new_law(1), of k "Some (filled v)"] by (auto simp: dict.new_law(2))
  then show ?thesis using dict_pairs_single [OF d]
    by (auto simp: object_text_def text_pairs_def value_text_def duxrt_str_cstr_def)
qed

theorem json_round_trip_witness:
  "\<exists>d s d'. dict_map d = [''a'' \<mapsto> Some (filled ''b'')] \<and> duxrt_json_stringify (Some d) = Done s \<and>
     duxrt_json_parse (Some s) = Some (Done d') \<and> dict_map d' ''a'' = Some (Some (filled ''b''))"
proof -
  obtain d where d: "dict_ok d" "dict_map d = [''a'' \<mapsto> Some (filled ''b'')]"
      "object_text d = ''{'' @ member_text True ''a'' ''b'' @ ''}''"
    using one_key [of "''a''" "''b''"] by auto
  have vt: "value_text (Some (filled ''b'')) = ''b''" by (simp add: value_text_def duxrt_str_cstr_def)
  have "pair_ok (''a'', ''b'')" by (simp add: pair_ok_def plain_def KEY_SIZE_def VAL_SIZE_def)
  then have "\<forall>key v. dict_map d key = Some v \<longrightarrow> pair_ok (key, value_text v)" using d(2) vt by auto
  moreover have "int (length (object_text d)) \<le> INT32_MAX" by (simp add: d(3) member_text_def INT32_MAX_def)
  ultimately obtain s d' where "duxrt_json_stringify (Some d) = Done s" "duxrt_json_parse (Some s) = Some (Done d')"
      "\<forall>key. dict_map d' key = map_option (\<lambda>v. Some (filled (value_text v))) (dict_map d key)"
    using json_round_trip [OF d(1)] by blast
  then show ?thesis using d(2) vt by auto
qed

section \<open>Beyond the safe texts\<close>

text \<open>
  Nothing is escaped by the writer: a quote in a value ends it, and what follows is read as further
  members.
\<close>

theorem json_values_are_not_escaped:
  "\<exists>d s d'. dom (dict_map d) = {''a''} \<and> duxrt_json_stringify (Some d) = Done s \<and>
     duxrt_json_parse (Some s) = Some (Done d') \<and> dict_map d' ''b'' = Some (Some (filled ''y''))"
proof -
  let ?v = "''x'' @ [CHR 0x22] @ '','' @ [CHR 0x22] @ ''b'' @ [CHR 0x22] @ '':'' @ [CHR 0x22] @ ''y''"
  let ?ps = "[(''a'', ''x''), (''b'', ''y'')]"
  obtain d where d: "dict_map d = [''a'' \<mapsto> Some (filled ?v)]"
      "object_text d = ''{'' @ member_text True ''a'' ?v @ ''}''"
    using one_key [of "''a''" ?v] by auto
  have ot: "object_text d = CHR ''{'' # members_text True ?ps @ ''}''"
    by (simp add: d(2) member_text_def)
  have "int (length (object_text d)) \<le> INT32_MAX" by (simp add: d(2) member_text_def INT32_MAX_def)
  then have "duxrt_json_stringify (Some d) = Done (filled (object_text d))" by (rule stringify_text)
  moreover obtain d' where "duxrt_json_parse (Some (filled (object_text d))) = Some (Done d')"
      "dict_map d' = map_of (rev (map (\<lambda>(k, v). (k, Some (filled v))) ?ps))"
    using parse_object_text [of ?ps] unfolding ot
    by (auto simp: pair_ok_def plain_def KEY_SIZE_def VAL_SIZE_def)
  moreover have "dom (dict_map d) = {''a''}" by (simp add: d(1))
  ultimately show ?thesis by (intro exI [of _ d]) auto
qed

text \<open>A string literal that ends in a backslash takes the reader past the end of its input.\<close>

theorem json_backslash_overread:
  "duxrt_json_parse (Some (filled (''{'' @ [CHR 0x22] @ ''a'' @ [CHR 0x5C]))) = Some Wild"
proof -
  let ?p = "[CHR 0x22, CHR ''a'', CHR 0x5C]"
  have "parse_members ?p duxrt_dict_new = Some Wild"
    by (subst parse_members.simps)
      (simp add: skip_ws_def is_space_def at_def parse_member_def parse_string_def store_def KEY_SIZE_def)
  then show ?thesis
    by (simp add: duxrt_json_parse_def duxrt_str_cstr_def skip_ws_def is_space_def at_def)
qed

end
