(* ===== verification/Rt_Handshake.thy ===== *)
theory Rt_Handshake
  imports Rt_Bytes
begin

text \<open>
  The handshake of the WebSocket runtime (first part of \<^verbatim>\<open>src/runtime/ws_rt.c\<close>): Base64, SHA-1, the
  accept key and the parsing of addresses. Bytes are 8-bit words, C strings lists of characters.
\<close>

unbundle bit_operations_syntax

section \<open>Base64\<close>

definition b64_table :: string where
  "b64_table = ''ABCDEFGHIJKLMNOPQRSTUVWXYZabcdefghijklmnopqrstuvwxyz0123456789+/''"

definition b64_char :: "8 word \<Rightarrow> char" where
  "b64_char w = b64_table ! unat w"

definition b64_quad :: "8 word \<Rightarrow> 8 word \<Rightarrow> 8 word \<Rightarrow> string" where
  "b64_quad a b c =
     [b64_char (drop_bit 2 a),
      b64_char (push_bit 4 (a AND 3) OR drop_bit 4 b),
      b64_char (push_bit 2 (b AND 0xF) OR drop_bit 6 c),
      b64_char (c AND 0x3F)]"

text \<open>The loop, which reads a missing second or third byte as zero.\<close>

fun b64_loop :: "8 word list \<Rightarrow> string" where
  "b64_loop [] = []"
| "b64_loop [a] = b64_quad a 0 0"
| "b64_loop [a, b] = b64_quad a b 0"
| "b64_loop (a # b # c # rest) = b64_quad a b c @ b64_loop rest"

definition base64_encode :: "8 word list \<Rightarrow> string" where
  "base64_encode inp =
     (let out = b64_loop inp; j = length out; pad = length inp mod 3
      in if pad = 1 then out[j - 2 := CHR ''='', j - 1 := CHR ''='']
         else if pad = 2 then out[j - 1 := CHR ''='']
         else out)"

section \<open>SHA-1\<close>

text \<open>\<open>buf\<close> holds the \<open>buflen\<close> bytes that wait for a block to be complete.\<close>

record sha1 =
  sha_h :: "32 word list"
  sha_len :: "64 word"
  sha_buf :: "8 word list"

definition sha1_init :: sha1 where
  "sha1_init = \<lparr>sha_h = [0x67452301, 0xEFCDAB89, 0x98BADCFE, 0x10325476, 0xC3D2E1F0], sha_len = 0, sha_buf = []\<rparr>"

definition rotl32 :: "nat \<Rightarrow> 32 word \<Rightarrow> 32 word" where
  "rotl32 n v = push_bit n v OR drop_bit (32 - n) v"

definition block_word :: "8 word list \<Rightarrow> nat \<Rightarrow> 32 word" where
  "block_word blk i = push_bit 24 (ucast (blk ! (i * 4))) OR push_bit 16 (ucast (blk ! (i * 4 + 1))) OR
     push_bit 8 (ucast (blk ! (i * 4 + 2))) OR ucast (blk ! (i * 4 + 3))"

definition sha1_schedule :: "8 word list \<Rightarrow> 32 word list" where
  "sha1_schedule blk = foldl
     (\<lambda>w i. w @ [rotl32 1 (w ! (i - 3) XOR w ! (i - 8) XOR w ! (i - 14) XOR w ! (i - 16))])
     (map (block_word blk) [0..<16]) [16..<80]"

definition sha1_f :: "nat \<Rightarrow> 32 word \<Rightarrow> 32 word \<Rightarrow> 32 word \<Rightarrow> 32 word" where
  "sha1_f i b c d =
     (if i < 20 then (b AND c) OR (NOT b AND d)
      else if i < 40 then b XOR c XOR d
      else if i < 60 then (b AND c) OR (b AND d) OR (c AND d)
      else b XOR c XOR d)"

definition sha1_k :: "nat \<Rightarrow> 32 word" where
  "sha1_k i = (if i < 20 then 0x5A827999 else if i < 40 then 0x6ED9EBA1 else if i < 60 then 0x8F1BBCDC
     else 0xCA62C1D6)"

fun sha1_round :: "32 word list \<Rightarrow> 32 word \<times> 32 word \<times> 32 word \<times> 32 word \<times> 32 word \<Rightarrow> nat \<Rightarrow>
    32 word \<times> 32 word \<times> 32 word \<times> 32 word \<times> 32 word" where
  "sha1_round w (a, b, c, d, e) i =
     (rotl32 5 a + sha1_f i b c d + e + sha1_k i + w ! i, a, rotl32 30 b, c, d)"

definition sha1_compress :: "32 word list \<Rightarrow> 8 word list \<Rightarrow> 32 word list" where
  "sha1_compress h blk =
     (let (a, b, c, d, e) = foldl (sha1_round (sha1_schedule blk)) (h ! 0, h ! 1, h ! 2, h ! 3, h ! 4) [0..<80]
      in [h ! 0 + a, h ! 1 + b, h ! 2 + c, h ! 3 + d, h ! 4 + e])"

definition sha1_byte :: "sha1 \<Rightarrow> 8 word \<Rightarrow> sha1" where
  "sha1_byte s x =
     (let buf = sha_buf s @ [x]; s = s\<lparr>sha_len := sha_len s + 1\<rparr>
      in if length buf = 64 then s\<lparr>sha_h := sha1_compress (sha_h s) buf, sha_buf := []\<rparr>
         else s\<lparr>sha_buf := buf\<rparr>)"

definition sha1_update :: "sha1 \<Rightarrow> 8 word list \<Rightarrow> sha1" where
  "sha1_update s data = foldl sha1_byte s data"

text \<open>
  \<open>while (s->buflen != 56) { uint8_t z = 0; sha1_update(s, &z, 1); }\<close>: at most 63 rounds, as
  the number of waiting bytes is below 64.
\<close>

primrec pad_zeros :: "nat \<Rightarrow> sha1 \<Rightarrow> sha1" where
  "pad_zeros 0 s = s"
| "pad_zeros (Suc n) s = (if length (sha_buf s) \<noteq> 56 then pad_zeros n (sha1_update s [0]) else s)"

definition length_bytes :: "64 word \<Rightarrow> 8 word list" where
  "length_bytes bitlen = map (\<lambda>i. ucast (drop_bit (i * 8) bitlen AND 0xFF)) (rev [0..<8])"

definition word_bytes :: "32 word \<Rightarrow> 8 word list" where
  "word_bytes w = [ucast (drop_bit 24 w AND 0xFF), ucast (drop_bit 16 w AND 0xFF),
     ucast (drop_bit 8 w AND 0xFF), ucast (w AND 0xFF)]"

definition sha1_final :: "sha1 \<Rightarrow> 8 word list" where
  "sha1_final s =
     (let bitlen = sha_len s * 8;
          s = sha1_update s [0x80];
          s = pad_zeros 64 s;
          s = sha1_update s (length_bytes bitlen)
      in concat (map (\<lambda>i. word_bytes (sha_h s ! i)) [0..<5]))"

definition c_bytes :: "string \<Rightarrow> 8 word list" where
  "c_bytes s = map of_char s"

definition ws_magic :: string where
  "ws_magic = ''258EAFA5-E914-47DA-95CA-C5AB0DC85B11''"

definition ws_accept_key :: "string \<Rightarrow> string" where
  "ws_accept_key client_key =
     base64_encode (sha1_final (sha1_update (sha1_update sha1_init (c_bytes client_key)) (c_bytes ws_magic)))"

section \<open>Addresses\<close>

text \<open>\<open>strchr\<close>: what follows from the first occurrence on.\<close>

definition strchr :: "char \<Rightarrow> string \<Rightarrow> string option" where
  "strchr c p = (if c \<in> set p then Some (dropWhile (\<lambda>d. d \<noteq> c) p) else None)"

record ws_url =
  wu_host :: string
  wu_path :: string
  wu_port :: int
  wu_tls :: bool

text \<open>\<open>atoi\<close>: the value of \<open>strtol\<close> cut to an \<open>int\<close>.\<close>

definition atoi :: "string \<Rightarrow> int" where
  "atoi p = (fst (strtol p) + 2 ^ 31) mod 2 ^ 32 - 2 ^ 31"

text \<open>\<open>snprintf(path, path_cap, "%s", s)\<close>.\<close>

definition clipped :: "nat \<Rightarrow> string \<Rightarrow> string" where
  "clipped cap s = take (cap - 1) s"

definition parse_ws_url :: "string \<Rightarrow> nat \<Rightarrow> nat \<Rightarrow> ws_url" where
  "parse_ws_url url host_cap path_cap =
     (let (p, tls, port) =
            (if take 6 url = ''wss://'' then (drop 6 url, True, 443)
             else if take 5 url = ''ws://'' then (drop 5 url, False, 80)
             else (url, False, 80));
          slash = strchr (CHR ''/'') p;
          colon = strchr (CHR '':'') p;
          (host_len, port) =
            (case colon of
               Some q \<Rightarrow>
                 if (case slash of None \<Rightarrow> True | Some r \<Rightarrow> length r < length q)
                 then (length p - length q, atoi (tl q))
                 else (case slash of None \<Rightarrow> length p | Some r \<Rightarrow> length p - length r, port)
             | None \<Rightarrow> (case slash of None \<Rightarrow> length p | Some r \<Rightarrow> length p - length r, port));
          host_len = (if host_len \<ge> host_cap then host_cap - 1 else host_len)
      in \<lparr>wu_host = take host_len p,
          wu_path = (case slash of Some r \<Rightarrow> clipped path_cap r | None \<Rightarrow> clipped path_cap ''/''),
          wu_port = port, wu_tls = tls\<rparr>)"

end
