(* ===== verification/Rt_Handshake_Properties.thy ===== *)
theory Rt_Handshake_Properties
  imports Rt_Handshake
begin

text \<open>
  Base64 loses nothing and has the length its buffers are made for; SHA-1 by the byte computes the
  digest of the padded message, however the message is cut into updates.
\<close>

section \<open>Base64\<close>

definition b64_val :: "char \<Rightarrow> 8 word" where
  "b64_val c = of_nat (length (takeWhile (\<lambda>d. d \<noteq> c) b64_table))"

text \<open>A reference decoder.\<close>

fun b64_decode :: "string \<Rightarrow> 8 word list" where
  "b64_decode (p # q # r # s # rest) =
     take (if r = CHR ''='' then 1 else if s = CHR ''='' then 2 else 3)
       [push_bit 2 (b64_val p) OR drop_bit 4 (b64_val q),
        push_bit 4 (b64_val q) OR drop_bit 2 (b64_val r),
        push_bit 6 (b64_val r) OR b64_val s] @ b64_decode rest"
| "b64_decode _ = []"

lemma takeWhile_nth_distinct: "distinct xs \<Longrightarrow> i < length xs \<Longrightarrow> length (takeWhile (\<lambda>d. d \<noteq> xs ! i) xs) = i"
proof (induction xs arbitrary: i)
  case (Cons x xs)
  then show ?case by (cases i) auto
qed simp

lemma b64_table: "length b64_table = 64" "distinct b64_table" "CHR ''='' \<notin> set b64_table"
  by (simp_all add: b64_table_def)

lemma unat_small: "take_bit 6 w = w \<Longrightarrow> unat (w :: 8 word) < 64"
proof -
  assume "take_bit 6 w = w"
  then have "unat w = take_bit 6 (unat w)" by (metis unsigned_take_bit_eq)
  then show ?thesis using take_bit_nat_less_exp [of 6 "unat w"] by simp
qed

lemma b64_char_val: "take_bit 6 w = w \<Longrightarrow> b64_val (b64_char w) = w \<and> b64_char w \<noteq> CHR ''=''"
proof -
  assume "take_bit 6 w = w"
  then have "unat w < length b64_table" using unat_small b64_table(1) by simp
  moreover from this have "b64_table ! unat w \<noteq> CHR ''=''" using b64_table(3) nth_mem by metis
  ultimately show ?thesis using takeWhile_nth_distinct [OF b64_table(2)]
    by (simp add: b64_val_def b64_char_def)
qed

lemma masks: "(3 :: 8 word) = mask 2" "(0xF :: 8 word) = mask 4" "(0x3F :: 8 word) = mask 6"
  by (simp_all add: mask_eq_exp_minus_1)

lemma quad_small:
  "take_bit 6 (drop_bit 2 a) = drop_bit 2 (a :: 8 word)"
  "take_bit 6 (push_bit 4 (a AND 3) OR drop_bit 4 b) = push_bit 4 (a AND 3) OR drop_bit 4 (b :: 8 word)"
  "take_bit 6 (push_bit 2 (b AND 0xF) OR drop_bit 6 c) = push_bit 2 (b AND 0xF) OR drop_bit 6 (c :: 8 word)"
  "take_bit 6 (c AND 0x3F) = c AND (0x3F :: 8 word)"
  unfolding masks by (intro bit_eqI; auto simp: bit_simps dest: bit_imp_le_length)+

lemma word8_eqI:
  assumes "bit x 0 = bit y 0" "bit x 1 = bit y 1" "bit x 2 = bit y 2" "bit x 3 = bit y 3"
    "bit x 4 = bit y 4" "bit x 5 = bit y 5" "bit x 6 = bit y 6" "bit x 7 = bit y 7"
  shows "x = (y :: 8 word)"
proof (rule bit_eqI)
  fix n
  assume "possible_bit TYPE(8 word) n"
  then have "n = 0 \<or> n = 1 \<or> n = 2 \<or> n = 3 \<or> n = 4 \<or> n = 5 \<or> n = 6 \<or> n = 7" by auto
  then show "bit x n = bit y n" using assms by (elim disjE) simp_all
qed

lemma quad_decode:
  "push_bit 2 (drop_bit 2 a) OR drop_bit 4 (push_bit 4 (a AND 3) OR drop_bit 4 b) = (a :: 8 word)"
  "push_bit 4 (push_bit 4 (a AND 3) OR drop_bit 4 b) OR drop_bit 2 (push_bit 2 (b AND 0xF) OR drop_bit 6 c) = (b :: 8 word)"
  "push_bit 6 (push_bit 2 (b AND 0xF) OR drop_bit 6 c) OR (c AND 0x3F) = (c :: 8 word)"
  unfolding masks by (rule word8_eqI; simp add: bit_simps)+

lemma quad_values:
  "b64_quad a b c = [p, q, r, s] \<Longrightarrow>
     push_bit 2 (b64_val p) OR drop_bit 4 (b64_val q) = a \<and>
     push_bit 4 (b64_val q) OR drop_bit 2 (b64_val r) = b \<and>
     push_bit 6 (b64_val r) OR b64_val s = c \<and> r \<noteq> CHR ''='' \<and> s \<noteq> CHR ''=''"
  unfolding b64_quad_def using b64_char_val [OF quad_small(1)] b64_char_val [OF quad_small(2)]
    b64_char_val [OF quad_small(3)] b64_char_val [OF quad_small(4)] quad_decode
  by auto

lemma quad_exists: "\<exists>p q r s. b64_quad a b c = [p, q, r, s]"
  by (simp add: b64_quad_def)

lemma b64_loop_length: "length (b64_loop inp) = 4 * ((length inp + 2) div 3)"
proof (induction inp rule: b64_loop.induct)
  case (4 a b c rest)
  have "(length (a # b # c # rest) + 2) div 3 = Suc ((length rest + 2) div 3)" by simp
  then show ?case using 4 by (simp add: b64_quad_def)
qed (simp_all add: b64_quad_def)

lemma base64_length: "length (base64_encode inp) = 4 * ((length inp + 2) div 3)"
  by (simp add: base64_encode_def Let_def b64_loop_length)

lemma base64_step: "rest \<noteq> [] \<Longrightarrow> base64_encode (a # b # c # rest) = b64_quad a b c @ base64_encode rest"
proof -
  assume "rest \<noteq> []"
  then have "4 \<le> length (b64_loop rest)" by (cases rest) (auto simp: b64_loop_length)
  moreover from this have "b64_loop rest \<noteq> []" by auto
  moreover have "length (b64_quad a b c) = 4" by (simp add: b64_quad_def)
  ultimately show ?thesis by (simp add: base64_encode_def Let_def list_update_append)
qed

lemma base64_decode_encode: "b64_decode (base64_encode inp) = inp"
proof (induction inp rule: b64_loop.induct)
  case 1
  then show ?case by (simp add: base64_encode_def)
next
  case (2 a)
  obtain p q r s where quad: "b64_quad a 0 0 = [p, q, r, s]" using quad_exists by blast
  then show ?case using quad_values [OF quad] by (simp add: base64_encode_def)
next
  case (3 a b)
  obtain p q r s where quad: "b64_quad a b 0 = [p, q, r, s]" using quad_exists by blast
  then show ?case using quad_values [OF quad] by (simp add: base64_encode_def)
next
  case (4 a b c rest)
  obtain p q r s where quad: "b64_quad a b c = [p, q, r, s]" using quad_exists by blast
  have "base64_encode (a # b # c # rest) = [p, q, r, s] @ base64_encode rest"
    using base64_step [of rest a b c] quad by (cases "rest = []") (simp_all add: base64_encode_def)
  then show ?case using quad_values [OF quad] 4 by simp
qed

text \<open>
  Base64 is lossless: decoding what \<open>base64_encode\<close> writes gives the bytes back, for every length and
  so with every padding, and the text of \<open>n\<close> bytes has four characters for each started group of three:
  28 for the 20 bytes of a digest and 24 for the 16 of a key, one less than the buffers of the callers.
\<close>

theorem base64_round_trip:
  "b64_decode (base64_encode inp) = inp \<and> length (base64_encode inp) = 4 * ((length inp + 2) div 3)"
  by (simp add: base64_decode_encode base64_length)

section \<open>SHA-1\<close>

definition chunks :: "8 word list \<Rightarrow> 8 word list list" where
  "chunks data = map (\<lambda>k. take 64 (drop (64 * k) data)) [0..<length data div 64]"

text \<open>The state after the bytes of \<open>data\<close>.\<close>

definition state_of :: "8 word list \<Rightarrow> sha1" where
  "state_of data = \<lparr>sha_h = foldl sha1_compress (sha_h sha1_init) (chunks data),
     sha_len = of_nat (length data), sha_buf = drop (64 * (length data div 64)) data\<rparr>"

lemma chunks_same: "length data div 64 = length (data @ xs) div 64 \<Longrightarrow> chunks (data @ xs) = chunks data"
proof -
  assume same: "length data div 64 = length (data @ xs) div 64"
  have "take 64 (drop (64 * k) (data @ xs)) = take 64 (drop (64 * k) data)" if "k < length data div 64" for k
  proof -
    have "64 * k + 64 \<le> length data" using that by (simp add: less_eq_div_iff_mult_less_eq Suc_le_eq [symmetric])
    then show ?thesis by simp
  qed
  then show ?thesis unfolding chunks_def same [symmetric] by simp
qed

lemma chunks_next:
  assumes "length data mod 64 = 63"
  shows "chunks (data @ [x]) = chunks data @ [drop (64 * (length data div 64)) data @ [x]]"
proof -
  let ?k = "length data div 64"
  have len: "length data = 64 * ?k + 63" using assms mult_div_mod_eq [of 64 "length data"] by simp
  then have next_div: "length (data @ [x]) div 64 = Suc ?k" by simp
  have "take 64 (drop (64 * j) (data @ [x])) = take 64 (drop (64 * j) data)" if "j < ?k" for j
  proof -
    have "64 * j + 64 \<le> length data" using that len by simp
    then show ?thesis by simp
  qed
  moreover have "take 64 (drop (64 * ?k) (data @ [x])) = drop (64 * ?k) data @ [x]" using len by simp
  ultimately show ?thesis unfolding chunks_def next_div by simp
qed

lemma state_byte: "sha1_byte (state_of data) x = state_of (data @ [x])"
proof (cases "length data mod 64 = 63")
  case True
  have len: "length data = 64 * (length data div 64) + 63" using True mult_div_mod_eq [of 64 "length data"] by simp
  then have "length (drop (64 * (length data div 64)) data @ [x]) = 64" "(length data + 1) div 64 = length data div 64 + 1"
    by simp_all
  then show ?thesis
    using chunks_next [OF True, of x] by (simp add: sha1_byte_def state_of_def Let_def)
next
  case False
  have "length data mod 64 < 64" by simp
  with False have "length data mod 64 < 63" by linarith
  then have "length (drop (64 * (length data div 64)) data) < 63" "(length data + 1) div 64 = length data div 64"
    by (simp_all flip: minus_mult_div_eq_mod)
  then show ?thesis
    using chunks_same [of data "[x]"] by (simp add: sha1_byte_def state_of_def Let_def)
qed

lemma state_update: "sha1_update (state_of data) xs = state_of (data @ xs)"
  unfolding sha1_update_def by (induction xs arbitrary: data) (simp_all add: state_byte)

lemma state_init: "sha1_init = state_of []"
  by (simp add: state_of_def sha1_init_def chunks_def)

lemma buffered: "length (sha_buf (state_of data)) = length data mod 64"
  by (simp add: state_of_def flip: minus_mult_div_eq_mod)

text \<open>The zeros up to 56 bytes of the last block.\<close>

definition zeros :: "nat \<Rightarrow> nat" where
  "zeros n = (120 - n mod 64) mod 64"

lemma zeros_step: "n mod 64 \<noteq> 56 \<Longrightarrow> zeros n = Suc (zeros (Suc n))"
proof -
  assume neq: "n mod 64 \<noteq> 56"
  have "n mod 64 < 64" by simp
  show ?thesis
  proof (cases "n mod 64 = 63")
    case True
    then show ?thesis by (simp add: zeros_def mod_Suc)
  next
    case False
    then have "Suc n mod 64 = Suc (n mod 64)" by (simp add: mod_Suc)
    moreover have "(120 - m) mod 64 = Suc ((120 - Suc m) mod 64)" if "m < 63" "m \<noteq> 56" for m :: nat
    proof (cases "m < 56")
      case True
      then have "120 - m = (56 - m) + 64" "120 - Suc m = (55 - m) + 64" "56 - m < 64" "55 - m < 64" "56 - m = Suc (55 - m)"
        by auto
      then show ?thesis by (metis mod_add_self2 mod_less)
    next
      case False
      then have "120 - m < 64" "120 - Suc m < 64" "120 - m = Suc (120 - Suc m)" using that by auto
      then show ?thesis by simp
    qed
    ultimately show ?thesis using False neq \<open>n mod 64 < 64\<close> by (simp add: zeros_def)
  qed
qed

lemma zeros_0: "n mod 64 = 56 \<Longrightarrow> zeros n = 0"
  by (simp add: zeros_def)

lemma pad_zeros_state: "zeros (length data) \<le> n \<Longrightarrow>
    pad_zeros n (state_of data) = state_of (data @ replicate (zeros (length data)) 0)"
proof (induction n arbitrary: data)
  case 0
  then show ?case by simp
next
  case (Suc n)
  show ?case
  proof (cases "length data mod 64 = 56")
    case True
    then show ?thesis by (simp add: buffered zeros_0)
  next
    case False
    have "pad_zeros n (state_of (data @ [0])) = state_of ((data @ [0]) @ replicate (zeros (length (data @ [0]))) 0)"
      by (rule Suc.IH) (use Suc.prems zeros_step [OF False] in simp)
    then show ?thesis using False zeros_step [OF False] by (simp add: buffered state_update)
  qed
qed

text \<open>The padded message of FIPS 180-4.\<close>

definition padded :: "8 word list \<Rightarrow> 8 word list" where
  "padded m = m @ [0x80] @ replicate (zeros (length m + 1)) 0 @ length_bytes (of_nat (length m) * 8)"

lemma padded_blocks: "length (padded m) mod 64 = 0"
proof -
  have "(n + zeros n) mod 64 = 56" for n
  proof -
    have "n mod 64 < 64" by simp
    then have "(n mod 64 + (120 - n mod 64)) mod 64 = 56" by simp
    then show ?thesis by (metis mod_add_left_eq mod_add_right_eq zeros_def)
  qed
  then have "(length m + 1 + zeros (length m + 1) + 8) mod 64 = 0"
    by (metis (no_types, lifting) mod_add_left_eq numeral_plus_numeral mod_self semiring_norm(2) add_num_simps)
  then show ?thesis by (simp add: padded_def length_bytes_def ac_simps)
qed

lemma compress_length: "length h = 5 \<Longrightarrow> length (foldl sha1_compress h bs) = 5"
  by (induction bs arbitrary: h) (simp_all add: sha1_compress_def split: prod.split)

lemma final_state: "sha1_final (state_of m) = concat (map word_bytes (foldl sha1_compress (sha_h sha1_init) (chunks (padded m))))"
proof -
  have "zeros (length (m @ [0x80])) \<le> 64" by (simp add: zeros_def)
  then have "sha1_update (pad_zeros 64 (sha1_update (state_of m) [0x80])) (length_bytes (sha_len (state_of m) * 8)) =
      state_of (padded m)"
    by (simp only: state_update pad_zeros_state) (simp add: padded_def state_of_def)
  moreover have "map (\<lambda>i. word_bytes (sha_h (state_of (padded m)) ! i)) [0..<5] =
      map word_bytes (sha_h (state_of (padded m)))"
  proof -
    let ?h = "sha_h (state_of (padded m))"
    have len: "length ?h = 5" by (simp add: state_of_def compress_length sha1_init_def)
    have "map ((!) ?h) [0..<5] = ?h" using map_nth [of ?h] unfolding len .
    moreover have "map (\<lambda>i. word_bytes (?h ! i)) [0..<5] = map word_bytes (map ((!) ?h) [0..<5])"
      by (simp only: map_map comp_def)
    ultimately show ?thesis by (simp only:)
  qed
  ultimately show ?thesis by (simp add: sha1_final_def Let_def) (simp add: state_of_def)
qed

lemma concat_chunks: "64 * k \<le> length m \<Longrightarrow> concat (map (\<lambda>k. take 64 (drop (64 * k) m)) [0..<k]) = take (64 * k) m"
proof (induction k)
  case (Suc k)
  have "take (64 * Suc k) m = take (64 * k + 64) m" by (simp add: add.commute)
  also have "\<dots> = take (64 * k) m @ take 64 (drop (64 * k) m)" by (rule take_add)
  finally show ?case using Suc by simp
qed simp

lemma chunks_complete: "length m mod 64 = 0 \<Longrightarrow> concat (chunks m) = m"
proof -
  assume "length m mod 64 = 0"
  then have "64 * (length m div 64) = length m" using mult_div_mod_eq [of 64 "length m"] by simp
  then show ?thesis using concat_chunks [of "length m div 64" m] by (simp add: chunks_def)
qed

text \<open>
  C17. SHA-1 is computed as published: for messages fed in any two pieces, the bytewise implementation
  gives the digest of the FIPS 180-4 algorithm, that is the words left by compressing, in order, the
  64-byte blocks of the whole message padded with a one bit, the fewest zeros that fill the last
  block and the 64-bit length in bits.
\<close>

theorem sha1_is_blockwise:
  "sha1_final (sha1_update (sha1_update sha1_init a) b) =
     concat (map word_bytes (foldl sha1_compress (sha_h sha1_init) (chunks (padded (a @ b))))) \<and>
   length (padded (a @ b)) mod 64 = 0 \<and> concat (chunks (padded (a @ b))) = padded (a @ b)"
  using final_state [of "a @ b"] padded_blocks [of "a @ b"] chunks_complete [OF padded_blocks, of "a @ b"]
  by (simp add: state_init state_update)

end
