(* ===== verification/Rt_WebSocket.thy ===== *)
theory Rt_WebSocket
  imports Rt_Handshake
begin

text \<open>
  The frames of the WebSocket runtime (second part of \<^verbatim>\<open>src/runtime/ws_rt.c\<close>). What a socket will
  deliver is a list of chunks: one call of \<open>recv\<close> returns at most one of them, an empty chunk or the
  end of the list is a result \<open>\<le> 0\<close>. What is sent goes to the end of a list of bytes; the results of
  the coming calls of \<open>send\<close> are given in advance, with everything taken when none is given. The random
  masking key is a parameter, and so is the allocator, as the length of a frame comes from the peer.
\<close>

unbundle bit_operations_syntax

type_synonym stream = "8 word list list"

record wire =
  w_sent :: "8 word list"
  w_results :: "int list"

definition send_call :: "8 word list \<Rightarrow> wire \<Rightarrow> int \<times> wire" where
  "send_call bs w = (case w_results w of
       [] \<Rightarrow> (int (length bs), w\<lparr>w_sent := w_sent w @ bs\<rparr>)
     | r # rs \<Rightarrow> if r < 0 then (r, w\<lparr>w_results := rs\<rparr>)
         else (min r (int (length bs)), w\<lparr>w_sent := w_sent w @ take (nat r) bs, w_results := rs\<rparr>))"

section \<open>Encoding\<close>

definition length_header :: "8 word \<Rightarrow> nat \<Rightarrow> 8 word list" where
  "length_header mask_bit len =
     (if len \<le> 125 then [mask_bit OR of_nat len]
      else if len \<le> 65535 then
        [mask_bit OR 126, ucast (drop_bit 8 (of_nat len :: 64 word) AND 0xFF), ucast ((of_nat len :: 64 word) AND 0xFF)]
      else (mask_bit OR 127) # map (\<lambda>i. ucast (drop_bit (i * 8) (of_nat len :: 64 word) AND 0xFF)) (rev [0..<8]))"

definition frame_header :: "8 word \<Rightarrow> nat \<Rightarrow> bool \<Rightarrow> 8 word list \<Rightarrow> 8 word list" where
  "frame_header opcode len mask_on masking_key =
     (0x80 OR (opcode AND 0x0F)) # length_header (if mask_on then 0x80 else 0x00) len @ (if mask_on then masking_key else [])"

text \<open>\<open>data[i] ^ masking_key[i & 3]\<close>, the same for sending and receiving.\<close>

definition masked :: "8 word list \<Rightarrow> 8 word list \<Rightarrow> 8 word list" where
  "masked key data = map (\<lambda>i. data ! i XOR key ! (i AND 3)) [0..<length data]"

definition ws_send_frame :: "8 word \<Rightarrow> 8 word list \<Rightarrow> bool \<Rightarrow> 32 word \<Rightarrow> wire \<Rightarrow> int \<times> wire" where
  "ws_send_frame opcode data mask_on r w =
     (let masking_key = (if mask_on then word_bytes r else [0, 0, 0, 0]);
          (n, w) = send_call (frame_header opcode (length data) mask_on masking_key) w
      in if n < 0 then (- 1, w)
         else if 0 < length data then
           let (n, w) = send_call (if mask_on then masked masking_key data else data) w
           in if n < 0 then (- 1, w) else (0, w)
         else (0, w))"

section \<open>Receiving\<close>

fun recv_call :: "nat \<Rightarrow> stream \<Rightarrow> 8 word list option \<times> stream" where
  "recv_call n [] = (None, [])"
| "recv_call n (c # cs) =
     (if c = [] then (None, cs)
      else (Some (take n c), if length c \<le> n then cs else drop n c # cs))"

lemma recv_call_some: "recv_call n cs = (Some bs, cs') \<Longrightarrow> 0 < n \<Longrightarrow>
    bs \<noteq> [] \<and> length bs \<le> n \<and> concat cs = bs @ concat cs'"
  by (induction n cs rule: recv_call.induct) (auto split: if_splits)

text \<open>\<open>recv_all\<close>, with what it has got so far.\<close>

function recv_all :: "nat \<Rightarrow> 8 word list \<Rightarrow> stream \<Rightarrow> 8 word list option \<times> stream" where
  "recv_all n got cs =
     (if length got < n then (case recv_call (n - length got) cs of
          (None, cs') \<Rightarrow> (None, cs')
        | (Some bs, cs') \<Rightarrow> recv_all n (got @ bs) cs')
      else (Some got, cs))"
  by pat_completeness auto
termination
proof (relation "measure (\<lambda>(n, got, cs). n - length got)", goal_cases)
  case (2 n got cs r cs' bs)
  then have "recv_call (n - length got) cs = (Some bs, cs')" by simp
  then have "bs \<noteq> []" using recv_call_some 2(1) by fastforce
  then obtain x xs where "bs = x # xs" by (cases bs) auto
  then show ?case using 2(1) by simp
qed simp

declare recv_all.simps [simp del]

lemma recv_all_some: "recv_all n got cs = (Some bs, cs') \<Longrightarrow> length got \<le> n \<Longrightarrow>
    length bs = n \<and> got @ concat cs = bs @ concat cs'"
proof (induction n got cs rule: recv_all.induct)
  case (1 n got cs)
  show ?case
  proof (cases "length got < n")
    case True
    then obtain xs cs1 where r: "recv_call (n - length got) cs = (Some xs, cs1)" "recv_all n (got @ xs) cs1 = (Some bs, cs')"
      using 1(2) by (subst (asm) recv_all.simps) (auto split: prod.splits option.splits)
    then have "length xs \<le> n - length got" "concat cs = xs @ concat cs1"
      using recv_call_some [OF r(1)] True by auto
    then show ?thesis using 1(1) [OF True] r True by auto
  next
    case False
    then show ?thesis using 1(2,3) by (subst (asm) recv_all.simps) simp
  qed
qed

record header =
  h_fin :: bool
  h_opcode :: "8 word"
  h_mask :: bool
  h_len :: "64 word"
  h_key :: "8 word list"

text \<open>The payload length: the seven bits, or two or eight more bytes.\<close>

definition read_length :: "8 word \<Rightarrow> stream \<Rightarrow> 64 word option \<times> stream" where
  "read_length b cs =
     (if b = 126 then (case recv_all 2 [] cs of
          (None, cs) \<Rightarrow> (None, cs)
        | (Some ext, cs) \<Rightarrow> (Some (push_bit 8 (ucast (ext ! 0)) OR ucast (ext ! 1)), cs))
      else if b = 127 then (case recv_all 8 [] cs of
          (None, cs) \<Rightarrow> (None, cs)
        | (Some ext, cs) \<Rightarrow> (Some (foldl (\<lambda>n i. push_bit 8 n OR ucast (ext ! i)) 0 [0..<8]), cs))
      else (Some (ucast b), cs))"

definition read_header :: "stream \<Rightarrow> header option \<times> stream" where
  "read_header cs = (case recv_all 2 [] cs of
       (None, cs) \<Rightarrow> (None, cs)
     | (Some hdr, cs) \<Rightarrow> (case read_length (hdr ! 1 AND 0x7F) cs of
           (None, cs) \<Rightarrow> (None, cs)
         | (Some len, cs) \<Rightarrow>
             (let has_mask = (drop_bit 7 (hdr ! 1) AND 1 = 1)
              in case (if has_mask then recv_all 4 [] cs else (Some [0, 0, 0, 0], cs)) of
                  (None, cs) \<Rightarrow> (None, cs)
                | (Some key, cs) \<Rightarrow> (Some \<lparr>h_fin = (drop_bit 7 (hdr ! 0) AND 1 = 1), h_opcode = hdr ! 0 AND 0x0F,
                    h_mask = has_mask, h_len = len, h_key = key\<rparr>, cs))))"

definition recv_payload :: "header \<Rightarrow> stream \<Rightarrow> 8 word list option \<times> stream" where
  "recv_payload h cs = (case (if 0 < h_len h then recv_all (unat (h_len h)) [] cs else (Some [], cs)) of
       (None, cs) \<Rightarrow> (None, cs)
     | (Some raw, cs) \<Rightarrow> (Some (if h_mask h then masked (h_key h) raw else raw), cs))"

definition left :: "stream \<Rightarrow> nat" where
  "left cs = length (concat cs)"

lemma recv_all_left: "recv_all n [] cs = (Some bs, cs') \<Longrightarrow> left cs = n + left cs'"
  using recv_all_some [of n "[]" cs bs cs'] by (simp add: left_def)

lemma read_header_left: "read_header cs = (Some h, cs') \<Longrightarrow> left cs' < left cs"
  by (auto simp: read_header_def read_length_def Let_def split: prod.splits option.splits if_splits
      dest!: recv_all_left)

lemma recv_payload_left: "recv_payload h cs = (Some p, cs') \<Longrightarrow> left cs' \<le> left cs"
  by (auto simp: recv_payload_def split: prod.splits option.splits if_splits dest!: recv_all_left)

lemma frame_left: "(Some h, cs1) = read_header cs \<Longrightarrow> (Some p, cs2) = recv_payload h cs1 \<Longrightarrow> left cs2 < left cs"
  using read_header_left [of cs h cs1] recv_payload_left [of h cs1 p cs2] by simp

text \<open>
  The loop of \<open>ws_recv_frame\<close>. \<open>mem n\<close> tells whether \<open>malloc (n)\<close> and \<open>realloc\<close> to that size succeed; a
  payload length of \<open>2 ^ 64 - 1\<close> makes the size wrap to zero, and the terminating zero byte is then
  written outside the block.
\<close>

function ws_recv_frame :: "(64 word \<Rightarrow> bool) \<Rightarrow> 8 word list option \<Rightarrow> stream \<Rightarrow> wire \<Rightarrow>
    (8 word list option \<times> stream \<times> wire) c_run" where
  "ws_recv_frame mem acc cs w = (case read_header cs of
       (None, cs) \<Rightarrow> Done (None, cs, w)
     | (Some h, cs) \<Rightarrow>
         if \<not> mem (h_len h + 1) then Done (None, cs, w)
         else if h_len h + 1 = 0 then Wild
         else (case recv_payload h cs of
             (None, cs) \<Rightarrow> Done (None, cs, w)
           | (Some payload, cs) \<Rightarrow>
               if h_opcode h = 0x8 then Done (None, cs, w)
               else if h_opcode h = 0x9 then ws_recv_frame mem acc cs (snd (ws_send_frame 0xA payload False 0 w))
               else if h_opcode h = 0xA then ws_recv_frame mem acc cs w
               else if h_opcode h = 0x0 \<or> acc \<noteq> None then
                 let old = (case acc of None \<Rightarrow> [] | Some a \<Rightarrow> a)
                 in if \<not> mem (of_nat (length old) + h_len h + 1) then Done (None, cs, w)
                    else if h_fin h then Done (Some (old @ payload), cs, w)
                    else ws_recv_frame mem (Some (old @ payload)) cs w
               else if h_fin h then Done (Some payload, cs, w)
               else ws_recv_frame mem (Some payload) cs w))"
  by pat_completeness auto
termination
  by (relation "measure (\<lambda>(mem, acc, cs, w). left cs)")
    (auto intro: frame_left)

declare ws_recv_frame.simps [simp del]

section \<open>Connections\<close>

text \<open>A connection: its stream, its wire and whether it has been closed. A null handle is \<open>None\<close>.\<close>

record ws_conn =
  wc_in :: stream
  wc_out :: wire
  wc_closed :: bool

definition send_message :: "8 word \<Rightarrow> ws_conn option \<Rightarrow> dux_str option \<Rightarrow> 32 word \<Rightarrow> int \<times> ws_conn option" where
  "send_message opcode ws msg r = (case (ws, msg) of
       (Some conn, Some s) \<Rightarrow>
         (let (n, out) = ws_send_frame opcode (c_bytes (take (s_len s) (sdata s))) True r (wc_out conn)
          in (n, Some (conn\<lparr>wc_out := out\<rparr>)))
     | _ \<Rightarrow> (- 1, ws))"

definition duxrt_ws_send_text :: "ws_conn option \<Rightarrow> dux_str option \<Rightarrow> 32 word \<Rightarrow> int \<times> ws_conn option" where
  "duxrt_ws_send_text = send_message 0x1"

definition duxrt_ws_send_binary :: "ws_conn option \<Rightarrow> dux_str option \<Rightarrow> 32 word \<Rightarrow> int \<times> ws_conn option" where
  "duxrt_ws_send_binary = send_message 0x2"

definition duxrt_ws_recv :: "(64 word \<Rightarrow> bool) \<Rightarrow> ws_conn option \<Rightarrow> (dux_str \<times> ws_conn option) c_run" where
  "duxrt_ws_recv mem ws = (case ws of
       None \<Rightarrow> c_bind empty_str (\<lambda>s. Done (s, None))
     | Some conn \<Rightarrow> c_bind (ws_recv_frame mem None (wc_in conn) (wc_out conn)) (\<lambda>(payload, cs, out).
         c_bind (case payload of None \<Rightarrow> empty_str
                 | Some p \<Rightarrow> duxrt_str_new (map char_of_byte p) (int (length p)))
           (\<lambda>s. Done (s, Some (conn\<lparr>wc_in := cs, wc_out := out\<rparr>)))))"

text \<open>What has gone out when the connection is freed.\<close>

definition duxrt_ws_close :: "ws_conn \<Rightarrow> 32 word \<Rightarrow> wire" where
  "duxrt_ws_close conn r = (if \<not> wc_closed conn then snd (ws_send_frame 0x8 [] True r (wc_out conn)) else wc_out conn)"

end
