(* ===== verification/Rt_WebSocket_Properties.thy ===== *)
theory Rt_WebSocket_Properties
  imports Rt_WebSocket Rt_Bytes_Properties Rt_Handshake_Properties
begin

text \<open>
  The receiver of frames implements a machine on frames: whatever the chunks in which bytes arrive,
  it delivers the messages, joins fragments and answers pings.
\<close>

section \<open>Reading exactly as many bytes\<close>

definition flowing :: "stream \<Rightarrow> bool" where
  "flowing cs \<longleftrightarrow> [] \<notin> set cs"

lemma recv_call_flowing: "flowing cs \<Longrightarrow> concat cs \<noteq> [] \<Longrightarrow> 0 < n \<Longrightarrow>
    \<exists>bs cs'. recv_call n cs = (Some bs, cs') \<and> flowing cs'"
  by (cases cs) (auto simp: flowing_def)

lemma recv_all_flowing:
  assumes "flowing cs" and "n \<le> length got + length (concat cs)" and "length got \<le> n"
  shows "\<exists>cs'. recv_all n got cs = (Some (got @ take (n - length got) (concat cs)), cs') \<and>
    concat cs' = drop (n - length got) (concat cs) \<and> flowing cs'"
  using assms
proof (induction n got cs rule: recv_all.induct)
  case (1 n got cs)
  show ?case
  proof (cases "length got < n")
    case True
    then obtain bs cs1 where r: "recv_call (n - length got) cs = (Some bs, cs1)" "flowing cs1"
      using recv_call_flowing [of cs "n - length got"] 1(2,3) by (cases "concat cs = []") auto
    have bs: "length bs \<le> n - length got" "concat cs = bs @ concat cs1"
      using recv_call_some [OF r(1)] True by auto
    have "\<exists>cs'. recv_all n (got @ bs) cs1 = (Some ((got @ bs) @ take (n - length (got @ bs)) (concat cs1)), cs') \<and>
        concat cs' = drop (n - length (got @ bs)) (concat cs1) \<and> flowing cs'"
      by (rule 1(1) [OF True r(1) [symmetric] refl r(2)]) (use 1(3) bs True in auto)
    then show ?thesis using True r(1) bs
      by (subst recv_all.simps) (auto simp: diff_diff_left)
  next
    case False
    then show ?thesis using 1(2,4) by (subst recv_all.simps) auto
  qed
qed

lemma recv_all_exact: "flowing cs \<Longrightarrow> concat cs = xs @ rest \<Longrightarrow> length xs = n \<Longrightarrow>
    \<exists>cs'. recv_all n [] cs = (Some xs, cs') \<and> concat cs' = rest \<and> flowing cs'"
  using recv_all_flowing [of cs n "[]"] by auto

lemma recv_all_nothing: "recv_all 2 [] [] = (None, [])"
  by (simp add: recv_all.simps)

lemma recv_all_empty: "flowing cs \<Longrightarrow> concat cs = [] \<Longrightarrow> recv_all 2 [] cs = (None, [])"
  using recv_all_nothing by (cases cs) (auto simp: flowing_def)

section \<open>Frames\<close>

record ws_frame =
  f_fin :: bool
  f_opcode :: "8 word"
  f_key :: "8 word list option"
  f_data :: "8 word list"

definition frame_ok :: "ws_frame \<Rightarrow> bool" where
  "frame_ok f \<longleftrightarrow> f_opcode f AND 0x0F = f_opcode f \<and> length (f_data f) < 2 ^ 63 \<and>
     (case f_key f of None \<Rightarrow> True | Some k \<Rightarrow> length k = 4)"

definition encode :: "ws_frame \<Rightarrow> 8 word list" where
  "encode f = ((if f_fin f then 0x80 else 0) OR f_opcode f) #
     length_header (if f_key f = None then 0 else 0x80) (length (f_data f)) @
     (case f_key f of None \<Rightarrow> f_data f | Some k \<Rightarrow> k @ masked k (f_data f))"

lemma masked_twice: "masked k (masked k d) = d"
  by (rule nth_equalityI) (simp_all add: masked_def xor.assoc)

lemma masked_length [simp]: "length (masked k d) = length d"
  by (simp add: masked_def)

lemma byte_of_drop: "i < 8 \<Longrightarrow> ucast (drop_bit (i * 8) (v :: 64 word) AND 0xFF) = byte_of v i"
  by (intro bit_eqI) (auto simp: byte_of_def bit_simps mult.commute)

lemma nibble_small: "(x :: 8 word) AND 0x0F = x \<Longrightarrow> 4 \<le> n \<Longrightarrow> \<not> bit x n"
proof
  assume x: "x AND 0x0F = x" "4 \<le> n" "bit x n"
  then have "bit (x AND mask 4) n" using masks(2) by metis
  then show False using x(2) by (simp add: bit_simps)
qed

lemma first_byte: "(x :: 8 word) AND 0x0F = x \<Longrightarrow>
    ((if b then 0x80 else 0) OR x) AND 0x0F = x \<and> (drop_bit 7 ((if b then 0x80 else 0) OR x) AND 1 = 1 \<longleftrightarrow> b)"
proof -
  assume x: "x AND 0x0F = x"
  note high = nibble_small [OF x]
  have "((0x80 :: 8 word) OR x) AND 0x0F = x"
    using high by (intro word8_eqI) (simp_all add: bit_simps)
  moreover have "drop_bit 7 ((0x80 :: 8 word) OR x) AND 1 = 1"
    using high by (intro word8_eqI) (simp_all add: bit_simps)
  moreover have "drop_bit 7 x AND 1 = 0"
    using high by (intro word8_eqI) (simp_all add: bit_simps)
  ultimately show ?thesis using x by simp
qed

lemma second_byte:
  assumes "n \<le> 127"
  shows "((if b then 0x80 else 0) OR of_nat n) AND 0x7F = (of_nat n :: 8 word) \<and>
    (drop_bit 7 ((if b then 0x80 else 0) OR (of_nat n :: 8 word)) AND 1 = 1 \<longleftrightarrow> b)"
proof -
  let ?w = "of_nat n :: 8 word"
  have "n div 128 = 0" using assms by simp
  then have "\<not> bit n 7" by (simp add: bit_iff_odd)
  then have high: "\<not> bit ?w 7" by (simp add: bit_of_nat_iff)
  have "((0x80 :: 8 word) OR ?w) AND 0x7F = ?w" "?w AND 0x7F = ?w"
    using high by (intro word8_eqI; simp add: bit_simps)+
  moreover have "drop_bit 7 ((0x80 :: 8 word) OR ?w) AND 1 = 1" "drop_bit 7 ?w AND 1 = 0"
    using high by (intro word8_eqI; simp add: bit_simps)+
  ultimately show ?thesis by simp
qed

section \<open>Headers\<close>

definition length_code :: "nat \<Rightarrow> nat" where
  "length_code len = (if len \<le> 125 then len else if len \<le> 65535 then 126 else 127)"

definition length_ext :: "nat \<Rightarrow> 8 word list" where
  "length_ext len = (if len \<le> 125 then []
     else if len \<le> 65535 then map (byte_of (of_nat len)) [1, 0] else map (byte_of (of_nat len)) (rev [0..<8]))"

lemma length_header_parts: "length_header mb len = (mb OR of_nat (length_code len)) # length_ext len"
proof -
  have "ucast ((of_nat len :: 64 word) AND 0xFF) = byte_of (of_nat len) 0"
    using byte_of_drop [of 0 "of_nat len"] by simp
  moreover have "ucast (drop_bit 8 (of_nat len :: 64 word) AND 0xFF) = byte_of (of_nat len) 1"
    using byte_of_drop [of 1 "of_nat len"] by simp
  moreover have "map (\<lambda>i. ucast (drop_bit (i * 8) (of_nat len :: 64 word) AND 0xFF)) (rev [0..<8]) =
      map (byte_of (of_nat len)) (rev [0..<8])"
    by (rule map_cong [OF refl]) (simp add: byte_of_drop)
  ultimately show ?thesis by (simp add: length_header_def length_code_def length_ext_def)
qed

lemma length_code_le: "length_code len \<le> 127"
  by (simp add: length_code_def)

lemma read_length_ext:
  assumes "flowing cs" and "concat cs = length_ext len @ rest" and "len < 2 ^ 64"
  shows "\<exists>cs'. read_length (of_nat (length_code len)) cs = (Some (of_nat len), cs') \<and> concat cs' = rest \<and> flowing cs'"
proof -
  consider "len \<le> 125" | "125 < len" "len \<le> 65535" | "65535 < len" by linarith
  then show ?thesis
  proof cases
    case 1
    then have "(of_nat len :: 8 word) \<noteq> 126" "(of_nat len :: 8 word) \<noteq> 127"
      by (auto dest!: arg_cong [where f = unat] simp: unat_of_nat)
    moreover have "ucast (of_nat len :: 8 word) = (of_nat len :: 64 word)"
      using 1 by (simp add: unsigned_of_nat take_bit_nat_eq_self)
    ultimately show ?thesis using 1 assms by (simp add: read_length_def length_code_def length_ext_def)
  next
    case 2
    obtain cs' where r: "recv_all 2 [] cs = (Some (map (byte_of (of_nat len)) [1, 0]), cs')" "concat cs' = rest" "flowing cs'"
      using recv_all_exact [OF assms(1), of "map (byte_of (of_nat len)) [1, 0]" rest 2] assms(2) 2
      by (auto simp: length_ext_def)
    have "take_bit 16 (of_nat len) = (of_nat len :: 64 word)"
      using 2 by (simp add: take_bit_of_nat take_bit_nat_eq_self)
    then have "push_bit 8 (ucast (byte_of (of_nat len) 1)) OR ucast (byte_of (of_nat len) 0) = (of_nat len :: 64 word)"
      using or_bytes_16 [of "of_nat len"] by (simp add: or.commute)
    then show ?thesis using 2 r by (simp add: read_length_def length_code_def)
  next
    case 3
    obtain cs' where r: "recv_all 8 [] cs = (Some (map (byte_of (of_nat len)) (rev [0..<8])), cs')" "concat cs' = rest" "flowing cs'"
      using recv_all_exact [OF assms(1), of "map (byte_of (of_nat len)) (rev [0..<8])" rest 8] assms(2) 3
      by (auto simp: length_ext_def)
    then show ?thesis using 3 be_bytes [of "of_nat len"] by (simp add: read_length_def length_code_def del: map_map upt_Suc)
  qed
qed

definition header_of :: "ws_frame \<Rightarrow> header" where
  "header_of f = \<lparr>h_fin = f_fin f, h_opcode = f_opcode f, h_mask = (f_key f \<noteq> None),
     h_len = of_nat (length (f_data f)), h_key = (case f_key f of None \<Rightarrow> [0, 0, 0, 0] | Some k \<Rightarrow> k)\<rparr>"

definition payload_bytes :: "ws_frame \<Rightarrow> 8 word list" where
  "payload_bytes f = (case f_key f of None \<Rightarrow> f_data f | Some k \<Rightarrow> masked k (f_data f))"

lemma read_header_encode:
  assumes "flowing cs" and "concat cs = encode f @ rest" and "frame_ok f"
  shows "\<exists>cs'. read_header cs = (Some (header_of f), cs') \<and> concat cs' = payload_bytes f @ rest \<and> flowing cs'"
proof -
  let ?n = "length (f_data f)" let ?masked = "f_key f \<noteq> None"
  define b0 where "b0 = ((if f_fin f then 0x80 else 0) OR f_opcode f)"
  define b1 where "b1 = ((if ?masked then 0x80 else 0) OR (of_nat (length_code ?n) :: 8 word))"
  define key where "key = (case f_key f of None \<Rightarrow> [] | Some k \<Rightarrow> k)"
  have enc: "concat cs = [b0, b1] @ length_ext ?n @ key @ payload_bytes f @ rest"
    using assms(2) by (auto simp: encode_def b0_def b1_def key_def payload_bytes_def length_header_parts split: option.splits)
  obtain cs1 where c1: "recv_all 2 [] cs = (Some [b0, b1], cs1)" "concat cs1 = length_ext ?n @ key @ payload_bytes f @ rest"
      "flowing cs1"
    using recv_all_exact [OF assms(1) enc, of 2] by auto
  note second = second_byte [OF length_code_le [of ?n], of ?masked, folded b1_def]
  have "f_opcode f AND 0x0F = f_opcode f" using assms(3) by (simp add: frame_ok_def)
  note first = first_byte [OF this, of "f_fin f", folded b0_def]
  have "b1 AND 0x7F = of_nat (length_code ?n)" "drop_bit 7 b1 AND 1 = 1 \<longleftrightarrow> ?masked"
      "b0 AND 0x0F = f_opcode f" "drop_bit 7 b0 AND 1 = 1 \<longleftrightarrow> f_fin f"
    by (rule second [THEN conjunct1] second [THEN conjunct2] first [THEN conjunct1] first [THEN conjunct2])+
  moreover obtain cs2 where c2: "read_length (of_nat (length_code ?n)) cs1 = (Some (of_nat ?n), cs2)"
      "concat cs2 = key @ payload_bytes f @ rest" "flowing cs2"
    using read_length_ext [OF c1(3,2)] assms(3) by (auto simp: frame_ok_def)
  moreover obtain cs3 where "(if ?masked then recv_all 4 [] cs2 else (Some [0, 0, 0, 0], cs2)) =
      (Some (case f_key f of None \<Rightarrow> [0, 0, 0, 0] | Some k \<Rightarrow> k), cs3)" "concat cs3 = payload_bytes f @ rest" "flowing cs3"
    using recv_all_exact [OF c2(3,2), of 4] c2(2,3) assms(3) by (auto simp: key_def frame_ok_def split: option.splits)
  ultimately show ?thesis using c1(1)
    by (simp add: read_header_def header_of_def Let_def)
qed

lemma recv_payload_encode:
  assumes "flowing cs" and "concat cs = payload_bytes f @ rest" and "frame_ok f"
  shows "\<exists>cs'. recv_payload (header_of f) cs = (Some (f_data f), cs') \<and> concat cs' = rest \<and> flowing cs'"
proof -
  let ?n = "length (f_data f)"
  have "unat (of_nat ?n :: 64 word) = ?n"
    using assms(3) by (simp add: unat_of_nat take_bit_nat_eq_self frame_ok_def)
  moreover from this have "(0 :: 64 word) < of_nat ?n \<longleftrightarrow> 0 < ?n"
    by (metis unat_0 word_less_nat_alt)
  moreover have "length (payload_bytes f) = ?n" by (simp add: payload_bytes_def split: option.split)
  ultimately have "\<exists>cs'. (if 0 < h_len (header_of f) then recv_all (unat (h_len (header_of f))) [] cs else (Some [], cs)) =
      (Some (payload_bytes f), cs') \<and> concat cs' = rest \<and> flowing cs'"
    using recv_all_exact [OF assms(1,2)] assms(1,2) by (auto simp: header_of_def)
  moreover have "(if h_mask (header_of f) then masked (h_key (header_of f)) (payload_bytes f) else payload_bytes f) = f_data f"
    by (simp add: header_of_def payload_bytes_def masked_twice split: option.split)
  ultimately show ?thesis by (auto simp: recv_payload_def)
qed

section \<open>The machine on frames\<close>

text \<open>
  The message delivered, if any, from the frames that come in, the frames left and the payloads of
  the pings seen: fragments are joined up to the final one, pongs are skipped, a close frame or the
  end of the input gives no message.
\<close>

fun deliver :: "8 word list option \<Rightarrow> ws_frame list \<Rightarrow> 8 word list option \<times> ws_frame list \<times> 8 word list list" where
  "deliver acc [] = (None, [], [])"
| "deliver acc (f # fs) =
     (if f_opcode f = 0x8 then (None, fs, [])
      else if f_opcode f = 0x9 then
        (case deliver acc fs of (msg, rest, pings) \<Rightarrow> (msg, rest, f_data f # pings))
      else if f_opcode f = 0xA then deliver acc fs
      else let whole = (case acc of None \<Rightarrow> [] | Some a \<Rightarrow> a) @ f_data f
        in if f_fin f then (Some whole, fs, []) else deliver (Some whole) fs)"

definition plain_frame :: "8 word \<Rightarrow> 8 word list \<Rightarrow> ws_frame" where
  "plain_frame opcode data = \<lparr>f_fin = True, f_opcode = opcode, f_key = None, f_data = data\<rparr>"

definition masked_frame :: "8 word \<Rightarrow> 8 word list \<Rightarrow> 8 word list \<Rightarrow> ws_frame" where
  "masked_frame opcode key data = \<lparr>f_fin = True, f_opcode = opcode, f_key = Some key, f_data = data\<rparr>"

lemma send_frame_plain: "w_results w = [] \<Longrightarrow> opcode AND 0x0F = opcode \<Longrightarrow>
    ws_send_frame opcode data False r w = (0, w\<lparr>w_sent := w_sent w @ encode (plain_frame opcode data)\<rparr>)"
  by (simp add: ws_send_frame_def send_call_def Let_def frame_header_def encode_def plain_frame_def)

lemma send_frame_masked: "w_results w = [] \<Longrightarrow> opcode AND 0x0F = opcode \<Longrightarrow>
    ws_send_frame opcode data True r w = (0, w\<lparr>w_sent := w_sent w @ encode (masked_frame opcode (word_bytes r) data)\<rparr>)"
  by (simp add: ws_send_frame_def send_call_def Let_def frame_header_def encode_def masked_frame_def masked_def)

lemma opcode_of [simp]: "h_opcode (header_of f) = f_opcode f" "h_fin (header_of f) = f_fin f"
  by (simp_all add: header_of_def)

lemma len_not_max: "frame_ok f \<Longrightarrow> h_len (header_of f) + 1 \<noteq> 0"
proof
  assume f: "frame_ok f" "h_len (header_of f) + 1 = 0"
  have "unat (of_nat (length (f_data f) + 1) :: 64 word) = length (f_data f) + 1"
    unfolding unat_of_nat using f(1) by (intro mod_less) (simp add: frame_ok_def)
  moreover have "h_len (header_of f) + 1 = of_nat (length (f_data f) + 1)" by (simp add: header_of_def)
  ultimately show False using f(2) by simp
qed

abbreviation everything :: "64 word \<Rightarrow> bool" where
  "everything \<equiv> \<lambda>n. True"

lemma recv_refines:
  assumes "\<forall>f\<in>set fs. frame_ok f" and "flowing cs" and "concat cs = concat (map encode fs)" and "w_results w = []"
  shows "\<exists>cs' msg rest pings. deliver acc fs = (msg, rest, pings) \<and>
    ws_recv_frame everything acc cs w = Done (msg, cs',
      w\<lparr>w_sent := w_sent w @ concat (map (\<lambda>d. encode (plain_frame 0xA d)) pings)\<rparr>) \<and>
    concat cs' = concat (map encode rest) \<and> flowing cs'"
  using assms
proof (induction fs arbitrary: acc cs w)
  case Nil
  then have "read_header cs = (None, [])"
    using recv_all_empty [of cs] by (simp add: read_header_def)
  then show ?case by (subst ws_recv_frame.simps) (simp add: flowing_def)
next
  case (Cons f fs)
  have f: "frame_ok f" using Cons.prems(1) by simp
  obtain cs1 where c1: "read_header cs = (Some (header_of f), cs1)"
      "concat cs1 = payload_bytes f @ concat (map encode fs)" "flowing cs1"
    using read_header_encode [OF Cons.prems(2) _ f] Cons.prems(3) by auto
  obtain cs2 where c2: "recv_payload (header_of f) cs1 = (Some (f_data f), cs2)"
      "concat cs2 = concat (map encode fs)" "flowing cs2"
    using recv_payload_encode [OF c1(3,2) f] by auto
  note head = c1(1) c2(1) len_not_max [OF f]
  note IH = Cons.IH [OF _ c2(3,2)]
  have fs: "\<forall>f\<in>set fs. frame_ok f" using Cons.prems(1) by simp
  consider (close) "f_opcode f = 0x8" | (ping) "f_opcode f = 0x9" | (pong) "f_opcode f = 0xA"
    | (data) "f_opcode f \<noteq> 0x8" "f_opcode f \<noteq> 0x9" "f_opcode f \<noteq> 0xA" by blast
  then show ?case
  proof cases
    case close
    then show ?thesis using head c2(2,3) by (subst ws_recv_frame.simps) simp
  next
    case ping
    let ?w = "w\<lparr>w_sent := w_sent w @ encode (plain_frame 0xA (f_data f))\<rparr>"
    have "ws_recv_frame everything acc cs w = ws_recv_frame everything acc cs2 ?w"
      using ping head Cons.prems(4) by (subst ws_recv_frame.simps) (simp add: send_frame_plain)
    then show ?thesis using IH [OF fs, of ?w acc] ping Cons.prems(4) by (auto split: prod.splits)
  next
    case pong
    have "ws_recv_frame everything acc cs w = ws_recv_frame everything acc cs2 w"
      using pong head by (subst ws_recv_frame.simps) simp
    then show ?thesis using IH [OF fs Cons.prems(4), of acc] pong by auto
  next
    case data
    let ?whole = "(case acc of None \<Rightarrow> [] | Some a \<Rightarrow> a) @ f_data f"
    have step: "ws_recv_frame everything acc cs w =
        (if f_fin f then Done (Some ?whole, cs2, w) else ws_recv_frame everything (Some ?whole) cs2 w)"
      using data head by (subst ws_recv_frame.simps) (cases acc; simp add: Let_def)
    show ?thesis
    proof (cases "f_fin f")
      case True
      then show ?thesis using step data c2(2,3) by simp
    next
      case False
      then show ?thesis using step IH [OF fs Cons.prems(4), of "Some ?whole"] data by (simp add: Let_def)
    qed
  qed
qed

text \<open>
  C5. Receiving implements the machine on frames: whatever non-empty chunks the bytes of a sequence of
  well-formed frames arrive in, \<open>ws_recv_frame\<close> returns the message that the frames up to its final
  one carry (fragments joined in order, masked or not, of any of the three length encodings), or none when a
  close frame or the end comes first, answers every ping before that with a pong of the same
  payload and nothing else, and leaves exactly the following frames in the stream.
\<close>

theorem receiving_refines_frames:
  assumes "\<forall>f\<in>set fs. frame_ok f" and "[] \<notin> set cs" and "concat cs = concat (map encode fs)" and "w_results w = []"
  shows "\<exists>cs' msg rest pings. deliver None fs = (msg, rest, pings) \<and>
    ws_recv_frame everything None cs w = Done (msg, cs',
      w\<lparr>w_sent := w_sent w @ concat (map (\<lambda>d. encode (plain_frame 0xA d)) pings)\<rparr>) \<and>
    concat cs' = concat (map encode rest)"
  using recv_refines [OF assms(1) _ assms(3,4), of None] assms(2) by (auto simp: flowing_def)

definition idle :: wire where
  "idle = \<lparr>w_sent = [], w_results = []\<rparr>"


theorem receiving_refines_frames_witness:
  "\<exists>cs' w'. ws_recv_frame everything None
      (map (\<lambda>b. [b]) (concat (map encode
        [\<lparr>f_fin = False, f_opcode = 1, f_key = None, f_data = [1, 2]\<rparr>, plain_frame 0x9 [7],
         masked_frame 0x0 [1, 2, 3, 4] [3]]))) idle = Done (Some [1, 2, 3], cs', w')"
proof -
  let ?fs = "[\<lparr>f_fin = False, f_opcode = 1, f_key = None, f_data = [1, 2]\<rparr>, plain_frame 0x9 [7],
    masked_frame 0x0 [1, 2, 3, 4] [3]]"
  let ?cs = "map (\<lambda>b. [b]) (concat (map encode ?fs))"
  have "concat (map (\<lambda>b. [b]) xs) = xs" for xs :: "8 word list" by (induction xs) simp_all
  then have cs: "concat ?cs = concat (map encode ?fs)" .
  have ne: "[] \<notin> set (map (\<lambda>b. [b]) xs)" for xs :: "8 word list" by auto
  have ok: "\<forall>f\<in>set ?fs. frame_ok f" by (simp add: frame_ok_def plain_frame_def masked_frame_def)
  have w: "w_results idle = []" by (simp add: idle_def)
  have "deliver None ?fs = (Some [1, 2, 3], [], [[7]])" by (simp add: plain_frame_def masked_frame_def)
  then show ?thesis using receiving_refines_frames [OF ok ne cs w] by auto
qed


text \<open>
  A frame that announces 2^64 - 1 bytes makes the size of the buffer wrap to zero: if the allocator
  gives a block for size zero, as the common ones do, the terminating zero is written outside it,
  before a single byte of the payload has arrived.
\<close>

theorem announced_length_overflows:
  assumes "mem 0"
  shows "ws_recv_frame mem acc [[0x82, 127, 255, 255, 255, 255, 255, 255, 255, 255]] w = Wild"
proof -
  have "recv_all 2 [] [[0x82, 127, 255, 255, 255, 255, 255, 255, 255, 255]] =
      (Some [0x82, 127], [[255, 255, 255, 255, 255, 255, 255, 255]])"
    by (subst recv_all.simps, simp, subst recv_all.simps, simp)
  moreover have "recv_all 8 [] [[255, 255, 255, 255, 255, 255, 255, 255]] =
      (Some [255, 255, 255, 255, 255, 255, 255, 255], [])"
    by (subst recv_all.simps, simp, subst recv_all.simps, simp)
  ultimately have "\<exists>h cs'. read_header [[0x82, 127, 255, 255, 255, 255, 255, 255, 255, 255]] = (Some h, cs') \<and> h_len h = - 1"
    by (simp add: read_header_def read_length_def upt_rec)
  then show ?thesis using assms by (subst ws_recv_frame.simps) auto
qed

end
