(* ===== verification/Rt_Channel.thy ===== *)
theory Rt_Channel
  imports Rt_Outcome
begin

text \<open>
  The two kinds of channels of the runtime: the ring buffers of \<^verbatim>\<open>src/runtime/achan_rt.c\<close> and the linked
  queues of \<^verbatim>\<open>src/runtime/thread_rt.c\<close>, and the threads that block on them. Every operation of the code
  holds the channel's mutex from its first access to its last, except while it waits on a condition
  variable, so a critical section is one step.
\<close>

section \<open>Ring buffers\<close>

record 'v achan =
  a_buf :: "'v option list"
  a_cap :: nat
  a_head :: nat
  a_tail :: nat
  a_len :: nat
  a_closed :: bool

definition duxrt_achan_new :: "int \<Rightarrow> 'v achan" where
  "duxrt_achan_new cap = (let cap = nat (if cap \<le> 0 then 1 else cap)
     in \<lparr>a_buf = replicate cap None, a_cap = cap, a_head = 0, a_tail = 0, a_len = 0, a_closed = False\<rparr>)"

definition duxrt_achan_close :: "'v achan \<Rightarrow> 'v achan" where
  "duxrt_achan_close c = c\<lparr>a_closed := True\<rparr>"

definition duxrt_achan_is_closed :: "'v achan option \<Rightarrow> bool" where
  "duxrt_achan_is_closed c = (case c of None \<Rightarrow> True | Some c \<Rightarrow> a_closed c)"

definition duxrt_achan_len :: "'v achan option \<Rightarrow> nat" where
  "duxrt_achan_len c = (case c of None \<Rightarrow> 0 | Some c \<Rightarrow> a_len c)"

definition duxrt_achan_cap :: "'v achan option \<Rightarrow> nat" where
  "duxrt_achan_cap c = (case c of None \<Rightarrow> 0 | Some c \<Rightarrow> a_cap c)"

text \<open>The store at \<open>head\<close> and the fetch at \<open>tail\<close>.\<close>

definition achan_put :: "'v option \<Rightarrow> 'v achan \<Rightarrow> 'v achan" where
  "achan_put v c = c\<lparr>a_buf := (a_buf c)[a_head c := v], a_head := (a_head c + 1) mod a_cap c, a_len := a_len c + 1\<rparr>"

definition achan_take :: "'v achan \<Rightarrow> 'v option \<times> 'v achan" where
  "achan_take c = (a_buf c ! a_tail c, c\<lparr>a_tail := (a_tail c + 1) mod a_cap c, a_len := a_len c - 1\<rparr>)"

definition duxrt_achan_try_send :: "'v achan option \<Rightarrow> 'v option \<Rightarrow> bool \<times> 'v achan option" where
  "duxrt_achan_try_send c v = (case c of
       None \<Rightarrow> (False, None)
     | Some c \<Rightarrow> if a_closed c \<or> a_len c \<ge> a_cap c then (False, Some c) else (True, Some (achan_put v c)))"

definition duxrt_achan_try_recv :: "'v achan option \<Rightarrow> 'v option \<times> 'v achan option" where
  "duxrt_achan_try_recv c = (case c of
       None \<Rightarrow> (None, None)
     | Some c \<Rightarrow> if a_len c = 0 then (None, Some c) else (let (v, c) = achan_take c in (v, Some c)))"

section \<open>Linked queues\<close>

text \<open>The nodes from \<open>head\<close> to \<open>tail\<close>; a capacity of zero or less is unbounded.\<close>

record 'v chan =
  n_nodes :: "'v option list"
  n_len :: nat
  n_cap :: int
  n_closed :: bool

definition duxrt_chan_new :: "int \<Rightarrow> 'v chan" where
  "duxrt_chan_new cap = \<lparr>n_nodes = [], n_len = 0, n_cap = cap, n_closed = False\<rparr>"

definition duxrt_chan_close :: "'v chan \<Rightarrow> 'v chan" where
  "duxrt_chan_close c = c\<lparr>n_closed := True\<rparr>"

definition duxrt_chan_is_closed :: "'v chan option \<Rightarrow> bool" where
  "duxrt_chan_is_closed c = (case c of None \<Rightarrow> True | Some c \<Rightarrow> n_closed c)"

definition duxrt_chan_len :: "'v chan option \<Rightarrow> nat" where
  "duxrt_chan_len c = (case c of None \<Rightarrow> 0 | Some c \<Rightarrow> n_len c)"

definition chan_put :: "'v option \<Rightarrow> 'v chan \<Rightarrow> 'v chan" where
  "chan_put v c = c\<lparr>n_nodes := n_nodes c @ [v], n_len := n_len c + 1\<rparr>"

definition chan_take :: "'v chan \<Rightarrow> 'v option \<times> 'v chan" where
  "chan_take c = (hd (n_nodes c), c\<lparr>n_nodes := tl (n_nodes c), n_len := n_len c - 1\<rparr>)"

definition chan_full :: "'v chan \<Rightarrow> bool" where
  "chan_full c \<longleftrightarrow> 0 < n_cap c \<and> int (n_len c) \<ge> n_cap c"

text \<open>1 with an item, 0 when empty and open, -1 when empty and closed.\<close>

definition duxrt_chan_try_recv :: "'v chan option \<Rightarrow> int \<times> 'v option \<times> 'v chan option" where
  "duxrt_chan_try_recv c = (case c of
       None \<Rightarrow> (- 1, None, None)
     | Some c \<Rightarrow> if n_nodes c = [] then (if n_closed c then - 1 else 0, None, Some c)
         else (let (v, c) = chan_take c in (1, v, Some c)))"

section \<open>Threads on a channel\<close>

text \<open>
  What \<open>send\<close> and \<open>recv\<close> do with a channel, of either kind: whether the sender has to wait while the
  channel is open, whether there is nothing to receive, whether it is closed, and the changes.
\<close>

record ('c, 'v) channel_ops =
  o_full :: "'c \<Rightarrow> bool"
  o_empty :: "'c \<Rightarrow> bool"
  o_closed :: "'c \<Rightarrow> bool"
  o_put :: "'v \<Rightarrow> 'c \<Rightarrow> 'c"
  o_take :: "'c \<Rightarrow> 'v \<times> 'c"
  o_close :: "'c \<Rightarrow> 'c"

definition achan_ops :: "('v achan, 'v option) channel_ops" where
  "achan_ops = \<lparr>o_full = (\<lambda>c. a_len c \<ge> a_cap c), o_empty = (\<lambda>c. a_len c = 0), o_closed = a_closed,
     o_put = achan_put, o_take = achan_take, o_close = duxrt_achan_close\<rparr>"

definition chan_ops :: "('v chan, 'v option) channel_ops" where
  "chan_ops = \<lparr>o_full = chan_full, o_empty = (\<lambda>c. n_nodes c = []), o_closed = n_closed,
     o_put = chan_put, o_take = chan_take, o_close = duxrt_chan_close\<rparr>"

text \<open>
  A thread is outside the channel, at the test of the loop of \<open>send\<close> or \<open>recv\<close>, or asleep on
  \<open>not_full\<close> or \<open>not_empty\<close>.
\<close>

datatype 'v thread =
    Resting
  | Sending 'v
  | SendAsleep 'v
  | Receiving
  | RecvAsleep

fun send_asleep :: "'v thread \<Rightarrow> bool" where
  "send_asleep (SendAsleep v) = True"
| "send_asleep _ = False"

fun recv_asleep :: "'v thread \<Rightarrow> bool" where
  "recv_asleep RecvAsleep = True"
| "recv_asleep _ = False"

fun awake :: "'v thread \<Rightarrow> 'v thread" where
  "awake (SendAsleep v) = Sending v"
| "awake RecvAsleep = Receiving"
| "awake t = t"

text \<open>The channel, its threads, and what has been put in and taken out so far.\<close>

record ('c, 'v) chan_sys =
  cs_chan :: 'c
  cs_threads :: "'v thread list"
  cs_sent :: "'v list"
  cs_got :: "'v list"

text \<open>\<open>pthread_cond_signal\<close> wakes one of the threads that sleep on the variable, if there is one.\<close>

inductive signalled :: "('v thread \<Rightarrow> bool) \<Rightarrow> 'v thread list \<Rightarrow> 'v thread list \<Rightarrow> bool" for asleep where
  one: "j < length ts \<Longrightarrow> asleep (ts ! j) \<Longrightarrow> signalled asleep ts (ts[j := awake (ts ! j)])"
| nobody: "\<forall>t\<in>set ts. \<not> asleep t \<Longrightarrow> signalled asleep ts ts"

inductive chan_step :: "('c, 'v) channel_ops \<Rightarrow> ('c, 'v) chan_sys \<Rightarrow> ('c, 'v) chan_sys \<Rightarrow> bool" for ops where
  call_send: "i < length (cs_threads s) \<Longrightarrow> cs_threads s ! i = Resting \<Longrightarrow>
    chan_step ops s (s\<lparr>cs_threads := (cs_threads s)[i := Sending v]\<rparr>)"
| send_wait: "i < length (cs_threads s) \<Longrightarrow> cs_threads s ! i = Sending v \<Longrightarrow>
    o_full ops (cs_chan s) \<Longrightarrow> \<not> o_closed ops (cs_chan s) \<Longrightarrow>
    chan_step ops s (s\<lparr>cs_threads := (cs_threads s)[i := SendAsleep v]\<rparr>)"
| send_closed: "i < length (cs_threads s) \<Longrightarrow> cs_threads s ! i = Sending v \<Longrightarrow> o_closed ops (cs_chan s) \<Longrightarrow>
    chan_step ops s (s\<lparr>cs_threads := (cs_threads s)[i := Resting]\<rparr>)"
| send_put: "i < length (cs_threads s) \<Longrightarrow> cs_threads s ! i = Sending v \<Longrightarrow>
    \<not> o_full ops (cs_chan s) \<Longrightarrow> \<not> o_closed ops (cs_chan s) \<Longrightarrow>
    signalled recv_asleep ((cs_threads s)[i := Resting]) ts \<Longrightarrow>
    chan_step ops s (s\<lparr>cs_chan := o_put ops v (cs_chan s), cs_threads := ts, cs_sent := cs_sent s @ [v]\<rparr>)"
| call_recv: "i < length (cs_threads s) \<Longrightarrow> cs_threads s ! i = Resting \<Longrightarrow>
    chan_step ops s (s\<lparr>cs_threads := (cs_threads s)[i := Receiving]\<rparr>)"
| recv_wait: "i < length (cs_threads s) \<Longrightarrow> cs_threads s ! i = Receiving \<Longrightarrow>
    o_empty ops (cs_chan s) \<Longrightarrow> \<not> o_closed ops (cs_chan s) \<Longrightarrow>
    chan_step ops s (s\<lparr>cs_threads := (cs_threads s)[i := RecvAsleep]\<rparr>)"
| recv_closed: "i < length (cs_threads s) \<Longrightarrow> cs_threads s ! i = Receiving \<Longrightarrow>
    o_empty ops (cs_chan s) \<Longrightarrow> o_closed ops (cs_chan s) \<Longrightarrow>
    chan_step ops s (s\<lparr>cs_threads := (cs_threads s)[i := Resting]\<rparr>)"
| recv_take: "i < length (cs_threads s) \<Longrightarrow> cs_threads s ! i = Receiving \<Longrightarrow>
    \<not> o_empty ops (cs_chan s) \<Longrightarrow> o_take ops (cs_chan s) = (v, c) \<Longrightarrow>
    signalled send_asleep ((cs_threads s)[i := Resting]) ts \<Longrightarrow>
    chan_step ops s (s\<lparr>cs_chan := c, cs_threads := ts, cs_got := cs_got s @ [v]\<rparr>)"
| try_send: "i < length (cs_threads s) \<Longrightarrow> cs_threads s ! i = Resting \<Longrightarrow>
    \<not> o_full ops (cs_chan s) \<Longrightarrow> \<not> o_closed ops (cs_chan s) \<Longrightarrow> signalled recv_asleep (cs_threads s) ts \<Longrightarrow>
    chan_step ops s (s\<lparr>cs_chan := o_put ops v (cs_chan s), cs_threads := ts, cs_sent := cs_sent s @ [v]\<rparr>)"
| try_recv: "i < length (cs_threads s) \<Longrightarrow> cs_threads s ! i = Resting \<Longrightarrow>
    \<not> o_empty ops (cs_chan s) \<Longrightarrow> o_take ops (cs_chan s) = (v, c) \<Longrightarrow> signalled send_asleep (cs_threads s) ts \<Longrightarrow>
    chan_step ops s (s\<lparr>cs_chan := c, cs_threads := ts, cs_got := cs_got s @ [v]\<rparr>)"
| do_close: "i < length (cs_threads s) \<Longrightarrow> cs_threads s ! i = Resting \<Longrightarrow>
    chan_step ops s (s\<lparr>cs_chan := o_close ops (cs_chan s), cs_threads := map awake (cs_threads s)\<rparr>)"
| spurious: "i < length (cs_threads s) \<Longrightarrow> chan_step ops s (s\<lparr>cs_threads := (cs_threads s)[i := awake (cs_threads s ! i)]\<rparr>)"

definition chan_start :: "'c \<Rightarrow> nat \<Rightarrow> ('c, 'v) chan_sys" where
  "chan_start c n = \<lparr>cs_chan = c, cs_threads = replicate n Resting, cs_sent = [], cs_got = []\<rparr>"

inductive chan_reachable :: "('c, 'v) channel_ops \<Rightarrow> ('c, 'v) chan_sys \<Rightarrow> ('c, 'v) chan_sys \<Rightarrow> bool" for ops s0 where
  start: "chan_reachable ops s0 s0"
| step: "chan_reachable ops s0 s \<Longrightarrow> chan_step ops s s' \<Longrightarrow> chan_reachable ops s0 s'"

end
