(* ===== verification/Rt_Channel_Properties.thy ===== *)
theory Rt_Channel_Properties
  imports Rt_Channel
begin

text \<open>
  Both kinds of channels are bounded queues, and any system of threads over a bounded queue that waits
  and signals the way the runtime does delivers the values in order and loses no wake-up. The second
  part is proved once, in a locale, and holds for both kinds by interpretation.
\<close>

section \<open>Counting threads\<close>

fun is_sending :: "'v thread \<Rightarrow> bool" where
  "is_sending (Sending v) = True"
| "is_sending _ = False"

fun is_receiving :: "'v thread \<Rightarrow> bool" where
  "is_receiving Receiving = True"
| "is_receiving _ = False"

lemma asleep_cases: "recv_asleep t \<Longrightarrow> t = RecvAsleep" "send_asleep t \<Longrightarrow> \<exists>v. t = SendAsleep v"
  by (cases t; simp)+

lemma signalled_recv: "signalled recv_asleep ts ts' \<Longrightarrow>
    number send_asleep ts' = number send_asleep ts \<and> number is_sending ts' = number is_sending ts \<and>
    (if number recv_asleep ts = 0 then number recv_asleep ts' = 0 \<and> number is_receiving ts' = number is_receiving ts
     else number recv_asleep ts' = number recv_asleep ts - 1 \<and> number is_receiving ts' = number is_receiving ts + 1)"
proof (induction rule: signalled.induct)
  case (one j ts)
  then have t: "ts ! j = RecvAsleep" by (simp add: asleep_cases)
  have "0 < number recv_asleep ts" using one by (rule number_pos)
  then show ?case using t number_update [OF one(1), of send_asleep Receiving] number_update [OF one(1), of is_sending Receiving]
      number_update [OF one(1), of recv_asleep Receiving] number_update [OF one(1), of is_receiving Receiving]
    by simp
qed (simp add: number_0)

lemma signalled_send: "signalled send_asleep ts ts' \<Longrightarrow>
    number recv_asleep ts' = number recv_asleep ts \<and> number is_receiving ts' = number is_receiving ts \<and>
    (if number send_asleep ts = 0 then number send_asleep ts' = 0 \<and> number is_sending ts' = number is_sending ts
     else number send_asleep ts' = number send_asleep ts - 1 \<and> number is_sending ts' = number is_sending ts + 1)"
proof (induction rule: signalled.induct)
  case (one j ts)
  then obtain v where t: "ts ! j = SendAsleep v" using asleep_cases(2) by blast
  have "0 < number send_asleep ts" using one by (rule number_pos)
  then show ?case using t number_update [OF one(1), of send_asleep "Sending v"] number_update [OF one(1), of is_sending "Sending v"]
      number_update [OF one(1), of recv_asleep "Sending v"] number_update [OF one(1), of is_receiving "Sending v"]
    by simp
qed (simp add: number_0)

lemma number_awake: "number recv_asleep (map awake ts) = 0" "number send_asleep (map awake ts) = 0"
proof -
  have "\<not> recv_asleep (awake t) \<and> \<not> send_asleep (awake t)" for t :: "'a thread" by (cases t) simp_all
  then show "number recv_asleep (map awake ts) = 0" "number send_asleep (map awake ts) = 0" by (simp_all add: number_0)
qed

section \<open>Any bounded queue\<close>

locale channel =
  fixes ops :: "('c, 'v) channel_ops" and ok :: "'c \<Rightarrow> bool" and items :: "'c \<Rightarrow> 'v list" and capacity :: "'c \<Rightarrow> nat option"
  assumes full_law: "ok c \<Longrightarrow> o_full ops c \<longleftrightarrow> (\<exists>n. capacity c = Some n \<and> n \<le> length (items c))"
    and empty_law: "ok c \<Longrightarrow> o_empty ops c \<longleftrightarrow> items c = []"
    and put_law: "ok c \<Longrightarrow> \<not> o_full ops c \<Longrightarrow> ok (o_put ops v c) \<and> items (o_put ops v c) = items c @ [v] \<and>
      capacity (o_put ops v c) = capacity c \<and> o_closed ops (o_put ops v c) = o_closed ops c"
    and take_law: "ok c \<Longrightarrow> items c \<noteq> [] \<Longrightarrow> o_take ops c = (v, c') \<Longrightarrow> v = hd (items c) \<and> ok c' \<and>
      items c' = tl (items c) \<and> capacity c' = capacity c \<and> o_closed ops c' = o_closed ops c"
    and close_law: "ok c \<Longrightarrow> ok (o_close ops c) \<and> items (o_close ops c) = items c \<and> capacity (o_close ops c) = capacity c"
begin

text \<open>Everything sent has been received or is in the queue, in order, and nobody sleeps in vain.\<close>

definition fifo :: "('c, 'v) chan_sys \<Rightarrow> bool" where
  "fifo s \<longleftrightarrow> ok (cs_chan s) \<and> cs_sent s = cs_got s @ items (cs_chan s)"

definition receivers_live :: "('c, 'v) chan_sys \<Rightarrow> bool" where
  "receivers_live s \<longleftrightarrow> (0 < number recv_asleep (cs_threads s) \<longrightarrow> \<not> o_closed ops (cs_chan s) \<and>
     length (items (cs_chan s)) \<le> number is_receiving (cs_threads s))"

definition senders_live :: "('c, 'v) chan_sys \<Rightarrow> bool" where
  "senders_live s \<longleftrightarrow> (0 < number send_asleep (cs_threads s) \<longrightarrow> \<not> o_closed ops (cs_chan s) \<and>
     (\<exists>n. capacity (cs_chan s) = Some n \<and> n \<le> length (items (cs_chan s)) + number is_sending (cs_threads s)))"

lemma step_fifo: "chan_step ops s s' \<Longrightarrow> fifo s \<Longrightarrow> fifo s'"
proof (induction rule: chan_step.induct)
  case (send_put i s v ts)
  then show ?case using put_law [of "cs_chan s" v] by (simp add: fifo_def)
next
  case (recv_take i s v c ts)
  then show ?case using take_law [of "cs_chan s" v c] empty_law [of "cs_chan s"] by (auto simp: fifo_def)
next
  case (try_send i s ts v)
  then show ?case using put_law [of "cs_chan s" v] by (simp add: fifo_def)
next
  case (try_recv i s v c ts)
  then show ?case using take_law [of "cs_chan s" v c] empty_law [of "cs_chan s"] by (auto simp: fifo_def)
next
  case (do_close i s)
  then show ?case using close_law [of "cs_chan s"] by (simp add: fifo_def)
qed (simp_all add: fifo_def)

lemmas updates = number_update [of _ _ recv_asleep] number_update [of _ _ is_receiving]
  number_update [of _ _ send_asleep] number_update [of _ _ is_sending]

lemma step_receivers: "chan_step ops s s' \<Longrightarrow> fifo s \<Longrightarrow> receivers_live s \<Longrightarrow> receivers_live s'"
proof (induction rule: chan_step.induct)
  case (call_send i s v)
  then show ?case using updates [OF call_send(1), of "Sending v"] by (simp add: receivers_live_def)
next
  case (send_wait i s v)
  then show ?case using updates [OF send_wait(1), of "SendAsleep v"] by (simp add: receivers_live_def)
next
  case (send_closed i s v)
  then show ?case using updates [OF send_closed(1), of Resting] by (simp add: receivers_live_def)
next
  case (send_put i s v ts)
  then show ?case using updates [OF send_put(1), of Resting] signalled_recv [OF send_put(5)] put_law [of "cs_chan s" v]
    by (auto simp: receivers_live_def fifo_def split: if_splits)
next
  case (call_recv i s)
  then show ?case using updates [OF call_recv(1), of Receiving] by (auto simp: receivers_live_def)
next
  case (recv_wait i s)
  then show ?case using updates [OF recv_wait(1), of RecvAsleep] empty_law [of "cs_chan s"]
    by (simp add: receivers_live_def fifo_def)
next
  case (recv_closed i s)
  then show ?case using updates [OF recv_closed(1), of Resting] by (simp add: receivers_live_def)
next
  case (recv_take i s v c ts)
  then show ?case using updates [OF recv_take(1), of Resting] signalled_send [OF recv_take(5)]
      take_law [of "cs_chan s" v c] empty_law [of "cs_chan s"]
    by (auto simp: receivers_live_def fifo_def)
next
  case (try_send i s ts v)
  then show ?case using signalled_recv [OF try_send(5)] put_law [of "cs_chan s" v]
    by (auto simp: receivers_live_def fifo_def split: if_splits)
next
  case (try_recv i s v c ts)
  then show ?case using signalled_send [OF try_recv(5)] take_law [of "cs_chan s" v c] empty_law [of "cs_chan s"]
    by (auto simp: receivers_live_def fifo_def)
next
  case (do_close i s)
  then show ?case by (simp add: receivers_live_def number_awake)
next
  case (spurious i s)
  then show ?case using updates [OF spurious(1), of "awake (cs_threads s ! i)"]
    by (cases "cs_threads s ! i") (auto simp: receivers_live_def)
qed

lemma step_senders: "chan_step ops s s' \<Longrightarrow> fifo s \<Longrightarrow> senders_live s \<Longrightarrow> senders_live s'"
proof (induction rule: chan_step.induct)
  case (call_send i s v)
  then show ?case using updates [OF call_send(1), of "Sending v"] by (auto simp: senders_live_def)
next
  case (send_wait i s v)
  then show ?case using updates [OF send_wait(1), of "SendAsleep v"] full_law [of "cs_chan s"]
    by (auto simp: senders_live_def fifo_def)
next
  case (send_closed i s v)
  then show ?case using updates [OF send_closed(1), of Resting] by (auto simp: senders_live_def)
next
  case (send_put i s v ts)
  then show ?case using updates [OF send_put(1), of Resting] signalled_recv [OF send_put(5)] put_law [of "cs_chan s" v]
    by (fastforce simp: senders_live_def fifo_def)
next
  case (call_recv i s)
  then show ?case using updates [OF call_recv(1), of Receiving] by (auto simp: senders_live_def)
next
  case (recv_wait i s)
  then show ?case using updates [OF recv_wait(1), of RecvAsleep] by (auto simp: senders_live_def)
next
  case (recv_closed i s)
  then show ?case using updates [OF recv_closed(1), of Resting] by (auto simp: senders_live_def)
next
  case (recv_take i s v c ts)
  then show ?case using updates [OF recv_take(1), of Resting] signalled_send [OF recv_take(5)]
      take_law [of "cs_chan s" v c] empty_law [of "cs_chan s"]
    by (fastforce simp: senders_live_def fifo_def split: if_splits)
next
  case (try_send i s ts v)
  then show ?case using signalled_recv [OF try_send(5)] put_law [of "cs_chan s" v]
    by (fastforce simp: senders_live_def fifo_def)
next
  case (try_recv i s v c ts)
  then show ?case using signalled_send [OF try_recv(5)] take_law [of "cs_chan s" v c] empty_law [of "cs_chan s"]
    by (fastforce simp: senders_live_def fifo_def split: if_splits)
next
  case (do_close i s)
  then show ?case by (simp add: senders_live_def number_awake)
next
  case (spurious i s)
  then show ?case using updates [OF spurious(1), of "awake (cs_threads s ! i)"]
    by (cases "cs_threads s ! i") (auto simp: senders_live_def)
qed

lemma start_live: "ok c \<Longrightarrow> items c = [] \<Longrightarrow>
    fifo (chan_start c n) \<and> receivers_live (chan_start c n) \<and> senders_live (chan_start c n)"
  by (simp add: chan_start_def fifo_def receivers_live_def senders_live_def number_def)

lemma reachable_live: "ok c \<Longrightarrow> items c = [] \<Longrightarrow> chan_reachable ops (chan_start c n) s \<Longrightarrow>
    fifo s \<and> receivers_live s \<and> senders_live s"
  by (rotate_tac 2, induction rule: chan_reachable.induct)
    (use start_live step_fifo step_receivers step_senders in blast)+

end

section \<open>The ring buffer\<close>

definition ring_items :: "'v achan \<Rightarrow> 'v option list" where
  "ring_items c = map (\<lambda>k. a_buf c ! ((a_tail c + k) mod a_cap c)) [0..<a_len c]"

definition ring_ok :: "'v achan \<Rightarrow> bool" where
  "ring_ok c \<longleftrightarrow> 0 < a_cap c \<and> a_len c \<le> a_cap c \<and> a_tail c < a_cap c \<and>
     a_head c = (a_tail c + a_len c) mod a_cap c \<and> length (a_buf c) = a_cap c"

lemma ring_length [simp]: "length (ring_items c) = a_len c"
  by (simp add: ring_items_def)

lemma ring_empty: "ring_items c = [] \<longleftrightarrow> a_len c = 0"
  by (simp add: ring_items_def)

lemma ring_put:
  assumes "ring_ok c" and "a_len c < a_cap c"
  shows "ring_ok (achan_put v c) \<and> ring_items (achan_put v c) = ring_items c @ [v]"
proof -
  have cap: "0 < a_cap c" "a_len c < a_cap c" "length (a_buf c) = a_cap c"
    and head: "a_head c = (a_tail c + a_len c) mod a_cap c"
    using assms by (simp_all add: ring_ok_def)
  have wrap: "(a_tail c + k) mod a_cap c = (if a_tail c + k < a_cap c then a_tail c + k else a_tail c + k - a_cap c)"
    if "k < a_cap c" for k
  proof (cases "a_tail c + k < a_cap c")
    case False
    then have "a_tail c + k - a_cap c < a_cap c" using that assms(1) unfolding ring_ok_def by linarith
    then show ?thesis using False by (simp add: le_mod_geq)
  qed simp
  have "(a_tail c + k) mod a_cap c \<noteq> a_head c" if "k < a_len c" for k
    using that cap wrap [of k] wrap [of "a_len c"] unfolding head by (auto split: if_splits)
  then have "map (\<lambda>k. (a_buf c)[a_head c := v] ! ((a_tail c + k) mod a_cap c)) [0..<a_len c] = ring_items c"
    unfolding ring_items_def by (intro map_cong refl) (metis atLeastLessThan_iff atLeastLessThan_upt nth_list_update_neq)
  moreover have "a_head c < length (a_buf c)" using cap head by simp
  ultimately have "ring_items (achan_put v c) = ring_items c @ [v]"
    by (simp add: ring_items_def achan_put_def flip: head)
  moreover have "ring_ok (achan_put v c)"
    using assms by (simp add: ring_ok_def achan_put_def mod_Suc_eq)
  ultimately show ?thesis by simp
qed

lemma ring_take:
  assumes "ring_ok c" and "a_len c \<noteq> 0"
  shows "fst (achan_take c) = hd (ring_items c) \<and> ring_ok (snd (achan_take c)) \<and>
    ring_items (snd (achan_take c)) = tl (ring_items c)"
proof -
  obtain n where n: "a_len c = Suc n" using assms(2) by (cases "a_len c") auto
  have cap: "0 < a_cap c" "a_tail c < a_cap c" using assms(1) by (simp_all add: ring_ok_def)
  have whole: "ring_items c = a_buf c ! a_tail c # map (\<lambda>k. a_buf c ! ((a_tail c + Suc k) mod a_cap c)) [0..<n]"
    unfolding ring_items_def n using cap(2)
    by (simp add: upt_conv_Cons map_Suc_upt [symmetric] comp_def del: upt_Suc)
  moreover have "ring_items (snd (achan_take c)) = map (\<lambda>k. a_buf c ! ((a_tail c + Suc k) mod a_cap c)) [0..<n]"
    by (simp add: ring_items_def achan_take_def n mod_add_left_eq)
  moreover have "ring_ok (snd (achan_take c))"
    using assms(1) n by (simp add: ring_ok_def achan_take_def mod_add_left_eq)
  ultimately show ?thesis by (simp add: achan_take_def)
qed

interpretation ring: channel achan_ops ring_ok ring_items "\<lambda>c. Some (a_cap c)"
proof (unfold_locales, goal_cases)
  case (3 c v)
  then show ?case using ring_put [of c v] by (simp add: achan_ops_def) (simp add: achan_put_def)
next
  case (4 c v c')
  then show ?case using ring_take [of c] by (auto simp: achan_ops_def ring_empty) (auto simp: achan_take_def)
next
  case (5 c)
  then show ?case by (simp add: achan_ops_def duxrt_achan_close_def ring_ok_def ring_items_def)
qed (auto simp: achan_ops_def ring_empty)

lemma ring_new: "ring_ok (duxrt_achan_new cap)" "ring_items (duxrt_achan_new cap) = []"
    "a_cap (duxrt_achan_new cap) = nat (max 1 cap)"
  by (auto simp: ring_ok_def ring_items_def duxrt_achan_new_def Let_def)

section \<open>The linked queue\<close>

definition linked_ok :: "'v chan \<Rightarrow> bool" where
  "linked_ok c \<longleftrightarrow> n_len c = length (n_nodes c)"

definition linked_capacity :: "'v chan \<Rightarrow> nat option" where
  "linked_capacity c = (if 0 < n_cap c then Some (nat (n_cap c)) else None)"

interpretation linked: channel chan_ops linked_ok n_nodes linked_capacity
  by unfold_locales
    (auto simp: chan_ops_def linked_ok_def linked_capacity_def chan_full_def chan_put_def chan_take_def duxrt_chan_close_def)

lemma linked_new: "linked_ok (duxrt_chan_new cap)" "n_nodes (duxrt_chan_new cap) = []"
  by (simp_all add: linked_ok_def duxrt_chan_new_def)

section \<open>What channels promise\<close>

text \<open>
  C7. Channels are queues: however any number of threads send, receive, try and close, whatever the
  order of their steps and whichever sleeper a signal wakes, the values received from a channel of
  either kind are the values put in, in that order, none lost and none twice, the ones in between
  still being in the buffer; a ring buffer never holds more than its capacity, and its indices
  stay inside it.
\<close>

theorem channels_are_fifo:
  "(chan_reachable achan_ops (chan_start (duxrt_achan_new cap) n) s \<longrightarrow>
     cs_sent s = cs_got s @ ring_items (cs_chan s) \<and> ring_ok (cs_chan s)) \<and>
   (chan_reachable chan_ops (chan_start (duxrt_chan_new cap) n) t \<longrightarrow>
     cs_sent t = cs_got t @ n_nodes (cs_chan t) \<and> n_len (cs_chan t) = length (n_nodes (cs_chan t)))"
  using ring.reachable_live [OF ring_new(1,2), of cap n s] linked.reachable_live [OF linked_new, of cap n t]
  by (auto simp: ring.fifo_def linked.fifo_def linked_ok_def)

text \<open>
  C16. No wake-up is lost: in every reachable state of a channel of either kind, if a thread sleeps in
  \<open>recv\<close>, the channel is open and at least as many threads are awake inside \<open>recv\<close> as there are values
  waiting, so values do not wait while all receivers sleep; if a thread sleeps in \<open>send\<close>, the channel is open and
  bounded, and the threads awake inside \<open>send\<close> are at least as many as the free places.
\<close>

theorem no_lost_wakeups:
  "(chan_reachable achan_ops (chan_start (duxrt_achan_new cap) n) s \<longrightarrow>
     (RecvAsleep \<in> set (cs_threads s) \<longrightarrow> \<not> a_closed (cs_chan s) \<and>
        a_len (cs_chan s) \<le> number is_receiving (cs_threads s)) \<and>
     (SendAsleep v \<in> set (cs_threads s) \<longrightarrow> \<not> a_closed (cs_chan s) \<and>
        a_cap (cs_chan s) - a_len (cs_chan s) \<le> number is_sending (cs_threads s))) \<and>
   (chan_reachable chan_ops (chan_start (duxrt_chan_new cap) n) t \<longrightarrow>
     (RecvAsleep \<in> set (cs_threads t) \<longrightarrow> \<not> n_closed (cs_chan t) \<and>
        n_len (cs_chan t) \<le> number is_receiving (cs_threads t)) \<and>
     (SendAsleep v \<in> set (cs_threads t) \<longrightarrow> \<not> n_closed (cs_chan t) \<and> 0 < n_cap (cs_chan t) \<and>
        n_cap (cs_chan t) - int (n_len (cs_chan t)) \<le> int (number is_sending (cs_threads t))))"
proof -
  have sleeping: "RecvAsleep \<in> set ts \<Longrightarrow> 0 < number recv_asleep ts" "SendAsleep v \<in> set ts \<Longrightarrow> 0 < number send_asleep ts"
    for ts :: "'a option thread list" and v
    using number_0 [of recv_asleep ts] number_0 [of send_asleep ts] by force+
  have closed: "o_closed achan_ops = a_closed" "o_closed chan_ops = n_closed"
    by (simp_all add: achan_ops_def chan_ops_def)
  note ring = ring.reachable_live [OF ring_new(1,2), of cap n s]
  note linked = linked.reachable_live [OF linked_new, of cap n t]
  show ?thesis (is "?ring \<and> ?linked")
  proof
    show ?ring using ring sleeping by (auto simp: ring.receivers_live_def ring.senders_live_def closed)
    show ?linked using linked sleeping
      by (auto simp: linked.receivers_live_def linked.senders_live_def linked.fifo_def linked_ok_def
          linked_capacity_def closed split: if_splits)
  qed
qed

text \<open>A run of three threads: two go to sleep in \<open>recv\<close>, the third puts a value in and wakes one of them.\<close>

definition one_woken :: "(nat achan, nat option) chan_sys" where
  "one_woken = \<lparr>cs_chan = achan_put (Some 5) (duxrt_achan_new 2), cs_threads = [Receiving, RecvAsleep, Resting],
     cs_sent = [Some 5], cs_got = []\<rparr>"

lemma one_woken_reachable: "chan_reachable achan_ops (chan_start (duxrt_achan_new 2) 3) one_woken"
proof -
  let ?s = "\<lambda>ts. \<lparr>cs_chan = duxrt_achan_new 2, cs_threads = ts, cs_sent = [], cs_got = []\<rparr> :: (nat achan, nat option) chan_sys"
  have empty: "o_empty achan_ops (duxrt_achan_new 2 :: nat achan)" "\<not> o_closed achan_ops (duxrt_achan_new 2 :: nat achan)"
      "\<not> o_full achan_ops (duxrt_achan_new 2 :: nat achan)" "o_put achan_ops = (achan_put :: nat option \<Rightarrow> _)"
    by (simp_all add: achan_ops_def duxrt_achan_new_def Let_def)
  have "chan_reachable achan_ops (chan_start (duxrt_achan_new 2) 3) (?s [Resting, Resting, Resting])"
    using chan_reachable.start [of achan_ops "chan_start (duxrt_achan_new 2) 3"] by (simp add: chan_start_def numeral_3_eq_3)
  then have "chan_reachable achan_ops (chan_start (duxrt_achan_new 2) 3) (?s [Receiving, Resting, Resting])"
    using chan_step.call_recv [of 0 "?s [Resting, Resting, Resting]" achan_ops] by (auto intro: chan_reachable.step)
  then have "chan_reachable achan_ops (chan_start (duxrt_achan_new 2) 3) (?s [RecvAsleep, Resting, Resting])"
    using chan_step.recv_wait [of 0 "?s [Receiving, Resting, Resting]" achan_ops] empty by (auto intro: chan_reachable.step)
  then have "chan_reachable achan_ops (chan_start (duxrt_achan_new 2) 3) (?s [RecvAsleep, Receiving, Resting])"
    using chan_step.call_recv [of 1 "?s [RecvAsleep, Resting, Resting]" achan_ops] by (auto intro: chan_reachable.step)
  then have "chan_reachable achan_ops (chan_start (duxrt_achan_new 2) 3) (?s [RecvAsleep, RecvAsleep, Resting])"
    using chan_step.recv_wait [of 1 "?s [RecvAsleep, Receiving, Resting]" achan_ops] empty by (auto intro: chan_reachable.step)
  moreover have "signalled recv_asleep [RecvAsleep, RecvAsleep, Resting] [Receiving, RecvAsleep, Resting :: nat option thread]"
    using signalled.one [of 0 "[RecvAsleep, RecvAsleep, Resting :: nat option thread]" recv_asleep] by simp
  then have "chan_step achan_ops (?s [RecvAsleep, RecvAsleep, Resting]) one_woken"
    using chan_step.try_send [where i = 2 and s = "?s [RecvAsleep, RecvAsleep, Resting]" and ops = achan_ops
      and ts = "[Receiving, RecvAsleep, Resting]" and v = "Some 5"] empty
    by (simp add: one_woken_def)
  ultimately show ?thesis by (rule chan_reachable.step)
qed

theorem channels_are_fifo_witness:
  "cs_sent one_woken = [Some 5] \<and> cs_sent one_woken = cs_got one_woken @ ring_items (cs_chan one_woken)"
  using channels_are_fifo [THEN conjunct1, THEN mp, OF one_woken_reachable] by (simp add: one_woken_def)

theorem no_lost_wakeups_witness:
  "RecvAsleep \<in> set (cs_threads one_woken) \<and> a_len (cs_chan one_woken) \<le> number is_receiving (cs_threads one_woken)"
  using no_lost_wakeups [THEN conjunct1, THEN mp, OF one_woken_reachable] by (auto simp: one_woken_def)

end
