(* ===== verification/Rt_Tasks.thy ===== *)
theory Rt_Tasks
  imports Rt_Outcome "HOL-Library.Multiset"
begin

text \<open>
  The thread pool (\<^verbatim>\<open>src/runtime/pool_rt.c\<close>) and the futures (\<^verbatim>\<open>src/runtime/future_rt.c\<close>), with the
  threads that run in them. As for channels a critical section is one step; a thread that waits on a
  condition variable is asleep until a signal reaches it.
\<close>

section \<open>The pool\<close>

record 'a pool =
  pl_queue :: "'a list"
  pl_pending :: int
  pl_shutdown :: bool

text \<open>A worker is at the test of its loop, asleep on \<open>not_empty\<close>, running a task outside the lock, or gone.\<close>

datatype 'a worker =
    Testing
  | Dozing
  | Running 'a
  | Exited

text \<open>A thread in \<open>duxrt_pool_wait\<close> is at the test, asleep on \<open>all_done\<close>, or back.\<close>

datatype client = ClientTesting | ClientAsleep | ClientBack

text \<open>The pool, its workers, the threads that wait for it, and the tasks submitted, started and finished.\<close>

record 'a pool_sys =
  ps_pool :: "'a pool"
  ps_workers :: "'a worker list"
  ps_clients :: "client list"
  ps_submitted :: "'a list"
  ps_started :: "'a list"
  ps_finished :: "'a list"

definition pool_workers :: "int \<Rightarrow> nat" where
  "pool_workers n = nat (if n \<le> 0 then 4 else n)"

definition pool_fresh :: "'a pool" where
  "pool_fresh = \<lparr>pl_queue = [], pl_pending = 0, pl_shutdown = False\<rparr>"

definition duxrt_pool_new :: "int \<Rightarrow> 'a pool_sys" where
  "duxrt_pool_new n = \<lparr>ps_pool = pool_fresh, ps_workers = replicate (pool_workers n) Testing,
     ps_clients = [], ps_submitted = [], ps_started = [], ps_finished = []\<rparr>"

text \<open>The changes of the queue and the counter.\<close>

definition pool_enqueue :: "'a \<Rightarrow> 'a pool \<Rightarrow> 'a pool" where
  "pool_enqueue t p = p\<lparr>pl_pending := pl_pending p + 1, pl_queue := pl_queue p @ [t]\<rparr>"

definition pool_dequeue :: "'a pool \<Rightarrow> 'a pool" where
  "pool_dequeue p = p\<lparr>pl_queue := tl (pl_queue p)\<rparr>"

definition pool_complete :: "'a pool \<Rightarrow> 'a pool" where
  "pool_complete p = p\<lparr>pl_pending := pl_pending p - 1\<rparr>"

definition pool_stop :: "'a pool \<Rightarrow> 'a pool" where
  "pool_stop p = p\<lparr>pl_shutdown := True\<rparr>"

fun worker_awake :: "'a worker \<Rightarrow> 'a worker" where
  "worker_awake Dozing = Testing"
| "worker_awake w = w"

fun client_awake :: "client \<Rightarrow> client" where
  "client_awake ClientAsleep = ClientTesting"
| "client_awake c = c"

inductive worker_signalled :: "'a worker list \<Rightarrow> 'a worker list \<Rightarrow> bool" where
  one: "j < length ws \<Longrightarrow> ws ! j = Dozing \<Longrightarrow> worker_signalled ws (ws[j := Testing])"
| nobody: "Dozing \<notin> set ws \<Longrightarrow> worker_signalled ws ws"

inductive pool_step :: "'a pool_sys \<Rightarrow> 'a pool_sys \<Rightarrow> bool" where
  submit: "worker_signalled (ps_workers s) ws \<Longrightarrow>
    pool_step s (s\<lparr>ps_pool := pool_enqueue t (ps_pool s), ps_workers := ws, ps_submitted := ps_submitted s @ [t]\<rparr>)"
| doze: "i < length (ps_workers s) \<Longrightarrow> ps_workers s ! i = Testing \<Longrightarrow>
    \<not> pl_shutdown (ps_pool s) \<Longrightarrow> pl_queue (ps_pool s) = [] \<Longrightarrow>
    pool_step s (s\<lparr>ps_workers := (ps_workers s)[i := Dozing]\<rparr>)"
| exit: "i < length (ps_workers s) \<Longrightarrow> ps_workers s ! i = Testing \<Longrightarrow>
    pl_shutdown (ps_pool s) \<Longrightarrow> pl_queue (ps_pool s) = [] \<Longrightarrow>
    pool_step s (s\<lparr>ps_workers := (ps_workers s)[i := Exited]\<rparr>)"
| take_task: "i < length (ps_workers s) \<Longrightarrow> ps_workers s ! i = Testing \<Longrightarrow> pl_queue (ps_pool s) = t # q \<Longrightarrow>
    pool_step s (s\<lparr>ps_pool := pool_dequeue (ps_pool s), ps_workers := (ps_workers s)[i := Running t],
      ps_started := ps_started s @ [t]\<rparr>)"
| finish_task: "i < length (ps_workers s) \<Longrightarrow> ps_workers s ! i = Running t \<Longrightarrow> p = pool_complete (ps_pool s) \<Longrightarrow>
    pool_step s (s\<lparr>ps_pool := p, ps_workers := (ps_workers s)[i := Testing],
      ps_clients := (if pl_pending p = 0 then map client_awake (ps_clients s) else ps_clients s),
      ps_finished := ps_finished s @ [t]\<rparr>)"
| call_wait: "pool_step s (s\<lparr>ps_clients := ps_clients s @ [ClientTesting]\<rparr>)"
| wait_sleep: "i < length (ps_clients s) \<Longrightarrow> ps_clients s ! i = ClientTesting \<Longrightarrow> pl_pending (ps_pool s) > 0 \<Longrightarrow>
    pool_step s (s\<lparr>ps_clients := (ps_clients s)[i := ClientAsleep]\<rparr>)"
| wait_return: "i < length (ps_clients s) \<Longrightarrow> ps_clients s ! i = ClientTesting \<Longrightarrow> \<not> pl_pending (ps_pool s) > 0 \<Longrightarrow>
    pool_step s (s\<lparr>ps_clients := (ps_clients s)[i := ClientBack]\<rparr>)"
| shutdown: "pool_step s (s\<lparr>ps_pool := pool_stop (ps_pool s), ps_workers := map worker_awake (ps_workers s)\<rparr>)"
| worker_spurious: "i < length (ps_workers s) \<Longrightarrow>
    pool_step s (s\<lparr>ps_workers := (ps_workers s)[i := worker_awake (ps_workers s ! i)]\<rparr>)"
| client_spurious: "i < length (ps_clients s) \<Longrightarrow>
    pool_step s (s\<lparr>ps_clients := (ps_clients s)[i := client_awake (ps_clients s ! i)]\<rparr>)"

inductive pool_reachable :: "int \<Rightarrow> 'a pool_sys \<Rightarrow> bool" for n where
  new: "pool_reachable n (duxrt_pool_new n)"
| step: "pool_reachable n s \<Longrightarrow> pool_step s s' \<Longrightarrow> pool_reachable n s'"

text \<open>The joins of \<open>duxrt_pool_shutdown\<close> return when every worker is gone.\<close>

definition all_joined :: "'a pool_sys \<Rightarrow> bool" where
  "all_joined s \<longleftrightarrow> (\<forall>w\<in>set (ps_workers s). w = Exited)"

section \<open>Futures\<close>

record 'v future =
  fu_result :: "'v option"
  fu_done :: bool
  fu_refs :: int

definition duxrt_future_new :: "'v future" where
  "duxrt_future_new = \<lparr>fu_result = None, fu_done = False, fu_refs = 1\<rparr>"

definition duxrt_future_retain :: "'v future \<Rightarrow> 'v future" where
  "duxrt_future_retain f = f\<lparr>fu_refs := fu_refs f + 1\<rparr>"

text \<open>What is left after \<open>duxrt_future_free\<close>: still owned, to be destroyed once done, or destroyed.\<close>

datatype 'v freed = StillOwned "'v future" | WaitsForResult "'v future" | Destroyed

definition duxrt_future_free :: "'v future \<Rightarrow> 'v freed" where
  "duxrt_future_free f = (let f' = f\<lparr>fu_refs := fu_refs f - 1\<rparr>
     in if fu_refs f \<noteq> 1 then StillOwned f' else if \<not> fu_done f then WaitsForResult f' else Destroyed)"

definition future_store :: "'v option \<Rightarrow> 'v future \<Rightarrow> 'v future" where
  "future_store r f = f\<lparr>fu_result := r, fu_done := True\<rparr>"

text \<open>A thread is outside, at the test of the loop of \<open>await\<close>, asleep, or back with a result.\<close>

datatype 'v awaiter = Outside | Awaiting | AwaitAsleep | Got "'v option"

record 'v future_sys =
  fs_future :: "'v future"
  fs_threads :: "'v awaiter list"
  fs_results :: "'v option list"

inductive await_signalled :: "'v awaiter list \<Rightarrow> 'v awaiter list \<Rightarrow> bool" where
  one: "j < length ts \<Longrightarrow> ts ! j = AwaitAsleep \<Longrightarrow> await_signalled ts (ts[j := Awaiting])"
| nobody: "AwaitAsleep \<notin> set ts \<Longrightarrow> await_signalled ts ts"

text \<open>
  The steps, with the value stored for \<open>duxrt_future_set\<close> and \<open>None\<close> for the others. POSIX allows a
  sleeping thread to wake up without a signal but does not promise it; there is no such step here.
\<close>

inductive future_step :: "'v option option \<Rightarrow> 'v future_sys \<Rightarrow> 'v future_sys \<Rightarrow> bool" where
  call_await: "i < length (fs_threads s) \<Longrightarrow> fs_threads s ! i = Outside \<Longrightarrow>
    future_step None s (s\<lparr>fs_threads := (fs_threads s)[i := Awaiting]\<rparr>)"
| await_sleep: "i < length (fs_threads s) \<Longrightarrow> fs_threads s ! i = Awaiting \<Longrightarrow> \<not> fu_done (fs_future s) \<Longrightarrow>
    future_step None s (s\<lparr>fs_threads := (fs_threads s)[i := AwaitAsleep]\<rparr>)"
| await_return: "i < length (fs_threads s) \<Longrightarrow> fs_threads s ! i = Awaiting \<Longrightarrow> fu_done (fs_future s) \<Longrightarrow>
    future_step None s (s\<lparr>fs_threads := (fs_threads s)[i := Got (fu_result (fs_future s))]\<rparr>)"
| set_result: "await_signalled (fs_threads s) ts \<Longrightarrow>
    future_step (Some r) s (s\<lparr>fs_future := future_store r (fs_future s), fs_threads := ts, fs_results := fs_results s @ [r]\<rparr>)"

definition future_start :: "nat \<Rightarrow> 'v future_sys" where
  "future_start n = \<lparr>fs_future = duxrt_future_new, fs_threads = replicate n Outside, fs_results = []\<rparr>"

inductive future_reachable :: "'v future_sys \<Rightarrow> 'v future_sys \<Rightarrow> bool" for s0 where
  start: "future_reachable s0 s0"
| step: "future_reachable s0 s \<Longrightarrow> future_step e s s' \<Longrightarrow> future_reachable s0 s'"

text \<open>Without another \<open>duxrt_future_set\<close>.\<close>

inductive await_reachable :: "'v future_sys \<Rightarrow> 'v future_sys \<Rightarrow> bool" for s0 where
  here: "await_reachable s0 s0"
| more: "await_reachable s0 s \<Longrightarrow> future_step None s s' \<Longrightarrow> await_reachable s0 s'"

text \<open>The size of the global pool: what was set, or the number of processors, between 2 and 16.\<close>

definition global_pool_size :: "int \<Rightarrow> int \<Rightarrow> int" where
  "global_pool_size g_pool_size cpus =
     (let n = (if g_pool_size > 0 then g_pool_size else 4);
          n = (if cpus > 0 \<and> g_pool_size = 0 then cpus else n);
          n = (if n < 2 then 2 else n)
      in if n > 16 then 16 else n)"

end
