(* ===== verification/Rt_Tasks_Properties.thy ===== *)
theory Rt_Tasks_Properties
  imports Rt_Tasks
begin

text \<open>
  The pool runs every task it accepts exactly once and in order, \<open>wait\<close> returns only when all are done
  and nobody sleeps while there is work; a future gives its result to one waiting thread, but only
  to one.
\<close>

section \<open>Invariants of the pool\<close>

definition task_of :: "'a worker \<Rightarrow> 'a list" where
  "task_of w = (case w of Running t \<Rightarrow> [t] | _ \<Rightarrow> [])"

definition running :: "'a worker list \<Rightarrow> 'a list" where
  "running ws = concat (map task_of ws)"

lemma running_update: "i < length ws \<Longrightarrow>
    mset (running (ws[i := x])) + mset (task_of (ws ! i)) = mset (running ws) + mset (task_of x)"
proof (induction ws arbitrary: i)
  case (Cons w ws)
  show ?case
  proof (cases i)
    case (Suc j)
    then show ?thesis using Cons.IH [of j] Cons.prems by (simp add: running_def)
  qed (simp add: running_def)
qed simp

lemma task_of_simps [simp]: "task_of Testing = []" "task_of Dozing = []" "task_of Exited = []" "task_of (Running t) = [t]"
  by (simp_all add: task_of_def)

lemma running_same: "i < length ws \<Longrightarrow> task_of x = task_of (ws ! i) \<Longrightarrow> mset (running (ws[i := x])) = mset (running ws)"
  using running_update [of i ws x] by simp

lemma length_running: "mset (running ws) = mset (running ws') \<Longrightarrow> length (running ws) = length (running ws')"
  by (rule mset_eq_length)

lemmas length_same = length_running [OF running_same]

lemma running_awake: "running (map worker_awake ws) = running ws"
proof -
  have "task_of (worker_awake w) = task_of w" for w :: "'a worker" by (cases w) simp_all
  then show ?thesis by (simp add: running_def comp_def)
qed

lemma running_signalled: "worker_signalled ws ws' \<Longrightarrow> mset (running ws') = mset (running ws)"
  by (induction rule: worker_signalled.induct) (simp_all add: running_same)

definition is_testing :: "'a worker \<Rightarrow> bool" where
  "is_testing w \<longleftrightarrow> w = Testing"

definition is_dozing :: "'a worker \<Rightarrow> bool" where
  "is_dozing w \<longleftrightarrow> w = Dozing"

lemma is_simps [simp]: "is_testing Testing" "\<not> is_testing Dozing" "\<not> is_testing Exited" "\<not> is_testing (Running t)"
    "is_dozing Dozing" "\<not> is_dozing Testing" "\<not> is_dozing Exited" "\<not> is_dozing (Running t)"
  by (simp_all add: is_testing_def is_dozing_def)

lemma signalled_numbers: "worker_signalled ws ws' \<Longrightarrow>
    (if number is_dozing ws = 0 then number is_dozing ws' = 0 \<and> number is_testing ws' = number is_testing ws
     else number is_dozing ws' = number is_dozing ws - 1 \<and> number is_testing ws' = number is_testing ws + 1)"
proof (induction rule: worker_signalled.induct)
  case (one j ws)
  have "0 < number is_dozing ws" using one number_pos [of j ws is_dozing] by simp
  then show ?case using one number_update [OF one(1), of is_dozing Testing] number_update [OF one(1), of is_testing Testing]
    by simp
next
  case (nobody ws)
  then have "\<forall>w\<in>set ws. \<not> is_dozing w" by (auto simp: is_dozing_def)
  then have "number is_dozing ws = 0" by (simp only: number_0)
  then show ?case by simp
qed

definition tasks_ok :: "'a pool_sys \<Rightarrow> bool" where
  "tasks_ok s \<longleftrightarrow> ps_started s @ pl_queue (ps_pool s) = ps_submitted s \<and>
     mset (ps_started s) = mset (running (ps_workers s)) + mset (ps_finished s) \<and>
     pl_pending (ps_pool s) = int (length (pl_queue (ps_pool s))) + int (length (running (ps_workers s)))"

definition workers_live :: "'a pool_sys \<Rightarrow> bool" where
  "workers_live s \<longleftrightarrow> (0 < number is_dozing (ps_workers s) \<longrightarrow> \<not> pl_shutdown (ps_pool s) \<and>
     length (pl_queue (ps_pool s)) \<le> number is_testing (ps_workers s))"

definition clients_live :: "'a pool_sys \<Rightarrow> bool" where
  "clients_live s \<longleftrightarrow> (ClientAsleep \<in> set (ps_clients s) \<longrightarrow> pl_pending (ps_pool s) > 0)"

lemmas pool_defs = pool_enqueue_def pool_dequeue_def pool_complete_def pool_stop_def

lemma step_tasks: "pool_step s s' \<Longrightarrow> tasks_ok s \<Longrightarrow> tasks_ok s'"
proof (induction rule: pool_step.induct)
  case (submit s ws t)
  then show ?case using running_signalled [OF submit(1)] length_running [OF running_signalled [OF submit(1)]]
    by (auto simp: tasks_ok_def pool_defs)
next
  case (doze i s)
  then show ?case using running_same [of i "ps_workers s" Dozing] length_same [of i "ps_workers s" Dozing] by (auto simp: tasks_ok_def)
next
  case (exit i s)
  then show ?case using running_same [of i "ps_workers s" Exited] length_same [of i "ps_workers s" Exited] by (auto simp: tasks_ok_def)
next
  case (take_task i s t q)
  then have m: "mset (running ((ps_workers s)[i := Running t])) = add_mset t (mset (running (ps_workers s)))"
    using running_update [of i "ps_workers s" "Running t"] by simp
  have "length (running ((ps_workers s)[i := Running t])) = Suc (length (running (ps_workers s)))"
    using arg_cong [OF m, of size] by simp
  then show ?case using take_task m by (auto simp: tasks_ok_def pool_defs)
next
  case (finish_task i s t p)
  then have m: "add_mset t (mset (running ((ps_workers s)[i := Testing]))) = mset (running (ps_workers s))"
    using running_update [of i "ps_workers s" Testing] by simp
  have "Suc (length (running ((ps_workers s)[i := Testing]))) = length (running (ps_workers s))"
    using arg_cong [OF m, of size] by simp
  then show ?case using finish_task m by (auto simp: tasks_ok_def pool_defs)
next
  case (shutdown s)
  then show ?case by (simp add: tasks_ok_def pool_defs running_awake)
next
  case (worker_spurious i s)
  have "task_of (worker_awake w) = task_of w" for w :: "'a worker" by (cases w) simp_all
  then have "mset (running ((ps_workers s)[i := worker_awake (ps_workers s ! i)])) = mset (running (ps_workers s))"
    using running_same [of i "ps_workers s"] worker_spurious(1) by simp
  then show ?case using worker_spurious length_running by (fastforce simp: tasks_ok_def)
qed (auto simp: tasks_ok_def)

lemma step_workers: "pool_step s s' \<Longrightarrow> workers_live s \<Longrightarrow> workers_live s'"
proof (induction rule: pool_step.induct)
  case (submit s ws t)
  then show ?case using signalled_numbers [OF submit(1)] by (auto simp: workers_live_def pool_defs split: if_splits)
next
  case (doze i s)
  then show ?case using number_update [OF doze(1), of is_dozing Dozing] number_update [OF doze(1), of is_testing Dozing]
    by (auto simp: workers_live_def)
next
  case (exit i s)
  then show ?case using number_update [OF exit(1), of is_dozing Exited] number_update [OF exit(1), of is_testing Exited]
    by (auto simp: workers_live_def)
next
  case (take_task i s t q)
  then show ?case using number_update [OF take_task(1), of is_dozing "Running t"]
      number_update [OF take_task(1), of is_testing "Running t"]
    by (auto simp: workers_live_def pool_defs)
next
  case (finish_task i s t p)
  then show ?case using number_update [OF finish_task(1), of is_dozing Testing]
      number_update [OF finish_task(1), of is_testing Testing]
    by (auto simp: workers_live_def pool_defs)
next
  case (shutdown s)
  have "\<not> is_dozing (worker_awake w)" for w :: "'a worker" by (cases w) simp_all
  then have "number is_dozing (map worker_awake (ps_workers s)) = 0" by (simp add: number_0)
  then show ?case by (simp add: workers_live_def)
next
  case (worker_spurious i s)
  then show ?case
    using number_update [of i "ps_workers s" is_dozing "worker_awake (ps_workers s ! i)"]
      number_update [of i "ps_workers s" is_testing "worker_awake (ps_workers s ! i)"]
    by (cases "ps_workers s ! i") (auto simp: workers_live_def)
qed (auto simp: workers_live_def)

lemma step_clients: "pool_step s s' \<Longrightarrow> tasks_ok s \<Longrightarrow> clients_live s \<Longrightarrow> clients_live s'"
proof (induction rule: pool_step.induct)
  case (finish_task i s t p)
  have "ClientAsleep \<noteq> client_awake c" for c by (cases c) simp_all
  moreover have "0 \<le> pl_pending p"
    using finish_task step_tasks [OF pool_step.finish_task [OF finish_task(1-3)]] by (simp add: tasks_ok_def)
  ultimately show ?case using finish_task by (auto simp: clients_live_def)
next
  case (wait_sleep i s)
  then show ?case by (simp add: clients_live_def)
next
  case (wait_return i s)
  then show ?case by (auto simp: clients_live_def dest: set_update_subset_insert [THEN subsetD])
next
  case (client_spurious i s)
  then show ?case by (cases "ps_clients s ! i")
    (auto simp: clients_live_def dest!: set_update_subset_insert [THEN subsetD])
qed (auto simp: clients_live_def pool_defs tasks_ok_def)

lemma pool_invariant: "pool_reachable n s \<Longrightarrow> tasks_ok s \<and> workers_live s \<and> clients_live s"
proof (induction rule: pool_reachable.induct)
  case new
  have "running (replicate k (Testing :: 'a worker)) = []" for k by (simp add: running_def)
  then show ?case
    by (simp add: duxrt_pool_new_def pool_fresh_def tasks_ok_def workers_live_def clients_live_def number_def)
next
  case (step s s')
  then show ?case using step_tasks step_workers step_clients by blast
qed

section \<open>What the pool promises\<close>



lemma one_submitted: "pool_reachable 1
    \<lparr>ps_pool = pool_enqueue (7 :: nat) pool_fresh, ps_workers = [Testing], ps_clients = [],
     ps_submitted = [7], ps_started = [], ps_finished = []\<rparr>"
proof -
  have "pool_step (duxrt_pool_new 1) \<lparr>ps_pool = pool_enqueue (7 :: nat) pool_fresh, ps_workers = [Testing], ps_clients = [],
     ps_submitted = [7], ps_started = [], ps_finished = []\<rparr>"
    using pool_step.submit [OF worker_signalled.nobody, of "duxrt_pool_new 1" 7]
    by (simp add: duxrt_pool_new_def pool_workers_def)
  then show ?thesis by (rule pool_reachable.step [OF pool_reachable.new])
qed



text \<open>
  Nothing stops a task from being submitted after the shutdown: it is queued for workers that are
  gone, and a thread that waits for it sleeps for ever.
\<close>

theorem submit_after_shutdown_is_lost:
  "\<exists>s :: nat pool_sys. pool_reachable 1 s \<and> all_joined s \<and> pl_queue (ps_pool s) = [7] \<and> ps_clients s = [ClientAsleep]"
proof -
  let ?s = "\<lambda>p ws cs sub. \<lparr>ps_pool = p, ps_workers = ws, ps_clients = cs, ps_submitted = sub, ps_started = [], ps_finished = []\<rparr> :: nat pool_sys"
  let ?down = "pool_stop pool_fresh" let ?late = "pool_enqueue (7 :: nat) ?down"
  have new: "duxrt_pool_new 1 = ?s pool_fresh [Testing] [] []" by (simp add: duxrt_pool_new_def pool_workers_def)
  have down: "pl_shutdown ?down" "pl_queue ?down = []" by (simp_all add: pool_stop_def pool_fresh_def)
  have late: "pl_queue ?late = [7]" "pl_pending ?late = 1" by (simp_all add: pool_enqueue_def pool_stop_def pool_fresh_def)
  have "pool_reachable 1 (?s ?down [Testing] [] [])"
    using pool_reachable.step [OF pool_reachable.new pool_step.shutdown [of "duxrt_pool_new 1 :: nat pool_sys"]]
    unfolding new by simp
  moreover have "pool_step (?s ?down [Testing] [] []) (?s ?down [Exited] [] [])"
    using pool_step.exit [of 0 "?s ?down [Testing] [] []"] down by simp
  moreover have "pool_step (?s ?down [Exited] [] []) (?s ?late [Exited] [] [7])"
    using pool_step.submit [OF worker_signalled.nobody, of "?s ?down [Exited] [] []" 7] by simp
  moreover have "pool_step (?s ?late [Exited] [] [7]) (?s ?late [Exited] [ClientTesting] [7])"
    using pool_step.call_wait [of "?s ?late [Exited] [] [7]"] by simp
  moreover have "pool_step (?s ?late [Exited] [ClientTesting] [7]) (?s ?late [Exited] [ClientAsleep] [7])"
    using pool_step.wait_sleep [of 0 "?s ?late [Exited] [ClientTesting] [7]"] late by simp
  ultimately have "pool_reachable 1 (?s ?late [Exited] [ClientAsleep] [7])"
    by (blast intro: pool_reachable.step)
  then show ?thesis using late by (intro exI conjI) (auto simp: all_joined_def)
qed

section \<open>What futures promise\<close>

definition future_ok :: "'v future_sys \<Rightarrow> bool" where
  "future_ok s \<longleftrightarrow> (fu_done (fs_future s) \<longleftrightarrow> fs_results s \<noteq> []) \<and>
     (fs_results s \<noteq> [] \<longrightarrow> fu_result (fs_future s) = last (fs_results s)) \<and>
     (\<forall>r. Got r \<in> set (fs_threads s) \<longrightarrow> r \<in> set (fs_results s))"

lemma signalled_threads: "await_signalled ts ts' \<Longrightarrow> Got r \<in> set ts' \<Longrightarrow> Got r \<in> set ts"
  by (induction rule: await_signalled.induct) (auto dest!: set_update_subset_insert [THEN subsetD])

lemma future_step_ok: "future_step e s s' \<Longrightarrow> future_ok s \<Longrightarrow> future_ok s'"
proof (induction rule: future_step.induct)
  case (set_result s ts r)
  then show ?case by (auto simp: future_ok_def future_store_def dest: signalled_threads)
qed (auto simp: future_ok_def dest!: set_update_subset_insert [THEN subsetD])

lemma future_invariant: "future_reachable (future_start n) s \<Longrightarrow> future_ok s"
proof (induction rule: future_reachable.induct)
  case start
  then show ?case by (auto simp: future_ok_def future_start_def duxrt_future_new_def)
qed (auto intro: future_step_ok)

text \<open>
  C40. An awaited future gives the result of its worker: in every reachable state a thread that has come
  back from \<open>await\<close> holds a value that was stored, and so the value, when \<open>set\<close> is called once; before the first
  \<open>set\<close> nobody has come back.
\<close>

theorem await_returns_the_result:
  assumes "future_reachable (future_start n) s" and "Got r \<in> set (fs_threads s)"
  shows "r \<in> set (fs_results s) \<and> fu_done (fs_future s) \<and> (\<forall>v. fs_results s = [v] \<longrightarrow> r = v)"
  using future_invariant [OF assms(1)] assms(2) by (auto simp: future_ok_def)

text \<open>Two threads await, both asleep; the result is stored and one of them comes back.\<close>

definition one_back :: "nat future_sys" where
  "one_back = \<lparr>fs_future = future_store (Some 7) duxrt_future_new, fs_threads = [Got (Some 7), AwaitAsleep],
     fs_results = [Some 7]\<rparr>"

lemma one_back_reachable: "future_reachable (future_start 2) one_back"
proof -
  let ?s = "\<lambda>ts. \<lparr>fs_future = duxrt_future_new, fs_threads = ts, fs_results = []\<rparr> :: nat future_sys"
  let ?t = "\<lambda>ts. \<lparr>fs_future = future_store (Some 7) duxrt_future_new, fs_threads = ts, fs_results = [Some 7]\<rparr> :: nat future_sys"
  have open_future: "\<not> fu_done (duxrt_future_new :: nat future)" by (simp add: duxrt_future_new_def)
  note go = future_reachable.step [of "future_start 2"]
  have "future_reachable (future_start 2) (?s [Outside, Outside])"
    using future_reachable.start [of "future_start 2"] by (simp add: future_start_def numeral_2_eq_2)
  from go [OF this, of None "?s [Awaiting, Outside]"]
  have "future_reachable (future_start 2) (?s [Awaiting, Outside])"
    using future_step.call_await [of 0 "?s [Outside, Outside]"] by simp
  from go [OF this, of None "?s [AwaitAsleep, Outside]"]
  have "future_reachable (future_start 2) (?s [AwaitAsleep, Outside])"
    using future_step.await_sleep [of 0 "?s [Awaiting, Outside]"] open_future by simp
  from go [OF this, of None "?s [AwaitAsleep, Awaiting]"]
  have "future_reachable (future_start 2) (?s [AwaitAsleep, Awaiting])"
    using future_step.call_await [of 1 "?s [AwaitAsleep, Outside]"] by simp
  from go [OF this, of None "?s [AwaitAsleep, AwaitAsleep]"]
  have both: "future_reachable (future_start 2) (?s [AwaitAsleep, AwaitAsleep])"
    using future_step.await_sleep [of 1 "?s [AwaitAsleep, Awaiting]"] open_future by simp
  have "await_signalled [AwaitAsleep, AwaitAsleep] [Awaiting, AwaitAsleep :: nat awaiter]"
    using await_signalled.one [of 0 "[AwaitAsleep, AwaitAsleep :: nat awaiter]"] by simp
  then have "future_step (Some (Some 7)) (?s [AwaitAsleep, AwaitAsleep]) (?t [Awaiting, AwaitAsleep])"
    using future_step.set_result [of "?s [AwaitAsleep, AwaitAsleep]" "[Awaiting, AwaitAsleep]" "Some 7"] by simp
  from go [OF go [OF both this], of None one_back]
  show ?thesis
    using future_step.await_return [of 0 "?t [Awaiting, AwaitAsleep]"] by (simp add: future_store_def one_back_def)
qed

theorem await_returns_the_result_witness:
  "Got (Some 7) \<in> set (fs_threads one_back) \<and> Some 7 \<in> set (fs_results one_back)"
  using await_returns_the_result [OF one_back_reachable, of "Some 7"] by (simp add: one_back_def)

lemma nobody_moves: "future_step e s s' \<Longrightarrow> e = None \<Longrightarrow> fs_threads s = [Got r, AwaitAsleep] \<Longrightarrow> False"
  by (induction rule: future_step.induct) (auto simp: less_Suc_eq)

text \<open>
  The result reaches one waiting thread only: \<open>duxrt_future_set\<close> signals its condition variable once, so of two
  threads asleep in \<open>await\<close> one comes back and the other stays asleep on a future that is done,
  whatever the threads do, unless the result is stored again.
\<close>

theorem second_awaiter_sleeps_on:
  "\<exists>s. future_reachable (future_start 2) s \<and> fu_done (fs_future s) \<and> Got (Some 7) \<in> set (fs_threads s) \<and>
     (\<forall>s'. await_reachable s s' \<longrightarrow> fs_threads s' ! 1 = (AwaitAsleep :: nat awaiter))"
proof -
  have "fs_threads s' = [Got (Some 7), AwaitAsleep]" if "await_reachable one_back s'" for s'
    using that
  proof (induction rule: await_reachable.induct)
    case here
    then show ?case by (simp add: one_back_def)
  next
    case (more s s')
    from nobody_moves [OF more.hyps(2) refl more.IH] show ?case ..
  qed
  then have "\<forall>s'. await_reachable one_back s' \<longrightarrow> fs_threads s' ! 1 = AwaitAsleep" by simp
  moreover have "fu_done (fs_future one_back)" "Got (Some 7) \<in> set (fs_threads one_back)"
    by (simp_all add: one_back_def future_store_def)
  ultimately show ?thesis using one_back_reachable by blast
qed

end
