(* ===== verification/Rt_Random.thy ===== *)
theory Rt_Random
  imports Rt_List
begin

text \<open>
  The random numbers of the runtime (\<^verbatim>\<open>src/runtime/random_rt.c\<close>): the xoshiro256** generator, integers in a
  range and the shuffle. The static state is passed along. The floating-point functions are left out.
\<close>

unbundle bit_operations_syntax

record xoshiro =
  x0 :: "64 word"
  x1 :: "64 word"
  x2 :: "64 word"
  x3 :: "64 word"

definition random_start :: xoshiro where
  "random_start = \<lparr>x0 = 0x123456789abcdef0, x1 = 0xdeadbeef12345678, x2 = 0xfeedface87654321, x3 = 0xc0ffee9988776655\<rparr>"

definition rotl64 :: "64 word \<Rightarrow> nat \<Rightarrow> 64 word" where
  "rotl64 x k = push_bit k x OR drop_bit (64 - k) x"

definition xoshiro_next :: "xoshiro \<Rightarrow> 64 word \<times> xoshiro" where
  "xoshiro_next s =
     (let r = rotl64 (x1 s * 5) 7 * 9;
          t = push_bit 17 (x1 s);
          s = s\<lparr>x2 := x2 s XOR x0 s\<rparr>;
          s = s\<lparr>x3 := x3 s XOR x1 s\<rparr>;
          s = s\<lparr>x1 := x1 s XOR x2 s\<rparr>;
          s = s\<lparr>x0 := x0 s XOR x3 s\<rparr>;
          s = s\<lparr>x2 := x2 s XOR t\<rparr>;
          s = s\<lparr>x3 := rotl64 (x3 s) 45\<rparr>
      in (r, s))"

definition duxrt_random_seed :: "64 word \<Rightarrow> xoshiro" where
  "duxrt_random_seed seed =
     ((\<lambda>s. snd (xoshiro_next s)) ^^ 20)
       \<lparr>x0 = seed, x1 = seed XOR 0xdeadbeef, x2 = seed * 6364136223846793005, x3 = seed XOR 0xcafebabe\<rparr>"

text \<open>The difference and the sum are taken in 64 bits.\<close>

definition duxrt_random_int :: "int \<Rightarrow> int \<Rightarrow> xoshiro \<Rightarrow> int \<times> xoshiro" where
  "duxrt_random_int lo hi s =
     (if lo \<ge> hi then (lo, s)
      else let range = (word_of_int (int64 (hi - lo)) :: 64 word);
               (r, s) = xoshiro_next s
           in (int64 (lo + sint (r mod range)), s))"

text \<open>The loop of the shuffle, for \<open>i\<close> down to 1.\<close>

fun shuffle_loop :: "nat \<Rightarrow> dux_list \<Rightarrow> xoshiro \<Rightarrow> (dux_list \<times> xoshiro) c_run" where
  "shuffle_loop 0 l s = Done (l, s)"
| "shuffle_loop (Suc i) l s =
     (let (r, s) = xoshiro_next s; j = sint (r mod of_nat (Suc i + 1))
      in c_bind (duxrt_list_get (Some l) (int (Suc i))) (\<lambda>tmp.
         c_bind (duxrt_list_get (Some l) j) (\<lambda>v.
         c_bind (duxrt_list_set (Some l) (int (Suc i)) v) (\<lambda>l.
         c_bind (duxrt_list_set l j tmp) (\<lambda>l. case l of
             None \<Rightarrow> Wild
           | Some l \<Rightarrow> shuffle_loop i l s)))))"

definition duxrt_random_shuffle :: "dux_list option \<Rightarrow> xoshiro \<Rightarrow> (dux_list option \<times> xoshiro) c_run" where
  "duxrt_random_shuffle l s = (case l of
       None \<Rightarrow> Done (None, s)
     | Some l \<Rightarrow> c_bind (shuffle_loop (l_len l - 1) l s) (\<lambda>(l, s). Done (Some l, s)))"

end
