(* ===== verification/Rt_Random_Properties.thy ===== *)
theory Rt_Random_Properties
  imports Rt_Random Rt_List_Properties "HOL-Library.Multiset"
begin

text \<open>
  Random integers stay in their range, also when the range is wider than the signed integers; a
  shuffle keeps the elements of the list.
\<close>

section \<open>Signed and unsigned\<close>

lemma int64_add: "int64 (a + int64 b) = int64 (a + b)"
  unfolding int64_def by (simp add: mod_simps algebra_simps)

lemma sint_int64: "sint (w :: 64 word) = int64 (uint w)"
proof -
  have "sint w = signed_take_bit 63 (uint w)" by (simp add: sint_uint)
  then show ?thesis by (simp add: int64_def signed_take_bit_eq_take_bit_shift take_bit_eq_mod)
qed

lemma sint_small: "uint (w :: 64 word) < 2 ^ 63 \<Longrightarrow> sint w = uint w"
proof -
  assume "uint w < 2 ^ 63"
  moreover have "0 \<le> uint w" by (rule uint_ge_0)
  ultimately have "is_int64 (uint w)" unfolding is_int64_def by linarith
  then show ?thesis by (simp add: sint_int64 int64_id)
qed

text \<open>
  A random integer is in its range: for 64-bit bounds \<open>lo < hi\<close> and whatever the state of the
  generator, \<open>random_int\<close> returns a value \<open>r\<close> with \<open>lo \<le> r < hi\<close>, even if \<open>hi - lo\<close> does not fit in a signed
  64-bit integer, because the differences wrap consistently; for an empty range it returns \<open>lo\<close>
  and leaves the generator as it is.
\<close>

theorem random_int_in_range:
  assumes "is_int64 lo" and "is_int64 hi"
  shows "if lo < hi then lo \<le> fst (duxrt_random_int lo hi s) \<and> fst (duxrt_random_int lo hi s) < hi
    else duxrt_random_int lo hi s = (lo, s)"
proof (cases "lo < hi")
  case True
  let ?range = "word_of_int (int64 (hi - lo)) :: 64 word" and ?r = "fst (xoshiro_next s)"
  have diff: "0 < hi - lo" "hi - lo < 2 ^ 64" using True assms by (simp_all add: is_int64_def)
  have "uint ?range = (hi - lo) mod 2 ^ 64"
    by (simp only: uint_word_of_int) (simp add: int64_def mod_simps)
  then have range: "uint ?range = hi - lo" using diff by simp
  then have u: "0 \<le> uint (?r mod ?range)" "uint (?r mod ?range) < hi - lo"
    using diff pos_mod_bound [of "hi - lo" "uint ?r"] by (simp_all add: uint_mod_distrib)
  have "fst (duxrt_random_int lo hi s) = int64 (lo + sint (?r mod ?range))"
    using True by (simp add: duxrt_random_int_def Let_def split: prod.split)
  also have "\<dots> = int64 (lo + uint (?r mod ?range))" by (simp add: sint_int64 int64_add)
  also have "\<dots> = lo + uint (?r mod ?range)"
  proof (rule int64_id)
    show "is_int64 (lo + uint (?r mod ?range))" using u assms unfolding is_int64_def by linarith
  qed
  finally show ?thesis using u True by simp
qed (simp add: duxrt_random_int_def)

theorem random_int_in_range_witness:
  "fst (duxrt_random_int INT64_MIN INT64_MAX random_start) < INT64_MAX"
  using random_int_in_range [of INT64_MIN INT64_MAX random_start] by (simp add: is_int64_def INT64_MIN_def INT64_MAX_def)

section \<open>Shuffling\<close>

lemma get_cell: "k < l_len l \<Longrightarrow> duxrt_list_get (Some l) (int k) = Done (cells l ! k)"
  by (auto simp: duxrt_list_get_def slot_of_def Let_def cells_def l_len_def split: list_data.split)

lemma ucast_back: "ucast (ucast (w :: 32 word) :: 64 word) = w"
  by (rule bit_eqI) (simp add: bit_simps)

text \<open>What a cell of the list can hold.\<close>

definition fits :: "dux_list \<Rightarrow> 64 word \<Rightarrow> bool" where
  "fits l v \<longleftrightarrow> (case l_data l of PtrCells xs \<Rightarrow> True | I32Cells ws \<Rightarrow> ucast (ucast v :: 32 word) = v)"

lemma cells_fit: "k < l_len l \<Longrightarrow> fits l (cells l ! k)"
  by (auto simp: fits_def cells_def l_len_def ucast_back split: list_data.split)

lemma set_cell:
  assumes "k < l_len l" and "fits l v"
  shows "\<exists>l'. duxrt_list_set (Some l) (int k) v = Done (Some l') \<and> cells l' = (cells l)[k := v] \<and>
    l_len l' = l_len l \<and> l_cap l' = l_cap l \<and> l_refcount l' = l_refcount l \<and> fits l' = fits l"
proof (cases "l_data l")
  case (PtrCells xs)
  then show ?thesis using assms by (simp add: duxrt_list_set_def slot_of_def cells_def l_len_def fits_def fun_eq_iff)
next
  case (I32Cells ws)
  then show ?thesis using assms
    by (simp add: duxrt_list_set_def slot_of_def cells_def l_len_def fits_def fun_eq_iff map_update)
qed

definition same_shape :: "dux_list \<Rightarrow> dux_list \<Rightarrow> bool" where
  "same_shape l l' \<longleftrightarrow> mset (cells l') = mset (cells l) \<and> l_len l' = l_len l \<and> l_cap l' = l_cap l \<and>
     l_refcount l' = l_refcount l"

lemma swap_cells:
  assumes "i < l_len l" and "j < l_len l"
  shows "\<exists>l1 l2. duxrt_list_set (Some l) (int i) (cells l ! j) = Done (Some l1) \<and>
    duxrt_list_set (Some l1) (int j) (cells l ! i) = Done (Some l2) \<and> same_shape l l2"
proof -
  obtain l1 where l1: "duxrt_list_set (Some l) (int i) (cells l ! j) = Done (Some l1)" "cells l1 = (cells l)[i := cells l ! j]"
      "l_len l1 = l_len l" "l_cap l1 = l_cap l" "l_refcount l1 = l_refcount l" "fits l1 = fits l"
    using set_cell [OF assms(1) cells_fit [OF assms(2)]] by auto
  have "j < l_len l1" "fits l1 (cells l ! i)" using assms l1(3,6) cells_fit by simp_all
  from set_cell [OF this] obtain l2 where l2: "duxrt_list_set (Some l1) (int j) (cells l ! i) = Done (Some l2)"
      "cells l2 = (cells l1)[j := cells l ! i]" "l_len l2 = l_len l1" "l_cap l2 = l_cap l1" "l_refcount l2 = l_refcount l1"
    by auto
  have "mset (cells l2) = mset (cells l)"
    unfolding l1(2) l2(2) using mset_swap [of j "cells l" i] assms by simp
  then show ?thesis using l1 l2 by (auto simp: same_shape_def)
qed

lemma shuffle_loop_shape:
  assumes "i < l_len l \<or> i = 0" and "int (l_len l) \<le> INT64_MAX"
  shows "\<exists>l' s'. shuffle_loop i l s = Done (l', s') \<and> same_shape l l'"
  using assms
proof (induction i arbitrary: l s)
  case 0
  then show ?case by (simp add: same_shape_def)
next
  case (Suc i)
  obtain r s1 where next_r: "xoshiro_next s = (r, s1)" by fastforce
  let ?w = "of_nat (Suc i + 1) :: 64 word"
  define j where "j = unat (r mod ?w)"
  have small: "Suc i + 1 < 2 ^ 63" using Suc.prems by (simp add: INT64_MAX_def)
  then have w: "unat ?w = Suc i + 1" unfolding unat_of_nat by (intro mod_less) simp
  then have j: "j < Suc i + 1" unfolding j_def unat_mod_distrib by (simp add: mod_less_divisor)
  have "uint (r mod ?w) = int j" by (simp add: j_def)
  moreover have "int j < 2 ^ 63" using j small by simp
  ultimately have sj: "sint (r mod ?w) = int j" using sint_small [of "r mod ?w"] by simp
  have bounds: "Suc i < l_len l" "j < l_len l" using Suc.prems(1) j by auto
  obtain l1 l2 where sw: "duxrt_list_set (Some l) (int (Suc i)) (cells l ! j) = Done (Some l1)"
      "duxrt_list_set (Some l1) (int j) (cells l ! Suc i) = Done (Some l2)" "same_shape l l2"
    using swap_cells [OF bounds] by blast
  obtain l' s' where rest: "shuffle_loop i l2 s1 = Done (l', s')" "same_shape l2 l'"
    using Suc.IH [of l2 s1] sw(3) Suc.prems by (auto simp: same_shape_def)
  have "shuffle_loop (Suc i) l s = Done (l', s')"
    using rest(1) sw(1,2) get_cell [OF bounds(1)] get_cell [OF bounds(2)]
    unfolding shuffle_loop.simps next_r Let_def prod.case sj by simp
  then show ?case using sw(3) rest(2) by (auto simp: same_shape_def)
qed

text \<open>
  A shuffle is a permutation: whatever the state of the generator, shuffling a list of either kind
  succeeds without an index error and leaves the same elements, each as often as before, with the
  same length, capacity and reference count.
\<close>

theorem shuffle_permutes:
  assumes "int (l_len l) \<le> INT64_MAX"
  shows "\<exists>l' s'. duxrt_random_shuffle (Some l) s = Done (Some l', s') \<and> mset (cells l') = mset (cells l) \<and>
    l_len l' = l_len l \<and> l_cap l' = l_cap l \<and> l_refcount l' = l_refcount l"
proof -
  have "l_len l - 1 < l_len l \<or> l_len l - 1 = 0" by linarith
  from shuffle_loop_shape [OF this assms, of s] show ?thesis
    by (auto simp: duxrt_random_shuffle_def same_shape_def)
qed

theorem shuffle_permutes_witness:
  "\<exists>l' s'. duxrt_random_shuffle (Some \<lparr>l_refcount = 1, l_cap = 8, l_data = PtrCells [1, 2, 3]\<rparr>) random_start = Done (Some l', s') \<and>
     mset (cells l') = {#1, 2, 3#}"
  using shuffle_permutes [of "\<lparr>l_refcount = 1, l_cap = 8, l_data = PtrCells [1, 2, 3]\<rparr>" random_start]
  by (auto simp: l_len_def cells_def INT64_MAX_def)

end
