(* ===== verification/Cg_Ir.thy ===== *)
theory Cg_Ir
  imports Type_Registry Driver
begin

text \<open>
  The state of the code generator (\<^verbatim>\<open>src/codegen/codegen.hpp\<close>) and the part of the LLVM library it
  drives. LLVM is not in the repository: its module is kept as the plain record of what was created
  (functions, globals, basic blocks with their instructions in order), and the two computations of the library
  that decide what is created are parameters in the state: \<open>cg_fold\<close>, the constant folding of the
  instruction builder, and \<open>cg_size\<close>, the size of a type in memory. Names of values are left out, and so is debug
  information, which is only made on request.
\<close>

section \<open>Types, values and instructions\<close>

datatype lty = VoidTy | IntTy nat | FloatTy | DoubleTy | PtrTy | StructTy "lty list" | ArrayTy nat lty

definition is_int_ty :: "lty \<Rightarrow> bool" where
  "is_int_ty t = (case t of IntTy w \<Rightarrow> True | _ \<Rightarrow> False)"

definition is_fp_ty :: "lty \<Rightarrow> bool" where
  "is_fp_ty t \<longleftrightarrow> t = FloatTy \<or> t = DoubleTy"

definition int_width :: "lty \<Rightarrow> nat" where
  "int_width t = (case t of IntTy w \<Rightarrow> w | _ \<Rightarrow> 0)"

text \<open>
  An \<open>llvm::Value*\<close>. \<open>CallResult\<close> is what \<open>isa<CallInst>\<close> recognises; the result of an \<open>invoke\<close> is an \<open>Instr\<close>.
  Functions and globals are given by their position in the module.
\<close>

datatype val =
    Instr nat lty
  | CallResult nat lty
  | Argument nat nat lty
  | ConstInt nat int
  | ConstFP lty f64_bits
  | ConstNull lty
  | ConstStr string
  | FunVal nat
  | GlobVal nat

fun val_ty :: "val \<Rightarrow> lty" where
  "val_ty (Instr i t) = t"
| "val_ty (CallResult i t) = t"
| "val_ty (Argument f i t) = t"
| "val_ty (ConstInt w v) = IntTy w"
| "val_ty (ConstFP t v) = t"
| "val_ty (ConstNull t) = t"
| "val_ty (ConstStr s) = ArrayTy (length s + 1) (IntTy 8)"
| "val_ty (FunVal f) = PtrTy"
| "val_ty (GlobVal g) = PtrTy"

text \<open>\<open>ConstantInt::get\<close> of a width, and \<open>Constant::getNullValue\<close>.\<close>

definition const_int :: "nat \<Rightarrow> int \<Rightarrow> val" where
  "const_int w v = ConstInt w (v mod 2 ^ w)"

definition null_value :: "lty \<Rightarrow> val" where
  "null_value t = (case t of IntTy w \<Rightarrow> ConstInt w 0 | FloatTy \<Rightarrow> ConstFP t 0 | DoubleTy \<Rightarrow> ConstFP t 0 | _ \<Rightarrow> ConstNull t)"

abbreviation null_ptr :: val where
  "null_ptr \<equiv> ConstNull PtrTy"

datatype opcode =
    Add | Sub | Mul | SDiv | SRem | FAdd | FSub | FMul | FDiv | FRem | FNeg | Xor
  | ICmpEQ | ICmpNE | ICmpSLT | ICmpSGT | ICmpSLE | ICmpSGE
  | FCmpOEQ | FCmpONE | FCmpOLT | FCmpOGT | FCmpOLE | FCmpOGE
  | SIToFP | FPToSI | SExt | ZExt | Trunc | FPExt | BitCast | IntToPtr | PtrToInt
  | Select
  | StructGEP lty nat
  | ConstGEP lty int
  | IndexGEP lty

datatype inst =
    Alloca lty
  | Load lty val
  | Store val val
  | Op opcode "val list"
  | Call val "val list"
  | Phi lty "(val \<times> nat) list"
  | LandingPad
  | ExtractValue val nat
  | Br nat
  | CondBr val nat nat
  | Switch val nat "(val \<times> nat) list"
  | Ret val
  | RetVoid
  | Unreachable
  | Invoke val "val list" nat nat

fun is_terminator :: "inst \<Rightarrow> bool" where
  "is_terminator (Br b) = True"
| "is_terminator (CondBr v a b) = True"
| "is_terminator (Switch v d cs) = True"
| "is_terminator (Ret v) = True"
| "is_terminator RetVoid = True"
| "is_terminator Unreachable = True"
| "is_terminator (Invoke f as n u) = True"
| "is_terminator _ = False"

section \<open>The module\<close>

record fn =
  fn_name :: string
  fn_ret :: lty
  fn_params :: "(string \<times> lty) list"
  fn_vararg :: bool
  fn_personality :: bool

record glob =
  gl_name :: string
  gl_ty :: lty
  gl_const :: bool
  gl_tls :: bool
  gl_init :: "val list"

record block =
  bl_fn :: nat
  bl_name :: string
  bl_insts :: "(nat \<times> inst) list"

definition block_closed :: "block \<Rightarrow> bool" where
  "block_closed b \<longleftrightarrow> bl_insts b \<noteq> [] \<and> is_terminator (snd (last (bl_insts b)))"

section \<open>The state of the generator\<close>

record field_info =
  fi_name :: string
  fi_type :: type_id
  fi_index :: nat
  fi_init :: "expr option"

record method_info =
  mi_name :: string
  mi_slot :: nat
  mi_fn :: "nat option"
  mi_modifier :: string

record class_layout =
  cl_name :: string
  cl_parent :: string
  cl_struct :: lty
  cl_vtable :: "val option"
  cl_fields :: "field_info list"
  cl_methods :: "method_info list"

record loop_ctx =
  lc_header :: "nat option"
  lc_exit :: nat
  lc_label :: string

text \<open>An entry of the cleanup stack, by the field of \<open>ScopeCleanup\<close> that \<open>emit_scope_cleanup\<close> looks at.\<close>

datatype cleanup =
    RunDtor val string
  | RunRelease val string
  | RunDefer "stmt list"
  | RunFn nat

record cg =
  cg_driver :: driver
  cg_types :: registry
  cg_fold :: "opcode \<Rightarrow> val list \<Rightarrow> val option"
  cg_size :: "lty \<Rightarrow> int"
  cg_funs :: "fn list"
  cg_globals :: "glob list"
  cg_blocks :: "block list"
  cg_next :: nat
  cg_insert :: "nat option"
  cg_errors :: nat
  cg_env :: "(string \<rightharpoonup> val) list"
  cg_strs :: "val list list"
  cg_cleanups :: "cleanup list list"
  cg_str_lits :: "(string \<times> val) list"
  cg_layouts :: "string \<rightharpoonup> class_layout"
  cg_enums :: "string \<rightharpoonup> type_id"
  cg_var_class :: "string \<rightharpoonup> string"
  cg_typed_lists :: "string \<rightharpoonup> int"
  cg_last_kind :: int
  cg_alloca_ty :: "val \<rightharpoonup> lty"
  cg_loops :: "loop_ctx list"
  cg_lps :: "nat list"
  cg_std :: "string set"
  cg_modules :: "string set"
  cg_fn :: "nat option"
  cg_ret_type :: type_id
  cg_class :: string
  cg_namespace :: string
  cg_label :: string
  cg_lambdas :: nat
  cg_asyncs :: nat
  cg_fn_vars :: "string \<rightharpoonup> type_expr"
  cg_future :: "val option"

type_synonym 'a cgp = "(cg, 'a) prog"

definition new_codegen :: "driver \<Rightarrow> (opcode \<Rightarrow> val list \<Rightarrow> val option) \<Rightarrow> (lty \<Rightarrow> int) \<Rightarrow> cg" where
  "new_codegen d folder sizes = \<lparr>cg_driver = d, cg_types = new_registry, cg_fold = folder, cg_size = sizes,
     cg_funs = [], cg_globals = [], cg_blocks = [], cg_next = 0, cg_insert = None, cg_errors = 0,
     cg_env = [], cg_strs = [], cg_cleanups = [], cg_str_lits = [], cg_layouts = Map.empty, cg_enums = Map.empty,
     cg_var_class = Map.empty, cg_typed_lists = Map.empty, cg_last_kind = 0, cg_alloca_ty = Map.empty,
     cg_loops = [], cg_lps = [], cg_std = {}, cg_modules = {}, cg_fn = None, cg_ret_type = TID_VOID,
     cg_class = [], cg_namespace = [], cg_label = [], cg_lambdas = 0, cg_asyncs = 0, cg_fn_vars = Map.empty,
     cg_future = None\<rparr>"

definition cg_err :: "source_loc \<Rightarrow> string \<Rightarrow> unit cgp" where
  "cg_err loc msg = then_s (on_field cg_driver (\<lambda>d s. s\<lparr>cg_driver := d\<rparr>) (driver_error loc msg))
     (modify (\<lambda>s. s\<lparr>cg_errors := cg_errors s + 1\<rparr>))"

definition cg_warn :: "source_loc \<Rightarrow> string \<Rightarrow> unit cgp" where
  "cg_warn loc msg = on_field cg_driver (\<lambda>d s. s\<lparr>cg_driver := d\<rparr>) (driver_warning loc msg)"

section \<open>The instruction builder\<close>

text \<open>
  \<open>GetInsertBlock\<close>, followed by the dereference that every use of it makes; \<open>SetInsertPoint\<close> at the end
  of a block, \<open>BasicBlock::Create\<close> in a function, and the test for a terminator.
\<close>

definition insert_block :: "nat cgp" where
  "insert_block = bind_s (gets cg_insert) (\<lambda>b. case b of None \<Rightarrow> null_deref | Some b \<Rightarrow> ret b)"

definition set_insert :: "nat \<Rightarrow> unit cgp" where
  "set_insert b = modify (\<lambda>s. s\<lparr>cg_insert := Some b\<rparr>)"

definition new_block :: "nat \<Rightarrow> string \<Rightarrow> nat cgp" where
  "new_block f name = bind_s (gets (\<lambda>s. length (cg_blocks s))) (\<lambda>b.
     then_s (modify (\<lambda>s. s\<lparr>cg_blocks := cg_blocks s @ [\<lparr>bl_fn = f, bl_name = name, bl_insts = []\<rparr>]\<rparr>)) (ret b))"

definition closed :: "cg \<Rightarrow> nat \<Rightarrow> bool" where
  "closed s b \<longleftrightarrow> b < length (cg_blocks s) \<and> block_closed (cg_blocks s ! b)"

definition has_terminator :: "bool cgp" where
  "has_terminator = bind_s insert_block (\<lambda>b. gets (\<lambda>s. closed s b))"

definition unless_closed :: "unit cgp \<Rightarrow> unit cgp" where
  "unless_closed m = bind_s has_terminator (\<lambda>t. if t then ret () else m)"

text \<open>\<open>builder_->GetInsertBlock()->getParent()\<close>.\<close>

definition current_parent :: "nat cgp" where
  "current_parent = bind_s insert_block (\<lambda>b. gets (\<lambda>s. bl_fn (cg_blocks s ! b)))"

text \<open>An instruction at the end of the current block; its number.\<close>

definition emit_inst :: "inst \<Rightarrow> nat cgp" where
  "emit_inst i = bind_s insert_block (\<lambda>b. bind_s (gets cg_next) (\<lambda>n.
     then_s (modify (\<lambda>s. s\<lparr>cg_next := n + 1,
       cg_blocks := (cg_blocks s)[b := (cg_blocks s ! b)\<lparr>bl_insts := bl_insts (cg_blocks s ! b) @ [(n, i)]\<rparr>]\<rparr>))
     (ret n)))"

definition put_inst :: "inst \<Rightarrow> unit cgp" where
  "put_inst i = then_s (emit_inst i) (ret ())"

definition create_br :: "nat \<Rightarrow> unit cgp" where
  "create_br b = put_inst (Br b)"

definition create_cond_br :: "val \<Rightarrow> nat \<Rightarrow> nat \<Rightarrow> unit cgp" where
  "create_cond_br c a b = put_inst (CondBr c a b)"

definition create_load :: "lty \<Rightarrow> val \<Rightarrow> val cgp" where
  "create_load t p = bind_s (emit_inst (Load t p)) (\<lambda>n. ret (Instr n t))"

definition create_store :: "val \<Rightarrow> val \<Rightarrow> unit cgp" where
  "create_store v p = put_inst (Store v p)"

text \<open>An operation that the builder folds when it can.\<close>

definition create_op :: "opcode \<Rightarrow> val list \<Rightarrow> lty \<Rightarrow> val cgp" where
  "create_op oc vs t = bind_s (gets (\<lambda>s. cg_fold s oc vs)) (\<lambda>c. case c of
       Some v \<Rightarrow> ret v
     | None \<Rightarrow> bind_s (emit_inst (Op oc vs)) (\<lambda>n. ret (Instr n t)))"

definition create_bin :: "opcode \<Rightarrow> val \<Rightarrow> val \<Rightarrow> val cgp" where
  "create_bin oc a b = create_op oc [a, b] (val_ty a)"

definition create_cmp :: "opcode \<Rightarrow> val \<Rightarrow> val \<Rightarrow> val cgp" where
  "create_cmp oc a b = create_op oc [a, b] (IntTy 1)"

text \<open>A cast to the type the value has gives the value.\<close>

definition create_cast :: "opcode \<Rightarrow> val \<Rightarrow> lty \<Rightarrow> val cgp" where
  "create_cast oc v t = (if val_ty v = t then ret v else create_op oc [v] t)"

definition create_int_cast :: "opcode \<Rightarrow> val \<Rightarrow> lty \<Rightarrow> val cgp" where
  "create_int_cast ext v t =
     (if int_width t < int_width (val_ty v) then create_cast Trunc v t else create_cast ext v t)"

definition create_neg :: "val \<Rightarrow> val cgp" where
  "create_neg v = create_bin Sub (null_value (val_ty v)) v"

definition create_not :: "val \<Rightarrow> val cgp" where
  "create_not v = create_bin Xor v (ConstInt (int_width (val_ty v)) (2 ^ int_width (val_ty v) - 1))"

definition create_select :: "val \<Rightarrow> val \<Rightarrow> val \<Rightarrow> val cgp" where
  "create_select c a b = create_op Select [c, a, b] (val_ty a)"

definition create_struct_gep :: "lty \<Rightarrow> val \<Rightarrow> nat \<Rightarrow> val cgp" where
  "create_struct_gep st p i = create_op (StructGEP st i) [p] PtrTy"

definition create_const_gep :: "lty \<Rightarrow> val \<Rightarrow> int \<Rightarrow> val cgp" where
  "create_const_gep t p i = create_op (ConstGEP t i) [p] PtrTy"

text \<open>A call of a function of the module, with the type it was declared with, and of a pointer.\<close>

definition create_call_ptr :: "lty \<Rightarrow> val \<Rightarrow> val list \<Rightarrow> val cgp" where
  "create_call_ptr t f vs = bind_s (emit_inst (Call f vs)) (\<lambda>n. ret (CallResult n t))"

definition create_call :: "nat \<Rightarrow> val list \<Rightarrow> val cgp" where
  "create_call f vs = bind_s (gets (\<lambda>s. fn_ret (cg_funs s ! f))) (\<lambda>t. create_call_ptr t (FunVal f) vs)"

definition create_invoke :: "nat \<Rightarrow> val list \<Rightarrow> nat \<Rightarrow> nat \<Rightarrow> val cgp" where
  "create_invoke f vs normal unwind = bind_s (gets (\<lambda>s. fn_ret (cg_funs s ! f))) (\<lambda>t.
     bind_s (emit_inst (Invoke (FunVal f) vs normal unwind)) (\<lambda>n. ret (Instr n t)))"

section \<open>Functions and globals\<close>

text \<open>\<open>mod_->getFunction\<close> and \<open>mod_->getGlobalVariable\<close>: the first of the name.\<close>

fun position :: "('a \<Rightarrow> bool) \<Rightarrow> 'a list \<Rightarrow> nat option" where
  "position p [] = None"
| "position p (x # xs) = (if p x then Some 0 else map_option Suc (position p xs))"

definition get_function :: "string \<Rightarrow> cg \<Rightarrow> nat option" where
  "get_function name s = position (\<lambda>f. fn_name f = name) (cg_funs s)"

definition get_global :: "string \<Rightarrow> cg \<Rightarrow> nat option" where
  "get_global name s = position (\<lambda>g. gl_name g = name) (cg_globals s)"

definition create_fn :: "string \<Rightarrow> lty \<Rightarrow> (string \<times> lty) list \<Rightarrow> bool \<Rightarrow> nat cgp" where
  "create_fn name t ps vararg = bind_s (gets (\<lambda>s. length (cg_funs s))) (\<lambda>f.
     then_s (modify (\<lambda>s. s\<lparr>cg_funs := cg_funs s @
       [\<lparr>fn_name = name, fn_ret = t, fn_params = ps, fn_vararg = vararg, fn_personality = False\<rparr>]\<rparr>)) (ret f))"

definition new_global :: "string \<Rightarrow> lty \<Rightarrow> bool \<Rightarrow> bool \<Rightarrow> val list \<Rightarrow> val cgp" where
  "new_global name t is_const tls init = bind_s (gets (\<lambda>s. length (cg_globals s))) (\<lambda>g.
     then_s (modify (\<lambda>s. s\<lparr>cg_globals := cg_globals s @
       [\<lparr>gl_name = name, gl_ty = t, gl_const = is_const, gl_tls = tls, gl_init = init\<rparr>]\<rparr>)) (ret (GlobVal g)))"

definition get_or_declare_rt :: "string \<Rightarrow> lty \<Rightarrow> lty list \<Rightarrow> nat cgp" where
  "get_or_declare_rt name t ps = bind_s (gets (get_function name)) (\<lambda>f. case f of
       Some f \<Rightarrow> ret f
     | None \<Rightarrow> create_fn name t (map (\<lambda>p. ([], p)) ps) False)"

text \<open>\<open>get_or_declare_rt\<close> and a call of the function.\<close>

definition call_rt :: "string \<Rightarrow> lty \<Rightarrow> lty list \<Rightarrow> val list \<Rightarrow> val cgp" where
  "call_rt name t ps vs = bind_s (get_or_declare_rt name t ps) (\<lambda>f. create_call f vs)"

definition rt_malloc :: "val \<Rightarrow> val cgp" where
  "rt_malloc n = call_rt ''malloc'' PtrTy [IntTy 64] [n]"

text \<open>The blocks of a function, in order, and \<open>fn->empty()\<close>.\<close>

definition blocks_of :: "cg \<Rightarrow> nat \<Rightarrow> nat list" where
  "blocks_of s f = filter (\<lambda>b. bl_fn (cg_blocks s ! b) = f) [0..<length (cg_blocks s)]"

text \<open>
  \<open>make_alloca\<close>: at the start of the entry block of the current function, which exists because the current
  block is one of its blocks.
\<close>

definition make_alloca :: "lty \<Rightarrow> val cgp" where
  "make_alloca t = bind_s current_parent (\<lambda>f. bind_s (gets (\<lambda>s. blocks_of s f)) (\<lambda>bs. case bs of
       [] \<Rightarrow> null_deref
     | e # _ \<Rightarrow> bind_s (gets cg_next) (\<lambda>n.
         then_s (modify (\<lambda>s. s\<lparr>cg_next := n + 1,
           cg_blocks := (cg_blocks s)[e := (cg_blocks s ! e)\<lparr>bl_insts := (n, Alloca t) # bl_insts (cg_blocks s ! e)\<rparr>],
           cg_alloca_ty := (cg_alloca_ty s)(Instr n PtrTy \<mapsto> t)\<rparr>)) (ret (Instr n PtrTy)))))"

end
