(* ===== verification/Cg_Scope.thy ===== *)
theory Cg_Scope
  imports Cg_Ir
begin

text \<open>
  The helpers of the code generator: lowering of types, conversions, the runtime calls around strings and boxed
  values, the environment and the cleanups at the end of a scope. All stacks have their top at the head,
  and so has the list of cleanups of one scope, which is run from the latest entry to the first. What
  generates expressions and statements is passed as a record of two programs; the recursion is closed
  where both are complete (\<^verbatim>\<open>Cg_Program\<close>).
\<close>

record gens =
  g_expr :: "expr \<Rightarrow> val cgp"
  g_stmt :: "stmt \<Rightarrow> unit cgp"

section \<open>Types\<close>

definition has_payload :: "type_info \<Rightarrow> bool" where
  "has_payload ti \<longleftrightarrow> (\<exists>v\<in>set (ti_variants ti). evi_payload v \<noteq> [])"

definition lower_type :: "registry \<Rightarrow> type_id \<Rightarrow> lty" where
  "lower_type r tid =
     (if tid = TID_VOID then VoidTy
      else if tid = TID_BOOL then IntTy 1
      else if tid = TID_INT then IntTy 32
      else if tid = TID_LONG then IntTy 64
      else if tid = TID_REAL then FloatTy
      else if tid = TID_DOUBLE then DoubleTy
      else if tid = TID_STR \<or> tid = TID_LIST \<or> tid = TID_DICT \<or> tid = TID_TUPLE \<or> tid = TID_OBJECT \<or> tid = TID_NULL
      then PtrTy
      else if 0 \<le> tid \<and> ti_kind (info r tid) = TK_Enum then
        (if has_payload (info r tid) then PtrTy else IntTy 32)
      else PtrTy)"

definition lower_type_expr :: "registry \<Rightarrow> type_expr \<Rightarrow> lty" where
  "lower_type_expr r te =
     (let tid = from_type_expr r te in lower_type r (if tid = TID_UNKNOWN then TID_OBJECT else tid))"

definition type_id_of :: "expr \<Rightarrow> type_id" where
  "type_id_of e = (if 0 \<le> expr_type_id e then expr_type_id e else TID_UNKNOWN)"

text \<open>The type a declaration without a known type falls back to.\<close>

definition known_or :: "type_id \<Rightarrow> type_id \<Rightarrow> type_id" where
  "known_or d tid = (if tid = TID_UNKNOWN then d else tid)"

definition mangle :: "string \<Rightarrow> string \<Rightarrow> string" where
  "mangle cls m = (if cls = [] then m else cls @ ''__'' @ m)"

section \<open>Conversions\<close>

definition coerce :: "val \<Rightarrow> type_id \<Rightarrow> type_id \<Rightarrow> val cgp" where
  "coerce v from to = bind_s (gets cg_types) (\<lambda>r.
     if from = to \<or> to = TID_UNKNOWN then ret v
     else if (to = TID_DOUBLE \<or> to = TID_REAL) \<and> is_int_ty (val_ty v) then create_cast SIToFP v DoubleTy
     else if (to = TID_INT \<or> to = TID_LONG) \<and> is_fp_ty (val_ty v) then create_cast FPToSI v (lower_type r to)
     else if to = TID_LONG \<and> val_ty v = IntTy 32 then create_cast SExt v (IntTy 64)
     else if to = TID_INT \<and> val_ty v = IntTy 64 then create_cast Trunc v (IntTy 32)
     else if is_integral to \<and> val_ty v = IntTy 1 then create_cast ZExt v (lower_type r to)
     else ret v)"

definition to_bool :: "val \<Rightarrow> val cgp" where
  "to_bool v = (let t = val_ty v in
     if t = IntTy 1 then ret v
     else if is_int_ty t then create_cmp ICmpNE v (const_int (int_width t) 0)
     else if is_fp_ty t then create_cmp FCmpONE v (ConstFP t 0)
     else if t = PtrTy then create_cmp ICmpNE v null_ptr
     else ret (ConstInt 1 0))"

definition box_to_ptr :: "val \<Rightarrow> val cgp" where
  "box_to_ptr v = (let t = val_ty v in
     if t = PtrTy then ret v
     else if t = FloatTy then
       bind_s (create_cast BitCast v (IntTy 32)) (\<lambda>i.
       bind_s (create_cast ZExt i (IntTy 64)) (\<lambda>e. create_cast IntToPtr e PtrTy))
     else if is_int_ty t then
       bind_s (create_cast ZExt v (IntTy 64)) (\<lambda>e. create_cast IntToPtr e PtrTy)
     else if t = DoubleTy then
       bind_s (create_cast BitCast v (IntTy 64)) (\<lambda>b. create_cast IntToPtr b PtrTy)
     else ret null_ptr)"

definition unbox_from_ptr :: "val \<Rightarrow> lty \<Rightarrow> val cgp" where
  "unbox_from_ptr v t =
     (if t = PtrTy then ret v
      else if t = FloatTy then
        bind_s (create_cast PtrToInt v (IntTy 64)) (\<lambda>i.
        bind_s (create_cast Trunc i (IntTy 32)) (\<lambda>i. create_cast BitCast i t))
      else if is_int_ty t then
        bind_s (create_cast PtrToInt v (IntTy 64)) (\<lambda>i. create_cast Trunc i t)
      else if t = DoubleTy then
        bind_s (create_cast PtrToInt v (IntTy 64)) (\<lambda>i. create_cast BitCast i t)
      else ret v)"

definition coerce_to_llvm_type :: "val \<Rightarrow> lty \<Rightarrow> val cgp" where
  "coerce_to_llvm_type v t =
     (if val_ty v = t then ret v
      else if is_int_ty t \<and> is_int_ty (val_ty v) then create_int_cast SExt v t
      else if is_fp_ty t \<and> is_int_ty (val_ty v) then create_cast SIToFP v t
      else if is_int_ty t \<and> is_fp_ty (val_ty v) then create_cast FPToSI v t
      else if val_ty v = PtrTy \<and> t \<noteq> PtrTy then unbox_from_ptr v t
      else ret v)"

section \<open>Calls\<close>

text \<open>A call, or an \<open>invoke\<close> with a new block to go on in when a \<open>try\<close> is open.\<close>

definition emit_call :: "nat \<Rightarrow> val list \<Rightarrow> val cgp" where
  "emit_call f vs = bind_s (gets cg_lps) (\<lambda>lps. case lps of
       [] \<Rightarrow> create_call f vs
     | lp # _ \<Rightarrow> bind_s current_parent (\<lambda>p. bind_s (new_block p ''invoke.cont'') (\<lambda>cont.
         bind_s (create_invoke f vs cont lp) (\<lambda>v. then_s (set_insert cont) (ret v)))))"

section \<open>Strings and counted references\<close>

definition str_literal :: "string \<Rightarrow> val cgp" where
  "str_literal x = bind_s (gets (\<lambda>s. map_of (cg_str_lits s) x)) (\<lambda>c. case c of
       Some v \<Rightarrow> ret v
     | None \<Rightarrow> bind_s (gets (\<lambda>s. length (cg_str_lits s))) (\<lambda>idx.
         bind_s (new_global (''.duxstr.'' @ show_nat idx)
           (StructTy [IntTy 32, IntTy 32, PtrTy, ArrayTy (length x + 1) (IntTy 8)]) True False
           [const_int 32 (- 1), const_int 32 (int (length x)), null_ptr, ConstStr x]) (\<lambda>g.
         then_s (modify (\<lambda>s. s\<lparr>cg_str_lits := (x, g) # cg_str_lits s\<rparr>)) (ret g))))"

definition emit_str_retain :: "val \<Rightarrow> val cgp" where
  "emit_str_retain v = call_rt ''duxrt_str_retain'' PtrTy [PtrTy] [v]"

definition emit_str_release :: "val \<Rightarrow> unit cgp" where
  "emit_str_release v = then_s (call_rt ''duxrt_str_release'' VoidTy [PtrTy] [v]) (ret ())"

definition is_call_result :: "val \<Rightarrow> bool" where
  "is_call_result v = (case v of CallResult n t \<Rightarrow> True | _ \<Rightarrow> False)"

definition is_global_var :: "val \<Rightarrow> bool" where
  "is_global_var v = (case v of GlobVal g \<Rightarrow> True | _ \<Rightarrow> False)"

definition maybe_retain_str :: "val \<Rightarrow> val cgp" where
  "maybe_retain_str v = (if is_call_result v \<or> is_global_var v then ret v else emit_str_retain v)"

definition maybe_retain_list :: "val \<Rightarrow> val cgp" where
  "maybe_retain_list v = (if is_call_result v then ret v else call_rt ''duxrt_list_retain'' PtrTy [PtrTy] [v])"

definition maybe_retain_dict :: "val \<Rightarrow> val cgp" where
  "maybe_retain_dict v = (if is_call_result v then ret v else call_rt ''duxrt_dict_retain'' PtrTy [PtrTy] [v])"

definition maybe_retain :: "type_id \<Rightarrow> val \<Rightarrow> val cgp" where
  "maybe_retain tid v =
     (if tid = TID_STR then maybe_retain_str v
      else if tid = TID_LIST then maybe_retain_list v
      else if tid = TID_DICT then maybe_retain_dict v
      else ret v)"

definition release_slot :: "val \<Rightarrow> unit cgp" where
  "release_slot a = bind_s (create_load PtrTy a) emit_str_release"

section \<open>The environment\<close>

definition env_push :: "unit cgp" where
  "env_push = modify (\<lambda>s. s\<lparr>cg_env := Map.empty # cg_env s, cg_strs := [] # cg_strs s, cg_cleanups := [] # cg_cleanups s\<rparr>)"

fun lookup_env :: "(string \<rightharpoonup> val) list \<Rightarrow> string \<Rightarrow> val option" where
  "lookup_env [] x = None"
| "lookup_env (m # ms) x = (case m x of Some v \<Rightarrow> Some v | None \<Rightarrow> lookup_env ms x)"

definition lookup_name :: "string \<Rightarrow> val option cgp" where
  "lookup_name x = gets (\<lambda>s. lookup_env (cg_env s) x)"

definition push_cleanup :: "cleanup \<Rightarrow> cg \<Rightarrow> cg" where
  "push_cleanup c s = (case cg_cleanups s of [] \<Rightarrow> s | cs # rest \<Rightarrow> s\<lparr>cg_cleanups := (c # cs) # rest\<rparr>)"

definition push_str :: "val \<Rightarrow> cg \<Rightarrow> cg" where
  "push_str a s = (case cg_strs s of [] \<Rightarrow> s | vs # rest \<Rightarrow> s\<lparr>cg_strs := (vs @ [a]) # rest\<rparr>)"

definition bind_name :: "string \<Rightarrow> val \<Rightarrow> cg \<Rightarrow> cg" where
  "bind_name x a s = (case cg_env s of [] \<Rightarrow> s | m # ms \<Rightarrow> s\<lparr>cg_env := m(x \<mapsto> a) # ms\<rparr>)"

definition env_define :: "string \<Rightarrow> val \<Rightarrow> type_id \<Rightarrow> unit cgp" where
  "env_define x a tid = then_s (modify (bind_name x a)) (bind_s (gets (\<lambda>s. s)) (\<lambda>s.
     if tid = TID_STR \<and> cg_strs s \<noteq> [] then modify (push_str a)
     else if tid = TID_LIST \<and> cg_cleanups s \<noteq> [] then modify (push_cleanup (RunRelease a ''duxrt_list_release''))
     else if tid = TID_DICT \<and> cg_cleanups s \<noteq> [] then modify (push_cleanup (RunRelease a ''duxrt_dict_release''))
     else guarded (tid > TID_NULL \<and> cg_cleanups s \<noteq> [] \<and> name_of (cg_types s) tid \<noteq> [] \<and>
         cg_layouts s (name_of (cg_types s) tid) \<noteq> None)
       (modify (push_cleanup (RunDtor a (name_of (cg_types s) tid))))))"

section \<open>Cleanups\<close>

text \<open>\<open>auto* bb = builder_->GetInsertBlock(); if (!bb || bb->getTerminator()) return;\<close>\<close>

definition when_live :: "unit cgp \<Rightarrow> unit cgp" where
  "when_live m = bind_s (gets (\<lambda>s. case cg_insert s of None \<Rightarrow> False | Some b \<Rightarrow> \<not> closed s b)) (\<lambda>live. guarded live m)"

text \<open>A pointer in a slot is used and the slot cleared, unless it is null.\<close>

definition unless_null :: "val \<Rightarrow> string \<Rightarrow> string \<Rightarrow> (val \<Rightarrow> unit cgp) \<Rightarrow> unit cgp" where
  "unless_null a call_name end_name use = bind_s (create_load PtrTy a) (\<lambda>p.
     bind_s current_parent (\<lambda>f.
     bind_s (new_block f call_name) (\<lambda>call_bb.
     bind_s (new_block f end_name) (\<lambda>end_bb.
     bind_s (create_cmp ICmpEQ p null_ptr) (\<lambda>c.
     then_s (create_cond_br c end_bb call_bb) (
     then_s (set_insert call_bb) (
     then_s (use p) (
     then_s (create_store null_ptr a) (
     then_s (create_br end_bb) (set_insert end_bb))))))))))"

definition emit_dtor :: "val \<Rightarrow> string \<Rightarrow> unit cgp" where
  "emit_dtor a cls = when_live (
     bind_s (get_or_declare_rt ''free'' VoidTy [PtrTy]) (\<lambda>free_fn.
     bind_s (gets (get_function (cls @ ''___dtor''))) (\<lambda>dtor.
     unless_null a ''dtor.call'' ''dtor.end'' (\<lambda>p.
       then_s (case dtor of None \<Rightarrow> ret () | Some d \<Rightarrow> then_s (emit_call d [p]) (ret ()))
         (then_s (create_call free_fn [p]) (ret ()))))))"

definition emit_rc_release :: "val \<Rightarrow> string \<Rightarrow> unit cgp" where
  "emit_rc_release a rel = when_live (
     unless_null a ''rc.rel.call'' ''rc.rel.end'' (\<lambda>p. then_s (call_rt rel VoidTy [PtrTy] [p]) (ret ())))"

definition is_thread_local :: "stmt \<Rightarrow> bool" where
  "is_thread_local st = (case st of VarDeclStmt l te c stat tls ds \<Rightarrow> tls | _ \<Rightarrow> False)"

definition gen_stmts :: "gens \<Rightarrow> stmt list \<Rightarrow> unit cgp" where
  "gen_stmts G sts = for_each (\<lambda>st. if is_thread_local st then ret () else unless_closed (g_stmt G st)) sts"

definition emit_scope_cleanup :: "gens \<Rightarrow> cleanup \<Rightarrow> unit cgp" where
  "emit_scope_cleanup G c = when_live (case c of
       RunFn f \<Rightarrow> then_s (emit_call f []) (ret ())
     | RunDefer body \<Rightarrow> gen_stmts G body
     | RunRelease a rel \<Rightarrow> emit_rc_release a rel
     | RunDtor a cls \<Rightarrow> emit_dtor a cls)"

definition emit_all_scope_cleanups :: "gens \<Rightarrow> unit cgp" where
  "emit_all_scope_cleanups G = when_live (bind_s (gets cg_cleanups) (\<lambda>css.
     for_each (emit_scope_cleanup G) (concat css)))"

definition emit_all_str_releases :: "unit cgp" where
  "emit_all_str_releases = when_live (bind_s (gets cg_strs) (\<lambda>sss. for_each release_slot (concat sss)))"

definition emit_all_cleanups :: "gens \<Rightarrow> unit cgp" where
  "emit_all_cleanups G = then_s (emit_all_scope_cleanups G) emit_all_str_releases"

text \<open>The test for a live block is made once, before the cleanups of the scope.\<close>

definition env_pop :: "gens \<Rightarrow> unit cgp" where
  "env_pop G = bind_s (gets (\<lambda>s. case cg_insert s of None \<Rightarrow> False | Some b \<Rightarrow> \<not> closed s b)) (\<lambda>live.
     then_s (bind_s (gets cg_cleanups) (\<lambda>css. case css of
         [] \<Rightarrow> ret ()
       | cs # _ \<Rightarrow> then_s (guarded live (for_each (emit_scope_cleanup G) cs))
           (modify (\<lambda>s. s\<lparr>cg_cleanups := tl (cg_cleanups s)\<rparr>)))) (
     then_s (bind_s (gets cg_strs) (\<lambda>sss. case sss of
         [] \<Rightarrow> ret ()
       | ss # _ \<Rightarrow> then_s (guarded live (for_each release_slot ss))
           (modify (\<lambda>s. s\<lparr>cg_strs := tl (cg_strs s)\<rparr>)))) (
     modify (\<lambda>s. s\<lparr>cg_env := tl (cg_env s)\<rparr>))))"

definition in_scope :: "gens \<Rightarrow> unit cgp \<Rightarrow> unit cgp" where
  "in_scope G m = then_s env_push (then_s m (env_pop G))"

section \<open>Variables and classes\<close>

definition resolve_class_name :: "expr \<Rightarrow> type_id \<Rightarrow> string cgp" where
  "resolve_class_name obj tid = gets (\<lambda>s.
     let cls = name_of (cg_types s) tid in
     if cg_layouts s cls \<noteq> None then cls
     else let cls = (case obj of ThisExpr l t \<Rightarrow> cg_class s | SuperExpr l t \<Rightarrow> cg_class s | _ \<Rightarrow> cls) in
       if cg_layouts s cls \<noteq> None then cls
       else (case obj of
           IdentExpr l t x \<Rightarrow> (case cg_var_class s x of Some c \<Rightarrow> c | None \<Rightarrow> [])
         | _ \<Rightarrow> cls))"

text \<open>The field of the current class that a name stands for inside a method.\<close>

definition this_field :: "string \<Rightarrow> (lty \<times> field_info \<times> val) option cgp" where
  "this_field x = gets (\<lambda>s. if cg_class s = [] then None
     else case cg_layouts s (cg_class s) of
       None \<Rightarrow> None
     | Some l \<Rightarrow> (case find (\<lambda>f. fi_name f = x) (cl_fields l) of
           None \<Rightarrow> None
         | Some f \<Rightarrow> map_option (\<lambda>this. (cl_struct l, f, this)) (lookup_env (cg_env s) ''this'')))"

definition load_this_field :: "lty \<Rightarrow> field_info \<Rightarrow> val \<Rightarrow> val cgp" where
  "load_this_field st f this = bind_s (create_load PtrTy this) (\<lambda>p. create_struct_gep st p (fi_index f))"

definition load_var :: "string \<Rightarrow> source_loc \<Rightarrow> val cgp" where
  "load_var x loc = bind_s (lookup_name x) (\<lambda>a. case a of
       Some a \<Rightarrow> bind_s (gets (\<lambda>s. cg_alloca_ty s a)) (\<lambda>t. create_load (case t of Some t \<Rightarrow> t | None \<Rightarrow> IntTy 64) a)
     | None \<Rightarrow> bind_s (this_field x) (\<lambda>r. case r of
           Some (st, f, this) \<Rightarrow> bind_s (load_this_field st f this) (\<lambda>p.
             bind_s (gets cg_types) (\<lambda>r. create_load (lower_type r (fi_type f)) p))
         | None \<Rightarrow> bind_s (gets (get_function x)) (\<lambda>f. case f of
               Some f \<Rightarrow> ret (FunVal f)
             | None \<Rightarrow> then_s (cg_err loc (''codegen: undefined variable '' @ [CHR 0x27] @ x @ [CHR 0x27])) (ret null_ptr))))"

section \<open>Printing\<close>

definition rt_println :: "val \<Rightarrow> type_id \<Rightarrow> val cgp" where
  "rt_println v tid =
     (let tid = (if tid \<noteq> TID_UNKNOWN then tid
           else if is_int_ty (val_ty v) then TID_INT
           else if is_fp_ty (val_ty v) then TID_DOUBLE else TID_STR)
      in if tid = TID_BOOL then
           bind_s (create_cast Trunc v (IntTy 1)) (\<lambda>c.
           bind_s (str_literal ''false'') (\<lambda>f. bind_s (str_literal ''true'') (\<lambda>t.
           bind_s (create_select c t f) (\<lambda>msg. call_rt ''duxrt_println_str'' VoidTy [PtrTy] [msg]))))
         else if tid = TID_INT \<or> tid = TID_LONG then
           bind_s (get_or_declare_rt ''duxrt_println_int'' VoidTy [IntTy 64]) (\<lambda>f.
           bind_s (create_cast SExt v (IntTy 64)) (\<lambda>w. create_call f [w]))
         else if tid = TID_DOUBLE \<or> tid = TID_REAL then
           bind_s (get_or_declare_rt ''duxrt_println_double'' VoidTy [DoubleTy]) (\<lambda>f.
           bind_s (create_cast FPExt v DoubleTy) (\<lambda>w. create_call f [w]))
         else bind_s (get_or_declare_rt ''duxrt_println_str'' VoidTy [PtrTy]) (\<lambda>f.
           if val_ty v = PtrTy then create_call f [v]
           else bind_s (make_alloca (val_ty v)) (\<lambda>box. then_s (create_store v box) (create_call f [box]))))"

end
