(* ===== verification/Cg_Call.thy ===== *)
theory Cg_Call
  imports Cg_Scope
begin

text \<open>
  The expressions of the code generator, first part: the table of the standard modules and imports, left-hand
  sides, members, enum values and calls. The first argument of a definition is what generates subexpressions.
\<close>

section \<open>Standard modules\<close>

record stdlib_fn =
  sf_sym :: string
  sf_ret :: type_id
  sf_params :: "type_id list"

abbreviation entry :: "string \<Rightarrow> string \<Rightarrow> type_id \<Rightarrow> type_id list \<Rightarrow> string \<times> stdlib_fn" where
  "entry f rt t ps \<equiv> (f, \<lparr>sf_sym = rt, sf_ret = t, sf_params = ps\<rparr>)"

definition math_table :: "(string \<times> stdlib_fn) list" where
  "math_table = [
     entry ''sqrt'' ''duxrt_math_sqrt'' TID_DOUBLE [TID_DOUBLE],
     entry ''pow'' ''duxrt_math_pow'' TID_DOUBLE [TID_DOUBLE, TID_DOUBLE],
     entry ''floor'' ''duxrt_math_floor'' TID_DOUBLE [TID_DOUBLE],
     entry ''ceil'' ''duxrt_math_ceil'' TID_DOUBLE [TID_DOUBLE],
     entry ''abs'' ''duxrt_math_abs_d'' TID_DOUBLE [TID_DOUBLE],
     entry ''log'' ''duxrt_math_log'' TID_DOUBLE [TID_DOUBLE],
     entry ''log2'' ''duxrt_math_log2'' TID_DOUBLE [TID_DOUBLE],
     entry ''sin'' ''duxrt_math_sin'' TID_DOUBLE [TID_DOUBLE],
     entry ''cos'' ''duxrt_math_cos'' TID_DOUBLE [TID_DOUBLE],
     entry ''min'' ''duxrt_math_min_d'' TID_DOUBLE [TID_DOUBLE, TID_DOUBLE],
     entry ''max'' ''duxrt_math_max_d'' TID_DOUBLE [TID_DOUBLE, TID_DOUBLE],
     entry ''abs_i'' ''duxrt_math_abs_i'' TID_LONG [TID_LONG],
     entry ''min_i'' ''duxrt_math_min_i'' TID_LONG [TID_LONG, TID_LONG],
     entry ''max_i'' ''duxrt_math_max_i'' TID_LONG [TID_LONG, TID_LONG]]"

definition str_table :: "(string \<times> stdlib_fn) list" where
  "str_table = [
     entry ''concat'' ''duxrt_str_concat'' TID_STR [TID_STR, TID_STR],
     entry ''from_int'' ''duxrt_str_from_int'' TID_STR [TID_LONG],
     entry ''from_double'' ''duxrt_str_from_double'' TID_STR [TID_DOUBLE],
     entry ''length'' ''duxrt_str_length'' TID_LONG [TID_STR],
     entry ''slice'' ''duxrt_str_slice'' TID_STR [TID_STR, TID_LONG, TID_LONG],
     entry ''index'' ''duxrt_str_index'' TID_STR [TID_STR, TID_LONG],
     entry ''eq'' ''duxrt_str_eq'' TID_INT [TID_STR, TID_STR],
     entry ''ord'' ''duxrt_str_ord'' TID_LONG [TID_STR],
     entry ''chr'' ''duxrt_str_chr'' TID_STR [TID_LONG],
     entry ''cmp'' ''duxrt_str_cmp'' TID_INT [TID_STR, TID_STR],
     entry ''contains'' ''duxrt_str_contains'' TID_INT [TID_STR, TID_STR],
     entry ''find'' ''duxrt_str_find'' TID_LONG [TID_STR, TID_STR],
     entry ''rfind'' ''duxrt_str_rfind'' TID_LONG [TID_STR, TID_STR],
     entry ''starts_with'' ''duxrt_str_starts_with'' TID_INT [TID_STR, TID_STR],
     entry ''ends_with'' ''duxrt_str_ends_with'' TID_INT [TID_STR, TID_STR],
     entry ''replace'' ''duxrt_str_replace'' TID_STR [TID_STR, TID_STR, TID_STR],
     entry ''replace_all'' ''duxrt_str_replace_all'' TID_STR [TID_STR, TID_STR, TID_STR],
     entry ''to_upper'' ''duxrt_str_to_upper'' TID_STR [TID_STR],
     entry ''to_lower'' ''duxrt_str_to_lower'' TID_STR [TID_STR],
     entry ''trim'' ''duxrt_str_trim'' TID_STR [TID_STR],
     entry ''trim_start'' ''duxrt_str_trim_start'' TID_STR [TID_STR],
     entry ''trim_end'' ''duxrt_str_trim_end'' TID_STR [TID_STR],
     entry ''repeat'' ''duxrt_str_repeat'' TID_STR [TID_STR, TID_LONG],
     entry ''split'' ''duxrt_str_split'' TID_LIST [TID_STR, TID_STR]]"

definition io_table :: "(string \<times> stdlib_fn) list" where
  "io_table = [
     entry ''println'' ''duxrt_println_str'' TID_VOID [TID_STR],
     entry ''print'' ''duxrt_print_str'' TID_VOID [TID_STR],
     entry ''readline'' ''duxrt_readline'' TID_STR []]"

definition stdlib_table :: "(string \<times> (string \<times> stdlib_fn) list) list" where
  "stdlib_table = [(''math'', math_table), (''str'', str_table), (''io'', io_table)]"

definition process_import :: "import_decl \<Rightarrow> unit cgp" where
  "process_import imp =
     (if im_path imp = [] then ret ()
      else let m = after_last (CHR ''.'') (im_path imp) in
        case map_of stdlib_table m of
          Some fns \<Rightarrow> then_s (modify (\<lambda>s. s\<lparr>cg_std := insert m (cg_std s)\<rparr>))
            (for_each (\<lambda>(f, sf). bind_s (gets cg_types) (\<lambda>r.
               then_s (get_or_declare_rt (sf_sym sf) (lower_type r (sf_ret sf)) (map (lower_type r) (sf_params sf))) (ret ()))) fns)
        | None \<Rightarrow> guarded (\<not> im_global_scope imp)
            (modify (\<lambda>s. s\<lparr>cg_modules := insert (if im_alias imp = [] then m else im_alias imp) (cg_modules s)\<rparr>)))"

section \<open>Arguments\<close>

text \<open>Every argument is generated and, while there are parameters, converted to the type of its parameter.\<close>

fun gen_args :: "gens \<Rightarrow> expr list \<Rightarrow> lty list \<Rightarrow> val list cgp" where
  "gen_args G [] ps = ret []"
| "gen_args G (a # as) ps = bind_s (g_expr G a) (\<lambda>v.
     bind_s (case ps of [] \<Rightarrow> ret v | p # _ \<Rightarrow> coerce_to_llvm_type v p) (\<lambda>v.
     bind_s (gen_args G as (tl ps)) (\<lambda>vs. ret (v # vs))))"

definition param_types :: "nat \<Rightarrow> cg \<Rightarrow> lty list" where
  "param_types f s = map snd (fn_params (cg_funs s ! f))"

text \<open>Only as many arguments as there are parameters.\<close>

definition gen_args_upto :: "gens \<Rightarrow> expr list \<Rightarrow> lty list \<Rightarrow> val list cgp" where
  "gen_args_upto G as ps = gen_args G (take (length ps) as) ps"

text \<open>The conversion of the arguments of a runtime function.\<close>

definition stdlib_convert :: "val \<Rightarrow> lty \<Rightarrow> val cgp" where
  "stdlib_convert v t =
     (if val_ty v = t then ret v
      else if t = DoubleTy \<and> is_int_ty (val_ty v) then create_cast SIToFP v t
      else if is_int_ty t \<and> val_ty v = DoubleTy then create_cast FPToSI v t
      else ret v)"

definition gen_stdlib_args :: "gens \<Rightarrow> expr list \<Rightarrow> lty list \<Rightarrow> val list cgp" where
  "gen_stdlib_args G as ps = map_s (\<lambda>(a, t). bind_s (g_expr G a) (\<lambda>v. stdlib_convert v t)) (zip as ps)"

text \<open>A plain call with all arguments, and one that may unwind.\<close>

definition call_with_args :: "gens \<Rightarrow> nat \<Rightarrow> expr list \<Rightarrow> val cgp" where
  "call_with_args G f as = bind_s (gets (param_types f)) (\<lambda>ps. bind_s (gen_args G as ps) (create_call f))"

definition try_stdlib_call :: "gens \<Rightarrow> expr \<Rightarrow> expr list \<Rightarrow> val option cgp" where
  "try_stdlib_call G callee as = (case callee of
       MemberExpr l t (IdentExpr l' t' m) f \<Rightarrow> bind_s (gets (\<lambda>s. s)) (\<lambda>s.
         if m \<in> cg_modules s then (case get_function (mangle m f) s of
             Some fn \<Rightarrow> bind_s (gen_args_upto G as (param_types fn s)) (\<lambda>vs. bind_s (create_call fn vs) (\<lambda>v. ret (Some v)))
           | None \<Rightarrow> ret (Some null_ptr))
         else if m \<notin> cg_std s then ret None
         else (case map_of stdlib_table m of
             None \<Rightarrow> (case get_function (mangle m f) s of
                 Some fn \<Rightarrow> if length (param_types fn s) = length as
                   then bind_s (call_with_args G fn as) (\<lambda>v. ret (Some v)) else ret None
               | None \<Rightarrow> ret None)
           | Some fns \<Rightarrow> (case map_of fns f of
                 None \<Rightarrow> (case get_function f s of
                     Some fn \<Rightarrow> bind_s (call_with_args G fn as) (\<lambda>v. ret (Some v))
                   | None \<Rightarrow> ret None)
               | Some sf \<Rightarrow> (case get_function (sf_sym sf) s of
                     None \<Rightarrow> ret None
                   | Some fn \<Rightarrow> bind_s (gen_stdlib_args G as (param_types fn s)) (\<lambda>vs.
                       bind_s (create_call fn vs) (\<lambda>v. ret (Some v)))))))
     | _ \<Rightarrow> ret None)"

section \<open>Left-hand sides\<close>

definition find_field :: "string \<Rightarrow> class_layout \<Rightarrow> field_info option" where
  "find_field x l = find (\<lambda>f. fi_name f = x) (cl_fields l)"

text \<open>The global of a static field, when the object is the name of a class.\<close>

definition static_field :: "expr \<Rightarrow> string \<Rightarrow> nat option cgp" where
  "static_field obj x = gets (\<lambda>s. case obj of
       IdentExpr l t c \<Rightarrow> if lookup_env (cg_env s) c = None \<and> cg_layouts s c \<noteq> None
         then get_global (c @ ''._'' @ x) s else None
     | _ \<Rightarrow> None)"

definition lvalue_of :: "gens \<Rightarrow> expr \<Rightarrow> val option cgp" where
  "lvalue_of G e = (case e of
       IdentExpr l t x \<Rightarrow> bind_s (lookup_name x) (\<lambda>a. case a of
           Some a \<Rightarrow> ret (Some a)
         | None \<Rightarrow> bind_s (this_field x) (\<lambda>r. case r of
               Some (st, f, this) \<Rightarrow> bind_s (load_this_field st f this) (\<lambda>p. ret (Some p))
             | None \<Rightarrow> ret None))
     | MemberExpr l t obj x \<Rightarrow> bind_s (static_field obj x) (\<lambda>g. case g of
           Some g \<Rightarrow> ret (Some (GlobVal g))
         | None \<Rightarrow> bind_s (g_expr G obj) (\<lambda>v.
             bind_s (resolve_class_name obj (type_id_of obj)) (\<lambda>cls.
             bind_s (gets (\<lambda>s. cg_layouts s cls)) (\<lambda>lay. case lay of
                 None \<Rightarrow> ret None
               | Some lay \<Rightarrow>
                   if \<exists>m\<in>set (cl_methods lay). mi_name m = x \<and> mi_modifier m \<noteq> [] then ret None
                   else (case find_field x lay of
                       None \<Rightarrow> ret None
                     | Some f \<Rightarrow> bind_s (create_struct_gep (cl_struct lay) v (fi_index f)) (\<lambda>p. ret (Some p)))))))
     | IndexExpr l t obj i \<Rightarrow> then_s (g_expr G obj) (then_s (g_expr G i) (ret None))
     | _ \<Rightarrow> ret None)"

section \<open>Enum values and members\<close>

definition enum_max_payload_arity :: "type_info \<Rightarrow> nat" where
  "enum_max_payload_arity ti = foldl (\<lambda>n v. max n (length (evi_payload v))) 0 (ti_variants ti)"

definition enum_mem :: "type_info \<Rightarrow> val cgp" where
  "enum_mem ti = rt_malloc (const_int 64 ((1 + int (enum_max_payload_arity ti)) * 8))"

definition store_payload :: "gens \<Rightarrow> val \<Rightarrow> nat \<times> expr \<Rightarrow> unit cgp" where
  "store_payload G mem = (\<lambda>(i, a). bind_s (g_expr G a) (\<lambda>v.
     bind_s (if type_id_of a = TID_STR \<and> val_ty v = PtrTy then emit_str_retain v else ret v) (\<lambda>v.
     bind_s (box_to_ptr v) (\<lambda>b.
     bind_s (create_const_gep PtrTy mem (int i + 1)) (\<lambda>p. create_store b p)))))"

definition gen_enum_ctor :: "gens \<Rightarrow> type_info \<Rightarrow> enum_variant_info \<Rightarrow> expr list \<Rightarrow> val cgp" where
  "gen_enum_ctor G ti vi as = bind_s (enum_mem ti) (\<lambda>mem.
     then_s (create_store (const_int 32 (evi_tag vi)) mem) (
     then_s (for_each (store_payload G mem) (List.enumerate 0 (take (length (evi_payload vi)) as))) (ret mem)))"

definition find_variant :: "string \<Rightarrow> type_info \<Rightarrow> enum_variant_info option" where
  "find_variant x ti = find (\<lambda>v. evi_name v = x) (ti_variants ti)"

text \<open>An enum's variant used as a value.\<close>

definition enum_value :: "source_loc \<Rightarrow> string \<Rightarrow> type_info \<Rightarrow> string \<Rightarrow> val cgp" where
  "enum_value loc name ti x = (case find_variant x ti of
       Some v \<Rightarrow>
         if \<not> has_payload ti then ret (const_int 32 (evi_tag v))
         else if evi_payload v \<noteq> [] then
           then_s (cg_warn loc (''payload variant '' @ [CHR 0x27] @ x @ [CHR 0x27] @
             '' used without constructor args; use '' @ name @ ''.'' @ x @ ''(value)'')) (ret null_ptr)
         else bind_s (enum_mem ti) (\<lambda>mem. then_s (create_store (const_int 32 (evi_tag v)) mem) (ret mem))
     | None \<Rightarrow> then_s (cg_warn loc (''unknown enum variant '' @ [CHR 0x27] @ x @ [CHR 0x27] @ '' on '' @
           [CHR 0x27] @ name @ [CHR 0x27]))
         (ret (if has_payload ti then null_ptr else const_int 32 0)))"

definition enum_of_name :: "string \<Rightarrow> cg \<Rightarrow> type_info option" where
  "enum_of_name x s = map_option (info (cg_types s)) (cg_enums s x)"

text \<open>A field, getter or method of an object.\<close>

definition member_of :: "class_layout \<Rightarrow> val \<Rightarrow> string \<Rightarrow> val cgp" where
  "member_of lay obj x =
     (case find (\<lambda>m. mi_name m = x \<and> mi_modifier m = ''get'' \<and> mi_fn m \<noteq> None) (cl_methods lay) of
        Some m \<Rightarrow> emit_call (the (mi_fn m)) [obj]
      | None \<Rightarrow> (case find_field x lay of
            Some f \<Rightarrow> bind_s (create_struct_gep (cl_struct lay) obj (fi_index f)) (\<lambda>p.
              bind_s (gets cg_types) (\<lambda>r. create_load (lower_type r (fi_type f)) p))
          | None \<Rightarrow> (case find (\<lambda>m. mi_name m = x \<and> mi_fn m \<noteq> None) (cl_methods lay) of
                Some m \<Rightarrow> ret (FunVal (the (mi_fn m)))
              | None \<Rightarrow> ret null_ptr)))"

definition load_static :: "nat \<Rightarrow> val cgp" where
  "load_static g = bind_s (gets (\<lambda>s. case cg_alloca_ty s (GlobVal g) of Some t \<Rightarrow> t | None \<Rightarrow> gl_ty (cg_globals s ! g)))
     (\<lambda>t. create_load t (GlobVal g))"

definition gen_member :: "gens \<Rightarrow> source_loc \<Rightarrow> expr \<Rightarrow> string \<Rightarrow> val cgp" where
  "gen_member G loc obj x = bind_s (gets (\<lambda>s. case obj of IdentExpr l t n \<Rightarrow> map_option (Pair n) (enum_of_name n s) | _ \<Rightarrow> None))
     (\<lambda>en. case en of
        Some (name, ti) \<Rightarrow> enum_value loc name ti x
      | None \<Rightarrow> bind_s (static_field obj x) (\<lambda>g. case g of
            Some g \<Rightarrow> load_static g
          | None \<Rightarrow> bind_s (g_expr G obj) (\<lambda>v.
              bind_s (resolve_class_name obj (type_id_of obj)) (\<lambda>cls.
              bind_s (gets (\<lambda>s. cg_layouts s cls)) (\<lambda>lay. case lay of
                  Some lay \<Rightarrow> member_of lay v x
                | None \<Rightarrow> ret null_ptr)))))"

section \<open>Built-in functions\<close>

text \<open>The first argument and its type, or the empty string.\<close>

definition first_arg :: "gens \<Rightarrow> expr list \<Rightarrow> (val \<times> type_id) cgp" where
  "first_arg G as = (case as of
       [] \<Rightarrow> bind_s (str_literal []) (\<lambda>v. ret (v, TID_STR))
     | a # _ \<Rightarrow> bind_s (g_expr G a) (\<lambda>v. ret (v, type_id_of a)))"

definition gen_println :: "gens \<Rightarrow> expr list \<Rightarrow> val cgp" where
  "gen_println G as = bind_s (first_arg G as) (\<lambda>(v, t). rt_println v t)"

text \<open>An integer formatted into an immortal string on the stack.\<close>

definition fstr_ty :: lty where
  "fstr_ty = StructTy [IntTy 32, IntTy 32, PtrTy, ArrayTy 32 (IntTy 8)]"

definition format_int :: "val \<Rightarrow> val cgp" where
  "format_int v = bind_s (make_alloca fstr_ty) (\<lambda>a.
     bind_s (create_struct_gep fstr_ty a 0) (\<lambda>p0.
     then_s (create_store (const_int 32 (- 1)) p0) (
     bind_s (create_struct_gep fstr_ty a 2) (\<lambda>p2.
     then_s (create_store null_ptr p2) (
     bind_s (create_struct_gep fstr_ty a 3) (\<lambda>p3.
     bind_s (get_or_declare_rt ''duxrt_fmt_int'' (IntTy 32) [IntTy 64, PtrTy]) (\<lambda>f.
     bind_s (create_cast SExt v (IntTy 64)) (\<lambda>w.
     bind_s (create_call f [w, p3]) (\<lambda>n.
     bind_s (create_struct_gep fstr_ty a 1) (\<lambda>p1.
     then_s (create_store n p1) (ret a)))))))))))"

definition fstr_to_str :: "val \<Rightarrow> type_id \<Rightarrow> val cgp" where
  "fstr_to_str v tid =
     (let tid = (if tid \<noteq> TID_UNKNOWN then tid
           else if is_int_ty (val_ty v) then TID_INT
           else if is_fp_ty (val_ty v) then TID_DOUBLE else TID_STR)
      in if tid = TID_STR then ret v
         else if tid = TID_BOOL then
           bind_s (create_cast Trunc v (IntTy 1)) (\<lambda>c.
           bind_s (str_literal ''false'') (\<lambda>f. bind_s (str_literal ''true'') (\<lambda>t. create_select c t f)))
         else if tid = TID_INT \<or> tid = TID_LONG then format_int v
         else if tid = TID_DOUBLE \<or> tid = TID_REAL then
           bind_s (get_or_declare_rt ''duxrt_str_from_double'' PtrTy [DoubleTy]) (\<lambda>f.
           bind_s (create_cast FPExt v DoubleTy) (\<lambda>w. create_call f [w]))
         else ret v)"

text \<open>A condition that aborts the program when it fails.\<close>

definition assert_true :: "val \<Rightarrow> unit cgp" where
  "assert_true c = bind_s current_parent (\<lambda>f.
     bind_s (new_block f ''assert.ok'') (\<lambda>ok.
     bind_s (new_block f ''assert.fail'') (\<lambda>fail.
     then_s (create_cond_br c ok fail) (
     then_s (set_insert fail) (
     then_s (call_rt ''abort'' VoidTy [] []) (
     then_s (put_inst Unreachable) (set_insert ok)))))))"

definition gen_assert_call :: "gens \<Rightarrow> expr list \<Rightarrow> val cgp" where
  "gen_assert_call G as = (case as of
       [] \<Rightarrow> ret null_ptr
     | a # _ \<Rightarrow> bind_s (g_expr G a) (\<lambda>v. bind_s (to_bool v) (\<lambda>c. then_s (assert_true c) (ret null_ptr))))"

definition gen_len :: "gens \<Rightarrow> expr list \<Rightarrow> val cgp" where
  "gen_len G as = (case as of
       [] \<Rightarrow> ret (const_int 32 0)
     | a # _ \<Rightarrow> bind_s (g_expr G a) (\<lambda>v.
         bind_s (call_rt (if type_id_of a = TID_LIST then ''duxrt_list_len''
             else if type_id_of a = TID_DICT then ''duxrt_dict_len'' else ''duxrt_str_length'') (IntTy 64) [PtrTy] [v])
           (\<lambda>n. create_cast Trunc n (IntTy 32))))"

section \<open>Calls\<close>

text \<open>A closure: a struct whose first field is the function, which takes the struct as its first argument.\<close>

definition call_closure :: "gens \<Rightarrow> type_expr \<Rightarrow> val \<Rightarrow> expr list \<Rightarrow> val cgp" where
  "call_closure G te a as = bind_s (gets cg_types) (\<lambda>r.
     let rt = from_name r (te_fn_ret te); t = (if rt = TID_VOID \<or> rt < 0 then VoidTy else lower_type r rt)
     in bind_s (create_load PtrTy a) (\<lambda>clos.
        bind_s (create_struct_gep (StructTy [PtrTy]) clos 0) (\<lambda>p.
        bind_s (create_load PtrTy p) (\<lambda>fp.
        bind_s (gen_args G as (map (lower_type_expr r) (te_fn_params te))) (\<lambda>vs.
        create_call_ptr t fp (clos # vs))))))"

definition call_named :: "gens \<Rightarrow> string \<Rightarrow> expr list \<Rightarrow> val cgp" where
  "call_named G x as = bind_s (gets (\<lambda>s. case get_function x s of
       Some f \<Rightarrow> Some f
     | None \<Rightarrow> if cg_namespace s \<noteq> [] then get_function (mangle (cg_namespace s) x) s else None)) (\<lambda>f. case f of
       None \<Rightarrow> ret null_ptr
     | Some f \<Rightarrow> bind_s (gets (param_types f)) (\<lambda>ps. bind_s (gen_args G as ps) (emit_call f)))"

definition gen_ident_call :: "gens \<Rightarrow> string \<Rightarrow> expr list \<Rightarrow> val cgp" where
  "gen_ident_call G x as =
     (if x = ''println'' \<or> x = ''print'' then gen_println G as
      else if x = ''__fstr_to_str'' then bind_s (first_arg G as) (\<lambda>(v, t). fstr_to_str v t)
      else if x = ''assert'' then gen_assert_call G as
      else if x = ''len'' then gen_len G as
      else bind_s (gets (\<lambda>s. case (cg_fn_vars s x, lookup_env (cg_env s) x) of
            (Some te, Some a) \<Rightarrow> Some (te, a) | _ \<Rightarrow> None)) (\<lambda>c. case c of
          Some (te, a) \<Rightarrow> call_closure G te a as
        | None \<Rightarrow> call_named G x as))"

text \<open>The walk to the parent classes for a method that the class itself does not define.\<close>

definition inherited_step :: "cg \<Rightarrow> string \<Rightarrow> string \<Rightarrow> nat option + string" where
  "inherited_step s m cur = (case cg_layouts s cur of
       None \<Rightarrow> Inl None
     | Some l \<Rightarrow> if cl_parent l = [] then Inl None
         else (case get_function (mangle (cl_parent l) m) s of
             Some f \<Rightarrow> Inl (Some f)
           | None \<Rightarrow> Inr (cl_parent l)))"

definition method_fn :: "string \<Rightarrow> string \<Rightarrow> nat option cgp" where
  "method_fn cls m = run_loop (\<lambda>s. case get_function (mangle cls m) s of
       Some f \<Rightarrow> Some (Some f)
     | None \<Rightarrow> if cls = [] then Some None else iter_until (inherited_step s m) cls)"

definition gen_method_call :: "gens \<Rightarrow> expr \<Rightarrow> string \<Rightarrow> expr list \<Rightarrow> val cgp" where
  "gen_method_call G obj m as = bind_s (g_expr G obj) (\<lambda>v.
     bind_s (resolve_class_name obj (type_id_of obj)) (\<lambda>cls.
     bind_s (method_fn cls m) (\<lambda>f. case f of
         None \<Rightarrow> ret null_ptr
       | Some f \<Rightarrow> bind_s (gets (param_types f)) (\<lambda>ps. bind_s (gen_args G as (tl ps)) (\<lambda>vs. emit_call f (v # vs))))))"

text \<open>A function of a namespace, or the constructor of a variant with payload.\<close>

datatype qual_call = NamespaceFn nat | EnumCtor type_info enum_variant_info | NotQualified

definition qualified_name :: "expr \<Rightarrow> string \<Rightarrow> cg \<Rightarrow> qual_call" where
  "qualified_name obj m s = (case obj of
       IdentExpr l t x \<Rightarrow> (case get_function (mangle x m) s of
           Some f \<Rightarrow> NamespaceFn f
         | None \<Rightarrow> (case enum_of_name x s of
               Some ti \<Rightarrow> if has_payload ti then
                   (case find_variant m ti of Some v \<Rightarrow> EnumCtor ti v | None \<Rightarrow> NotQualified)
                 else NotQualified
             | None \<Rightarrow> NotQualified))
     | _ \<Rightarrow> NotQualified)"

definition gen_call :: "gens \<Rightarrow> expr \<Rightarrow> expr list \<Rightarrow> val cgp" where
  "gen_call G callee as = bind_s (try_stdlib_call G callee as) (\<lambda>r. case r of
       Some v \<Rightarrow> ret v
     | None \<Rightarrow> (case callee of
           IdentExpr l t x \<Rightarrow> gen_ident_call G x as
         | MemberExpr l t obj m \<Rightarrow> bind_s (gets (qualified_name obj m)) (\<lambda>q. case q of
               NamespaceFn f \<Rightarrow> call_with_args G f as
             | EnumCtor ti v \<Rightarrow> gen_enum_ctor G ti v as
             | NotQualified \<Rightarrow> gen_method_call G obj m as)
         | _ \<Rightarrow> then_s (g_expr G callee) (ret null_ptr)))"

end
