(* ===== verification/Cg_Expr.thy ===== *)
theory Cg_Expr
  imports Cg_Call
begin

text \<open>
  The expressions of the code generator, second part: assignments, operators, indexing, objects, literals of
  lists and dictionaries, lambdas and \<open>await\<close>, and the dispatch of \<open>gen_expr\<close>.
\<close>

section \<open>Assignments\<close>

text \<open>The setter that an assignment to a member calls; it is looked for before the object is generated.\<close>

definition find_setter :: "expr \<Rightarrow> string \<Rightarrow> nat option cgp" where
  "find_setter obj x = bind_s (resolve_class_name obj (type_id_of obj)) (\<lambda>cls. gets (\<lambda>s. case cg_layouts s cls of
       None \<Rightarrow> None
     | Some lay \<Rightarrow> (case find (\<lambda>m. mi_name m = x \<and> mi_modifier m = ''set'' \<and> mi_fn m \<noteq> None) (cl_methods lay) of
           Some m \<Rightarrow> mi_fn m
         | None \<Rightarrow> None)))"

text \<open>A key of a dictionary: the characters of a string, anything else boxed.\<close>

definition dict_key :: "expr \<Rightarrow> val \<Rightarrow> val cgp" where
  "dict_key k v = (if type_id_of k = TID_STR then call_rt ''duxrt_str_cstr'' PtrTy [PtrTy] [v] else box_to_ptr v)"

definition assign_list_item :: "gens \<Rightarrow> expr \<Rightarrow> expr \<Rightarrow> expr \<Rightarrow> val cgp" where
  "assign_list_item G obj i e = bind_s (g_expr G obj) (\<lambda>ov. bind_s (g_expr G i) (\<lambda>iv. bind_s (g_expr G e) (\<lambda>v.
     bind_s (create_cast SExt iv (IntTy 64)) (\<lambda>iv.
     bind_s (box_to_ptr v) (\<lambda>b.
     then_s (call_rt ''duxrt_list_set'' VoidTy [PtrTy, IntTy 64, PtrTy] [ov, iv, b]) (ret v))))))"

definition assign_dict_item :: "gens \<Rightarrow> expr \<Rightarrow> expr \<Rightarrow> expr \<Rightarrow> val cgp" where
  "assign_dict_item G obj k e = bind_s (g_expr G obj) (\<lambda>ov. bind_s (g_expr G k) (\<lambda>kv. bind_s (g_expr G e) (\<lambda>v.
     bind_s (dict_key k kv) (\<lambda>kv.
     bind_s (box_to_ptr v) (\<lambda>b.
     then_s (call_rt ''duxrt_dict_set'' VoidTy [PtrTy, PtrTy, PtrTy] [ov, kv, b]) (ret v))))))"

text \<open>The old content of a variable of a counted type is released, for lists and dictionaries unless it is null.\<close>

definition holds_ptr :: "cg \<Rightarrow> val \<Rightarrow> bool" where
  "holds_ptr s a \<longleftrightarrow> cg_alloca_ty s a = Some PtrTy"

definition release_unless_null :: "val \<Rightarrow> string \<Rightarrow> string \<Rightarrow> string \<Rightarrow> unit cgp" where
  "release_unless_null p rel rel_name cont_name =
     bind_s (get_or_declare_rt rel VoidTy [PtrTy]) (\<lambda>f.
     bind_s current_parent (\<lambda>fn.
     bind_s (new_block fn rel_name) (\<lambda>rel_bb.
     bind_s (new_block fn cont_name) (\<lambda>cont_bb.
     bind_s (create_cmp ICmpEQ p null_ptr) (\<lambda>c.
     then_s (create_cond_br c cont_bb rel_bb) (
     then_s (set_insert rel_bb) (
     then_s (create_call f [p]) (
     then_s (create_br cont_bb) (set_insert cont_bb)))))))))"

definition release_old :: "type_id \<Rightarrow> val \<Rightarrow> unit cgp" where
  "release_old tid a = bind_s (gets (\<lambda>s. holds_ptr s a)) (\<lambda>p. guarded p (
     if tid = TID_STR then release_slot a
     else if tid = TID_LIST then
       bind_s (create_load PtrTy a) (\<lambda>old. release_unless_null old ''duxrt_list_release'' ''list.asgn.rel'' ''list.asgn.cont'')
     else if tid = TID_DICT then
       bind_s (create_load PtrTy a) (\<lambda>old. release_unless_null old ''duxrt_dict_release'' ''dict.asgn.rel'' ''dict.asgn.cont'')
     else ret ()))"

definition assign_plain :: "val \<Rightarrow> val \<Rightarrow> type_id \<Rightarrow> val cgp" where
  "assign_plain a v tid = then_s (release_old tid a) (bind_s (maybe_retain tid v) (\<lambda>v.
     then_s (create_store v a) (ret v)))"

definition compound_op :: "string \<Rightarrow> bool \<Rightarrow> val \<Rightarrow> val \<Rightarrow> val cgp" where
  "compound_op op fp cur v =
     (if op = ''+='' then create_bin (if fp then FAdd else Add) cur v
      else if op = ''-='' then create_bin (if fp then FSub else Sub) cur v
      else if op = ''*='' then create_bin (if fp then FMul else Mul) cur v
      else if op = ''/='' then create_bin (if fp then FDiv else SDiv) cur v
      else if op = ''%='' then create_bin SRem cur v
      else ret v)"

definition assign_compound :: "string \<Rightarrow> val \<Rightarrow> val \<Rightarrow> type_id \<Rightarrow> val cgp" where
  "assign_compound op a v lhs = bind_s (gets cg_types) (\<lambda>r.
     let t = (if lhs = TID_UNKNOWN then val_ty v else lower_type r lhs) in
     bind_s (create_load t a) (\<lambda>cur.
     bind_s (if is_int_ty (val_ty cur) \<and> is_int_ty (val_ty v) \<and> val_ty cur \<noteq> val_ty v
        then create_int_cast SExt v (val_ty cur) else ret v) (\<lambda>v.
     bind_s (compound_op op (is_fp_ty t) cur v) (\<lambda>res. then_s (create_store res a) (ret res)))))"

text \<open>The variable an assignment makes when its target has no slot.\<close>

definition implicit_slot :: "expr \<Rightarrow> val \<Rightarrow> val cgp" where
  "implicit_slot target v = bind_s (make_alloca (val_ty v)) (\<lambda>a. then_s (case target of
       IdentExpr l t x \<Rightarrow> env_define x a TID_UNKNOWN
     | _ \<Rightarrow> ret ()) (ret a))"

definition assign_slot :: "gens \<Rightarrow> string \<Rightarrow> expr \<Rightarrow> expr \<Rightarrow> val cgp" where
  "assign_slot G op target e = bind_s (lvalue_of G target) (\<lambda>a. bind_s (g_expr G e) (\<lambda>v.
     bind_s (case a of Some a \<Rightarrow> ret a | None \<Rightarrow> implicit_slot target v) (\<lambda>a.
     if op = ''='' then assign_plain a v (type_id_of e) else assign_compound op a v (type_id_of target))))"

definition gen_assign :: "gens \<Rightarrow> string \<Rightarrow> expr \<Rightarrow> expr \<Rightarrow> val cgp" where
  "gen_assign G op target e = (case target of
       MemberExpr l t obj x \<Rightarrow> bind_s (find_setter obj x) (\<lambda>f. case f of
           Some f \<Rightarrow> bind_s (g_expr G obj) (\<lambda>ov. bind_s (g_expr G e) (\<lambda>v. emit_call f [ov, v]))
         | None \<Rightarrow> assign_slot G op target e)
     | IndexExpr l t obj i \<Rightarrow>
         if type_id_of obj = TID_LIST then assign_list_item G obj i e
         else if type_id_of obj = TID_DICT then assign_dict_item G obj i e
         else assign_slot G op target e
     | _ \<Rightarrow> assign_slot G op target e)"

section \<open>Operators\<close>

text \<open>The second operand of a logical operator is generated in a block of its own.\<close>

definition gen_bool :: "gens \<Rightarrow> expr \<Rightarrow> val cgp" where
  "gen_bool G e = bind_s (g_expr G e) to_bool"

definition gen_logic :: "gens \<Rightarrow> bool \<Rightarrow> expr \<Rightarrow> expr \<Rightarrow> val cgp" where
  "gen_logic G is_and a b = bind_s current_parent (\<lambda>f.
     bind_s (new_block f ''logic.rhs'') (\<lambda>rhs_bb.
     bind_s (new_block f ''logic.end'') (\<lambda>end_bb.
     bind_s (gen_bool G a) (\<lambda>va.
     bind_s insert_block (\<lambda>a_bb.
     then_s (if is_and then create_cond_br va rhs_bb end_bb else create_cond_br va end_bb rhs_bb) (
     then_s (set_insert rhs_bb) (
     bind_s (gen_bool G b) (\<lambda>vb.
     bind_s insert_block (\<lambda>b_bb.
     then_s (create_br end_bb) (
     then_s (set_insert end_bb) (
     bind_s (emit_inst (Phi (IntTy 1) [(if is_and then ConstInt 1 0 else va, a_bb), (vb, b_bb)])) (\<lambda>n.
     ret (Instr n (IntTy 1))))))))))))))"

definition operator_methods :: "(string \<times> string) list" where
  "operator_methods = [
     (''+'', ''operator__add''), (''-'', ''operator__sub''), (''*'', ''operator__mul''), (''/'', ''operator__div''),
     (''=='', ''operator__eq''), (''!='', ''operator__ne''), (''<'', ''operator__lt''), (''<='', ''operator__le''),
     (''>'', ''operator__gt''), (''>='', ''operator__ge'')]"

text \<open>The method that overloads an operator for the class of an operand.\<close>

definition overload_fn :: "expr \<Rightarrow> string \<Rightarrow> nat option cgp" where
  "overload_fn obj m = bind_s (resolve_class_name obj (type_id_of obj)) (\<lambda>cls.
     gets (\<lambda>s. if cls = [] then None else get_function (mangle cls m) s))"

definition op_method :: "string \<Rightarrow> expr \<Rightarrow> nat option cgp" where
  "op_method op a = (case map_of operator_methods op of None \<Rightarrow> ret None | Some m \<Rightarrow> overload_fn a m)"

definition fp_operands :: "type_id \<Rightarrow> type_id \<Rightarrow> val \<Rightarrow> val \<Rightarrow> bool" where
  "fp_operands lt rt va vb \<longleftrightarrow> lt = TID_DOUBLE \<or> lt = TID_REAL \<or> rt = TID_DOUBLE \<or> rt = TID_REAL \<or>
     is_fp_ty (val_ty va) \<or> is_fp_ty (val_ty vb)"

definition to_double :: "val \<Rightarrow> val cgp" where
  "to_double v = (if is_int_ty (val_ty v) then create_cast SIToFP v DoubleTy else ret v)"

definition promote_operands :: "bool \<Rightarrow> val \<Rightarrow> val \<Rightarrow> (val \<times> val) cgp" where
  "promote_operands fp va vb =
     (if fp then bind_s (to_double va) (\<lambda>va. bind_s (to_double vb) (\<lambda>vb. ret (va, vb)))
      else if is_int_ty (val_ty va) \<and> is_int_ty (val_ty vb) \<and> val_ty va \<noteq> val_ty vb then
        if int_width (val_ty va) < int_width (val_ty vb)
        then bind_s (create_cast SExt va (val_ty vb)) (\<lambda>va. ret (va, vb))
        else bind_s (create_cast SExt vb (val_ty va)) (\<lambda>vb. ret (va, vb))
      else ret (va, vb))"

definition is_enum :: "registry \<Rightarrow> type_id \<Rightarrow> bool" where
  "is_enum r tid \<longleftrightarrow> tid \<noteq> TID_UNKNOWN \<and> ti_kind (info r tid) = TK_Enum"

definition enum_tag :: "val \<Rightarrow> type_id \<Rightarrow> val cgp" where
  "enum_tag v tid = bind_s (gets cg_types) (\<lambda>r.
     if has_payload (info r tid) then
       bind_s (create_struct_gep (StructTy [IntTy 32, PtrTy]) v 0) (create_load (IntTy 32))
     else ret v)"

definition to_i32 :: "val \<Rightarrow> val cgp" where
  "to_i32 v = create_cast (if int_width (val_ty v) = 32 then BitCast else Trunc) v (IntTy 32)"

definition compare_tags :: "string \<Rightarrow> val \<Rightarrow> val \<Rightarrow> val cgp" where
  "compare_tags op va vb = create_cmp (if op = ''=='' then ICmpEQ else ICmpNE) va vb"

definition compare_mixed :: "string \<Rightarrow> bool \<Rightarrow> bool \<Rightarrow> type_id \<Rightarrow> val \<Rightarrow> val \<Rightarrow> val cgp" where
  "compare_mixed op l_enum r_enum tid va vb =
     bind_s (if l_enum then enum_tag va tid else ret va) (\<lambda>va.
     bind_s (if r_enum then enum_tag vb tid else ret vb) (\<lambda>vb.
     bind_s (to_i32 va) (\<lambda>va. bind_s (to_i32 vb) (\<lambda>vb. compare_tags op va vb))))"

definition compare_strings :: "string \<Rightarrow> val \<Rightarrow> val \<Rightarrow> val cgp" where
  "compare_strings op va vb = bind_s (call_rt ''duxrt_str_eq'' (IntTy 32) [PtrTy, PtrTy] [va, vb]) (\<lambda>eq.
     if val_ty eq = IntTy 1 then (if op = ''!='' then create_not eq else ret eq)
     else create_cmp (if op = ''!='' then ICmpEQ else ICmpNE) eq (const_int 32 0))"

text \<open>The instruction of an operator on numbers, integers or floating point.\<close>

definition arith_ops :: "(string \<times> opcode \<times> opcode) list" where
  "arith_ops = [(''+'', FAdd, Add), (''-'', FSub, Sub), (''*'', FMul, Mul), (''/'', FDiv, SDiv), (''%'', FRem, SRem)]"

definition compare_ops :: "(string \<times> opcode \<times> opcode) list" where
  "compare_ops = [(''=='', FCmpOEQ, ICmpEQ), (''!='', FCmpONE, ICmpNE), (''<'', FCmpOLT, ICmpSLT),
     (''>'', FCmpOGT, ICmpSGT), (''<='', FCmpOLE, ICmpSLE), (''>='', FCmpOGE, ICmpSGE)]"

definition numeric_op :: "string \<Rightarrow> bool \<Rightarrow> val \<Rightarrow> val \<Rightarrow> val cgp" where
  "numeric_op op fp va vb = (case map_of arith_ops op of
       Some (f, i) \<Rightarrow> create_bin (if fp then f else i) va vb
     | None \<Rightarrow> (case map_of compare_ops op of
           Some (f, i) \<Rightarrow> create_cmp (if fp then f else i) va vb
         | None \<Rightarrow> ret (if op = ''..<'' \<or> op = ''..='' then va else const_int 32 0)))"

definition gen_operands :: "string \<Rightarrow> type_id \<Rightarrow> type_id \<Rightarrow> bool \<Rightarrow> val \<Rightarrow> val \<Rightarrow> val cgp" where
  "gen_operands op lt rt fp va vb = bind_s (gets cg_types) (\<lambda>r.
     let eq = (op = ''=='' \<or> op = ''!='') in
     if op = ''+'' \<and> (lt = TID_STR \<or> rt = TID_STR) then call_rt ''duxrt_str_concat'' PtrTy [PtrTy, PtrTy] [va, vb]
     else if eq \<and> lt = rt \<and> is_enum r lt then
       bind_s (enum_tag va lt) (\<lambda>va. bind_s (enum_tag vb rt) (\<lambda>vb. compare_tags op va vb))
     else if eq \<and> lt \<noteq> rt \<and> (is_enum r lt \<or> is_enum r rt) then
       compare_mixed op (is_enum r lt) (is_enum r rt) (if is_enum r lt then lt else rt) va vb
     else if eq \<and> (lt = TID_STR \<or> rt = TID_STR) then compare_strings op va vb
     else if op = ''+'' \<and> (lt = TID_LIST \<or> rt = TID_LIST) then
       call_rt ''duxrt_list_concat'' PtrTy [PtrTy, PtrTy] [va, vb]
     else numeric_op op fp va vb)"

definition gen_binary :: "gens \<Rightarrow> string \<Rightarrow> expr \<Rightarrow> expr \<Rightarrow> val cgp" where
  "gen_binary G op a b =
     (if op = ''&&'' \<or> op = ''||'' then gen_logic G (op = ''&&'') a b
      else bind_s (g_expr G a) (\<lambda>va. bind_s (g_expr G b) (\<lambda>vb.
        bind_s (op_method op a) (\<lambda>f. case f of
            Some f \<Rightarrow> emit_call f [va, vb]
          | None \<Rightarrow>
              let lt = type_id_of a; rt = type_id_of b; fp = fp_operands lt rt va vb in
              bind_s (promote_operands fp va vb) (\<lambda>(va, vb). gen_operands op lt rt fp va vb)))))"

definition float_one :: f64_bits where
  "float_one = 0x3FF0000000000000"

text \<open>A null slot is loaded from and stored to.\<close>

definition gen_step :: "gens \<Rightarrow> bool \<Rightarrow> expr \<Rightarrow> bool \<Rightarrow> val cgp" where
  "gen_step G up e prefix = bind_s (lvalue_of G e) (\<lambda>a. case a of
       None \<Rightarrow> null_deref
     | Some a \<Rightarrow> bind_s (gets cg_types) (\<lambda>r.
         let t = lower_type r (known_or TID_INT (type_id_of e)); fp = is_fp_ty t in
         bind_s (create_load t a) (\<lambda>cur.
         bind_s (create_bin (if up then (if fp then FAdd else Add) else (if fp then FSub else Sub)) cur
             (if fp then ConstFP t float_one else const_int (int_width t) 1)) (\<lambda>nxt.
         then_s (create_store nxt a) (ret (if prefix then nxt else cur))))))"

definition gen_unary :: "gens \<Rightarrow> string \<Rightarrow> expr \<Rightarrow> bool \<Rightarrow> val cgp" where
  "gen_unary G op e prefix =
     (if op = ''++'' \<or> op = ''--'' then gen_step G (op = ''++'') e prefix
      else bind_s (g_expr G e) (\<lambda>v.
        if op = ''-'' then (if is_fp_ty (val_ty v) then create_op FNeg [v] (val_ty v) else create_neg v)
        else if op = ''!'' \<or> op = ''not'' then bind_s (to_bool v) create_not
        else if op = ''~'' then create_not v
        else ret v))"

section \<open>Indexing, objects and literals\<close>

definition gen_index :: "gens \<Rightarrow> expr \<Rightarrow> expr \<Rightarrow> val cgp" where
  "gen_index G obj i = bind_s (g_expr G obj) (\<lambda>ov. bind_s (g_expr G i) (\<lambda>iv.
     bind_s (overload_fn obj ''operator__index'') (\<lambda>f. case f of
         Some f \<Rightarrow> emit_call f [ov, iv]
       | None \<Rightarrow>
           if type_id_of obj = TID_LIST then
             bind_s (create_cast SExt iv (IntTy 64)) (\<lambda>w. call_rt ''duxrt_list_get'' PtrTy [PtrTy, IntTy 64] [ov, w])
           else if type_id_of obj = TID_DICT then
             bind_s (if type_id_of i = TID_STR then call_rt ''duxrt_str_cstr'' PtrTy [PtrTy] [iv] else ret iv) (\<lambda>k.
             call_rt ''duxrt_dict_get'' PtrTy [PtrTy, PtrTy] [ov, k])
           else if type_id_of obj = TID_STR then
             bind_s (create_cast SExt iv (IntTy 64)) (\<lambda>w. call_rt ''duxrt_str_index'' PtrTy [PtrTy, IntTy 64] [ov, w])
           else ret null_ptr)))"

definition init_field_value :: "gens \<Rightarrow> lty \<Rightarrow> val \<Rightarrow> field_info \<Rightarrow> unit cgp" where
  "init_field_value G st raw f = (case fi_init f of
       None \<Rightarrow> ret ()
     | Some e \<Rightarrow> bind_s (create_struct_gep st raw (fi_index f)) (\<lambda>p. bind_s (g_expr G e) (\<lambda>v.
         bind_s (gets (\<lambda>s. lower_type (cg_types s) (fi_type f))) (\<lambda>t.
         bind_s (coerce_to_llvm_type v t) (\<lambda>v. create_store v p)))))"

definition gen_new :: "gens \<Rightarrow> string \<Rightarrow> expr list \<Rightarrow> val cgp" where
  "gen_new G cls as = bind_s (gets (\<lambda>s. cg_layouts s cls)) (\<lambda>lay. case lay of
       None \<Rightarrow> ret null_ptr
     | Some lay \<Rightarrow> bind_s (gets (\<lambda>s. cg_size s (cl_struct lay))) (\<lambda>n.
         bind_s (rt_malloc (const_int 64 n)) (\<lambda>raw.
         then_s (case cl_vtable lay of
             None \<Rightarrow> ret ()
           | Some g \<Rightarrow> bind_s (create_struct_gep (cl_struct lay) raw 0) (create_store g)) (
         then_s (for_each (init_field_value G (cl_struct lay) raw) (cl_fields lay)) (
         bind_s (gets (get_function (mangle cls cls))) (\<lambda>ctor. case ctor of
             None \<Rightarrow> ret raw
           | Some f \<Rightarrow> bind_s (map_s (g_expr G) as) (\<lambda>vs. then_s (emit_call f (raw # vs)) (ret raw))))))))"

definition set_last_kind :: "int \<Rightarrow> unit cgp" where
  "set_last_kind k = modify (\<lambda>s. s\<lparr>cg_last_kind := k\<rparr>)"

definition all_i32 :: "expr list \<Rightarrow> bool" where
  "all_i32 es \<longleftrightarrow> es \<noteq> [] \<and> (\<forall>e\<in>set es. type_id_of e = TID_INT \<or> type_id_of e = TID_BOOL)"

definition gen_list :: "gens \<Rightarrow> expr list \<Rightarrow> val cgp" where
  "gen_list G es =
     (if all_i32 es then
        bind_s (get_or_declare_rt ''duxrt_list_new_i32'' PtrTy []) (\<lambda>new_fn.
        bind_s (get_or_declare_rt ''duxrt_list_push_i32'' VoidTy [PtrTy, IntTy 32]) (\<lambda>push_fn.
        bind_s (create_call new_fn []) (\<lambda>l.
        then_s (for_each (\<lambda>e. bind_s (g_expr G e) (\<lambda>v. bind_s (create_int_cast ZExt v (IntTy 32)) (\<lambda>v.
          then_s (create_call push_fn [l, v]) (ret ())))) es) (
        then_s (set_last_kind 1) (ret l)))))
      else
        then_s (set_last_kind 0) (
        bind_s (get_or_declare_rt ''duxrt_list_new'' PtrTy []) (\<lambda>new_fn.
        bind_s (create_call new_fn []) (\<lambda>l.
        bind_s (get_or_declare_rt ''duxrt_list_push'' VoidTy [PtrTy, PtrTy]) (\<lambda>push_fn.
        then_s (for_each (\<lambda>e. bind_s (g_expr G e) (\<lambda>v. bind_s (box_to_ptr v) (\<lambda>b.
          then_s (create_call push_fn [l, b]) (ret ())))) es) (ret l))))))"

definition gen_dict :: "gens \<Rightarrow> dict_entry list \<Rightarrow> val cgp" where
  "gen_dict G ps =
     bind_s (get_or_declare_rt ''duxrt_dict_new'' PtrTy []) (\<lambda>new_fn.
     bind_s (create_call new_fn []) (\<lambda>d.
     bind_s (get_or_declare_rt ''duxrt_dict_set'' VoidTy [PtrTy, PtrTy, PtrTy]) (\<lambda>set_fn.
     bind_s (get_or_declare_rt ''duxrt_str_cstr'' PtrTy [PtrTy]) (\<lambda>cstr_fn.
     then_s (for_each (\<lambda>p. case p of DictEntry k e \<Rightarrow>
       bind_s (g_expr G k) (\<lambda>kv. bind_s (g_expr G e) (\<lambda>ev.
       bind_s (if type_id_of k = TID_STR then create_call cstr_fn [kv] else box_to_ptr kv) (\<lambda>kv.
       bind_s (box_to_ptr ev) (\<lambda>ev. then_s (create_call set_fn [d, kv, ev]) (ret ())))))) ps) (ret d)))))"

section \<open>Free variables\<close>

text \<open>
  \<open>collect_fv_expr\<close> and \<open>collect_fv_stmt\<close>. The set \<open>seen\<close> of the code always has the elements of the result
  list, so it is read off the list; the local names are changed in place by declarations, and a block works on a copy.
\<close>

type_synonym fv_state = "string set \<times> string list"

definition fv_add :: "string \<Rightarrow> fv_state \<Rightarrow> fv_state" where
  "fv_add x = (\<lambda>(locals, res). (locals, if x \<notin> locals \<and> x \<notin> set res then res @ [x] else res))"

fun fv_expr :: "expr \<Rightarrow> fv_state \<Rightarrow> fv_state" and fv_exprs :: "expr list \<Rightarrow> fv_state \<Rightarrow> fv_state" where
  "fv_expr (IdentExpr l t x) st = fv_add x st"
| "fv_expr (BinaryExpr l t op a b) st = fv_expr b (fv_expr a st)"
| "fv_expr (UnaryExpr l t op a p) st = fv_expr a st"
| "fv_expr (CallExpr l t f as) st = fv_exprs as (fv_expr f st)"
| "fv_expr (MemberExpr l t a x) st = fv_expr a st"
| "fv_expr (IndexExpr l t a b) st = fv_expr b (fv_expr a st)"
| "fv_expr (AssignExpr l t op a b) st = fv_expr b (fv_expr a st)"
| "fv_expr (NewExpr l t te as) st = fv_exprs as st"
| "fv_expr e st = st"
| "fv_exprs [] st = st"
| "fv_exprs (e # es) st = fv_exprs es (fv_expr e st)"

fun fv_inits :: "var_init list \<Rightarrow> fv_state \<Rightarrow> fv_state" where
  "fv_inits [] st = st"
| "fv_inits (VarInit x e # ds) st = fv_inits ds ((\<lambda>(locals, res). (insert x locals, res)) (fv_expr e st))"

fun fv_stmt :: "stmt \<Rightarrow> fv_state \<Rightarrow> fv_state" and fv_stmts :: "stmt list \<Rightarrow> fv_state \<Rightarrow> fv_state" where
  "fv_stmt (BlockStmt l sts) st = (fst st, snd (fv_stmts sts st))"
| "fv_stmt (ExprStmt l e) st = fv_expr e st"
| "fv_stmt (ReturnStmt l e) st = (case e of None \<Rightarrow> st | Some e \<Rightarrow> fv_expr e st)"
| "fv_stmt (VarDeclStmt l te c stat tls ds) st = fv_inits ds st"
| "fv_stmt (IfStmt l c a b) st = fv_stmt b (fv_stmt a (fv_expr c st))"
| "fv_stmt (WhileStmt l lb c a) st = fv_stmt a (fv_expr c st)"
| "fv_stmt s st = st"
| "fv_stmts [] st = st"
| "fv_stmts (s # sts) st = fv_stmts sts (fv_stmt s st)"

definition free_vars :: "param list \<Rightarrow> stmt \<Rightarrow> string list" where
  "free_vars ps body = snd (fv_stmt body (set (map param_name ps), []))"

section \<open>Lambdas\<close>

text \<open>The statements of a body that is a block.\<close>

definition block_body :: "stmt \<Rightarrow> stmt list" where
  "block_body st = (case st of BlockStmt l sts \<Rightarrow> sts | _ \<Rightarrow> [])"

fun return_value :: "stmt \<Rightarrow> type_id option" where
  "return_value (ReturnStmt l (Some e)) =
     (if 0 \<le> type_id_of e \<and> type_id_of e \<noteq> TID_VOID then Some (type_id_of e) else None)"
| "return_value s = None"

definition lambda_ret :: "stmt \<Rightarrow> type_id" where
  "lambda_ret body = (case List.map_filter return_value (block_body body) of [] \<Rightarrow> TID_VOID | t # _ \<Rightarrow> t)"

definition set_personality :: "nat \<Rightarrow> unit cgp" where
  "set_personality f =
     then_s (bind_s (gets (get_function ''__gxx_personality_v0'')) (\<lambda>p. case p of
         Some p \<Rightarrow> ret p
       | None \<Rightarrow> create_fn ''__gxx_personality_v0'' (IntTy 32) [] True))
     (modify (\<lambda>s. s\<lparr>cg_funs := (cg_funs s)[f := (cg_funs s ! f)\<lparr>fn_personality := True\<rparr>]\<rparr>))"

text \<open>
  The type recorded for a captured variable: that of the innermost outer variable of the name that has one.
\<close>

fun capture_type :: "(val \<rightharpoonup> lty) \<Rightarrow> (string \<rightharpoonup> val) list \<Rightarrow> string \<Rightarrow> lty option" where
  "capture_type ts [] x = None"
| "capture_type ts (m # ms) x = (case m x of
       Some a \<Rightarrow> (case ts a of Some t \<Rightarrow> Some t | None \<Rightarrow> capture_type ts ms x)
     | None \<Rightarrow> capture_type ts ms x)"

definition bind_capture :: "lty \<Rightarrow> val \<Rightarrow> (string \<rightharpoonup> val) list \<Rightarrow> nat \<times> string \<Rightarrow> unit cgp" where
  "bind_capture ct env_arg outer = (\<lambda>(i, x).
     bind_s (create_struct_gep ct env_arg (i + 1)) (\<lambda>p.
     bind_s (create_load PtrTy p) (\<lambda>a. modify (\<lambda>s. (bind_name x a s)\<lparr>cg_alloca_ty :=
       (case capture_type (cg_alloca_ty s) outer x of None \<Rightarrow> cg_alloca_ty s | Some t \<Rightarrow> (cg_alloca_ty s)(a \<mapsto> t))\<rparr>))))"

definition bind_param :: "nat \<Rightarrow> nat \<times> param \<Rightarrow> unit cgp" where
  "bind_param f = (\<lambda>(i, p). bind_s (gets (\<lambda>s. lower_type_expr (cg_types s) (param_type p))) (\<lambda>t.
     bind_s (make_alloca t) (\<lambda>a.
     then_s (create_store (Argument f i t) a) (modify (bind_name (param_name p) a)))))"

definition register_fn_params :: "param list \<Rightarrow> unit cgp" where
  "register_fn_params ps = for_each (\<lambda>p. guarded (te_name (param_type p) = ''__fn'')
     (modify (\<lambda>s. s\<lparr>cg_fn_vars := (cg_fn_vars s)(param_name p \<mapsto> param_type p)\<rparr>))) ps"

text \<open>The end of a body that falls through: cleanups, then the return of nothing or of a zero.\<close>

definition finish_body :: "gens \<Rightarrow> lty \<Rightarrow> unit cgp" where
  "finish_body G t = unless_closed (then_s (emit_all_cleanups G)
     (put_inst (if t = VoidTy then RetVoid else Ret (null_value t))))"

definition drop_scopes :: "cg \<Rightarrow> cg" where
  "drop_scopes s = s\<lparr>cg_cleanups := tl (cg_cleanups s), cg_strs := tl (cg_strs s), cg_env := tl (cg_env s)\<rparr>"

text \<open>What a lambda saves before its body and restores after it.\<close>

definition restore_outer :: "cg \<Rightarrow> cg \<Rightarrow> cg" where
  "restore_outer s0 s = s\<lparr>cg_insert := cg_insert s0, cg_env := cg_env s0, cg_strs := cg_strs s0,
     cg_cleanups := cg_cleanups s0, cg_var_class := cg_var_class s0, cg_class := cg_class s0,
     cg_ret_type := cg_ret_type s0, cg_lps := cg_lps s0, cg_fn := cg_fn s0\<rparr>"

definition enter_function :: "nat \<Rightarrow> type_id \<Rightarrow> cg \<Rightarrow> cg" where
  "enter_function f tid s = s\<lparr>cg_fn := Some f, cg_ret_type := tid, cg_class := [], cg_lps := [], cg_env := [],
     cg_strs := [], cg_cleanups := [], cg_var_class := Map.empty\<rparr>"

definition start_body :: "nat \<Rightarrow> unit cgp" where
  "start_body f = bind_s (new_block f ''entry'') (\<lambda>b. then_s (set_insert b) env_push)"

definition gen_lambda_body :: "gens \<Rightarrow> nat \<Rightarrow> lty \<Rightarrow> type_id \<Rightarrow> string list \<Rightarrow> param list \<Rightarrow> stmt \<Rightarrow> unit cgp" where
  "gen_lambda_body G f ct rt captures ps body = bind_s (gets (\<lambda>s. s)) (\<lambda>s0.
     then_s (modify (enter_function f rt)) (
     then_s (start_body f) (
     then_s (for_each (bind_capture ct (Argument f 0 PtrTy) (cg_env s0)) (List.enumerate 0 captures)) (
     then_s (for_each (bind_param f) (List.enumerate 1 ps)) (
     then_s (register_fn_params ps) (
     then_s (gen_stmts G (block_body body)) (
     then_s (finish_body G (lower_type (cg_types s0) rt)) (
     then_s (modify drop_scopes) (modify (restore_outer s0))))))))))"

definition store_capture :: "lty \<Rightarrow> val \<Rightarrow> nat \<times> string \<Rightarrow> unit cgp" where
  "store_capture ct raw = (\<lambda>(i, x). bind_s (create_struct_gep ct raw (i + 1)) (\<lambda>p.
     bind_s (lookup_name x) (\<lambda>a. case a of None \<Rightarrow> ret () | Some a \<Rightarrow> create_store a p)))"

definition gen_lambda :: "gens \<Rightarrow> param list \<Rightarrow> stmt \<Rightarrow> val cgp" where
  "gen_lambda G ps body = bind_s (gets (\<lambda>s. s)) (\<lambda>s.
     let captures = filter (\<lambda>x. lookup_env (cg_env s) x \<noteq> None) (free_vars ps body);
         ct = StructTy (PtrTy # map (\<lambda>x. PtrTy) captures);
         rt = lambda_ret body
     in then_s (modify (\<lambda>s. s\<lparr>cg_lambdas := cg_lambdas s + 1\<rparr>)) (
        bind_s (create_fn (''__lambda_'' @ show_nat (cg_lambdas s)) (lower_type (cg_types s) rt)
          (([], PtrTy) # map (\<lambda>p. ([], lower_type_expr (cg_types s) (param_type p))) ps) False) (\<lambda>f.
        then_s (set_personality f) (
        then_s (gen_lambda_body G f ct rt captures ps body) (
        bind_s (rt_malloc (const_int 64 (cg_size s ct))) (\<lambda>raw.
        bind_s (create_struct_gep ct raw 0) (\<lambda>p.
        then_s (create_store (FunVal f) p) (
        then_s (for_each (store_capture ct raw) (List.enumerate 0 captures)) (ret raw)))))))))"

section \<open>Await and the dispatch\<close>

definition gen_await :: "gens \<Rightarrow> type_id \<Rightarrow> expr \<Rightarrow> val cgp" where
  "gen_await G t e = bind_s (g_expr G e) (\<lambda>fut.
     bind_s (get_or_declare_rt ''duxrt_future_await'' PtrTy [PtrTy]) (\<lambda>await_fn.
     bind_s (emit_call await_fn [fut]) (\<lambda>raw.
     bind_s (get_or_declare_rt ''duxrt_future_free'' VoidTy [PtrTy]) (\<lambda>free_fn.
     then_s (emit_call free_fn [fut]) (
     if t \<le> 0 \<or> t = TID_VOID \<or> t = TID_OBJECT \<or> t = TID_STR then ret raw
     else if t = TID_INT then bind_s (create_cast PtrToInt raw (IntTy 64)) (\<lambda>w. create_cast Trunc w (IntTy 32))
     else if t = TID_LONG then create_cast PtrToInt raw (IntTy 64)
     else if t = TID_BOOL then bind_s (create_cast PtrToInt raw (IntTy 64)) (\<lambda>w. create_cast Trunc w (IntTy 1))
     else if t = TID_DOUBLE then bind_s (create_cast PtrToInt raw (IntTy 64)) (\<lambda>w. create_cast BitCast w DoubleTy)
     else ret raw)))))"

text \<open>An integer literal keeps the low 32 bits of its value. A null node is dereferenced.\<close>

fun gen_expr :: "gens \<Rightarrow> expr \<Rightarrow> val cgp" where
  "gen_expr G (IntLitExpr l t v) = ret (const_int 32 (sint v))"
| "gen_expr G (LongLitExpr l t v) = ret (const_int 64 (sint v))"
| "gen_expr G (FloatLitExpr l t v) = ret (ConstFP DoubleTy v)"
| "gen_expr G (RealLitExpr l t v) = ret (ConstFP FloatTy v)"
| "gen_expr G (StringLitExpr l t v) = str_literal v"
| "gen_expr G (BoolLitExpr l t v) = ret (ConstInt 1 (if v then 1 else 0))"
| "gen_expr G (NullLitExpr l t) = ret null_ptr"
| "gen_expr G (IdentExpr l t x) = load_var x l"
| "gen_expr G (ThisExpr l t) = load_var ''this'' l"
| "gen_expr G (SuperExpr l t) = load_var ''this'' l"
| "gen_expr G (BinaryExpr l t op a b) = gen_binary G op a b"
| "gen_expr G (UnaryExpr l t op a p) = gen_unary G op a p"
| "gen_expr G (AssignExpr l t op a b) = gen_assign G op a b"
| "gen_expr G (CallExpr l t f as) = gen_call G f as"
| "gen_expr G (MemberExpr l t a x) = gen_member G l a x"
| "gen_expr G (IndexExpr l t a b) = gen_index G a b"
| "gen_expr G (NewExpr l t te as) = gen_new G (te_name te) as"
| "gen_expr G (ListExpr l t es) = gen_list G es"
| "gen_expr G (DictExpr l t ps) = gen_dict G ps"
| "gen_expr G (LambdaExpr l t ps b cs r i) = gen_lambda G ps b"
| "gen_expr G (AwaitExpr l t a) = gen_await G t a"
| "gen_expr G NoExpr = null_deref"

end
