(* ===== verification/Cg_Stmt.thy ===== *)
theory Cg_Stmt
  imports Cg_Expr
begin

text \<open>
  The statements of the code generator: blocks and branches, loops with the stack \<open>loop_stack_\<close>, \<open>switch\<close> and
  \<open>match\<close>, exceptions, declarations of variables, and the dispatch of \<open>gen_stmt\<close>. A basic block that a statement
  makes is created where the code creates it, so blocks are numbered in the order of the code.
\<close>

section \<open>Branches and loops\<close>

text \<open>The end of a branch: on to a block, unless the current one is closed.\<close>

definition goto_if_open :: "nat \<Rightarrow> unit cgp" where
  "goto_if_open b = unless_closed (create_br b)"

definition gen_block :: "gens \<Rightarrow> stmt list \<Rightarrow> unit cgp" where
  "gen_block G sts = in_scope G (gen_stmts G sts)"

definition gen_if :: "gens \<Rightarrow> expr \<Rightarrow> stmt \<Rightarrow> stmt \<Rightarrow> unit cgp" where
  "gen_if G c a b = bind_s (gen_bool G c) (\<lambda>v.
     bind_s current_parent (\<lambda>f.
     bind_s (new_block f ''if.then'') (\<lambda>then_bb.
     bind_s (new_block f ''if.else'') (\<lambda>else_bb.
     bind_s (new_block f ''if.end'') (\<lambda>merge_bb.
     then_s (create_cond_br v then_bb else_bb) (
     then_s (set_insert then_bb) (
     then_s (g_stmt G a) (
     then_s (goto_if_open merge_bb) (
     then_s (set_insert else_bb) (
     then_s (guarded (b \<noteq> NoStmt) (g_stmt G b)) (
     then_s (goto_if_open merge_bb) (set_insert merge_bb))))))))))))"

text \<open>The body of a loop, with its blocks for \<open>continue\<close> and \<open>break\<close> on the stack.\<close>

definition push_loop :: "nat option \<Rightarrow> nat \<Rightarrow> string \<Rightarrow> unit cgp" where
  "push_loop header exit lbl = modify (\<lambda>s. s\<lparr>cg_loops := \<lparr>lc_header = header, lc_exit = exit, lc_label = lbl\<rparr> # cg_loops s\<rparr>)"

definition pop_loop :: "unit cgp" where
  "pop_loop = modify (\<lambda>s. s\<lparr>cg_loops := tl (cg_loops s)\<rparr>)"

definition clear_label :: "unit cgp" where
  "clear_label = modify (\<lambda>s. s\<lparr>cg_label := []\<rparr>)"

definition loop_body :: "gens \<Rightarrow> nat \<Rightarrow> nat \<Rightarrow> string option \<Rightarrow> stmt \<Rightarrow> unit cgp" where
  "loop_body G header exit lbl body = bind_s (gets cg_label) (\<lambda>pending.
     then_s clear_label (
     then_s (push_loop (Some header) exit (case lbl of Some l \<Rightarrow> l | None \<Rightarrow> pending)) (
     then_s (g_stmt G body) (then_s pop_loop (goto_if_open header)))))"

definition gen_while :: "gens \<Rightarrow> string option \<Rightarrow> expr \<Rightarrow> stmt \<Rightarrow> unit cgp" where
  "gen_while G lbl c body = bind_s current_parent (\<lambda>f.
     bind_s (new_block f ''while.cond'') (\<lambda>hdr_bb.
     bind_s (new_block f ''while.body'') (\<lambda>body_bb.
     bind_s (new_block f ''while.end'') (\<lambda>exit_bb.
     then_s (create_br hdr_bb) (
     then_s (set_insert hdr_bb) (
     bind_s (gen_bool G c) (\<lambda>v.
     then_s (create_cond_br v body_bb exit_bb) (
     then_s (set_insert body_bb) (
     then_s (loop_body G hdr_bb exit_bb lbl body) (set_insert exit_bb))))))))))"

definition gen_do_while :: "gens \<Rightarrow> stmt \<Rightarrow> expr \<Rightarrow> unit cgp" where
  "gen_do_while G body c = bind_s current_parent (\<lambda>f.
     bind_s (new_block f ''do.body'') (\<lambda>body_bb.
     bind_s (new_block f ''do.cond'') (\<lambda>cond_bb.
     bind_s (new_block f ''do.end'') (\<lambda>exit_bb.
     then_s (create_br body_bb) (
     then_s (set_insert body_bb) (
     then_s (loop_body G cond_bb exit_bb None body) (
     then_s (set_insert cond_bb) (
     bind_s (gen_bool G c) (\<lambda>v.
     then_s (create_cond_br v body_bb exit_bb) (set_insert exit_bb))))))))))"

section \<open>The loops over ranges and lists\<close>

text \<open>The bounds of a range: of the operators, or of \<open>range(n)\<close>.\<close>

datatype iteration = RangeIter bool "expr option" expr | ValueIter

definition iteration_of :: "expr \<Rightarrow> iteration" where
  "iteration_of e = (case e of
       BinaryExpr l t op a b \<Rightarrow> if op = ''..<'' \<or> op = ''..='' then RangeIter (op = ''..='') (Some a) b else ValueIter
     | CallExpr l t (IdentExpr l' t' x) [n] \<Rightarrow> if x = ''range'' then RangeIter False None n else ValueIter
     | _ \<Rightarrow> ValueIter)"

definition to_var_type :: "val \<Rightarrow> lty \<Rightarrow> val cgp" where
  "to_var_type v t = (if val_ty v = t then ret v else create_int_cast SExt v t)"

definition gen_range_head :: "lty \<Rightarrow> val \<Rightarrow> bool \<Rightarrow> val \<Rightarrow> val \<Rightarrow> nat \<Rightarrow> nat \<Rightarrow> nat \<Rightarrow> unit cgp" where
  "gen_range_head t a inclusive lo hi hdr_bb body_bb exit_bb =
     bind_s (to_var_type lo t) (\<lambda>lo.
     then_s (create_store lo a) (
     then_s (create_br hdr_bb) (
     then_s (set_insert hdr_bb) (
     bind_s (create_load t a) (\<lambda>i.
     bind_s (to_var_type hi t) (\<lambda>hi.
     bind_s (create_cmp (if inclusive then ICmpSLE else ICmpSLT) i hi) (\<lambda>c.
     create_cond_br c body_bb exit_bb)))))))"

text \<open>The element of a list: loaded from a list of known 32-bit integers, or asked of the runtime and unboxed.\<close>

definition load_element :: "bool \<Rightarrow> val \<Rightarrow> val \<Rightarrow> lty \<Rightarrow> val cgp" where
  "load_element typed l i t =
     (if typed then
        bind_s (create_const_gep (IntTy 8) l 24) (\<lambda>fld.
        bind_s (create_load PtrTy fld) (\<lambda>data.
        bind_s (create_op (IndexGEP (IntTy 32)) [data, i] PtrTy) (\<lambda>p.
        bind_s (create_load (IntTy 32) p) (\<lambda>v. coerce_to_llvm_type v t))))
      else bind_s (call_rt ''duxrt_list_get'' PtrTy [PtrTy, IntTy 64] [l, i]) (\<lambda>v. coerce_to_llvm_type v t))"

definition is_typed_list :: "expr \<Rightarrow> cg \<Rightarrow> bool" where
  "is_typed_list e s = (case e of IdentExpr l t x \<Rightarrow> cg_typed_lists s x = Some 1 | _ \<Rightarrow> False)"

definition gen_list_loop :: "gens \<Rightarrow> lty \<Rightarrow> val \<Rightarrow> expr \<Rightarrow> stmt \<Rightarrow> nat \<Rightarrow> nat \<Rightarrow> nat \<Rightarrow> nat \<Rightarrow> unit cgp" where
  "gen_list_loop G t a e body hdr_bb body_bb incr_bb exit_bb =
     bind_s (gets (is_typed_list e)) (\<lambda>typed.
     bind_s (g_expr G e) (\<lambda>l.
     bind_s (call_rt ''duxrt_list_len'' (IntTy 64) [PtrTy] [l]) (\<lambda>len.
     bind_s (make_alloca PtrTy) (\<lambda>la.
     then_s (create_store l la) (
     bind_s (make_alloca (IntTy 64)) (\<lambda>na.
     then_s (create_store len na) (
     bind_s (make_alloca (IntTy 64)) (\<lambda>ia.
     then_s (create_store (ConstInt 64 0) ia) (
     then_s (create_br hdr_bb) (
     then_s (set_insert hdr_bb) (
     bind_s (create_load (IntTy 64) ia) (\<lambda>i.
     bind_s (create_load (IntTy 64) na) (\<lambda>n.
     bind_s (create_cmp ICmpSLT i n) (\<lambda>c.
     then_s (create_cond_br c body_bb exit_bb) (
     then_s (set_insert body_bb) (
     bind_s (create_load PtrTy la) (\<lambda>lv.
     bind_s (create_load (IntTy 64) ia) (\<lambda>iv.
     bind_s (load_element typed lv iv t) (\<lambda>v.
     then_s (create_store v a) (
     then_s (loop_body G incr_bb exit_bb None body) (
     then_s (set_insert incr_bb) (
     bind_s (create_load (IntTy 64) ia) (\<lambda>i.
     bind_s (create_bin Add i (ConstInt 64 1)) (\<lambda>nxt.
     then_s (create_store nxt ia) (
     then_s (create_br hdr_bb) (set_insert exit_bb))))))))))))))))))))))))))"

text \<open>The part that a range and a value that is no list share.\<close>

definition gen_for_tail :: "gens \<Rightarrow> bool \<Rightarrow> lty \<Rightarrow> val \<Rightarrow> stmt \<Rightarrow> nat \<Rightarrow> nat \<Rightarrow> nat \<Rightarrow> nat \<Rightarrow> unit cgp" where
  "gen_for_tail G is_range t a body hdr_bb body_bb incr_bb exit_bb =
     then_s (set_insert body_bb) (
     then_s (loop_body G incr_bb exit_bb None body) (
     then_s (set_insert incr_bb) (
     then_s (guarded is_range (
       bind_s (create_load t a) (\<lambda>i. bind_s (create_bin Add i (const_int (int_width t) 1)) (\<lambda>v. create_store v a)))) (
     then_s (create_br hdr_bb) (set_insert exit_bb)))))"

definition gen_for_in :: "gens \<Rightarrow> type_expr \<Rightarrow> string \<Rightarrow> expr \<Rightarrow> stmt \<Rightarrow> unit cgp" where
  "gen_for_in G te x e body = bind_s current_parent (\<lambda>f.
     bind_s (new_block f ''for.cond'') (\<lambda>hdr_bb.
     bind_s (new_block f ''for.body'') (\<lambda>body_bb.
     bind_s (new_block f ''for.incr'') (\<lambda>incr_bb.
     bind_s (new_block f ''for.end'') (\<lambda>exit_bb. in_scope G (
     bind_s (gets cg_types) (\<lambda>r.
     let t = lower_type r (known_or TID_INT (from_type_expr r te)) in
     bind_s (make_alloca t) (\<lambda>a.
     then_s (env_define x a TID_UNKNOWN) (
     case iteration_of e of
       RangeIter inclusive lo hi \<Rightarrow>
         bind_s (case lo of Some lo \<Rightarrow> g_expr G lo | None \<Rightarrow> ret (ConstInt (int_width t) 0)) (\<lambda>lo.
         bind_s (g_expr G hi) (\<lambda>hi.
         then_s (gen_range_head t a inclusive lo hi hdr_bb body_bb exit_bb)
           (gen_for_tail G True t a body hdr_bb body_bb incr_bb exit_bb)))
     | ValueIter \<Rightarrow>
         if type_id_of e = TID_LIST \<or> type_id_of e = TID_UNKNOWN
         then gen_list_loop G t a e body hdr_bb body_bb incr_bb exit_bb
         else then_s (create_br exit_bb) (then_s (set_insert hdr_bb) (then_s (create_br exit_bb)
           (gen_for_tail G False t a body hdr_bb body_bb incr_bb exit_bb))))))))))))"

definition gen_for_c :: "gens \<Rightarrow> type_expr \<Rightarrow> string \<Rightarrow> expr \<Rightarrow> expr \<Rightarrow> expr \<Rightarrow> stmt \<Rightarrow> unit cgp" where
  "gen_for_c G te x e c step body = bind_s current_parent (\<lambda>f.
     bind_s (new_block f ''forc.cond'') (\<lambda>hdr_bb.
     bind_s (new_block f ''forc.body'') (\<lambda>body_bb.
     bind_s (new_block f ''forc.incr'') (\<lambda>incr_bb.
     bind_s (new_block f ''forc.end'') (\<lambda>exit_bb. in_scope G (
     bind_s (gets cg_types) (\<lambda>r.
     let t = lower_type r (known_or TID_INT (from_type_expr r te)) in
     bind_s (make_alloca t) (\<lambda>a.
     then_s (env_define x a TID_UNKNOWN) (
     bind_s (g_expr G e) (\<lambda>v.
     bind_s (to_var_type v t) (\<lambda>v.
     then_s (create_store v a) (
     then_s (create_br hdr_bb) (
     then_s (set_insert hdr_bb) (
     bind_s (gen_bool G c) (\<lambda>v.
     then_s (create_cond_br v body_bb exit_bb) (
     then_s (set_insert body_bb) (
     then_s (loop_body G incr_bb exit_bb None body) (
     then_s (set_insert incr_bb) (
     then_s (g_expr G step) (
     then_s (create_br hdr_bb) (set_insert exit_bb)))))))))))))))))))))"

section \<open>Switch and match\<close>

text \<open>A \<open>switch\<close> instruction is created without cases; a case and the default are set later.\<close>

fun add_case_to :: "val \<Rightarrow> nat \<Rightarrow> inst \<Rightarrow> inst" where
  "add_case_to v b (Switch c d cs) = Switch c d (cs @ [(v, b)])"
| "add_case_to v b i = i"

fun set_default_to :: "nat \<Rightarrow> inst \<Rightarrow> inst" where
  "set_default_to b (Switch c d cs) = Switch c b cs"
| "set_default_to b i = i"

definition update_inst :: "nat \<Rightarrow> nat \<Rightarrow> (inst \<Rightarrow> inst) \<Rightarrow> unit cgp" where
  "update_inst b n g = modify (\<lambda>s. s\<lparr>cg_blocks := (cg_blocks s)[b := (cg_blocks s ! b)\<lparr>
     bl_insts := map (\<lambda>(k, i). (k, if k = n then g i else i)) (bl_insts (cg_blocks s ! b))\<rparr>]\<rparr>)"

text \<open>The block and the number of a new \<open>switch\<close>.\<close>

definition create_switch :: "val \<Rightarrow> nat \<Rightarrow> (nat \<times> nat) cgp" where
  "create_switch v d = bind_s insert_block (\<lambda>b. bind_s (emit_inst (Switch v d [])) (\<lambda>n. ret (b, n)))"

definition case_value :: "gens \<Rightarrow> switch_case \<Rightarrow> val option cgp" where
  "case_value G sc = (case sc of
       SwitchCase None body \<Rightarrow> ret None
     | SwitchCase (Some e) body \<Rightarrow> bind_s (g_expr G e) (\<lambda>v. ret (case v of ConstInt w c \<Rightarrow> Some v | _ \<Rightarrow> None)))"

definition case_block :: "nat \<Rightarrow> nat \<times> nat \<Rightarrow> switch_case \<times> val option \<Rightarrow> nat cgp" where
  "case_block f sw = (\<lambda>(sc, c). case sc of
       SwitchCase (Some e) body \<Rightarrow> bind_s (new_block f ''sw.case'') (\<lambda>b.
         then_s (case c of None \<Rightarrow> ret () | Some v \<Rightarrow> update_inst (fst sw) (snd sw) (add_case_to v b)) (ret b))
     | SwitchCase None body \<Rightarrow> bind_s (new_block f ''sw.default'') (\<lambda>b.
         then_s (update_inst (fst sw) (snd sw) (set_default_to b)) (ret b)))"

definition case_body :: "switch_case \<Rightarrow> stmt list" where
  "case_body sc = (case sc of SwitchCase v body \<Rightarrow> body)"

text \<open>The bodies; one that is not closed falls through to the next block.\<close>

fun gen_cases :: "gens \<Rightarrow> nat \<Rightarrow> (switch_case \<times> nat) list \<Rightarrow> unit cgp" where
  "gen_cases G exit_bb [] = ret ()"
| "gen_cases G exit_bb ((sc, b) # cs) =
     then_s (set_insert b) (
     then_s (in_scope G (gen_stmts G (case_body sc))) (
     then_s (goto_if_open (case cs of [] \<Rightarrow> exit_bb | (sc', b') # _ \<Rightarrow> b')) (gen_cases G exit_bb cs)))"

definition gen_switch :: "gens \<Rightarrow> expr \<Rightarrow> switch_case list \<Rightarrow> unit cgp" where
  "gen_switch G e cases = bind_s current_parent (\<lambda>f.
     bind_s (new_block f ''sw.end'') (\<lambda>exit_bb.
     bind_s (map_s (case_value G) cases) (\<lambda>consts.
     bind_s (g_expr G e) (\<lambda>v.
     bind_s (if is_int_ty (val_ty v) then ret v else create_cast FPToSI v (IntTy 64)) (\<lambda>v.
     bind_s (create_switch v exit_bb) (\<lambda>sw.
     bind_s (map_s (case_block f sw) (zip cases consts)) (\<lambda>bbs.
     then_s (push_loop None exit_bb []) (
     then_s (gen_cases G exit_bb (zip cases bbs)) (
     then_s pop_loop (set_insert exit_bb))))))))))"

definition match_arm_pattern :: "match_arm \<Rightarrow> match_pattern" where
  "match_arm_pattern a = (case a of MatchArm p body l \<Rightarrow> p)"

definition arm_body :: "match_arm \<Rightarrow> stmt list" where
  "arm_body a = (case a of MatchArm p body l \<Rightarrow> body)"

definition arm_kind :: "match_arm \<Rightarrow> pattern_kind" where
  "arm_kind a = pat_kind (match_arm_pattern a)"

text \<open>The last arm with a wildcard is the one that counts.\<close>

definition wildcard_arm :: "match_arm list \<Rightarrow> match_arm option" where
  "wildcard_arm arms = find (\<lambda>a. arm_kind a = Wildcard) (rev arms)"

definition gen_arm :: "gens \<Rightarrow> nat \<Rightarrow> unit cgp \<Rightarrow> match_arm \<Rightarrow> unit cgp" where
  "gen_arm G exit_bb binds a = then_s (in_scope G (then_s binds (gen_stmts G (arm_body a)))) (goto_if_open exit_bb)"

definition gen_str_arm :: "gens \<Rightarrow> nat \<Rightarrow> nat \<Rightarrow> nat \<Rightarrow> val \<Rightarrow> match_arm \<Rightarrow> unit cgp" where
  "gen_str_arm G f exit_bb eq_fn v a =
     bind_s (new_block f ''match.str.arm'') (\<lambda>arm_bb.
     bind_s (new_block f ''match.str.next'') (\<lambda>next_bb.
     bind_s (str_literal (pat_str_value (match_arm_pattern a))) (\<lambda>pat.
     bind_s (create_call eq_fn [v, pat]) (\<lambda>c.
     bind_s (create_cmp ICmpNE c (ConstInt 32 0)) (\<lambda>hit.
     then_s (create_cond_br hit arm_bb next_bb) (
     then_s (set_insert arm_bb) (
     then_s (gen_arm G exit_bb (ret ()) a) (set_insert next_bb))))))))"

definition gen_match_str :: "gens \<Rightarrow> expr \<Rightarrow> match_arm list \<Rightarrow> unit cgp" where
  "gen_match_str G e arms = bind_s current_parent (\<lambda>f.
     bind_s (g_expr G e) (\<lambda>v.
     bind_s (new_block f ''match.end'') (\<lambda>exit_bb.
     bind_s (get_or_declare_rt ''duxrt_str_eq'' (IntTy 32) [PtrTy, PtrTy]) (\<lambda>eq_fn.
     then_s (for_each (gen_str_arm G f exit_bb eq_fn v) (filter (\<lambda>a. arm_kind a = StrLitPat) arms)) (
     then_s (case wildcard_arm arms of None \<Rightarrow> ret () | Some a \<Rightarrow> in_scope G (gen_stmts G (arm_body a))) (
     then_s (goto_if_open exit_bb) (set_insert exit_bb)))))))"

text \<open>The constants of the arms: the tag of a variant that is known, an integer or a truth value.\<close>

definition variant_of :: "match_arm \<Rightarrow> cg \<Rightarrow> enum_variant_info option" where
  "variant_of a s = (case enum_of_name (pat_enum_name (match_arm_pattern a)) s of
       None \<Rightarrow> None
     | Some ti \<Rightarrow> find_variant (pat_variant_name (match_arm_pattern a)) ti)"

definition arm_tag :: "cg \<Rightarrow> match_arm \<Rightarrow> (int \<times> match_arm) option" where
  "arm_tag s a = (case arm_kind a of
       EnumVariantPat \<Rightarrow> map_option (\<lambda>v. (evi_tag v, a)) (variant_of a s)
     | IntLitPat \<Rightarrow> Some (sint (pat_int_value (match_arm_pattern a)), a)
     | BoolLitPat \<Rightarrow> Some (if pat_bool_value (match_arm_pattern a) then 1 else 0, a)
     | _ \<Rightarrow> None)"

definition bind_payload :: "val \<Rightarrow> enum_variant_info option \<Rightarrow> nat \<times> string \<Rightarrow> unit cgp" where
  "bind_payload mem vi = (\<lambda>(i, x).
     bind_s (create_const_gep PtrTy mem (int i + 1)) (\<lambda>p.
     bind_s (create_load PtrTy p) (\<lambda>raw.
     bind_s (gets (\<lambda>s. case vi of
         Some v \<Rightarrow> if i < length (evi_payload v) then lower_type (cg_types s) (evi_payload v ! i) else PtrTy
       | None \<Rightarrow> PtrTy)) (\<lambda>t.
     bind_s (unbox_from_ptr raw t) (\<lambda>v.
     bind_s (make_alloca t) (\<lambda>a.
     then_s (create_store v a) (env_define x a TID_UNKNOWN)))))))"

definition bind_payloads :: "val option \<Rightarrow> match_arm \<Rightarrow> unit cgp" where
  "bind_payloads mem a = (case mem of
       None \<Rightarrow> ret ()
     | Some m \<Rightarrow> bind_s (gets (variant_of a)) (\<lambda>vi.
         for_each (bind_payload m vi) (List.enumerate 0 (pat_bindings (match_arm_pattern a)))))"

definition gen_match_arm :: "gens \<Rightarrow> nat \<Rightarrow> nat \<Rightarrow> nat \<times> nat \<Rightarrow> nat \<Rightarrow> val option \<Rightarrow> int \<times> match_arm \<Rightarrow> unit cgp" where
  "gen_match_arm G f exit_bb sw w mem = (\<lambda>(tag, a).
     bind_s (new_block f ''match.arm'') (\<lambda>b.
     then_s (update_inst (fst sw) (snd sw) (add_case_to (const_int w tag) b)) (
     then_s (set_insert b) (gen_arm G exit_bb (bind_payloads mem a) a))))"

text \<open>The value that is compared, and the memory of an enum with payload.\<close>

definition match_subject :: "val \<Rightarrow> (val \<times> val option) cgp" where
  "match_subject v =
     (if val_ty v = PtrTy then bind_s (create_load (IntTy 32) v) (\<lambda>t. ret (t, Some v))
      else if is_int_ty (val_ty v) then
        (if 32 < int_width (val_ty v) then bind_s (create_cast Trunc v (IntTy 32)) (\<lambda>t. ret (t, None)) else ret (v, None))
      else bind_s (create_cast FPToSI v (IntTy 32)) (\<lambda>t. ret (t, None)))"

definition gen_match_int :: "gens \<Rightarrow> expr \<Rightarrow> match_arm list \<Rightarrow> unit cgp" where
  "gen_match_int G e arms = bind_s current_parent (\<lambda>f.
     bind_s (g_expr G e) (\<lambda>v.
     bind_s (match_subject v) (\<lambda>(subj, mem).
     bind_s (new_block f ''match.end'') (\<lambda>exit_bb.
     bind_s (new_block f ''match.trap'') (\<lambda>trap_bb.
     bind_s (gets (\<lambda>s. List.map_filter (arm_tag s) arms)) (\<lambda>tagged.
     bind_s (case wildcard_arm arms of None \<Rightarrow> ret trap_bb | Some a \<Rightarrow> new_block f ''match.wildcard'') (\<lambda>default_bb.
     bind_s (create_switch subj default_bb) (\<lambda>sw.
     then_s (for_each (gen_match_arm G f exit_bb sw (int_width (val_ty subj)) mem) tagged) (
     then_s (case wildcard_arm arms of
         None \<Rightarrow> ret ()
       | Some a \<Rightarrow> then_s (set_insert default_bb) (gen_arm G exit_bb (ret ()) a)) (
     then_s (set_insert trap_bb) (
     then_s (call_rt ''llvm.trap'' VoidTy [] []) (
     then_s (put_inst Unreachable) (set_insert exit_bb)))))))))))))"

definition gen_match :: "gens \<Rightarrow> expr \<Rightarrow> match_arm list \<Rightarrow> unit cgp" where
  "gen_match G e arms =
     (if \<exists>a\<in>set arms. arm_kind a = StrLitPat then gen_match_str G e arms else gen_match_int G e arms)"

end
