(* ===== verification/Cg_Flow.thy ===== *)
theory Cg_Flow
  imports Cg_Stmt
begin

text \<open>
  The statements of the code generator, second part: exceptions, \<open>return\<close>, declarations of variables, \<open>delete\<close>
  and \<open>defer\<close>, the jumps out of a loop, and the dispatch of \<open>gen_stmt\<close>.
\<close>

section \<open>Exceptions\<close>

text \<open>
  The landing pad of a \<open>try\<close>. It is generated while the scope of the body and the landing pad are still on
  their stacks, so that the cleanups of the body run on the way of an exception. The result is the slot of the exception.
\<close>

definition gen_landing_pad :: "gens \<Rightarrow> nat \<Rightarrow> val cgp" where
  "gen_landing_pad G catch_bb =
     bind_s (emit_inst LandingPad) (\<lambda>n.
     then_s (emit_all_scope_cleanups G) (
     then_s emit_all_str_releases (
     then_s (modify (\<lambda>s. s\<lparr>cg_lps := tl (cg_lps s)\<rparr>)) (
     bind_s (emit_inst (ExtractValue (Instr n (StructTy [PtrTy, IntTy 32])) 0)) (\<lambda>p.
     bind_s (call_rt ''__cxa_begin_catch'' PtrTy [PtrTy] [Instr p PtrTy]) (\<lambda>caught.
     bind_s (create_load PtrTy caught) (\<lambda>exc.
     bind_s (make_alloca PtrTy) (\<lambda>exc_slot.
     then_s (create_store exc exc_slot) (
     then_s (create_br catch_bb) (ret exc_slot))))))))))"

text \<open>The test of the type's name in a typed \<open>catch\<close>; a mismatch throws again.\<close>

definition check_catch_type :: "nat \<Rightarrow> val \<Rightarrow> string \<Rightarrow> unit cgp" where
  "check_catch_type f exc_slot name =
     bind_s (create_load PtrTy exc_slot) (\<lambda>exc.
     bind_s (create_load PtrTy exc) (\<lambda>field.
     bind_s (new_global ''catch.tname'' (ArrayTy (length name + 1) (IntTy 8)) True False [ConstStr name]) (\<lambda>expected.
     bind_s (call_rt ''strcmp'' (IntTy 32) [PtrTy, PtrTy] [field, expected]) (\<lambda>c.
     bind_s (create_cmp ICmpEQ c (ConstInt 32 0)) (\<lambda>hit.
     bind_s (new_block f ''catch.type.ok'') (\<lambda>ok_bb.
     bind_s (new_block f ''catch.type.fail'') (\<lambda>fail_bb.
     then_s (create_cond_br hit ok_bb fail_bb) (
     then_s (set_insert fail_bb) (
     then_s (call_rt ''__cxa_rethrow'' VoidTy [] []) (
     then_s (put_inst Unreachable) (set_insert ok_bb)))))))))))"

definition typed_catch :: "type_expr option \<Rightarrow> string option" where
  "typed_catch ct = (case ct of
       None \<Rightarrow> None
     | Some te \<Rightarrow> if te_name te = [] \<or> te_name te = ''Exception'' then None else Some (te_name te))"

definition gen_catch :: "gens \<Rightarrow> nat \<Rightarrow> val \<Rightarrow> type_expr option \<Rightarrow> string option \<Rightarrow> stmt \<Rightarrow> unit cgp" where
  "gen_catch G f exc_slot ct var body = in_scope G (
     then_s (case typed_catch ct of None \<Rightarrow> ret () | Some name \<Rightarrow> check_catch_type f exc_slot name) (
     then_s (case var of
         None \<Rightarrow> ret ()
       | Some x \<Rightarrow> bind_s (make_alloca PtrTy) (\<lambda>a. bind_s (create_load PtrTy exc_slot) (\<lambda>v.
           then_s (create_store v a) (env_define x a TID_UNKNOWN)))) (
     bind_s (get_or_declare_rt ''__cxa_end_catch'' VoidTy []) (\<lambda>end_fn.
     then_s (modify (push_cleanup (RunFn end_fn))) (g_stmt G body)))))"

definition gen_try_catch :: "gens \<Rightarrow> stmt \<Rightarrow> type_expr option \<Rightarrow> string option \<Rightarrow> stmt \<Rightarrow> unit cgp" where
  "gen_try_catch G try_body ct var catch_body = bind_s current_parent (\<lambda>f.
     bind_s (new_block f ''try.body'') (\<lambda>try_bb.
     bind_s (new_block f ''try.lp'') (\<lambda>lp_bb.
     bind_s (new_block f ''try.catch'') (\<lambda>catch_bb.
     bind_s (new_block f ''try.end'') (\<lambda>end_bb.
     then_s (create_br try_bb) (
     then_s (set_insert try_bb) (
     then_s env_push (
     then_s (modify (\<lambda>s. s\<lparr>cg_lps := lp_bb # cg_lps s\<rparr>)) (
     then_s (case try_body of BlockStmt l sts \<Rightarrow> gen_stmts G sts | _ \<Rightarrow> null_deref) (
     bind_s insert_block (\<lambda>exit_bb.
     then_s (set_insert lp_bb) (
     bind_s (gen_landing_pad G catch_bb) (\<lambda>exc_slot.
     then_s (set_insert exit_bb) (
     then_s (env_pop G) (
     then_s (goto_if_open end_bb) (
     then_s (set_insert catch_bb) (
     then_s (gen_catch G f exc_slot ct var catch_body) (
     then_s (goto_if_open end_bb) (set_insert end_bb)))))))))))))))))))"

definition get_or_insert_global :: "string \<Rightarrow> lty \<Rightarrow> val cgp" where
  "get_or_insert_global name t = bind_s (gets (get_global name)) (\<lambda>g. case g of
       Some g \<Rightarrow> ret (GlobVal g)
     | None \<Rightarrow> new_global name t False False [])"

definition gen_throw :: "gens \<Rightarrow> expr \<Rightarrow> unit cgp" where
  "gen_throw G e = bind_s (g_expr G e) (\<lambda>exc.
     bind_s (call_rt ''__cxa_allocate_exception'' PtrTy [IntTy 64] [ConstInt 64 8]) (\<lambda>storage.
     then_s (create_store exc storage) (
     bind_s (get_or_insert_global ''_ZTIPv'' PtrTy) (\<lambda>tinfo.
     bind_s (get_or_declare_rt ''__cxa_throw'' VoidTy [PtrTy, PtrTy, PtrTy]) (\<lambda>throw_fn.
     bind_s (gets cg_lps) (\<lambda>lps.
     then_s (case lps of
         [] \<Rightarrow> then_s (create_call throw_fn [storage, tinfo, null_ptr]) (ret ())
       | lp # _ \<Rightarrow> bind_s current_parent (\<lambda>f. bind_s (new_block f ''throw.cont'') (\<lambda>b.
           then_s (create_invoke throw_fn [storage, tinfo, null_ptr] b lp) (set_insert b))))
     (put_inst Unreachable)))))))"

section \<open>Return\<close>

text \<open>The value of a \<open>return\<close>, converted to the type of the function and retained.\<close>

definition return_operand :: "gens \<Rightarrow> expr option \<Rightarrow> val option cgp" where
  "return_operand G e = (case e of
       None \<Rightarrow> ret None
     | Some e \<Rightarrow> bind_s (g_expr G e) (\<lambda>v. bind_s (gets cg_ret_type) (\<lambda>t.
         bind_s (coerce v (type_id_of e) t) (\<lambda>v. bind_s (maybe_retain t v) (\<lambda>v. ret (Some v))))))"

text \<open>How the body of an \<open>async\<close> function boxes its result.\<close>

definition box_result :: "val option \<Rightarrow> val cgp" where
  "box_result v = (case v of
       None \<Rightarrow> ret null_ptr
     | Some v \<Rightarrow>
         if val_ty v = PtrTy then ret v
         else if is_int_ty (val_ty v) then
           bind_s (create_cast ZExt v (IntTy 64)) (\<lambda>e. create_cast IntToPtr e PtrTy)
         else if is_fp_ty (val_ty v) then
           bind_s (create_cast BitCast v (IntTy 64)) (\<lambda>b. create_cast IntToPtr b PtrTy)
         else ret null_ptr)"

definition gen_return :: "gens \<Rightarrow> expr option \<Rightarrow> unit cgp" where
  "gen_return G e = bind_s (gets cg_future) (\<lambda>fut. bind_s (return_operand G e) (\<lambda>v. case fut of
       Some fut \<Rightarrow> bind_s (box_result v) (\<lambda>b.
         then_s (call_rt ''duxrt_future_set'' VoidTy [PtrTy, PtrTy] [fut, b]) (
         then_s (emit_all_cleanups G) (put_inst RetVoid)))
     | None \<Rightarrow> then_s (emit_all_cleanups G)
         (put_inst (case v of Some v \<Rightarrow> Ret v | None \<Rightarrow> RetVoid))))"

section \<open>Variables\<close>

text \<open>The constant a global starts with, when its initialiser is a literal.\<close>

definition const_init :: "lty \<Rightarrow> expr \<Rightarrow> val" where
  "const_init t e = (case e of
       IntLitExpr l u v \<Rightarrow> const_int (int_width t) (sint v)
     | LongLitExpr l u v \<Rightarrow> const_int (int_width t) (sint v)
     | FloatLitExpr l u v \<Rightarrow> ConstFP t v
     | BoolLitExpr l u v \<Rightarrow> const_int (int_width t) (if v then 1 else 0)
     | _ \<Rightarrow> null_value t)"

definition tls_init :: "lty \<Rightarrow> expr \<Rightarrow> val" where
  "tls_init t e = (case e of RealLitExpr l u v \<Rightarrow> ConstFP t v | _ \<Rightarrow> const_init t e)"

definition set_alloca_ty :: "val \<Rightarrow> lty \<Rightarrow> unit cgp" where
  "set_alloca_ty a t = modify (\<lambda>s. s\<lparr>cg_alloca_ty := (cg_alloca_ty s)(a \<mapsto> t)\<rparr>)"

definition gen_tls_var :: "bool \<Rightarrow> type_id \<Rightarrow> string \<Rightarrow> expr \<Rightarrow> unit cgp" where
  "gen_tls_var is_const tid x e = bind_s (gets (\<lambda>s. s)) (\<lambda>s.
     let tid = known_or TID_INT tid; t = lower_type (cg_types s) tid in
     bind_s (new_global (if cg_namespace s = [] then x else cg_namespace s @ ''.'' @ x) t is_const True [tls_init t e]) (\<lambda>g.
     then_s (set_alloca_ty g t) (env_define x g tid)))"

text \<open>A static variable is initialised once, under a guard byte.\<close>

definition gen_guarded_init :: "gens \<Rightarrow> val \<Rightarrow> val \<Rightarrow> type_id \<Rightarrow> string \<Rightarrow> expr \<Rightarrow> unit cgp" where
  "gen_guarded_init G g guard tid x e = bind_s current_parent (\<lambda>f.
     bind_s (new_block f (x @ ''.init.check'')) (\<lambda>check_bb.
     bind_s (new_block f (x @ ''.init.body'')) (\<lambda>body_bb.
     bind_s (new_block f (x @ ''.init.done'')) (\<lambda>done_bb.
     then_s (create_br check_bb) (
     then_s (set_insert check_bb) (
     bind_s (create_load (IntTy 8) guard) (\<lambda>b.
     bind_s (create_cmp ICmpEQ b (ConstInt 8 0)) (\<lambda>c.
     then_s (create_cond_br c body_bb done_bb) (
     then_s (set_insert body_bb) (
     bind_s (g_expr G e) (\<lambda>v.
     bind_s (coerce v (type_id_of e) tid) (\<lambda>v.
     then_s (create_store v g) (
     then_s (create_store (ConstInt 8 1) guard) (
     then_s (create_br done_bb) (set_insert done_bb)))))))))))))))"

definition gen_static_var :: "gens \<Rightarrow> bool \<Rightarrow> type_id \<Rightarrow> string \<Rightarrow> expr \<Rightarrow> unit cgp" where
  "gen_static_var G is_const tid x e = bind_s (gets (\<lambda>s. s)) (\<lambda>s.
     let tid = known_or TID_INT tid; t = lower_type (cg_types s) tid;
         name = ''__dux_static_'' @ (case cg_fn s of Some f \<Rightarrow> fn_name (cg_funs s ! f) | None \<Rightarrow> []) @ ''_'' @ x in
     bind_s (new_global name t is_const False [null_value t]) (\<lambda>g.
     then_s (set_alloca_ty g t) (
     then_s (guarded (e \<noteq> NoExpr)
       (bind_s (new_global (name @ ''.guard'') (IntTy 8) False False [ConstInt 8 0]) (\<lambda>guard.
        gen_guarded_init G g guard tid x e)))
     (env_define x g tid))))"

text \<open>What the declaration of a local variable records about it.\<close>

definition closure_te :: "param list \<Rightarrow> string \<Rightarrow> type_expr" where
  "closure_te ps rt = TypeExpr ''__fn'' False (SourceLoc [] 0 0) (map param_type ps) rt []"

definition note_closure :: "string \<Rightarrow> val \<Rightarrow> expr \<Rightarrow> unit cgp" where
  "note_closure x a e = (case e of
       LambdaExpr l t ps b cs r i \<Rightarrow> modify (\<lambda>s. push_cleanup (RunDtor a ''__closure'')
         (s\<lparr>cg_fn_vars := (cg_fn_vars s)(x \<mapsto> closure_te ps i)\<rparr>))
     | _ \<Rightarrow> ret ())"

definition note_list :: "string \<Rightarrow> expr \<Rightarrow> cg \<Rightarrow> cg" where
  "note_list x e s =
     (let kind = (if cg_last_kind s \<noteq> 0 then cg_last_kind s
        else case e of
            IdentExpr l t y \<Rightarrow> (case cg_typed_lists s y of Some k \<Rightarrow> k | None \<Rightarrow> 0)
          | _ \<Rightarrow> 0)
      in s\<lparr>cg_typed_lists := (cg_typed_lists s)(x := if kind \<noteq> 0 then Some kind else None)\<rparr>)"

definition note_class :: "string \<Rightarrow> type_expr \<Rightarrow> cg \<Rightarrow> cg" where
  "note_class x te s = (if te_name te \<noteq> [] \<and> cg_layouts s (te_name te) \<noteq> None
     then s\<lparr>cg_var_class := (cg_var_class s)(x \<mapsto> te_name te)\<rparr> else s)"

definition local_init :: "gens \<Rightarrow> type_id \<Rightarrow> expr \<Rightarrow> (val option \<times> type_id) cgp" where
  "local_init G tid e =
     (if e = NoExpr then ret (None, tid)
      else then_s (set_last_kind 0) (bind_s (g_expr G e) (\<lambda>v.
        let tid = known_or (type_id_of e) tid in
        bind_s (coerce v (type_id_of e) tid) (\<lambda>v. ret (Some v, tid)))))"

definition gen_local_var :: "gens \<Rightarrow> type_expr \<Rightarrow> type_id \<Rightarrow> string \<Rightarrow> expr \<Rightarrow> unit cgp" where
  "gen_local_var G te tid x e = bind_s (local_init G tid e) (\<lambda>(v, tid).
     let tid = known_or TID_INT tid in
     bind_s (gets (\<lambda>s. lower_type (cg_types s) tid)) (\<lambda>t.
     bind_s (make_alloca t) (\<lambda>a.
     then_s (case v of
         None \<Rightarrow> create_store (null_value t) a
       | Some v \<Rightarrow> bind_s (maybe_retain tid v) (\<lambda>v. bind_s (coerce_to_llvm_type v t) (\<lambda>v. create_store v a))) (
     then_s (env_define x a tid) (
     then_s (note_closure x a e) (
     then_s (guarded (tid = TID_LIST \<or> e \<noteq> NoExpr \<and> type_id_of e = TID_LIST) (modify (note_list x e)))
       (modify (note_class x te))))))))"

definition gen_var_init :: "gens \<Rightarrow> type_expr \<Rightarrow> bool \<Rightarrow> bool \<Rightarrow> bool \<Rightarrow> var_init \<Rightarrow> unit cgp" where
  "gen_var_init G te is_const is_static is_tls d = (case d of VarInit x e \<Rightarrow>
     bind_s (gets (\<lambda>s. from_type_expr (cg_types s) te)) (\<lambda>tid.
       if is_tls then gen_tls_var is_const tid x e
       else if is_static then gen_static_var G is_const tid x e
       else gen_local_var G te tid x e))"

definition gen_var_decl :: "gens \<Rightarrow> type_expr \<Rightarrow> bool \<Rightarrow> bool \<Rightarrow> bool \<Rightarrow> var_init list \<Rightarrow> unit cgp" where
  "gen_var_decl G te is_const is_static is_tls ds = for_each (gen_var_init G te is_const is_static is_tls) ds"

section \<open>Assertions, deletion and deferred blocks\<close>

definition gen_assert :: "gens \<Rightarrow> expr \<Rightarrow> unit cgp" where
  "gen_assert G e = bind_s (gen_bool G e) assert_true"

text \<open>An object: its destructor when there is one, then its memory, and the slot is cleared.\<close>

definition delete_slot :: "expr \<Rightarrow> val \<Rightarrow> unit cgp" where
  "delete_slot e a = unless_null a ''del.call'' ''del.end'' (\<lambda>p.
     bind_s (resolve_class_name e (type_id_of e)) (\<lambda>cls.
     bind_s (gets (\<lambda>s. if cls = [] then None else get_function (cls @ ''___dtor'') s)) (\<lambda>d.
     then_s (case d of None \<Rightarrow> ret () | Some d \<Rightarrow> then_s (create_call d [p]) (ret ()))
       (then_s (call_rt ''free'' VoidTy [PtrTy] [p]) (ret ())))))"

definition delete_with :: "gens \<Rightarrow> expr \<Rightarrow> (val \<Rightarrow> unit cgp) \<Rightarrow> string \<Rightarrow> unit cgp" where
  "delete_with G e on_slot release = bind_s (lvalue_of G e) (\<lambda>a. case a of
       Some a \<Rightarrow> on_slot a
     | None \<Rightarrow> bind_s (g_expr G e) (\<lambda>p. then_s (call_rt release VoidTy [PtrTy] [p]) (ret ())))"

definition gen_delete :: "gens \<Rightarrow> expr \<Rightarrow> unit cgp" where
  "gen_delete G e = (let tid = type_id_of e in
     if tid = TID_STR then delete_with G e (\<lambda>a. then_s (release_slot a) (create_store null_ptr a)) ''duxrt_str_release''
     else if tid = TID_LIST then delete_with G e (\<lambda>a. emit_rc_release a ''duxrt_list_release'') ''duxrt_list_release''
     else if tid = TID_DICT then delete_with G e (\<lambda>a. emit_rc_release a ''duxrt_dict_release'') ''duxrt_dict_release''
     else delete_with G e (delete_slot e) ''free'')"

definition gen_defer :: "stmt list \<Rightarrow> unit cgp" where
  "gen_defer body = modify (push_cleanup (RunDefer body))"

section \<open>Jumps and the dispatch\<close>

text \<open>
  The loop a jump leaves: the innermost one, or the innermost with a label. Before the jump every cleanup of
  the function so far is emitted.
\<close>

definition jump_to :: "gens \<Rightarrow> nat option \<Rightarrow> unit cgp" where
  "jump_to G target = then_s (emit_all_cleanups G)
     (case target of None \<Rightarrow> null_deref | Some b \<Rightarrow> create_br b)"

definition gen_jump :: "gens \<Rightarrow> (loop_ctx \<Rightarrow> nat option) \<Rightarrow> string \<Rightarrow> source_loc \<Rightarrow> string option \<Rightarrow> unit cgp" where
  "gen_jump G target what loc lbl = bind_s (gets cg_loops) (\<lambda>loops. case loops of
       [] \<Rightarrow> ret ()
     | inner # _ \<Rightarrow> (case lbl of
           None \<Rightarrow> jump_to G (target inner)
         | Some x \<Rightarrow> (case find (\<lambda>l. lc_label l = x) loops of
               Some l \<Rightarrow> jump_to G (target l)
             | None \<Rightarrow> cg_err loc (''label '' @ [CHR 0x27] @ x @ [CHR 0x27] @ '' not found for '' @ what))))"

fun gen_stmt :: "gens \<Rightarrow> stmt \<Rightarrow> unit cgp" where
  "gen_stmt G (BlockStmt l sts) = gen_block G sts"
| "gen_stmt G (ExprStmt l e) = then_s (g_expr G e) (ret ())"
| "gen_stmt G (VarDeclStmt l te c stat tls ds) = gen_var_decl G te c stat tls ds"
| "gen_stmt G (IfStmt l c a b) = gen_if G c a b"
| "gen_stmt G (WhileStmt l lbl c a) = gen_while G lbl c a"
| "gen_stmt G (DoWhileStmt l a c) = gen_do_while G a c"
| "gen_stmt G (ForInStmt l te x e a) = gen_for_in G te x e a"
| "gen_stmt G (ForCStmt l te x e c i a) = gen_for_c G te x e c i a"
| "gen_stmt G (SwitchStmt l e cs) = gen_switch G e cs"
| "gen_stmt G (MatchStmt l e arms) = gen_match G e arms"
| "gen_stmt G (TryCatchStmt l a c ct v b) = gen_try_catch G a ct v b"
| "gen_stmt G (ReturnStmt l e) = gen_return G e"
| "gen_stmt G (BreakStmt l lbl) = gen_jump G (\<lambda>c. Some (lc_exit c)) ''break'' l lbl"
| "gen_stmt G (ContinueStmt l lbl) = gen_jump G lc_header ''continue'' l lbl"
| "gen_stmt G (AssertStmt l e) = gen_assert G e"
| "gen_stmt G (DeleteStmt l e) = gen_delete G e"
| "gen_stmt G (LabeledStmt l lbl st) =
     then_s (modify (\<lambda>s. s\<lparr>cg_label := lbl\<rparr>)) (then_s (g_stmt G st) clear_label)"
| "gen_stmt G (DeferStmt l sts) = gen_defer sts"
| "gen_stmt G (ThrowStmt l e) = gen_throw G e"
| "gen_stmt G (UnsafeStmt l sts) = gen_stmts G sts"
| "gen_stmt G NoStmt = null_deref"

section \<open>The recursion\<close>

text \<open>
  The recursion of \<open>gen_expr\<close> and \<open>gen_stmt\<close> is closed by a bound on its depth. It does not follow the tree
  alone: a cleanup generates a deferred block again, so that a block that returns asks for itself. What reaches
  the bound is \<open>Looping\<close>.
\<close>

primrec gens_at :: "nat \<Rightarrow> gens" where
  "gens_at 0 = \<lparr>g_expr = (\<lambda>e s. Looping), g_stmt = (\<lambda>st s. Looping)\<rparr>"
| "gens_at (Suc n) = \<lparr>g_expr = gen_expr (gens_at n), g_stmt = gen_stmt (gens_at n)\<rparr>"

end
