(* ===== verification/Cg_Layout.thy ===== *)
theory Cg_Layout
  imports Cg_Flow
begin

text \<open>
  What the code generator does before it generates bodies: the layout of classes and enums, and the declaration
  of every function and method, so that a body can call what comes later in the file.
\<close>

section \<open>Enums and classes\<close>

definition variants_of :: "registry \<Rightarrow> enum_decl \<Rightarrow> enum_variant_info list" where
  "variants_of r e = map (\<lambda>(i, v). \<lparr>evi_name = ev_name v, evi_tag = int i, evi_payload = map (from_type_expr r) (ev_payload v)\<rparr>)
     (List.enumerate 0 (en_variants e))"

definition build_enum_type :: "enum_decl \<Rightarrow> cg \<Rightarrow> cg" where
  "build_enum_type e s = (case intern (en_name e) TK_Enum (cg_types s) of (tid, r) \<Rightarrow>
     s\<lparr>cg_types := update_info tid (\<lambda>ti. ti\<lparr>ti_variants := variants_of r e\<rparr>) r,
       cg_enums := (cg_enums s)(en_name e \<mapsto> tid)\<rparr>)"

text \<open>The members of a class that are fields of the object, and its methods of the dispatch table.\<close>

definition instance_field :: "class_member \<Rightarrow> field_decl option" where
  "instance_field m = (case cm_decl m of
       Some (FieldDecl fd) \<Rightarrow> if fd_is_static fd then None else Some fd
     | _ \<Rightarrow> None)"

definition method_decl :: "class_member \<Rightarrow> function_decl option" where
  "method_decl m = (case cm_decl m of Some (FunctionDecl f) \<Rightarrow> Some f | _ \<Rightarrow> None)"

definition modifier_of :: "function_decl \<Rightarrow> string" where
  "modifier_of f = (case f_modifier f of Some m \<Rightarrow> m | None \<Rightarrow> [])"

definition virtual_method :: "class_member \<Rightarrow> function_decl option" where
  "virtual_method m = (case method_decl m of
       Some f \<Rightarrow> if \<not> f_is_ctor f \<and> \<not> f_is_dtor f \<and> \<not> f_is_static f then Some f else None
     | None \<Rightarrow> None)"

text \<open>The first base with a layout: an interface has none, and neither has a class that comes later.\<close>

definition parent_base :: "(string \<rightharpoonup> class_layout) \<Rightarrow> class_decl \<Rightarrow> string option" where
  "parent_base layouts c = map_option base_name (find (\<lambda>b. layouts (base_name b) \<noteq> None) (c_bases c))"

definition inherited_fields :: "(string \<rightharpoonup> class_layout) \<Rightarrow> class_decl \<Rightarrow> field_info list" where
  "inherited_fields layouts c = (case parent_base layouts c of
       None \<Rightarrow> []
     | Some p \<Rightarrow> (case layouts p of None \<Rightarrow> [] | Some l \<Rightarrow> cl_fields l))"

text \<open>The fields of the class are appended one at a time, each with the next index; index 0 is the dispatch table.\<close>

definition append_field :: "registry \<Rightarrow> field_info list \<Rightarrow> field_decl \<Rightarrow> field_info list" where
  "append_field r fs fd = fs @ [\<lparr>fi_name = fd_name fd, fi_type = from_type_expr r (fd_type fd),
     fi_index = length fs + 1, fi_init = fd_init fd\<rparr>]"

definition layout_fields :: "registry \<Rightarrow> (string \<rightharpoonup> class_layout) \<Rightarrow> class_decl \<Rightarrow> field_info list" where
  "layout_fields r layouts c =
     foldl (append_field r) (inherited_fields layouts c) (List.map_filter instance_field (c_members c))"

definition class_layout_of :: "registry \<Rightarrow> (string \<rightharpoonup> class_layout) \<Rightarrow> class_decl \<Rightarrow> class_layout" where
  "class_layout_of r layouts c = (let fs = layout_fields r layouts c in
     \<lparr>cl_name = c_name c,
      cl_parent = (case parent_base layouts c of Some p \<Rightarrow> p | None \<Rightarrow> []),
      cl_struct = StructTy (PtrTy # map (\<lambda>f. lower_type r (fi_type f)) fs),
      cl_vtable = None,
      cl_fields = fs,
      cl_methods = map (\<lambda>(i, f). \<lparr>mi_name = f_name f, mi_slot = i, mi_fn = None, mi_modifier = modifier_of f\<rparr>)
        (List.enumerate 0 (List.map_filter virtual_method (c_members c)))\<rparr>)"

definition build_class_layout :: "class_decl \<Rightarrow> cg \<Rightarrow> cg" where
  "build_class_layout c s = s\<lparr>
     cg_layouts := (cg_layouts s)(c_name c \<mapsto> class_layout_of (cg_types s) (cg_layouts s) c),
     cg_types := snd (intern (c_name c) TK_Class (cg_types s))\<rparr>"

fun build_layouts :: "decl list \<Rightarrow> cg \<Rightarrow> cg" where
  "build_layouts [] s = s"
| "build_layouts (ClassDecl c # ds) s = build_layouts ds (build_class_layout c s)"
| "build_layouts (EnumDecl e # ds) s = build_layouts ds (build_enum_type e s)"
| "build_layouts (NamespaceDecl (MkNamespace l n nds sts p) # ds) s = build_layouts ds (build_layouts nds s)"
| "build_layouts (FunctionDecl f # ds) s = build_layouts ds s"
| "build_layouts (FieldDecl f # ds) s = build_layouts ds s"
| "build_layouts (InterfaceDecl i # ds) s = build_layouts ds s"
| "build_layouts (ImportDecl i # ds) s = build_layouts ds s"
| "build_layouts (ExternDecl e # ds) s = build_layouts ds s"

section \<open>Forward declarations\<close>

definition lower_params :: "registry \<Rightarrow> param list \<Rightarrow> (string \<times> lty) list" where
  "lower_params r ps = map (\<lambda>p. (param_name p, lower_type_expr r (param_type p))) ps"

definition lower_return :: "registry \<Rightarrow> type_expr \<Rightarrow> lty" where
  "lower_return r te = lower_type r (known_or TID_VOID (from_type_expr r te))"

text \<open>An \<open>async\<close> function returns the pointer to a future.\<close>

definition declare_function :: "function_decl \<Rightarrow> string \<Rightarrow> nat cgp" where
  "declare_function f name = bind_s (gets (get_function name)) (\<lambda>g. case g of
       Some g \<Rightarrow> ret g
     | None \<Rightarrow> bind_s (gets cg_types) (\<lambda>r.
         create_fn name (if f_is_async f then PtrTy else lower_return r (f_return_type f)) (lower_params r (f_params f)) False))"

definition declare_extern :: "extern_decl \<Rightarrow> unit cgp" where
  "declare_extern e = bind_s (gets cg_types) (\<lambda>r.
     then_s (get_or_declare_rt (ex_name e) (lower_type_expr r (ex_ret e)) (map (\<lambda>p. lower_type_expr r (param_type p)) (ex_params e)))
       (ret ()))"

definition mangle_class_member :: "string \<Rightarrow> function_decl \<Rightarrow> string" where
  "mangle_class_member cls f =
     (if f_is_dtor f then cls @ ''___dtor''
      else if f_modifier f = Some ''get'' then cls @ ''__'' @ f_name f @ ''___get''
      else if f_modifier f = Some ''set'' then cls @ ''__'' @ f_name f @ ''___set''
      else cls @ ''__'' @ f_name f)"

definition is_empty_dtor :: "function_decl \<Rightarrow> bool" where
  "is_empty_dtor f \<longleftrightarrow> f_is_dtor f \<and> (case f_body f of Some (l, []) \<Rightarrow> True | _ \<Rightarrow> False)"

text \<open>The function of a method is recorded in the first entry of the layout with its name and modifier.\<close>

fun record_method :: "string \<Rightarrow> string \<Rightarrow> nat \<Rightarrow> method_info list \<Rightarrow> method_info list" where
  "record_method x m f [] = []"
| "record_method x m f (mi # mis) =
     (if mi_name mi = x \<and> mi_modifier mi = m then mi\<lparr>mi_fn := Some f\<rparr> # mis else mi # record_method x m f mis)"

definition note_method :: "string \<Rightarrow> function_decl \<Rightarrow> nat \<Rightarrow> cg \<Rightarrow> cg" where
  "note_method cls f fn s = (if f_is_ctor f \<or> f_is_dtor f then s else case cg_layouts s cls of
       None \<Rightarrow> s
     | Some l \<Rightarrow> s\<lparr>cg_layouts := (cg_layouts s)(cls \<mapsto> l\<lparr>cl_methods := record_method (f_name f) (modifier_of f) fn (cl_methods l)\<rparr>)\<rparr>)"

definition declare_method :: "string \<Rightarrow> function_decl \<Rightarrow> unit cgp" where
  "declare_method cls f = (let name = mangle_class_member cls f in
     if is_empty_dtor f then ret ()
     else bind_s (gets (get_function name)) (\<lambda>g. case g of
         Some g \<Rightarrow> ret ()
       | None \<Rightarrow> bind_s (gets cg_types) (\<lambda>r.
           let ps = lower_params r (f_params f); t = lower_return r (f_return_type f) in
           if f_is_static f then then_s (create_fn name t ps False) (ret ())
           else bind_s (create_fn name t ((''this'', PtrTy) # ps) False) (\<lambda>fn. modify (note_method cls f fn)))))"

definition declare_class_methods :: "class_decl \<Rightarrow> unit cgp" where
  "declare_class_methods c = for_each (declare_method (c_name c)) (List.map_filter method_decl (c_members c))"

fun declare_functions :: "string \<Rightarrow> decl list \<Rightarrow> unit cgp" where
  "declare_functions pre [] = ret ()"
| "declare_functions pre (FunctionDecl f # ds) =
     then_s (guarded (\<not> f_is_ctor f \<and> \<not> f_is_dtor f) (then_s (declare_function f (mangle pre (f_name f))) (ret ())))
       (declare_functions pre ds)"
| "declare_functions pre (ClassDecl c # ds) = then_s (declare_class_methods c) (declare_functions pre ds)"
| "declare_functions pre (NamespaceDecl (MkNamespace l n nds sts p) # ds) =
     then_s (declare_functions n nds) (declare_functions pre ds)"
| "declare_functions pre (ExternDecl e # ds) = then_s (declare_extern e) (declare_functions pre ds)"
| "declare_functions pre (EnumDecl e # ds) = declare_functions pre ds"
| "declare_functions pre (FieldDecl f # ds) = declare_functions pre ds"
| "declare_functions pre (InterfaceDecl i # ds) = declare_functions pre ds"
| "declare_functions pre (ImportDecl i # ds) = declare_functions pre ds"

end
