(* ===== verification/Cg_Program.thy ===== *)
theory Cg_Program
  imports Cg_Layout
begin

text \<open>
  The bodies of functions, classes, namespaces and the program (\<open>Codegen::run\<close>). The optimiser and the verifier of
  LLVM are parameters of it.
\<close>

section \<open>Functions\<close>

text \<open>A parameter of the function itself is stored into a slot under its name.\<close>

definition bind_argument :: "nat \<Rightarrow> nat \<times> (string \<times> lty) \<Rightarrow> unit cgp" where
  "bind_argument f = (\<lambda>(i, x, t). bind_s (make_alloca t) (\<lambda>a.
     then_s (create_store (Argument f i t) a) (env_define x a TID_UNKNOWN)))"

definition bind_this :: "nat \<Rightarrow> unit cgp" where
  "bind_this f = bind_argument f (0, ''this'', PtrTy)"

definition gen_base_ctor :: "gens \<Rightarrow> val \<Rightarrow> init_entry \<Rightarrow> unit cgp" where
  "gen_base_ctor G this ie = bind_s (gets (get_function (mangle (init_field ie) (init_field ie)))) (\<lambda>f. case f of
       None \<Rightarrow> ret ()
     | Some f \<Rightarrow> bind_s (gets (param_types f)) (\<lambda>ps. bind_s (gen_args_upto G (init_args ie) (tl ps)) (\<lambda>vs.
         then_s (emit_call f (this # vs)) (ret ()))))"

definition gen_base_ctors :: "gens \<Rightarrow> function_decl \<Rightarrow> unit cgp" where
  "gen_base_ctors G f = guarded (f_is_ctor f \<and> f_init_list f \<noteq> []) (
     bind_s (lookup_name ''this'') (\<lambda>a. case a of
         None \<Rightarrow> ret ()
       | Some a \<Rightarrow> bind_s (create_load PtrTy a) (\<lambda>this. for_each (gen_base_ctor G this) (f_init_list f))))"

text \<open>The objects in the fields of an object are destroyed after the body of its destructor, the last field first.\<close>

definition destroy_field :: "lty \<Rightarrow> val \<Rightarrow> field_info \<Rightarrow> unit cgp" where
  "destroy_field st this f = bind_s (gets (\<lambda>s.
       let cls = name_of (cg_types s) (fi_type f) in
       if cls \<noteq> [] \<and> cls \<noteq> ''<unknown>'' \<and> cls \<noteq> ''<invalid>'' \<and> get_function (cls @ ''___dtor'') s \<noteq> None
       then Some cls else None)) (\<lambda>c. case c of
     None \<Rightarrow> ret ()
   | Some cls \<Rightarrow> bind_s (create_struct_gep st this (fi_index f)) (\<lambda>p.
       bind_s (create_load PtrTy p) (\<lambda>v. bind_s (make_alloca PtrTy) (\<lambda>a.
       then_s (create_store v a) (emit_dtor a cls)))))"

definition destroy_fields :: "function_decl \<Rightarrow> unit cgp" where
  "destroy_fields f = guarded (f_is_dtor f) (bind_s (gets (\<lambda>s.
       case (if cg_class s = [] then None else cg_layouts s (cg_class s), lookup_env (cg_env s) ''this'') of
         (Some lay, Some a) \<Rightarrow> Some (lay, a)
       | _ \<Rightarrow> None)) (\<lambda>c. case c of
     None \<Rightarrow> ret ()
   | Some (lay, a) \<Rightarrow> when_live (bind_s (create_load PtrTy a) (\<lambda>this.
       for_each (destroy_field (cl_struct lay) this) (rev (cl_fields lay))))))"

definition function_of :: "function_decl \<Rightarrow> string \<Rightarrow> nat cgp" where
  "function_of f name = bind_s (gets (get_function name)) (\<lambda>g. case g of
       Some g \<Rightarrow> ret g
     | None \<Rightarrow> declare_function f name)"

definition ensure_personality :: "nat \<Rightarrow> unit cgp" where
  "ensure_personality f = bind_s (gets (\<lambda>s. fn_personality (cg_funs s ! f))) (\<lambda>p. if p then ret () else set_personality f)"

text \<open>The parameters of the declared function; \<open>this\<close> comes first in a method.\<close>

definition bind_arguments :: "function_decl \<Rightarrow> type_id \<Rightarrow> nat \<Rightarrow> unit cgp" where
  "bind_arguments f cls fn = bind_s (gets (\<lambda>s. List.enumerate 0 (fn_params (cg_funs s ! fn)))) (\<lambda>ps.
     if cls \<noteq> TID_UNKNOWN \<and> \<not> f_is_static f
     then then_s (bind_this fn) (for_each (bind_argument fn) (tl ps))
     else for_each (bind_argument fn) ps)"

definition gen_func_body :: "gens \<Rightarrow> function_decl \<Rightarrow> type_id \<Rightarrow> stmt list \<Rightarrow> nat \<Rightarrow> unit cgp" where
  "gen_func_body G f cls body fn =
     then_s (ensure_personality fn) (
     bind_s (new_block fn ''entry'') (\<lambda>b.
     then_s (set_insert b) (
     then_s (modify (\<lambda>s. s\<lparr>cg_var_class := Map.empty, cg_fn_vars := Map.empty\<rparr>)) (
     then_s env_push (
     then_s (bind_arguments f cls fn) (
     then_s (register_fn_params (f_params f)) (
     then_s (gen_base_ctors G f) (
     bind_s (gets (\<lambda>s. (cg_fn s, cg_ret_type s, cg_class s))) (\<lambda>(fn0, ret0, cls0).
     then_s (modify (\<lambda>s. s\<lparr>cg_fn := Some fn,
       cg_ret_type := known_or TID_VOID (from_type_expr (cg_types s) (f_return_type f))\<rparr>)) (
     then_s (gen_stmts G body) (
     then_s (destroy_fields f) (
     bind_s (gets (\<lambda>s. lower_type (cg_types s) (cg_ret_type s))) (\<lambda>t.
     then_s (finish_body G t) (
     then_s (env_pop G)
     (modify (\<lambda>s. s\<lparr>cg_fn := fn0, cg_ret_type := ret0, cg_class := cls0\<rparr>))))))))))))))))"

section \<open>Asynchronous functions\<close>

text \<open>The three functions of an \<open>async\<close> function: the body, which sets the future, ...\<close>

definition gen_async_body :: "gens \<Rightarrow> function_decl \<Rightarrow> stmt list \<Rightarrow> nat \<Rightarrow> unit cgp" where
  "gen_async_body G f body fn = bind_s (gets (\<lambda>s. s)) (\<lambda>s0.
     then_s (modify (enter_function fn (from_type_expr (cg_types s0) (f_return_type f)))) (
     then_s (modify (\<lambda>s. s\<lparr>cg_fn_vars := Map.empty\<rparr>)) (
     then_s (start_body fn) (
     bind_s (make_alloca PtrTy) (\<lambda>a.
     then_s (create_store (Argument fn 0 PtrTy) a) (
     bind_s (create_load PtrTy a) (\<lambda>fut.
     then_s (modify (\<lambda>s. s\<lparr>cg_future := Some fut\<rparr>)) (
     then_s (for_each (bind_param fn) (List.enumerate 1 (f_params f))) (
     then_s (register_fn_params (f_params f)) (
     then_s (gen_stmts G body) (
     then_s (unless_closed (
       then_s (call_rt ''duxrt_future_set'' VoidTy [PtrTy, PtrTy] [fut, null_ptr]) (
       then_s (emit_all_cleanups G) (put_inst RetVoid)))) (
     then_s (modify drop_scopes)
     (modify (\<lambda>s. (restore_outer s0 s)\<lparr>cg_fn_vars := cg_fn_vars s0, cg_future := cg_future s0\<rparr>))))))))))))))"

text \<open>... the thunk a thread runs, which unpacks the arguments, ...\<close>

definition unpack_argument :: "val \<Rightarrow> nat \<times> lty \<Rightarrow> val cgp" where
  "unpack_argument raw = (\<lambda>(i, t).
     bind_s (create_const_gep PtrTy raw (int i + 1)) (\<lambda>p.
     bind_s (create_load PtrTy p) (\<lambda>v.
       if is_int_ty t then bind_s (create_cast PtrToInt v (IntTy 64)) (\<lambda>w. create_cast Trunc w t)
       else if t = DoubleTy then bind_s (create_cast PtrToInt v (IntTy 64)) (\<lambda>w. create_cast BitCast w t)
       else ret v)))"

definition gen_async_thunk :: "nat \<Rightarrow> lty list \<Rightarrow> nat \<Rightarrow> unit cgp" where
  "gen_async_thunk body_fn ts fn =
     bind_s (new_block fn ''entry'') (\<lambda>b.
     then_s (set_insert b) (
     bind_s (create_const_gep PtrTy (Argument fn 0 PtrTy) 0) (\<lambda>p.
     bind_s (create_load PtrTy p) (\<lambda>fut.
     bind_s (map_s (unpack_argument (Argument fn 0 PtrTy)) (List.enumerate 0 ts)) (\<lambda>vs.
     then_s (create_call body_fn (fut # vs)) (
     then_s (call_rt ''free'' VoidTy [PtrTy] [Argument fn 0 PtrTy])
     (put_inst (Ret null_ptr))))))))"

text \<open>... and the launcher under the function's name, which packs them and starts the thread.\<close>

definition pack_argument :: "nat \<Rightarrow> val \<Rightarrow> nat \<Rightarrow> unit cgp" where
  "pack_argument fn env i = bind_s (gets (param_types fn)) (\<lambda>ts.
     if length ts \<le> i then null_deref
     else let v = Argument fn i (ts ! i) in
       bind_s (create_const_gep PtrTy env (int i + 1)) (\<lambda>p.
       bind_s (if val_ty v = PtrTy then ret v
         else if is_int_ty (val_ty v) then bind_s (create_cast ZExt v (IntTy 64)) (\<lambda>e. create_cast IntToPtr e PtrTy)
         else if val_ty v = DoubleTy then bind_s (create_cast BitCast v (IntTy 64)) (\<lambda>e. create_cast IntToPtr e PtrTy)
         else ret null_ptr) (\<lambda>b. create_store b p)))"

definition gen_launcher_body :: "nat \<Rightarrow> nat \<Rightarrow> nat \<Rightarrow> unit cgp" where
  "gen_launcher_body thunk n fn =
     bind_s (new_block fn ''entry'') (\<lambda>b.
     then_s (set_insert b) (
     bind_s (call_rt ''duxrt_future_new'' PtrTy [] []) (\<lambda>fut.
     bind_s (rt_malloc (const_int 64 ((int n + 1) * 8))) (\<lambda>env.
     bind_s (create_const_gep PtrTy env 0) (\<lambda>p.
     then_s (create_store fut p) (
     then_s (for_each (pack_argument fn env) [0..<n]) (
     then_s (call_rt ''duxrt_future_spawn_detached'' VoidTy [PtrTy, PtrTy] [FunVal thunk, env])
     (put_inst (Ret fut)))))))))"

definition gen_launcher :: "nat \<Rightarrow> lty list \<Rightarrow> string \<Rightarrow> unit cgp" where
  "gen_launcher thunk ts name = bind_s (gets (get_function name)) (\<lambda>g.
     bind_s (case g of
         Some g \<Rightarrow> ret g
       | None \<Rightarrow> bind_s (gets cg_class) (\<lambda>cls.
           create_fn name PtrTy (map (Pair []) ((if cls = [] then [] else [PtrTy]) @ ts)) False)) (\<lambda>fn.
     bind_s (gets (\<lambda>s. blocks_of s fn)) (\<lambda>bs.
     if bs \<noteq> [] then ret () else gen_launcher_body thunk (length ts) fn)))"

definition gen_async_func :: "gens \<Rightarrow> function_decl \<Rightarrow> string \<Rightarrow> stmt list \<Rightarrow> unit cgp" where
  "gen_async_func G f name body = bind_s (gets (\<lambda>s. s)) (\<lambda>s.
     let ts = map snd (lower_params (cg_types s) (f_params f)); seqno = show_nat (cg_asyncs s) in
     then_s (modify (\<lambda>s. s\<lparr>cg_asyncs := cg_asyncs s + 1\<rparr>)) (
     bind_s (create_fn (''__async_body_'' @ seqno) VoidTy (map (Pair []) (PtrTy # ts)) False) (\<lambda>body_fn.
     then_s (set_personality body_fn) (
     then_s (gen_async_body G f body body_fn) (
     bind_s (create_fn (''__async_thunk_'' @ seqno) PtrTy [([], PtrTy)] False) (\<lambda>thunk.
     then_s (gen_async_thunk body_fn ts thunk) (gen_launcher thunk ts name)))))))"

definition gen_func :: "gens \<Rightarrow> function_decl \<Rightarrow> string \<Rightarrow> type_id \<Rightarrow> unit cgp" where
  "gen_func G f name cls = (case f_body f of
       None \<Rightarrow> ret ()
     | Some (l, body) \<Rightarrow>
         if f_is_async f then gen_async_func G f name body
         else bind_s (function_of f name) (\<lambda>fn. bind_s (gets (\<lambda>s. blocks_of s fn)) (\<lambda>bs.
           if bs \<noteq> [] then ret () else gen_func_body G f cls body fn)))"

section \<open>Classes and declarations\<close>

definition empty_layout :: class_layout where
  "empty_layout = \<lparr>cl_name = [], cl_parent = [], cl_struct = StructTy [], cl_vtable = None, cl_fields = [], cl_methods = []\<rparr>"

definition layout_of :: "string \<Rightarrow> cg \<Rightarrow> class_layout" where
  "layout_of cls s = (case cg_layouts s cls of Some l \<Rightarrow> l | None \<Rightarrow> empty_layout)"

definition vtable_entry :: "method_info \<Rightarrow> val" where
  "vtable_entry m = (case mi_fn m of Some f \<Rightarrow> FunVal f | None \<Rightarrow> null_ptr)"

definition emit_vtable :: "string \<Rightarrow> unit cgp" where
  "emit_vtable cls = bind_s (gets (layout_of cls)) (\<lambda>lay.
     then_s (modify (\<lambda>s. s\<lparr>cg_layouts := (cg_layouts s)(cls \<mapsto> lay)\<rparr>)) (
     guarded (cl_methods lay \<noteq> []) (
       bind_s (new_global (cls @ ''__vtable'') (ArrayTy (length (cl_methods lay)) PtrTy) True False
         (map vtable_entry (cl_methods lay))) (\<lambda>g.
       modify (\<lambda>s. s\<lparr>cg_layouts := (cg_layouts s)(cls \<mapsto> lay\<lparr>cl_vtable := Some g\<rparr>)\<rparr>)))))"

definition static_member :: "class_member \<Rightarrow> field_decl option" where
  "static_member m = (case cm_decl m of
       Some (FieldDecl fd) \<Rightarrow> if fd_is_static fd then Some fd else None
     | _ \<Rightarrow> None)"

definition emit_static_field :: "string \<Rightarrow> field_decl \<Rightarrow> unit cgp" where
  "emit_static_field cls fd = (let name = cls @ ''._'' @ fd_name fd in
     bind_s (gets (\<lambda>s. s)) (\<lambda>s. if get_global name s \<noteq> None then ret ()
     else let t = lower_type (cg_types s) (known_or TID_INT (from_type_expr (cg_types s) (fd_type fd)));
            c = (case fd_init fd of None \<Rightarrow> null_value t | Some e \<Rightarrow> const_init t e) in
       bind_s (new_global name t (te_is_const (fd_type fd)) False [c]) (\<lambda>g. set_alloca_ty g t)))"

definition gen_method :: "gens \<Rightarrow> string \<Rightarrow> type_id \<Rightarrow> function_decl \<Rightarrow> unit cgp" where
  "gen_method G cls tid f = (if is_empty_dtor f then ret () else gen_func G f (mangle_class_member cls f) tid)"

definition gen_class :: "gens \<Rightarrow> class_decl \<Rightarrow> unit cgp" where
  "gen_class G c =
     then_s (emit_vtable (c_name c)) (
     bind_s (gets cg_class) (\<lambda>cls0.
     then_s (modify (\<lambda>s. s\<lparr>cg_class := c_name c\<rparr>)) (
     bind_s (gets (\<lambda>s. from_name (cg_types s) (c_name c))) (\<lambda>tid.
     then_s (for_each (emit_static_field (c_name c)) (List.map_filter static_member (c_members c))) (
     then_s (for_each (gen_method G (c_name c) tid) (List.map_filter method_decl (c_members c)))
     (modify (\<lambda>s. s\<lparr>cg_class := cls0\<rparr>)))))))"

text \<open>The declarations of a namespace, with those of the namespaces inside it.\<close>

fun gen_decls :: "gens \<Rightarrow> string \<Rightarrow> decl list \<Rightarrow> unit cgp" where
  "gen_decls G pre [] = ret ()"
| "gen_decls G pre (FunctionDecl f # ds) =
     then_s (guarded (\<not> f_is_ctor f \<and> \<not> f_is_dtor f) (gen_func G f (mangle pre (f_name f)) TID_UNKNOWN)) (gen_decls G pre ds)"
| "gen_decls G pre (ClassDecl c # ds) = then_s (gen_class G c) (gen_decls G pre ds)"
| "gen_decls G pre (NamespaceDecl (MkNamespace l n nds sts p) # ds) =
     then_s (if p then ret () else
       then_s (modify (build_layouts nds)) (
       then_s (declare_functions n nds) (
       bind_s (gets cg_namespace) (\<lambda>ns0.
       then_s (modify (\<lambda>s. s\<lparr>cg_namespace := n\<rparr>)) (
       then_s (gen_decls G n nds) (
       then_s (gen_stmts G sts) (modify (\<lambda>s. s\<lparr>cg_namespace := ns0\<rparr>)))))))) (gen_decls G pre ds)"
| "gen_decls G pre (ExternDecl e # ds) = then_s (declare_extern e) (gen_decls G pre ds)"
| "gen_decls G pre (EnumDecl e # ds) = gen_decls G pre ds"
| "gen_decls G pre (FieldDecl f # ds) = gen_decls G pre ds"
| "gen_decls G pre (InterfaceDecl i # ds) = gen_decls G pre ds"
| "gen_decls G pre (ImportDecl i # ds) = gen_decls G pre ds"

section \<open>The program\<close>

definition ends_with_main :: "string \<Rightarrow> bool" where
  "ends_with_main x \<longleftrightarrow> 6 \<le> length x \<and> drop (length x - 6) x = ''__main''"

definition user_main :: "cg \<Rightarrow> nat option" where
  "user_main s = (case get_function ''main'' s of
       Some f \<Rightarrow> Some f
     | None \<Rightarrow> position (\<lambda>f. ends_with_main (fn_name f) \<and> fn_params f = []) (cg_funs s))"

definition wrap_main :: "nat \<Rightarrow> lty \<Rightarrow> nat \<Rightarrow> unit cgp" where
  "wrap_main um t sys_init =
     then_s (modify (\<lambda>s. s\<lparr>cg_funs := (cg_funs s)[um := (cg_funs s ! um)\<lparr>fn_name := ''dux_main''\<rparr>]\<rparr>)) (
     bind_s (create_fn ''main'' (IntTy 32) [([], IntTy 32), ([], PtrTy)] False) (\<lambda>f.
     bind_s (new_block f ''entry'') (\<lambda>b.
     then_s (set_insert b) (
     then_s (create_call sys_init [Argument f 0 (IntTy 32), Argument f 1 PtrTy]) (
     bind_s (create_call um []) (\<lambda>v.
     bind_s (if t = VoidTy then ret (ConstInt 32 0)
       else if t = IntTy 64 then create_cast Trunc v (IntTy 32) else ret v) (\<lambda>v.
     put_inst (Ret v))))))))"

definition emit_main_wrapper :: "unit cgp" where
  "emit_main_wrapper = bind_s (gets user_main) (\<lambda>um. case um of
       None \<Rightarrow> ret ()
     | Some um \<Rightarrow> bind_s (gets (\<lambda>s. fn_ret (cg_funs s ! um))) (\<lambda>t.
         bind_s (get_or_declare_rt ''duxrt_sys_init'' VoidTy [IntTy 32, PtrTy]) (\<lambda>si.
         guarded (t = VoidTy \<or> t = IntTy 32 \<or> t = IntTy 64) (wrap_main um t si))))"

definition decl_import :: "decl \<Rightarrow> import_decl option" where
  "decl_import d = (case d of ImportDecl i \<Rightarrow> Some i | _ \<Rightarrow> None)"

text \<open>The passes of \<open>run\<close> up to the verifier, without the optimiser.\<close>

definition generate :: "gens \<Rightarrow> program \<Rightarrow> unit cgp" where
  "generate G p =
     then_s env_push (
     then_s (for_each process_import (List.map_filter decl_import (prog_decls p))) (
     then_s (modify (build_layouts (prog_decls p))) (
     then_s (declare_functions [] (prog_decls p)) (
     then_s (for_each (gen_stmt G) (filter is_thread_local (prog_stmts p))) (
     then_s (gen_decls G [] (prog_decls p)) (
     then_s (gen_stmts G (prog_stmts p)) (
     then_s (env_pop G) emit_main_wrapper)))))))"

text \<open>
  \<open>optimise\<close> stands for linking the runtime's bitcode and the passes of LLVM, which do nothing at level 0 (\<open>None\<close> is
  a failure to link); \<open>verify\<close> for \<open>verifyModule\<close>, which gives a message for a module that is not valid.
\<close>

definition codegen_run :: "(cg \<Rightarrow> cg option) \<Rightarrow> (cg \<Rightarrow> string option) \<Rightarrow> gens \<Rightarrow> program \<Rightarrow> bool cgp" where
  "codegen_run optimise verify G p = then_s (generate G p) (bind_s (gets optimise) (\<lambda>r. case r of
       None \<Rightarrow> ret False
     | Some s' \<Rightarrow> then_s (modify (\<lambda>s. s')) (bind_s (gets verify) (\<lambda>m. case m of
           Some msg \<Rightarrow> then_s (cg_err (SourceLoc [] 0 0) (''LLVM module verification failed: '' @ msg)) (ret False)
         | None \<Rightarrow> gets (\<lambda>s. cg_errors s = 0)))))"

end
