(* ===== verification/Cg_Blocks.thy ===== *)
theory Cg_Blocks
  imports Cg_Program
begin

text \<open>
  The structure of the generated code: a terminator is the last instruction of its block, and a block that is left
  behind has one. This file has the set of open blocks, what a statement may do to it, a weakest precondition for
  the programs of the generator, and the rules for its operations; \<open>Cg_Blocks_Stmt\<close> has the statements.
\<close>

section \<open>Deferred blocks that fall through\<close>

text \<open>
  A statement after which the generator is at an open block again. A deferred block is generated in front of a jump,
  so it has to be made of such statements; \<open>defers_ok\<close> asks this of every deferred block of a tree.
\<close>

fun falls :: "stmt \<Rightarrow> bool" and all_fall :: "stmt list \<Rightarrow> bool" where
  "falls (ReturnStmt l e) = False"
| "falls (ThrowStmt l e) = False"
| "falls (BreakStmt l x) = False"
| "falls (ContinueStmt l x) = False"
| "falls (BlockStmt l sts) = all_fall sts"
| "falls (UnsafeStmt l sts) = all_fall sts"
| "falls (LabeledStmt l x st) = falls st"
| "falls st = True"
| "all_fall [] = True"
| "all_fall (st # sts) = (falls st \<and> all_fall sts)"

fun defers_ok_expr :: "expr \<Rightarrow> bool" and defers_ok_exprs :: "expr list \<Rightarrow> bool" and defers_ok_opt :: "expr option \<Rightarrow> bool"
  and defers_ok_pairs :: "dict_entry list \<Rightarrow> bool" and defers_ok_inits :: "var_init list \<Rightarrow> bool"
  and defers_ok :: "stmt \<Rightarrow> bool" and defers_ok_stmts :: "stmt list \<Rightarrow> bool"
  and defers_ok_cases :: "switch_case list \<Rightarrow> bool" and defers_ok_arms :: "match_arm list \<Rightarrow> bool" where
  "defers_ok_expr NoExpr = True"
| "defers_ok_expr (IntLitExpr l t v) = True"
| "defers_ok_expr (LongLitExpr l t v) = True"
| "defers_ok_expr (FloatLitExpr l t v) = True"
| "defers_ok_expr (RealLitExpr l t v) = True"
| "defers_ok_expr (StringLitExpr l t s) = True"
| "defers_ok_expr (BoolLitExpr l t b) = True"
| "defers_ok_expr (NullLitExpr l t) = True"
| "defers_ok_expr (IdentExpr l t x) = True"
| "defers_ok_expr (ThisExpr l t) = True"
| "defers_ok_expr (SuperExpr l t) = True"
| "defers_ok_expr (BinaryExpr l t op a b) = (defers_ok_expr a \<and> defers_ok_expr b)"
| "defers_ok_expr (UnaryExpr l t op a p) = defers_ok_expr a"
| "defers_ok_expr (AssignExpr l t op a b) = (defers_ok_expr a \<and> defers_ok_expr b)"
| "defers_ok_expr (CallExpr l t f as) = (defers_ok_expr f \<and> defers_ok_exprs as)"
| "defers_ok_expr (MemberExpr l t a x) = defers_ok_expr a"
| "defers_ok_expr (IndexExpr l t a b) = (defers_ok_expr a \<and> defers_ok_expr b)"
| "defers_ok_expr (NewExpr l t te as) = defers_ok_exprs as"
| "defers_ok_expr (ListExpr l t es) = defers_ok_exprs es"
| "defers_ok_expr (DictExpr l t ps) = defers_ok_pairs ps"
| "defers_ok_expr (LambdaExpr l t ps b cs r i) = defers_ok b"
| "defers_ok_expr (AwaitExpr l t a) = defers_ok_expr a"
| "defers_ok_exprs [] = True"
| "defers_ok_exprs (e # es) = (defers_ok_expr e \<and> defers_ok_exprs es)"
| "defers_ok_opt None = True"
| "defers_ok_opt (Some e) = defers_ok_expr e"
| "defers_ok_pairs [] = True"
| "defers_ok_pairs (DictEntry a b # ps) = (defers_ok_expr a \<and> defers_ok_expr b \<and> defers_ok_pairs ps)"
| "defers_ok_inits [] = True"
| "defers_ok_inits (VarInit x e # ds) = (defers_ok_expr e \<and> defers_ok_inits ds)"
| "defers_ok NoStmt = True"
| "defers_ok (BlockStmt l sts) = defers_ok_stmts sts"
| "defers_ok (ExprStmt l e) = defers_ok_expr e"
| "defers_ok (VarDeclStmt l te c stat tls ds) = defers_ok_inits ds"
| "defers_ok (IfStmt l c a b) = (defers_ok_expr c \<and> defers_ok a \<and> defers_ok b)"
| "defers_ok (WhileStmt l lb c a) = (defers_ok_expr c \<and> defers_ok a)"
| "defers_ok (DoWhileStmt l a c) = (defers_ok a \<and> defers_ok_expr c)"
| "defers_ok (ForInStmt l te x e a) = (defers_ok_expr e \<and> defers_ok a)"
| "defers_ok (ForCStmt l te x e c i a) = (defers_ok_expr e \<and> defers_ok_expr c \<and> defers_ok_expr i \<and> defers_ok a)"
| "defers_ok (SwitchStmt l e cs) = (defers_ok_expr e \<and> defers_ok_cases cs)"
| "defers_ok (MatchStmt l e arms) = (defers_ok_expr e \<and> defers_ok_arms arms)"
| "defers_ok (TryCatchStmt l a c ct v b) = (defers_ok a \<and> defers_ok b)"
| "defers_ok (ReturnStmt l e) = defers_ok_opt e"
| "defers_ok (BreakStmt l x) = True"
| "defers_ok (ContinueStmt l x) = True"
| "defers_ok (AssertStmt l e) = defers_ok_expr e"
| "defers_ok (DeleteStmt l e) = defers_ok_expr e"
| "defers_ok (LabeledStmt l x st) = defers_ok st"
| "defers_ok (DeferStmt l sts) = (all_fall sts \<and> defers_ok_stmts sts)"
| "defers_ok (ThrowStmt l e) = defers_ok_expr e"
| "defers_ok (UnsafeStmt l sts) = defers_ok_stmts sts"
| "defers_ok_stmts [] = True"
| "defers_ok_stmts (st # sts) = (defers_ok st \<and> defers_ok_stmts sts)"
| "defers_ok_cases [] = True"
| "defers_ok_cases (SwitchCase v sts # cs) = (defers_ok_opt v \<and> defers_ok_stmts sts \<and> defers_ok_cases cs)"
| "defers_ok_arms [] = True"
| "defers_ok_arms (MatchArm p sts l # arms) = (defers_ok_stmts sts \<and> defers_ok_arms arms)"

lemma all_fall_iff: "all_fall sts \<longleftrightarrow> (\<forall>st\<in>set sts. falls st)"
  by (induction sts) simp_all

lemma defers_ok_exprs_iff: "defers_ok_exprs es \<longleftrightarrow> (\<forall>e\<in>set es. defers_ok_expr e)"
  by (induction es) simp_all

lemma defers_ok_stmts_iff: "defers_ok_stmts sts \<longleftrightarrow> (\<forall>st\<in>set sts. defers_ok st)"
  by (induction sts) simp_all

lemma defers_ok_pairs_iff:
  "defers_ok_pairs ps \<longleftrightarrow> (\<forall>p\<in>set ps. case p of DictEntry a b \<Rightarrow> defers_ok_expr a \<and> defers_ok_expr b)"
proof (induction ps)
  case (Cons x xs)
  then show ?case by (cases x) (auto)
qed simp

lemma defers_ok_inits_iff: "defers_ok_inits ds \<longleftrightarrow> (\<forall>d\<in>set ds. case d of VarInit x e \<Rightarrow> defers_ok_expr e)"
proof (induction ds)
  case (Cons x xs)
  then show ?case by (cases x) (auto)
qed simp

lemma defers_ok_cases_iff:
  "defers_ok_cases cs \<longleftrightarrow> (\<forall>c\<in>set cs. case c of SwitchCase v sts \<Rightarrow> defers_ok_opt v \<and> defers_ok_stmts sts)"
proof (induction cs)
  case (Cons x xs)
  then show ?case by (cases x) (auto)
qed simp

lemma defers_ok_arms_iff: "defers_ok_arms arms \<longleftrightarrow> (\<forall>a\<in>set arms. defers_ok_stmts (arm_body a))"
proof (induction arms)
  case (Cons x xs)
  then show ?case by (cases x) (auto simp: arm_body_def)
qed simp

section \<open>Open blocks\<close>

text \<open>
  The blocks without a terminator. \<open>tidy\<close>: nothing follows a terminator. \<open>fit\<close> adds what the generator keeps for
  later: the deferred blocks that wait and the initial values of fields are as \<open>defers_ok\<close> asks.
\<close>

definition opens :: "cg \<Rightarrow> nat set" where
  "opens s = {b. b < length (cg_blocks s) \<and> \<not> block_closed (cg_blocks s ! b)}"

definition tidy_block :: "block \<Rightarrow> bool" where
  "tidy_block b \<longleftrightarrow> (\<forall>x\<in>set (butlast (bl_insts b)). \<not> is_terminator (snd x))"

definition calm_cleanup :: "cleanup \<Rightarrow> bool" where
  "calm_cleanup c = (case c of RunDefer body \<Rightarrow> all_fall body \<and> defers_ok_stmts body | _ \<Rightarrow> True)"

definition calm_layout :: "class_layout \<Rightarrow> bool" where
  "calm_layout l \<longleftrightarrow> (\<forall>f\<in>set (cl_fields l). defers_ok_opt (fi_init f))"

definition fit :: "cg \<Rightarrow> bool" where
  "fit s \<longleftrightarrow> (\<forall>b\<in>set (cg_blocks s). tidy_block b) \<and> (\<forall>c\<in>set (concat (cg_cleanups s)). calm_cleanup c) \<and>
     (\<forall>l\<in>ran (cg_layouts s). calm_layout l) \<and> (\<forall>i. cg_insert s = Some i \<longrightarrow> i < length (cg_blocks s))"

text \<open>The generator at block \<open>i\<close> with the open blocks \<open>open_bbs\<close>, when at least \<open>N\<close> blocks have been made.\<close>

definition at_block :: "nat \<Rightarrow> cg \<Rightarrow> nat \<Rightarrow> nat set \<Rightarrow> bool" where
  "at_block N s i open_bbs \<longleftrightarrow> fit s \<and> cg_insert s = Some i \<and> opens s = open_bbs \<and> N \<le> length (cg_blocks s)"

text \<open>The weakest precondition: whatever \<open>m\<close> returns from \<open>s\<close>, \<open>Q\<close> holds of it.\<close>

definition wp :: "('s, 'a) prog \<Rightarrow> ('a \<Rightarrow> 's \<Rightarrow> bool) \<Rightarrow> 's \<Rightarrow> bool" where
  "wp m Q s = (case m s of Returned a t \<Rightarrow> Q a t | _ \<Rightarrow> True)"

lemma wp_ret [simp]: "wp (ret a) Q s = Q a s"
  by (simp add: wp_def ret_def)

lemma wp_bind [simp]: "wp (bind_s m f) Q s = wp m (\<lambda>a t. wp (f a) Q t) s"
  by (simp add: wp_def bind_s_def split: outcome.split)

lemma wp_then [simp]: "wp (then_s m k) Q s = wp m (\<lambda>_ t. wp k Q t) s"
  by (simp add: then_s_def)

lemma wp_gets [simp]: "wp (gets f) Q s = Q (f s) s"
  by (simp add: wp_def gets_def)

lemma wp_modify [simp]: "wp (modify f) Q s = Q () (f s)"
  by (simp add: wp_def modify_def)

lemma wp_null_deref [simp]: "wp null_deref Q s"
  by (simp add: wp_def null_deref_def)

lemma wp_mono: "wp m P s \<Longrightarrow> (\<And>a t. P a t \<Longrightarrow> Q a t) \<Longrightarrow> wp m Q s"
  by (simp add: wp_def split: outcome.splits)

lemma wp_Returned: "wp m Q s \<Longrightarrow> m s = Returned a t \<Longrightarrow> Q a t"
  by (simp add: wp_def)

text \<open>
  \<open>keeps m\<close>: from an open block \<open>m\<close> ends at an open block, and everything it leaves behind is closed; the other
  open blocks stay open. \<open>stays m\<close> is the same without the first part, as it holds of a statement; a \<open>gated\<close>
  program may also start at a closed block.
\<close>

definition keeps :: "'a cgp \<Rightarrow> bool" where
  "keeps m \<longleftrightarrow> (\<forall>N s i open_bbs. at_block N s i open_bbs \<longrightarrow> i \<in> open_bbs \<longrightarrow>
     wp m (\<lambda>a t. \<exists>j. j \<notin> open_bbs - {i} \<and> at_block N t j (insert j (open_bbs - {i}))) s)"

definition stays :: "'a cgp \<Rightarrow> bool" where
  "stays m \<longleftrightarrow> (\<forall>N s i open_bbs. at_block N s i open_bbs \<longrightarrow> i \<in> open_bbs \<longrightarrow>
     wp m (\<lambda>a t. \<exists>j open_bbs'. open_bbs' - {j} = open_bbs - {i} \<and> at_block N t j open_bbs') s)"

definition gated :: "'a cgp \<Rightarrow> bool" where
  "gated m \<longleftrightarrow> (\<forall>N s i open_bbs. at_block N s i open_bbs \<longrightarrow>
     wp m (\<lambda>a t. \<exists>j open_bbs'. open_bbs' - {j} = open_bbs - {i} \<and> at_block N t j open_bbs') s)"

text \<open>\<open>keeps\<close> as rules on \<open>at_block\<close>.\<close>

lemma keepsI:
  assumes "\<And>N s i open_bbs. at_block N s i open_bbs \<Longrightarrow> i \<in> open_bbs \<Longrightarrow>
     wp m (\<lambda>a t. \<exists>j. j \<notin> open_bbs - {i} \<and> at_block N t j (insert j (open_bbs - {i}))) s"
  shows "keeps m"
  using assms by (simp add: keeps_def)

lemma staysI:
  assumes "\<And>N s i open_bbs. at_block N s i open_bbs \<Longrightarrow> i \<in> open_bbs \<Longrightarrow>
     wp m (\<lambda>a t. \<exists>j open_bbs'. open_bbs' - {j} = open_bbs - {i} \<and> at_block N t j open_bbs') s"
  shows "stays m"
  using assms by (simp add: stays_def)

lemma gatedI:
  assumes "\<And>N s i open_bbs. at_block N s i open_bbs \<Longrightarrow>
     wp m (\<lambda>a t. \<exists>j open_bbs'. open_bbs' - {j} = open_bbs - {i} \<and> at_block N t j open_bbs') s"
  shows "gated m"
  using assms by (simp add: gated_def)

lemma wp_keeps:
  assumes "keeps m" and "at_block N s i open_bbs" and "i \<in> open_bbs"
    and "\<And>a t j. at_block N t j (insert j (open_bbs - {i})) \<Longrightarrow> j \<notin> open_bbs - {i} \<Longrightarrow> Q a t"
  shows "wp m Q s"
proof (rule wp_mono)
  show "wp m (\<lambda>a t. \<exists>j. j \<notin> open_bbs - {i} \<and> at_block N t j (insert j (open_bbs - {i}))) s"
    using assms(1-3) by (simp add: keeps_def)
qed (use assms(4) in blast)

lemma wp_stays:
  assumes "stays m" and "at_block N s i open_bbs" and "i \<in> open_bbs"
    and "\<And>a t j open_bbs'. at_block N t j open_bbs' \<Longrightarrow> open_bbs' - {j} = open_bbs - {i} \<Longrightarrow> Q a t"
  shows "wp m Q s"
proof (rule wp_mono)
  show "wp m (\<lambda>a t. \<exists>j open_bbs'. open_bbs' - {j} = open_bbs - {i} \<and> at_block N t j open_bbs') s"
    using assms(1-3) by (simp add: stays_def)
qed (use assms(4) in blast)

lemma wp_gated:
  assumes "gated m" and "at_block N s i open_bbs"
    and "\<And>a t j open_bbs'. at_block N t j open_bbs' \<Longrightarrow> open_bbs' - {j} = open_bbs - {i} \<Longrightarrow> Q a t"
  shows "wp m Q s"
proof (rule wp_mono)
  show "wp m (\<lambda>a t. \<exists>j open_bbs'. open_bbs' - {j} = open_bbs - {i} \<and> at_block N t j open_bbs') s"
    using assms(1,2) by (simp add: gated_def)
qed (use assms(3) in blast)

lemma back_to_stays:
  "at_block N t j (insert j X) \<Longrightarrow> j \<notin> X \<Longrightarrow> \<exists>j open_bbs'. open_bbs' - {j} = X \<and> at_block N t j open_bbs'"
  by (rule exI [of _ j], rule exI [of _ "insert j X"]) simp

lemma keeps_stays: "keeps m \<Longrightarrow> stays m"
  by (rule staysI, erule wp_keeps, assumption+) (rule back_to_stays)

lemma gated_stays: "gated m \<Longrightarrow> stays m"
  by (simp add: gated_def stays_def)

named_theorems keeps_intros

lemma keeps_ret [keeps_intros]: "keeps (ret a)"
  by (rule keepsI) (auto simp: insert_absorb)

lemma keeps_null_deref [keeps_intros]: "keeps null_deref"
  by (simp add: keeps_def)

lemma keeps_bind [keeps_intros]:
  assumes "keeps m" and "\<And>a. keeps (f a)"
  shows "keeps (bind_s m f)"
proof (rule keepsI)
  fix N s i open_bbs
  assume "at_block N s i open_bbs" "i \<in> open_bbs"
  then show "wp (bind_s m f) (\<lambda>a t. \<exists>j. j \<notin> open_bbs - {i} \<and> at_block N t j (insert j (open_bbs - {i}))) s"
    unfolding wp_bind
  proof (rule wp_keeps [OF assms(1)])
    fix a t j
    assume "at_block N t j (insert j (open_bbs - {i}))" "j \<notin> open_bbs - {i}"
    then show "wp (f a) (\<lambda>a t. \<exists>j. j \<notin> open_bbs - {i} \<and> at_block N t j (insert j (open_bbs - {i}))) t"
      by (intro wp_keeps [OF assms(2)]) auto
  qed
qed

lemma keeps_then [keeps_intros]: "keeps m \<Longrightarrow> keeps k \<Longrightarrow> keeps (then_s m k)"
  by (simp add: then_s_def keeps_bind)

text \<open>A value read from the state may be used with what \<open>fit\<close> says of the state.\<close>

lemma keeps_gets [keeps_intros]:
  assumes "\<And>s. fit s \<Longrightarrow> keeps (f (g s))"
  shows "keeps (bind_s (gets g) f)"
  using assms unfolding keeps_def by (auto simp: at_block_def)

lemma keeps_gets_only [keeps_intros]: "keeps (gets g)"
  by (rule keepsI) (auto simp: insert_absorb)

lemma keeps_run_loop [keeps_intros]: "keeps (run_loop f)"
  by (rule keepsI) (auto simp: wp_def run_loop_def insert_absorb split: option.split)

lemma keeps_guarded [keeps_intros]: "(b \<Longrightarrow> keeps m) \<Longrightarrow> keeps (guarded b m)"
  by (simp add: guarded_def keeps_ret)

lemma keeps_for_each [keeps_intros]:
  "(\<And>x. x \<in> set xs \<Longrightarrow> keeps (f x)) \<Longrightarrow> keeps (for_each f xs)"
  by (induction xs) (auto intro: keeps_ret keeps_then)

lemma keeps_map_s [keeps_intros]:
  "(\<And>x. x \<in> set xs \<Longrightarrow> keeps (f x)) \<Longrightarrow> keeps (map_s f xs)"
  by (induction xs) (auto intro!: keeps_ret keeps_bind)

lemma keeps_if [keeps_intros]:
  "(b \<Longrightarrow> keeps m) \<Longrightarrow> (\<not> b \<Longrightarrow> keeps k) \<Longrightarrow> keeps (if b then m else k)"
  by simp

lemma keeps_case_option [keeps_intros]:
  "(x = None \<Longrightarrow> keeps m) \<Longrightarrow> (\<And>a. x = Some a \<Longrightarrow> keeps (f a)) \<Longrightarrow>
   keeps (case x of None \<Rightarrow> m | Some a \<Rightarrow> f a)"
  by (cases x) simp_all

lemma keeps_case_prod [keeps_intros]:
  "(\<And>a b. p = (a, b) \<Longrightarrow> keeps (f a b)) \<Longrightarrow> keeps (case p of (a, b) \<Rightarrow> f a b)"
  by (cases p) simp

lemma keeps_case_list [keeps_intros]:
  "keeps m \<Longrightarrow> (\<And>y ys. keeps (f y ys)) \<Longrightarrow> keeps (case xs of [] \<Rightarrow> m | y # ys \<Rightarrow> f y ys)"
  by (cases xs) simp_all

text \<open>A change of the state that leaves the blocks alone and what is kept for later calm.\<close>

lemma keeps_modify:
  assumes "\<And>s. cg_blocks (g s) = cg_blocks s" "\<And>s. cg_insert (g s) = cg_insert s"
    and "\<And>s. fit s \<Longrightarrow> fit (g s)"
  shows "keeps (modify g)"
  using assms by (intro keepsI) (auto simp: at_block_def opens_def insert_absorb)

lemma keeps_modify_plain:
  assumes "\<And>s. cg_blocks (g s) = cg_blocks s" "\<And>s. cg_insert (g s) = cg_insert s"
    and "\<And>s. cg_cleanups (g s) = cg_cleanups s" "\<And>s. cg_layouts (g s) = cg_layouts s"
  shows "keeps (modify g)"
  using assms by (intro keeps_modify) (simp_all add: fit_def)

section \<open>The instruction builder\<close>

lemma at_blockD:
  assumes "at_block N s i open_bbs"
  shows "fit s" "cg_insert s = Some i" "i < length (cg_blocks s)" "opens s = open_bbs"
    "N \<le> length (cg_blocks s)"
  using assms by (auto simp: at_block_def fit_def)

lemma open_insts_calm:
  assumes "tidy_block b" "\<not> block_closed b" "x \<in> set (bl_insts b)"
  shows "\<not> is_terminator (snd x)"
proof (cases "bl_insts b" rule: rev_cases)
  case (snoc xs y)
  then show ?thesis using assms by (auto simp: tidy_block_def block_closed_def)
qed (use assms in simp)

lemma tidy_nth: "fit s \<Longrightarrow> b < length (cg_blocks s) \<Longrightarrow> tidy_block (cg_blocks s ! b)"
  by (simp add: fit_def)

text \<open>A block is replaced by one that is tidy again.\<close>

definition put_block :: "nat \<Rightarrow> block \<Rightarrow> cg \<Rightarrow> cg" where
  "put_block b blk s = s\<lparr>cg_blocks := (cg_blocks s)[b := blk]\<rparr>"

lemma fit_put_block:
  assumes "fit s" "tidy_block blk"
  shows "fit (put_block b blk s)"
proof -
  have "set ((cg_blocks s)[b := blk]) \<subseteq> insert blk (set (cg_blocks s))" by (rule set_update_subset_insert)
  then show ?thesis using assms unfolding fit_def put_block_def by auto
qed

lemma opens_put_block:
  "b < length (cg_blocks s) \<Longrightarrow>
   opens (put_block b blk s) = (if block_closed blk then opens s - {b} else insert b (opens s))"
  by (auto simp: opens_def put_block_def nth_list_update split: if_splits)

lemma length_put_block [simp]: "length (cg_blocks (put_block b blk s)) = length (cg_blocks s)"
  by (simp add: put_block_def)

lemma emit_inst_eq:
  "cg_insert s = Some b \<Longrightarrow>
   emit_inst i s = Returned (cg_next s) (put_block b ((cg_blocks s ! b)\<lparr>bl_insts := bl_insts (cg_blocks s ! b) @ [(cg_next s, i)]\<rparr>)
     (s\<lparr>cg_next := cg_next s + 1\<rparr>))"
  by (simp add: emit_inst_def insert_block_def put_block_def prog_defs)

lemma at_block_emit:
  assumes "at_block N s b open_bbs" "b \<in> open_bbs"
  shows "at_block N (put_block b ((cg_blocks s ! b)\<lparr>bl_insts := bl_insts (cg_blocks s ! b) @ [(n, i)]\<rparr>)
     (s\<lparr>cg_next := m\<rparr>)) b (if is_terminator i then open_bbs - {b} else open_bbs)"
proof -
  note D = at_blockD [OF assms(1)]
  let ?blk = "(cg_blocks s ! b)\<lparr>bl_insts := bl_insts (cg_blocks s ! b) @ [(n, i)]\<rparr>"
  have "\<not> block_closed (cg_blocks s ! b)" using assms(2) D(4) by (auto simp: opens_def)
  then have "tidy_block ?blk"
    using open_insts_calm [OF tidy_nth [OF D(1,3)]] by (auto simp: tidy_block_def)
  moreover have "fit (s\<lparr>cg_next := m\<rparr>)" using D(1) by (simp add: fit_def)
  ultimately have "fit (put_block b ?blk (s\<lparr>cg_next := m\<rparr>))" by (rule fit_put_block [rotated])
  moreover have "block_closed ?blk = is_terminator i" by (simp add: block_closed_def)
  moreover have "opens (s\<lparr>cg_next := m\<rparr>) = opens s" by (simp add: opens_def)
  ultimately show ?thesis
    using D assms(2) by (auto simp: at_block_def opens_put_block insert_absorb) (simp_all add: put_block_def)
qed

lemma wp_emit:
  assumes "at_block N s b open_bbs" "b \<in> open_bbs"
    and "\<And>n t. at_block N t b (if is_terminator i then open_bbs - {b} else open_bbs) \<Longrightarrow> Q n t"
  shows "wp (emit_inst i) Q s"
  using assms(3) [OF at_block_emit [OF assms(1,2)]]
  by (simp add: wp_def emit_inst_eq [OF at_blockD(2) [OF assms(1)]])

lemma keeps_emit [keeps_intros]: "\<not> is_terminator i \<Longrightarrow> keeps (emit_inst i)"
  by (rule keepsI, erule wp_emit, assumption) (auto simp: insert_absorb)

lemma keeps_put_inst [keeps_intros]: "\<not> is_terminator i \<Longrightarrow> keeps (put_inst i)"
  by (simp add: put_inst_def keeps_intros)

text \<open>A terminator closes the block.\<close>

lemma wp_put_term:
  assumes "at_block N s b open_bbs" "b \<in> open_bbs" "is_terminator i"
    and "\<And>t. at_block N t b (open_bbs - {b}) \<Longrightarrow> Q () t"
  shows "wp (put_inst i) Q s"
  unfolding put_inst_def wp_then by (rule wp_emit [OF assms(1,2)]) (use assms(3,4) in simp)

lemma wp_emit_term:
  assumes "at_block N s b open_bbs" "b \<in> open_bbs" "is_terminator i"
    and "\<And>n t. at_block N t b (open_bbs - {b}) \<Longrightarrow> Q n t"
  shows "wp (emit_inst i) Q s"
  by (rule wp_emit [OF assms(1,2)]) (use assms(3,4) in simp)

lemma wp_br:
  assumes "at_block N s b open_bbs" "b \<in> open_bbs" and "\<And>t. at_block N t b (open_bbs - {b}) \<Longrightarrow> Q () t"
  shows "wp (create_br x) Q s"
  unfolding create_br_def by (rule wp_put_term [OF assms(1,2)]) (simp_all add: assms(3))

lemma wp_cond_br:
  assumes "at_block N s b open_bbs" "b \<in> open_bbs" and "\<And>t. at_block N t b (open_bbs - {b}) \<Longrightarrow> Q () t"
  shows "wp (create_cond_br c x y) Q s"
  unfolding create_cond_br_def by (rule wp_put_term [OF assms(1,2)]) (simp_all add: assms(3))

lemma wp_insert_block:
  assumes "at_block N s b open_bbs" and "Q b s"
  shows "wp insert_block Q s"
  using assms by (auto simp: insert_block_def at_block_def)

lemma keeps_insert_block [keeps_intros]: "keeps insert_block"
  by (rule keepsI, rule wp_insert_block, assumption) (auto simp: insert_absorb)

lemma keeps_current_parent [keeps_intros]: "keeps current_parent"
  by (simp add: current_parent_def keeps_intros)

lemma wp_current_parent:
  assumes "at_block N s b open_bbs" and "\<And>f. Q f s"
  shows "wp current_parent Q s"
  unfolding current_parent_def wp_bind by (rule wp_insert_block [OF assms(1)]) (simp add: assms(2))

lemma wp_new_block:
  assumes "at_block N s i open_bbs"
    and "\<And>b t. at_block N t i (insert b open_bbs) \<Longrightarrow> b \<notin> open_bbs \<Longrightarrow> b \<noteq> i \<Longrightarrow> Q b t"
  shows "wp (new_block f name) Q s"
proof -
  note D = at_blockD [OF assms(1)]
  let ?b = "length (cg_blocks s)"
  let ?t = "s\<lparr>cg_blocks := cg_blocks s @ [\<lparr>bl_fn = f, bl_name = name, bl_insts = []\<rparr>]\<rparr>"
  have "fit ?t" using D(1) by (auto simp: fit_def tidy_block_def)
  moreover have "opens ?t = insert ?b (opens s)"
    by (auto simp: opens_def nth_append block_closed_def less_Suc_eq split: if_splits)
  ultimately have "at_block N ?t i (insert ?b open_bbs)" using D by (simp add: at_block_def)
  moreover have "?b \<notin> open_bbs" "?b \<noteq> i" using D by (auto simp: opens_def)
  ultimately show ?thesis using assms(2) by (simp add: new_block_def)
qed

lemma opens_bound: "b \<in> opens s \<Longrightarrow> b < length (cg_blocks s)"
  by (simp add: opens_def)

lemma wp_set_insert:
  assumes "at_block N s i open_bbs" and "b \<in> open_bbs" and "\<And>t. at_block N t b open_bbs \<Longrightarrow> Q () t"
  shows "wp (set_insert b) Q s"
proof -
  have "b < length (cg_blocks s)" using assms(2) at_blockD(4) [OF assms(1)] opens_bound by blast
  then have "at_block N (s\<lparr>cg_insert := Some b\<rparr>) b open_bbs"
    using at_blockD [OF assms(1)] by (simp add: at_block_def fit_def opens_def)
  then show ?thesis using assms(3) by (simp add: set_insert_def)
qed

lemma wp_has_terminator:
  assumes "at_block N s i open_bbs" and "Q (i \<notin> open_bbs) s"
  shows "wp has_terminator Q s"
  using assms at_blockD [OF assms(1)]
  by (auto simp: has_terminator_def closed_def opens_def intro!: wp_insert_block)

text \<open>Back to a block that was noted earlier, open or not.\<close>

lemma at_block_mark: "at_block N s i open_bbs \<Longrightarrow> at_block (max N (Suc i)) s i open_bbs"
  by (auto simp: at_block_def fit_def)

lemma at_block_unmark: "at_block (max N k) s i open_bbs \<Longrightarrow> at_block N s i open_bbs"
  by (simp add: at_block_def)

lemma wp_set_insert_marked:
  assumes "at_block N s i open_bbs" and "b < N" and "\<And>t. at_block N t b open_bbs \<Longrightarrow> Q () t"
  shows "wp (set_insert b) Q s"
proof -
  have "at_block N (s\<lparr>cg_insert := Some b\<rparr>) b open_bbs"
    using assms(1,2) by (simp add: at_block_def fit_def opens_def)
  then show ?thesis using assms(3) by (simp add: set_insert_def)
qed

text \<open>The end of a branch: whatever was there, the block is closed after it.\<close>

lemma wp_goto_if_open:
  assumes "at_block N s i open_bbs" and "\<And>t. at_block N t i (open_bbs - {i}) \<Longrightarrow> Q () t"
  shows "wp (goto_if_open x) Q s"
  unfolding goto_if_open_def unless_closed_def wp_bind
proof (rule wp_has_terminator [OF assms(1)])
  show "wp (if i \<notin> open_bbs then ret () else create_br x) Q s"
  proof (cases "i \<in> open_bbs")
    case True
    have "wp (create_br x) Q s" by (rule wp_br [OF assms(1) True]) (rule assms(2))
    with True show ?thesis by simp
  next
    case False
    then show ?thesis using assms(2) [of s] assms(1) by simp
  qed
qed

lemma gated_unless_closed:
  assumes "stays m"
  shows "gated (unless_closed m)"
proof (rule gatedI)
  fix N s i open_bbs
  assume at: "at_block N s i open_bbs"
  show "wp (unless_closed m) (\<lambda>a t. \<exists>j open_bbs'. open_bbs' - {j} = open_bbs - {i} \<and> at_block N t j open_bbs') s"
    (is "wp _ ?Q s") unfolding unless_closed_def wp_bind
  proof (rule wp_has_terminator [OF at])
    show "wp (if i \<notin> open_bbs then ret () else m) ?Q s"
    proof (cases "i \<in> open_bbs")
      case True
      have "wp m ?Q s" by (rule wp_stays [OF assms at True]) blast
      with True show ?thesis by simp
    next
      case False
      with at show ?thesis by auto
    qed
  qed
qed

lemma keeps_unless_closed: "keeps m \<Longrightarrow> keeps (unless_closed m)"
  unfolding unless_closed_def
  by (rule keepsI, unfold wp_bind, rule wp_has_terminator, assumption) (simp add: keeps_def)

lemma gated_bind:
  assumes "gated m" and "\<And>a. gated (f a)"
  shows "gated (bind_s m f)"
proof (rule gatedI)
  fix N s i open_bbs
  assume "at_block N s i open_bbs"
  then show "wp (bind_s m f) (\<lambda>a t. \<exists>j open_bbs'. open_bbs' - {j} = open_bbs - {i} \<and> at_block N t j open_bbs') s"
    unfolding wp_bind
  proof (rule wp_gated [OF assms(1)])
    fix a t j open_bbs'
    assume at: "at_block N t j open_bbs'" and eq: "open_bbs' - {j} = open_bbs - {i}"
    show "wp (f a) (\<lambda>a t. \<exists>j open_bbs'. open_bbs' - {j} = open_bbs - {i} \<and> at_block N t j open_bbs') t"
      by (rule wp_gated [OF assms(2) at]) (metis eq)
  qed
qed

lemma gated_then: "gated m \<Longrightarrow> gated k \<Longrightarrow> gated (then_s m k)"
  by (simp add: then_s_def gated_bind)

lemma gated_ret: "gated (ret a)"
  by (rule gatedI) auto

lemma gated_for_each: "(\<And>x. x \<in> set xs \<Longrightarrow> gated (f x)) \<Longrightarrow> gated (for_each f xs)"
  by (induction xs) (auto intro: gated_ret gated_then)

lemma gated_gets:
  assumes "\<And>s. fit s \<Longrightarrow> gated (f (g s))"
  shows "gated (bind_s (gets g) f)"
  using assms unfolding gated_def by (auto simp: at_block_def)

text \<open>\<open>make_alloca\<close> puts an instruction in front of the entry block.\<close>

lemma block_closed_cons:
  "\<not> is_terminator i \<Longrightarrow> block_closed (b\<lparr>bl_insts := (n, i) # bl_insts b\<rparr>) = block_closed b"
  by (simp add: block_closed_def)

lemma tidy_block_cons:
  "\<not> is_terminator i \<Longrightarrow> tidy_block b \<Longrightarrow> tidy_block (b\<lparr>bl_insts := (n, i) # bl_insts b\<rparr>)"
  by (simp add: tidy_block_def)

lemma keeps_make_alloca [keeps_intros]: "keeps (make_alloca t)"
proof (rule keepsI)
  fix N s i open_bbs
  assume at: "at_block N s i open_bbs" and live: "i \<in> open_bbs"
  note D = at_blockD [OF at]
  show "wp (make_alloca t) (\<lambda>a t. \<exists>j. j \<notin> open_bbs - {i} \<and> at_block N t j (insert j (open_bbs - {i}))) s"
  proof (cases "blocks_of s (bl_fn (cg_blocks s ! i))")
    case Nil
    then show ?thesis using D by (simp add: make_alloca_def current_parent_def insert_block_def)
  next
    case (Cons e es)
    then have "e \<in> set (blocks_of s (bl_fn (cg_blocks s ! i)))" by simp
    then have e: "e < length (cg_blocks s)" by (simp add: blocks_of_def)
    let ?s = "s\<lparr>cg_next := cg_next s + 1, cg_alloca_ty := (cg_alloca_ty s)(Instr (cg_next s) PtrTy \<mapsto> t)\<rparr>"
    let ?t = "put_block e ((cg_blocks s ! e)\<lparr>bl_insts := (cg_next s, Alloca t) # bl_insts (cg_blocks s ! e)\<rparr>) ?s"
    have fit_s: "fit ?s" using D(1) by (simp add: fit_def)
    have fit_t: "fit ?t" by (rule fit_put_block [OF fit_s]) (simp add: tidy_block_cons tidy_nth [OF D(1) e])
    have "opens ?t = opens s"
      using e by (auto simp: opens_put_block block_closed_cons) (auto simp: opens_def)
    moreover have "cg_insert ?t = Some i" using D(2) by (simp add: put_block_def)
    ultimately have "at_block N ?t i open_bbs" using D(4,5) fit_t by (simp add: at_block_def)
    then have "\<exists>j. j \<notin> open_bbs - {i} \<and> at_block N ?t j (insert j (open_bbs - {i}))"
      using live by (intro exI [of _ i]) (simp add: insert_absorb)
    moreover have "make_alloca t s = Returned (Instr (cg_next s) PtrTy) ?t"
      using Cons D(2) by (simp add: make_alloca_def current_parent_def insert_block_def put_block_def prog_defs)
    ultimately show ?thesis by (simp add: wp_def)
  qed
qed

end
