(* ===== verification/Cg_Blocks_Expr.thy ===== *)
theory Cg_Blocks_Expr
  imports Cg_Blocks
begin

text \<open>
  Every operation of the generator that gives a value starts and ends at an open block: the rules \<open>keeps_intros\<close>
  for the helpers, and for \<open>gen_expr\<close> over generators of subexpressions and statements that are good themselves.
\<close>

section \<open>Builder and helpers\<close>

lemma keeps_create_load [keeps_intros]: "keeps (create_load t p)"
  unfolding create_load_def by (rule keeps_gets keeps_intros | simp)+

lemma keeps_create_store [keeps_intros]: "keeps (create_store v p)"
  unfolding create_store_def by (rule keeps_gets keeps_intros | simp)+

lemma keeps_create_op [keeps_intros]: "keeps (create_op oc vs t)"
  unfolding create_op_def by (rule keeps_gets keeps_intros | simp)+

lemma keeps_create_bin [keeps_intros]: "keeps (create_bin oc a b)"
  unfolding create_bin_def by (rule keeps_intros)

lemma keeps_create_cmp [keeps_intros]: "keeps (create_cmp oc a b)"
  unfolding create_cmp_def by (rule keeps_intros)

lemma keeps_create_cast [keeps_intros]: "keeps (create_cast oc v t)"
  unfolding create_cast_def by (rule keeps_intros)+

lemma keeps_create_int_cast [keeps_intros]: "keeps (create_int_cast oc v t)"
  unfolding create_int_cast_def by (rule keeps_intros)+

lemma keeps_create_neg [keeps_intros]: "keeps (create_neg v)"
  unfolding create_neg_def by (rule keeps_intros)

lemma keeps_create_not [keeps_intros]: "keeps (create_not v)"
  unfolding create_not_def by (rule keeps_intros)

lemma keeps_create_select [keeps_intros]: "keeps (create_select c a b)"
  unfolding create_select_def by (rule keeps_intros)

lemma keeps_create_struct_gep [keeps_intros]: "keeps (create_struct_gep st p i)"
  unfolding create_struct_gep_def by (rule keeps_intros)

lemma keeps_create_const_gep [keeps_intros]: "keeps (create_const_gep t p i)"
  unfolding create_const_gep_def by (rule keeps_intros)

lemma keeps_create_call_ptr [keeps_intros]: "keeps (create_call_ptr t f vs)"
  unfolding create_call_ptr_def by (rule keeps_gets keeps_intros | simp)+

lemma keeps_create_call [keeps_intros]: "keeps (create_call f vs)"
  unfolding create_call_def by (rule keeps_gets keeps_intros)+

lemma keeps_create_fn [keeps_intros]: "keeps (create_fn name t ps v)"
  unfolding create_fn_def by (rule keeps_gets keeps_intros keeps_modify_plain | simp)+

lemma keeps_new_global [keeps_intros]: "keeps (new_global name t c tls init)"
  unfolding new_global_def by (rule keeps_gets keeps_intros keeps_modify_plain | simp)+

lemma keeps_get_or_declare_rt [keeps_intros]: "keeps (get_or_declare_rt name t ps)"
  unfolding get_or_declare_rt_def by (rule keeps_gets keeps_intros)+

lemma keeps_call_rt [keeps_intros]: "keeps (call_rt name t ps vs)"
  unfolding call_rt_def by (rule keeps_intros)+

lemma keeps_rt_malloc [keeps_intros]: "keeps (rt_malloc n)"
  unfolding rt_malloc_def by (rule keeps_intros)

text \<open>Reporting a diagnostic changes the driver only.\<close>

lemma keeps_on_field:
  assumes "\<And>s d. cg_blocks (put d s) = cg_blocks s" "\<And>s d. cg_insert (put d s) = cg_insert s"
    and "\<And>s d. cg_cleanups (put d s) = cg_cleanups s" "\<And>s d. cg_layouts (put d s) = cg_layouts s"
  shows "keeps (on_field get put m)"
proof (rule keepsI)
  fix N s i open_bbs
  assume at: "at_block N s i open_bbs" and live: "i \<in> open_bbs"
  have "at_block N (put d s) i (insert i (open_bbs - {i}))" for d
    using at live assms by (simp add: at_block_def fit_def opens_def insert_absorb)
  then show "wp (on_field get put m) (\<lambda>a t. \<exists>j. j \<notin> open_bbs - {i} \<and> at_block N t j (insert j (open_bbs - {i}))) s"
    by (auto simp: wp_def on_field_def split: outcome.split)
qed

lemma keeps_cg_err [keeps_intros]: "keeps (cg_err l m)"
  unfolding cg_err_def by (rule keeps_intros keeps_on_field keeps_modify_plain | simp)+

lemma keeps_cg_warn [keeps_intros]: "keeps (cg_warn l m)"
  unfolding cg_warn_def by (rule keeps_on_field) simp_all

lemma keeps_coerce [keeps_intros]: "keeps (coerce v t u)"
  unfolding coerce_def by (rule keeps_gets keeps_intros)+

lemma keeps_to_bool [keeps_intros]: "keeps (to_bool v)"
  unfolding to_bool_def Let_def by (rule keeps_intros)+

lemma keeps_box_to_ptr [keeps_intros]: "keeps (box_to_ptr v)"
  unfolding box_to_ptr_def Let_def by (rule keeps_intros)+

lemma keeps_unbox_from_ptr [keeps_intros]: "keeps (unbox_from_ptr v t)"
  unfolding unbox_from_ptr_def by (rule keeps_intros)+

lemma keeps_coerce_to_llvm_type [keeps_intros]: "keeps (coerce_to_llvm_type v t)"
  unfolding coerce_to_llvm_type_def by (rule keeps_intros)+

text \<open>A call ends at an open block also where it may unwind: the \<open>invoke\<close> closes one, and goes on in a new one.\<close>

lemma keeps_emit_call [keeps_intros]: "keeps (emit_call f vs)"
  unfolding emit_call_def
proof (rule keeps_gets)
  fix s :: cg
  assume "fit s"
  show "keeps (case cg_lps s of [] \<Rightarrow> create_call f vs
     | lp # x \<Rightarrow> bind_s current_parent (\<lambda>p. bind_s (new_block p ''invoke.cont'') (\<lambda>cont.
         bind_s (create_invoke f vs cont lp) (\<lambda>v. then_s (set_insert cont) (ret v)))))"
  proof (rule keeps_case_list [OF keeps_create_call], rule keepsI, unfold wp_bind, rule wp_current_parent, assumption)
    fix lp N :: nat and ys s i open_bbs p
    assume at: "at_block N s i open_bbs" and live: "i \<in> open_bbs"
    show "wp (new_block p ''invoke.cont'') (\<lambda>cont. wp (create_invoke f vs cont lp)
       (\<lambda>a. wp (then_s (set_insert cont) (ret a)) (\<lambda>a t. \<exists>j. j \<notin> open_bbs - {i} \<and> at_block N t j (insert j (open_bbs - {i}))))) s"
    proof (rule wp_new_block [OF at])
      fix b t
      assume at: "at_block N t i (insert b open_bbs)" and b: "b \<notin> open_bbs" "b \<noteq> i"
      have eq: "insert b open_bbs - {i} = insert b (open_bbs - {i})" using b by blast
      show "wp (create_invoke f vs b lp)
         (\<lambda>a. wp (then_s (set_insert b) (ret a)) (\<lambda>a t. \<exists>j. j \<notin> open_bbs - {i} \<and> at_block N t j (insert j (open_bbs - {i})))) t"
        unfolding create_invoke_def wp_bind wp_gets wp_ret wp_then
      proof (rule wp_emit_term [OF at])
        fix n t
        assume at: "at_block N t i (insert b open_bbs - {i})"
        show "wp (set_insert b) (\<lambda>_ t. \<exists>j. j \<notin> open_bbs - {i} \<and> at_block N t j (insert j (open_bbs - {i}))) t"
          by (rule wp_set_insert [OF at]) (use b eq in auto)
      next
        show "i \<in> insert b open_bbs" using live by simp
      next
        show "is_terminator (Invoke (FunVal f) vs b lp)" by simp
      qed
    qed
  qed
qed

text \<open>
  The operations with blocks of their own. \<open>enter_rules\<close> and \<open>open_rules\<close> drive such a program forward, the latter
  from an open block; the conditions left are about blocks that are new, hence distinct.
\<close>

lemma keeps_end:
  "at_block N t j X \<Longrightarrow> j \<in> X \<Longrightarrow> X - {j} = Y \<Longrightarrow> \<exists>j. j \<notin> Y \<and> at_block N t j (insert j Y)"
  by (rule exI [of _ j]) (auto simp: insert_absorb)

lemma stays_end: "at_block N t j X \<Longrightarrow> X - {j} = Y \<Longrightarrow> \<exists>j open_bbs'. open_bbs' - {j} = Y \<and> at_block N t j open_bbs'"
  by blast

lemma wp_unreachable:
  assumes "at_block N s b open_bbs" "b \<in> open_bbs" and "\<And>t. at_block N t b (open_bbs - {b}) \<Longrightarrow> Q () t"
  shows "wp (put_inst Unreachable) Q s"
  by (rule wp_put_term [OF assms(1,2)]) (simp_all add: assms(3))

lemma wp_if: "(b \<Longrightarrow> wp m Q s) \<Longrightarrow> (\<not> b \<Longrightarrow> wp k Q s) \<Longrightarrow> wp (if b then m else k) Q s"
  by simp

lemmas enter_rules = wp_current_parent wp_new_block wp_goto_if_open wp_insert_block
lemmas open_rules = wp_br wp_cond_br wp_set_insert wp_unreachable

lemma keeps_unless_null:
  assumes "\<And>p. keeps (use p)"
  shows "keeps (unless_null a n1 n2 use)"
  unfolding unless_null_def
  by (rule keepsI, unfold wp_bind wp_then)
    (rule enter_rules, assumption
    | rule open_rules, assumption, blast
    | rule wp_keeps, rule keeps_intros assms, assumption, blast
    | rule keeps_end, assumption, blast, blast)+

lemma keeps_release_unless_null [keeps_intros]: "keeps (release_unless_null p rel n1 n2)"
  unfolding release_unless_null_def
  by (rule keepsI, unfold wp_bind wp_then)
    (rule enter_rules, assumption
    | rule open_rules, assumption, blast
    | rule wp_keeps, rule keeps_intros, assumption, blast
    | rule keeps_end, assumption, blast, blast)+

lemma keeps_assert_true [keeps_intros]: "keeps (assert_true c)"
  unfolding assert_true_def
  by (rule keepsI, unfold wp_bind wp_then)
    (rule enter_rules, assumption
    | rule open_rules, assumption, blast
    | rule wp_keeps, rule keeps_intros, assumption, blast
    | rule keeps_end, assumption, blast, blast)+

section \<open>Scopes and cleanups\<close>

text \<open>What stands for the generators of subexpressions and statements, for trees whose deferred blocks fall through.\<close>

definition good_gens :: "gens \<Rightarrow> bool" where
  "good_gens G \<longleftrightarrow> (\<forall>e. defers_ok_expr e \<longrightarrow> keeps (g_expr G e)) \<and>
     (\<forall>st. defers_ok st \<longrightarrow> stays (g_stmt G st)) \<and>
     (\<forall>st. defers_ok st \<longrightarrow> falls st \<longrightarrow> keeps (g_stmt G st))"

lemma good_expr: "good_gens G \<Longrightarrow> defers_ok_expr e \<Longrightarrow> keeps (g_expr G e)"
  by (simp add: good_gens_def)

lemma good_stmt: "good_gens G \<Longrightarrow> defers_ok st \<Longrightarrow> stays (g_stmt G st)"
  by (simp add: good_gens_def)

lemma good_falls: "good_gens G \<Longrightarrow> defers_ok st \<Longrightarrow> falls st \<Longrightarrow> keeps (g_stmt G st)"
  by (simp add: good_gens_def)

lemma gated_gen_stmts:
  assumes "good_gens G" "defers_ok_stmts sts"
  shows "gated (gen_stmts G sts)"
  unfolding gen_stmts_def
  by (rule gated_for_each)
    (use assms in \<open>auto simp: defers_ok_stmts_iff intro: gated_ret gated_unless_closed good_stmt\<close>)

lemma keeps_gen_stmts:
  assumes "good_gens G" "defers_ok_stmts sts" "all_fall sts"
  shows "keeps (gen_stmts G sts)"
  unfolding gen_stmts_def
  by (rule keeps_for_each)
    (use assms in \<open>auto simp: defers_ok_stmts_iff all_fall_iff intro: keeps_ret keeps_unless_closed good_falls\<close>)

lemma keeps_emit_str_retain [keeps_intros]: "keeps (emit_str_retain v)"
  unfolding emit_str_retain_def by (rule keeps_intros)

lemma keeps_emit_str_release [keeps_intros]: "keeps (emit_str_release v)"
  unfolding emit_str_release_def by (rule keeps_intros)+

lemma keeps_release_slot [keeps_intros]: "keeps (release_slot a)"
  unfolding release_slot_def by (rule keeps_intros)+

lemma keeps_maybe_retain [keeps_intros]: "keeps (maybe_retain t v)"
  unfolding maybe_retain_def maybe_retain_str_def maybe_retain_list_def maybe_retain_dict_def
  by (rule keeps_intros)+

lemma keeps_str_literal [keeps_intros]: "keeps (str_literal x)"
  unfolding str_literal_def by (rule keeps_gets keeps_intros keeps_modify_plain | simp)+

text \<open>The programs that do nothing at a closed block.\<close>

lemma wp_when_live:
  assumes "at_block N s i open_bbs" and "i \<in> open_bbs \<Longrightarrow> wp m Q s" and "i \<notin> open_bbs \<Longrightarrow> Q () s"
  shows "wp (when_live m) Q s"
  using assms at_blockD [OF assms(1)] by (auto simp: when_live_def closed_def opens_def guarded_def)

lemma keeps_when_live:
  assumes "keeps m"
  shows "keeps (when_live m)"
proof (rule keepsI)
  fix N s i open_bbs
  assume at: "at_block N s i open_bbs" and live: "i \<in> open_bbs"
  show "wp (when_live m) (\<lambda>a t. \<exists>j. j \<notin> open_bbs - {i} \<and> at_block N t j (insert j (open_bbs - {i}))) s"
    by (rule wp_when_live [OF at]) (use assms at live in \<open>auto simp: keeps_def\<close>)
qed

lemma gated_when_live:
  assumes "stays m"
  shows "gated (when_live m)"
proof (rule gatedI)
  fix N s i open_bbs
  assume at: "at_block N s i open_bbs"
  show "wp (when_live m) (\<lambda>a t. \<exists>j open_bbs'. open_bbs' - {j} = open_bbs - {i} \<and> at_block N t j open_bbs') s"
    by (rule wp_when_live [OF at]) (use assms at in \<open>auto simp: stays_def\<close>)
qed

lemma keeps_emit_dtor: "keeps (emit_dtor a cls)"
  unfolding emit_dtor_def
  by (rule keeps_when_live) (rule keeps_unless_null keeps_gets keeps_intros)+

lemma keeps_emit_rc_release: "keeps (emit_rc_release a rel)"
  unfolding emit_rc_release_def
  by (rule keeps_when_live) (rule keeps_unless_null keeps_intros)+

lemma keeps_emit_scope_cleanup:
  assumes "good_gens G" "calm_cleanup c"
  shows "keeps (emit_scope_cleanup G c)"
  unfolding emit_scope_cleanup_def
  by (rule keeps_when_live)
    (use assms in \<open>auto simp: calm_cleanup_def emit_rc_release_def emit_dtor_def split: cleanup.splits
      intro!: keeps_gen_stmts keeps_intros keeps_emit_dtor keeps_emit_rc_release keeps_when_live keeps_unless_null keeps_gets\<close>)

end
