(* ===== verification/Cg_Blocks_Gen.thy ===== *)
theory Cg_Blocks_Gen
  imports Cg_Blocks_Expr
begin

text \<open>
  The structure of the generated code, continued: the cleanups of whole scopes and every expression, up to
  \<open>keeps_gen_expr\<close>.
\<close>

section \<open>Leaving scopes\<close>

lemma fit_cleanups:
  "fit s \<Longrightarrow> c \<in> set (concat (cg_cleanups s)) \<Longrightarrow> calm_cleanup c"
  unfolding fit_def by blast

lemma fit_drop_cleanups: "fit s \<Longrightarrow> fit (s\<lparr>cg_cleanups := tl (cg_cleanups s)\<rparr>)"
  by (cases "cg_cleanups s") (auto simp: fit_def)

lemma fit_plain:
  assumes "fit s" "cg_blocks t = cg_blocks s" "cg_insert t = cg_insert s"
    and "set (concat (cg_cleanups t)) \<subseteq> set (concat (cg_cleanups s))" "cg_layouts t = cg_layouts s"
  shows "fit t"
  using assms unfolding fit_def by auto

lemma gated_modify:
  assumes "\<And>s. cg_blocks (g s) = cg_blocks s" "\<And>s. cg_insert (g s) = cg_insert s"
    and "\<And>s. fit s \<Longrightarrow> fit (g s)"
  shows "gated (modify g)"
  using assms by (intro gatedI) (auto simp: at_block_def opens_def)

lemma gated_case_list:
  "gated m \<Longrightarrow> (\<And>y ys. gated (f y ys)) \<Longrightarrow> gated (case xs of [] \<Rightarrow> m | y # ys \<Rightarrow> f y ys)"
  by (cases xs) simp_all

lemma keeps_emit_all_scope_cleanups:
  assumes "good_gens G"
  shows "keeps (emit_all_scope_cleanups G)"
  unfolding emit_all_scope_cleanups_def
  by (rule keeps_when_live, rule keeps_gets, rule keeps_for_each)
    (rule keeps_emit_scope_cleanup [OF assms], rule fit_cleanups)

lemma keeps_emit_all_str_releases: "keeps emit_all_str_releases"
  unfolding emit_all_str_releases_def by (rule keeps_when_live) (rule keeps_gets keeps_intros)+

lemma keeps_emit_all_cleanups: "good_gens G \<Longrightarrow> keeps (emit_all_cleanups G)"
  unfolding emit_all_cleanups_def
  by (rule keeps_then [OF keeps_emit_all_scope_cleanups keeps_emit_all_str_releases])

text \<open>The part of \<open>env_pop\<close> after the test for a live block.\<close>

definition pop_rest :: "gens \<Rightarrow> bool \<Rightarrow> unit cgp" where
  "pop_rest G live =
     then_s (bind_s (gets cg_cleanups) (\<lambda>css. case css of
         [] \<Rightarrow> ret ()
       | cs # _ \<Rightarrow> then_s (guarded live (for_each (emit_scope_cleanup G) cs))
           (modify (\<lambda>s. s\<lparr>cg_cleanups := tl (cg_cleanups s)\<rparr>)))) (
     then_s (bind_s (gets cg_strs) (\<lambda>sss. case sss of
         [] \<Rightarrow> ret ()
       | ss # _ \<Rightarrow> then_s (guarded live (for_each release_slot ss))
           (modify (\<lambda>s. s\<lparr>cg_strs := tl (cg_strs s)\<rparr>)))) (
     modify (\<lambda>s. s\<lparr>cg_env := tl (cg_env s)\<rparr>)))"

lemma env_pop_eq:
  "env_pop G = bind_s (gets (\<lambda>s. case cg_insert s of None \<Rightarrow> False | Some b \<Rightarrow> \<not> closed s b)) (pop_rest G)"
  by (simp add: env_pop_def pop_rest_def [abs_def])

lemma keeps_pop_rest:
  assumes "good_gens G"
  shows "keeps (pop_rest G live)"
proof -
  have "keeps (case cg_cleanups s of [] \<Rightarrow> ret ()
      | cs # _ \<Rightarrow> then_s (guarded live (for_each (emit_scope_cleanup G) cs))
          (modify (\<lambda>s. s\<lparr>cg_cleanups := tl (cg_cleanups s)\<rparr>)))" if "fit s" for s
  proof (cases "cg_cleanups s")
    case (Cons cs css)
    have "calm_cleanup c" if "c \<in> set cs" for c
      by (rule fit_cleanups [OF \<open>fit s\<close>]) (use that Cons in simp)
    then show ?thesis unfolding Cons list.case
      by (intro keeps_then keeps_guarded keeps_for_each keeps_emit_scope_cleanup [OF assms] keeps_modify
        fit_drop_cleanups) simp_all
  qed (simp add: keeps_ret)
  moreover have "keeps (bind_s (gets cg_strs) (\<lambda>sss. case sss of [] \<Rightarrow> ret ()
      | ss # _ \<Rightarrow> then_s (guarded live (for_each release_slot ss)) (modify (\<lambda>s. s\<lparr>cg_strs := tl (cg_strs s)\<rparr>))))"
    by (rule keeps_gets keeps_intros keeps_modify_plain | simp)+
  moreover have "keeps (modify (\<lambda>s. s\<lparr>cg_env := tl (cg_env s)\<rparr>))" by (rule keeps_modify_plain) simp_all
  ultimately show ?thesis unfolding pop_rest_def by (intro keeps_then) (auto intro: keeps_gets)
qed

lemma gated_pop_rest_dead: "gated (pop_rest G False)"
  unfolding pop_rest_def guarded_def if_False then_ret
  by (intro gated_then gated_gets gated_case_list gated_ret gated_modify)
    (auto intro: fit_plain fit_drop_cleanups)

lemma keeps_env_pop [keeps_intros]: "good_gens G \<Longrightarrow> keeps (env_pop G)"
  unfolding env_pop_eq by (intro keeps_gets keeps_pop_rest)

lemma gated_env_pop:
  assumes "good_gens G"
  shows "gated (env_pop G)"
proof (rule gatedI)
  fix N s i open_bbs
  assume at: "at_block N s i open_bbs"
  have live: "(case cg_insert s of None \<Rightarrow> False | Some b \<Rightarrow> \<not> closed s b) = (i \<in> open_bbs)"
    using at_blockD [OF at] by (auto simp: closed_def opens_def)
  show "wp (env_pop G) (\<lambda>a t. \<exists>j open_bbs'. open_bbs' - {j} = open_bbs - {i} \<and> at_block N t j open_bbs') s"
    unfolding env_pop_eq wp_bind wp_gets live
  proof (cases "i \<in> open_bbs")
    case True
    show "wp (pop_rest G (i \<in> open_bbs)) (\<lambda>a t. \<exists>j open_bbs'. open_bbs' - {j} = open_bbs - {i} \<and> at_block N t j open_bbs') s"
      by (rule wp_stays [OF keeps_stays [OF keeps_pop_rest [OF assms]] at True]) blast
  next
    case False
    then have "(i \<in> open_bbs) = False" by simp
    then show "wp (pop_rest G (i \<in> open_bbs)) (\<lambda>a t. \<exists>j open_bbs'. open_bbs' - {j} = open_bbs - {i} \<and> at_block N t j open_bbs') s"
      by (simp only:) (rule wp_gated [OF gated_pop_rest_dead at], blast)
  qed
qed

lemma keeps_env_push [keeps_intros]: "keeps env_push"
  unfolding env_push_def by (rule keeps_modify) (auto intro: fit_plain)

lemma gated_env_push: "gated env_push"
  unfolding env_push_def by (rule gated_modify) (auto intro: fit_plain)

lemma keeps_in_scope: "good_gens G \<Longrightarrow> keeps m \<Longrightarrow> keeps (in_scope G m)"
  unfolding in_scope_def by (intro keeps_then keeps_env_push keeps_env_pop)

lemma gated_in_scope: "good_gens G \<Longrightarrow> gated m \<Longrightarrow> gated (in_scope G m)"
  unfolding in_scope_def by (intro gated_then gated_env_push gated_env_pop)

text \<open>A body that may only start at an open block, with a scope around it.\<close>

lemma stays_bind_keeps:
  assumes "keeps m" and "\<And>a. stays (f a)"
  shows "stays (bind_s m f)"
proof (rule staysI)
  fix N s i open_bbs
  assume "at_block N s i open_bbs" "i \<in> open_bbs"
  then show "wp (bind_s m f) (\<lambda>a t. \<exists>j open_bbs'. open_bbs' - {j} = open_bbs - {i} \<and> at_block N t j open_bbs') s"
    unfolding wp_bind
  proof (rule wp_keeps [OF assms(1)])
    fix a t j
    assume "at_block N t j (insert j (open_bbs - {i}))" "j \<notin> open_bbs - {i}"
    then show "wp (f a) (\<lambda>a t. \<exists>j open_bbs'. open_bbs' - {j} = open_bbs - {i} \<and> at_block N t j open_bbs') t"
      by (intro wp_stays [OF assms(2)]) auto
  qed
qed

lemma stays_then_keeps: "keeps m \<Longrightarrow> stays k \<Longrightarrow> stays (then_s m k)"
  by (simp add: then_s_def stays_bind_keeps)

lemma stays_then_gated:
  assumes "stays m" and "gated k"
  shows "stays (then_s m k)"
proof (rule staysI)
  fix N s i open_bbs
  assume "at_block N s i open_bbs" "i \<in> open_bbs"
  then show "wp (then_s m k) (\<lambda>a t. \<exists>j open_bbs'. open_bbs' - {j} = open_bbs - {i} \<and> at_block N t j open_bbs') s"
    unfolding wp_then
  proof (rule wp_stays [OF assms(1)])
    fix a t j X
    assume at: "at_block N t j X" and eq: "X - {j} = open_bbs - {i}"
    show "wp k (\<lambda>a t. \<exists>j open_bbs'. open_bbs' - {j} = open_bbs - {i} \<and> at_block N t j open_bbs') t"
      by (rule wp_gated [OF assms(2) at]) (metis eq)
  qed
qed

lemma stays_in_scope: "good_gens G \<Longrightarrow> stays m \<Longrightarrow> stays (in_scope G m)"
  unfolding in_scope_def by (intro stays_then_keeps [OF keeps_env_push] stays_then_gated gated_env_pop)

section \<open>The environment\<close>

lemma bind_name_keeps_blocks [simp]:
  "cg_blocks (bind_name x a s) = cg_blocks s" "cg_insert (bind_name x a s) = cg_insert s"
  "cg_cleanups (bind_name x a s) = cg_cleanups s" "cg_layouts (bind_name x a s) = cg_layouts s"
  by (simp_all add: bind_name_def split: list.split)

lemma push_str_keeps_blocks [simp]:
  "cg_blocks (push_str a s) = cg_blocks s" "cg_insert (push_str a s) = cg_insert s"
  "cg_cleanups (push_str a s) = cg_cleanups s" "cg_layouts (push_str a s) = cg_layouts s"
  by (simp_all add: push_str_def split: list.split)

lemma push_cleanup_keeps_blocks [simp]:
  "cg_blocks (push_cleanup c s) = cg_blocks s" "cg_insert (push_cleanup c s) = cg_insert s"
  "cg_layouts (push_cleanup c s) = cg_layouts s"
  by (simp_all add: push_cleanup_def split: list.split)

lemma fit_push_cleanup: "calm_cleanup c \<Longrightarrow> fit s \<Longrightarrow> fit (push_cleanup c s)"
  by (cases "cg_cleanups s") (auto simp: fit_def push_cleanup_def)

lemma keeps_bind_name [keeps_intros]: "keeps (modify (bind_name x a))"
  by (rule keeps_modify_plain) simp_all

lemma keeps_push_str [keeps_intros]: "keeps (modify (push_str a))"
  by (rule keeps_modify_plain) simp_all

lemma keeps_push_cleanup: "calm_cleanup c \<Longrightarrow> keeps (modify (push_cleanup c))"
  by (rule keeps_modify) (simp_all add: fit_push_cleanup)

lemma keeps_push_release [keeps_intros]: "keeps (modify (push_cleanup (RunRelease a rel)))"
  by (rule keeps_push_cleanup) (simp add: calm_cleanup_def)

lemma keeps_push_dtor [keeps_intros]: "keeps (modify (push_cleanup (RunDtor a cls)))"
  by (rule keeps_push_cleanup) (simp add: calm_cleanup_def)

lemma keeps_push_fn [keeps_intros]: "keeps (modify (push_cleanup (RunFn f)))"
  by (rule keeps_push_cleanup) (simp add: calm_cleanup_def)

lemma keeps_env_define [keeps_intros]: "keeps (env_define x a tid)"
  unfolding env_define_def by (rule keeps_gets keeps_intros)+

lemma keeps_lookup_name [keeps_intros]: "keeps (lookup_name x)"
  unfolding lookup_name_def by (rule keeps_intros)

lemma keeps_this_field [keeps_intros]: "keeps (this_field x)"
  unfolding this_field_def by (rule keeps_intros)

lemma keeps_resolve_class_name [keeps_intros]: "keeps (resolve_class_name e tid)"
  unfolding resolve_class_name_def by (rule keeps_intros)

lemma keeps_load_this_field [keeps_intros]: "keeps (load_this_field st f this)"
  unfolding load_this_field_def by (rule keeps_intros)+

lemma keeps_load_var [keeps_intros]: "keeps (load_var x l)"
  unfolding load_var_def by (rule keeps_gets keeps_intros)+

lemma keeps_set_alloca_ty [keeps_intros]: "keeps (set_alloca_ty a t)"
  unfolding set_alloca_ty_def by (rule keeps_modify_plain) simp_all

lemma keeps_set_last_kind [keeps_intros]: "keeps (set_last_kind k)"
  unfolding set_last_kind_def by (rule keeps_modify_plain) simp_all

section \<open>Calls and members\<close>

lemma keeps_rt_println [keeps_intros]: "keeps (rt_println v tid)"
  unfolding rt_println_def Let_def by (rule keeps_intros)+

lemma keeps_format_int [keeps_intros]: "keeps (format_int v)"
  unfolding format_int_def by (rule keeps_intros)+

lemma keeps_fstr_to_str [keeps_intros]: "keeps (fstr_to_str v tid)"
  unfolding fstr_to_str_def Let_def by (rule keeps_intros)+

lemma keeps_stdlib_convert [keeps_intros]: "keeps (stdlib_convert v t)"
  unfolding stdlib_convert_def by (rule keeps_intros)+

lemma keeps_gen_args:
  assumes "good_gens G" "defers_ok_exprs as"
  shows "keeps (gen_args G as ps)"
  using assms(2)
proof (induction as arbitrary: ps)
  case (Cons a as)
  then show ?case
    by (auto intro!: keeps_bind keeps_ret keeps_case_list keeps_coerce_to_llvm_type good_expr [OF assms(1)])
qed (simp add: keeps_ret)

lemma defers_ok_exprs_take: "defers_ok_exprs as \<Longrightarrow> defers_ok_exprs (take n as)"
  by (auto simp: defers_ok_exprs_iff dest: in_set_takeD)

lemma keeps_gen_args_upto: "good_gens G \<Longrightarrow> defers_ok_exprs as \<Longrightarrow> keeps (gen_args_upto G as ps)"
  unfolding gen_args_upto_def by (intro keeps_gen_args defers_ok_exprs_take)

lemma keeps_gen_stdlib_args:
  assumes "good_gens G" "defers_ok_exprs as"
  shows "keeps (gen_stdlib_args G as ps)"
  unfolding gen_stdlib_args_def
  using assms(2) by (auto intro!: keeps_map_s keeps_bind keeps_stdlib_convert good_expr [OF assms(1)]
    simp: defers_ok_exprs_iff dest: set_zip_leftD)

lemma keeps_call_with_args: "good_gens G \<Longrightarrow> defers_ok_exprs as \<Longrightarrow> keeps (call_with_args G f as)"
  unfolding call_with_args_def by (rule keeps_gets keeps_gen_args keeps_intros | assumption)+

lemma keeps_try_stdlib_call:
  assumes "good_gens G" "defers_ok_exprs as"
  shows "keeps (try_stdlib_call G callee as)"
  unfolding try_stdlib_call_def
  by (auto split: expr.split intro!: keeps_gets keeps_call_with_args keeps_gen_args_upto keeps_gen_stdlib_args
    keeps_intros assms)

lemma keeps_static_field [keeps_intros]: "keeps (static_field e x)"
  unfolding static_field_def by (rule keeps_intros)

lemma keeps_lvalue_of:
  assumes "good_gens G" "defers_ok_expr e"
  shows "keeps (lvalue_of G e)"
  using assms(2) unfolding lvalue_of_def
  by (auto split: expr.split intro!: keeps_gets keeps_intros good_expr [OF assms(1)])

lemma keeps_enum_mem [keeps_intros]: "keeps (enum_mem ti)"
  unfolding enum_mem_def by (rule keeps_intros)

lemma keeps_enum_value [keeps_intros]: "keeps (enum_value l name ti x)"
  unfolding enum_value_def by (rule keeps_intros)+

lemma keeps_member_of [keeps_intros]: "keeps (member_of lay v x)"
  unfolding member_of_def by (rule keeps_gets keeps_intros)+

lemma keeps_load_static [keeps_intros]: "keeps (load_static g)"
  unfolding load_static_def by (rule keeps_gets keeps_intros)+

lemma keeps_gen_member: "good_gens G \<Longrightarrow> defers_ok_expr e \<Longrightarrow> keeps (gen_member G l e x)"
  unfolding gen_member_def by (rule keeps_gets keeps_intros good_expr | assumption)+

lemma keeps_first_arg:
  assumes "good_gens G" "defers_ok_exprs as"
  shows "keeps (first_arg G as)"
  unfolding first_arg_def using assms(2)
  by (cases as) (auto intro!: keeps_intros good_expr [OF assms(1)])

lemma keeps_gen_println: "good_gens G \<Longrightarrow> defers_ok_exprs as \<Longrightarrow> keeps (gen_println G as)"
  unfolding gen_println_def by (rule keeps_intros keeps_first_arg | assumption)+

lemma keeps_gen_assert_call:
  assumes "good_gens G" "defers_ok_exprs as"
  shows "keeps (gen_assert_call G as)"
  unfolding gen_assert_call_def using assms(2)
  by (cases as) (auto intro!: keeps_intros good_expr [OF assms(1)])

lemma keeps_gen_len:
  assumes "good_gens G" "defers_ok_exprs as"
  shows "keeps (gen_len G as)"
  unfolding gen_len_def using assms(2)
  by (cases as) (auto intro!: keeps_intros good_expr [OF assms(1)])

lemma keeps_call_closure: "good_gens G \<Longrightarrow> defers_ok_exprs as \<Longrightarrow> keeps (call_closure G te a as)"
  unfolding call_closure_def Let_def by (rule keeps_gets keeps_intros keeps_gen_args | assumption)+

lemma keeps_call_named: "good_gens G \<Longrightarrow> defers_ok_exprs as \<Longrightarrow> keeps (call_named G x as)"
  unfolding call_named_def by (rule keeps_gets keeps_intros keeps_gen_args | assumption)+

lemma keeps_gen_ident_call: "good_gens G \<Longrightarrow> defers_ok_exprs as \<Longrightarrow> keeps (gen_ident_call G x as)"
  unfolding gen_ident_call_def
  by (rule keeps_gets keeps_intros keeps_first_arg keeps_gen_println keeps_gen_assert_call keeps_gen_len
    keeps_call_closure keeps_call_named | assumption)+

lemma keeps_gen_method_call:
  assumes "good_gens G" "defers_ok_expr e" "defers_ok_exprs as"
  shows "keeps (gen_method_call G e m as)"
  unfolding gen_method_call_def method_fn_def
  by (rule keeps_gets keeps_intros good_expr keeps_gen_args assms)+

lemma keeps_store_payload:
  "good_gens G \<Longrightarrow> defers_ok_expr e \<Longrightarrow> keeps (store_payload G mem (i, e))"
  unfolding store_payload_def prod.case by (rule keeps_intros good_expr | assumption)+

lemma in_set_enumerateD: "(i, x) \<in> set (List.enumerate n xs) \<Longrightarrow> x \<in> set xs"
  by (auto simp: in_set_enumerate_eq)

lemma keeps_gen_enum_ctor:
  assumes "good_gens G" "defers_ok_exprs as"
  shows "keeps (gen_enum_ctor G ti v as)"
  unfolding gen_enum_ctor_def
  using defers_ok_exprs_take [OF assms(2)]
  by (auto intro!: keeps_intros keeps_store_payload [OF assms(1)] dest!: in_set_enumerateD simp: defers_ok_exprs_iff)

lemma keeps_gen_call:
  assumes "good_gens G" "defers_ok_expr f" "defers_ok_exprs as"
  shows "keeps (gen_call G f as)"
  unfolding gen_call_def using assms(2)
  by (auto split: expr.split qual_call.split intro!: keeps_gets keeps_intros keeps_try_stdlib_call keeps_gen_ident_call
    keeps_call_with_args keeps_gen_enum_ctor keeps_gen_method_call good_expr assms)

section \<open>Expressions\<close>

lemma keeps_find_setter [keeps_intros]: "keeps (find_setter e x)"
  unfolding find_setter_def by (rule keeps_intros)+

lemma keeps_dict_key [keeps_intros]: "keeps (dict_key k v)"
  unfolding dict_key_def by (rule keeps_intros)+

lemma keeps_assign_list_item:
  "good_gens G \<Longrightarrow> defers_ok_expr a \<Longrightarrow> defers_ok_expr i \<Longrightarrow> defers_ok_expr e \<Longrightarrow> keeps (assign_list_item G a i e)"
  unfolding assign_list_item_def by (rule keeps_intros good_expr | assumption)+

lemma keeps_assign_dict_item:
  "good_gens G \<Longrightarrow> defers_ok_expr a \<Longrightarrow> defers_ok_expr i \<Longrightarrow> defers_ok_expr e \<Longrightarrow> keeps (assign_dict_item G a i e)"
  unfolding assign_dict_item_def by (rule keeps_intros good_expr | assumption)+

lemma keeps_release_old [keeps_intros]: "keeps (release_old tid a)"
  unfolding release_old_def by (rule keeps_gets keeps_intros)+

lemma keeps_assign_plain [keeps_intros]: "keeps (assign_plain a v tid)"
  unfolding assign_plain_def by (rule keeps_intros)+

lemma keeps_compound_op [keeps_intros]: "keeps (compound_op op fp a v)"
  unfolding compound_op_def by (rule keeps_intros)+

lemma keeps_assign_compound [keeps_intros]: "keeps (assign_compound op a v tid)"
  unfolding assign_compound_def Let_def by (rule keeps_gets keeps_intros)+

lemma keeps_implicit_slot [keeps_intros]: "keeps (implicit_slot e v)"
  unfolding implicit_slot_def by (auto split: expr.split intro!: keeps_intros)

lemma keeps_assign_slot:
  "good_gens G \<Longrightarrow> defers_ok_expr a \<Longrightarrow> defers_ok_expr e \<Longrightarrow> keeps (assign_slot G op a e)"
  unfolding assign_slot_def by (rule keeps_intros keeps_lvalue_of good_expr | assumption)+

lemma keeps_gen_assign:
  assumes "good_gens G" "defers_ok_expr a" "defers_ok_expr e"
  shows "keeps (gen_assign G op a e)"
  unfolding gen_assign_def using assms(2)
  by (auto split: expr.split intro!: keeps_intros keeps_assign_list_item keeps_assign_dict_item keeps_assign_slot
    good_expr assms(1,3))

lemma keeps_gen_bool: "good_gens G \<Longrightarrow> defers_ok_expr e \<Longrightarrow> keeps (gen_bool G e)"
  unfolding gen_bool_def by (rule keeps_intros good_expr | assumption)+

lemma keeps_gen_logic:
  assumes "good_gens G" "defers_ok_expr a" "defers_ok_expr b"
  shows "keeps (gen_logic G is_and a b)"
  unfolding gen_logic_def
  by (rule keepsI, unfold wp_bind wp_then)
    (rule enter_rules, assumption
    | rule open_rules, assumption, blast
    | rule wp_keeps, rule keeps_gen_bool keeps_emit keeps_ret, (rule assms)+, assumption, blast
    | rule wp_keeps, rule keeps_ret, assumption, blast
    | rule wp_keeps, rule keeps_emit, simp, assumption, blast
    | rule wp_if
    | rule keeps_end, assumption, blast, blast)+

lemma keeps_overload_fn [keeps_intros]: "keeps (overload_fn e m)"
  unfolding overload_fn_def by (rule keeps_intros)+

lemma keeps_op_method [keeps_intros]: "keeps (op_method op e)"
  unfolding op_method_def by (rule keeps_intros)+

lemma keeps_to_double [keeps_intros]: "keeps (to_double v)"
  unfolding to_double_def by (rule keeps_intros)+

lemma keeps_promote_operands [keeps_intros]: "keeps (promote_operands fp a b)"
  unfolding promote_operands_def by (rule keeps_intros)+

lemma keeps_enum_tag [keeps_intros]: "keeps (enum_tag v tid)"
  unfolding enum_tag_def by (rule keeps_gets keeps_intros)+

lemma keeps_to_i32 [keeps_intros]: "keeps (to_i32 v)"
  unfolding to_i32_def by (rule keeps_intros)

lemma keeps_compare_tags [keeps_intros]: "keeps (compare_tags op a b)"
  unfolding compare_tags_def by (rule keeps_intros)

lemma keeps_compare_mixed [keeps_intros]: "keeps (compare_mixed op l r tid a b)"
  unfolding compare_mixed_def by (rule keeps_intros)+

lemma keeps_compare_strings [keeps_intros]: "keeps (compare_strings op a b)"
  unfolding compare_strings_def by (rule keeps_intros)+

lemma keeps_numeric_op [keeps_intros]: "keeps (numeric_op op fp a b)"
  unfolding numeric_op_def by (rule keeps_intros)+

lemma keeps_gen_operands [keeps_intros]: "keeps (gen_operands op lt rt fp a b)"
  unfolding gen_operands_def Let_def by (rule keeps_gets keeps_intros)+

lemma keeps_gen_binary:
  "good_gens G \<Longrightarrow> defers_ok_expr a \<Longrightarrow> defers_ok_expr b \<Longrightarrow> keeps (gen_binary G op a b)"
  unfolding gen_binary_def Let_def by (rule keeps_intros keeps_gen_logic good_expr | assumption)+

lemma keeps_gen_step: "good_gens G \<Longrightarrow> defers_ok_expr e \<Longrightarrow> keeps (gen_step G up e p)"
  unfolding gen_step_def Let_def by (rule keeps_gets keeps_intros keeps_lvalue_of | assumption)+

lemma keeps_gen_unary: "good_gens G \<Longrightarrow> defers_ok_expr e \<Longrightarrow> keeps (gen_unary G op e p)"
  unfolding gen_unary_def by (rule keeps_intros keeps_gen_step good_expr | assumption)+

lemma keeps_gen_index:
  "good_gens G \<Longrightarrow> defers_ok_expr a \<Longrightarrow> defers_ok_expr i \<Longrightarrow> keeps (gen_index G a i)"
  unfolding gen_index_def by (rule keeps_intros good_expr | assumption)+

lemma keeps_init_field_value:
  assumes "good_gens G" "defers_ok_opt (fi_init f)"
  shows "keeps (init_field_value G st raw f)"
  unfolding init_field_value_def using assms(2)
  by (auto split: option.split intro!: keeps_gets keeps_intros good_expr [OF assms(1)])

lemma fit_layout: "fit s \<Longrightarrow> cg_layouts s c = Some l \<Longrightarrow> calm_layout l"
  unfolding fit_def by (blast intro: ranI)

lemma keeps_gen_new:
  assumes "good_gens G" "defers_ok_exprs as"
  shows "keeps (gen_new G c as)"
proof -
  have new: "keeps (bind_s (gets (\<lambda>s. cg_size s (cl_struct lay))) (\<lambda>n.
         bind_s (rt_malloc (const_int 64 n)) (\<lambda>raw.
         then_s (case cl_vtable lay of
             None \<Rightarrow> ret ()
           | Some g \<Rightarrow> bind_s (create_struct_gep (cl_struct lay) raw 0) (create_store g)) (
         then_s (for_each (init_field_value G (cl_struct lay) raw) (cl_fields lay)) (
         bind_s (gets (get_function (mangle c c))) (\<lambda>ctor. case ctor of
             None \<Rightarrow> ret raw
           | Some f \<Rightarrow> bind_s (map_s (g_expr G) as) (\<lambda>vs. then_s (emit_call f (raw # vs)) (ret raw))))))))"
    if "calm_layout lay" for lay
    using that assms(2)
    by (auto simp: calm_layout_def defers_ok_exprs_iff
      intro!: keeps_gets keeps_intros keeps_init_field_value good_expr assms(1))
  then show ?thesis unfolding gen_new_def
    by (intro keeps_gets) (auto split: option.split intro: keeps_ret dest: fit_layout)
qed

lemma keeps_gen_list:
  assumes "good_gens G" "defers_ok_exprs es"
  shows "keeps (gen_list G es)"
  unfolding gen_list_def using assms(2)
  by (auto simp: defers_ok_exprs_iff intro!: keeps_intros good_expr assms(1))

lemma keeps_gen_dict:
  assumes "good_gens G" "defers_ok_pairs ps"
  shows "keeps (gen_dict G ps)"
  unfolding gen_dict_def using assms(2)
  by (auto simp: defers_ok_pairs_iff split: dict_entry.split intro!: keeps_intros good_expr assms(1)) force+

lemma keeps_gen_await: "good_gens G \<Longrightarrow> defers_ok_expr e \<Longrightarrow> keeps (gen_await G t e)"
  unfolding gen_await_def by (rule keeps_intros good_expr | assumption)+

section \<open>Lambdas\<close>

lemma keeps_set_personality [keeps_intros]: "keeps (set_personality f)"
  unfolding set_personality_def by (rule keeps_gets keeps_intros keeps_modify_plain | simp)+

lemma keeps_bind_capture [keeps_intros]: "keeps (bind_capture ct a outer (i, x))"
  unfolding bind_capture_def prod.case by (rule keeps_gets keeps_intros keeps_modify_plain | simp)+

lemma keeps_bind_param [keeps_intros]: "keeps (bind_param f (i, p))"
  unfolding bind_param_def prod.case by (rule keeps_gets keeps_intros)+

lemma keeps_register_fn_params [keeps_intros]: "keeps (register_fn_params ps)"
  unfolding register_fn_params_def by (rule keeps_intros keeps_modify_plain | simp)+

lemma keeps_store_capture [keeps_intros]: "keeps (store_capture ct raw (i, x))"
  unfolding store_capture_def prod.case by (rule keeps_intros)+

text \<open>The end of a body closes the block it is at.\<close>

lemma wp_close:
  assumes at: "at_block N s i open_bbs" and m: "keeps m" and "is_terminator x"
    and Q: "\<And>t j. at_block N t j (open_bbs - {i}) \<Longrightarrow> Q () t"
  shows "wp (unless_closed (then_s m (put_inst x))) Q s"
  unfolding unless_closed_def wp_bind
proof (rule wp_has_terminator [OF at])
  show "wp (if i \<notin> open_bbs then ret () else then_s m (put_inst x)) Q s"
  proof (cases "i \<in> open_bbs")
    case True
    have "wp (then_s m (put_inst x)) Q s" unfolding wp_then
    proof (rule wp_keeps [OF m at True])
      fix a t j
      assume at: "at_block N t j (insert j (open_bbs - {i}))" and j: "j \<notin> open_bbs - {i}"
      from j have eq: "insert j (open_bbs - {i}) - {j} = open_bbs - {i}" by blast
      show "wp (put_inst x) Q t"
        by (rule wp_put_term [OF at _ assms(3)]) (use Q eq in auto)
    qed
    with True show ?thesis by simp
  next
    case False
    then show ?thesis using Q [of s i] at by simp
  qed
qed

lemma wp_finish_body:
  assumes "at_block N s i open_bbs" "good_gens G" and "\<And>t j. at_block N t j (open_bbs - {i}) \<Longrightarrow> Q () t"
  shows "wp (finish_body G ty) Q s"
  unfolding finish_body_def by (rule wp_close [OF assms(1) keeps_emit_all_cleanups [OF assms(2)]]) (use assms(3) in auto)

lemma at_block_enter: "at_block N s i open_bbs \<Longrightarrow> at_block N (enter_function f tid s) i open_bbs"
  by (auto simp: at_block_def fit_def enter_function_def opens_def)

lemma at_block_restore:
  assumes "at_block (max N (Suc i)) t j open_bbs" and "fit s0" and "cg_insert s0 = Some i"
  shows "at_block N (restore_outer s0 (drop_scopes t)) i open_bbs"
  using assms by (auto simp: at_block_def fit_def restore_outer_def drop_scopes_def opens_def)

text \<open>The blocks of a function that is generated on the way do not touch those of the current one.\<close>

lemma wp_start_body:
  assumes at: "at_block N s i open_bbs"
    and Q: "\<And>t b. at_block N t b (insert b open_bbs) \<Longrightarrow> b \<notin> open_bbs \<Longrightarrow> Q () t"
  shows "wp (start_body f) Q s"
  unfolding start_body_def wp_bind wp_then
proof (rule wp_new_block [OF at])
  fix b t
  assume at: "at_block N t i (insert b open_bbs)" and b: "b \<notin> open_bbs"
  show "wp (set_insert b) (\<lambda>_ t. wp env_push Q t) t"
  proof (rule wp_set_insert [OF at])
    fix t
    assume at: "at_block N t b (insert b open_bbs)"
    have "insert b open_bbs - {b} = open_bbs" using b by blast
    then show "wp env_push Q t"
      by (intro wp_keeps [OF keeps_env_push at]) (use Q in auto)
  qed simp
qed

lemma wp_inner_body:
  assumes at: "at_block N s b (insert b open_bbs)" and b: "b \<notin> open_bbs"
    and m: "keeps m" and k: "gated k"
    and Q: "\<And>t j open_bbs'. at_block N t j open_bbs' \<Longrightarrow> open_bbs' - {j} = open_bbs \<Longrightarrow> Q () t"
  shows "wp (then_s m k) Q s"
  unfolding wp_then
proof (rule wp_keeps [OF m at])
  fix a t j
  assume at: "at_block N t j (insert j (insert b open_bbs - {b}))" and j: "j \<notin> insert b open_bbs - {b}"
  show "wp k Q t"
  proof (rule wp_gated [OF k at])
    fix a :: unit and t j' X
    assume at: "at_block N t j' X" and eq: "X - {j'} = insert j (insert b open_bbs - {b}) - {j}"
    have "X - {j'} = open_bbs" using eq j b by blast
    from Q [OF at this] show "Q a t" by simp
  qed
qed simp

lemma defers_ok_block_body: "defers_ok b \<Longrightarrow> defers_ok_stmts (block_body b)"
  by (cases b) (simp_all add: block_body_def)

lemma then_assoc: "then_s (then_s a b) c = then_s a (then_s b c)"
  by (simp add: then_s_def bind_assoc)

lemma keeps_gen_lambda_body:
  assumes G: "good_gens G" and b: "defers_ok b"
  shows "keeps (gen_lambda_body G f ct rt cs ps b)"
proof (rule keepsI)
  fix N s0 i open_bbs
  assume at0: "at_block N s0 i open_bbs" and live: "i \<in> open_bbs"
  note D = at_blockD [OF at0]
  let ?bind = "then_s (for_each (bind_capture ct (Argument f 0 PtrTy) (cg_env s0)) (List.enumerate 0 cs))
      (then_s (for_each (bind_param f) (List.enumerate 1 ps)) (register_fn_params ps))"
  let ?post = "\<lambda>a t. \<exists>j. j \<notin> open_bbs - {i} \<and> at_block N t j (insert j (open_bbs - {i}))"
  have keeps: "keeps ?bind" by (rule keeps_intros)+ (auto intro!: keeps_intros)
  show "wp (gen_lambda_body G f ct rt cs ps b) ?post s0"
    unfolding gen_lambda_body_def wp_bind wp_gets wp_then [of "modify _"] wp_modify
      wp_then [of "start_body f"]
  proof (rule wp_start_body [OF at_block_enter [OF at_block_mark [OF at0]]])
    fix t b'
    assume at: "at_block (max N (Suc i)) t b' (insert b' open_bbs)" and b': "b' \<notin> open_bbs"
    have "wp (then_s ?bind (gen_stmts G (block_body b))) (\<lambda>_ t. wp (then_s (finish_body G (lower_type (cg_types s0) rt))
       (then_s (modify drop_scopes) (modify (restore_outer s0)))) ?post t) t"
    proof (rule wp_inner_body [OF at b' keeps gated_gen_stmts [OF G defers_ok_block_body [OF b]]])
      fix t j X
      assume at: "at_block (max N (Suc i)) t j X" and X: "X - {j} = open_bbs"
      show "wp (then_s (finish_body G (lower_type (cg_types s0) rt))
         (then_s (modify drop_scopes) (modify (restore_outer s0)))) ?post t"
        unfolding wp_then wp_modify
      proof (rule wp_finish_body [OF at G])
        fix t j'
        assume at: "at_block (max N (Suc i)) t j' (X - {j})"
        show "?post () (restore_outer s0 (drop_scopes t))"
          using at_block_restore [OF at [unfolded X] D(1,2)] live by (intro exI [of _ i]) (simp add: insert_absorb)
      qed
    qed
    then show "wp (then_s (for_each (bind_capture ct (Argument f 0 PtrTy) (cg_env s0)) (List.enumerate 0 cs))
        (then_s (for_each (bind_param f) (List.enumerate 1 ps)) (then_s (register_fn_params ps)
        (then_s (gen_stmts G (block_body b)) (then_s (finish_body G (lower_type (cg_types s0) rt))
        (then_s (modify drop_scopes) (modify (restore_outer s0)))))))) ?post t"
      by (simp add: then_assoc)
  qed
qed

lemma keeps_gen_lambda:
  assumes "good_gens G" "defers_ok b"
  shows "keeps (gen_lambda G ps b)"
  unfolding gen_lambda_def Let_def
proof (rule keeps_gets, rule keeps_then)
  show "keeps (modify (\<lambda>s. s\<lparr>cg_lambdas := cg_lambdas s + 1\<rparr>))"
    by (rule keeps_modify_plain) simp_all
qed (auto intro!: keeps_intros keeps_gen_lambda_body assms)

lemma keeps_gen_expr:
  assumes "good_gens G" "defers_ok_expr e"
  shows "keeps (gen_expr G e)"
  using assms(2)
  by (cases e)
    (auto intro!: keeps_intros keeps_gen_binary keeps_gen_unary keeps_gen_assign keeps_gen_call keeps_gen_member
      keeps_gen_index keeps_gen_new keeps_gen_list keeps_gen_dict keeps_gen_lambda keeps_gen_await assms(1))

end
