(* ===== verification/Cg_Blocks_Stmt.thy ===== *)
theory Cg_Blocks_Stmt
  imports Cg_Blocks_Gen
begin

text \<open>
  The structure of the generated code, continued: every statement, and by induction on the depth of the recursion
  the generators themselves (\<open>good_gens_at\<close>).
\<close>

section \<open>Branches and loops\<close>

lemma at_block_plain:
  assumes "at_block N s i open_bbs" "cg_blocks t = cg_blocks s" "cg_insert t = cg_insert s"
    and "cg_cleanups t = cg_cleanups s" "cg_layouts t = cg_layouts s"
  shows "at_block N t i open_bbs"
  using assms by (simp add: at_block_def fit_def opens_def)

lemma stays_guarded: "(b \<Longrightarrow> stays m) \<Longrightarrow> stays (guarded b m)"
  by (simp add: guarded_def keeps_stays keeps_ret)

lemma stays_put_inst: "is_terminator x \<Longrightarrow> stays (put_inst x)"
  by (rule staysI, erule wp_put_term, assumption+) (rule stays_end, assumption, blast)

lemma stays_case_option:
  "(x = None \<Longrightarrow> stays m) \<Longrightarrow> (\<And>a. x = Some a \<Longrightarrow> stays (f a)) \<Longrightarrow>
   stays (case x of None \<Rightarrow> m | Some a \<Rightarrow> f a)"
  by (cases x) simp_all

lemma stays_then_modify:
  assumes "stays m" "\<And>s. cg_blocks (g s) = cg_blocks s" "\<And>s. cg_insert (g s) = cg_insert s"
    and "\<And>s. fit s \<Longrightarrow> fit (g s)"
  shows "stays (then_s m (modify g))"
  by (rule stays_then_gated [OF assms(1) gated_modify [OF assms(2-4)]])

text \<open>A branch that ends with a jump to the block behind it.\<close>

lemma wp_branch:
  assumes m: "stays m" and at: "at_block N s i open_bbs" and live: "i \<in> open_bbs"
    and Q: "\<And>t j. at_block N t j (open_bbs - {i}) \<Longrightarrow> Q () t"
  shows "wp m (\<lambda>_ t. wp (goto_if_open x) Q t) s"
proof (rule wp_stays [OF m at live])
  fix a t j X
  assume at: "at_block N t j X" and eq: "X - {j} = open_bbs - {i}"
  show "wp (goto_if_open x) Q t"
    by (rule wp_goto_if_open [OF at]) (use Q eq in auto)
qed

lemma wp_branch_gated:
  assumes m: "gated m" and at: "at_block N s i open_bbs"
    and Q: "\<And>t j. at_block N t j (open_bbs - {i}) \<Longrightarrow> Q () t"
  shows "wp m (\<lambda>_ t. wp (goto_if_open x) Q t) s"
proof (rule wp_gated [OF m at])
  fix a t j X
  assume at: "at_block N t j X" and eq: "X - {j} = open_bbs - {i}"
  show "wp (goto_if_open x) Q t"
    by (rule wp_goto_if_open [OF at]) (use Q eq in auto)
qed

lemma stays_gen_block: "good_gens G \<Longrightarrow> defers_ok_stmts sts \<Longrightarrow> stays (gen_block G sts)"
  unfolding gen_block_def by (intro stays_in_scope gated_stays gated_gen_stmts)

lemma keeps_gen_block: "good_gens G \<Longrightarrow> defers_ok_stmts sts \<Longrightarrow> all_fall sts \<Longrightarrow> keeps (gen_block G sts)"
  unfolding gen_block_def by (intro keeps_in_scope keeps_gen_stmts)

lemma keeps_gen_if:
  assumes "good_gens G" "defers_ok_expr c" "defers_ok a" "defers_ok b"
  shows "keeps (gen_if G c a b)"
  unfolding gen_if_def
  by (rule keepsI, unfold wp_bind wp_then)
    (rule wp_keeps, rule keeps_gen_bool, (rule assms)+, assumption, blast
    | rule wp_branch, rule good_stmt stays_guarded, (rule assms)+, assumption, blast
    | rule wp_branch, rule stays_guarded, rule good_stmt, (rule assms)+, assumption, blast
    | rule enter_rules, assumption
    | rule open_rules, assumption, blast
    | rule keeps_end, assumption, blast, blast)+

lemma keeps_clear_label: "keeps clear_label"
  unfolding clear_label_def by (rule keeps_modify_plain) simp_all

lemma keeps_push_loop: "keeps (push_loop h x l)"
  unfolding push_loop_def by (rule keeps_modify_plain) simp_all

lemma gated_pop_loop: "gated pop_loop"
  unfolding pop_loop_def by (rule gated_modify) (auto intro: fit_plain)

lemma wp_loop_body:
  assumes G: "good_gens G" and b: "defers_ok b" and at: "at_block N s i open_bbs" and live: "i \<in> open_bbs"
    and Q: "\<And>t j. at_block N t j (open_bbs - {i}) \<Longrightarrow> Q () t"
  shows "wp (loop_body G h x l b) Q s"
proof -
  let ?m = "bind_s (gets cg_label) (\<lambda>pending.
      then_s clear_label (then_s (push_loop (Some h) x (case l of Some l \<Rightarrow> l | None \<Rightarrow> pending)) (then_s (g_stmt G b) pop_loop)))"
  have "stays ?m"
    by (intro stays_bind_keeps keeps_gets_only stays_then_keeps keeps_clear_label keeps_push_loop stays_then_gated
      good_stmt gated_pop_loop G b)
  then have "wp ?m (\<lambda>_ t. wp (goto_if_open h) Q t) s" by (rule wp_branch [OF _ at live]) (rule Q)
  then show ?thesis by (simp add: loop_body_def)
qed

lemma keeps_gen_while:
  assumes "good_gens G" "defers_ok_expr c" "defers_ok b"
  shows "keeps (gen_while G l c b)"
  unfolding gen_while_def
  by (rule keepsI, unfold wp_bind wp_then)
    (rule wp_keeps, rule keeps_gen_bool, (rule assms)+, assumption, blast
    | rule wp_loop_body, (rule assms)+, assumption, blast
    | rule enter_rules, assumption
    | rule open_rules, assumption, blast
    | rule keeps_end, assumption, blast, blast)+

lemma keeps_gen_do_while:
  assumes "good_gens G" "defers_ok b" "defers_ok_expr c"
  shows "keeps (gen_do_while G b c)"
  unfolding gen_do_while_def
  by (rule keepsI, unfold wp_bind wp_then)
    (rule wp_keeps, rule keeps_gen_bool, (rule assms)+, assumption, blast
    | rule wp_loop_body, (rule assms)+, assumption, blast
    | rule enter_rules, assumption
    | rule open_rules, assumption, blast
    | rule keeps_end, assumption, blast, blast)+

lemma keeps_to_var_type [keeps_intros]: "keeps (to_var_type v t)"
  unfolding to_var_type_def by (rule keeps_intros)+

lemma keeps_load_element [keeps_intros]: "keeps (load_element typed l i t)"
  unfolding load_element_def by (rule keeps_intros)+

text \<open>
  For the longer statements: \<open>live_at N s i others\<close> says that the generator is at the open block \<open>i\<close> and \<open>others\<close> are
  the other open ones, \<open>dead_at\<close> that it is at a closed block. \<open>keeps\<close> leaves \<open>others\<close> alone.
\<close>

definition live_at :: "nat \<Rightarrow> cg \<Rightarrow> nat \<Rightarrow> nat set \<Rightarrow> bool" where
  "live_at N s i others \<longleftrightarrow> at_block N s i (insert i others) \<and> i \<notin> others"

definition dead_at :: "nat \<Rightarrow> cg \<Rightarrow> nat set \<Rightarrow> bool" where
  "dead_at N s others \<longleftrightarrow> (\<exists>i. at_block N s i others)"

lemma dead_atI: "at_block N s i others \<Longrightarrow> dead_at N s others"
  by (auto simp: dead_at_def)

lemma live_keeps:
  assumes "keeps m" "live_at N s i others" and "\<And>a t j. live_at N t j others \<Longrightarrow> Q a t"
  shows "wp m Q s"
  by (rule wp_keeps [OF assms(1)]) (use assms(2,3) in \<open>auto simp: live_at_def\<close>)

lemma keeps_live:
  assumes "\<And>N s i others. live_at N s i others \<Longrightarrow> wp m (\<lambda>a t. \<exists>j. live_at N t j others) s"
  shows "keeps m"
proof (rule keepsI)
  fix N s i open_bbs
  assume "at_block N s i open_bbs" "i \<in> open_bbs"
  then have "live_at N s i (open_bbs - {i})" by (simp add: live_at_def insert_absorb)
  from assms [OF this] show "wp m (\<lambda>a t. \<exists>j. j \<notin> open_bbs - {i} \<and> at_block N t j (insert j (open_bbs - {i}))) s"
    by (simp add: live_at_def conj_commute)
qed

lemma live_parent: "live_at N s i others \<Longrightarrow> (\<And>f. Q f s) \<Longrightarrow> wp current_parent Q s"
  unfolding live_at_def by (blast intro: wp_current_parent)

lemma live_new_block:
  assumes "live_at N s i others" and "\<And>b t. live_at N t i (insert b others) \<Longrightarrow> b \<notin> others \<Longrightarrow> Q b t"
  shows "wp (new_block f name) Q s"
  by (rule wp_new_block) (use assms in \<open>auto simp: live_at_def insert_commute\<close>)

lemma live_br: "live_at N s i others \<Longrightarrow> (\<And>t. dead_at N t others \<Longrightarrow> Q () t) \<Longrightarrow> wp (create_br x) Q s"
  by (rule wp_br) (auto simp: live_at_def dest: dead_atI)

lemma live_cond_br: "live_at N s i others \<Longrightarrow> (\<And>t. dead_at N t others \<Longrightarrow> Q () t) \<Longrightarrow> wp (create_cond_br c x y) Q s"
  by (rule wp_cond_br) (auto simp: live_at_def dest: dead_atI)

lemma live_unreachable: "live_at N s i others \<Longrightarrow> (\<And>t. dead_at N t others \<Longrightarrow> Q () t) \<Longrightarrow> wp (put_inst Unreachable) Q s"
  by (rule wp_unreachable) (auto simp: live_at_def dest: dead_atI)

lemma live_loop_body:
  assumes "good_gens G" "defers_ok b" "live_at N s i others" and "\<And>t. dead_at N t others \<Longrightarrow> Q () t"
  shows "wp (loop_body G h x l b) Q s"
  by (rule wp_loop_body [OF assms(1,2)]) (use assms(3,4) in \<open>auto simp: live_at_def dest: dead_atI\<close>)

lemma dead_set_insert:
  assumes "dead_at N s others" "b \<in> others" and "\<And>t. live_at N t b (others - {b}) \<Longrightarrow> Q () t"
  shows "wp (set_insert b) Q s"
proof -
  obtain i where "at_block N s i others" using assms(1) by (auto simp: dead_at_def)
  then show ?thesis by (rule wp_set_insert) (use assms(2,3) in \<open>auto simp: live_at_def insert_absorb\<close>)
qed

lemma live_end: "live_at N t j others \<Longrightarrow> others = X \<Longrightarrow> \<exists>j. live_at N t j X"
  by blast

lemmas live_rules = live_parent live_new_block live_br live_cond_br live_unreachable
lemmas step_rules = keeps_create_store keeps_create_load keeps_create_cmp keeps_create_bin keeps_make_alloca
  keeps_env_define keeps_to_var_type keeps_load_element keeps_call_rt keeps_env_push keeps_ret

text \<open>The loops over ranges and lists, from the block in front of the loop to the one behind it.\<close>

lemma wp_gen_range_head:
  assumes "live_at N s i others" "h \<in> others" and Q: "\<And>t. dead_at N t (others - {h}) \<Longrightarrow> Q () t"
  shows "wp (gen_range_head t a incl lo hi h b x) Q s"
  unfolding gen_range_head_def wp_bind wp_then
  using assms(1,2)
  by - (rule live_keeps, rule step_rules, assumption
    | rule live_rules, assumption
    | rule dead_set_insert, assumption, assumption
    | erule Q)+

lemma wp_gen_for_tail:
  assumes G: "good_gens G" "defers_ok st" and at: "dead_at N s others" and b: "b \<in> others" "incr \<in> others" "x \<in> others"
    and ne: "incr \<noteq> b" "x \<noteq> b" "x \<noteq> incr"
    and Q: "\<And>t. live_at N t x (others - {b} - {incr} - {x}) \<Longrightarrow> Q () t"
  shows "wp (gen_for_tail G r t a st hdr b incr x) Q s"
proof -
  have step: "keeps (guarded r (bind_s (create_load t a) (\<lambda>i. bind_s (create_bin Add i (const_int (int_width t) 1))
      (\<lambda>v. create_store v a))))"
    by (rule keeps_intros)+
  show ?thesis
    unfolding gen_for_tail_def wp_then
    using at
    by - (rule live_loop_body [OF G], assumption
      | rule live_keeps [OF step], assumption
      | rule live_rules, assumption
      | rule dead_set_insert, assumption, use b ne in blast
      | erule Q)+
qed

lemma wp_gen_list_loop:
  assumes G: "good_gens G" "defers_ok_expr e" "defers_ok st" and at: "live_at N s i others"
    and b: "hdr \<in> others" "b \<in> others" "incr \<in> others" "x \<in> others"
    and ne: "b \<noteq> hdr" "incr \<noteq> hdr" "x \<noteq> hdr" "incr \<noteq> b" "x \<noteq> b" "x \<noteq> incr"
    and Q: "\<And>t. live_at N t x (others - {hdr} - {b} - {incr} - {x}) \<Longrightarrow> Q () t"
  shows "wp (gen_list_loop G t a e st hdr b incr x) Q s"
  unfolding gen_list_loop_def wp_bind wp_then wp_gets
  using at
  by - (rule live_keeps, rule good_expr, (rule G)+, assumption
    | rule live_keeps, rule step_rules, assumption
    | rule live_loop_body [OF G(1,3)], assumption
    | rule live_rules, assumption
    | rule dead_set_insert, assumption, use b ne in blast
    | erule Q)+

text \<open>The bounds of a range are parts of the expression.\<close>

lemma range_bounds_ok:
  assumes "iteration_of e = RangeIter incl lo hi" "defers_ok_expr e"
  shows "defers_ok_opt lo" "defers_ok_expr hi"
  using assms by (auto simp: iteration_of_def split: expr.splits list.splits if_splits)

text \<open>The part of a \<open>for\<close> that depends on what it goes over.\<close>

lemma wp_for_in_loop:
  assumes G: "good_gens G" and e: "defers_ok_expr e" and st: "defers_ok st" and at: "live_at N s i others"
    and b: "hdr \<in> others" "b \<in> others" "incr \<in> others" "x \<in> others"
    and ne: "b \<noteq> hdr" "incr \<noteq> hdr" "x \<noteq> hdr" "incr \<noteq> b" "x \<noteq> b" "x \<noteq> incr"
    and Q: "\<And>t. live_at N t x (others - {hdr} - {b} - {incr} - {x}) \<Longrightarrow> Q () t"
  shows "wp (case iteration_of e of
       RangeIter inclusive lo hi \<Rightarrow>
         bind_s (case lo of Some lo \<Rightarrow> g_expr G lo | None \<Rightarrow> ret (ConstInt (int_width t) 0)) (\<lambda>lo.
         bind_s (g_expr G hi) (\<lambda>hi.
         then_s (gen_range_head t a inclusive lo hi hdr b x)
           (gen_for_tail G True t a st hdr b incr x)))
     | ValueIter \<Rightarrow>
         if type_id_of e = TID_LIST \<or> type_id_of e = TID_UNKNOWN
         then gen_list_loop G t a e st hdr b incr x
         else then_s (create_br x) (then_s (set_insert hdr) (then_s (create_br x)
           (gen_for_tail G False t a st hdr b incr x)))) Q s"
proof (cases "iteration_of e")
  case (RangeIter incl lo hi)
  note ok = range_bounds_ok [OF RangeIter e]
  have lower: "keeps (case lo of Some lo \<Rightarrow> g_expr G lo | None \<Rightarrow> ret v)" for v
    using ok(1) by (cases lo) (simp_all add: keeps_ret good_expr [OF G])
  show ?thesis
    unfolding RangeIter iteration.case wp_bind wp_then
    using at
    by - (rule live_keeps [OF lower], assumption
      | rule live_keeps [OF good_expr [OF G ok(2)]], assumption
      | rule wp_gen_range_head, assumption, rule b
      | rule wp_gen_for_tail [OF G st], assumption, (use b ne in blast)+
      | erule Q)+
next
  case ValueIter
  show ?thesis
    unfolding ValueIter iteration.case
  proof (rule wp_if, goal_cases)
    case 1
    show ?case by (rule wp_gen_list_loop [OF G e st at b ne]) (rule Q)
  next
    case 2
    show ?case
      unfolding wp_then
      using at
      by - (rule live_rules, assumption
        | rule dead_set_insert, assumption, rule b
        | rule wp_gen_for_tail [OF G st], assumption, (use b ne in blast)+
        | erule Q)+
  qed
qed

lemma keeps_gen_for_in:
  assumes G: "good_gens G" and e: "defers_ok_expr e" and b: "defers_ok b"
  shows "keeps (gen_for_in G te x e b)"
  unfolding gen_for_in_def in_scope_def Let_def
  by (rule keeps_live, unfold wp_bind wp_then wp_gets)
    (rule live_rules, assumption
    | rule live_keeps, rule step_rules keeps_env_pop [OF G], assumption
    | rule wp_for_in_loop [OF G e b], assumption, (blast; fail)+
    | rule live_end, assumption, blast)+

lemma keeps_gen_for_c:
  assumes G: "good_gens G" and ok: "defers_ok_expr e" "defers_ok_expr c" "defers_ok_expr inc" and b: "defers_ok b"
  shows "keeps (gen_for_c G te x e c inc b)"
  unfolding gen_for_c_def in_scope_def Let_def
  by (rule keeps_live, unfold wp_bind wp_then wp_gets)
    (rule live_rules, assumption
    | rule live_keeps, rule step_rules keeps_env_pop [OF G], assumption
    | rule live_keeps, rule keeps_gen_bool [OF G] good_expr [OF G], rule ok, assumption
    | rule live_loop_body [OF G b], assumption
    | rule dead_set_insert, assumption, blast
    | rule live_end, assumption, blast)+

section \<open>Switch and match\<close>

lemma block_closed_map:
  assumes "\<And>x. is_terminator (g x) = is_terminator x"
  shows "block_closed (b\<lparr>bl_insts := map (\<lambda>(k, x). (k, if k = n then g x else x)) (bl_insts b)\<rparr>) = block_closed b"
proof (cases "bl_insts b" rule: rev_cases)
  case (snoc xs y)
  then show ?thesis by (cases y) (simp add: block_closed_def assms)
qed (simp add: block_closed_def)

lemma tidy_block_map:
  assumes "\<And>x. is_terminator (g x) = is_terminator x" "tidy_block b"
  shows "tidy_block (b\<lparr>bl_insts := map (\<lambda>(k, x). (k, if k = n then g x else x)) (bl_insts b)\<rparr>)"
proof -
  let ?f = "\<lambda>(k, x). (k, if k = n then g x else x)"
  have f: "is_terminator (snd (?f y)) = is_terminator (snd y)" for y
    using assms(1) by (cases y) simp
  have "\<not> is_terminator (snd y)" if "y \<in> set (butlast (map ?f (bl_insts b)))" for y
  proof -
    from that have "y \<in> ?f ` set (butlast (bl_insts b))" by (simp only: map_butlast [symmetric] set_map)
    then obtain z where "y = ?f z" "z \<in> set (butlast (bl_insts b))" by (rule imageE)
    then show ?thesis using assms(2) f by (simp only: tidy_block_def) blast
  qed
  then show ?thesis by (simp add: tidy_block_def)
qed

lemma at_block_update:
  assumes g: "\<And>x. is_terminator (g x) = is_terminator x" and at: "at_block N s i open_bbs"
  shows "wp (update_inst b n g) (\<lambda>_ t. at_block N t i open_bbs) s"
proof (cases "b < length (cg_blocks s)")
  case True
  note D = at_blockD [OF at]
  let ?t = "put_block b ((cg_blocks s ! b)\<lparr>bl_insts := map (\<lambda>(k, x). (k, if k = n then g x else x))
     (bl_insts (cg_blocks s ! b))\<rparr>) s"
  have "fit ?t" by (rule fit_put_block [OF D(1) tidy_block_map [OF g tidy_nth [OF D(1) True]]])
  moreover have "opens ?t = opens s"
    using True by (auto simp: opens_put_block block_closed_map [OF g]) (auto simp: opens_def)
  moreover have "cg_insert ?t = cg_insert s" by (simp add: put_block_def)
  ultimately have "at_block N ?t i open_bbs" using D by (simp add: at_block_def)
  then show ?thesis by (simp add: update_inst_def put_block_def)
next
  case False
  with at show ?thesis by (simp add: update_inst_def not_less list_update_beyond)
qed

lemma add_case_terminator: "is_terminator (add_case_to v b x) = is_terminator x"
  by (cases x) simp_all

lemma set_default_terminator: "is_terminator (set_default_to b x) = is_terminator x"
  by (cases x) simp_all

lemma wp_update_inst:
  assumes "\<And>x. is_terminator (g x) = is_terminator x" "dead_at N s others"
    and "\<And>t. dead_at N t others \<Longrightarrow> Q () t"
  shows "wp (update_inst b n g) Q s"
proof -
  obtain i where "at_block N s i others" using assms(2) by (auto simp: dead_at_def)
  from at_block_update [OF assms(1) this] show ?thesis
    by (rule wp_mono) (auto intro: assms(3) dead_atI)
qed

lemma wp_create_switch:
  assumes "live_at N s i others" and "\<And>sw t. dead_at N t others \<Longrightarrow> Q sw t"
  shows "wp (create_switch v d) Q s"
proof -
  from assms(1) have at: "at_block N s i (insert i others)" and i: "i \<notin> others" by (auto simp: live_at_def)
  have eq: "insert i others - {i} = others" using i by blast
  show ?thesis unfolding create_switch_def wp_bind wp_ret
  proof (rule wp_insert_block [OF at], rule wp_emit_term [OF at])
    fix n t
    assume "at_block N t i (insert i others - {i})"
    then show "Q (i, n) t" unfolding eq by (intro assms(2) dead_atI)
  qed simp_all
qed

lemma dead_new_block:
  assumes "dead_at N s others" and "\<And>b t. dead_at N t (insert b others) \<Longrightarrow> b \<notin> others \<Longrightarrow> Q b t"
  shows "wp (new_block f name) Q s"
proof -
  obtain i where "at_block N s i others" using assms(1) by (auto simp: dead_at_def)
  then show ?thesis by (rule wp_new_block) (use assms(2) in \<open>auto intro: dead_atI\<close>)
qed

text \<open>A branch from an open block to the end of the statement.\<close>

lemma live_branch:
  assumes "stays m" "live_at N s i others" and "\<And>t. dead_at N t others \<Longrightarrow> Q () t"
  shows "wp m (\<lambda>_ t. wp (goto_if_open x) Q t) s"
  by (rule wp_branch [OF assms(1)]) (use assms(2,3) in \<open>auto simp: live_at_def dest: dead_atI\<close>)

lemma keeps_case_value:
  assumes "good_gens G" "case c of SwitchCase v sts \<Rightarrow> defers_ok_opt v \<and> defers_ok_stmts sts"
  shows "keeps (case_value G c)"
  unfolding case_value_def using assms(2)
  by (auto split: switch_case.splits option.splits intro!: keeps_intros good_expr [OF assms(1)])

lemma wp_case_block:
  assumes "dead_at N s others" and "\<And>b t. dead_at N t (insert b others) \<Longrightarrow> b \<notin> others \<Longrightarrow> Q b t"
  shows "wp (case_block f sw p) Q s"
proof -
  obtain v sts c where p: "p = (SwitchCase v sts, c)" by (metis prod.exhaust switch_case.exhaust)
  show ?thesis
  proof (cases v)
    case None
    show ?thesis unfolding p None case_block_def prod.case switch_case.case option.case wp_bind wp_then wp_ret
      by (rule dead_new_block [OF assms(1)], rule wp_update_inst [OF set_default_terminator], assumption,
        rule assms(2))
  next
    case (Some e)
    show ?thesis unfolding p Some case_block_def prod.case switch_case.case option.case wp_bind wp_then wp_ret
    proof (rule dead_new_block [OF assms(1)])
      fix b t
      assume at: "dead_at N t (insert b others)" and b: "b \<notin> others"
      show "wp (case c of None \<Rightarrow> ret () | Some v \<Rightarrow> update_inst (fst sw) (snd sw) (add_case_to v b)) (\<lambda>_. Q b) t"
        using assms(2) [OF _ b] at
        by (cases c) (auto intro!: wp_update_inst [OF add_case_terminator at])
    qed
  qed
qed

lemma wp_case_blocks:
  assumes "dead_at N s others"
    and "\<And>bs t. dead_at N t (set bs \<union> others) \<Longrightarrow> distinct bs \<Longrightarrow> set bs \<inter> others = {} \<Longrightarrow> length bs = length ps \<Longrightarrow> Q bs t"
  shows "wp (map_s (case_block f sw) ps) Q s"
  using assms
proof (induction ps arbitrary: s others Q)
  case (Cons p ps)
  show ?case unfolding map_s.simps wp_bind wp_ret
  proof (rule wp_case_block [OF Cons.prems(1)])
    fix b t
    assume at: "dead_at N t (insert b others)" and b: "b \<notin> others"
    show "wp (map_s (case_block f sw) ps) (\<lambda>bs. Q (b # bs)) t"
      by (rule Cons.IH [OF at], rule Cons.prems(2)) (use b in auto)
  qed
qed simp

lemma wp_gen_cases:
  assumes G: "good_gens G" and ok: "\<forall>c\<in>set cs. defers_ok_stmts (case_body (fst c))"
    and at: "dead_at N s (set (map snd cs) \<union> others)" and d: "distinct (map snd cs)" "set (map snd cs) \<inter> others = {}"
    and Q: "\<And>t. dead_at N t others \<Longrightarrow> Q () t"
  shows "wp (gen_cases G x cs) Q s"
  using ok at d
proof (induction cs arbitrary: s)
  case Nil
  then show ?case using Q by simp
next
  case (Cons c cs)
  obtain sc b where c: "c = (sc, b)" by (cases c)
  have rest: "(set (map snd (c # cs)) \<union> others) - {b} = set (map snd cs) \<union> others"
    using Cons.prems(3,4) by (auto simp: c)
  show ?case unfolding c gen_cases.simps wp_then
  proof (rule dead_set_insert [OF Cons.prems(2)])
    fix t
    assume at: "live_at N t b ((set (map snd (c # cs)) \<union> others) - {b})"
    show "wp (in_scope G (gen_stmts G (case_body sc))) (\<lambda>a. wp (goto_if_open
        (case cs of [] \<Rightarrow> x | (sc', b') # _ \<Rightarrow> b')) (\<lambda>a. wp (gen_cases G x cs) Q)) t"
    proof (rule live_branch [OF _ at [unfolded rest]])
      show "stays (in_scope G (gen_stmts G (case_body sc)))"
        using Cons.prems(1) by (intro stays_in_scope gated_stays gated_gen_stmts G) (simp add: c)
      show "wp (gen_cases G x cs) Q t" if "dead_at N t (set (map snd cs) \<union> others)" for t
        by (rule Cons.IH [OF _ that]) (use Cons.prems in auto)
    qed
  qed (simp add: c)
qed

lemma dead_at_loops: "dead_at N s others \<Longrightarrow> dead_at N (s\<lparr>cg_loops := l\<rparr>) others"
  unfolding dead_at_def by (auto simp: at_block_def fit_def opens_def)

lemma map_snd_zip_le: "length bs \<le> length cs \<Longrightarrow> map snd (zip cs bs) = bs"
  by (simp add: map_snd_zip_take)

lemma keeps_gen_switch:
  assumes G: "good_gens G" and e: "defers_ok_expr e" and cs: "defers_ok_cases cs"
  shows "keeps (gen_switch G e cs)"
proof -
  have known: "keeps (map_s (case_value G) cs)"
    using cs by (intro keeps_map_s keeps_case_value G) (simp add: defers_ok_cases_iff)
  have bodies: "\<forall>c\<in>set (zip cs bs). defers_ok_stmts (case_body (fst c))" for bs :: "nat list"
    using cs by (auto simp: defers_ok_cases_iff case_body_def dest!: set_zip_leftD split: switch_case.splits)
  have cast: "keeps (if is_int_ty (val_ty v) then ret v else create_cast FPToSI v (IntTy 64))" for v
    by (rule keeps_intros)+
  show ?thesis unfolding gen_switch_def
  proof (rule keeps_live, unfold wp_bind wp_then, (rule live_rules, assumption)+, rule live_keeps [OF known],
      assumption, rule live_keeps [OF good_expr [OF G e]], assumption, rule live_keeps [OF cast], assumption,
      rule wp_create_switch, assumption, rule wp_case_blocks, assumption)
    fix N i X x t bs sw and ks :: "val option list"
    assume x: "x \<notin> X" and at: "dead_at N t (set bs \<union> insert x X)" and bs: "distinct bs" "set bs \<inter> insert x X = {}"
      and len: "length bs = length (zip cs ks)"
    have eq: "map snd (zip cs bs) = bs" using len by (intro map_snd_zip_le) simp
    show "wp (push_loop None x []) (\<lambda>a. wp (gen_cases G x (zip cs bs)) (\<lambda>a. wp pop_loop (\<lambda>a. wp (set_insert x)
        (\<lambda>a t. \<exists>j. live_at N t j X)))) t"
      unfolding push_loop_def pop_loop_def wp_modify
    proof (rule wp_gen_cases [OF G bodies])
      show "dead_at N (t\<lparr>cg_loops := \<lparr>lc_header = None, lc_exit = x, lc_label = []\<rparr> # cg_loops t\<rparr>)
          (set (map snd (zip cs bs)) \<union> insert x X)"
        unfolding eq by (rule dead_at_loops [OF at])
      show "distinct (map snd (zip cs bs))" "set (map snd (zip cs bs)) \<inter> insert x X = {}"
        using bs by (simp_all only: eq)
      fix t
      assume "dead_at N t (insert x X)"
      then show "wp (set_insert x) (\<lambda>a t. \<exists>j. live_at N t j X) (t\<lparr>cg_loops := tl (cg_loops t)\<rparr>)"
        by (intro dead_set_insert [OF dead_at_loops]) (use x in auto)
    qed
  qed
qed

text \<open>A \<open>match\<close> on strings is a chain of tests; on anything else it is a \<open>switch\<close>.\<close>

lemma arm_scope_stays:
  assumes "good_gens G" "defers_ok_stmts (arm_body a)" "keeps binds"
  shows "stays (in_scope G (then_s binds (gen_stmts G (arm_body a))))"
  by (intro stays_in_scope stays_then_keeps gated_stays gated_gen_stmts assms)

lemma live_arm:
  assumes "good_gens G" "defers_ok_stmts (arm_body a)" "keeps binds" "live_at N s i others"
    and "\<And>t. dead_at N t others \<Longrightarrow> Q () t"
  shows "wp (gen_arm G x binds a) Q s"
  unfolding gen_arm_def wp_then
  by (rule live_branch [OF arm_scope_stays]) (use assms in auto)

lemma keeps_gen_str_arm:
  assumes G: "good_gens G" and a: "defers_ok_stmts (arm_body a)"
  shows "keeps (gen_str_arm G f x eq v a)"
  unfolding gen_str_arm_def
  by (rule keeps_live, unfold wp_bind wp_then)
    (rule live_rules, assumption
    | rule live_keeps, rule keeps_str_literal keeps_create_call keeps_create_cmp, assumption
    | rule live_arm [OF G a keeps_ret], assumption
    | rule dead_set_insert, assumption, blast
    | rule live_end, assumption, blast)+

lemma wildcard_arm_in: "wildcard_arm arms = Some a \<Longrightarrow> a \<in> set arms"
  unfolding wildcard_arm_def by (metis find_Some_iff nth_mem set_rev)

lemma keeps_gen_match_str:
  assumes G: "good_gens G" and e: "defers_ok_expr e" and arms: "defers_ok_arms arms"
  shows "keeps (gen_match_str G e arms)"
proof -
  have ok: "defers_ok_stmts (arm_body a)" if "a \<in> set arms" for a
    using arms that by (simp add: defers_ok_arms_iff)
  have tests: "keeps (for_each (gen_str_arm G f x eq v) (filter (\<lambda>a. arm_kind a = StrLitPat) arms))" for f x eq v
    by (intro keeps_for_each keeps_gen_str_arm G ok) simp
  have wild: "stays (case wildcard_arm arms of None \<Rightarrow> ret () | Some a \<Rightarrow> in_scope G (gen_stmts G (arm_body a)))"
    by (intro stays_case_option keeps_stays [OF keeps_ret] stays_in_scope gated_stays gated_gen_stmts G ok wildcard_arm_in)
  show ?thesis
    unfolding gen_match_str_def
    by (rule keeps_live, unfold wp_bind wp_then)
      (rule live_branch [OF wild], assumption
      | rule live_rules, assumption
      | rule live_keeps, rule good_expr [OF G e] keeps_get_or_declare_rt tests, assumption
      | rule dead_set_insert, assumption, blast
      | rule live_end, assumption, blast)+
qed

lemma keeps_bind_payloads: "keeps (bind_payloads mem a)"
  unfolding bind_payloads_def
proof (rule keeps_case_option)
  fix m
  have "keeps (bind_payload m vi (i, x))" for vi i x
    unfolding bind_payload_def prod.case by (rule keeps_gets keeps_intros)+
  then show "keeps (bind_s (gets (variant_of a)) (\<lambda>vi. for_each (bind_payload m vi)
      (List.enumerate 0 (pat_bindings (match_arm_pattern a)))))"
    by (auto intro!: keeps_gets keeps_for_each)
qed (rule keeps_ret)

lemma wp_gen_match_arm:
  assumes G: "good_gens G" and a: "defers_ok_stmts (arm_body (snd ta))" and at: "dead_at N s others"
    and Q: "\<And>t. dead_at N t others \<Longrightarrow> Q () t"
  shows "wp (gen_match_arm G f x sw w mem ta) Q s"
proof -
  obtain tag arm where ta: "ta = (tag, arm)" by (cases ta)
  show ?thesis unfolding ta gen_match_arm_def prod.case wp_bind wp_then
  proof (rule dead_new_block [OF at], rule wp_update_inst [OF add_case_terminator], assumption, rule dead_set_insert,
      assumption, blast)
    fix b t
    assume at: "live_at N t b (insert b others - {b})" and b: "b \<notin> others"
    have eq: "insert b others - {b} = others" using b by blast
    show "wp (gen_arm G x (bind_payloads mem arm) arm) Q t"
      by (rule live_arm [OF G _ keeps_bind_payloads at [unfolded eq]]) (use a Q in \<open>auto simp: ta\<close>)
  qed
qed

lemma dead_for_each:
  assumes "dead_at N s others"
    and "\<And>x s Q. x \<in> set xs \<Longrightarrow> dead_at N s others \<Longrightarrow> (\<And>t. dead_at N t others \<Longrightarrow> Q () t) \<Longrightarrow> wp (f x) Q s"
    and "\<And>t. dead_at N t others \<Longrightarrow> Q () t"
  shows "wp (for_each f xs) Q s"
  using assms by (induction xs arbitrary: s) auto

lemma keeps_match_subject: "keeps (match_subject v)"
  unfolding match_subject_def by (rule keeps_intros)+

lemma arm_tag_in: "ta \<in> set (List.map_filter (arm_tag s) arms) \<Longrightarrow> snd ta \<in> set arms"
  by (induction arms) (auto simp: map_filter_simps arm_tag_def split: option.splits pattern_kind.splits)

lemma wp_split: "(\<And>a b. p = (a, b) \<Longrightarrow> wp (f a b) Q s) \<Longrightarrow> wp (case p of (a, b) \<Rightarrow> f a b) Q s"
  by (cases p) simp

text \<open>The block of the wildcard is there if and only if there is a wildcard.\<close>

lemma wp_default_block:
  assumes "live_at N s i others" and "\<And>t. w = None \<Longrightarrow> live_at N t i others \<Longrightarrow> Q trap t"
    and "\<And>a b t. w = Some a \<Longrightarrow> live_at N t i (insert b others) \<Longrightarrow> b \<notin> others \<Longrightarrow> Q b t"
  shows "wp (case w of None \<Rightarrow> ret trap | Some a \<Rightarrow> new_block f name) Q s"
  using assms by (cases w) (auto intro: live_new_block)

lemma keeps_gen_match_int:
  assumes G: "good_gens G" and e: "defers_ok_expr e" and arms: "defers_ok_arms arms"
  shows "keeps (gen_match_int G e arms)"
proof -
  have ok: "defers_ok_stmts (arm_body a)" if "a \<in> set arms" for a
    using arms that by (simp add: defers_ok_arms_iff)
  have trap: "wp (set_insert trap) (\<lambda>_. wp (call_rt ''llvm.trap'' VoidTy [] []) (\<lambda>_. wp (put_inst Unreachable)
      (\<lambda>_. wp (set_insert x) (\<lambda>_ t. \<exists>j. live_at N t j X)))) t"
    if "dead_at N t (insert trap (insert x X))" "x \<notin> X" "trap \<notin> insert x X" for N trap x X t
    using that
    by - (rule dead_set_insert, assumption, blast
      | rule live_keeps, rule keeps_call_rt, assumption
      | rule live_rules, assumption
      | rule live_end, assumption, blast)+
  have bodies: "wp (for_each (gen_match_arm G f x sw w mem) (List.map_filter (arm_tag s) arms)) Q t"
    if "dead_at N t others" "\<And>t. dead_at N t others \<Longrightarrow> Q () t" for N f x sw w mem s Q t others
    by (rule dead_for_each [OF that(1)]) (auto intro!: wp_gen_match_arm [OF G] ok that(2) dest: arm_tag_in)
  show ?thesis
    unfolding gen_match_int_def
  proof (rule keeps_live, unfold wp_bind wp_then wp_gets, rule live_rules, assumption, rule live_keeps [OF good_expr [OF G e]],
      assumption, rule live_keeps [OF keeps_match_subject], assumption, rule wp_split, unfold wp_bind wp_then wp_gets,
      rule live_rules, assumption, rule live_rules, assumption, rule wp_default_block, assumption)
    fix N X x trap t i f v and subj :: val and mem
    assume at: "live_at N t i (insert trap (insert x X))" and x: "x \<notin> X" and tr: "trap \<notin> insert x X"
      and w: "wildcard_arm arms = None"
    show "wp (create_switch subj trap) (\<lambda>sw. wp (for_each (gen_match_arm G f x sw (int_width (val_ty subj)) mem)
        (List.map_filter (arm_tag v) arms)) (\<lambda>_. wp (case wildcard_arm arms of None \<Rightarrow> ret ()
          | Some a \<Rightarrow> then_s (set_insert trap) (gen_arm G x (ret ()) a)) (\<lambda>_. wp (set_insert trap)
          (\<lambda>_. wp (call_rt ''llvm.trap'' VoidTy [] []) (\<lambda>_. wp (put_inst Unreachable) (\<lambda>_. wp (set_insert x)
          (\<lambda>_ t. \<exists>j. live_at N t j X))))))) t"
      unfolding w option.case wp_ret
      by (rule wp_create_switch [OF at], rule bodies, assumption, rule trap [OF _ x tr])
  next
    fix N X x trap t i f v a b and subj :: val and mem
    assume at: "live_at N t i (insert b (insert trap (insert x X)))" and x: "x \<notin> X" and tr: "trap \<notin> insert x X"
      and b: "b \<notin> insert trap (insert x X)" and w: "wildcard_arm arms = Some a"
    have eq: "insert b (insert trap (insert x X)) - {b} = insert trap (insert x X)" using b by blast
    show "wp (create_switch subj b) (\<lambda>sw. wp (for_each (gen_match_arm G f x sw (int_width (val_ty subj)) mem)
        (List.map_filter (arm_tag v) arms)) (\<lambda>_. wp (case wildcard_arm arms of None \<Rightarrow> ret ()
          | Some a \<Rightarrow> then_s (set_insert b) (gen_arm G x (ret ()) a)) (\<lambda>_. wp (set_insert trap)
          (\<lambda>_. wp (call_rt ''llvm.trap'' VoidTy [] []) (\<lambda>_. wp (put_inst Unreachable) (\<lambda>_. wp (set_insert x)
          (\<lambda>_ t. \<exists>j. live_at N t j X))))))) t"
      unfolding w option.case wp_then
      by (rule wp_create_switch [OF at], rule bodies, assumption, rule dead_set_insert, assumption, blast, unfold eq,
        rule live_arm [OF G ok [OF wildcard_arm_in [OF w]] keeps_ret], assumption, rule trap [OF _ x tr])
  qed
qed

lemma keeps_gen_match:
  "good_gens G \<Longrightarrow> defers_ok_expr e \<Longrightarrow> defers_ok_arms arms \<Longrightarrow> keeps (gen_match G e arms)"
  unfolding gen_match_def by (simp add: keeps_gen_match_str keeps_gen_match_int)

section \<open>Exceptions\<close>

lemma wp_landing_pad:
  assumes G: "good_gens G" and at: "live_at N s i others" and Q: "\<And>p t. dead_at N t others \<Longrightarrow> Q p t"
  shows "wp (gen_landing_pad G c) Q s"
proof -
  have lps: "keeps (modify (\<lambda>s. s\<lparr>cg_lps := tl (cg_lps s)\<rparr>))"
    by (rule keeps_modify_plain) simp_all
  show ?thesis unfolding gen_landing_pad_def wp_bind wp_then wp_ret
    using at
    by - (rule live_keeps [OF keeps_emit], simp, assumption
      | rule live_keeps, rule keeps_emit_all_scope_cleanups [OF G] keeps_emit_all_str_releases lps step_rules, assumption
      | rule live_rules, assumption
      | erule Q)+
qed

lemma keeps_check_catch_type: "keeps (check_catch_type f a name)"
  unfolding check_catch_type_def
  by (rule keeps_live, unfold wp_bind wp_then)
    (rule live_rules, assumption
    | rule live_keeps, rule step_rules keeps_new_global, assumption
    | rule dead_set_insert, assumption, blast
    | rule live_end, assumption, blast)+

lemma stays_gen_catch:
  assumes "good_gens G" "defers_ok b"
  shows "stays (gen_catch G f a ct v b)"
  unfolding gen_catch_def
  by (intro stays_in_scope stays_then_keeps stays_bind_keeps keeps_case_option keeps_bind keeps_then keeps_ret
    keeps_check_catch_type step_rules keeps_get_or_declare_rt keeps_push_fn good_stmt assms)

text \<open>Back at the end of the body, which is left for the block behind the statement unless it is closed.\<close>

lemma wp_leave_try:
  assumes G: "good_gens G" and at: "at_block N s i open_bbs" and e: "e < N"
    and Q: "\<And>t. dead_at N t (open_bbs - {e}) \<Longrightarrow> Q () t"
  shows "wp (set_insert e) (\<lambda>_. wp (env_pop G) (\<lambda>_. wp (goto_if_open x) Q)) s"
proof (rule wp_set_insert_marked [OF at e], rule wp_branch_gated [OF gated_env_pop [OF G]], assumption)
  show "Q () t" if "at_block N t j (open_bbs - {e})" for t j
    by (rule Q) (rule dead_atI [OF that])
qed

text \<open>The body up to the landing pad, from the block of the body to the one of the handler.\<close>

lemma dead_at_unmark: "dead_at (max N k) s others \<Longrightarrow> dead_at N s others"
  unfolding dead_at_def using at_block_unmark by blast

lemma wp_try_body:
  assumes G: "good_gens G" and b: "defers_ok_stmts sts" and at: "live_at N s i others" and lp: "lp \<in> others"
    and Q: "\<And>a t. dead_at N t (others - {lp}) \<Longrightarrow> Q a t"
  shows "wp (gen_stmts G sts) (\<lambda>_. wp insert_block (\<lambda>e. wp (set_insert lp) (\<lambda>_. wp (gen_landing_pad G c)
     (\<lambda>a. wp (set_insert e) (\<lambda>_. wp (env_pop G) (\<lambda>_. wp (goto_if_open x) (\<lambda>_. Q a))))))) s"
proof -
  from at have at: "at_block N s i (insert i others)" and i: "i \<notin> others" by (auto simp: live_at_def)
  show ?thesis
  proof (rule wp_gated [OF gated_gen_stmts [OF G b] at], rule wp_insert_block, assumption)
    fix a :: unit and t e X
    assume at: "at_block N t e X" and "X - {e} = insert i others - {i}"
    with i have X: "X - {e} = others" by blast
    let ?N = "max N (Suc e)"
    show "wp (set_insert lp) (\<lambda>_. wp (gen_landing_pad G c)
       (\<lambda>a. wp (set_insert e) (\<lambda>_. wp (env_pop G) (\<lambda>_. wp (goto_if_open x) (\<lambda>_. Q a))))) t"
    proof (rule dead_set_insert [OF dead_atI [OF at_block_mark [OF at]]], use X lp in blast, rule wp_landing_pad [OF G],
        assumption)
      fix a t
      assume "dead_at ?N t (X - {lp})"
      then obtain j where at: "at_block ?N t j (X - {lp})" by (auto simp: dead_at_def)
      have eq: "X - {lp} - {e} = others - {lp}" using X by blast
      show "wp (set_insert e) (\<lambda>_. wp (env_pop G) (\<lambda>_. wp (goto_if_open x) (\<lambda>_. Q a))) t"
        by (rule wp_leave_try [OF G at], simp, unfold eq, rule Q, rule dead_at_unmark)
    qed
  qed
qed

lemma keeps_gen_try_catch:
  assumes G: "good_gens G" and a: "defers_ok a" and b: "defers_ok b"
  shows "keeps (gen_try_catch G a ct v b)"
proof (cases "\<exists>l sts. a = BlockStmt l sts")
  case True
  then obtain l sts where block: "a = BlockStmt l sts" by blast
  have lps: "keeps (modify (\<lambda>s. s\<lparr>cg_lps := lp # cg_lps s\<rparr>))" for lp
    by (rule keeps_modify_plain) simp_all
  show ?thesis
    unfolding gen_try_catch_def block stmt.case
    by (rule keeps_live, unfold wp_bind wp_then)
      (rule live_rules, assumption
      | rule live_keeps, rule lps keeps_env_push, assumption
      | rule wp_try_body [OF G], use a block in simp, assumption, blast
      | rule live_branch [OF stays_gen_catch [OF G b]], assumption
      | rule dead_set_insert, assumption, blast
      | rule live_end, assumption, blast)+
next
  case False
  then have "(case a of BlockStmt l sts \<Rightarrow> gen_stmts G sts | _ \<Rightarrow> null_deref) = null_deref"
    by (cases a) auto
  then show ?thesis
    unfolding gen_try_catch_def
    by (simp only:) (rule keepsI, simp add: wp_def bind_s_def then_s_def null_deref_def split: outcome.split)
qed

lemma stays_gen_throw:
  assumes "good_gens G" "defers_ok_expr e"
  shows "stays (gen_throw G e)"
proof -
  have raise: "keeps (bind_s current_parent (\<lambda>f. bind_s (new_block f ''throw.cont'') (\<lambda>b.
      then_s (create_invoke g vs b lp) (set_insert b))))" for g vs lp
  proof (rule keepsI, unfold wp_bind wp_then, rule wp_current_parent, assumption, rule wp_new_block, assumption)
    fix N s i open_bbs b t
    assume at: "at_block N t i (insert b open_bbs)" and i: "i \<in> open_bbs" and b: "b \<notin> open_bbs" "b \<noteq> i"
    show "wp (create_invoke g vs b lp) (\<lambda>_. wp (set_insert b)
        (\<lambda>a t. \<exists>j. j \<notin> open_bbs - {i} \<and> at_block N t j (insert j (open_bbs - {i})))) t"
      unfolding create_invoke_def wp_bind wp_gets wp_ret
      by (rule wp_emit_term [OF at], use i in simp, simp, rule wp_set_insert, assumption, use b in simp,
        rule keeps_end, assumption, use b in auto)
  qed
  show ?thesis unfolding gen_throw_def get_or_insert_global_def
    by (intro stays_bind_keeps stays_then_keeps stays_put_inst good_expr assms keeps_call_rt keeps_create_store
      keeps_gets_only keeps_case_option keeps_ret keeps_new_global keeps_get_or_declare_rt keeps_bind keeps_case_list
      keeps_then keeps_create_call raise) simp_all
qed

section \<open>Return, variables and the rest\<close>

lemma keeps_return_operand:
  assumes "good_gens G" "defers_ok_opt e"
  shows "keeps (return_operand G e)"
  unfolding return_operand_def using assms(2)
  by (cases e) (auto intro!: keeps_gets keeps_intros good_expr [OF assms(1)])

lemma keeps_box_result: "keeps (box_result v)"
  unfolding box_result_def by (rule keeps_intros)+

lemma stays_gen_return:
  assumes "good_gens G" "defers_ok_opt e"
  shows "stays (gen_return G e)"
  unfolding gen_return_def
  by (intro stays_bind_keeps stays_then_keeps stays_case_option stays_put_inst keeps_gets_only
    keeps_return_operand keeps_box_result keeps_call_rt keeps_emit_all_cleanups assms) (auto split: option.split)

lemma keeps_gen_tls_var: "keeps (gen_tls_var c tid x e)"
  unfolding gen_tls_var_def Let_def by (rule keeps_gets keeps_intros)+

lemma keeps_gen_guarded_init:
  assumes "good_gens G" "defers_ok_expr e"
  shows "keeps (gen_guarded_init G g guard tid x e)"
  unfolding gen_guarded_init_def
  by (rule keeps_live, unfold wp_bind wp_then)
    (rule live_rules, assumption
    | rule live_keeps, rule step_rules good_expr [OF assms] keeps_coerce, assumption
    | rule dead_set_insert, assumption, blast
    | rule live_end, assumption, blast)+

lemma keeps_gen_static_var:
  "good_gens G \<Longrightarrow> defers_ok_expr e \<Longrightarrow> keeps (gen_static_var G c tid x e)"
  unfolding gen_static_var_def Let_def by (rule keeps_gets keeps_gen_guarded_init keeps_intros | assumption)+

lemma keeps_note_closure: "keeps (note_closure x a e)"
proof (cases "\<exists>l t ps b cs r i. e = LambdaExpr l t ps b cs r i")
  case True
  have "fit (push_cleanup (RunDtor a cls) (s\<lparr>cg_fn_vars := m\<rparr>))" if "fit s" for cls s m
    by (rule fit_push_cleanup) (use that in \<open>simp_all add: calm_cleanup_def fit_def\<close>)
  with True show ?thesis by (auto simp: note_closure_def intro!: keeps_modify)
next
  case False
  then have "note_closure x a e = ret ()" by (cases e) (auto simp: note_closure_def)
  then show ?thesis by (simp add: keeps_ret)
qed

lemma keeps_local_init:
  "good_gens G \<Longrightarrow> defers_ok_expr e \<Longrightarrow> keeps (local_init G tid e)"
  unfolding local_init_def Let_def by (rule keeps_intros good_expr | assumption)+

lemma keeps_note_list: "keeps (modify (note_list x e))"
  by (rule keeps_modify_plain) (simp_all add: note_list_def Let_def)

lemma keeps_note_class: "keeps (modify (note_class x te))"
  by (rule keeps_modify_plain) (simp_all add: note_class_def)

lemma keeps_gen_local_var:
  "good_gens G \<Longrightarrow> defers_ok_expr e \<Longrightarrow> keeps (gen_local_var G te tid x e)"
  unfolding gen_local_var_def Let_def
  by (rule keeps_gets keeps_local_init keeps_note_closure keeps_note_list keeps_note_class keeps_intros | assumption)+

lemma keeps_gen_var_decl:
  assumes "good_gens G" "defers_ok_inits ds"
  shows "keeps (gen_var_decl G te c st tls ds)"
  unfolding gen_var_decl_def gen_var_init_def using assms(2)
  by (auto simp: defers_ok_inits_iff split: var_init.splits
    intro!: keeps_for_each keeps_gets keeps_gen_tls_var keeps_gen_static_var keeps_gen_local_var assms(1))

lemma keeps_gen_assert: "good_gens G \<Longrightarrow> defers_ok_expr e \<Longrightarrow> keeps (gen_assert G e)"
  unfolding gen_assert_def by (rule keeps_intros keeps_gen_bool | assumption)+

lemma keeps_delete_slot: "keeps (delete_slot e a)"
  unfolding delete_slot_def by (rule keeps_unless_null) (rule keeps_gets keeps_intros)+

lemma keeps_delete_with:
  assumes "good_gens G" "defers_ok_expr e" "\<And>a. keeps (f a)"
  shows "keeps (delete_with G e f rel)"
  unfolding delete_with_def by (rule keeps_lvalue_of keeps_intros good_expr assms)+

lemma keeps_gen_delete: "good_gens G \<Longrightarrow> defers_ok_expr e \<Longrightarrow> keeps (gen_delete G e)"
  unfolding gen_delete_def Let_def
  by (rule keeps_if keeps_delete_with keeps_delete_slot keeps_emit_rc_release keeps_then keeps_release_slot
    keeps_create_store | assumption)+

lemma keeps_gen_defer: "all_fall sts \<Longrightarrow> defers_ok_stmts sts \<Longrightarrow> keeps (gen_defer sts)"
  unfolding gen_defer_def by (rule keeps_push_cleanup) (simp add: calm_cleanup_def)

section \<open>Jumps and the dispatch\<close>

lemma stays_jump_to: "good_gens G \<Longrightarrow> stays (jump_to G b)"
  unfolding jump_to_def create_br_def
  by (intro stays_then_keeps keeps_emit_all_cleanups stays_case_option stays_put_inst keeps_stays [OF keeps_null_deref])
    simp_all

lemma stays_gen_jump: "good_gens G \<Longrightarrow> stays (gen_jump G f what l lbl)"
  unfolding gen_jump_def
  by (intro stays_bind_keeps keeps_gets_only)
    (auto split: list.split option.split intro!: stays_jump_to keeps_stays [OF keeps_ret] keeps_stays [OF keeps_cg_err])

lemma stays_labeled:
  assumes "stays m"
  shows "stays (then_s (modify (\<lambda>s. s\<lparr>cg_label := l\<rparr>)) (then_s m clear_label))"
  unfolding clear_label_def
  by (intro stays_then_keeps stays_then_gated assms keeps_modify_plain gated_modify) (auto intro: fit_plain)

lemma keeps_labeled:
  assumes "keeps m"
  shows "keeps (then_s (modify (\<lambda>s. s\<lparr>cg_label := l\<rparr>)) (then_s m clear_label))"
  unfolding clear_label_def by (intro keeps_then assms keeps_modify_plain) simp_all

lemmas statement_rules = keeps_gen_if keeps_gen_while keeps_gen_do_while keeps_gen_for_in keeps_gen_for_c
  keeps_gen_switch keeps_gen_match keeps_gen_try_catch keeps_gen_var_decl keeps_gen_assert keeps_gen_delete
  keeps_gen_defer keeps_null_deref

lemma keeps_gen_stmt:
  assumes "good_gens G" "defers_ok st" "falls st"
  shows "keeps (gen_stmt G st)"
  using assms(2,3)
  by (cases st) (auto intro!: statement_rules keeps_gen_block keeps_gen_stmts keeps_labeled keeps_then keeps_ret
    good_expr good_falls assms(1))

lemma stays_gen_stmt:
  assumes "good_gens G" "defers_ok st"
  shows "stays (gen_stmt G st)"
proof (cases "falls st")
  case True
  then show ?thesis by (intro keeps_stays keeps_gen_stmt assms)
next
  case False
  with assms(2) show ?thesis
    by (cases st) (auto intro!: stays_gen_block gated_stays [OF gated_gen_stmts] stays_labeled stays_gen_return stays_gen_throw
      stays_gen_jump good_stmt assms(1))
qed

text \<open>The generators of every depth are good.\<close>

lemma good_gens_at: "good_gens (gens_at n)"
proof (induction n)
  case 0
  then show ?case by (simp add: good_gens_def keeps_def stays_def wp_def)
next
  case (Suc n)
  show ?case unfolding good_gens_def gens_at.simps gens.simps
    by (intro conjI allI impI keeps_gen_expr keeps_gen_stmt stays_gen_stmt Suc)
qed

end
