(* ===== verification/Cg_Module.thy ===== *)
theory Cg_Module
  imports Cg_Blocks_Stmt
begin

text \<open>
  From statements to the module: between two functions the generator is \<open>settled\<close>, which means that no block is open.
  That this is kept by every pass is a frame of the prelude (the locale \<open>frame_pair\<close>), interpreted here for the
  state of the generator; the bodies of functions are the bridge to the calculus for open blocks.
\<close>

section \<open>Programs whose deferred blocks fall through\<close>

definition defers_ok_func :: "function_decl \<Rightarrow> bool" where
  "defers_ok_func f \<longleftrightarrow> (case f_body f of None \<Rightarrow> True | Some (l, sts) \<Rightarrow> defers_ok_stmts sts) \<and>
     (\<forall>ie\<in>set (f_init_list f). defers_ok_exprs (init_args ie))"

definition defers_ok_class :: "class_decl \<Rightarrow> bool" where
  "defers_ok_class c \<longleftrightarrow> (\<forall>m\<in>set (c_members c). case cm_decl m of
       Some (FunctionDecl f) \<Rightarrow> defers_ok_func f
     | Some (FieldDecl fd) \<Rightarrow> defers_ok_opt (fd_init fd)
     | _ \<Rightarrow> True)"

fun defers_ok_decls :: "decl list \<Rightarrow> bool" where
  "defers_ok_decls [] = True"
| "defers_ok_decls (FunctionDecl f # ds) = (defers_ok_func f \<and> defers_ok_decls ds)"
| "defers_ok_decls (ClassDecl c # ds) = (defers_ok_class c \<and> defers_ok_decls ds)"
| "defers_ok_decls (NamespaceDecl (MkNamespace l n nds sts p) # ds) = (defers_ok_decls nds \<and> defers_ok_decls ds)"
| "defers_ok_decls (FieldDecl f # ds) = defers_ok_decls ds"
| "defers_ok_decls (InterfaceDecl i # ds) = defers_ok_decls ds"
| "defers_ok_decls (ImportDecl i # ds) = defers_ok_decls ds"
| "defers_ok_decls (ExternDecl e # ds) = defers_ok_decls ds"
| "defers_ok_decls (EnumDecl e # ds) = defers_ok_decls ds"

section \<open>Between functions\<close>

definition settled :: "nat \<Rightarrow> cg \<Rightarrow> bool" where
  "settled N s \<longleftrightarrow> fit s \<and> opens s = {} \<and> N \<le> length (cg_blocks s)"

definition keeps_settled :: "cg \<Rightarrow> cg \<Rightarrow> bool" where
  "keeps_settled s t \<longleftrightarrow> (\<forall>N. settled N s \<longrightarrow> settled N t)"

interpretation module: frame_pair keeps_settled "\<lambda>_ _. True"
  by unfold_locales (auto simp: keeps_settled_def)

abbreviation settles :: "'a cgp \<Rightarrow> bool" where
  "settles m \<equiv> frame keeps_settled (\<lambda>_ _. True) m"

lemma settlesI:
  assumes "\<And>N s. settled N s \<Longrightarrow> wp m (\<lambda>_ t. settled N t) s"
  shows "settles m"
  using assms by (fastforce simp: frame_def keeps_settled_def wp_def split: outcome.splits)

lemma settlesD: "settles m \<Longrightarrow> settled N s \<Longrightarrow> wp m (\<lambda>_ t. settled N t) s"
  by (auto simp: frame_def keeps_settled_def wp_def split: outcome.split dest: spec [of _ s])

text \<open>A step of a settled generator, and one that starts from a value read from it.\<close>

lemma wp_settles: "settles m \<Longrightarrow> settled N s \<Longrightarrow> (\<And>a t. settled N t \<Longrightarrow> Q a t) \<Longrightarrow> wp m Q s"
  by (rule wp_mono [OF settlesD])

lemma settles_gets: "(\<And>s. fit s \<Longrightarrow> settles (f (g s))) \<Longrightarrow> settles (bind_s (gets g) f)"
proof (rule settlesI)
  fix N s
  assume f: "\<And>s. fit s \<Longrightarrow> settles (f (g s))" and s: "settled N s"
  then have "settles (f (g s))" by (simp add: settled_def)
  from settlesD [OF this s] show "wp (bind_s (gets g) f) (\<lambda>_ t. settled N t) s" by simp
qed

lemma settles_modify:
  assumes "\<And>s. cg_blocks (g s) = cg_blocks s" "\<And>s. cg_insert (g s) = cg_insert s" "\<And>s. fit s \<Longrightarrow> fit (g s)"
  shows "settles (modify g)"
  using assms by (intro settlesI) (simp add: settled_def opens_def)

lemma settles_modify_plain:
  assumes "\<And>s. cg_blocks (g s) = cg_blocks s" "\<And>s. cg_insert (g s) = cg_insert s"
    and "\<And>s. cg_cleanups (g s) = cg_cleanups s" "\<And>s. cg_layouts (g s) = cg_layouts s"
  shows "settles (modify g)"
  using assms by (intro settles_modify) (simp_all add: fit_def)

lemma settles_create_fn: "settles (create_fn name t ps v)"
  unfolding create_fn_def by (rule frame_intros settles_modify_plain | simp)+

lemma settles_new_global: "settles (new_global name t c tls i)"
  unfolding new_global_def by (rule frame_intros settles_modify_plain | simp)+

lemma settles_get_or_declare_rt: "settles (get_or_declare_rt name t ps)"
  unfolding get_or_declare_rt_def by (rule frame_intros settles_create_fn)+

lemma settles_set_personality: "settles (set_personality f)"
  unfolding set_personality_def by (rule frame_intros settles_create_fn settles_modify_plain | simp)+

lemma settles_set_alloca_ty: "settles (set_alloca_ty a t)"
  unfolding set_alloca_ty_def by (rule settles_modify_plain) simp_all

lemma settles_env_push: "settles env_push"
  unfolding env_push_def by (rule settles_modify) (auto intro: fit_plain)

lemma settles_env_define: "settles (env_define x a tid)"
proof -
  have "settles (modify (bind_name x a))" "settles (modify (push_str a))"
    by (rule settles_modify_plain; simp)+
  moreover have "settles (modify (push_cleanup c))" if "calm_cleanup c" for c
    by (rule settles_modify) (simp_all add: fit_push_cleanup that)
  ultimately show ?thesis unfolding env_define_def
    by (intro frame_intros) (simp_all add: calm_cleanup_def)
qed

lemmas settle_rules = settles_create_fn settles_new_global settles_get_or_declare_rt settles_set_personality
  settles_set_alloca_ty settles_env_push settles_env_define settles_modify_plain

text \<open>Statements outside of functions are skipped, because the block they would go to is closed.\<close>

lemma settled_closed: "settled N s \<Longrightarrow> cg_insert s = Some b \<Longrightarrow> closed s b"
  by (auto simp: settled_def fit_def opens_def closed_def)

lemma settled_skips:
  assumes "settled N s"
  shows "wp (unless_closed m) (\<lambda>_ t. t = s) s"
proof (cases "cg_insert s")
  case None
  then show ?thesis by (simp add: unless_closed_def has_terminator_def insert_block_def)
next
  case (Some b)
  with settled_closed [OF assms Some] show ?thesis
    by (simp add: unless_closed_def has_terminator_def insert_block_def)
qed

lemma settled_gen_stmts: "settled N s \<Longrightarrow> wp (gen_stmts G sts) (\<lambda>_ t. t = s) s"
proof (induction sts)
  case (Cons st sts)
  have "wp (if is_thread_local st then ret () else unless_closed (g_stmt G st)) (\<lambda>_ t. t = s) s"
    using settled_skips [OF Cons.prems] by simp
  then have "wp (if is_thread_local st then ret () else unless_closed (g_stmt G st))
      (\<lambda>_. wp (gen_stmts G sts) (\<lambda>_ t. t = s)) s"
    by (rule wp_mono) (use Cons in simp)
  then show ?case by (simp add: gen_stmts_def)
qed (simp add: gen_stmts_def)

lemma settles_gen_stmts: "settles (gen_stmts G sts)"
  by (rule settlesI, rule wp_mono, rule settled_gen_stmts, assumption) simp

lemma settled_pop_rest: "pop_rest G False s = Returned () (drop_scopes s)"
  by (cases "cg_cleanups s"; cases "cg_strs s")
    (simp_all add: pop_rest_def drop_scopes_def guarded_def prog_defs)

lemma env_pop_dead:
  assumes "\<And>b. cg_insert s = Some b \<Longrightarrow> closed s b"
  shows "env_pop G s = Returned () (drop_scopes s)"
  using assms by (cases "cg_insert s") (simp_all add: env_pop_eq settled_pop_rest)

lemma settled_drop_scopes: "settled N s \<Longrightarrow> settled N (drop_scopes s)"
  by (cases "cg_cleanups s") (auto simp: settled_def fit_def drop_scopes_def opens_def)

lemma settles_env_pop: "settles (env_pop G)"
  by (rule settlesI) (simp add: wp_def env_pop_dead settled_closed settled_drop_scopes)

section \<open>Bodies\<close>

lemma settled_new_block:
  assumes "settled N s" and "\<And>b t. at_block N t b {b} \<Longrightarrow> Q () t"
  shows "wp (new_block f name) (\<lambda>b. wp (set_insert b) Q) s"
proof -
  let ?b = "length (cg_blocks s)"
  let ?t = "s\<lparr>cg_blocks := cg_blocks s @ [\<lparr>bl_fn = f, bl_name = name, bl_insts = []\<rparr>], cg_insert := Some ?b\<rparr>"
  have "fit ?t" using assms(1) by (auto simp: settled_def fit_def tidy_block_def)
  moreover have "opens ?t = insert ?b (opens s)"
    by (auto simp: opens_def nth_append block_closed_def less_Suc_eq split: if_splits)
  ultimately have "at_block N ?t ?b {?b}" using assms(1) by (simp add: settled_def at_block_def)
  then show ?thesis using assms(2) by (simp add: new_block_def set_insert_def)
qed

lemma live_single: "at_block N t b {b} \<Longrightarrow> live_at N t b {}"
  by (simp add: live_at_def)

lemma settled_start_body:
  assumes "settled N s" and "\<And>b t. live_at N t b {} \<Longrightarrow> Q () t"
  shows "wp (start_body f) Q s"
  unfolding start_body_def wp_bind wp_then
  by (rule settled_new_block [OF assms(1)], rule live_keeps [OF keeps_env_push live_single], assumption)
    (use assms(2) in auto)

lemma dead_settled: "dead_at N s {} \<Longrightarrow> settled N s"
  by (auto simp: dead_at_def at_block_def settled_def)

lemma live_term:
  assumes "live_at N s i others" "is_terminator x" "\<And>t. dead_at N t others \<Longrightarrow> Q () t"
  shows "wp (put_inst x) Q s"
  by (rule wp_put_term) (use assms in \<open>auto simp: live_at_def dest: dead_atI\<close>)

lemma live_gated:
  assumes "gated m" "live_at N s i {}"
    and "\<And>a t j X. at_block N t j X \<Longrightarrow> X - {j} = {} \<Longrightarrow> Q a t"
  shows "wp m Q s"
  by (rule wp_gated [OF assms(1)]) (use assms(2,3) in \<open>auto simp: live_at_def\<close>)

lemma keeps_bind_argument [keeps_intros]: "keeps (bind_argument f p)"
  unfolding bind_argument_def by (rule keeps_intros)+

lemma keeps_bind_arguments: "keeps (bind_arguments f cls fn)"
  unfolding bind_arguments_def bind_this_def by (rule keeps_gets keeps_intros)+

lemma keeps_gen_base_ctors:
  assumes "good_gens G" "defers_ok_func f"
  shows "keeps (gen_base_ctors G f)"
proof -
  have "keeps (gen_base_ctor G this ie)" if "ie \<in> set (f_init_list f)" for this ie
    using assms(2) that unfolding gen_base_ctor_def defers_ok_func_def
    by (intro keeps_gets keeps_case_option keeps_ret keeps_bind keeps_gen_args_upto keeps_then keeps_emit_call assms(1)) auto
  then show ?thesis unfolding gen_base_ctors_def
    by (intro keeps_guarded keeps_bind keeps_lookup_name keeps_case_option keeps_ret keeps_create_load keeps_for_each)
qed

lemma gated_destroy_fields: "gated (destroy_fields f)"
proof -
  have field: "keeps (destroy_field st this g)" for st this g
    unfolding destroy_field_def by (rule keeps_gets keeps_emit_dtor keeps_intros)+
  have fields: "keeps (bind_s (create_load PtrTy a) (\<lambda>this. for_each (destroy_field st this) gs))" for a st gs
    by (rule keeps_intros field)+
  show ?thesis unfolding destroy_fields_def guarded_def
    by (auto intro!: gated_ret gated_gets gated_when_live keeps_stays fields split: option.split prod.split)
qed

lemma settles_gen_func_body:
  assumes G: "good_gens G" and f: "defers_ok_func f" and body: "defers_ok_stmts body"
  shows "settles (gen_func_body G f cls body fn)"
proof (rule settlesI)
  fix N s
  assume s: "settled N s"
  have pers: "settles (ensure_personality fn)"
    unfolding ensure_personality_def by (rule frame_intros settle_rules)+
  have clear: "keeps (modify (\<lambda>s. s\<lparr>cg_var_class := Map.empty, cg_fn_vars := Map.empty\<rparr>))"
    by (rule keeps_modify_plain) simp_all
  have enter: "keeps (modify (\<lambda>s. s\<lparr>cg_fn := Some fn,
       cg_ret_type := known_or TID_VOID (from_type_expr (cg_types s) (f_return_type f))\<rparr>))"
    by (rule keeps_modify_plain) simp_all
  have leave: "settled N (drop_scopes t\<lparr>cg_fn := a, cg_ret_type := b, cg_class := c\<rparr>)"
    if "settled N t" for t a b c
    using settled_drop_scopes [OF that] by (simp add: settled_def fit_def opens_def)
  show "wp (gen_func_body G f cls body fn) (\<lambda>_ t. settled N t) s"
    unfolding gen_func_body_def wp_bind wp_then wp_gets
  proof (rule wp_settles [OF pers s], rule settled_new_block, assumption, drule live_single,
      rule live_keeps [OF clear], assumption, rule live_keeps [OF keeps_env_push], assumption,
      rule live_keeps [OF keeps_bind_arguments], assumption, rule live_keeps [OF keeps_register_fn_params], assumption,
      rule live_keeps [OF keeps_gen_base_ctors [OF G f]], assumption, unfold prod.case wp_bind wp_then wp_gets,
      rule live_keeps [OF enter], assumption, rule live_gated [OF gated_gen_stmts [OF G body]], assumption,
      rule wp_gated [OF gated_destroy_fields], assumption, rule wp_finish_body [OF _ G], assumption)
    fix fn0 ret0 cls0 t i j j' X Y
    assume at: "at_block N t i (Y - {j'})" and eq: "Y - {j'} = X - {j}" "X - {j} = {}"
    then have set: "settled N t" by (simp add: at_block_def settled_def)
    show "wp (env_pop G) (\<lambda>_. wp (modify (\<lambda>s. s\<lparr>cg_fn := fn0, cg_ret_type := ret0, cg_class := cls0\<rparr>))
        (\<lambda>_. settled N)) t"
      using leave [OF set] settled_closed [OF set] by (simp add: wp_def env_pop_dead modify_def)
  qed
qed

section \<open>Asynchronous functions\<close>

lemma settles_gen_async_body:
  assumes G: "good_gens G" and body: "defers_ok_stmts body"
  shows "settles (gen_async_body G f body fn)"
proof (rule settlesI)
  fix N s0
  assume s0: "settled N s0"
  let ?M = "length (cg_blocks s0)"
  have enter: "settled ?M (enter_function fn tid s0\<lparr>cg_fn_vars := m\<rparr>)" for tid m
    using s0 by (auto simp: settled_def fit_def enter_function_def opens_def)
  have future: "keeps (modify (\<lambda>s. s\<lparr>cg_future := v\<rparr>))" for v
    by (rule keeps_modify_plain) simp_all
  have params: "keeps (for_each (bind_param fn) (List.enumerate 1 (f_params f)))"
    by (rule keeps_intros) (auto intro!: keeps_intros)
  have finish: "keeps (then_s (call_rt ''duxrt_future_set'' VoidTy [PtrTy, PtrTy] [fut, null_ptr]) (emit_all_cleanups G))" for fut
    by (rule keeps_intros keeps_emit_all_cleanups G)+
  have leave: "settled N ((restore_outer s0 (drop_scopes t))\<lparr>cg_fn_vars := m, cg_future := v\<rparr>)" if "settled ?M t" for t m v
    using that s0 by (auto simp: settled_def fit_def restore_outer_def drop_scopes_def opens_def)
  show "wp (gen_async_body G f body fn) (\<lambda>_ t. settled N t) s0"
    unfolding gen_async_body_def wp_bind wp_gets wp_then [of "modify _"] wp_modify wp_then [of "start_body _"]
      wp_then [of "create_store _ _"] wp_then [of "for_each _ _"] wp_then [of "register_fn_params _"]
      wp_then [of "gen_stmts _ _"] wp_then [of "unless_closed _"]
  proof (rule settled_start_body [OF enter], rule live_keeps [OF keeps_make_alloca], assumption,
      rule live_keeps [OF keeps_create_store], assumption, rule live_keeps [OF keeps_create_load], assumption,
      rule live_keeps [OF future, unfolded wp_modify], assumption, rule live_keeps [OF params], assumption,
      rule live_keeps [OF keeps_register_fn_params], assumption, rule live_gated [OF gated_gen_stmts [OF G body]],
      assumption, unfold then_assoc [symmetric], rule wp_close [OF _ finish], assumption, simp)
    fix t i j X
    assume "at_block ?M t i (X - {j})" "X - {j} = {}"
    then have "settled ?M t" by (simp add: at_block_def settled_def)
    then show "settled N ((restore_outer s0 (drop_scopes t))\<lparr>cg_fn_vars := cg_fn_vars s0, cg_future := cg_future s0\<rparr>)"
      by (rule leave)
  qed
qed

lemma settles_gen_async_thunk: "settles (gen_async_thunk body_fn ts fn)"
proof (rule settlesI)
  fix N s
  assume s: "settled N s"
  have unpack: "keeps (map_s (unpack_argument raw) xs)" for raw xs
    unfolding unpack_argument_def by (rule keeps_intros)+
  show "wp (gen_async_thunk body_fn ts fn) (\<lambda>_ t. settled N t) s"
    unfolding gen_async_thunk_def wp_bind wp_then
    by (rule settled_new_block [OF s], drule live_single)
      (rule live_keeps, rule keeps_create_const_gep keeps_create_load keeps_create_call keeps_call_rt unpack, assumption
      | rule live_term, assumption, simp, erule dead_settled)+
qed

lemma settles_gen_launcher: "settles (gen_launcher thunk ts name)"
proof -
  have pack: "keeps (pack_argument fn env i)" for fn env i
    unfolding pack_argument_def Let_def by (rule keeps_gets keeps_intros)+
  have body: "settles (gen_launcher_body thunk n fn)" for n fn
  proof (rule settlesI)
    fix N s
    assume s: "settled N s"
    show "wp (gen_launcher_body thunk n fn) (\<lambda>_ t. settled N t) s"
      unfolding gen_launcher_body_def wp_bind wp_then
      by (rule settled_new_block [OF s], drule live_single)
        (rule live_keeps, rule keeps_create_const_gep keeps_create_store keeps_rt_malloc keeps_call_rt, assumption
        | rule live_keeps, rule keeps_for_each, rule pack, assumption
        | rule live_term, assumption, simp, erule dead_settled)+
  qed
  show ?thesis unfolding gen_launcher_def by (rule frame_intros settle_rules body)+
qed

lemma settles_gen_async_func:
  assumes "good_gens G" "defers_ok_stmts body"
  shows "settles (gen_async_func G f name body)"
proof -
  have count: "settles (modify (\<lambda>s. s\<lparr>cg_asyncs := cg_asyncs s + 1\<rparr>))"
    by (rule settles_modify_plain) simp_all
  show ?thesis unfolding gen_async_func_def Let_def
    by (rule frame_intros count settles_create_fn settles_set_personality settles_gen_async_body settles_gen_async_thunk
      settles_gen_launcher assms)+
qed

lemma settles_declare_function: "settles (declare_function f name)"
  unfolding declare_function_def by (rule frame_intros settle_rules)+

lemma settles_gen_func:
  assumes "good_gens G" "defers_ok_func f"
  shows "settles (gen_func G f name cls)"
proof (cases "f_body f")
  case None
  then show ?thesis by (simp add: gen_func_def module.frame_ret)
next
  case (Some lb)
  obtain l body where lb: "lb = (l, body)" by (cases lb)
  then have body: "defers_ok_stmts body" using assms(2) Some by (simp add: defers_ok_func_def)
  show ?thesis unfolding gen_func_def Some lb option.case prod.case function_of_def
    by (rule frame_intros settles_gen_async_func settles_declare_function settles_gen_func_body assms body)+
qed

section \<open>Classes and declarations\<close>

lemma in_map_filter: "y \<in> set (List.map_filter g xs) \<Longrightarrow> \<exists>x\<in>set xs. g x = Some y"
  by (induction xs) (auto simp: List.map_filter_simps split: option.splits)

lemma calm_append_field:
  "\<forall>f\<in>set fs. defers_ok_opt (fi_init f) \<Longrightarrow> defers_ok_opt (fd_init fd) \<Longrightarrow>
   \<forall>f\<in>set (append_field r fs fd). defers_ok_opt (fi_init f)"
  by (auto simp: append_field_def)

lemma calm_class_layout:
  assumes layouts: "\<And>l. l \<in> ran m \<Longrightarrow> calm_layout l" and c: "defers_ok_class c"
  shows "calm_layout (class_layout_of r m c)"
proof -
  have fields: "\<forall>f\<in>set (foldl (append_field r) fs fds). defers_ok_opt (fi_init f)"
    if "\<forall>f\<in>set fs. defers_ok_opt (fi_init f)" "\<forall>fd\<in>set fds. defers_ok_opt (fd_init fd)" for fs fds
    using that
  proof (induction fds arbitrary: fs)
    case (Cons fd fds)
    have "\<forall>f\<in>set (append_field r fs fd). defers_ok_opt (fi_init f)"
      by (rule calm_append_field) (use Cons.prems in auto)
    from Cons.IH [OF this] show ?case using Cons.prems by simp
  qed simp
  have inherited: "\<forall>f\<in>set (inherited_fields m c). defers_ok_opt (fi_init f)"
  proof (cases "parent_base m c")
    case (Some p)
    then show ?thesis
      using layouts by (cases "m p") (auto simp: inherited_fields_def calm_layout_def intro: ranI)
  qed (simp add: inherited_fields_def)
  have own: "\<forall>fd\<in>set (List.map_filter instance_field (c_members c)). defers_ok_opt (fd_init fd)"
    using c by (fastforce simp: defers_ok_class_def instance_field_def map_filter_def
      split: option.splits decl.splits if_splits)
  show ?thesis using fields [OF inherited own]
    by (simp add: calm_layout_def class_layout_of_def layout_fields_def Let_def)
qed

lemma fit_put_layout: "fit s \<Longrightarrow> calm_layout l \<Longrightarrow> fit (s\<lparr>cg_layouts := (cg_layouts s)(c \<mapsto> l)\<rparr>)"
  by (auto simp: fit_def ran_def split: if_splits)

lemma fit_put_types: "fit (s\<lparr>cg_types := r\<rparr>) = fit s"
  by (simp add: fit_def)

lemma fit_build_class_layout: "defers_ok_class c \<Longrightarrow> fit s \<Longrightarrow> fit (build_class_layout c s)"
  unfolding build_class_layout_def
  using fit_put_layout [of s "class_layout_of (cg_types s) (cg_layouts s) c" "c_name c"]
    calm_class_layout [of "cg_layouts s" c "cg_types s"]
  by (auto simp: fit_def)

lemma build_enum_type_blocks [simp]:
  "cg_blocks (build_enum_type e s) = cg_blocks s" "cg_insert (build_enum_type e s) = cg_insert s"
  by (simp_all add: build_enum_type_def case_prod_beta)

lemma build_class_layout_blocks [simp]:
  "cg_blocks (build_class_layout c s) = cg_blocks s" "cg_insert (build_class_layout c s) = cg_insert s"
  by (simp_all add: build_class_layout_def)

lemma build_layouts_blocks [simp]:
  "cg_blocks (build_layouts ds s) = cg_blocks s" "cg_insert (build_layouts ds s) = cg_insert s"
  by (induction ds s rule: build_layouts.induct) simp_all

lemma fit_build_layouts: "defers_ok_decls ds \<Longrightarrow> fit s \<Longrightarrow> fit (build_layouts ds s)"
proof (induction ds s rule: build_layouts.induct)
  case (3 e ds s)
  then have "fit (build_enum_type e s)" by (simp add: build_enum_type_def fit_def case_prod_beta)
  with 3 show ?case by simp
qed (simp_all add: fit_build_class_layout)

lemma settles_build_layouts: "defers_ok_decls ds \<Longrightarrow> settles (modify (build_layouts ds))"
  by (rule settles_modify) (simp_all add: fit_build_layouts)

lemma fit_note_method:
  assumes "fit s"
  shows "fit (note_method c f fn s)"
proof (cases "cg_layouts s c")
  case (Some l)
  then have "calm_layout (l\<lparr>cl_methods := ms\<rparr>)" for ms
    using fit_layout [OF assms Some] by (simp add: calm_layout_def)
  then show ?thesis using assms by (simp add: note_method_def Some fit_put_layout)
qed (simp add: note_method_def assms)

lemma settles_declare_extern: "settles (declare_extern e)"
  unfolding declare_extern_def by (rule frame_intros settle_rules)+

lemma settles_declare_class_methods: "settles (declare_class_methods c)"
proof -
  have noted: "settles (modify (note_method c f fn))" for c f fn
    by (rule settles_modify) (simp_all add: fit_note_method, simp_all add: note_method_def split: option.split)
  show ?thesis unfolding declare_class_methods_def declare_method_def Let_def
    by (rule frame_intros noted settles_create_fn)+
qed

lemma settles_declare_functions: "settles (declare_functions pre ds)"
  by (induction pre ds rule: declare_functions.induct)
    (simp_all, (rule frame_intros settles_declare_function settles_declare_class_methods settles_declare_extern | assumption)+)

lemma settles_emit_vtable: "settles (emit_vtable c)"
proof -
  have calm: "calm_layout (layout_of c s)" if "fit s" for s
    using that by (auto simp: layout_of_def empty_layout_def calm_layout_def split: option.split dest: fit_layout)
  show ?thesis unfolding emit_vtable_def
  proof (rule settles_gets)
    fix s
    assume "fit s"
    note l = calm [OF this]
    then have v: "calm_layout ((layout_of c s)\<lparr>cl_vtable := v\<rparr>)" for v by (simp add: calm_layout_def)
    show "settles (then_s (modify (\<lambda>t. t\<lparr>cg_layouts := (cg_layouts t)(c \<mapsto> layout_of c s)\<rparr>))
      (guarded (cl_methods (layout_of c s) \<noteq> []) (bind_s (new_global (c @ ''__vtable'')
         (ArrayTy (length (cl_methods (layout_of c s))) PtrTy) True False (map vtable_entry (cl_methods (layout_of c s))))
       (\<lambda>g. modify (\<lambda>t. t\<lparr>cg_layouts := (cg_layouts t)(c \<mapsto> (layout_of c s)\<lparr>cl_vtable := Some g\<rparr>)\<rparr>)))))"
      by (intro module.frame_then module.frame_guarded module.frame_bind settles_new_global settles_modify)
        (simp_all add: fit_put_layout l v)
  qed
qed

lemma settles_emit_static_field: "settles (emit_static_field c fd)"
  unfolding emit_static_field_def Let_def by (rule frame_intros settle_rules)+

lemma settles_gen_class:
  assumes "good_gens G" "defers_ok_class c"
  shows "settles (gen_class G c)"
proof -
  have enter: "settles (modify (\<lambda>s. s\<lparr>cg_class := x\<rparr>))" for x
    by (rule settles_modify_plain) simp_all
  have "defers_ok_func f" if f: "f \<in> set (List.map_filter method_decl (c_members c))" for f
  proof -
    obtain m where m: "m \<in> set (c_members c)" "method_decl m = Some f"
      using in_map_filter [OF f] by blast
    from m(2) have "cm_decl m = Some (FunctionDecl f)"
      by (simp add: method_decl_def split: option.splits decl.splits)
    with m(1) assms(2) show ?thesis by (auto simp: defers_ok_class_def)
  qed
  then have "settles (gen_method G (c_name c) tid f)" if "f \<in> set (List.map_filter method_decl (c_members c))" for tid f
    unfolding gen_method_def using that by (auto intro: module.frame_ret settles_gen_func [OF assms(1)])
  then show ?thesis unfolding gen_class_def
    by (intro module.frame_then module.frame_bind module.frame_gets module.frame_for_each settles_emit_vtable enter
      settles_emit_static_field)
qed

lemma settles_gen_decls: "good_gens G \<Longrightarrow> defers_ok_decls ds \<Longrightarrow> settles (gen_decls G pre ds)"
proof (induction G pre ds rule: gen_decls.induct)
  case (4 G pre l n nds sts p ds)
  have ns: "settles (modify (\<lambda>s. s\<lparr>cg_namespace := x\<rparr>))" for x
    by (rule settles_modify_plain) simp_all
  from 4 show ?case
    by (auto intro!: module.frame_then module.frame_bind module.frame_gets module.frame_ret ns settles_build_layouts
      settles_declare_functions settles_gen_stmts)
qed (auto intro!: module.frame_then module.frame_guarded module.frame_ret settles_gen_func settles_gen_class
  settles_declare_extern)

section \<open>The program\<close>

lemma settles_process_import: "settles (process_import imp)"
proof -
  have "settles (modify (\<lambda>s. s\<lparr>cg_std := insert m (cg_std s)\<rparr>))" "settles (modify (\<lambda>s. s\<lparr>cg_modules := insert m (cg_modules s)\<rparr>))"
    for m
    by (rule settles_modify_plain; simp)+
  then show ?thesis unfolding process_import_def Let_def
    by (intro frame_intros settles_get_or_declare_rt)
qed

lemma settles_thread_local:
  assumes "is_thread_local st"
  shows "settles (gen_stmt G st)"
proof -
  obtain l te c stat ds where st: "st = VarDeclStmt l te c stat True ds"
    using assms by (auto simp: is_thread_local_def split: stmt.splits)
  have "settles (gen_tls_var c tid x e)" for tid x e
    unfolding gen_tls_var_def Let_def by (rule frame_intros settle_rules)+
  then show ?thesis
    unfolding st gen_stmt.simps gen_var_decl_def gen_var_init_def
    by (auto intro!: module.frame_for_each module.frame_bind module.frame_gets split: var_init.split)
qed

lemma settles_wrap_main: "settles (wrap_main um t si)"
proof (rule settlesI)
  fix N s
  assume s: "settled N s"
  have rename: "settles (modify (\<lambda>s. s\<lparr>cg_funs := (cg_funs s)[um := (cg_funs s ! um)\<lparr>fn_name := ''dux_main''\<rparr>]\<rparr>))"
    by (rule settles_modify_plain) simp_all
  have status: "keeps (if t = VoidTy then ret (ConstInt 32 0)
       else if t = IntTy 64 then create_cast Trunc v (IntTy 32) else ret v)" for v
    by (rule keeps_intros)+
  show "wp (wrap_main um t si) (\<lambda>_ t. settled N t) s"
    unfolding wrap_main_def wp_bind wp_then
    by (rule wp_settles [OF rename s], rule wp_settles [OF settles_create_fn], assumption, rule settled_new_block, assumption,
      drule live_single)
      (rule live_keeps, rule keeps_create_call status, assumption
      | rule live_term, assumption, simp, erule dead_settled)+
qed

lemma settles_generate:
  assumes G: "good_gens G" and ds: "defers_ok_decls (prog_decls p)"
  shows "settles (generate G p)"
proof -
  have main: "settles emit_main_wrapper"
    unfolding emit_main_wrapper_def by (rule frame_intros settles_get_or_declare_rt settles_wrap_main)+
  show ?thesis unfolding generate_def
    by (intro module.frame_then module.frame_for_each settles_env_push settles_process_import settles_build_layouts
      settles_declare_functions settles_gen_decls settles_gen_stmts settles_env_pop main ds G settles_thread_local) simp_all
qed

lemma settled_new_codegen: "settled 0 (new_codegen d folder sizes)"
  by (simp add: settled_def fit_def opens_def new_codegen_def)

lemma settled_block:
  assumes "settled N s" "b \<in> set (cg_blocks s)"
  shows "block_closed b \<and> tidy_block b"
proof -
  obtain i where "i < length (cg_blocks s)" "b = cg_blocks s ! i" using assms(2) by (auto simp: in_set_conv_nth)
  then show ?thesis using assms(1) tidy_nth by (auto simp: settled_def opens_def)
qed

end
