(* ===== verification/Cg_Eval.thy ===== *)
theory Cg_Eval
  imports Cg_Program Type_Lemmas
begin

text \<open>
  Evaluation of the code generator on concrete programs by the simplifier: rules that run a composed program from
  left to right (\<open>run_steps\<close>, with the congruence rules \<open>run_congs\<close>, which keep what comes later unevaluated), and
  the definitions that small functions need (\<open>run_defs\<close>).
\<close>

lemma run_bind: "m s = Returned a t \<Longrightarrow> bind_s m f s = f a t"
  by (simp add: bind_s_def)

lemma run_then: "m s = Returned a t \<Longrightarrow> then_s m k s = k t"
  by (simp add: then_s_def run_bind)

lemma run_gets: "gets f s = Returned (f s) s"
  by (simp add: gets_def)

lemma run_modify: "modify f s = Returned () (f s)"
  by (simp add: modify_def)

lemma run_guarded: "guarded b m = (if b then m else ret ())"
  by (simp add: guarded_def)

lemma run_insert_block: "cg_insert s = Some b \<Longrightarrow> insert_block s = Returned b s"
  by (simp add: insert_block_def prog_defs)

lemma run_current_parent: "cg_insert s = Some b \<Longrightarrow> current_parent s = Returned (bl_fn (cg_blocks s ! b)) s"
  by (simp add: current_parent_def insert_block_def prog_defs)

lemma run_unless_closed: "cg_insert s = Some b \<Longrightarrow> unless_closed m s = (if closed s b then Returned () s else m s)"
  by (simp add: unless_closed_def has_terminator_def insert_block_def prog_defs)

lemma run_when_live: "cg_insert s = Some b \<Longrightarrow> when_live m s = (if closed s b then Returned () s else m s)"
  by (simp add: when_live_def prog_defs)

lemma run_emit_inst:
  "cg_insert s = Some b \<Longrightarrow> emit_inst i s = Returned (cg_next s) (s\<lparr>cg_next := cg_next s + 1,
     cg_blocks := (cg_blocks s)[b := (cg_blocks s ! b)\<lparr>bl_insts := bl_insts (cg_blocks s ! b) @ [(cg_next s, i)]\<rparr>]\<rparr>)"
  by (simp add: emit_inst_def insert_block_def prog_defs)

lemma run_gens:
  "g_stmt (gens_at (Suc n)) = gen_stmt (gens_at n)" "g_expr (gens_at (Suc n)) = gen_expr (gens_at n)"
  "g_stmt (gens_at (numeral k)) = gen_stmt (gens_at (pred_numeral k))"
  "g_expr (gens_at (numeral k)) = gen_expr (gens_at (pred_numeral k))"
  "g_stmt (gens_at 1) = gen_stmt (gens_at 0)" "g_expr (gens_at 1) = gen_expr (gens_at 0)"
  by (simp_all add: numeral_eq_Suc)

lemma run_congs: "m = m' \<Longrightarrow> bind_s m f = bind_s m' f" "m = m' \<Longrightarrow> then_s m k = then_s m' k"
  by simp_all

lemmas run_weak = run_congs if_weak_cong option.case_cong_weak list.case_cong_weak prod.case_cong_weak

lemma builtin_types:
  "from_type_expr new_registry (TypeExpr ''void'' c l ps rt g) = TID_VOID"
  "from_type_expr new_registry (TypeExpr ''int'' c l ps rt g) = TID_INT"
  "from_type_expr new_registry (TypeExpr ''bool'' c l ps rt g) = TID_BOOL"
  "from_type_expr new_registry (TypeExpr ''str'' c l ps rt g) = TID_STR"
  by (simp_all add: from_type_expr_def from_name_def new_registry_names)

lemmas run_steps = run_bind run_then run_gets run_modify run_guarded run_insert_block run_current_parent
  run_unless_closed run_when_live run_emit_inst run_gens builtin_types ret_apply Let_def

lemmas run_defs = generate_def decl_import_def env_push_def mangle_def gen_func_def function_of_def get_function_def
  declare_function_def lower_return_def lower_params_def lower_type_expr_def known_or_def lower_type_def create_fn_def
  blocks_of_def gen_func_body_def ensure_personality_def set_personality_def new_block_def set_insert_def
  bind_arguments_def bind_argument_def make_alloca_def create_store_def put_inst_def env_define_def bind_name_def
  register_fn_params_def gen_base_ctors_def gen_stmts_def is_thread_local_def closed_def block_closed_def gen_defer_def
  push_cleanup_def gen_if_def gen_bool_def load_var_def lookup_name_def create_load_def to_bool_def create_cond_br_def
  gen_block_def in_scope_def gen_return_def return_operand_def const_int_def coerce_def maybe_retain_def
  emit_all_cleanups_def emit_all_scope_cleanups_def emit_all_str_releases_def emit_scope_cleanup_def goto_if_open_def
  create_br_def env_pop_def destroy_fields_def finish_body_def emit_main_wrapper_def user_main_def ends_with_main_def
  type_id_of_def is_fp_ty_def is_int_ty_def null_value_def new_codegen_def List.map_filter_simps

text \<open>Functions to evaluate.\<close>

abbreviation here :: source_loc where
  "here \<equiv> SourceLoc [] 1 1"

definition plain_type :: "string \<Rightarrow> type_expr" where
  "plain_type x = TypeExpr x False here [] [] []"

definition plain_function :: "string \<Rightarrow> string \<Rightarrow> (string \<times> string) list \<Rightarrow> stmt list \<Rightarrow> function_decl" where
  "plain_function t x ps body = \<lparr>f_loc = here, f_return_type = plain_type t, f_name = x, f_type_params = [],
     f_type_bounds = [], f_params = map (\<lambda>(t, x). \<lparr>param_type = plain_type t, param_name = x\<rparr>) ps,
     f_modifier = None, f_body = Some (here, body), f_is_ctor = False, f_is_dtor = False, f_is_static = False,
     f_is_async = False, f_init_list = []\<rparr>"

abbreviation start :: cg where
  "start \<equiv> new_codegen new_driver (\<lambda>_ _. None) (\<lambda>_. 8)"

end
