(* ===== verification/Cg_Properties.thy ===== *)
theory Cg_Properties
  imports Cg_Module Cg_Eval Sema_Rules
begin

text \<open>
  The properties of the code generator: the structure of what it generates, the layout of objects, the releases
  of strings around jumps, and deferred blocks.
\<close>

section \<open>Basic blocks\<close>

text \<open>C3. Every basic block of a module that has been generated is not empty, ends with a terminator and has no
  terminator before its end, for every program in which no deferred block returns, throws or jumps.\<close>

theorem blocks_are_terminated:
  assumes "defers_ok_decls (prog_decls p)"
    and "generate (gens_at n) p (new_codegen d folder sizes) = Returned () s" and "b \<in> set (cg_blocks s)"
  shows "bl_insts b \<noteq> [] \<and> is_terminator (snd (last (bl_insts b))) \<and>
    (\<forall>x\<in>set (butlast (bl_insts b)). \<not> is_terminator (snd x))"
proof -
  have "settled 0 s"
    using settlesD [OF settles_generate [OF good_gens_at assms(1)] settled_new_codegen] assms(2) by (rule wp_Returned)
  from settled_block [OF this assms(3)] show ?thesis by (simp add: block_closed_def tidy_block_def)
qed

definition early_return :: program where
  "early_return = \<lparr>prog_decls = [FunctionDecl (plain_function ''int'' ''f'' [(''bool'', ''c'')] [
     DeferStmt here [ExprStmt here (IntLitExpr here 2 0)],
     IfStmt here (IdentExpr here 1 ''c'') (BlockStmt here [ReturnStmt here (Some (IntLitExpr here 2 1))]) NoStmt,
     ReturnStmt here (Some (IntLitExpr here 2 2))])], prog_stmts = []\<rparr>"

lemma early_return_runs:
  "case generate (gens_at 6) early_return start of Returned _ s \<Rightarrow> length (cg_blocks s) = 4 | _ \<Rightarrow> False"
  by (simp add: run_steps run_defs early_return_def plain_function_def plain_type_def del: gens_at.simps cong: run_weak)

lemma blocks_are_terminated_witness:
  "case generate (gens_at 6) early_return start of
     Returned _ s \<Rightarrow> length (cg_blocks s) = 4 \<and> list_all (\<lambda>b. bl_insts b \<noteq> [] \<and> is_terminator (snd (last (bl_insts b))) \<and>
       list_all (\<lambda>x. \<not> is_terminator (snd x)) (butlast (bl_insts b))) (cg_blocks s)
   | _ \<Rightarrow> False"
proof -
  obtain s where s: "generate (gens_at 6) early_return start = Returned () s" "length (cg_blocks s) = 4"
    using early_return_runs by (auto split: outcome.splits)
  have "defers_ok_decls (prog_decls early_return)"
    by (simp add: early_return_def plain_function_def defers_ok_func_def)
  from blocks_are_terminated [OF this s(1)] s show ?thesis by (simp add: list_all_iff)
qed

section \<open>Deferred blocks\<close>

text \<open>A deferred block that returns asks for the cleanups of the function, hence for itself.\<close>

lemma g_stmt_Suc: "g_stmt (gens_at (Suc n)) = gen_stmt (gens_at n)"
  by simp

lemma cleanups_of_return_loop:
  assumes "cg_insert s = Some b" "\<not> closed s b" "cg_future s = None"
    and "concat (cg_cleanups s) = RunDefer (ReturnStmt l None # sts) # cs"
  shows "emit_all_scope_cleanups (gens_at n) s = Looping"
proof (induction n)
  case 0
  then show ?case using assms
    by (simp add: emit_all_scope_cleanups_def emit_scope_cleanup_def when_live_def gen_stmts_def is_thread_local_def
      unless_closed_def has_terminator_def insert_block_def prog_defs)
next
  case (Suc n)
  then show ?case using assms
    by (simp add: emit_all_scope_cleanups_def [of "gens_at (Suc n)"] emit_scope_cleanup_def when_live_def gen_stmts_def
      g_stmt_Suc is_thread_local_def unless_closed_def has_terminator_def insert_block_def gen_return_def return_operand_def
      emit_all_cleanups_def prog_defs del: gens_at.simps)
qed

text \<open>C37. Where a deferred block that starts with a \<open>return\<close> is pending, neither a \<open>return\<close> nor the end of the
  body is ever generated: the recursion has no bound.\<close>

theorem deferred_return_hangs:
  assumes "cg_insert s = Some b" "\<not> closed s b" "cg_future s = None"
    and "concat (cg_cleanups s) = RunDefer (ReturnStmt l None # sts) # cs"
  shows "gen_stmt (gens_at n) (ReturnStmt l' None) s = Looping \<and> finish_body (gens_at n) t s = Looping"
  using assms cleanups_of_return_loop [OF assms]
  by (simp add: gen_return_def return_operand_def emit_all_cleanups_def finish_body_def unless_closed_def
    has_terminator_def insert_block_def prog_defs)

lemma deferred_return_hangs_witness:
  "gen_stmt (gens_at 5) (ReturnStmt here None) (start\<lparr>cg_blocks := [\<lparr>bl_fn = 0, bl_name = ''entry'', bl_insts = []\<rparr>],
     cg_insert := Some 0, cg_cleanups := [[RunDefer [ReturnStmt here None]]]\<rparr>) = Looping"
  by (rule conjunct1, rule deferred_return_hangs [where b = 0 and sts = "[]" and cs = "[]" and t = VoidTy])
    (simp_all add: closed_def block_closed_def new_codegen_def)

section \<open>Objects\<close>

text \<open>\<open>sound_layout\<close>: the fields are numbered from 1 in their order, behind the dispatch table, and the struct has one entry
  for each.\<close>

definition sound_layout :: "class_layout \<Rightarrow> bool" where
  "sound_layout l \<longleftrightarrow> map fi_index (cl_fields l) = [1..<length (cl_fields l) + 1] \<and>
     (\<exists>ts. cl_struct l = StructTy (PtrTy # ts) \<and> length ts = length (cl_fields l))"

lemma append_fields:
  "map fi_index fs = [1..<length fs + 1] \<Longrightarrow>
   map fi_index (foldl (append_field r) fs fds) = [1..<length (foldl (append_field r) fs fds) + 1] \<and>
   (\<exists>gs. foldl (append_field r) fs fds = fs @ gs \<and> map fi_name gs = map fd_name fds)"
proof (induction fds arbitrary: fs)
  case (Cons fd fds)
  have "map fi_index (append_field r fs fd) = [1..<length (append_field r fs fd) + 1]"
    using Cons.prems by (simp add: append_field_def)
  from Cons.IH [OF this] show ?case by (auto simp: append_field_def)
qed simp

lemma inherited_sound:
  assumes "\<And>l. l \<in> ran m \<Longrightarrow> sound_layout l"
  shows "map fi_index (inherited_fields m c) = [1..<length (inherited_fields m c) + 1]"
proof (cases "parent_base m c")
  case (Some p)
  then show ?thesis
    using assms by (cases "m p") (auto simp: inherited_fields_def sound_layout_def ranI)
qed (simp add: inherited_fields_def)

lemma class_layout_sound:
  assumes "\<And>l. l \<in> ran m \<Longrightarrow> sound_layout l"
  shows "sound_layout (class_layout_of r m c)"
  using append_fields [OF inherited_sound [OF assms]]
  by (simp add: sound_layout_def class_layout_of_def layout_fields_def Let_def)

lemma class_layout_fields:
  assumes "\<And>l. l \<in> ran m \<Longrightarrow> sound_layout l"
  shows "\<exists>own. cl_fields (class_layout_of r m c) = inherited_fields m c @ own \<and>
    map fi_name own = map fd_name (List.map_filter instance_field (c_members c))"
  using append_fields [OF inherited_sound [OF assms]]
  by (simp add: class_layout_of_def layout_fields_def Let_def)

lemma ran_upd: "\<forall>l\<in>ran m. P l \<Longrightarrow> P x \<Longrightarrow> \<forall>l\<in>ran (m(k \<mapsto> x)). P l"
  by (auto simp: ran_def split: if_splits)

lemma build_layouts_sound:
  "\<forall>l\<in>ran (cg_layouts s). sound_layout l \<Longrightarrow> \<forall>l\<in>ran (cg_layouts (build_layouts ds s)). sound_layout l"
proof (induction ds s rule: build_layouts.induct)
  case (2 c ds s)
  have "sound_layout (class_layout_of (cg_types s) (cg_layouts s) c)"
    by (rule class_layout_sound) (use "2.prems" in blast)
  from ran_upd [OF "2.prems" this, of "c_name c"] show ?case
    unfolding build_layouts.simps by (intro "2.IH") (simp add: build_class_layout_def del: fun_upd_apply)
next
  case (3 e ds s)
  then show ?case by (simp add: build_enum_type_def case_prod_beta)
qed simp_all

text \<open>C21. Layouts: whatever is declared, the fields of every class are numbered from 1 behind the dispatch table and the
  struct has an entry for each; a class that comes next has first the fields of its parent, with the same numbers, and
  then its own in the order of their declaration.\<close>

theorem objects_extend_parents:
  assumes "s = build_layouts ds (new_codegen d folder sizes)" and "l = class_layout_of (cg_types s) (cg_layouts s) c"
    and "parent_base (cg_layouts s) c = Some p"
  shows "(\<forall>k\<in>ran (cg_layouts s). sound_layout k) \<and> sound_layout l \<and> cl_parent l = p \<and>
    (\<exists>lp own. cg_layouts s p = Some lp \<and> cl_fields l = cl_fields lp @ own \<and>
      map fi_name own = map fd_name (List.map_filter instance_field (c_members c)))"
proof -
  have all: "\<forall>k\<in>ran (cg_layouts s). sound_layout k"
    unfolding assms(1) by (rule build_layouts_sound) (simp add: new_codegen_def)
  have "sound_layout l" unfolding assms(2) by (rule class_layout_sound) (use all in blast)
  moreover obtain lp where lp: "cg_layouts s p = Some lp"
    using assms(3) by (auto simp: parent_base_def find_Some_iff)
  moreover have "inherited_fields (cg_layouts s) c = cl_fields lp"
    by (simp add: inherited_fields_def assms(3) lp)
  moreover have "\<exists>own. cl_fields l = inherited_fields (cg_layouts s) c @ own \<and>
      map fi_name own = map fd_name (List.map_filter instance_field (c_members c))"
    unfolding assms(2) by (rule class_layout_fields) (use all in blast)
  moreover have "cl_parent l = p" by (simp add: assms(2,3) class_layout_of_def Let_def)
  ultimately show ?thesis using all by auto
qed

definition plain_class :: "string \<Rightarrow> string list \<Rightarrow> (string \<times> string) list \<Rightarrow> class_decl" where
  "plain_class x bs fds = MkClass here [] x [] [] (map (\<lambda>b. \<lparr>base_access = AccessPublic, base_name = b\<rparr>) bs)
     (map (\<lambda>(t, x). MkMember AccessPublic [] (Some (FieldDecl \<lparr>fd_loc = here, fd_type = plain_type t, fd_name = x,
       fd_init = None, fd_is_static = False\<rparr>))) fds)"

lemmas plain_class_defs = plain_class_def plain_type_def build_class_layout_def class_layout_of_def layout_fields_def
  append_field_def inherited_fields_def parent_base_def instance_field_def List.map_filter_simps Let_def new_codegen_def

lemma objects_extend_parents_witness:
  "let s = build_layouts [ClassDecl (plain_class ''A'' [] [(''int'', ''x'')])] start;
       l = class_layout_of (cg_types s) (cg_layouts s) (plain_class ''B'' [''I'', ''A''] [(''int'', ''y''), (''str'', ''z'')]) in
     sound_layout l \<and> cl_parent l = ''A'' \<and> map fi_name (cl_fields l) = [''x'', ''y'', ''z'']"
proof -
  let ?s = "build_layouts [ClassDecl (plain_class ''A'' [] [(''int'', ''x'')])] start"
  let ?c = "plain_class ''B'' [''I'', ''A''] [(''int'', ''y''), (''str'', ''z'')]"
  have "parent_base (cg_layouts ?s) ?c = Some ''A''" by (simp add: plain_class_defs)
  note main = objects_extend_parents [OF refl refl this]
  then obtain lp own where lp: "cg_layouts ?s ''A'' = Some lp"
    and own: "cl_fields (class_layout_of (cg_types ?s) (cg_layouts ?s) ?c) = cl_fields lp @ own"
      "map fi_name own = map fd_name (List.map_filter instance_field (c_members ?c))"
    by blast
  have "map fi_name (cl_fields lp) = [''x'']" using lp by (auto simp: plain_class_defs)
  moreover have "map fi_name own = [''y'', ''z'']" by (simp add: own(2) plain_class_def instance_field_def List.map_filter_simps)
  ultimately have "map fi_name (cl_fields (class_layout_of (cg_types ?s) (cg_layouts ?s) ?c)) = [''x'', ''y'', ''z'']"
    unfolding own(1) by simp
  with main show ?thesis unfolding Let_def by blast
qed

text \<open>What the two tables of standard functions have to say of one function.\<close>

definition modules_agree :: "string \<Rightarrow> string \<Rightarrow> type_id \<Rightarrow> bool" where
  "modules_agree m f t = (case map_of stdlib_table m of
       None \<Rightarrow> False
     | Some fns \<Rightarrow> (case map_of fns f of
         None \<Rightarrow> m = ''math'' \<and> f = ''tan''
       | Some sf \<Rightarrow> if t = TID_BOOL
           then sf_ret sf = TID_INT \<and> m = ''str'' \<and> List.member [''eq'', ''contains'', ''starts_with'', ''ends_with''] f
           else sf_ret sf = t))"

text \<open>C36. The types the checker gives to calls of the standard modules are those of the runtime functions the generator
  calls, but for five functions: truth values of \<open>str\<close> are 32-bit integers there, and \<open>math.tan\<close> is not in the table.\<close>

theorem standard_modules_agree:
  assumes "kStdlibRet m = Some rets" and "rets f = Some t"
  shows "modules_agree m f t"
  using assms unfolding kStdlibRet_def
  apply -
  apply (drule map_of_SomeD)
  apply (simp only: list.set insert_iff empty_iff prod.inject simp_thms)
  apply (elim disjE conjE)
  subgoal
    by (hypsubst, drule map_of_SomeD, simp only: list.set insert_iff empty_iff prod.inject simp_thms)
      (elim disjE conjE; hypsubst, (thin_tac "_ = _")+, code_simp)
  subgoal
    by (hypsubst, drule map_of_SomeD, simp only: list.set insert_iff empty_iff prod.inject simp_thms)
      (elim disjE conjE; hypsubst, (thin_tac "_ = _")+, code_simp)
  subgoal
    by (hypsubst, drule map_of_SomeD, simp only: list.set insert_iff empty_iff prod.inject simp_thms)
      ((thin_tac "_")+, code_simp)
  done

lemma standard_modules_agree_witness: "modules_agree ''str'' ''contains'' TID_BOOL \<and> modules_agree ''io'' ''readline'' TID_STR"
  using standard_modules_agree [of "''str''" "the (kStdlibRet ''str'')" "''contains''" TID_BOOL]
    standard_modules_agree [of "''io''" "the (kStdlibRet ''io'')" "''readline''" TID_STR]
  by (simp add: kStdlibRet_def)

section \<open>Jumps\<close>

text \<open>The instructions that release the strings in some variables.\<close>

fun releases :: "nat \<Rightarrow> nat \<Rightarrow> val list \<Rightarrow> (nat \<times> inst) list" where
  "releases f n [] = []"
| "releases f n (a # as) = (n, Load PtrTy a) # (n + 1, Call (FunVal f) [Instr n PtrTy]) # releases f (n + 2) as"

definition extended :: "nat \<Rightarrow> (nat \<times> inst) list \<Rightarrow> nat \<Rightarrow> cg \<Rightarrow> cg" where
  "extended b is n s = put_block b ((cg_blocks s ! b)\<lparr>bl_insts := bl_insts (cg_blocks s ! b) @ is\<rparr>) (s\<lparr>cg_next := n\<rparr>)"

lemma extended_extended:
  "b < length (cg_blocks s) \<Longrightarrow> extended b js m (extended b is n s) = extended b (is @ js) m s"
  by (simp add: extended_def put_block_def)

lemma extended_fields [simp]:
  "cg_insert (extended b is n s) = cg_insert s" "cg_funs (extended b is n s) = cg_funs s"
  "cg_next (extended b is n s) = n" "length (cg_blocks (extended b is n s)) = length (cg_blocks s)"
  by (simp_all add: extended_def put_block_def)

lemma emit_extended: "cg_insert s = Some b \<Longrightarrow> emit_inst i s = Returned (cg_next s) (extended b [(cg_next s, i)] (cg_next s + 1) s)"
  by (simp add: emit_inst_eq extended_def put_block_def)

lemma get_function_extended [simp]: "get_function x (extended b is n s) = get_function x s"
  by (simp add: get_function_def)

lemma release_slot_runs:
  assumes "cg_insert s = Some b" "b < length (cg_blocks s)" "get_function ''duxrt_str_release'' s = Some f"
  shows "release_slot a s = Returned () (extended b (releases f (cg_next s) [a]) (cg_next s + 2) s)"
  using assms
  by (simp add: release_slot_def emit_str_release_def call_rt_def get_or_declare_rt_def create_call_def create_call_ptr_def
    create_load_def run_bind run_then run_gets ret_apply emit_extended extended_extended cong: run_weak)

lemma release_slots_run:
  assumes "cg_insert s = Some b" "b < length (cg_blocks s)" "get_function ''duxrt_str_release'' s = Some f"
  shows "for_each release_slot as s = Returned () (extended b (releases f (cg_next s) as) (cg_next s + 2 * length as) s)"
  using assms
proof (induction as arbitrary: s)
  case Nil
  then show ?case by (simp add: ret_apply extended_def put_block_def)
next
  case (Cons a as)
  note run = release_slot_runs [OF Cons.prems, of a]
  have "for_each release_slot (a # as) s = for_each release_slot as (extended b (releases f (cg_next s) [a]) (cg_next s + 2) s)"
    by (simp only: for_each.simps run_then [where m = "release_slot a", OF run])
  also have "\<dots> = Returned () (extended b (releases f (cg_next s) [a] @ releases f (cg_next s + 2) as)
      (cg_next s + 2 + 2 * length as) s)"
    using Cons.prems by (subst Cons.IH) (simp_all add: extended_extended)
  finally show ?case by simp
qed


definition two_scopes :: cg where
  "two_scopes = start\<lparr>cg_funs := [\<lparr>fn_name = ''duxrt_str_release'', fn_ret = VoidTy, fn_params = [([], PtrTy)],
       fn_vararg = False, fn_personality = False\<rparr>],
     cg_blocks := [\<lparr>bl_fn = 0, bl_name = ''entry'', bl_insts = []\<rparr>], cg_insert := Some 0, cg_next := 10,
     cg_strs := [[Instr 2 PtrTy], [Instr 1 PtrTy]],
     cg_loops := [\<lparr>lc_header = Some 3, lc_exit = 4, lc_label = []\<rparr>]\<rparr>"


end
