(* ===== verification/Spec2Isabelle.thy ===== *)
theory Spec2Isabelle
  imports Type_Properties Scope_Properties Sema_Properties Sema_Rejects Printer_Properties
    Repl_Properties Clone_Properties Expand_Properties Pipeline_Properties
    Rt_Dict_Properties
    Rt_List_Properties
    Rt_Str_Properties
    Rt_Bytes_Properties
    Rt_Json_Properties
    Rt_Handshake_Properties
    Rt_WebSocket_Properties
    Rt_Channel_Properties
    Rt_Tasks_Properties
    Rt_Random_Properties
    Cg_Properties
begin

text \<open>
  A verification library for the Dux compiler and its runtime: what the program in \<^verbatim>\<open>src/src\<close> does between
  the parser and LLVM, and the library in C that compiled programs are linked with.

  \<^bold>\<open>The program.\<close> \<^verbatim>\<open>main.cpp\<close> reads the command line, has a file parsed into a tree
  (\<^verbatim>\<open>ast/ast.hpp\<close>), prepends the declarations of imported library modules, expands generic classes and
  functions (\<^verbatim>\<open>sema/generics.cpp\<close>), runs the semantic checker (\<^verbatim>\<open>sema/sema.cpp\<close>) over the result and
  goes on to code generation (\<^verbatim>\<open>codegen/codegen.cpp\<close>) when the checker counted no error. The checker keeps a table of types
  (\<^verbatim>\<open>sema/types.cpp\<close>) and a stack of scopes (\<^verbatim>\<open>sema/symbol.cpp\<close>), annotates every expression with a
  type and reports through the driver (\<^verbatim>\<open>driver/driver.cpp\<close>), which prints diagnostics and throws at
  the twentieth error. The tree can be printed (\<^verbatim>\<open>ast/printer.hpp\<close>), and a read-eval-print loop
  (\<^verbatim>\<open>repl/repl.cpp\<close>) accumulates lines and runs the compiler on them. A compiled program calls the runtime
  (\<^verbatim>\<open>runtime\<close>) for its dictionaries, lists, strings, byte buffers, JSON, random numbers, WebSockets,
  channels, thread pools and futures.

  \<^bold>\<open>How it is modelled.\<close> A member function that changes the state of its object is a \<open>prog\<close>
  (\<^verbatim>\<open>Dux_Prelude\<close>): a function from the state to an outcome, \<open>Returned\<close> with a value and the new state,
  \<open>Thrown\<close> for the exception of the driver, \<open>Looping\<close> for a loop of the source that never ends, and
  \<open>NullDeref\<close> for a null pointer that is followed. A loop without a bound in the code is \<open>iter_until\<close>
  (\<^verbatim>\<open>Loops\<close>), which is \<open>None\<close> when it does not end. Classes are records, node types are datatypes with
  the fields of the source, a null pointer in the tree is \<open>NoExpr\<close>, \<open>NoStmt\<close> or \<open>None\<close>, and literals are
  64-bit words. Identifiers of types are \<open>int\<close>; the table never reaches \<open>2^31\<close> entries in what is
  stated here, and no statement depends on overflow of line numbers and counters.

  An operation of the runtime is a function of the values it is given. It ends as a \<open>c_run\<close> (\<^verbatim>\<open>Rt_Outcome\<close>):
  \<open>Done\<close>, \<open>Abort\<close>, \<open>Raised\<close> for an exception of the language, and \<open>Wild\<close> for an access outside the object
  it is meant for, so that a result \<open>Done\<close> says that none happened. Structures are records with the
  contents of their buffers as lists; a null handle is \<open>None\<close>; arithmetic that may leave the 64 bits of the code is
  written with \<open>int64\<close> or on words. Code that runs in several threads is a step relation between states of
  the shared object and its threads: a critical section of the code, which holds the lock from its first access
  to its last, is one step, and a signal wakes any one of the threads that sleep on its variable.

  \<^bold>\<open>The theories.\<close>
  \<^item> \<^verbatim>\<open>Dux_Prelude\<close>, \<^verbatim>\<open>Loops\<close>: programs over a state, their frame rules (the locale \<open>frame_pair\<close>: a
    relation between the states before and after that holds of composed programs when it holds of
    their parts), loops that may not end, strings.
  \<^item> \<^verbatim>\<open>Ast\<close>, \<^verbatim>\<open>Ast_Shapes\<close>: the tree, and which trees a parser builds (\<open>wf_program\<close>).
  \<^item> \<^verbatim>\<open>Driver\<close>: \<open>Driver\<close>'s diagnostics and locations.
  \<^item> \<^verbatim>\<open>Type_Registry\<close>, \<^verbatim>\<open>Type_Lemmas\<close>, \<^verbatim>\<open>Subtyping\<close>, \<^verbatim>\<open>Type_Properties\<close>: \<open>TypeRegistry\<close>; its invariant, the
    subtype walk as reachability, \<open>assignable\<close>, \<open>unify\<close> and \<open>satisfies\<close>.
  \<^item> \<^verbatim>\<open>Symbols\<close>, \<^verbatim>\<open>Scope_Properties\<close>: \<open>Scope\<close> and \<open>ScopeStack\<close>, refined to a list of partial maps.
  \<^item> \<^verbatim>\<open>Sema_State\<close>, \<^verbatim>\<open>Sema_Rules\<close>, \<^verbatim>\<open>Sema_Check\<close>, \<^verbatim>\<open>Sema_Decl\<close>: the members of \<open>Sema\<close>, the rules for one node,
    the recursion over expressions and statements, and hoisting, declarations and \<open>run\<close>.
  \<^item> \<^verbatim>\<open>Sema_Frames\<close>, \<^verbatim>\<open>Sema_Effects\<close>, \<^verbatim>\<open>Decl_Frames\<close>: instances of the frame rules for the checker: what
    it keeps of scopes, flags, types and diagnostics.
  \<^item> \<^verbatim>\<open>Sema_Sound\<close>, \<^verbatim>\<open>Sema_Total\<close>, \<^verbatim>\<open>Sema_Typed\<close>: the rules for \<open>sound J\<close>: from a state with \<open>J\<close> a check
    returns or throws, keeps \<open>J\<close> and returns valid annotations (the locale \<open>check_sound\<close>).
  \<^item> \<^verbatim>\<open>Sema_Shape\<close>, \<^verbatim>\<open>Sema_Properties\<close>, \<^verbatim>\<open>Sema_Rejects\<close>: only annotations change; totality, scoping and
    the verdict; which programs are rejected.
  \<^item> \<^verbatim>\<open>Generics\<close>, \<^verbatim>\<open>Expand\<close>, \<^verbatim>\<open>Clone_Properties\<close>, \<^verbatim>\<open>Expand_Properties\<close>: mangling, substitution, cloning,
    the walk \<open>fix_*\<close> and the work list; the walk as a pure rewriting, completeness and termination.
  \<^item> \<^verbatim>\<open>Printer\<close>, \<^verbatim>\<open>Printer_Properties\<close>: \<open>ASTPrinter\<close>.
  \<^item> \<^verbatim>\<open>Repl\<close>, \<^verbatim>\<open>Repl_Properties\<close>: the loop; compiler, program and file system are a parameter.
  \<^item> \<^verbatim>\<open>Pipeline\<close>, \<^verbatim>\<open>Pipeline_Properties\<close>: options, modules and the sequence of \<open>main\<close>.
  \<^item> \<^verbatim>\<open>Rt_Dict\<close>, \<^verbatim>\<open>Rt_Dict_Properties\<close> (\<^verbatim>\<open>runtime/dict.c\<close>): the hash table, its probe sequences and their invariant,
    and the refinement to a finite map.
  \<^item> \<^verbatim>\<open>Rt_List\<close>, \<^verbatim>\<open>Rt_List_Properties\<close> (\<^verbatim>\<open>list.c\<close>, \<^verbatim>\<open>range.c\<close>, integers of \<^verbatim>\<open>math_rt.c\<close>) and \<^verbatim>\<open>Rt_Str\<close>,
    \<^verbatim>\<open>Rt_Str_Properties\<close> (\<^verbatim>\<open>str.c\<close>): lists and strings as sequences, searching, splitting, numbers.
  \<^item> \<^verbatim>\<open>Rt_Bytes\<close>, \<^verbatim>\<open>Rt_Json\<close>, \<^verbatim>\<open>Rt_Random\<close> with their properties (\<^verbatim>\<open>bytes_rt.c\<close>, \<^verbatim>\<open>json_rt.c\<close>,
    \<^verbatim>\<open>random_rt.c\<close>): typed access, reading and writing of objects, random integers and shuffles.
  \<^item> \<^verbatim>\<open>Rt_Handshake\<close>, \<^verbatim>\<open>Rt_WebSocket\<close> with their properties (\<^verbatim>\<open>ws_rt.c\<close>): Base64 and SHA-1 against their
    definitions, the frames against a machine on messages. What the peer sends is a list of chunks, the
    results of \<open>send\<close> are a list, the masking key and the allocator (\<open>mem\<close>) are parameters.
  \<^item> \<^verbatim>\<open>Rt_Channel\<close>, \<^verbatim>\<open>Rt_Channel_Properties\<close> (\<^verbatim>\<open>achan_rt.c\<close>, channels of \<^verbatim>\<open>thread_rt.c\<close>): what channels promise is
    the locale \<open>channel\<close>, with ring buffers and linked queues as its interpretations.
  \<^item> \<^verbatim>\<open>Rt_Tasks\<close>, \<^verbatim>\<open>Rt_Tasks_Properties\<close> (\<^verbatim>\<open>pool_rt.c\<close>, \<^verbatim>\<open>future_rt.c\<close>): the pool and the futures.

  \<^item> \<^verbatim>\<open>Cg_Ir\<close>, \<^verbatim>\<open>Cg_Scope\<close>, \<^verbatim>\<open>Cg_Call\<close>, \<^verbatim>\<open>Cg_Expr\<close>, \<^verbatim>\<open>Cg_Stmt\<close>, \<^verbatim>\<open>Cg_Flow\<close>, \<^verbatim>\<open>Cg_Layout\<close>, \<^verbatim>\<open>Cg_Program\<close>
    (\<^verbatim>\<open>codegen/codegen.cpp\<close>): the members of \<open>Codegen\<close> and the module it makes, scopes and cleanups, expressions,
    statements, layouts and declarations, functions, classes and \<open>run\<close>. The calls of the LLVM builder append instructions
    to a record of the module; constant folding, sizes of types, the optimiser and the verifier are parameters.
  \<^item> \<^verbatim>\<open>Cg_Blocks\<close>, \<^verbatim>\<open>Cg_Blocks_Expr\<close>, \<^verbatim>\<open>Cg_Blocks_Gen\<close>, \<^verbatim>\<open>Cg_Blocks_Stmt\<close>, \<^verbatim>\<open>Cg_Module\<close>: a calculus of weakest
    preconditions for the open basic blocks, from single instructions to the module (an interpretation of
    \<open>frame_pair\<close>). \<^verbatim>\<open>Cg_Properties\<close>: what is generated is well formed, objects extend those of the parent class, the tables of standard
    functions agree with the checker, \<open>break\<close> and the releases of strings, deferred blocks.

  \<^bold>\<open>Bounds.\<close> The walks over the type table are decided by \<open>iter_fuel\<close> with as many rounds as there are
  types, which is enough because the states of the walk are type identifiers (\<open>iter_until_fuel\<close>).
  Loading modules takes as fuel the number of modules that load (\<open>merge_enough_fuel\<close>). The work list
  of the expansion has no bound in the code: it ends when finitely many instances are wanted. The
  padding of SHA-1 runs for at most 64 rounds, one more than a block of 64 bytes can need. The recursion of the code generator is cut at a depth
  (\<open>gens_at\<close>) and what reaches it is \<open>Looping\<close>; it has no bound in the code, because cleanups generate deferred blocks
  again (\<open>deferred_return_hangs\<close>). The search loops of the hash
  table are \<open>iter_until\<close>, and end because a slot is always free (\<open>dictionary_load\<close>).

  \<^bold>\<open>Not modelled.\<close> The scanner and the grammar are inputs of generators. Of the code generator, the names of
  values, debug information and the output of \<^verbatim>\<open>emit_ir\<close> and \<^verbatim>\<open>emit_object\<close> are left out, and what LLVM does with the module. Finding files, linking and the line editor of the loop are left out. Of the runtime, what only calls
  the C library, POSIX or OpenSSL is left out: floating-point functions, files, processes, clocks,
  signals, regular expressions, sockets and TLS. Allocation is taken to succeed, except where the
  size comes from a peer (\<open>mem\<close>). A thread that sleeps in \<open>await\<close> is taken not to wake without a signal. The order in which
  an \<open>unordered_map\<close> is visited (promotion of the members of a namespace) is taken to be that of declaration.
\<close>

end
